(* ===== verification/Prelude.thy ===== *)
theory Prelude
  imports Main "HOL-Library.State_Monad" "HOL-Library.Word" "HOL-Library.List_Lexorder"
    "HOL-Library.Char_ord"
begin

text \<open>
  Shared vocabulary of the development.

  Go code that talks to the outside world (the Kubernetes API, the clock, a random
  source) is a value of the library type \<open>('s, 'a) state\<close>: a function from the state of
  the world \<open>'s\<close> to a result and the next state.  The type \<open>'s\<close> stays abstract, so a
  statement about an operation holds for every world.  Go's \<open>error\<close> results are values
  of type \<open>goerr\<close>; a function that returns \<open>(T, error)\<close> returns \<open>goerr + T\<close>.

  The theory also holds the small program logic the components use: \<open>hoare P m Q\<close> is
  the usual triple and \<open>leaves I m\<close> says that \<open>m\<close> keeps the state predicate \<open>I\<close>.  The
  rules are collected in \<open>hoare_rules\<close> and \<open>leaves_rules\<close>, one rule per construct of the
  do-blocks (return, bind, if, case on a sum or an option, let), so that a proof about a
  handler applies the collection and is left with the calls the handler makes.
\<close>

named_theorems hoare_rules \<open>rules of the Hoare triple, one per construct\<close>
named_theorems leaves_rules \<open>rules for state predicates kept by an operation\<close>

section \<open>Errors\<close>

datatype api_reason = NotFound | AlreadyExists | ConflictReason | OtherReason string

text \<open>
  An error is an API status, a sentinel made by \<open>errors.New\<close>, or the result of
  \<open>fmt.Errorf\<close>: the format string, its \<open>%q/%s/%d\<close> arguments as text and the errors it
  wraps with \<open>%w\<close>.
\<close>

datatype goerr = ApiError api_reason | Sentinel string | Errorf string "string list" "goerr list"

fun hasReason :: "api_reason \<Rightarrow> goerr \<Rightarrow> bool" where
  "hasReason r (ApiError r') = (r = r')"
| "hasReason r (Sentinel _) = False"
| "hasReason r (Errorf _ _ es) = (\<exists>e\<in>set es. hasReason r e)"

abbreviation isNotFound :: "goerr \<Rightarrow> bool" where
  "isNotFound \<equiv> hasReason NotFound"

abbreviation isAlreadyExists :: "goerr \<Rightarrow> bool" where
  "isAlreadyExists \<equiv> hasReason AlreadyExists"

abbreviation isConflict :: "goerr \<Rightarrow> bool" where
  "isConflict \<equiv> hasReason ConflictReason"

text \<open>\<open>errors.Is(e, target)\<close> for a sentinel target: the chain of wrapped errors is searched.\<close>

fun errorsIs :: "goerr \<Rightarrow> string \<Rightarrow> bool" where
  "errorsIs (ApiError _) t = False"
| "errorsIs (Sentinel n) t = (n = t)"
| "errorsIs (Errorf _ _ es) t = (\<exists>e\<in>set es. errorsIs e t)"

section \<open>Durations and integers\<close>

text \<open>
  \<open>time.Duration\<close> and \<open>time.Time\<close> are counted in nanoseconds as \<open>int\<close>; \<open>int32\<close> fields
  of API objects are \<open>32 word\<close> values read with \<open>sint\<close>.  Go's integer division
  truncates towards zero.
\<close>

type_synonym int32 = "32 word"
type_synonym uint64 = "64 word"

definition second :: int where "second = 1000000000"

abbreviation minute :: int where "minute \<equiv> 60 * second"

abbreviation hour :: int where "hour \<equiv> 3600 * second"

definition quot :: "int \<Rightarrow> int \<Rightarrow> int" where
  "quot a b = sgn a * sgn b * (\<bar>a\<bar> div \<bar>b\<bar>)"

lemma quot_nonneg [simp]: "0 \<le> a \<Longrightarrow> 0 < b \<Longrightarrow> quot a b = a div b"
  by (auto simp: quot_def sgn_if)

section \<open>Operations on the world\<close>

abbreviation return :: "'a \<Rightarrow> ('s, 'a) state" where
  "return \<equiv> State_Monad.return"

abbreviation result_of :: "('s, 'a) state \<Rightarrow> 's \<Rightarrow> 'a" where
  "result_of m s \<equiv> fst (run_state m s)"

abbreviation state_after :: "('s, 'a) state \<Rightarrow> 's \<Rightarrow> 's" where
  "state_after m s \<equiv> snd (run_state m s)"

definition hoare :: "('s \<Rightarrow> bool) \<Rightarrow> ('s, 'a) state \<Rightarrow> ('a \<Rightarrow> 's \<Rightarrow> bool) \<Rightarrow> bool" where
  "hoare P m Q \<longleftrightarrow> (\<forall>s. P s \<longrightarrow> Q (result_of m s) (state_after m s))"

definition leaves :: "('s \<Rightarrow> bool) \<Rightarrow> ('s, 'a) state \<Rightarrow> bool" where
  "leaves I m \<longleftrightarrow> (\<forall>s. I s \<longrightarrow> I (state_after m s))"

lemma hoareI: "(\<And>s. P s \<Longrightarrow> Q (result_of m s) (state_after m s)) \<Longrightarrow> hoare P m Q"
  by (simp add: hoare_def)

lemma hoareD: "hoare P m Q \<Longrightarrow> P s \<Longrightarrow> Q (result_of m s) (state_after m s)"
  by (simp add: hoare_def)

lemma hoare_run: "hoare P m Q \<Longrightarrow> P s \<Longrightarrow> run_state m s = (a, t) \<Longrightarrow> Q a t"
  by (auto simp: hoare_def dest!: spec [of _ s])

lemma hoare_return [hoare_rules]: "(\<And>s. P s \<Longrightarrow> Q a s) \<Longrightarrow> hoare P (return a) Q"
  by (simp add: hoare_def)

lemma hoare_bind [hoare_rules]:
  "hoare P m R \<Longrightarrow> (\<And>a. hoare (R a) (f a) Q) \<Longrightarrow> hoare P (State_Monad.bind m f) Q"
  by (fastforce simp: hoare_def split: prod.splits)

lemma hoare_if [hoare_rules]:
  "(b \<Longrightarrow> hoare P m Q) \<Longrightarrow> (\<not> b \<Longrightarrow> hoare P n Q) \<Longrightarrow> hoare P (if b then m else n) Q"
  by simp

lemma hoare_sum [hoare_rules]:
  "(\<And>a. x = Inl a \<Longrightarrow> hoare P (f a) Q) \<Longrightarrow> (\<And>b. x = Inr b \<Longrightarrow> hoare P (g b) Q) \<Longrightarrow>
   hoare P (case x of Inl a \<Rightarrow> f a | Inr b \<Rightarrow> g b) Q"
  by (cases x) simp_all

lemma hoare_option [hoare_rules]:
  "(x = None \<Longrightarrow> hoare P n Q) \<Longrightarrow> (\<And>a. x = Some a \<Longrightarrow> hoare P (f a) Q) \<Longrightarrow>
   hoare P (case x of None \<Rightarrow> n | Some a \<Rightarrow> f a) Q"
  by (cases x) simp_all

lemma hoare_prod [hoare_rules]:
  "(\<And>a b. x = (a, b) \<Longrightarrow> hoare P (f a b) Q) \<Longrightarrow> hoare P (case x of (a, b) \<Rightarrow> f a b) Q"
  by (cases x) simp

lemma hoare_let [hoare_rules]: "(\<And>x. x = v \<Longrightarrow> hoare P (f x) Q) \<Longrightarrow> hoare P (let x = v in f x) Q"
  by simp

lemma hoare_weaken:
  "hoare P' m Q' \<Longrightarrow> (\<And>s. P s \<Longrightarrow> P' s) \<Longrightarrow> (\<And>a s. Q' a s \<Longrightarrow> Q a s) \<Longrightarrow> hoare P m Q"
  by (simp add: hoare_def)

lemma leavesI: "(\<And>s. I s \<Longrightarrow> I (state_after m s)) \<Longrightarrow> leaves I m"
  by (simp add: leaves_def)

lemma leavesD: "leaves I m \<Longrightarrow> I s \<Longrightarrow> I (state_after m s)"
  by (simp add: leaves_def)

lemma leaves_run: "leaves I m \<Longrightarrow> I s \<Longrightarrow> run_state m s = (a, t) \<Longrightarrow> I t"
  by (auto simp: leaves_def dest!: spec [of _ s])

lemma leaves_hoare: "leaves I m \<longleftrightarrow> hoare I m (\<lambda>_. I)"
  by (simp add: leaves_def hoare_def)

lemma leaves_return [leaves_rules]: "leaves I (return a)"
  by (simp add: leaves_def)

lemma leaves_bind [leaves_rules]:
  "leaves I m \<Longrightarrow> (\<And>a. leaves I (f a)) \<Longrightarrow> leaves I (State_Monad.bind m f)"
  by (fastforce simp: leaves_def split: prod.splits)

lemma leaves_if [leaves_rules]:
  "(b \<Longrightarrow> leaves I m) \<Longrightarrow> (\<not> b \<Longrightarrow> leaves I n) \<Longrightarrow> leaves I (if b then m else n)"
  by simp

lemma leaves_sum [leaves_rules]:
  "(\<And>a. x = Inl a \<Longrightarrow> leaves I (f a)) \<Longrightarrow> (\<And>b. x = Inr b \<Longrightarrow> leaves I (g b)) \<Longrightarrow>
   leaves I (case x of Inl a \<Rightarrow> f a | Inr b \<Rightarrow> g b)"
  by (cases x) simp_all

lemma leaves_option [leaves_rules]:
  "(x = None \<Longrightarrow> leaves I n) \<Longrightarrow> (\<And>a. x = Some a \<Longrightarrow> leaves I (f a)) \<Longrightarrow>
   leaves I (case x of None \<Rightarrow> n | Some a \<Rightarrow> f a)"
  by (cases x) simp_all

lemma leaves_prod [leaves_rules]:
  "(\<And>a b. x = (a, b) \<Longrightarrow> leaves I (f a b)) \<Longrightarrow> leaves I (case x of (a, b) \<Rightarrow> f a b)"
  by (cases x) simp

lemma leaves_let [leaves_rules]: "(\<And>x. x = v \<Longrightarrow> leaves I (f x)) \<Longrightarrow> leaves I (let x = v in f x)"
  by simp

lemma bind_keeps:
  "I (state_after m s) \<Longrightarrow> (\<And>a. leaves I (f a)) \<Longrightarrow> I (state_after (State_Monad.bind m f) s)"
  by (auto simp: leaves_def split: prod.splits)

lemma bind_keeps_run:
  "run_state m s = (a, t) \<Longrightarrow> I (state_after (f a) t) \<Longrightarrow> I (state_after (State_Monad.bind m f) s)"
  by simp

section \<open>Lists and strings\<close>

text \<open>
  \<open>sort.Slice\<close> by name: an insertion-stable sort by a key.  Kubernetes names are unique
  within the lists the code sorts, so the (unspecified) order of equal keys never shows.
\<close>

definition sort_by :: "('a \<Rightarrow> string) \<Rightarrow> 'a list \<Rightarrow> 'a list" where
  "sort_by f xs = sort_key f xs"

lemma sort_by_set [simp]: "set (sort_by f xs) = set xs"
  by (simp add: sort_by_def)

lemma sort_by_length [simp]: "length (sort_by f xs) = length xs"
  by (simp add: sort_by_def)

lemma sort_by_sorted: "sorted (map f (sort_by f xs))"
  by (simp add: sort_by_def)

lemma sort_by_Nil [simp]: "sort_by f [] = []"
  by (simp add: sort_by_def)

text \<open>Decimal rendering (\<open>%d\<close>, \<open>strconv.Itoa\<close>).\<close>

definition digit_char :: "nat \<Rightarrow> char" where
  "digit_char n = char_of (48 + n)"

fun natstr :: "nat \<Rightarrow> string" where
  "natstr n = (if n < 10 then [digit_char n] else natstr (n div 10) @ [digit_char (n mod 10)])"

declare natstr.simps [simp del]

definition itoa :: "int \<Rightarrow> string" where
  "itoa i = (if i < 0 then CHR ''-'' # natstr (nat (- i)) else natstr (nat i))"

text \<open>\<open>net.JoinHostPort\<close>: an IPv6 literal is put in brackets.\<close>

definition joinHostPort :: "string \<Rightarrow> string \<Rightarrow> string" where
  "joinHostPort host port =
     (if CHR '':'' \<in> set host then ''['' @ host @ '']:'' @ port else host @ '':'' @ port)"

text \<open>\<open>strings.TrimSpace\<close> on ASCII text.\<close>

definition isSpace :: "char \<Rightarrow> bool" where
  "isSpace c \<longleftrightarrow> c \<in> {CHR '' '', CHR 0x09, CHR 0x0A, CHR 0x0B, CHR 0x0C, CHR 0x0D}"

definition trimSpace :: "string \<Rightarrow> string" where
  "trimSpace s = rev (dropWhile isSpace (rev (dropWhile isSpace s)))"

end
