(* ===== verification/Kube.thy ===== *)
theory Kube
  imports Prelude
begin

text \<open>
  The Kubernetes API as the program sees it: object metadata, the object kinds of the
  core API groups the program writes, and the client.  The API server and the
  apimachinery helper functions live outside the repository, so they are parameters:
  a \<open>kclient\<close> is a record of the client's calls on one kind, \<open>apimachinery\<close> a record of
  the helper functions.  What the program relies on is stated as predicates:
  \<open>cas_store\<close> (reads return what is stored, a create needs a free name, an update
  needs the stored resource version) and \<open>apimachinery_ok\<close>.  An in-memory store and
  a concrete helper record satisfy them; they are used by the witnesses.
\<close>

section \<open>Object metadata\<close>

type_synonym labels = "string \<rightharpoonup> string"
type_synonym ObjectKey = "string \<times> string"

record OwnerReference =
  or_Kind :: string
  or_Name :: string
  or_UID :: string
  or_Controller :: bool

record ObjectMeta =
  om_Name :: string
  om_Namespace :: string
  om_UID :: string
  om_ResourceVersion :: string
  om_CreationTimestamp :: int
  om_DeletionTimestamp :: "int option"
  om_Labels :: labels
  om_Annotations :: labels
  om_Finalizers :: "string list"
  om_OwnerReferences :: "OwnerReference list"

definition objectMeta :: "string \<Rightarrow> string \<Rightarrow> ObjectMeta" where
  "objectMeta ns n = \<lparr>om_Name = n, om_Namespace = ns, om_UID = '''', om_ResourceVersion = '''',
     om_CreationTimestamp = 0, om_DeletionTimestamp = None, om_Labels = Map.empty,
     om_Annotations = Map.empty, om_Finalizers = [], om_OwnerReferences = []\<rparr>"

text \<open>The key \<open>client.ObjectKey\<close>: namespace first, then name.\<close>

definition keyOf :: "ObjectMeta \<Rightarrow> ObjectKey" where
  "keyOf m = (om_Namespace m, om_Name m)"

text \<open>\<open>DeletionTimestamp.IsZero()\<close>: a nil pointer and the zero time both count.\<close>

definition deletionIsZero :: "ObjectMeta \<Rightarrow> bool" where
  "deletionIsZero m = (case om_DeletionTimestamp m of None \<Rightarrow> True | Some t \<Rightarrow> t = 0)"

lemma keyOf_objectMeta [simp]: "keyOf (objectMeta ns n) = (ns, n)"
  by (simp add: keyOf_def objectMeta_def)

section \<open>Conditions\<close>

datatype ConditionStatus = ConditionTrue | ConditionFalse | ConditionUnknown

record Condition =
  cond_Type :: string
  cond_Status :: ConditionStatus
  cond_Reason :: string
  cond_Message :: string

section \<open>Core objects\<close>

record Namespace =
  ns_meta :: ObjectMeta

record Secret =
  sec_meta :: ObjectMeta
  sec_Type :: string
  sec_Data :: labels
  sec_StringData :: labels

record Lease =
  lease_meta :: ObjectMeta
  lease_HolderIdentity :: "string option"
  lease_LeaseDurationSeconds :: "int32 option"
  lease_AcquireTime :: "int option"
  lease_RenewTime :: "int option"
  lease_LeaseTransitions :: "int32 option"

definition namespaceObj :: "string \<Rightarrow> Namespace" where
  "namespaceObj n = \<lparr>ns_meta = objectMeta '''' n\<rparr>"

section \<open>The client\<close>

text \<open>
  The calls of \<open>client.Client\<close> on one kind of object.  A successful write returns the
  object as the server stored it, which is what the Go client writes back into its
  argument.  \<open>klist\<close> takes the namespace (\<open>None\<close>: every namespace) and the label
  selector.
\<close>

record ('s, 'o) kclient =
  kget :: "ObjectKey \<Rightarrow> ('s, goerr + 'o) state"
  klist :: "string option \<Rightarrow> (labels \<Rightarrow> bool) \<Rightarrow> ('s, goerr + 'o list) state"
  kcreate :: "'o \<Rightarrow> ('s, goerr + 'o) state"
  kupdate :: "'o \<Rightarrow> ('s, goerr + 'o) state"
  kupdateStatus :: "'o \<Rightarrow> ('s, goerr + 'o) state"
  kdelete :: "'o \<Rightarrow> ('s, goerr option) state"

text \<open>A client whose every call fails: the starting point of the concrete worlds used by witnesses.\<close>

definition unavailable :: goerr where
  "unavailable = ApiError (OtherReason ''ServiceUnavailable'')"

definition down_kclient :: "('s, 'o) kclient" where
  "down_kclient = \<lparr>kget = (\<lambda>_. return (Inl unavailable)), klist = (\<lambda>_ _. return (Inl unavailable)),
     kcreate = (\<lambda>_. return (Inl unavailable)), kupdate = (\<lambda>_. return (Inl unavailable)),
     kupdateStatus = (\<lambda>_. return (Inl unavailable)), kdelete = (\<lambda>_. return (Some unavailable))\<rparr>"

text \<open>\<open>client.MatchingLabels\<close> with one pair.\<close>

definition matchingLabel :: "string \<Rightarrow> string \<Rightarrow> labels \<Rightarrow> bool" where
  "matchingLabel k v ls \<longleftrightarrow> ls k = Some v"

text \<open>
  What the program relies on: the API server's optimistic concurrency.  \<open>view s k\<close> is
  the object the server holds in state \<open>s\<close> and \<open>body\<close> its content without the
  metadata the server assigns.
  \<^item> a read returns the stored object, \<open>NotFound\<close> means that there is none, and a read
    does not change what is stored;
  \<^item> a create takes effect only if the name is free, an update only if the stored object
    has the same resource version; both store the given content under its key;
  \<^item> a write refused with \<open>AlreadyExists\<close> or \<open>Conflict\<close> stores nothing; after any other
    error it may have taken effect or not (the answer can be lost on the way back).
\<close>

definition stored_as :: "('o \<Rightarrow> ObjectMeta) \<Rightarrow> ('o \<Rightarrow> 'b) \<Rightarrow> 'o \<Rightarrow> 'o \<Rightarrow> bool" where
  "stored_as meta body x y \<longleftrightarrow> body y = body x \<and> keyOf (meta y) = keyOf (meta x)"

definition create_takes :: "('o \<Rightarrow> ObjectMeta) \<Rightarrow> ('o \<Rightarrow> 'b) \<Rightarrow> (ObjectKey \<rightharpoonup> 'o) \<Rightarrow> 'o \<Rightarrow> 'o \<Rightarrow>
    (ObjectKey \<rightharpoonup> 'o) \<Rightarrow> bool" where
  "create_takes meta body v x y v' \<longleftrightarrow> v (keyOf (meta x)) = None \<and> stored_as meta body x y \<and>
     v' = v(keyOf (meta x) \<mapsto> y)"

definition update_takes :: "('o \<Rightarrow> ObjectMeta) \<Rightarrow> ('o \<Rightarrow> 'b) \<Rightarrow> (ObjectKey \<rightharpoonup> 'o) \<Rightarrow> 'o \<Rightarrow> 'o \<Rightarrow>
    (ObjectKey \<rightharpoonup> 'o) \<Rightarrow> bool" where
  "update_takes meta body v x y v' \<longleftrightarrow>
     (\<exists>z. v (keyOf (meta x)) = Some z \<and> om_ResourceVersion (meta z) = om_ResourceVersion (meta x)) \<and>
     stored_as meta body x y \<and> v' = v(keyOf (meta x) \<mapsto> y)"

definition cas_store ::
  "('s, 'o) kclient \<Rightarrow> ('o \<Rightarrow> ObjectMeta) \<Rightarrow> ('o \<Rightarrow> 'b) \<Rightarrow> ('s \<Rightarrow> ObjectKey \<rightharpoonup> 'o) \<Rightarrow> bool" where
  "cas_store c meta body view \<longleftrightarrow>
     (\<forall>k s. view (state_after (kget c k) s) = view s \<and>
        (\<forall>x. result_of (kget c k) s = Inr x \<longrightarrow> view s k = Some x) \<and>
        (\<forall>e. result_of (kget c k) s = Inl e \<and> isNotFound e \<longrightarrow> view s k = None)) \<and>
     (\<forall>x s. case result_of (kcreate c x) s of
          Inr y \<Rightarrow> create_takes meta body (view s) x y (view (state_after (kcreate c x) s))
        | Inl e \<Rightarrow> view (state_after (kcreate c x) s) = view s \<or> \<not> isAlreadyExists e \<and>
            (\<exists>y. create_takes meta body (view s) x y (view (state_after (kcreate c x) s)))) \<and>
     (\<forall>x s. case result_of (kupdate c x) s of
          Inr y \<Rightarrow> update_takes meta body (view s) x y (view (state_after (kupdate c x) s))
        | Inl e \<Rightarrow> view (state_after (kupdate c x) s) = view s \<or> \<not> isConflict e \<and>
            (\<exists>y. update_takes meta body (view s) x y (view (state_after (kupdate c x) s))))"

lemma cas_store_get:
  assumes "cas_store c meta body view"
  shows "view (state_after (kget c k) s) = view s"
    and "result_of (kget c k) s = Inr x \<Longrightarrow> view s k = Some x"
    and "result_of (kget c k) s = Inl e \<Longrightarrow> isNotFound e \<Longrightarrow> view s k = None"
  using assms unfolding cas_store_def by blast+

lemma cas_store_create_cases:
  assumes "cas_store c meta body view"
  shows "case result_of (kcreate c x) s of
          Inr y \<Rightarrow> create_takes meta body (view s) x y (view (state_after (kcreate c x) s))
        | Inl e \<Rightarrow> view (state_after (kcreate c x) s) = view s \<or> \<not> isAlreadyExists e \<and>
            (\<exists>y. create_takes meta body (view s) x y (view (state_after (kcreate c x) s)))"
  using assms unfolding cas_store_def by blast

lemma cas_store_update_cases:
  assumes "cas_store c meta body view"
  shows "case result_of (kupdate c x) s of
          Inr y \<Rightarrow> update_takes meta body (view s) x y (view (state_after (kupdate c x) s))
        | Inl e \<Rightarrow> view (state_after (kupdate c x) s) = view s \<or> \<not> isConflict e \<and>
            (\<exists>y. update_takes meta body (view s) x y (view (state_after (kupdate c x) s)))"
  using assms unfolding cas_store_def by blast

lemma cas_store_create:
  assumes "cas_store c meta body view"
  shows "result_of (kcreate c x) s = Inr y \<Longrightarrow> view s (keyOf (meta x)) = None"
    and "result_of (kcreate c x) s = Inr y \<Longrightarrow> body y = body x"
    and "result_of (kcreate c x) s = Inr y \<Longrightarrow>
          view (state_after (kcreate c x) s) = (view s)(keyOf (meta x) \<mapsto> y)"
    and "result_of (kcreate c x) s = Inl e \<Longrightarrow> isAlreadyExists e \<Longrightarrow>
          view (state_after (kcreate c x) s) = view s"
  using cas_store_create_cases [OF assms, of x s] by (simp_all add: create_takes_def stored_as_def)

lemma cas_store_update:
  assumes "cas_store c meta body view"
  shows "result_of (kupdate c x) s = Inr y \<Longrightarrow> \<exists>z. view s (keyOf (meta x)) = Some z \<and>
          om_ResourceVersion (meta z) = om_ResourceVersion (meta x)"
    and "result_of (kupdate c x) s = Inr y \<Longrightarrow> body y = body x"
    and "result_of (kupdate c x) s = Inr y \<Longrightarrow> keyOf (meta y) = keyOf (meta x)"
    and "result_of (kupdate c x) s = Inr y \<Longrightarrow>
          view (state_after (kupdate c x) s) = (view s)(keyOf (meta x) \<mapsto> y)"
    and "result_of (kupdate c x) s = Inl e \<Longrightarrow> isConflict e \<Longrightarrow>
          view (state_after (kupdate c x) s) = view s"
  using cas_store_update_cases [OF assms, of x s] by (simp_all add: update_takes_def stored_as_def)

text \<open>Whatever an update answers, it changes at most the object under its own key.\<close>

lemma cas_store_update_frame:
  assumes "cas_store c meta body view" and "k \<noteq> keyOf (meta x)"
  shows "view (state_after (kupdate c x) s) k = view s k"
  using cas_store_update_cases [OF assms(1), of x s] assms(2)
  by (auto simp: update_takes_def split: sum.splits)

text \<open>
  A call is quiet for a view of the state when it does not change the view; a list call
  returns stored objects that match, each once; a client keeps the identity of the
  objects it reads and writes.
\<close>

definition quiet :: "('s \<Rightarrow> 'v) \<Rightarrow> ('s, 'a) state \<Rightarrow> bool" where
  "quiet view m \<longleftrightarrow> (\<forall>s. view (state_after m s) = view s)"

definition lists_stored :: "('s, 'o) kclient \<Rightarrow> ('o \<Rightarrow> ObjectMeta) \<Rightarrow> ('s \<Rightarrow> ObjectKey \<rightharpoonup> 'o) \<Rightarrow> bool" where
  "lists_stored c meta view \<longleftrightarrow> (\<forall>ns p s xs. result_of (klist c ns p) s = Inr xs \<longrightarrow>
     distinct (map (keyOf \<circ> meta) xs) \<and>
     (\<forall>x\<in>set xs. view s (keyOf (meta x)) = Some x \<and> p (om_Labels (meta x))))"

definition keeps_identity :: "('s, 'o) kclient \<Rightarrow> ('o \<Rightarrow> ObjectMeta) \<Rightarrow> bool" where
  "keeps_identity c meta \<longleftrightarrow>
     (\<forall>k s x. result_of (kget c k) s = Inr x \<longrightarrow> keyOf (meta x) = k) \<and>
     (\<forall>x s y. result_of (kupdate c x) s = Inr y \<longrightarrow> keyOf (meta y) = keyOf (meta x))"

lemma quiet_leaves: "quiet view m \<Longrightarrow> leaves (\<lambda>s. P (view s)) m"
  by (simp add: quiet_def leaves_def)

lemma quiet_iff: "quiet view m \<longleftrightarrow> (\<forall>v. leaves (\<lambda>s. view s = v) m)"
  by (auto simp: quiet_def leaves_def)

text \<open>The same for every call of a client, and calls that never turn the clock back.\<close>

definition kclient_quiet :: "('s \<Rightarrow> 'v) \<Rightarrow> ('s, 'o) kclient \<Rightarrow> bool" where
  "kclient_quiet view c \<longleftrightarrow> (\<forall>k. quiet view (kget c k)) \<and> (\<forall>ns p. quiet view (klist c ns p)) \<and>
     (\<forall>x. quiet view (kcreate c x)) \<and> (\<forall>x. quiet view (kupdate c x)) \<and>
     (\<forall>x. quiet view (kupdateStatus c x)) \<and> (\<forall>x. quiet view (kdelete c x))"

definition clock_mono :: "('s \<Rightarrow> int) \<Rightarrow> ('s, 'a) state \<Rightarrow> bool" where
  "clock_mono clk m \<longleftrightarrow> (\<forall>s. clk s \<le> clk (state_after m s))"

definition kclient_mono :: "('s \<Rightarrow> int) \<Rightarrow> ('s, 'o) kclient \<Rightarrow> bool" where
  "kclient_mono clk c \<longleftrightarrow> (\<forall>k. clock_mono clk (kget c k)) \<and> (\<forall>ns p. clock_mono clk (klist c ns p)) \<and>
     (\<forall>x. clock_mono clk (kcreate c x)) \<and> (\<forall>x. clock_mono clk (kupdate c x)) \<and>
     (\<forall>x. clock_mono clk (kupdateStatus c x)) \<and> (\<forall>x. clock_mono clk (kdelete c x))"

lemma quiet_run: "quiet view m \<Longrightarrow> run_state m s = (a, t) \<Longrightarrow> view t = view s"
  by (metis quiet_def snd_conv)

lemma clock_mono_run: "clock_mono clk m \<Longrightarrow> run_state m s = (a, t) \<Longrightarrow> clk s \<le> clk t"
  by (metis clock_mono_def snd_conv)

lemma kclient_quietD:
  assumes "kclient_quiet view c"
  shows "run_state (kget c k) s = (a, t) \<Longrightarrow> view t = view s"
    and "run_state (klist c ns p) s = (b, t) \<Longrightarrow> view t = view s"
    and "run_state (kcreate c x) s = (d, t) \<Longrightarrow> view t = view s"
    and "run_state (kupdate c x) s = (d, t) \<Longrightarrow> view t = view s"
    and "run_state (kupdateStatus c x) s = (d, t) \<Longrightarrow> view t = view s"
    and "run_state (kdelete c x) s = (e, t) \<Longrightarrow> view t = view s"
  using assms quiet_run unfolding kclient_quiet_def by metis+

lemma kclient_monoD:
  assumes "kclient_mono clk c"
  shows "run_state (kget c k) s = (a, t) \<Longrightarrow> clk s \<le> clk t"
    and "run_state (klist c ns p) s = (b, t) \<Longrightarrow> clk s \<le> clk t"
    and "run_state (kcreate c x) s = (d, t) \<Longrightarrow> clk s \<le> clk t"
    and "run_state (kupdate c x) s = (d, t) \<Longrightarrow> clk s \<le> clk t"
    and "run_state (kupdateStatus c x) s = (d, t) \<Longrightarrow> clk s \<le> clk t"
    and "run_state (kdelete c x) s = (e, t) \<Longrightarrow> clk s \<le> clk t"
  using assms clock_mono_run unfolding kclient_mono_def by metis+

text \<open>An API server that answers: what each call returns from what is stored.\<close>

definition server_up :: "('s, 'o) kclient \<Rightarrow> ('o \<Rightarrow> ObjectMeta) \<Rightarrow> ('s \<Rightarrow> ObjectKey \<rightharpoonup> 'o) \<Rightarrow> bool" where
  "server_up c meta view \<longleftrightarrow>
     (\<forall>k s. result_of (kget c k) s = (case view s k of None \<Rightarrow> Inl (ApiError NotFound) | Some x \<Rightarrow> Inr x)) \<and>
     (\<forall>x s. view s (keyOf (meta x)) = None \<longrightarrow> (\<exists>y. result_of (kcreate c x) s = Inr y)) \<and>
     (\<forall>x s. view s (keyOf (meta x)) \<noteq> None \<longrightarrow> result_of (kcreate c x) s = Inl (ApiError AlreadyExists)) \<and>
     (\<forall>x z s. view s (keyOf (meta x)) = Some z \<and> om_ResourceVersion (meta z) = om_ResourceVersion (meta x) \<longrightarrow>
        (\<exists>y. result_of (kupdate c x) s = Inr y))"

lemma up_get:
  assumes "cas_store c meta body view" and "server_up c meta view"
  shows "\<exists>s'. run_state (kget c k) s = (case view s k of None \<Rightarrow> Inl (ApiError NotFound) | Some x \<Rightarrow> Inr x, s') \<and>
    view s' = view s"
  using assms cas_store_get(1) [OF assms(1), of k s] unfolding server_up_def by (metis prod.collapse)

lemma up_create_new:
  assumes "cas_store c meta body view" and "server_up c meta view" and "view s (keyOf (meta x)) = None"
  shows "\<exists>y s'. run_state (kcreate c x) s = (Inr y, s') \<and> body y = body x \<and>
    keyOf (meta y) = keyOf (meta x) \<and> view s' = (view s)(keyOf (meta x) \<mapsto> y)"
proof -
  obtain y where y: "result_of (kcreate c x) s = Inr y" using assms(2,3) unfolding server_up_def by blast
  with cas_store_create_cases [OF assms(1), of x s] show ?thesis
    by (intro exI [of _ y] exI [of _ "state_after (kcreate c x) s"]) (simp add: create_takes_def stored_as_def prod_eq_iff)
qed

lemma up_create_old:
  assumes "cas_store c meta body view" and "server_up c meta view" and "view s (keyOf (meta x)) = Some z"
  shows "\<exists>s'. run_state (kcreate c x) s = (Inl (ApiError AlreadyExists), s') \<and> view s' = view s"
proof -
  have "result_of (kcreate c x) s = Inl (ApiError AlreadyExists)" using assms(2,3) unfolding server_up_def by simp
  with cas_store_create(4) [OF assms(1), of x s] show ?thesis
    by (intro exI [of _ "state_after (kcreate c x) s"]) (simp add: prod_eq_iff)
qed

lemma up_update:
  assumes "cas_store c meta body view" and "server_up c meta view" and "view s (keyOf (meta x)) = Some z"
    and "om_ResourceVersion (meta z) = om_ResourceVersion (meta x)"
  shows "\<exists>y s'. run_state (kupdate c x) s = (Inr y, s') \<and> body y = body x \<and>
    view s' = (view s)(keyOf (meta x) \<mapsto> y)"
proof -
  obtain y where y: "result_of (kupdate c x) s = Inr y" using assms(2-4) unfolding server_up_def by blast
  with cas_store_update(2,4) [OF assms(1), of x s] show ?thesis
    by (intro exI [of _ y] exI [of _ "state_after (kupdate c x) s"]) (simp add: prod_eq_iff)
qed

section \<open>The clock and the random source\<close>

text \<open>\<open>time.Now()\<close> and \<open>rand.Int64N(n)\<close>.\<close>

record 's world =
  w_now :: "('s, int) state"
  w_rand :: "int \<Rightarrow> ('s, int) state"

text \<open>A clock that stands still and a random source that always draws zero, for witnesses.\<close>

definition still_world :: "int \<Rightarrow> 's world" where
  "still_world t = \<lparr>w_now = return t, w_rand = (\<lambda>_. return 0)\<rparr>"

section \<open>Helper functions of apimachinery and controller-runtime\<close>

record LabelSelector =
  ls_MatchLabels :: "(string \<times> string) list"
  ls_MatchExpressions :: "(string \<times> string \<times> string list) list"

record apimachinery =
  am_selector :: "LabelSelector \<Rightarrow> goerr + (labels \<Rightarrow> bool)"
  am_setStatusCondition :: "Condition list \<Rightarrow> Condition \<Rightarrow> bool \<times> Condition list"
  am_isStatusConditionTrue :: "Condition list \<Rightarrow> string \<Rightarrow> bool"
  am_findStatusCondition :: "Condition list \<Rightarrow> string \<Rightarrow> Condition option"
  am_addFinalizer :: "string list \<Rightarrow> string \<Rightarrow> bool \<times> string list"
  am_containsFinalizer :: "string list \<Rightarrow> string \<Rightarrow> bool"
  am_removeFinalizer :: "string list \<Rightarrow> string \<Rightarrow> bool \<times> string list"
  am_setControllerReference :: "ObjectMeta \<Rightarrow> ObjectMeta \<Rightarrow> goerr + ObjectMeta"
  am_errorText :: "goerr \<Rightarrow> string"

text \<open>
  The documented behaviour the program relies on: a condition that was set is found
  again and no other condition type is touched; an unchanged list is reported as
  unchanged; finalizers form a set.
\<close>

definition conditions_ok :: "apimachinery \<Rightarrow> bool" where
  "conditions_ok am \<longleftrightarrow>
     (\<forall>cs c t. am_findStatusCondition am (snd (am_setStatusCondition am cs c)) t =
        (if t = cond_Type c then Some c else am_findStatusCondition am cs t)) \<and>
     (\<forall>cs c. fst (am_setStatusCondition am cs c) = (am_findStatusCondition am cs (cond_Type c) \<noteq> Some c)) \<and>
     (\<forall>cs c. am_findStatusCondition am cs (cond_Type c) = Some c \<longrightarrow> snd (am_setStatusCondition am cs c) = cs) \<and>
     (\<forall>cs t. am_isStatusConditionTrue am cs t =
        (case am_findStatusCondition am cs t of None \<Rightarrow> False | Some c \<Rightarrow> cond_Status c = ConditionTrue))"

definition finalizers_ok :: "apimachinery \<Rightarrow> bool" where
  "finalizers_ok am \<longleftrightarrow>
     (\<forall>fs f. am_containsFinalizer am fs f = (f \<in> set fs)) \<and>
     (\<forall>fs f. fst (am_addFinalizer am fs f) = (f \<notin> set fs)) \<and>
     (\<forall>fs f. set (snd (am_addFinalizer am fs f)) = insert f (set fs)) \<and>
     (\<forall>fs f. fst (am_removeFinalizer am fs f) = (f \<in> set fs)) \<and>
     (\<forall>fs f. set (snd (am_removeFinalizer am fs f)) = set fs - {f})"

definition apimachinery_ok :: "apimachinery \<Rightarrow> bool" where
  "apimachinery_ok am \<longleftrightarrow> conditions_ok am \<and> finalizers_ok am"

lemma conditions_okD:
  assumes "apimachinery_ok am"
  shows find_setStatusCondition: "am_findStatusCondition am (snd (am_setStatusCondition am cs c)) t =
          (if t = cond_Type c then Some c else am_findStatusCondition am cs t)"
    and setStatusCondition_changed: "fst (am_setStatusCondition am cs c) =
          (am_findStatusCondition am cs (cond_Type c) \<noteq> Some c)"
    and setStatusCondition_same: "am_findStatusCondition am cs (cond_Type c) = Some c \<Longrightarrow>
          snd (am_setStatusCondition am cs c) = cs"
    and isStatusConditionTrue_iff: "am_isStatusConditionTrue am cs t =
          (case am_findStatusCondition am cs t of None \<Rightarrow> False | Some c \<Rightarrow> cond_Status c = ConditionTrue)"
  using assms by (simp_all add: apimachinery_ok_def conditions_ok_def)

lemma finalizers_okD:
  assumes "apimachinery_ok am"
  shows containsFinalizer_iff: "am_containsFinalizer am fs f = (f \<in> set fs)"
    and addFinalizer_changed: "fst (am_addFinalizer am fs f) = (f \<notin> set fs)"
    and addFinalizer_set: "set (snd (am_addFinalizer am fs f)) = insert f (set fs)"
    and removeFinalizer_changed: "fst (am_removeFinalizer am fs f) = (f \<in> set fs)"
    and removeFinalizer_set: "set (snd (am_removeFinalizer am fs f)) = set fs - {f}"
  using assms by (simp_all add: apimachinery_ok_def finalizers_ok_def)

section \<open>A concrete store and concrete helpers\<close>

text \<open>
  An in-memory API server for one kind: a map from keys to objects and a revision
  counter that stamps every write.  It shows that the assumptions above can hold and is
  what the witnesses run the operations on.
\<close>

record 'o memstore =
  ms_objs :: "ObjectKey \<rightharpoonup> 'o"
  ms_keys :: "ObjectKey list"
  ms_rev :: nat

text \<open>The stored objects: an object counts only under its own key.\<close>

definition mem_view :: "('o \<Rightarrow> ObjectMeta) \<Rightarrow> 'o memstore \<Rightarrow> ObjectKey \<rightharpoonup> 'o" where
  "mem_view meta s k = (case ms_objs s k of None \<Rightarrow> None
     | Some x \<Rightarrow> if keyOf (meta x) = k then Some x else None)"

definition empty_store :: "'o memstore" where
  "empty_store = \<lparr>ms_objs = Map.empty, ms_keys = [], ms_rev = 0\<rparr>"

definition rev_string :: "nat \<Rightarrow> string" where
  "rev_string n = replicate n (CHR ''r'')"

definition stamp :: "nat \<Rightarrow> ObjectMeta \<Rightarrow> ObjectMeta" where
  "stamp n m = m\<lparr>om_ResourceVersion := rev_string n\<rparr>"

definition mem_write :: "(ObjectMeta \<Rightarrow> 'o \<Rightarrow> 'o) \<Rightarrow> ('o \<Rightarrow> ObjectMeta) \<Rightarrow> 'o \<Rightarrow> 'o memstore \<Rightarrow>
    (goerr + 'o) \<times> 'o memstore" where
  "mem_write setm meta x s =
     (let y = setm (stamp (Suc (ms_rev s)) (meta x)) x; k = keyOf (meta x)
      in (Inr y, s\<lparr>ms_objs := (ms_objs s)(k \<mapsto> y),
            ms_keys := (if k \<in> set (ms_keys s) then ms_keys s else ms_keys s @ [k]),
            ms_rev := Suc (ms_rev s)\<rparr>))"

definition mem_client :: "(ObjectMeta \<Rightarrow> 'o \<Rightarrow> 'o) \<Rightarrow> ('o \<Rightarrow> ObjectMeta) \<Rightarrow> ('o memstore, 'o) kclient" where
  "mem_client setm meta =
     \<lparr>kget = (\<lambda>k. State (\<lambda>s. (case mem_view meta s k of None \<Rightarrow> Inl (ApiError NotFound) | Some x \<Rightarrow> Inr x, s))),
      klist = (\<lambda>ns p. State (\<lambda>s. (Inr (filter (\<lambda>x. (ns = None \<or> ns = Some (om_Namespace (meta x))) \<and>
                 p (om_Labels (meta x))) (List.map_filter (mem_view meta s) (remdups (ms_keys s)))), s))),
      kcreate = (\<lambda>x. State (\<lambda>s. (case mem_view meta s (keyOf (meta x)) of
                 Some _ \<Rightarrow> (Inl (ApiError AlreadyExists), s)
               | None \<Rightarrow> mem_write setm meta x s))),
      kupdate = (\<lambda>x. State (\<lambda>s. (case mem_view meta s (keyOf (meta x)) of
                 None \<Rightarrow> (Inl (ApiError NotFound), s)
               | Some z \<Rightarrow> if om_ResourceVersion (meta z) = om_ResourceVersion (meta x)
                    then mem_write setm meta x s else (Inl (ApiError ConflictReason), s)))),
      kupdateStatus = (\<lambda>x. State (\<lambda>s. (case mem_view meta s (keyOf (meta x)) of
                 None \<Rightarrow> (Inl (ApiError NotFound), s)
               | Some z \<Rightarrow> if om_ResourceVersion (meta z) = om_ResourceVersion (meta x)
                    then mem_write setm meta x s else (Inl (ApiError ConflictReason), s)))),
      kdelete = (\<lambda>x. State (\<lambda>s. (case mem_view meta s (keyOf (meta x)) of
                 None \<Rightarrow> (Some (ApiError NotFound), s)
               | Some z \<Rightarrow> (None, s\<lparr>ms_objs := (ms_objs s)(keyOf (meta x) := None)\<rparr>))))\<rparr>"

lemma keyOf_stamp [simp]: "keyOf (stamp n m) = keyOf m"
  by (simp add: keyOf_def stamp_def)

lemma mem_view_key: "mem_view meta s k = Some x \<Longrightarrow> keyOf (meta x) = k"
  by (auto simp: mem_view_def split: option.splits if_splits)

lemma mem_view_empty [simp]: "mem_view meta empty_store = Map.empty"
  by (simp add: mem_view_def empty_store_def fun_eq_iff)

lemma mem_view_upd [simp]:
  "keyOf (meta y) = k \<Longrightarrow> mem_view meta (s\<lparr>ms_objs := (ms_objs s)(k \<mapsto> y), ms_keys := ks, ms_rev := n\<rparr>) =
     (mem_view meta s)(k \<mapsto> y)"
  by (auto simp: mem_view_def fun_eq_iff)

lemma mem_write_result: "fst (mem_write setm meta x s) = Inr (setm (stamp (Suc (ms_rev s)) (meta x)) x)"
  by (simp add: mem_write_def Let_def)

lemma mem_write_view:
  assumes "\<And>m x. meta (setm m x) = m"
  shows "mem_view meta (snd (mem_write setm meta x s)) =
    (mem_view meta s)(keyOf (meta x) \<mapsto> setm (stamp (Suc (ms_rev s)) (meta x)) x)"
  using assms by (simp add: mem_write_def Let_def)

lemma mem_client_cas_store:
  assumes m: "\<And>m x. meta (setm m x) = m" and b: "\<And>n x. body (setm (stamp n (meta x)) x) = body x"
  shows "cas_store (mem_client setm meta) meta body (mem_view meta)"
  unfolding cas_store_def mem_client_def
  by (auto simp: m b mem_write_result mem_write_view [where meta = meta and setm = setm, OF m]
      create_takes_def update_takes_def stored_as_def split: option.splits if_splits sum.splits)

lemma distinct_map_filter_keys:
  assumes "\<And>k x. f k = Some x \<Longrightarrow> g x = k" and "distinct ks"
  shows "distinct (map g (List.map_filter f ks))"
  using assms(2) assms(1) by (induction ks) (auto simp: List.map_filter_def dest: assms(1))

lemma mem_client_lists_stored: "lists_stored (mem_client setm meta) meta (mem_view meta)"
  unfolding lists_stored_def mem_client_def
  using distinct_map_filter_keys [of "mem_view meta s" "keyOf \<circ> meta" "remdups (ms_keys s)" for s]
  by (auto simp: List.map_filter_def mem_view_key intro!: distinct_map_filter)

lemma mem_client_server_up: "server_up (mem_client setm meta) meta (mem_view meta)"
  unfolding server_up_def mem_client_def by (auto simp: mem_write_result split: option.splits)

text \<open>
  A world with several stores: a call on one part of the state, seen through a lens
  (\<open>g\<close> reads the part, \<open>p\<close> puts it back), as a call on the whole.
\<close>

definition zoom :: "('t \<Rightarrow> 's) \<Rightarrow> ('s \<Rightarrow> 't \<Rightarrow> 't) \<Rightarrow> ('s, 'a) state \<Rightarrow> ('t, 'a) state" where
  "zoom g p m = State (\<lambda>t. (result_of m (g t), p (state_after m (g t)) t))"

lemma run_zoom [simp]: "run_state (zoom g p m) t = (result_of m (g t), p (state_after m (g t)) t)"
  by (simp add: zoom_def)

definition zoom_client :: "('t \<Rightarrow> 's) \<Rightarrow> ('s \<Rightarrow> 't \<Rightarrow> 't) \<Rightarrow> ('s, 'o) kclient \<Rightarrow> ('t, 'o) kclient" where
  "zoom_client g p c = \<lparr>kget = (\<lambda>k. zoom g p (kget c k)), klist = (\<lambda>ns q. zoom g p (klist c ns q)),
     kcreate = (\<lambda>x. zoom g p (kcreate c x)), kupdate = (\<lambda>x. zoom g p (kupdate c x)),
     kupdateStatus = (\<lambda>x. zoom g p (kupdateStatus c x)), kdelete = (\<lambda>x. zoom g p (kdelete c x))\<rparr>"

lemma zoom_cas_store:
  assumes "\<And>s t. g (p s t) = s" and "cas_store c meta body view"
  shows "cas_store (zoom_client g p c) meta body (\<lambda>t. view (g t))"
proof -
  have "kget (zoom_client g p c) k = zoom g p (kget c k)" "kcreate (zoom_client g p c) x = zoom g p (kcreate c x)"
    "kupdate (zoom_client g p c) x = zoom g p (kupdate c x)" for k x by (simp_all add: zoom_client_def)
  then show ?thesis using assms(2) unfolding cas_store_def by (simp only: run_zoom fst_conv snd_conv assms(1)) blast
qed

lemma zoom_server_up:
  assumes "server_up c meta view"
  shows "server_up (zoom_client g p c) meta (\<lambda>t. view (g t))"
  using assms unfolding server_up_def zoom_client_def kclient.simps run_zoom fst_conv by blast

lemma zoom_quiet:
  assumes "\<And>s t. g' (p s t) = g' t"
  shows "kclient_quiet (\<lambda>t. view (g' t)) (zoom_client g p c)"
  by (simp add: kclient_quiet_def quiet_def zoom_client_def assms)

lemma still_mono: "kclient_mono (\<lambda>_. n) c"
  by (simp add: kclient_mono_def clock_mono_def)

definition std_apimachinery :: "(LabelSelector \<Rightarrow> goerr + (labels \<Rightarrow> bool)) \<Rightarrow> apimachinery" where
  "std_apimachinery sel =
     \<lparr>am_selector = sel,
      am_setStatusCondition = (\<lambda>cs c. if find (\<lambda>d. cond_Type d = cond_Type c) cs = Some c then (False, cs)
         else (True, filter (\<lambda>d. cond_Type d \<noteq> cond_Type c) cs @ [c])),
      am_isStatusConditionTrue = (\<lambda>cs t. case find (\<lambda>d. cond_Type d = t) cs of
         None \<Rightarrow> False | Some c \<Rightarrow> cond_Status c = ConditionTrue),
      am_findStatusCondition = (\<lambda>cs t. find (\<lambda>d. cond_Type d = t) cs),
      am_addFinalizer = (\<lambda>fs f. if f \<in> set fs then (False, fs) else (True, fs @ [f])),
      am_containsFinalizer = (\<lambda>fs f. f \<in> set fs),
      am_removeFinalizer = (\<lambda>fs f. (f \<in> set fs, filter (\<lambda>g. g \<noteq> f) fs)),
      am_setControllerReference = (\<lambda>own m. Inr (m\<lparr>om_OwnerReferences := om_OwnerReferences m @
         [\<lparr>or_Kind = '''', or_Name = om_Name own, or_UID = om_UID own, or_Controller = True\<rparr>]\<rparr>)),
      am_errorText = (\<lambda>_. ''error'')\<rparr>"

lemma find_append: "find P (xs @ ys) = (case find P xs of None \<Rightarrow> find P ys | Some x \<Rightarrow> Some x)"
  by (induction xs) auto

lemma find_filter_other:
  "find (\<lambda>d. f d = t) (filter (\<lambda>d. f d \<noteq> u) cs) = (if t = u then None else find (\<lambda>d. f d = t) cs)"
  by (induction cs) auto

lemma find_cond_Type: "find (\<lambda>d. cond_Type d = t) cs = Some c \<Longrightarrow> cond_Type c = t"
  by (auto simp: find_Some_iff)

lemma std_apimachinery_ok: "apimachinery_ok (std_apimachinery sel)"
  by (auto simp: apimachinery_ok_def conditions_ok_def finalizers_ok_def std_apimachinery_def
      find_append find_filter_other split: option.splits dest: find_cond_Type)

end
