(* ===== verification/Api.thy ===== *)
theory Api
  imports Kube
begin

text \<open>
  The API types of \<open>api/v1alpha2\<close> and \<open>api/v1alpha1\<close>: one record per struct, in the
  order of the files, with every field of the struct.  \<open>metav1.Time\<close> is an \<open>int\<close> that
  counts nanoseconds from Go's zero time, so \<open>IsZero()\<close> is \<open>t = 0\<close>; a pointer field is
  an option.  The record \<open>'s client\<close> gathers the client's calls on every kind.  The last
  section holds the conversion between the two API versions.
\<close>

section \<open>Shared types and labels\<close>

record ObjectReference =
  ref_APIVersion :: string
  ref_Kind :: string
  ref_Name :: string

record InstancePoolReference = ipr_Name :: string

record TalosClusterReference = tcr_Name :: string

record SecretReference =
  sr_Name :: string
  sr_Namespace :: string

definition LabelRegion :: string where "LabelRegion = ''kontinuum.sh/region''"

definition LabelZone :: string where "LabelZone = ''kontinuum.sh/zone''"

definition LabelClaimedBy :: string where "LabelClaimedBy = ''kontinuum.sh/claimed-by''"

definition LabelManagedBy :: string where "LabelManagedBy = ''kontinuum.sh/managed-by''"

section \<open>Kontinuum\<close>

definition RoleControlPlane :: string where "RoleControlPlane = ''ControlPlane''"

definition RoleWorker :: string where "RoleWorker = ''Worker''"

definition KontinuumSystemNamespace :: string where
  "KontinuumSystemNamespace = ''kontinuum-system''"

record KontinuumSpec =
  ksp_Region :: string
  ksp_Zone :: string

record KontinuumDNSConfigStatus =
  kdns_Domain :: string
  kdns_Provider :: string
  kdns_Credential :: string

record KontinuumGRPCConfigStatus =
  kgrpc_Endpoint :: string
  kgrpc_InsecureTLSSkipVerify :: string

record KontinuumServerConfigStatus =
  ksrv_Addr :: string
  ksrv_Storage :: string
  ksrv_Region :: string
  ksrv_Zone :: string
  ksrv_DNS :: KontinuumDNSConfigStatus
  ksrv_GRPC :: KontinuumGRPCConfigStatus

record KontinuumLogConfigStatus =
  klog_Level :: string
  klog_Format :: string

record KontinuumOIDCConfigStatus =
  koidc_Enabled :: bool
  koidc_IssuerURL :: string
  koidc_ClientID :: string
  koidc_RedirectURL :: string
  koidc_AdminGroups :: string

record KontinuumACMEConfigStatus =
  kacme_Email :: string
  kacme_Server :: string
  kacme_InsecureSkipVerify :: string

record KontinuumConfigStatus =
  kcfg_Server :: KontinuumServerConfigStatus
  kcfg_Log :: KontinuumLogConfigStatus
  kcfg_OIDC :: KontinuumOIDCConfigStatus
  kcfg_InsecureAllowAnonymous :: string
  kcfg_ACME :: KontinuumACMEConfigStatus

record KontinuumSecretReference =
  ksr_Name :: string
  ksr_Namespace :: string

record KontinuumStatus =
  kst_Role :: string
  kst_LastHeartbeatTime :: int
  kst_Version :: string
  kst_SecretRef :: KontinuumSecretReference
  kst_Config :: KontinuumConfigStatus

record Kontinuum =
  kon_meta :: ObjectMeta
  kon_Spec :: KontinuumSpec
  kon_Status :: KontinuumStatus

text \<open>The zero value of \<open>KontinuumStatus\<close>, which a struct literal that leaves it out has.\<close>

definition zeroConfigStatus :: KontinuumConfigStatus where
  "zeroConfigStatus =
     \<lparr>kcfg_Server = \<lparr>ksrv_Addr = '''', ksrv_Storage = '''', ksrv_Region = '''', ksrv_Zone = '''',
        ksrv_DNS = \<lparr>kdns_Domain = '''', kdns_Provider = '''', kdns_Credential = ''''\<rparr>,
        ksrv_GRPC = \<lparr>kgrpc_Endpoint = '''', kgrpc_InsecureTLSSkipVerify = ''''\<rparr>\<rparr>,
      kcfg_Log = \<lparr>klog_Level = '''', klog_Format = ''''\<rparr>,
      kcfg_OIDC = \<lparr>koidc_Enabled = False, koidc_IssuerURL = '''', koidc_ClientID = '''',
        koidc_RedirectURL = '''', koidc_AdminGroups = ''''\<rparr>,
      kcfg_InsecureAllowAnonymous = '''',
      kcfg_ACME = \<lparr>kacme_Email = '''', kacme_Server = '''', kacme_InsecureSkipVerify = ''''\<rparr>\<rparr>"

definition zeroKontinuumStatus :: KontinuumStatus where
  "zeroKontinuumStatus = \<lparr>kst_Role = '''', kst_LastHeartbeatTime = 0, kst_Version = '''',
     kst_SecretRef = \<lparr>ksr_Name = '''', ksr_Namespace = ''''\<rparr>, kst_Config = zeroConfigStatus\<rparr>"

section \<open>Instance\<close>

record InstanceSpec =
  isp_Interfaces :: "string list"
  isp_ProviderRef :: "ObjectReference option"

record InstanceInterfaceStatus =
  iif_Name :: string
  iif_MACAddress :: string
  iif_Addresses :: "string list"

record InstanceTalosStatus = its_Version :: string

record InstanceDiskStatus =
  idk_DevPath :: string
  idk_Size :: uint64
  idk_PrettySize :: string
  idk_Model :: string
  idk_Serial :: string
  idk_Transport :: string
  idk_Rotational :: bool

record InstanceCPUStatus =
  icp_Manufacturer :: string
  icp_ProductName :: string
  icp_Architecture :: string
  icp_CoreCount :: "32 word"
  icp_ThreadCount :: "32 word"
  icp_MaxSpeedMHz :: "32 word"

record InstanceMemoryStatus =
  imm_SizeMiB :: "32 word"
  imm_Manufacturer :: string
  imm_Speed :: "32 word"
  imm_Serial :: string

record InstanceStatus =
  ist_Interfaces :: "InstanceInterfaceStatus list"
  ist_Disks :: "InstanceDiskStatus list"
  ist_CPUs :: "InstanceCPUStatus list"
  ist_Memory :: "InstanceMemoryStatus list"
  ist_SerialNumber :: string
  ist_Talos :: InstanceTalosStatus
  ist_LastProbeTime :: int
  ist_Conditions :: "Condition list"

record Instance =
  inst_meta :: ObjectMeta
  inst_Spec :: InstanceSpec
  inst_Status :: InstanceStatus

section \<open>InstancePool\<close>

record InstanceTemplateSpec = itp_ProviderTemplateRef :: ObjectReference

record InstancePoolSpec =
  ips_Selector :: LabelSelector
  ips_Replicas :: int32
  ips_Template :: "InstanceTemplateSpec option"

record InstancePoolStatus =
  ipst_ReadyReplicas :: int32
  ipst_Conditions :: "Condition list"

record InstancePool =
  pool_meta :: ObjectMeta
  pool_Spec :: InstancePoolSpec
  pool_Status :: InstancePoolStatus

section \<open>Zone\<close>

record ZoneSpec =
  zsp_Region :: string
  zsp_Zone :: string
  zsp_Domain :: string

record ZoneStatus = zst_Conditions :: "Condition list"

record Zone =
  zone_meta :: ObjectMeta
  zone_Spec :: ZoneSpec
  zone_Status :: ZoneStatus

section \<open>TalosCluster\<close>

record TalosSpec = tsp_Version :: string

record KubernetesSpec = k8s_Version :: string

record TalosClusterMemberSpec = tcm_PoolRef :: InstancePoolReference

record TalosClusterWorkerSpec =
  tcw_Name :: string
  tcw_PoolRef :: InstancePoolReference

record TeardownSpec = tds_UnregisterInstances :: bool

record TalosClusterSpec =
  tcs_Talos :: TalosSpec
  tcs_Kubernetes :: KubernetesSpec
  tcs_ControlPlane :: TalosClusterMemberSpec
  tcs_Workers :: "TalosClusterWorkerSpec list"
  tcs_Teardown :: TeardownSpec

record TalosClusterStatus =
  tcst_Conditions :: "Condition list"
  tcst_SecretRef :: SecretReference

record TalosCluster =
  tc_meta :: ObjectMeta
  tc_Spec :: TalosClusterSpec
  tc_Status :: TalosClusterStatus

section \<open>Addon\<close>

record AddonProvisioningSpec = aps_Method :: string

record AddonLifecycleSpec =
  als_Provisioning :: AddonProvisioningSpec
  als_Priority :: "int32 option"

record AddonChartSpec =
  acs_Repo :: string
  acs_Name :: string
  acs_Version :: string

record AddonNamespaceSpec = ans_Name :: string

record AddonSecretReference = asr_Name :: string

record AddonSpec =
  asp_TalosClusterRef :: TalosClusterReference
  asp_ReleaseName :: string
  asp_Enabled :: "bool option"
  asp_Chart :: "AddonChartSpec option"
  asp_Lifecycle :: AddonLifecycleSpec
  asp_Namespace :: AddonNamespaceSpec
  asp_Values :: "string option"
  asp_Secrets :: "AddonSecretReference list"

record AddonStatus = ast_Conditions :: "Condition list"

record Addon =
  addon_meta :: ObjectMeta
  addon_Spec :: AddonSpec
  addon_Status :: AddonStatus

section \<open>The client over every kind\<close>

text \<open>
  \<open>client.Client\<close> dispatches on the Go type of its argument; here the record has one
  field per kind, all over the same state of the world.
\<close>

record 's client =
  cl_Namespace :: "('s, Namespace) kclient"
  cl_Secret :: "('s, Secret) kclient"
  cl_Lease :: "('s, Lease) kclient"
  cl_Kontinuum :: "('s, Kontinuum) kclient"
  cl_Instance :: "('s, Instance) kclient"
  cl_InstancePool :: "('s, InstancePool) kclient"
  cl_Zone :: "('s, Zone) kclient"
  cl_TalosCluster :: "('s, TalosCluster) kclient"
  cl_Addon :: "('s, Addon) kclient"

definition down_client :: "'s client" where
  "down_client = \<lparr>cl_Namespace = down_kclient, cl_Secret = down_kclient, cl_Lease = down_kclient,
     cl_Kontinuum = down_kclient, cl_Instance = down_kclient, cl_InstancePool = down_kclient,
     cl_Zone = down_kclient, cl_TalosCluster = down_kclient, cl_Addon = down_kclient\<rparr>"

text \<open>\<open>ctrl.Result\<close> and what \<open>Reconcile\<close> returns.\<close>

record Result = requeueAfter :: int

abbreviation noRequeue :: Result where
  "noRequeue \<equiv> \<lparr>requeueAfter = 0\<rparr>"

type_synonym outcome = "Result \<times> goerr option"

section \<open>Conversion between v1alpha1 and v1alpha2\<close>

record KontinuumSpecV1 =
  ksp1_Role :: string
  ksp1_Region :: string
  ksp1_Zone :: string

record KontinuumStatusV1 = kst1_LastHeartbeatTime :: int

record KontinuumV1 =
  kon1_meta :: ObjectMeta
  kon1_Spec :: KontinuumSpecV1
  kon1_Status :: KontinuumStatusV1

text \<open>The argument of the conversion functions is an interface; only one dynamic type is supported.\<close>

datatype Hub = HubKontinuum Kontinuum | HubOther string

definition ErrUnsupportedConversionType :: goerr where
  "ErrUnsupportedConversionType = Sentinel ''unsupported conversion type''"

fun ConvertTo :: "KontinuumV1 \<Rightarrow> Hub \<Rightarrow> goerr + Kontinuum" where
  "ConvertTo src (HubOther ty) = Inl (Errorf ''%w: %T'' [ty] [ErrUnsupportedConversionType])"
| "ConvertTo src (HubKontinuum dst) = Inr (dst
     \<lparr>kon_meta := kon1_meta src,
      kon_Spec := (kon_Spec dst)\<lparr>ksp_Region := ksp1_Region (kon1_Spec src),
                                 ksp_Zone := ksp1_Zone (kon1_Spec src)\<rparr>,
      kon_Status := (kon_Status dst)\<lparr>kst_Role := ksp1_Role (kon1_Spec src),
                                     kst_LastHeartbeatTime := kst1_LastHeartbeatTime (kon1_Status src)\<rparr>\<rparr>)"

fun ConvertFrom :: "KontinuumV1 \<Rightarrow> Hub \<Rightarrow> goerr + KontinuumV1" where
  "ConvertFrom dst (HubOther ty) = Inl (Errorf ''%w: %T'' [ty] [ErrUnsupportedConversionType])"
| "ConvertFrom dst (HubKontinuum src) = Inr (dst
     \<lparr>kon1_meta := kon_meta src,
      kon1_Spec := (kon1_Spec dst)\<lparr>ksp1_Region := ksp_Region (kon_Spec src),
                                   ksp1_Zone := ksp_Zone (kon_Spec src),
                                   ksp1_Role := kst_Role (kon_Status src)\<rparr>,
      kon1_Status := (kon1_Status dst)
        \<lparr>kst1_LastHeartbeatTime := kst_LastHeartbeatTime (kon_Status src)\<rparr>\<rparr>)"

text \<open>
  Nothing stored as v1alpha1 is lost.  Converting a v1alpha1 object to the hub version and
  back returns it unchanged, whatever the two destination objects held; the other way
  round, metadata, spec, role and heartbeat survive and exactly the three status fields
  only v1alpha2 has (version, secretRef, config) are taken from the destination.
\<close>

theorem conversion_roundtrip:
  "(\<exists>y. ConvertTo x (HubKontinuum h) = Inr y \<and> ConvertFrom z (HubKontinuum y) = Inr x) \<and>
   (\<exists>y. ConvertFrom z (HubKontinuum k) = Inr y \<and>
      ConvertTo y (HubKontinuum h) = Inr (k\<lparr>kon_Status := (kon_Status h)
           \<lparr>kst_Role := kst_Role (kon_Status k),
            kst_LastHeartbeatTime := kst_LastHeartbeatTime (kon_Status k)\<rparr>\<rparr>))"
  by simp

end
