(* ===== verification/Zonelease.thy ===== *)
theory Zonelease
  imports Api
begin

text \<open>
  \<open>pkg/domain/zonelease/locker.go\<close>: the per-zone lock on top of
  \<open>coordination.k8s.io/v1\<close> Lease objects.  First the operations of \<open>Locker\<close> as they
  are written, over an arbitrary API client; then the contract the controllers rely on
  (locale \<open>zone_gate\<close>); then the protocol that several processes play against one
  shared Lease, with interleaved reads, decisions and compare-and-swap writes, and its
  mutual exclusion.
\<close>

section \<open>Names and constants\<close>

definition GlobalKey :: string where "GlobalKey = ''''"

definition leaseNamePrefix :: string where "leaseNamePrefix = ''zonelock-''"

definition globalLeaseName :: string where "globalLeaseName = leaseNamePrefix @ ''global''"

definition defaultLeaseDuration :: int where "defaultLeaseDuration = 45 * second"

definition Key :: "string \<Rightarrow> string \<Rightarrow> string" where
  "Key region zone = (if region = '''' \<or> zone = '''' then GlobalKey else region @ ''-'' @ zone)"

definition leaseName :: "string \<Rightarrow> string" where
  "leaseName zoneKey = (if zoneKey = GlobalKey then globalLeaseName else leaseNamePrefix @ zoneKey)"

section \<open>The locker\<close>

record Identity =
  id_HolderIdentity :: string
  id_SelfZoneKey :: string

record 's Locker =
  lk_Client :: "'s client"
  lk_Reader :: "'s client"
  lk_HolderIdentity :: string
  lk_SelfZoneKey :: string
  lk_LeaseDuration :: int

definition NewLocker :: "'s client \<Rightarrow> 's client \<Rightarrow> string \<Rightarrow> string \<Rightarrow> int \<Rightarrow> 's Locker" where
  "NewLocker apiClient apiReader holder selfKey leaseDuration =
     (let d = (if leaseDuration \<le> 0 then defaultLeaseDuration else leaseDuration)
      in \<lparr>lk_Client = apiClient, lk_Reader = apiReader, lk_HolderIdentity = holder,
          lk_SelfZoneKey = selfKey, lk_LeaseDuration = d\<rparr>)"

text \<open>\<open>int32(l.LeaseDuration.Seconds())\<close>.\<close>

definition durationSeconds :: "'s Locker \<Rightarrow> int32" where
  "durationSeconds l = word_of_int (quot (lk_LeaseDuration l) second)"

definition holderIdentity :: "Lease \<Rightarrow> string" where
  "holderIdentity lease = (case lease_HolderIdentity lease of None \<Rightarrow> '''' | Some h \<Rightarrow> h)"

text \<open>\<open>expired\<close>, split into the clock reading and the comparison made with it.\<close>

definition expiredAt :: "int \<Rightarrow> Lease \<Rightarrow> int \<Rightarrow> bool" where
  "expiredAt now lease fallback = (case lease_RenewTime lease of
       None \<Rightarrow> True
     | Some r \<Rightarrow>
         (let duration = (case lease_LeaseDurationSeconds lease of
             None \<Rightarrow> fallback | Some d \<Rightarrow> sint d * second)
          in now - r > duration))"

definition expired :: "'s world \<Rightarrow> Lease \<Rightarrow> int \<Rightarrow> ('s, bool) state" where
  "expired w lease fallback = (case lease_RenewTime lease of
       None \<Rightarrow> return True
     | Some r \<Rightarrow> do { now \<leftarrow> w_now w; return (expiredAt now lease fallback) })"

text \<open>The Lease objects that \<open>create\<close>, \<open>renew\<close> and \<open>takeover\<close> send.\<close>

definition createdLease :: "'s Locker \<Rightarrow> string \<Rightarrow> int \<Rightarrow> Lease" where
  "createdLease l name now =
     \<lparr>lease_meta = objectMeta KontinuumSystemNamespace name,
      lease_HolderIdentity = Some (lk_HolderIdentity l),
      lease_LeaseDurationSeconds = Some (durationSeconds l),
      lease_AcquireTime = Some now, lease_RenewTime = Some now, lease_LeaseTransitions = None\<rparr>"

definition renewedLease :: "'s Locker \<Rightarrow> Lease \<Rightarrow> int \<Rightarrow> Lease" where
  "renewedLease l lease now =
     lease\<lparr>lease_RenewTime := Some now, lease_LeaseDurationSeconds := Some (durationSeconds l)\<rparr>"

definition takenLease :: "'s Locker \<Rightarrow> Lease \<Rightarrow> int \<Rightarrow> Lease" where
  "takenLease l lease now =
     (let transitions = (case lease_LeaseTransitions lease of None \<Rightarrow> 1 | Some n \<Rightarrow> n + 1)
      in lease\<lparr>lease_HolderIdentity := Some (lk_HolderIdentity l),
               lease_LeaseDurationSeconds := Some (durationSeconds l),
               lease_AcquireTime := Some now, lease_RenewTime := Some now,
               lease_LeaseTransitions := Some transitions\<rparr>)"

definition ensureNamespace :: "'s Locker \<Rightarrow> ('s, goerr option) state" where
  "ensureNamespace l = do {
     r \<leftarrow> kcreate (cl_Namespace (lk_Client l)) (namespaceObj KontinuumSystemNamespace);
     (case r of
        Inl err \<Rightarrow> if isAlreadyExists err then return None
          else return (Some (Errorf ''failed to ensure %q namespace: %w'' [KontinuumSystemNamespace] [err]))
      | Inr _ \<Rightarrow> return None)
   }"

definition create :: "'s world \<Rightarrow> 's Locker \<Rightarrow> string \<Rightarrow> ('s, goerr + bool) state" where
  "create w l name = do {
     e \<leftarrow> ensureNamespace l;
     (case e of
        Some err \<Rightarrow> return (Inl err)
      | None \<Rightarrow> do {
          now \<leftarrow> w_now w;
          r \<leftarrow> kcreate (cl_Lease (lk_Client l)) (createdLease l name now);
          (case r of
             Inl err \<Rightarrow> if isAlreadyExists err then return (Inr False)
               else return (Inl (Errorf ''failed to create zone lease %q: %w'' [name] [err]))
           | Inr _ \<Rightarrow> return (Inr True))
        })
   }"

definition renew :: "'s world \<Rightarrow> 's Locker \<Rightarrow> Lease \<Rightarrow> ('s, goerr + bool) state" where
  "renew w l lease = do {
     now \<leftarrow> w_now w;
     r \<leftarrow> kupdate (cl_Lease (lk_Client l)) (renewedLease l lease now);
     (case r of
        Inl err \<Rightarrow> if isConflict err then return (Inr False)
          else return (Inl (Errorf ''failed to renew zone lease %q: %w'' [om_Name (lease_meta lease)] [err]))
      | Inr _ \<Rightarrow> return (Inr True))
   }"

definition takeover :: "'s world \<Rightarrow> 's Locker \<Rightarrow> Lease \<Rightarrow> ('s, goerr + bool) state" where
  "takeover w l lease = do {
     now \<leftarrow> w_now w;
     r \<leftarrow> kupdate (cl_Lease (lk_Client l)) (takenLease l lease now);
     (case r of
        Inl err \<Rightarrow> if isConflict err then return (Inr False)
          else return (Inl (Errorf ''failed to take over zone lease %q: %w'' [om_Name (lease_meta lease)] [err]))
      | Inr _ \<Rightarrow> return (Inr True))
   }"

definition TryAcquire :: "'s world \<Rightarrow> 's Locker \<Rightarrow> string \<Rightarrow> ('s, goerr + bool) state" where
  "TryAcquire w l zoneKey =
     (if lk_SelfZoneKey l \<noteq> '''' \<and> (zoneKey = GlobalKey \<or> zoneKey = lk_SelfZoneKey l)
      then return (Inr False)
      else do {
        let name = leaseName zoneKey;
        r \<leftarrow> kget (cl_Lease (lk_Reader l)) (KontinuumSystemNamespace, name);
        (case r of
           Inl err \<Rightarrow> if isNotFound err then create w l name
             else return (Inl (Errorf ''failed to get zone lease %q: %w'' [name] [err]))
         | Inr lease \<Rightarrow>
             if holderIdentity lease = lk_HolderIdentity l then renew w l lease
             else do {
               x \<leftarrow> expired w lease (lk_LeaseDuration l);
               if \<not> x then return (Inr False) else takeover w l lease
             })
      })"

definition Jitter :: "'s world \<Rightarrow> int \<Rightarrow> ('s, int) state" where
  "Jitter w base =
     (if base \<le> 0 then return base
      else do {
        let half = quot base 2;
        r \<leftarrow> w_rand w (half + 1);
        return (half + r)
      })"

section \<open>The contract the controllers rely on\<close>

text \<open>
  A gate hands out permission to reconcile a key.  A process that is itself a zone is
  never let through for its own key nor for hub-owned state, and the refusal touches
  nothing: what follows the call sees the world as it was.
\<close>

locale zone_gate =
  fixes acquire :: "string \<Rightarrow> ('s, goerr + bool) state"
    and self :: string
  assumes refuses: "self \<noteq> '''' \<Longrightarrow> k = GlobalKey \<or> k = self \<Longrightarrow> acquire k = return (Inr False)"
begin

lemma refused_bind:
  assumes "self \<noteq> ''''" and "k = GlobalKey \<or> k = self"
  shows "State_Monad.bind (acquire k) f = f (Inr False)"
  using refuses [OF assms] by simp

lemma refused_untouched:
  assumes "self \<noteq> ''''" and "k = GlobalKey \<or> k = self"
    and "\<And>s. state_after (f (Inr False)) s = s"
  shows "state_after (State_Monad.bind (acquire k) f) s = s"
  using refused_bind [OF assms(1,2)] assms(3) by metis

end

interpretation locker: zone_gate "TryAcquire w l" "lk_SelfZoneKey l" for w l
  by unfold_locales (auto simp: TryAcquire_def)

section \<open>What a call touches\<close>

text \<open>The calls the locker makes; a state predicate they keep is kept by \<open>TryAcquire\<close>.\<close>

definition locker_calls_leave :: "('s \<Rightarrow> bool) \<Rightarrow> 's world \<Rightarrow> 's Locker \<Rightarrow> bool" where
  "locker_calls_leave I w l \<longleftrightarrow> leaves I (w_now w) \<and> (\<forall>n. leaves I (w_rand w n)) \<and>
     (\<forall>k. leaves I (kget (cl_Lease (lk_Reader l)) k)) \<and>
     (\<forall>x. leaves I (kcreate (cl_Lease (lk_Client l)) x)) \<and>
     (\<forall>x. leaves I (kupdate (cl_Lease (lk_Client l)) x)) \<and>
     (\<forall>x. leaves I (kcreate (cl_Namespace (lk_Client l)) x))"

lemma TryAcquire_leaves [leaves_rules]:
  assumes "locker_calls_leave I w l"
  shows "leaves I (TryAcquire w l key)"
  using assms unfolding TryAcquire_def create_def renew_def takeover_def expired_def ensureNamespace_def
    locker_calls_leave_def
  by (auto intro!: leaves_rules)

lemma Jitter_leaves [leaves_rules]:
  assumes "locker_calls_leave I w l"
  shows "leaves I (Jitter w d)"
  using assms unfolding Jitter_def locker_calls_leave_def by (auto intro!: leaves_rules)

section \<open>One call of TryAcquire\<close>

text \<open>What the server keeps of a Lease apart from the metadata it assigns.\<close>

definition leaseBody :: "Lease \<Rightarrow> string option \<times> int32 option \<times> int option \<times> int option \<times> int32 option" where
  "leaseBody x = (lease_HolderIdentity x, lease_LeaseDurationSeconds x, lease_AcquireTime x,
     lease_RenewTime x, lease_LeaseTransitions x)"

text \<open>
  The decision of one call: from the Lease that was read, the time \<open>t1\<close> of the expiry
  check and the time \<open>t2\<close> stamped on the write, the Lease it tries to write, if any.
\<close>

definition attempt :: "'s Locker \<Rightarrow> string \<Rightarrow> Lease option \<Rightarrow> int \<Rightarrow> int \<Rightarrow> Lease option" where
  "attempt l name cur t1 t2 = (case cur of
       None \<Rightarrow> Some (createdLease l name t2)
     | Some lease \<Rightarrow>
         if holderIdentity lease = lk_HolderIdentity l then Some (renewedLease l lease t2)
         else if expiredAt t1 lease (lk_LeaseDuration l) then Some (takenLease l lease t2)
         else None)"

text \<open>
  Assumptions on the world for one call: the Lease client and the uncached reader are the
  same compare-and-swap store, neither the clock nor the namespace call touches it, and
  the clock never runs backwards (\<open>clk s\<close> is the time in state \<open>s\<close>).
\<close>

definition lease_world :: "'s world \<Rightarrow> 's Locker \<Rightarrow> ('s \<Rightarrow> ObjectKey \<rightharpoonup> Lease) \<Rightarrow> ('s \<Rightarrow> int) \<Rightarrow> bool" where
  "lease_world w l view clk \<longleftrightarrow>
     cas_store (cl_Lease (lk_Client l)) lease_meta leaseBody view \<and>
     cas_store (cl_Lease (lk_Reader l)) lease_meta leaseBody view \<and>
     (\<forall>s k x. view s k = Some x \<longrightarrow> keyOf (lease_meta x) = k) \<and>
     (\<forall>s. view (state_after (w_now w) s) = view s) \<and>
     (\<forall>x s. view (state_after (kcreate (cl_Namespace (lk_Client l)) x) s) = view s) \<and>
     (\<forall>s. clk s \<le> result_of (w_now w) s \<and> result_of (w_now w) s \<le> clk (state_after (w_now w) s)) \<and>
     (\<forall>k. clock_mono clk (kget (cl_Lease (lk_Reader l)) k)) \<and>
     (\<forall>x. clock_mono clk (kcreate (cl_Lease (lk_Client l)) x)) \<and>
     (\<forall>x. clock_mono clk (kupdate (cl_Lease (lk_Client l)) x)) \<and>
     (\<forall>x. clock_mono clk (kcreate (cl_Namespace (lk_Client l)) x))"

lemma lease_worldD:
  assumes "lease_world w l view clk"
  shows "cas_store (cl_Lease (lk_Client l)) lease_meta leaseBody view"
    and "cas_store (cl_Lease (lk_Reader l)) lease_meta leaseBody view"
    and "view s k = Some x \<Longrightarrow> keyOf (lease_meta x) = k"
    and "view (state_after (w_now w) s) = view s"
    and "view (state_after (kcreate (cl_Namespace (lk_Client l)) y) s) = view s"
  using assms unfolding lease_world_def by blast+

lemma lease_world_clock:
  assumes "lease_world w l view clk"
  shows "run_state (w_now w) s = (now, t) \<Longrightarrow> clk s \<le> now \<and> now \<le> clk t"
    and "run_state (kget (cl_Lease (lk_Reader l)) k) s = (a, t) \<Longrightarrow> clk s \<le> clk t"
    and "run_state (kcreate (cl_Lease (lk_Client l)) x) s = (a, t) \<Longrightarrow> clk s \<le> clk t"
    and "run_state (kupdate (cl_Lease (lk_Client l)) x) s = (a, t) \<Longrightarrow> clk s \<le> clk t"
    and "run_state (kcreate (cl_Namespace (lk_Client l)) y) s = (b, t) \<Longrightarrow> clk s \<le> clk t"
  using assms unfolding lease_world_def clock_mono_def by (metis fst_conv snd_conv)+

lemma created_key [simp]:
  "keyOf (lease_meta (createdLease l name t)) = (KontinuumSystemNamespace, name)"
  by (simp add: createdLease_def)

lemma renewed_meta [simp]: "lease_meta (renewedLease l x t) = lease_meta x"
  by (simp add: renewedLease_def)

lemma taken_meta [simp]: "lease_meta (takenLease l x t) = lease_meta x"
  by (simp add: takenLease_def Let_def)

lemma attempt_holder:
  "attempt l name cur t1 t2 = Some x \<Longrightarrow> holderIdentity x = lk_HolderIdentity l"
  by (auto simp: attempt_def createdLease_def renewedLease_def takenLease_def holderIdentity_def Let_def
      split: option.splits if_splits)

lemma attempt_renewTime: "attempt l name cur t1 t2 = Some x \<Longrightarrow> lease_RenewTime x = Some t2"
  by (auto simp: attempt_def createdLease_def renewedLease_def takenLease_def Let_def
      split: option.splits if_splits)

lemma attempt_duration:
  "attempt l name cur t1 t2 = Some x \<Longrightarrow> lease_LeaseDurationSeconds x = Some (durationSeconds l)"
  by (auto simp: attempt_def createdLease_def renewedLease_def takenLease_def Let_def
      split: option.splits if_splits)

lemmas attempt_fields = attempt_holder attempt_renewTime attempt_duration

lemma ensureNamespace_view:
  assumes w: "lease_world w l view clk" and r: "run_state (ensureNamespace l) s = (e, t)"
  shows "view t = view s \<and> clk s \<le> clk t"
  using r lease_worldD(5) [OF w, of "namespaceObj KontinuumSystemNamespace" s]
    lease_world_clock(5) [OF w, of "namespaceObj KontinuumSystemNamespace" s]
  by (auto simp: ensureNamespace_def split: prod.splits sum.splits if_splits)

lemma create_acquired:
  assumes w: "lease_world w l view clk" and r: "run_state (create w l name) s = (Inr True, t)"
  shows "view s (KontinuumSystemNamespace, name) = None \<and>
    (\<exists>now y. clk s \<le> now \<and> now \<le> clk t \<and> view t = (view s)((KontinuumSystemNamespace, name) \<mapsto> y) \<and>
             leaseBody y = leaseBody (createdLease l name now))"
proof -
  obtain s1 where e: "run_state (ensureNamespace l) s = (None, s1)"
    using r by (auto simp: create_def split: prod.splits option.splits)
  obtain now s2 where n: "run_state (w_now w) s1 = (now, s2)" by fastforce
  obtain y where c: "run_state (kcreate (cl_Lease (lk_Client l)) (createdLease l name now)) s2 = (Inr y, t)"
    using r e n by (auto simp: create_def split: prod.splits option.splits sum.splits if_splits)
  have v: "view s2 = view s" using lease_worldD(4) [OF w, of s1] n ensureNamespace_view [OF w e] by simp
  have "clk s \<le> now" "now \<le> clk t"
    using ensureNamespace_view [OF w e] lease_world_clock(1) [OF w n] lease_world_clock(3) [OF w c] by auto
  moreover have "view s2 (KontinuumSystemNamespace, name) = None"
    "leaseBody y = leaseBody (createdLease l name now)"
    "view t = (view s2)((KontinuumSystemNamespace, name) \<mapsto> y)"
    using cas_store_create(1-3) [OF lease_worldD(1) [OF w], of "createdLease l name now" s2 y] c by simp_all
  ultimately show ?thesis using v by metis
qed

text \<open>The clock reading and the update that \<open>renew\<close> and \<open>takeover\<close> make, in one lemma.\<close>

lemma lease_update_acquired:
  assumes w: "lease_world w l view clk" and v: "view s k = Some lease"
    and n: "run_state (w_now w) s = (now, s1)" and m: "lease_meta new = lease_meta lease"
    and r: "run_state (kupdate (cl_Lease (lk_Client l)) new) s1 = (Inr y, t)"
  shows "clk s \<le> now \<and> now \<le> clk t \<and> view t = (view s)(k \<mapsto> y) \<and> leaseBody y = leaseBody new"
  using cas_store_update(2,4) [OF lease_worldD(1) [OF w], of new s1 y] r lease_worldD(3) [OF w v] m
    lease_worldD(4) [OF w, of s] n lease_world_clock(1) [OF w n] lease_world_clock(4) [OF w r]
  by auto

lemma renew_acquired:
  assumes w: "lease_world w l view clk" and v: "view s k = Some lease"
    and r: "run_state (renew w l lease) s = (Inr True, t)"
  shows "\<exists>now y. clk s \<le> now \<and> now \<le> clk t \<and> view t = (view s)(k \<mapsto> y) \<and>
           leaseBody y = leaseBody (renewedLease l lease now)"
proof -
  obtain now s1 where n: "run_state (w_now w) s = (now, s1)" by fastforce
  obtain y where "run_state (kupdate (cl_Lease (lk_Client l)) (renewedLease l lease now)) s1 = (Inr y, t)"
    using r n by (auto simp: renew_def split: prod.splits sum.splits if_splits)
  with lease_update_acquired [OF w v n renewed_meta] show ?thesis by blast
qed

lemma takeover_acquired:
  assumes w: "lease_world w l view clk" and v: "view s k = Some lease"
    and r: "run_state (takeover w l lease) s = (Inr True, t)"
  shows "\<exists>now y. clk s \<le> now \<and> now \<le> clk t \<and> view t = (view s)(k \<mapsto> y) \<and>
           leaseBody y = leaseBody (takenLease l lease now)"
proof -
  obtain now s1 where n: "run_state (w_now w) s = (now, s1)" by fastforce
  obtain y where "run_state (kupdate (cl_Lease (lk_Client l)) (takenLease l lease now)) s1 = (Inr y, t)"
    using r n by (auto simp: takeover_def split: prod.splits sum.splits if_splits)
  with lease_update_acquired [OF w v n taken_meta] show ?thesis by blast
qed

lemma expired_run:
  assumes w: "lease_world w l view clk" and r: "run_state (expired w lease d) s = (x, t)"
  shows "view t = view s \<and> (\<exists>t1. clk s \<le> t1 \<and> t1 \<le> clk t \<and> x = expiredAt t1 lease d)"
proof (cases "lease_RenewTime lease")
  case None
  with r show ?thesis by (auto simp: expired_def expiredAt_def)
next
  case (Some r')
  obtain now s1 where n: "run_state (w_now w) s = (now, s1)" by fastforce
  with r Some have "x = expiredAt now lease d" "t = s1" by (auto simp: expired_def)
  with lease_worldD(4) [OF w, of s] lease_world_clock(1) [OF w n] n show ?thesis by auto
qed

lemma TryAcquire_attempt:
  assumes w: "lease_world w l view clk"
    and r: "run_state (TryAcquire w l zoneKey) s = (Inr True, t)"
  shows "\<exists>t1 t2 new y. clk s \<le> t1 \<and> t1 \<le> t2 \<and> t2 \<le> clk t \<and>
           attempt l (leaseName zoneKey) (view s (KontinuumSystemNamespace, leaseName zoneKey)) t1 t2 = Some new \<and>
           view t = (view s)((KontinuumSystemNamespace, leaseName zoneKey) \<mapsto> y) \<and>
           leaseBody y = leaseBody new"
proof -
  let ?k = "(KontinuumSystemNamespace, leaseName zoneKey)"
  obtain g s1 where g: "run_state (kget (cl_Lease (lk_Reader l)) ?k) s = (g, s1)" by fastforce
  have v1: "view s1 = view s" using cas_store_get(1) [OF lease_worldD(2) [OF w], of ?k s] g by simp
  note c1 = lease_world_clock(2) [OF w g]
  show ?thesis
  proof (cases g)
    case (Inl err)
    with r g have nf: "isNotFound err" and c: "run_state (create w l (leaseName zoneKey)) s1 = (Inr True, t)"
      by (auto simp: TryAcquire_def Let_def split: if_splits)
    have "view s ?k = None"
      using cas_store_get(3) [OF lease_worldD(2) [OF w], of ?k s err] g Inl nf by simp
    moreover obtain now y where "clk s1 \<le> now" "now \<le> clk t"
      "view t = (view s1)(?k \<mapsto> y)" "leaseBody y = leaseBody (createdLease l (leaseName zoneKey) now)"
      using create_acquired [OF w c] by blast
    ultimately show ?thesis using v1 c1
      by (intro exI [of _ now] exI [of _ "createdLease l (leaseName zoneKey) now"] exI [of _ y])
        (simp add: attempt_def)
  next
    case (Inr lease)
    have v: "view s ?k = Some lease"
      using cas_store_get(2) [OF lease_worldD(2) [OF w], of ?k s lease] g Inr by simp
    show ?thesis
    proof (cases "holderIdentity lease = lk_HolderIdentity l")
      case True
      with r g Inr have "run_state (renew w l lease) s1 = (Inr True, t)"
        by (auto simp: TryAcquire_def Let_def split: if_splits)
      then obtain now y where "clk s1 \<le> now" "now \<le> clk t"
        "view t = (view s1)(?k \<mapsto> y)" "leaseBody y = leaseBody (renewedLease l lease now)"
        using renew_acquired [OF w, of s1 ?k lease t] v v1 by auto
      then show ?thesis using v v1 c1 True
        by (intro exI [of _ now] exI [of _ "renewedLease l lease now"] exI [of _ y])
          (simp add: attempt_def)
    next
      case False
      obtain x s2 where e: "run_state (expired w lease (lk_LeaseDuration l)) s1 = (x, s2)" by fastforce
      from expired_run [OF w e] obtain t1 where t1: "x = expiredAt t1 lease (lk_LeaseDuration l)"
        "clk s1 \<le> t1" "t1 \<le> clk s2" and v2: "view s2 = view s1" by blast
      from r g Inr False e have x and "run_state (takeover w l lease) s2 = (Inr True, t)"
        by (auto simp: TryAcquire_def Let_def split: if_splits)
      then obtain now y where "clk s2 \<le> now" "now \<le> clk t"
        "view t = (view s2)(?k \<mapsto> y)" "leaseBody y = leaseBody (takenLease l lease now)"
        using takeover_acquired [OF w, of s2 ?k lease t] v v1 v2 by auto
      then show ?thesis using v v1 v2 c1 t1 \<open>x\<close> False
        by (intro exI [of _ t1] exI [of _ now] exI [of _ "takenLease l lease now"] exI [of _ y])
          (simp add: attempt_def)
    qed
  qed
qed

section \<open>The protocol of several processes on one Lease\<close>

text \<open>
  The world of one Lease: what the server stores, the time, and for every process the
  point it has reached in \<open>TryAcquire\<close>.  A process fetches the Lease, later decides
  what to write from the copy it fetched, and later commits; the commit succeeds only
  when the stored Lease is still the fetched one.  Between any two of these steps every
  other process may step and time may pass.  \<open>lw_log\<close> records the Leases committed so
  far, newest first: one entry per \<open>TryAcquire\<close> that returned true.
\<close>

datatype phase = Idle | Fetched "Lease option" | Deciding "Lease option" Lease

record lockworld =
  lw_cur :: "Lease option"
  lw_clk :: int
  lw_phase :: "string \<Rightarrow> phase"
  lw_log :: "Lease list"

definition lock_init :: "int \<Rightarrow> lockworld" where
  "lock_init t = \<lparr>lw_cur = None, lw_clk = t, lw_phase = (\<lambda>_. Idle), lw_log = []\<rparr>"

inductive lock_step :: "(string \<Rightarrow> 's Locker) \<Rightarrow> string \<Rightarrow> lockworld \<Rightarrow> lockworld \<Rightarrow> bool"
  for L :: "string \<Rightarrow> 's Locker" and name :: string where
  tick: "lw_clk w \<le> t \<Longrightarrow> lock_step L name w (w\<lparr>lw_clk := t\<rparr>)"
| fetch: "lock_step L name w (w\<lparr>lw_phase := (lw_phase w)(h := Fetched (lw_cur w))\<rparr>)"
| decide: "lw_phase w h = Fetched snap \<Longrightarrow> lw_clk w \<le> t \<Longrightarrow>
     attempt (L h) name snap (lw_clk w) t = Some new \<Longrightarrow>
     lock_step L name w (w\<lparr>lw_clk := t, lw_phase := (lw_phase w)(h := Deciding snap new)\<rparr>)"
| refuse: "lw_phase w h = Fetched snap \<Longrightarrow> attempt (L h) name snap (lw_clk w) (lw_clk w) = None \<Longrightarrow>
     lock_step L name w (w\<lparr>lw_phase := (lw_phase w)(h := Idle)\<rparr>)"
| commit: "lw_phase w h = Deciding snap new \<Longrightarrow> lw_cur w = snap \<Longrightarrow>
     lock_step L name w (w\<lparr>lw_cur := Some new, lw_log := new # lw_log w,
       lw_phase := (lw_phase w)(h := Idle)\<rparr>)"
| conflict: "lw_phase w h = Deciding snap new \<Longrightarrow> lw_cur w \<noteq> snap \<Longrightarrow>
     lock_step L name w (w\<lparr>lw_phase := (lw_phase w)(h := Idle)\<rparr>)"
| crash: "lock_step L name w (w\<lparr>lw_phase := (lw_phase w)(h := Idle)\<rparr>)"

inductive lock_reach :: "(string \<Rightarrow> 's Locker) \<Rightarrow> string \<Rightarrow> lockworld \<Rightarrow> bool"
  for L :: "string \<Rightarrow> 's Locker" and name :: string where
  start: "lock_reach L name (lock_init t)"
| step: "lock_reach L name w \<Longrightarrow> lock_step L name w w' \<Longrightarrow> lock_reach L name w'"

inductive_cases lock_stepE: "lock_step L name w w'"

text \<open>Every process runs with the same lease duration of \<open>d\<close> whole seconds.\<close>

definition uniform_duration :: "(string \<Rightarrow> 's Locker) \<Rightarrow> int \<Rightarrow> bool" where
  "uniform_duration L d \<longleftrightarrow> 0 \<le> d \<and> d < 2 ^ 31 \<and> (\<forall>h. lk_LeaseDuration (L h) = d * second)"

definition renewed_at :: "Lease \<Rightarrow> int" where
  "renewed_at x = (case lease_RenewTime x of None \<Rightarrow> 0 | Some r \<Rightarrow> r)"

text \<open>\<open>later d new old\<close>: the order any two acquisitions stand in.\<close>

definition later :: "int \<Rightarrow> Lease \<Rightarrow> Lease \<Rightarrow> bool" where
  "later d new old \<longleftrightarrow> renewed_at old \<le> renewed_at new \<and>
     (holderIdentity new \<noteq> holderIdentity old \<longrightarrow> renewed_at old + d * second < renewed_at new)"

definition lease_wf :: "int \<Rightarrow> int \<Rightarrow> Lease \<Rightarrow> bool" where
  "lease_wf d now x \<longleftrightarrow> lease_LeaseDurationSeconds x = Some (word_of_int d) \<and>
     (\<exists>r. lease_RenewTime x = Some r \<and> r \<le> now)"

fun phase_ok :: "int \<Rightarrow> int \<Rightarrow> phase \<Rightarrow> bool" where
  "phase_ok d now Idle = True"
| "phase_ok d now (Fetched None) = True"
| "phase_ok d now (Fetched (Some x)) = lease_wf d now x"
| "phase_ok d now (Deciding None new) = lease_wf d now new"
| "phase_ok d now (Deciding (Some x) new) = (lease_wf d now new \<and> later d new x)"

definition lock_inv :: "int \<Rightarrow> lockworld \<Rightarrow> bool" where
  "lock_inv d w \<longleftrightarrow> lw_cur w = (case lw_log w of [] \<Rightarrow> None | x # _ \<Rightarrow> Some x) \<and>
     list_all (lease_wf d (lw_clk w)) (lw_log w) \<and> sorted_wrt (later d) (lw_log w) \<and>
     (\<forall>h. phase_ok d (lw_clk w) (lw_phase w h))"

lemma sint_duration: "0 \<le> d \<Longrightarrow> d < 2 ^ 31 \<Longrightarrow> sint (word_of_int d :: int32) = d"
  by (simp add: sint_sbintrunc' signed_take_bit_int_eq_self)

lemma durationSeconds_uniform: "uniform_duration L d \<Longrightarrow> durationSeconds (L h) = word_of_int d"
  by (simp add: uniform_duration_def durationSeconds_def second_def)

lemma lease_wf_mono: "lease_wf d now x \<Longrightarrow> now \<le> t \<Longrightarrow> lease_wf d t x"
  by (auto simp: lease_wf_def)

lemma phase_ok_mono: "phase_ok d now p \<Longrightarrow> now \<le> t \<Longrightarrow> phase_ok d t p"
  by (induction d now p rule: phase_ok.induct) (auto intro: lease_wf_mono)

lemma later_trans: "later d a b \<Longrightarrow> later d b c \<Longrightarrow> 0 \<le> d \<Longrightarrow> later d a c"
  by (auto simp: later_def second_def)

lemma attempt_wf:
  assumes "uniform_duration L d" and "attempt (L h) name snap t1 t2 = Some new"
  shows "lease_wf d t2 new"
  using attempt_fields(2,3) [OF assms(2)] durationSeconds_uniform [OF assms(1)]
  by (simp add: lease_wf_def)

lemma attempt_later:
  assumes u: "uniform_duration L d" and a: "attempt (L h) name (Some x) t1 t2 = Some new"
    and x: "lease_wf d t1 x" and t: "t1 \<le> t2"
  shows "later d new x"
proof -
  have "0 \<le> d" "d < 2 ^ 31" using u by (simp_all add: uniform_duration_def)
  with x obtain r where r: "lease_RenewTime x = Some r" "r \<le> t1"
    and d: "lease_LeaseDurationSeconds x = Some (word_of_int d)" "sint (word_of_int d :: int32) = d"
    using sint_duration by (auto simp: lease_wf_def)
  have new: "renewed_at new = t2" using attempt_fields(2) [OF a] by (simp add: renewed_at_def)
  show ?thesis
  proof (cases "holderIdentity x = lk_HolderIdentity (L h)")
    case True
    with attempt_fields(1) [OF a] r t new show ?thesis by (simp add: later_def renewed_at_def)
  next
    case False
    with a have "expiredAt t1 x (lk_LeaseDuration (L h))" by (simp add: attempt_def split: if_splits)
    with r d t new show ?thesis by (simp add: later_def renewed_at_def expiredAt_def)
  qed
qed

lemma lock_inv_init: "lock_inv d (lock_init t)"
  by (simp add: lock_inv_def lock_init_def)

lemma phases_mono:
  "\<forall>h. phase_ok d (lw_clk w) (lw_phase w h) \<Longrightarrow> lw_clk w \<le> t \<Longrightarrow> \<forall>h. phase_ok d t (lw_phase w h)"
  by (blast intro: phase_ok_mono)

lemma log_mono:
  "list_all (lease_wf d (lw_clk w)) xs \<Longrightarrow> lw_clk w \<le> t \<Longrightarrow> list_all (lease_wf d t) xs"
  by (auto simp: list_all_iff intro: lease_wf_mono)

lemma lock_step_inv:
  assumes u: "uniform_duration L d" and s: "lock_step L name w w'" and i: "lock_inv d w"
  shows "lock_inv d w'"
  using s
proof (cases rule: lock_step.cases)
  case (tick t)
  with i show ?thesis by (auto simp: lock_inv_def intro: log_mono dest: phases_mono)
next
  case (fetch h)
  have "phase_ok d (lw_clk w) (Fetched (lw_cur w))"
    using i by (auto simp: lock_inv_def split: list.splits)
  with i fetch show ?thesis by (simp add: lock_inv_def)
next
  case (decide h snap t new)
  have "phase_ok d t (Deciding snap new)"
  proof (cases snap)
    case None
    with attempt_wf [OF u decide(4)] show ?thesis by simp
  next
    case (Some x)
    with i decide(2) have "lease_wf d (lw_clk w) x" by (auto simp: lock_inv_def dest!: spec [of _ h])
    with attempt_later [OF u, of h name x] attempt_wf [OF u decide(4)] decide Some show ?thesis by auto
  qed
  with i decide show ?thesis by (auto simp: lock_inv_def intro: log_mono dest: phases_mono)
next
  case (commit h snap new)
  have p: "phase_ok d (lw_clk w) (Deciding snap new)"
    using i commit(2) by (auto simp: lock_inv_def dest: spec [of _ h])
  then have wf: "lease_wf d (lw_clk w) new" by (cases snap) auto
  have "list_all (later d new) (lw_log w)"
  proof (cases "lw_log w")
    case (Cons x xs)
    with i commit(3) p have "later d new x" by (auto simp: lock_inv_def)
    moreover from i Cons have "list_all (later d x) xs" by (auto simp: lock_inv_def list_all_iff)
    ultimately show ?thesis
      using Cons u by (auto simp: list_all_iff uniform_duration_def intro: later_trans)
  qed simp
  with i commit wf show ?thesis by (auto simp: lock_inv_def list_all_iff)
qed (use i in \<open>auto simp: lock_inv_def\<close>)

lemma lock_reach_inv: "uniform_duration L d \<Longrightarrow> lock_reach L name w \<Longrightarrow> lock_inv d w"
  by (rotate_tac, induction rule: lock_reach.induct) (auto intro: lock_inv_init lock_step_inv)

section \<open>Properties\<close>

text \<open>
  C1: Mutual exclusion.  However the fetches, decisions and writes of any number of
  processes interleave on one Lease, two acquisitions by different holders are separated
  by more than the lease duration: no other process acquires the lock while a lease that
  was granted is still running.
\<close>

theorem lease_mutual_exclusion:
  assumes "uniform_duration L d" and "lock_reach L name w"
    and "i < j" and "j < length (lw_log w)"
    and "holderIdentity (lw_log w ! i) \<noteq> holderIdentity (lw_log w ! j)"
  shows "renewed_at (lw_log w ! j) + d * second < renewed_at (lw_log w ! i)"
proof -
  have "sorted_wrt (later d) (lw_log w)"
    using lock_reach_inv [OF assms(1,2)] by (simp add: lock_inv_def)
  then have "later d (lw_log w ! i) (lw_log w ! j)"
    using assms(3,4) by (simp add: sorted_wrt_iff_nth_less)
  with assms(5) show ?thesis by (simp add: later_def)
qed

definition demo_locker :: "string \<Rightarrow> unit Locker" where
  "demo_locker h = NewLocker down_client down_client h '''' 0"

definition demo_lease_a :: Lease where
  "demo_lease_a = createdLease (demo_locker ''a'') ''zonelock-z'' 5"

definition demo_lease_b :: Lease where
  "demo_lease_b = takenLease (demo_locker ''b'') demo_lease_a (60 * second)"

text \<open>A run in which \<open>a\<close> acquires the Lease at time 5 and \<open>b\<close> takes it over a minute later.\<close>

definition demo_world :: lockworld where
  "demo_world = \<lparr>lw_cur = Some demo_lease_b, lw_clk = 60 * second,
     lw_phase = (\<lambda>_. Idle), lw_log = [demo_lease_b, demo_lease_a]\<rparr>"

lemma demo_uniform: "uniform_duration demo_locker 45"
  by (simp add: uniform_duration_def demo_locker_def NewLocker_def defaultLeaseDuration_def)

lemma demo_attempt_a: "attempt (demo_locker ''a'') ''zonelock-z'' None 5 5 = Some demo_lease_a"
  by (simp add: attempt_def demo_lease_a_def)

lemma demo_attempt_b:
  "attempt (demo_locker ''b'') ''zonelock-z'' (Some demo_lease_a) (60 * second) (60 * second) = Some demo_lease_b"
proof -
  have "sint (durationSeconds (demo_locker ''a'')) = 45"
    using durationSeconds_uniform [OF demo_uniform] by simp
  then show ?thesis
    by (simp add: attempt_def demo_lease_b_def expiredAt_def demo_lease_a_def createdLease_def
        holderIdentity_def demo_locker_def NewLocker_def second_def)
qed

lemma demo_reach: "lock_reach demo_locker ''zonelock-z'' demo_world"
proof -
  let ?L = demo_locker and ?n = "''zonelock-z''" and ?I = "\<lambda>_::string. Idle"
  let ?w = "\<lambda>c t p g. \<lparr>lw_cur = c, lw_clk = t, lw_phase = p, lw_log = g\<rparr>"
  note step = lock_reach.step [where L = ?L and name = ?n]
  have "lock_reach ?L ?n (?w None 5 ?I [])"
    using lock_reach.start [of ?L ?n 5] by (simp add: lock_init_def)
  then have "lock_reach ?L ?n (?w None 5 (?I(''a'' := Fetched None)) [])"
    by (rule step) (use lock_step.fetch [of ?L ?n "?w None 5 ?I []" "''a''"] in simp)
  then have "lock_reach ?L ?n (?w None 5 (?I(''a'' := Deciding None demo_lease_a)) [])"
    by (rule step) (use lock_step.decide [of "?w None 5 (?I(''a'' := Fetched None)) []"
          "''a''" None 5 ?L ?n demo_lease_a] demo_attempt_a in \<open>simp\<close>)
  then have "lock_reach ?L ?n (?w (Some demo_lease_a) 5 ?I [demo_lease_a])"
    by (rule step) (use lock_step.commit [of "?w None 5 (?I(''a'' := Deciding None demo_lease_a)) []"
          "''a''" None demo_lease_a ?L ?n] in \<open>simp add: fun_upd_idem\<close>)
  then have "lock_reach ?L ?n (?w (Some demo_lease_a) (60 * second) ?I [demo_lease_a])"
    by (rule step) (use lock_step.tick [of "?w (Some demo_lease_a) 5 ?I [demo_lease_a]" "60 * second" ?L ?n]
        in \<open>simp add: second_def\<close>)
  then have "lock_reach ?L ?n (?w (Some demo_lease_a) (60 * second) (?I(''b'' := Fetched (Some demo_lease_a))) [demo_lease_a])"
    by (rule step) (use lock_step.fetch [of ?L ?n "?w (Some demo_lease_a) (60 * second) ?I [demo_lease_a]" "''b''"] in simp)
  then have "lock_reach ?L ?n (?w (Some demo_lease_a) (60 * second)
      (?I(''b'' := Deciding (Some demo_lease_a) demo_lease_b)) [demo_lease_a])"
    by (rule step) (use lock_step.decide [of "?w (Some demo_lease_a) (60 * second) (?I(''b'' := Fetched (Some demo_lease_a))) [demo_lease_a]"
          "''b''" "Some demo_lease_a" "60 * second" ?L ?n demo_lease_b] demo_attempt_b in \<open>simp\<close>)
  then have "lock_reach ?L ?n (?w (Some demo_lease_b) (60 * second) ?I [demo_lease_b, demo_lease_a])"
    by (rule step) (use lock_step.commit [of "?w (Some demo_lease_a) (60 * second)
          (?I(''b'' := Deciding (Some demo_lease_a) demo_lease_b)) [demo_lease_a]"
          "''b''" "Some demo_lease_a" demo_lease_b ?L ?n] in \<open>simp add: fun_upd_idem\<close>)
  then show ?thesis by (simp add: demo_world_def)
qed

theorem lease_mutual_exclusion_witness:
  "renewed_at (lw_log demo_world ! 1) + 45 * second < renewed_at (lw_log demo_world ! 0)"
proof -
  have "holderIdentity (lw_log demo_world ! 0) \<noteq> holderIdentity (lw_log demo_world ! 1)"
    by (simp add: demo_world_def demo_lease_a_def demo_lease_b_def takenLease_def createdLease_def
        holderIdentity_def demo_locker_def NewLocker_def)
  then show ?thesis
    by (intro lease_mutual_exclusion [OF demo_uniform demo_reach, of 0 1]) (simp_all add: demo_world_def)
qed


definition demo_lease_client :: "Lease memstore client" where
  "demo_lease_client = down_client\<lparr>cl_Lease := mem_client (\<lambda>m x. x\<lparr>lease_meta := m\<rparr>) lease_meta,
     cl_Namespace := down_kclient\<lparr>kcreate := (\<lambda>x. return (Inr x))\<rparr>\<rparr>"

definition demo_mem_locker :: "string \<Rightarrow> Lease memstore Locker" where
  "demo_mem_locker self = NewLocker demo_lease_client demo_lease_client ''hub-1'' self 0"

lemma demo_lease_world:
  "lease_world (still_world now) (demo_mem_locker self) (mem_view lease_meta) (\<lambda>_. now)"
proof -
  have "cas_store (mem_client (\<lambda>m x. x\<lparr>lease_meta := m\<rparr>) lease_meta) lease_meta leaseBody (mem_view lease_meta)"
    by (rule mem_client_cas_store) (simp_all add: leaseBody_def)
  then show ?thesis
    by (auto simp: lease_world_def demo_mem_locker_def NewLocker_def demo_lease_client_def
        clock_mono_def still_world_def dest: mem_view_key)
qed

definition demo_acquired :: "Lease memstore" where
  "demo_acquired = state_after (TryAcquire (still_world 7) (demo_mem_locker '''') ''eu-1'') empty_store"

lemmas demo_lease_simps = TryAcquire_def create_def ensureNamespace_def demo_mem_locker_def NewLocker_def
  demo_lease_client_def still_world_def mem_client_def mem_write_def mem_view_def empty_store_def Let_def

lemma demo_acquire_run:
  "run_state (TryAcquire (still_world 7) (demo_mem_locker '''') ''eu-1'') empty_store = (Inr True, demo_acquired)"
  by (simp add: demo_acquired_def demo_lease_simps prod_eq_iff)


text \<open>
  A zone never reconciles itself.  A process that runs as a zone is refused its own
  zone's key and the key of hub-owned state, whatever the Lease says, and makes no API
  call: the world is exactly as before.
\<close>

theorem TryAcquire_self_refused:
  assumes "lk_SelfZoneKey l \<noteq> ''''" and "key = GlobalKey \<or> key = lk_SelfZoneKey l"
  shows "run_state (TryAcquire w l key) s = (Inr False, s)"
  using locker.refused_bind [OF assms, of w return] by simp

theorem TryAcquire_self_refused_witness:
  "run_state (TryAcquire (still_world 7) (demo_mem_locker ''eu-1'') ''eu-1'') empty_store = (Inr False, empty_store)"
  by (rule TryAcquire_self_refused) (simp_all add: demo_mem_locker_def NewLocker_def)

text \<open>
  An API server that is up: reads answer from the store, and a write whose precondition
  holds is accepted.
\<close>

definition lease_server_up :: "'s Locker \<Rightarrow> ('s \<Rightarrow> ObjectKey \<rightharpoonup> Lease) \<Rightarrow> bool" where
  "lease_server_up l view \<longleftrightarrow>
     (\<forall>k s. result_of (kget (cl_Lease (lk_Reader l)) k) s =
        (case view s k of None \<Rightarrow> Inl (ApiError NotFound) | Some x \<Rightarrow> Inr x)) \<and>
     (\<forall>x s. view s (keyOf (lease_meta x)) = None \<longrightarrow>
        (\<exists>y. result_of (kcreate (cl_Lease (lk_Client l)) x) s = Inr y)) \<and>
     (\<forall>x z s. view s (keyOf (lease_meta x)) = Some z \<and>
        om_ResourceVersion (lease_meta z) = om_ResourceVersion (lease_meta x) \<longrightarrow>
        (\<exists>y. result_of (kupdate (cl_Lease (lk_Client l)) x) s = Inr y)) \<and>
     (\<forall>x s. \<exists>y. result_of (kcreate (cl_Namespace (lk_Client l)) x) s = Inr y)"

lemma lease_server_up_update:
  assumes w: "lease_world w l view clk" and up: "lease_server_up l view" and v: "view s k = Some lease"
    and m: "lease_meta new = lease_meta lease"
  shows "\<exists>y. result_of (kupdate (cl_Lease (lk_Client l)) new) s = Inr y"
  using up v m lease_worldD(3) [OF w v] unfolding lease_server_up_def by metis

lemma renew_succeeds:
  assumes w: "lease_world w l view clk" and up: "lease_server_up l view" and v: "view s k = Some lease"
  shows "result_of (renew w l lease) s = Inr True"
proof -
  obtain now s1 where n: "run_state (w_now w) s = (now, s1)" by fastforce
  then have "view s1 k = Some lease" using lease_worldD(4) [OF w, of s] v by simp
  from lease_server_up_update [OF w up this renewed_meta, of l now] n show ?thesis
    by (auto simp: renew_def split: prod.splits)
qed

lemma takeover_succeeds:
  assumes w: "lease_world w l view clk" and up: "lease_server_up l view" and v: "view s k = Some lease"
  shows "result_of (takeover w l lease) s = Inr True"
proof -
  obtain now s1 where n: "run_state (w_now w) s = (now, s1)" by fastforce
  then have "view s1 k = Some lease" using lease_worldD(4) [OF w, of s] v by simp
  from lease_server_up_update [OF w up this taken_meta, of l now] n show ?thesis
    by (auto simp: takeover_def split: prod.splits)
qed

lemma create_succeeds:
  assumes w: "lease_world w l view clk" and up: "lease_server_up l view"
    and v: "view s (KontinuumSystemNamespace, name) = None"
  shows "result_of (create w l name) s = Inr True"
proof -
  obtain e s1 where e: "run_state (ensureNamespace l) s = (e, s1)" by fastforce
  obtain now s2 where n: "run_state (w_now w) s1 = (now, s2)" by fastforce
  have "\<exists>y. result_of (kcreate (cl_Namespace (lk_Client l)) (namespaceObj KontinuumSystemNamespace)) s = Inr y"
    using up unfolding lease_server_up_def by blast
  with e have "e = None" by (auto simp: ensureNamespace_def split: prod.splits sum.splits)
  moreover have "view s2 (KontinuumSystemNamespace, name) = None"
    using v ensureNamespace_view [OF w e] lease_worldD(4) [OF w, of s1] n by simp
  then have "\<exists>y. result_of (kcreate (cl_Lease (lk_Client l)) (createdLease l name now)) s2 = Inr y"
    using up unfolding lease_server_up_def by (metis created_key)
  ultimately show ?thesis using e n by (auto simp: create_def split: prod.splits)
qed

lemma expiredAt_mono: "expiredAt t x d \<Longrightarrow> t \<le> t' \<Longrightarrow> expiredAt t' x d"
  by (auto simp: expiredAt_def Let_def split: option.splits)

text \<open>
  A free lock is granted.  With the API server up and no other writer, \<open>TryAcquire\<close>
  returns true for every key this process is allowed whenever the Lease does not exist, is
  its own, or has expired: a crashed holder blocks its zone for no longer than its lease.
\<close>

theorem TryAcquire_grants_free:
  fixes l :: "'s Locker"
  assumes w: "lease_world w l view clk" and up: "lease_server_up l view"
    and key: "lk_SelfZoneKey l = '''' \<or> key \<noteq> GlobalKey \<and> key \<noteq> lk_SelfZoneKey l"
    and free: "case view s (KontinuumSystemNamespace, leaseName key) of None \<Rightarrow> True
       | Some x \<Rightarrow> holderIdentity x = lk_HolderIdentity l \<or> expiredAt (clk s) x (lk_LeaseDuration l)"
  shows "result_of (TryAcquire w l key) s = Inr True"
proof -
  let ?k = "(KontinuumSystemNamespace, leaseName key)"
  obtain g s1 where g: "run_state (kget (cl_Lease (lk_Reader l)) ?k) s = (g, s1)" by fastforce
  have v1: "view s1 = view s" using cas_store_get(1) [OF lease_worldD(2) [OF w], of ?k s] g by simp
  have res: "g = (case view s ?k of None \<Rightarrow> Inl (ApiError NotFound) | Some x \<Rightarrow> Inr x)"
    using up g unfolding lease_server_up_def by (metis fst_conv)
  show ?thesis
  proof (cases "view s ?k")
    case None
    with create_succeeds [OF w up, of s1 "leaseName key"] v1 g res key show ?thesis
      by (auto simp: TryAcquire_def Let_def)
  next
    case (Some x)
    obtain b s2 where e: "run_state (expired w x (lk_LeaseDuration l)) s1 = (b, s2)" by fastforce
    from expired_run [OF w e] obtain now where b: "b = expiredAt now x (lk_LeaseDuration l)"
      "clk s1 \<le> now" and v2: "view s2 = view s1" by blast
    have "holderIdentity x \<noteq> lk_HolderIdentity l \<Longrightarrow> b"
      using free Some b lease_world_clock(2) [OF w g] by (auto elim: expiredAt_mono)
    with renew_succeeds [OF w up, of s1 ?k x] takeover_succeeds [OF w up, of s2 ?k x] Some v1 v2 e g res key
    show ?thesis by (auto simp: TryAcquire_def Let_def)
  qed
qed

theorem TryAcquire_grants_free_witness:
  "result_of (TryAcquire (still_world 7) (demo_mem_locker '''') ''eu-1'') empty_store = Inr True"
proof (rule TryAcquire_grants_free [OF demo_lease_world])
  show "lease_server_up (demo_mem_locker '''') (mem_view lease_meta)"
    by (auto simp: lease_server_up_def demo_mem_locker_def NewLocker_def demo_lease_client_def mem_client_def
        mem_write_result split: option.splits)
qed (simp_all add: demo_mem_locker_def NewLocker_def mem_view_def empty_store_def)

text \<open>
  The Lease names of zones never collide: the keys \<open>Key\<close> derives (the global key
  included) are mapped to Lease names one to one, so the global lock is no zone's lock.
\<close>

theorem leaseName_Key_injective:
  "leaseName (Key r z) = leaseName (Key r' z') \<longleftrightarrow> Key r z = Key r' z'"
proof -
  have dash: "CHR ''-'' \<in> set (Key r z)" if "Key r z \<noteq> GlobalKey" for r z
    using that by (auto simp: Key_def split: if_splits)
  have no_global: "Key r z \<noteq> ''global''" for r z
    using dash [of r z] by (cases "Key r z = GlobalKey") (auto simp: GlobalKey_def)
  show ?thesis
    using no_global [of r z] no_global [of r' z'] by (auto simp: leaseName_def globalLeaseName_def)
qed

text \<open>
  A refused caller retries between half its interval and the whole interval later:
  \<open>Jitter\<close> stays within \<open>[base/2, base]\<close> for every draw of the random source.
\<close>

theorem Jitter_bounds:
  assumes "0 < base" and "\<And>n s. 0 < n \<Longrightarrow> 0 \<le> result_of (w_rand w n) s \<and> result_of (w_rand w n) s < n"
  shows "base div 2 \<le> result_of (Jitter w base) s \<and> result_of (Jitter w base) s \<le> base"
proof -
  have "0 \<le> result_of (w_rand w (base div 2 + 1)) s" "result_of (w_rand w (base div 2 + 1)) s < base div 2 + 1"
    using assms(2) [of "base div 2 + 1" s] assms(1) by auto
  with assms(1) show ?thesis by (auto simp: Jitter_def Let_def split: prod.splits)
qed

theorem Jitter_bounds_witness:
  "(30 * second) div 2 \<le> result_of (Jitter (still_world 0) (30 * second)) () \<and>
   result_of (Jitter (still_world 0) (30 * second)) () \<le> 30 * second"
  by (rule Jitter_bounds) (simp_all add: second_def still_world_def)

end
