(* ===== verification/Instance.thy ===== *)
theory Instance
  imports Zonelease
begin

unbundle bit_operations_syntax

text \<open>
  \<open>pkg/domain/instance\<close>: the discovery reconciler of Instance objects
  (\<open>controller.go\<close>), the Talos maintenance-mode probe behind it (\<open>talos.go\<close>), and the
  registration of a standalone Instance (\<open>add.go\<close>, \<open>resolve.go\<close>, \<open>hash.go\<close>).  The Talos
  machine API, the DNS resolver, the object dumper and the name-safe encoding are outside
  the repository and appear as parameters.
\<close>

section \<open>Condition types and defaults\<close>

definition DiscoveredConditionType :: string where "DiscoveredConditionType = ''Discovered''"

definition LiveConditionType :: string where "LiveConditionType = ''Live''"

definition reasonDiscovered :: string where "reasonDiscovered = ''Discovered''"

definition reasonNoInterface :: string where "reasonNoInterface = ''NoInterfaces''"

definition reasonProbeFailed :: string where "reasonProbeFailed = ''ProbeFailed''"

definition defaultDialTimeout :: int where "defaultDialTimeout = 10 * second"

definition defaultRetryInterval :: int where "defaultRetryInterval = 30 * second"

definition defaultRecheckInterval :: int where "defaultRecheckInterval = 5 * minute"

section \<open>The probe\<close>

record DiscoveryResult =
  dr_TalosVersion :: string
  dr_Interfaces :: "InstanceInterfaceStatus list"
  dr_Disks :: "InstanceDiskStatus list"
  dr_CPUs :: "InstanceCPUStatus list"
  dr_Memory :: "InstanceMemoryStatus list"
  dr_SerialNumber :: string

definition zeroDiscovery :: DiscoveryResult where
  "zeroDiscovery = \<lparr>dr_TalosVersion = '''', dr_Interfaces = [], dr_Disks = [], dr_CPUs = [],
     dr_Memory = [], dr_SerialNumber = ''''\<rparr>"

type_synonym 's Discoverer = "string \<Rightarrow> bool \<Rightarrow> ('s, goerr + DiscoveryResult) state"

text \<open>
  The resources a node serves, by their Go type; an item of a type the code does not
  expect is an \<open>OtherItem\<close>.  A connection offers the version call, a list of the
  resources of a type and the read of a single resource.
\<close>

datatype cosi_item =
    AddressStatus string string
  | LinkStatus string string
  | Disk string uint64 string string string string bool
  | Processor string string "32 word" "32 word" "32 word"
  | MemoryModule "32 word" string "32 word" string
  | SystemInformation string
  | OtherItem

datatype cosi_type = LinkStatusType | AddressStatusType | DiskType | ProcessorType
  | MemoryModuleType | SystemInformationType

record 's talos_conn =
  tn_version :: "('s, goerr + (string \<times> string) list) state"
  tn_list :: "cosi_type \<Rightarrow> ('s, goerr + cosi_item list) state"
  tn_get :: "cosi_type \<Rightarrow> ('s, goerr + cosi_item) state"

definition maintenanceModePort :: int where "maintenanceModePort = 50000"

text \<open>\<open>addressesByLink\<close>: the addresses of a link, in the order they were listed.\<close>

fun addressesByLink :: "cosi_item list \<Rightarrow> string \<Rightarrow> string list" where
  "addressesByLink [] n = []"
| "addressesByLink (AddressStatus l a # is) n =
     (if l = n then a # addressesByLink is n else addressesByLink is n)"
| "addressesByLink (_ # is) n = addressesByLink is n"

fun linkInterfaces :: "(string \<Rightarrow> string list) \<Rightarrow> cosi_item list \<Rightarrow> InstanceInterfaceStatus list" where
  "linkInterfaces addrs [] = []"
| "linkInterfaces addrs (LinkStatus name hw # is) =
     \<lparr>iif_Name = name, iif_MACAddress = hw, iif_Addresses = addrs name\<rparr> # linkInterfaces addrs is"
| "linkInterfaces addrs (_ # is) = linkInterfaces addrs is"

definition discoverInterfaces :: "'s talos_conn \<Rightarrow> ('s, goerr + InstanceInterfaceStatus list) state" where
  "discoverInterfaces c = do {
     links \<leftarrow> tn_list c LinkStatusType;
     (case links of
        Inl err \<Rightarrow> return (Inl (Errorf ''failed to list link status resources: %w'' [] [err]))
      | Inr ls \<Rightarrow> do {
          addrs \<leftarrow> tn_list c AddressStatusType;
          (case addrs of
             Inl err \<Rightarrow> return (Inl (Errorf ''failed to list address status resources: %w'' [] [err]))
           | Inr as \<Rightarrow> return (Inr (linkInterfaces (addressesByLink as) ls)))
        })
   }"

fun diskStatuses :: "cosi_item list \<Rightarrow> InstanceDiskStatus list" where
  "diskStatuses [] = []"
| "diskStatuses (Disk dev sz pretty model serial transport rot # is) =
     \<lparr>idk_DevPath = dev, idk_Size = sz, idk_PrettySize = pretty, idk_Model = model,
      idk_Serial = serial, idk_Transport = transport, idk_Rotational = rot\<rparr> # diskStatuses is"
| "diskStatuses (_ # is) = diskStatuses is"

definition discoverDisks :: "'s talos_conn \<Rightarrow> ('s, goerr + InstanceDiskStatus list) state" where
  "discoverDisks c = do {
     disks \<leftarrow> tn_list c DiskType;
     (case disks of
        Inl err \<Rightarrow> return (Inl (Errorf ''failed to list disk resources: %w'' [] [err]))
      | Inr is \<Rightarrow> return (Inr (diskStatuses is)))
   }"

fun cpuStatuses :: "string \<Rightarrow> cosi_item list \<Rightarrow> InstanceCPUStatus list" where
  "cpuStatuses arch [] = []"
| "cpuStatuses arch (Processor man product cores threads speed # is) =
     \<lparr>icp_Manufacturer = man, icp_ProductName = product, icp_Architecture = arch, icp_CoreCount = cores,
      icp_ThreadCount = threads, icp_MaxSpeedMHz = speed\<rparr> # cpuStatuses arch is"
| "cpuStatuses arch (_ # is) = cpuStatuses arch is"

definition discoverCPUs :: "'s talos_conn \<Rightarrow> string \<Rightarrow> ('s, goerr + InstanceCPUStatus list) state" where
  "discoverCPUs c arch = do {
     cpus \<leftarrow> tn_list c ProcessorType;
     (case cpus of
        Inl err \<Rightarrow> return (Inl (Errorf ''failed to list processor resources: %w'' [] [err]))
      | Inr is \<Rightarrow> return (Inr (cpuStatuses arch is)))
   }"

fun memoryStatuses :: "cosi_item list \<Rightarrow> InstanceMemoryStatus list" where
  "memoryStatuses [] = []"
| "memoryStatuses (MemoryModule sz man speed serial # is) =
     (if sz = 0 then memoryStatuses is
      else \<lparr>imm_SizeMiB = sz, imm_Manufacturer = man, imm_Speed = speed, imm_Serial = serial\<rparr>
           # memoryStatuses is)"
| "memoryStatuses (_ # is) = memoryStatuses is"

definition discoverMemory :: "'s talos_conn \<Rightarrow> ('s, goerr + InstanceMemoryStatus list) state" where
  "discoverMemory c = do {
     mods \<leftarrow> tn_list c MemoryModuleType;
     (case mods of
        Inl err \<Rightarrow> return (Inl (Errorf ''failed to list memory module resources: %w'' [] [err]))
      | Inr is \<Rightarrow> return (Inr (memoryStatuses is)))
   }"

definition discoverSerialNumber :: "'s talos_conn \<Rightarrow> ('s, goerr + string) state" where
  "discoverSerialNumber c = do {
     item \<leftarrow> tn_get c SystemInformationType;
     (case item of
        Inl err \<Rightarrow> if isNotFound err then return (Inr '''')
          else return (Inl (Errorf ''failed to get system information resource: %w'' [] [err]))
      | Inr (SystemInformation serial) \<Rightarrow> return (Inr serial)
      | Inr _ \<Rightarrow> return (Inr ''''))
   }"

text \<open>The version call is best effort: an error or an empty answer leaves both values empty.\<close>

definition versionAndArch :: "goerr + (string \<times> string) list \<Rightarrow> string \<times> string" where
  "versionAndArch r = (case r of Inl _ \<Rightarrow> ('''', '''') | Inr [] \<Rightarrow> ('''', '''') | Inr (m # _) \<Rightarrow> m)"

definition Discover :: "(string \<Rightarrow> ('s, goerr + 's talos_conn) state) \<Rightarrow> 's Discoverer" where
  "Discover dial addr includeHardware = (
     let endpoint = joinHostPort addr (itoa maintenanceModePort) in do {
     conn \<leftarrow> dial endpoint;
     (case conn of
        Inl err \<Rightarrow> return (Inl (Errorf ''failed to dial %s: %w'' [endpoint] [err]))
      | Inr c \<Rightarrow> do {
          v \<leftarrow> tn_version c;
          let (talosVersion, arch) = versionAndArch v;
          ifs \<leftarrow> discoverInterfaces c;
          (case ifs of
             Inl err \<Rightarrow> return (Inl (Errorf ''failed to discover interfaces from %s: %w'' [endpoint] [err]))
           | Inr interfaces \<Rightarrow>
               let result = zeroDiscovery\<lparr>dr_TalosVersion := talosVersion, dr_Interfaces := interfaces\<rparr> in
               if \<not> includeHardware then return (Inr result)
               else do {
                 disks \<leftarrow> discoverDisks c;
                 (case disks of
                    Inl err \<Rightarrow> return (Inl (Errorf ''failed to discover disks from %s: %w'' [endpoint] [err]))
                  | Inr ds \<Rightarrow> do {
                      cpus \<leftarrow> discoverCPUs c arch;
                      (case cpus of
                         Inl err \<Rightarrow> return (Inl (Errorf ''failed to discover cpus from %s: %w'' [endpoint] [err]))
                       | Inr cs \<Rightarrow> do {
                           mem \<leftarrow> discoverMemory c;
                           (case mem of
                              Inl err \<Rightarrow> return (Inl (Errorf ''failed to discover memory from %s: %w'' [endpoint] [err]))
                            | Inr ms \<Rightarrow> do {
                                serial \<leftarrow> discoverSerialNumber c;
                                (case serial of
                                   Inl err \<Rightarrow> return (Inl (Errorf ''failed to discover serial number from %s: %w'' [endpoint] [err]))
                                 | Inr sn \<Rightarrow> return (Inr (result\<lparr>dr_Disks := ds, dr_CPUs := cs,
                                              dr_Memory := ms, dr_SerialNumber := sn\<rparr>)))
                              })
                         })
                    })
               })
        })
   })"

section \<open>The reconciler\<close>

record 's Config =
  icf_Discoverer :: "'s Discoverer option"
  icf_DialTimeout :: int
  icf_RetryInterval :: int
  icf_RecheckInterval :: int
  icf_ZoneLease :: Identity

record 's Reconciler =
  ir_Client :: "'s client"
  ir_Discoverer :: "'s Discoverer"
  ir_DialTimeout :: int
  ir_RetryInterval :: int
  ir_RecheckInterval :: int
  ir_Locker :: "'s Locker"

definition NewController :: "'s Discoverer \<Rightarrow> 's Config \<Rightarrow> 's Config" where
  "NewController talosDiscoverer cfg = cfg
     \<lparr>icf_Discoverer := (case icf_Discoverer cfg of None \<Rightarrow> Some talosDiscoverer | d \<Rightarrow> d),
      icf_DialTimeout := (if icf_DialTimeout cfg = 0 then defaultDialTimeout else icf_DialTimeout cfg),
      icf_RetryInterval := (if icf_RetryInterval cfg = 0 then defaultRetryInterval else icf_RetryInterval cfg),
      icf_RecheckInterval :=
        (if icf_RecheckInterval cfg = 0 then defaultRecheckInterval else icf_RecheckInterval cfg)\<rparr>"

definition probe :: "'s Reconciler \<Rightarrow> string \<Rightarrow> bool \<Rightarrow> ('s, goerr + DiscoveryResult) state" where
  "probe r addr includeHardware = do {
     result \<leftarrow> ir_Discoverer r addr includeHardware;
     (case result of
        Inl err \<Rightarrow> return (Inl (Errorf ''failed to discover %s: %w'' [addr] [err]))
      | Inr x \<Rightarrow> return (Inr x))
   }"

text \<open>
  The status after a probe, and whether it differs from before: the part of
  \<open>recordProbeResult\<close> that computes.
\<close>

definition probedStatus ::
  "apimachinery \<Rightarrow> Condition list \<Rightarrow> bool \<Rightarrow> string \<Rightarrow> string \<Rightarrow> bool \<times> Condition list" where
  "probedStatus am cs live reason message =
     (let (discoveredChanged, cs1) =
            (if live then am_setStatusCondition am cs \<lparr>cond_Type = DiscoveredConditionType,
               cond_Status = ConditionTrue, cond_Reason = reason, cond_Message = message\<rparr>
             else (False, cs));
          liveStatus = (if live then ConditionTrue else ConditionFalse);
          (liveChanged, cs2) = am_setStatusCondition am cs1 \<lparr>cond_Type = LiveConditionType,
             cond_Status = liveStatus, cond_Reason = reason, cond_Message = message\<rparr>
      in (discoveredChanged \<or> liveChanged, cs2))"

definition recordProbeResult :: "'s world \<Rightarrow> apimachinery \<Rightarrow> 's Reconciler \<Rightarrow> Instance \<Rightarrow> bool \<Rightarrow> bool \<Rightarrow>
    string \<Rightarrow> string \<Rightarrow> ('s, outcome) state" where
  "recordProbeResult w am r inst live fieldsChanged reason message = do {
     let (conditionsChanged, cs) = probedStatus am (ist_Conditions (inst_Status inst)) live reason message;
     now \<leftarrow> w_now w;
     let inst1 = inst\<lparr>inst_Status := (inst_Status inst)\<lparr>ist_Conditions := cs, ist_LastProbeTime := now\<rparr>\<rparr>;
     let done = (noRequeue\<lparr>requeueAfter := (if live then ir_RecheckInterval r else ir_RetryInterval r)\<rparr>, None);
     if fieldsChanged \<or> conditionsChanged then do {
       u \<leftarrow> kupdateStatus (cl_Instance (ir_Client r)) inst1;
       (case u of
          Inl err \<Rightarrow> return (noRequeue,
            Some (Errorf ''failed to update instance %q status: %w'' [om_Name (inst_meta inst)] [err]))
        | Inr _ \<Rightarrow> return done)
     } else return done
   }"

text \<open>The status fields a successful probe writes, and whether any of them changed.\<close>

definition applyDiscovery :: "bool \<Rightarrow> InstanceStatus \<Rightarrow> DiscoveryResult \<Rightarrow> bool \<times> InstanceStatus" where
  "applyDiscovery wasLive st res =
     (let changed = (its_Version (ist_Talos st) \<noteq> dr_TalosVersion res \<or> ist_Interfaces st \<noteq> dr_Interfaces res);
          st1 = st\<lparr>ist_Talos := (ist_Talos st)\<lparr>its_Version := dr_TalosVersion res\<rparr>,
                   ist_Interfaces := dr_Interfaces res\<rparr>
      in if wasLive then (changed, st1)
         else (changed \<or> ist_Disks st \<noteq> dr_Disks res \<or> ist_CPUs st \<noteq> dr_CPUs res \<or>
               ist_Memory st \<noteq> dr_Memory res \<or> ist_SerialNumber st \<noteq> dr_SerialNumber res,
               st1\<lparr>ist_Disks := dr_Disks res, ist_CPUs := dr_CPUs res, ist_Memory := dr_Memory res,
                   ist_SerialNumber := dr_SerialNumber res\<rparr>))"

fun probeLoop :: "'s world \<Rightarrow> apimachinery \<Rightarrow> 's Reconciler \<Rightarrow> Instance \<Rightarrow> bool \<Rightarrow> string list \<Rightarrow>
    string \<Rightarrow> ('s, outcome) state" where
  "probeLoop w am r inst wasLive [] lastErr =
     recordProbeResult w am r inst False False reasonProbeFailed
       (''all '' @ itoa (int (length (isp_Interfaces (inst_Spec inst)))) @
        '' candidate(s) failed, last error: '' @ lastErr)"
| "probeLoop w am r inst wasLive (candidate # rest) lastErr = do {
     p \<leftarrow> probe r candidate (\<not> wasLive);
     (case p of
        Inl err \<Rightarrow> probeLoop w am r inst wasLive rest (am_errorText am err)
      | Inr result \<Rightarrow>
          let (fieldsChanged, st) = applyDiscovery wasLive (inst_Status inst) result
          in recordProbeResult w am r (inst\<lparr>inst_Status := st\<rparr>) True fieldsChanged reasonDiscovered
               (''discovered via '' @ candidate))
   }"

definition probeCandidates :: "'s world \<Rightarrow> apimachinery \<Rightarrow> 's Reconciler \<Rightarrow> Instance \<Rightarrow> ('s, outcome) state" where
  "probeCandidates w am r inst =
     probeLoop w am r inst (am_isStatusConditionTrue am (ist_Conditions (inst_Status inst)) LiveConditionType)
       (isp_Interfaces (inst_Spec inst)) ''<nil>''"

text \<open>A label that is not set reads as the empty string.\<close>

definition labelOr :: "labels \<Rightarrow> string \<Rightarrow> string" where
  "labelOr ls k = (case ls k of None \<Rightarrow> '''' | Some v \<Rightarrow> v)"

definition Reconcile :: "'s world \<Rightarrow> apimachinery \<Rightarrow> 's Reconciler \<Rightarrow> ObjectKey \<Rightarrow> ('s, outcome) state" where
  "Reconcile w am r req = do {
     g \<leftarrow> kget (cl_Instance (ir_Client r)) req;
     (case g of
        Inl err \<Rightarrow> if isNotFound err then return (noRequeue, None)
          else return (noRequeue, Some (Errorf ''failed to get instance %q: %w'' [snd req] [err]))
      | Inr inst \<Rightarrow>
          if om_Labels (inst_meta inst) LabelClaimedBy \<noteq> None then return (noRequeue, None)
          else do {
            let zoneKey = Key (labelOr (om_Labels (inst_meta inst)) LabelRegion)
                              (labelOr (om_Labels (inst_meta inst)) LabelZone);
            a \<leftarrow> TryAcquire w (ir_Locker r) zoneKey;
            (case a of
               Inl err \<Rightarrow> return (noRequeue, Some (Errorf ''failed to acquire zone lease for instance %q: %w''
                                  [om_Name (inst_meta inst)] [err]))
             | Inr acquired \<Rightarrow>
                 if \<not> acquired then do {
                   d \<leftarrow> Jitter w (ir_RetryInterval r);
                   return (\<lparr>requeueAfter = d\<rparr>, None)
                 }
                 else if isp_Interfaces (inst_Spec inst) = [] then
                   recordProbeResult w am r inst False False reasonNoInterface ''spec.interfaces is empty''
                 else probeCandidates w am r inst)
          })
   }"

section \<open>Registering an instance\<close>

definition AnnotationHostname :: string where "AnnotationHostname = ''kontinuum.sh/hostname''"

definition errHostnameNoAddresses :: goerr where
  "errHostnameNoAddresses = Sentinel ''hostname did not resolve to any address''"

definition errAddOptionsMissingField :: goerr where
  "errAddOptionsMissingField = Sentinel ''instance add: missing required field''"

type_synonym 's Resolver = "string \<Rightarrow> ('s, goerr + string list) state"

definition ResolveAddress :: "(string \<Rightarrow> bool) \<Rightarrow> 's Resolver \<Rightarrow> string \<Rightarrow>
    ('s, goerr + string \<times> string) state" where
  "ResolveAddress parsesAsIP resolver address =
     (if parsesAsIP address then return (Inr (address, ''''))
      else do {
        r \<leftarrow> resolver address;
        (case r of
           Inl err \<Rightarrow> return (Inl (Errorf ''failed to resolve hostname %q: %w'' [address] [err]))
         | Inr [] \<Rightarrow> return (Inl (Errorf ''%w: %q'' [address] [errHostnameNoAddresses]))
         | Inr (a # _) \<Rightarrow> return (Inr (a, address)))
      })"

text \<open>FNV-1a with 32 bits: \<open>hash/fnv.New32a\<close>.\<close>

definition fnv32a :: "string \<Rightarrow> 32 word" where
  "fnv32a bs = fold (\<lambda>c h. (h XOR word_of_nat (of_char c)) * 16777619) bs 2166136261"

definition Hash :: "(InstanceSpec \<Rightarrow> string) \<Rightarrow> (string \<Rightarrow> string) \<Rightarrow> InstanceSpec \<Rightarrow> string" where
  "Hash spewDump safeEncodeString spec = safeEncodeString (natstr (unat (fnv32a (spewDump spec))))"

definition NameFromAddress :: "(InstanceSpec \<Rightarrow> string) \<Rightarrow> (string \<Rightarrow> string) \<Rightarrow> string \<Rightarrow> string" where
  "NameFromAddress spewDump safeEncodeString address =
     ''instance-'' @ Hash spewDump safeEncodeString \<lparr>isp_Interfaces = [address], isp_ProviderRef = None\<rparr>"

record 's AddOptions =
  ao_Namespace :: string
  ao_Address :: string
  ao_Resolver :: "'s Resolver"

definition zeroInstanceStatus :: InstanceStatus where
  "zeroInstanceStatus = \<lparr>ist_Interfaces = [], ist_Disks = [], ist_CPUs = [], ist_Memory = [],
     ist_SerialNumber = '''', ist_Talos = \<lparr>its_Version = ''''\<rparr>, ist_LastProbeTime = 0, ist_Conditions = []\<rparr>"

text \<open>The Instance object that \<open>Add\<close> sends for a resolved address.\<close>

definition addedInstance :: "(string \<Rightarrow> string) \<Rightarrow> string \<Rightarrow> string \<Rightarrow> string \<Rightarrow> Instance" where
  "addedInstance nameOf namespace resolved hostname =
     (let m = objectMeta namespace (nameOf resolved)
      in \<lparr>inst_meta = (if hostname \<noteq> '''' then m\<lparr>om_Annotations := [AnnotationHostname \<mapsto> hostname]\<rparr> else m),
          inst_Spec = \<lparr>isp_Interfaces = [resolved], isp_ProviderRef = None\<rparr>,
          inst_Status = zeroInstanceStatus\<rparr>)"

definition Add :: "(string \<Rightarrow> bool) \<Rightarrow> (string \<Rightarrow> string) \<Rightarrow> 's client \<Rightarrow> 's AddOptions \<Rightarrow>
    ('s, goerr + Instance) state" where
  "Add parsesAsIP nameOf hubClient opts =
     (let address = trimSpace (ao_Address opts) in
      if ao_Namespace opts = '''' \<or> address = '''' then
        return (Inl (Errorf ''%w: namespace and address are required'' [] [errAddOptionsMissingField]))
      else do {
        ra \<leftarrow> ResolveAddress parsesAsIP (ao_Resolver opts) address;
        (case ra of
           Inl err \<Rightarrow> return (Inl err)
         | Inr (resolvedAddress, hostname) \<Rightarrow> do {
             let inst = addedInstance nameOf (ao_Namespace opts) resolvedAddress hostname;
             c \<leftarrow> kcreate (cl_Instance hubClient) inst;
             (case c of
                Inr x \<Rightarrow> return (Inr x)
              | Inl err \<Rightarrow>
                  if \<not> isAlreadyExists err then
                    return (Inl (Errorf ''failed to create instance %q: %w'' [om_Name (inst_meta inst)] [err]))
                  else do {
                    g \<leftarrow> kget (cl_Instance hubClient) (keyOf (inst_meta inst));
                    (case g of
                       Inl err \<Rightarrow> return (Inl (Errorf ''failed to fetch already-existing instance %q: %w''
                                            [om_Name (inst_meta inst)] [err]))
                     | Inr x \<Rightarrow> return (Inr x))
                  })
           })
      })"

section \<open>Facts about the probe result\<close>

lemma condition_types_distinct [simp]:
  "LiveConditionType \<noteq> DiscoveredConditionType" "DiscoveredConditionType \<noteq> LiveConditionType"
  by (simp_all add: LiveConditionType_def DiscoveredConditionType_def)

text \<open>\<open>probedStatus\<close> through the condition list it leaves behind.\<close>

lemma probedStatus_find:
  assumes "apimachinery_ok am"
  shows "am_findStatusCondition am (snd (probedStatus am cs live reason msg)) t =
    (if t = LiveConditionType then Some \<lparr>cond_Type = LiveConditionType,
        cond_Status = (if live then ConditionTrue else ConditionFalse), cond_Reason = reason, cond_Message = msg\<rparr>
     else if t = DiscoveredConditionType \<and> live then Some \<lparr>cond_Type = DiscoveredConditionType,
        cond_Status = ConditionTrue, cond_Reason = reason, cond_Message = msg\<rparr>
     else am_findStatusCondition am cs t)"
  using find_setStatusCondition [OF assms] by (auto simp: probedStatus_def Let_def case_prod_unfold)

lemma probedStatus_changed:
  assumes "apimachinery_ok am"
  shows "fst (probedStatus am cs live reason msg) \<longleftrightarrow>
    live \<and> am_findStatusCondition am cs DiscoveredConditionType \<noteq> Some \<lparr>cond_Type = DiscoveredConditionType,
      cond_Status = ConditionTrue, cond_Reason = reason, cond_Message = msg\<rparr> \<or>
    am_findStatusCondition am cs LiveConditionType \<noteq> Some \<lparr>cond_Type = LiveConditionType,
      cond_Status = (if live then ConditionTrue else ConditionFalse), cond_Reason = reason, cond_Message = msg\<rparr>"
  using setStatusCondition_changed [OF assms] find_setStatusCondition [OF assms]
  by (simp add: probedStatus_def Let_def case_prod_unfold)

lemma probedStatus_again:
  assumes am: "apimachinery_ok am"
  shows "fst (probedStatus am (snd (probedStatus am cs live reason msg)) live reason msg) = False"
  using probedStatus_changed [OF am] probedStatus_find [OF am] by simp

lemma applyDiscovery_again:
  assumes "dr_TalosVersion res' = dr_TalosVersion res" and "dr_Interfaces res' = dr_Interfaces res"
  shows "fst (applyDiscovery True (snd (applyDiscovery wl st res)) res') = False"
    and "snd (applyDiscovery True (snd (applyDiscovery wl st res)) res') = snd (applyDiscovery wl st res)"
  using assms by (simp_all add: applyDiscovery_def Let_def)

lemma applyDiscovery_conditions:
  "snd (applyDiscovery wl (st\<lparr>ist_Conditions := cs, ist_LastProbeTime := t\<rparr>) res) =
   (snd (applyDiscovery wl st res))\<lparr>ist_Conditions := cs, ist_LastProbeTime := t\<rparr>"
  "fst (applyDiscovery wl (st\<lparr>ist_Conditions := cs, ist_LastProbeTime := t\<rparr>) res) =
   fst (applyDiscovery wl st res)"
  by (simp_all add: applyDiscovery_def Let_def)

lemma recordProbeResult_quiet:
  assumes "\<not> fieldsChanged" and "\<not> fst (probedStatus am (ist_Conditions (inst_Status inst)) live reason msg)"
  shows "run_state (recordProbeResult w am r inst live fieldsChanged reason msg) s =
    ((\<lparr>requeueAfter = (if live then ir_RecheckInterval r else ir_RetryInterval r)\<rparr>, None),
     state_after (w_now w) s)"
  using assms by (auto simp: recordProbeResult_def Let_def split: prod.splits)

section \<open>Properties\<close>

text \<open>
  Discovered is a latch and Live is a gauge.  After every probe the Live condition is
  true exactly when this probe succeeded, Discovered is true exactly when this probe
  succeeded or it was true before, and no other condition is touched.
\<close>

theorem probe_conditions:
  assumes "apimachinery_ok am"
  shows "am_isStatusConditionTrue am (snd (probedStatus am cs live reason msg)) LiveConditionType = live \<and>
     am_isStatusConditionTrue am (snd (probedStatus am cs live reason msg)) DiscoveredConditionType =
       (live \<or> am_isStatusConditionTrue am cs DiscoveredConditionType) \<and>
     (\<forall>t. t \<noteq> LiveConditionType \<and> t \<noteq> DiscoveredConditionType \<longrightarrow>
       am_findStatusCondition am (snd (probedStatus am cs live reason msg)) t = am_findStatusCondition am cs t)"
  using probedStatus_find [OF assms] isStatusConditionTrue_iff [OF assms] by auto

theorem probe_conditions_witness:
  "am_isStatusConditionTrue (std_apimachinery (\<lambda>_. Inl unavailable))
     (snd (probedStatus (std_apimachinery (\<lambda>_. Inl unavailable))
        [\<lparr>cond_Type = ''Discovered'', cond_Status = ConditionTrue, cond_Reason = '''', cond_Message = ''''\<rparr>]
        False reasonProbeFailed ''down'')) DiscoveredConditionType"
proof -
  have "DiscoveredConditionType = ''Discovered''" by (simp add: DiscoveredConditionType_def)
  then show ?thesis
    using probe_conditions [OF std_apimachinery_ok, of "\<lambda>_. Inl unavailable"
      "[\<lparr>cond_Type = ''Discovered'', cond_Status = ConditionTrue, cond_Reason = '''', cond_Message = ''''\<rparr>]"
      False reasonProbeFailed "''down''"]
    by (simp add: std_apimachinery_def)
qed

text \<open>
  A claimed Instance is left alone.  Once an Instance carries the claimed-by label,
  \<open>Reconcile\<close> does nothing but read it: no probe, no lease, no status write, no requeue.
\<close>

theorem Reconcile_claimed_untouched:
  assumes "result_of (kget (cl_Instance (ir_Client r)) req) s = Inr inst"
    and "om_Labels (inst_meta inst) LabelClaimedBy = Some p"
  shows "run_state (Reconcile w am r req) s =
    ((noRequeue, None), state_after (kget (cl_Instance (ir_Client r)) req) s)"
  using assms by (auto simp: Reconcile_def split: prod.splits)

definition demo_instance :: "string \<Rightarrow> labels \<Rightarrow> Instance" where
  "demo_instance n ls = \<lparr>inst_meta = (objectMeta ''tenant'' n)\<lparr>om_Labels := ls\<rparr>,
     inst_Spec = \<lparr>isp_Interfaces = [''10.0.0.2''], isp_ProviderRef = None\<rparr>, inst_Status = zeroInstanceStatus\<rparr>"

definition demo_found :: DiscoveryResult where
  "demo_found = zeroDiscovery\<lparr>dr_TalosVersion := ''v1.9''\<rparr>"

definition demo_reconciler :: "(Instance memstore, Instance) kclient \<Rightarrow> Instance memstore Reconciler" where
  "demo_reconciler kc = \<lparr>ir_Client = down_client\<lparr>cl_Instance := kc\<rparr>,
     ir_Discoverer = (\<lambda>_ _. return (Inr demo_found)), ir_DialTimeout = defaultDialTimeout,
     ir_RetryInterval = defaultRetryInterval, ir_RecheckInterval = defaultRecheckInterval,
     ir_Locker = NewLocker down_client down_client ''hub-1'' '''' 0\<rparr>"

definition demo_instance_client :: "(Instance memstore, Instance) kclient" where
  "demo_instance_client = mem_client (\<lambda>m x. x\<lparr>inst_meta := m\<rparr>) inst_meta"

definition demo_instance_store :: "Instance memstore" where
  "demo_instance_store = empty_store\<lparr>ms_objs := [(''tenant'', ''i1'') \<mapsto>
     demo_instance ''i1'' [LabelClaimedBy \<mapsto> ''pool'']]\<rparr>"

theorem Reconcile_claimed_untouched_witness:
  "run_state (Reconcile (still_world 1) (std_apimachinery (\<lambda>_. Inl unavailable))
      (demo_reconciler demo_instance_client) (''tenant'', ''i1'')) demo_instance_store =
   ((noRequeue, None), demo_instance_store)"
proof -
  have "run_state (kget (cl_Instance (ir_Client (demo_reconciler demo_instance_client))) (''tenant'', ''i1''))
      demo_instance_store = (Inr (demo_instance ''i1'' [LabelClaimedBy \<mapsto> ''pool'']), demo_instance_store)"
    by (simp add: demo_reconciler_def demo_instance_client_def mem_client_def demo_instance_store_def
        mem_view_def demo_instance_def keyOf_def objectMeta_def)
  with Reconcile_claimed_untouched [of "demo_reconciler demo_instance_client" "(''tenant'', ''i1'')"
      demo_instance_store "demo_instance ''i1'' [LabelClaimedBy \<mapsto> ''pool'']" "''pool''"]
  show ?thesis by (simp add: demo_instance_def)
qed

text \<open>
  No reconcile storm.  Let a probe of an Instance succeed at its first address and the
  status be stored as \<open>probeCandidates\<close> computes it.  Re-probing the stored Instance with
  the same answer makes no status write: the only calls are the probe and the clock.
\<close>

theorem recheck_writes_nothing:
  fixes inst :: Instance
  defines "st \<equiv> \<lambda>am wl res msg t. (snd (applyDiscovery wl (inst_Status inst) res))
     \<lparr>ist_Conditions := snd (probedStatus am (ist_Conditions (snd (applyDiscovery wl (inst_Status inst) res)))
        True reasonDiscovered msg), ist_LastProbeTime := t\<rparr>"
  assumes am: "apimachinery_ok am"
    and cand: "isp_Interfaces (inst_Spec inst) = a # rest"
    and found: "result_of (ir_Discoverer r a False) s = Inr res'"
    and same: "dr_TalosVersion res' = dr_TalosVersion res" "dr_Interfaces res' = dr_Interfaces res"
  shows "run_state (probeCandidates w am r (inst\<lparr>inst_Status := st am wl res (''discovered via '' @ a) t\<rparr>)) s =
    ((\<lparr>requeueAfter = ir_RecheckInterval r\<rparr>, None),
     state_after (w_now w) (state_after (ir_Discoverer r a False) s))"
proof -
  let ?msg = "''discovered via '' @ a" and ?st0 = "snd (applyDiscovery wl (inst_Status inst) res)"
  let ?cs = "snd (probedStatus am (ist_Conditions ?st0) True reasonDiscovered ?msg)"
  let ?inst = "inst\<lparr>inst_Status := st am wl res ?msg t\<rparr>"
  have live: "am_isStatusConditionTrue am (ist_Conditions (inst_Status ?inst)) LiveConditionType"
    using probedStatus_find [OF am] isStatusConditionTrue_iff [OF am] by (simp add: st_def)
  have disc: "applyDiscovery True (inst_Status ?inst) res' = (False, inst_Status ?inst)"
    using applyDiscovery_again [OF same, of wl "inst_Status inst"]
    by (simp add: st_def applyDiscovery_conditions prod_eq_iff)
  have p: "run_state (probe r a False) s = (Inr res', state_after (ir_Discoverer r a False) s)"
    using found by (auto simp: probe_def split: prod.splits)
  have q: "\<not> fst (probedStatus am (ist_Conditions (inst_Status ?inst)) True reasonDiscovered ?msg)"
    using probedStatus_again [OF am] by (simp add: st_def)
  show ?thesis
    using live disc p cand recordProbeResult_quiet [OF _ q, of False w r] by (simp add: probeCandidates_def)
qed

theorem recheck_writes_nothing_witness:
  "\<exists>inst. run_state (probeCandidates (still_world 9) (std_apimachinery (\<lambda>_. Inl unavailable))
      (demo_reconciler down_kclient) inst) empty_store = ((\<lparr>requeueAfter = 5 * minute\<rparr>, None), empty_store)"
  using recheck_writes_nothing [OF std_apimachinery_ok, of "demo_instance ''i1'' Map.empty" "''10.0.0.2''" "[]"
      "demo_reconciler down_kclient" empty_store demo_found demo_found "still_world 9"]
  by (auto simp: demo_instance_def demo_reconciler_def still_world_def defaultRecheckInterval_def)

text \<open>
  Registration is idempotent.  When \<open>Add\<close> returns an Instance it is the one stored
  under the name derived from the resolved address: either the name was free and an
  Instance with exactly that address was stored, or the Instance stored before is returned
  and nothing has changed.  A hostname and its address end at the same object.
\<close>

theorem Add_registers_once:
  assumes c: "cas_store (cl_Instance hub) inst_meta inst_Spec view"
    and quiet: "\<And>h s. view (state_after (ao_Resolver opts h) s) = view s"
    and r: "run_state (Add parsesAsIP nameOf hub opts) s = (Inr x, t)"
  shows "\<exists>a. (if parsesAsIP (trimSpace (ao_Address opts)) then a = trimSpace (ao_Address opts)
              else \<exists>as. result_of (ao_Resolver opts (trimSpace (ao_Address opts))) s = Inr (a # as)) \<and>
     (view s (ao_Namespace opts, nameOf a) = Some x \<and> view t = view s \<or>
      view s (ao_Namespace opts, nameOf a) = None \<and> isp_Interfaces (inst_Spec x) = [a] \<and>
        view t = (view s)((ao_Namespace opts, nameOf a) \<mapsto> x))"
proof -
  let ?ad = "trimSpace (ao_Address opts)"
  obtain a h s1 where ra: "run_state (ResolveAddress parsesAsIP (ao_Resolver opts) ?ad) s = (Inr (a, h), s1)"
    using r by (auto simp: Add_def Let_def split: prod.splits sum.splits if_splits)
  have res: "(if parsesAsIP ?ad then a = ?ad else \<exists>as. result_of (ao_Resolver opts ?ad) s = Inr (a # as)) \<and> view s1 = view s"
    using ra quiet [of ?ad s] by (auto simp: ResolveAddress_def split: if_splits prod.splits sum.splits list.splits)
  let ?o = "addedInstance nameOf (ao_Namespace opts) a h"
  have k: "keyOf (inst_meta ?o) = (ao_Namespace opts, nameOf a)" "isp_Interfaces (inst_Spec ?o) = [a]"
    by (simp_all add: addedInstance_def Let_def keyOf_def objectMeta_def)
  obtain cr s2 where cr: "run_state (kcreate (cl_Instance hub) ?o) s1 = (cr, s2)" by fastforce
  show ?thesis
  proof (cases cr)
    case (Inr y)
    with r ra cr have "x = y" "t = s2" by (auto simp: Add_def Let_def split: if_splits)
    with cas_store_create(1-3) [OF c, of ?o s1 y] cr Inr res k show ?thesis by (intro exI [of _ a]) auto
  next
    case (Inl err)
    with r ra cr have ae: "isAlreadyExists err"
      and g: "run_state (kget (cl_Instance hub) (ao_Namespace opts, nameOf a)) s2 = (Inr x, t)"
      by (auto simp: Add_def Let_def k split: if_splits prod.splits sum.splits)
    have "view s2 = view s1" using cas_store_create(4) [OF c, of ?o s1 err] cr Inl ae by simp
    with cas_store_get(1,2) [OF c, of "(ao_Namespace opts, nameOf a)" s2] g res show ?thesis
      by (intro exI [of _ a]) auto
  qed
qed

definition demo_add :: "(Instance memstore) AddOptions" where
  "demo_add = \<lparr>ao_Namespace = ''tenant'', ao_Address = ''10.0.0.2'', ao_Resolver = (\<lambda>_. return (Inl unavailable))\<rparr>"

theorem Add_registers_once_witness:
  "\<exists>x t. run_state (Add (\<lambda>_. True) (\<lambda>a. a) (down_client\<lparr>cl_Instance := demo_instance_client\<rparr>) demo_add) empty_store = (Inr x, t) \<and>
     isp_Interfaces (inst_Spec x) = [''10.0.0.2''] \<and> mem_view inst_meta t (''tenant'', ''10.0.0.2'') = Some x"
proof -
  let ?hub = "down_client\<lparr>cl_Instance := demo_instance_client\<rparr> :: Instance memstore client"
  have c: "cas_store (cl_Instance ?hub) inst_meta inst_Spec (mem_view inst_meta)"
    by (simp add: demo_instance_client_def mem_client_cas_store)
  have trim: "trimSpace ''10.0.0.2'' = ''10.0.0.2''" by (simp add: trimSpace_def isSpace_def)
  obtain x t where run: "run_state (Add (\<lambda>_. True) (\<lambda>a. a) ?hub demo_add) empty_store = (Inr x, t)"
    by (simp add: Add_def demo_add_def trim ResolveAddress_def demo_instance_client_def mem_client_def
        mem_view_def empty_store_def mem_write_def Let_def addedInstance_def)
  show ?thesis
    using Add_registers_once [OF c _ run] run trim by (auto simp: demo_add_def)
qed

end
