(* ===== verification/InstancePool.thy ===== *)
theory InstancePool
  imports Instance
begin

text \<open>
  \<open>pkg/domain/instancepool/controller.go\<close>: the reconciler that claims Instance objects
  for an InstancePool with a compare-and-swap on a label, releases the excess, and tears
  the pool down.  Every function of the file is one definition; a Go slice allocation
  with a negative capacity panics, which is the branch \<open>makeslicePanic\<close>.
\<close>

section \<open>Constants and state\<close>

definition InsufficientCapacityConditionType :: string where
  "InsufficientCapacityConditionType = ''InsufficientCapacity''"

definition ReadyConditionType :: string where "ReadyConditionType = ''Ready''"

definition InstancePoolFinalizer :: string where
  "InstancePoolFinalizer = ''kontinuum.sh/instancepool-teardown''"

definition reasonClaimed :: string where "reasonClaimed = ''Claimed''"

definition reasonCandidatesExhausted :: string where "reasonCandidatesExhausted = ''CandidatesExhausted''"

definition poolDefaultRetryInterval :: int where "poolDefaultRetryInterval = 30 * second"

record PoolConfig =
  pcf_RetryInterval :: int
  pcf_ZoneLease :: Identity

definition NewPoolController :: "PoolConfig \<Rightarrow> PoolConfig" where
  "NewPoolController cfg =
     (if pcf_RetryInterval cfg = 0 then cfg\<lparr>pcf_RetryInterval := poolDefaultRetryInterval\<rparr> else cfg)"

record 's PoolReconciler =
  pr_Client :: "'s client"
  pr_RetryInterval :: int
  pr_Locker :: "'s Locker"

definition makeslicePanic :: goerr where
  "makeslicePanic = Sentinel ''panic: runtime error: makeslice: cap out of range''"

abbreviation poolName :: "InstancePool \<Rightarrow> string" where
  "poolName pool \<equiv> om_Name (pool_meta pool)"

abbreviation instName :: "Instance \<Rightarrow> string" where
  "instName inst \<equiv> om_Name (inst_meta inst)"

definition replicas :: "InstancePool \<Rightarrow> int" where
  "replicas pool = sint (ips_Replicas (pool_Spec pool))"

definition claimedBy :: "Instance \<Rightarrow> string option" where
  "claimedBy inst = om_Labels (inst_meta inst) LabelClaimedBy"

definition setLabel :: "Instance \<Rightarrow> string option \<Rightarrow> Instance" where
  "setLabel inst v = inst\<lparr>inst_meta := (inst_meta inst)
     \<lparr>om_Labels := (om_Labels (inst_meta inst))(LabelClaimedBy := v)\<rparr>\<rparr>"

section \<open>Reading\<close>

definition fetchPool :: "'s PoolReconciler \<Rightarrow> ObjectKey \<Rightarrow> ('s, goerr option + InstancePool) state" where
  "fetchPool r key = do {
     g \<leftarrow> kget (cl_InstancePool (pr_Client r)) key;
     (case g of
        Inl err \<Rightarrow> if isNotFound err then return (Inl None)
          else return (Inl (Some (Errorf ''failed to get instance pool %q: %w'' [snd key] [err])))
      | Inr pool \<Rightarrow> return (Inr pool))
   }"

definition acquireZoneLease :: "'s world \<Rightarrow> 's PoolReconciler \<Rightarrow> InstancePool \<Rightarrow>
    ('s, outcome + unit) state" where
  "acquireZoneLease w r pool = do {
     a \<leftarrow> TryAcquire w (pr_Locker r) (poolName pool);
     (case a of
        Inl err \<Rightarrow> return (Inl (noRequeue,
          Some (Errorf ''failed to acquire zone lease for instance pool %q: %w'' [poolName pool] [err])))
      | Inr acquired \<Rightarrow>
          if \<not> acquired then do {
            d \<leftarrow> Jitter w (pr_RetryInterval r);
            return (Inl (\<lparr>requeueAfter = d\<rparr>, None))
          } else return (Inr ()))
   }"

definition listClaimed :: "'s PoolReconciler \<Rightarrow> string \<Rightarrow> string \<Rightarrow> ('s, goerr + Instance list) state" where
  "listClaimed r namespace name = do {
     l \<leftarrow> klist (cl_Instance (pr_Client r)) (Some namespace) (matchingLabel LabelClaimedBy name);
     (case l of
        Inl err \<Rightarrow> return (Inl (Errorf ''failed to list instances claimed by %q: %w'' [name] [err]))
      | Inr items \<Rightarrow> return (Inr items))
   }"

definition enqueueAllPools :: "'s PoolReconciler \<Rightarrow> ('s, ObjectKey list) state" where
  "enqueueAllPools r = do {
     l \<leftarrow> klist (cl_InstancePool (pr_Client r)) None (\<lambda>_. True);
     (case l of Inl err \<Rightarrow> return [] | Inr pools \<Rightarrow> return (map (keyOf \<circ> pool_meta) pools))
   }"

section \<open>Finalizer\<close>

definition ensureFinalizer :: "apimachinery \<Rightarrow> 's PoolReconciler \<Rightarrow> InstancePool \<Rightarrow>
    ('s, goerr + InstancePool) state" where
  "ensureFinalizer am r pool =
     (let (added, fs) = am_addFinalizer am (om_Finalizers (pool_meta pool)) InstancePoolFinalizer in
      if \<not> added then return (Inr pool)
      else do {
        u \<leftarrow> kupdate (cl_InstancePool (pr_Client r)) (pool\<lparr>pool_meta := (pool_meta pool)\<lparr>om_Finalizers := fs\<rparr>\<rparr>);
        (case u of
           Inl err \<Rightarrow> return (Inl (Errorf ''failed to add finalizer to instance pool %q: %w'' [poolName pool] [err]))
         | Inr pool' \<Rightarrow> return (Inr pool'))
      })"

section \<open>Release\<close>

text \<open>The loop of \<open>release\<close>: index, what is left of the sorted slice, and \<open>remaining\<close> so far.\<close>

fun releaseLoop :: "'s PoolReconciler \<Rightarrow> InstancePool \<Rightarrow> int \<Rightarrow> int \<Rightarrow> Instance list \<Rightarrow> Instance list \<Rightarrow>
    ('s, goerr + Instance list) state" where
  "releaseLoop r pool target i [] remaining = return (Inr remaining)"
| "releaseLoop r pool target i (inst # rest) remaining =
     (if i < target then releaseLoop r pool target (i + 1) rest (remaining @ [inst])
      else do {
        let inst1 = setLabel inst None;
        u \<leftarrow> kupdate (cl_Instance (pr_Client r)) inst1;
        (case u of
           Inl err \<Rightarrow> if \<not> isConflict err
             then return (Inl (Errorf ''failed to release instance %q from pool %q: %w''
                                 [instName inst, poolName pool] [err]))
             else releaseLoop r pool target (i + 1) rest (remaining @ [inst1])
         | Inr _ \<Rightarrow> releaseLoop r pool target (i + 1) rest remaining)
      })"

definition release :: "'s PoolReconciler \<Rightarrow> InstancePool \<Rightarrow> Instance list \<Rightarrow> int \<Rightarrow>
    ('s, goerr + Instance list) state" where
  "release r pool claimed target =
     (if target < 0 then return (Inl makeslicePanic)
      else releaseLoop r pool target 0 (sort_by instName claimed) [])"

section \<open>Claim\<close>

definition claimableCandidates :: "apimachinery \<Rightarrow> Instance list \<Rightarrow> Instance list" where
  "claimableCandidates am candidates = filter (\<lambda>inst.
     claimedBy inst = None \<and>
     am_isStatusConditionTrue am (ist_Conditions (inst_Status inst)) DiscoveredConditionType \<and>
     am_isStatusConditionTrue am (ist_Conditions (inst_Status inst)) LiveConditionType) candidates"

definition tryClaim :: "'s PoolReconciler \<Rightarrow> InstancePool \<Rightarrow> string \<Rightarrow> ('s, goerr + Instance option) state" where
  "tryClaim r pool name = do {
     g \<leftarrow> kget (cl_Instance (pr_Client r)) (om_Namespace (pool_meta pool), name);
     (case g of
        Inl err \<Rightarrow> if isNotFound err then return (Inr None)
          else return (Inl (Errorf ''failed to get candidate instance %q: %w'' [name] [err]))
      | Inr inst \<Rightarrow>
          if claimedBy inst \<noteq> None then return (Inr None)
          else do {
            u \<leftarrow> kupdate (cl_Instance (pr_Client r)) (setLabel inst (Some (poolName pool)));
            (case u of
               Inl err \<Rightarrow> if isConflict err then return (Inr None)
                 else return (Inl (Errorf ''failed to claim instance %q for pool %q: %w''
                                     [name, poolName pool] [err]))
             | Inr inst1 \<Rightarrow> return (Inr (Some inst1)))
          })
   }"

fun claimLoop :: "'s PoolReconciler \<Rightarrow> InstancePool \<Rightarrow> Instance list \<Rightarrow> Instance list \<Rightarrow>
    ('s, goerr + Instance list) state" where
  "claimLoop r pool [] claimed = return (Inr claimed)"
| "claimLoop r pool (candidate # rest) claimed =
     (if int (length claimed) \<ge> replicas pool then return (Inr claimed)
      else do {
        c \<leftarrow> tryClaim r pool (instName candidate);
        (case c of
           Inl err \<Rightarrow> return (Inl err)
         | Inr None \<Rightarrow> claimLoop r pool rest claimed
         | Inr (Some inst) \<Rightarrow> claimLoop r pool rest (claimed @ [inst]))
      })"

definition claim :: "apimachinery \<Rightarrow> 's PoolReconciler \<Rightarrow> InstancePool \<Rightarrow> Instance list \<Rightarrow>
    ('s, goerr + Instance list) state" where
  "claim am r pool claimed = (case am_selector am (ips_Selector (pool_Spec pool)) of
       Inl err \<Rightarrow> return (Inl (Errorf ''failed to parse selector for pool %q: %w'' [poolName pool] [err]))
     | Inr selector \<Rightarrow> do {
         l \<leftarrow> klist (cl_Instance (pr_Client r)) (Some (om_Namespace (pool_meta pool))) selector;
         (case l of
            Inl err \<Rightarrow> return (Inl (Errorf ''failed to list candidate instances for pool %q: %w'' [poolName pool] [err]))
          | Inr candidates \<Rightarrow>
              claimLoop r pool (sort_by instName (claimableCandidates am candidates)) claimed)
       })"

section \<open>Status\<close>

definition readyCount :: "apimachinery \<Rightarrow> Instance list \<Rightarrow> int32" where
  "readyCount am claimed = word_of_nat (length (filter (\<lambda>inst.
     am_isStatusConditionTrue am (ist_Conditions (inst_Status inst)) DiscoveredConditionType) claimed))"

text \<open>The status \<open>updateStatus\<close> computes and whether it differs from the stored one.\<close>

definition newPoolStatus :: "apimachinery \<Rightarrow> InstancePool \<Rightarrow> Instance list \<Rightarrow> bool \<Rightarrow> bool \<times> InstancePoolStatus" where
  "newPoolStatus am pool claimed insufficient =
     (let ready = readyCount am claimed;
          changed = (ipst_ReadyReplicas (pool_Status pool) \<noteq> ready);
          frac = itoa (int (length claimed)) @ ''/'' @ itoa (replicas pool);
          status = (if insufficient then ConditionTrue else ConditionFalse);
          reason = (if insufficient then reasonCandidatesExhausted else reasonClaimed);
          message = (if insufficient
             then ''only claimed '' @ frac @ '' replicas: no more matching unclaimed candidates''
             else ''claimed '' @ frac @ '' replicas'');
          (insufficientChanged, cs1) = am_setStatusCondition am (ipst_Conditions (pool_Status pool))
             \<lparr>cond_Type = InsufficientCapacityConditionType, cond_Status = status,
              cond_Reason = reason, cond_Message = message\<rparr>;
          readyStatus = (if insufficient then ConditionFalse else ConditionTrue);
          (readyChanged, cs2) = am_setStatusCondition am cs1
             \<lparr>cond_Type = ReadyConditionType, cond_Status = readyStatus,
              cond_Reason = reason, cond_Message = message\<rparr>
      in (changed \<or> insufficientChanged \<or> readyChanged,
          \<lparr>ipst_ReadyReplicas = ready, ipst_Conditions = cs2\<rparr>))"

definition updateStatus :: "apimachinery \<Rightarrow> 's PoolReconciler \<Rightarrow> InstancePool \<Rightarrow> Instance list \<Rightarrow> bool \<Rightarrow>
    ('s, outcome) state" where
  "updateStatus am r pool claimed insufficient = do {
     let (changed, st) = newPoolStatus am pool claimed insufficient;
     let done = (if insufficient then \<lparr>requeueAfter = pr_RetryInterval r\<rparr> else noRequeue, None);
     if changed then do {
       u \<leftarrow> kupdateStatus (cl_InstancePool (pr_Client r)) (pool\<lparr>pool_Status := st\<rparr>);
       (case u of
          Inl err \<Rightarrow> return (noRequeue,
            Some (Errorf ''failed to update instance pool %q status: %w'' [poolName pool] [err]))
        | Inr _ \<Rightarrow> return done)
     } else return done
   }"

section \<open>Teardown and Reconcile\<close>

definition reconcileTeardown :: "apimachinery \<Rightarrow> 's PoolReconciler \<Rightarrow> InstancePool \<Rightarrow> ('s, outcome) state" where
  "reconcileTeardown am r pool =
     (if \<not> am_containsFinalizer am (om_Finalizers (pool_meta pool)) InstancePoolFinalizer
      then return (noRequeue, None)
      else do {
        l \<leftarrow> listClaimed r (om_Namespace (pool_meta pool)) (poolName pool);
        (case l of
           Inl err \<Rightarrow> return (noRequeue, Some err)
         | Inr claimed \<Rightarrow>
             if claimed \<noteq> [] then do {
               rel \<leftarrow> release r pool claimed 0;
               (case rel of
                  Inl err \<Rightarrow> return (noRequeue, Some err)
                | Inr _ \<Rightarrow> return (\<lparr>requeueAfter = pr_RetryInterval r\<rparr>, None))
             }
             else do {
               u \<leftarrow> kupdate (cl_InstancePool (pr_Client r)) (pool\<lparr>pool_meta := (pool_meta pool)
                 \<lparr>om_Finalizers := snd (am_removeFinalizer am (om_Finalizers (pool_meta pool)) InstancePoolFinalizer)\<rparr>\<rparr>);
               (case u of
                  Inl err \<Rightarrow> return (noRequeue,
                    Some (Errorf ''failed to remove finalizer from instance pool %q: %w'' [poolName pool] [err]))
                | Inr _ \<Rightarrow> return (noRequeue, None))
             })
      })"

text \<open>Scaling: release the excess, then claim what is missing.\<close>

definition scale :: "apimachinery \<Rightarrow> 's PoolReconciler \<Rightarrow> InstancePool \<Rightarrow> Instance list \<Rightarrow> ('s, outcome) state" where
  "scale am r pool claimed0 = do {
     rel \<leftarrow> (if int (length claimed0) > replicas pool then release r pool claimed0 (replicas pool)
             else return (Inr claimed0));
     (case rel of
        Inl err \<Rightarrow> return (noRequeue, Some err)
      | Inr claimed \<Rightarrow>
          if int (length claimed) < replicas pool then do {
            c \<leftarrow> claim am r pool claimed;
            (case c of
               Inl err \<Rightarrow> return (noRequeue, Some err)
             | Inr claimed1 \<Rightarrow>
                 updateStatus am r pool claimed1 (int (length claimed1) < replicas pool))
          }
          else updateStatus am r pool claimed False)
   }"

definition PoolReconcile :: "'s world \<Rightarrow> apimachinery \<Rightarrow> 's PoolReconciler \<Rightarrow> ObjectKey \<Rightarrow> ('s, outcome) state" where
  "PoolReconcile w am r req = do {
     f \<leftarrow> fetchPool r req;
     (case f of
        Inl err \<Rightarrow> return (noRequeue, err)
      | Inr pool \<Rightarrow> do {
          a \<leftarrow> acquireZoneLease w r pool;
          (case a of
             Inl out \<Rightarrow> return out
           | Inr _ \<Rightarrow>
               if \<not> deletionIsZero (pool_meta pool) then reconcileTeardown am r pool
               else do {
                 e \<leftarrow> ensureFinalizer am r pool;
                 (case e of
                    Inl err \<Rightarrow> return (noRequeue, Some err)
                  | Inr pool1 \<Rightarrow> do {
                      l \<leftarrow> listClaimed r (om_Namespace (pool_meta pool1)) (poolName pool1);
                      (case l of
                         Inl err \<Rightarrow> return (noRequeue, Some err)
                       | Inr claimed \<Rightarrow> scale am r pool1 claimed)
                    })
               })
        })
   }"

section \<open>The world of a pool\<close>

text \<open>
  What the claim protocol relies on: Instances live in a compare-and-swap store whose list
  call returns stored objects that match, each once; the calls on leases and pools and the
  clock do not touch Instances.
\<close>

definition instBody :: "Instance \<Rightarrow> labels \<times> InstanceSpec" where
  "instBody x = (om_Labels (inst_meta x), inst_Spec x)"

definition pool_world :: "'s world \<Rightarrow> 's PoolReconciler \<Rightarrow> ('s \<Rightarrow> ObjectKey \<rightharpoonup> Instance) \<Rightarrow> bool" where
  "pool_world w r view \<longleftrightarrow>
     cas_store (cl_Instance (pr_Client r)) inst_meta instBody view \<and>
     lists_stored (cl_Instance (pr_Client r)) inst_meta view \<and>
     (\<forall>s k x. view s k = Some x \<longrightarrow> keyOf (inst_meta x) = k) \<and>
     (\<forall>ns p. quiet view (klist (cl_Instance (pr_Client r)) ns p)) \<and>
     (\<forall>k. quiet view (kget (cl_InstancePool (pr_Client r)) k)) \<and>
     (\<forall>x. quiet view (kupdate (cl_InstancePool (pr_Client r)) x)) \<and>
     (\<forall>x. quiet view (kupdateStatus (cl_InstancePool (pr_Client r)) x)) \<and>
     (\<forall>v. locker_calls_leave (\<lambda>s. view s = v) w (pr_Locker r))"

lemma pool_worldD:
  assumes "pool_world w r view"
  shows "cas_store (cl_Instance (pr_Client r)) inst_meta instBody view"
    and "lists_stored (cl_Instance (pr_Client r)) inst_meta view"
    and "view s k = Some x \<Longrightarrow> keyOf (inst_meta x) = k"
    and "quiet view (klist (cl_Instance (pr_Client r)) ns p)"
    and "quiet view (kget (cl_InstancePool (pr_Client r)) k)"
    and "quiet view (kupdate (cl_InstancePool (pr_Client r)) y)"
    and "quiet view (kupdateStatus (cl_InstancePool (pr_Client r)) y)"
    and "locker_calls_leave (\<lambda>s. view s = v) w (pr_Locker r)"
  using assms unfolding pool_world_def by blast+

lemma listed:
  assumes "pool_world w r view" and "run_state (klist (cl_Instance (pr_Client r)) ns p) s = (Inr xs, t)"
  shows "distinct (map (keyOf \<circ> inst_meta) xs)"
    and "x \<in> set xs \<Longrightarrow> view s (keyOf (inst_meta x)) = Some x"
    and "x \<in> set xs \<Longrightarrow> p (om_Labels (inst_meta x))"
    and "view t = view s"
  using pool_worldD(2,4) [OF assms(1)] assms(2) unfolding lists_stored_def quiet_def
  by (metis fst_conv snd_conv)+

lemma setLabel_simps [simp]:
  "keyOf (inst_meta (setLabel x v)) = keyOf (inst_meta x)"
  "claimedBy (setLabel x v) = v"
  "om_ResourceVersion (inst_meta (setLabel x v)) = om_ResourceVersion (inst_meta x)"
  by (simp_all add: setLabel_def keyOf_def claimedBy_def)

lemma claimedBy_body: "instBody y = instBody x \<Longrightarrow> claimedBy y = claimedBy x"
  by (simp add: instBody_def claimedBy_def)

text \<open>\<open>owned view k q s\<close>: in state \<open>s\<close> the Instance \<open>k\<close> is claimed by pool \<open>q\<close>.\<close>

definition owned :: "('s \<Rightarrow> ObjectKey \<rightharpoonup> Instance) \<Rightarrow> ObjectKey \<Rightarrow> string \<Rightarrow> 's \<Rightarrow> bool" where
  "owned view k q s \<longleftrightarrow> (\<exists>x. view s k = Some x \<and> claimedBy x = Some q)"

lemma owned_view: "view t k = view s k \<Longrightarrow> owned view k q t = owned view k q s"
  by (simp add: owned_def)

lemma owned_quiet: "quiet view m \<Longrightarrow> leaves (owned view k q) m"
  using quiet_leaves [of view m "\<lambda>v. \<exists>x. v k = Some x \<and> claimedBy x = Some q"]
  by (simp add: owned_def [abs_def])

section \<open>Claiming\<close>

lemma tryClaim_run:
  assumes w: "pool_world w r view" and r: "run_state (tryClaim r pool name) s = (c, t)"
  shows "view t = view s \<and> (\<forall>x. c \<noteq> Inr (Some x)) \<or>
    (\<exists>z y. view s (om_Namespace (pool_meta pool), name) = Some z \<and> claimedBy z = None \<and>
       claimedBy y = Some (poolName pool) \<and> inst_Spec y = inst_Spec z \<and>
       view t = (view s)((om_Namespace (pool_meta pool), name) \<mapsto> y) \<and>
       (c = Inr (Some y) \<or> (\<exists>e. c = Inl e)))"
proof -
  let ?k = "(om_Namespace (pool_meta pool), name)"
  note cas = pool_worldD(1) [OF w]
  obtain g s1 where g: "run_state (kget (cl_Instance (pr_Client r)) ?k) s = (g, s1)" by fastforce
  have v1: "view s1 = view s" using cas_store_get(1) [OF cas, of ?k s] g by simp
  show ?thesis
  proof (cases "\<exists>z. g = Inr z \<and> claimedBy z = None")
    case False
    with r g v1 show ?thesis by (auto simp: tryClaim_def split: sum.splits if_splits)
  next
    case True
    then obtain z where z: "g = Inr z" "claimedBy z = None" by blast
    have vz: "view s ?k = Some z" using cas_store_get(2) [OF cas, of ?k s z] g z by simp
    let ?new = "setLabel z (Some (poolName pool))"
    obtain u t' where u: "run_state (kupdate (cl_Instance (pr_Client r)) ?new) s1 = (u, t')" by fastforce
    have t: "t' = t" "\<And>y. u = Inr y \<Longrightarrow> c = Inr (Some y)"
      "\<And>e. u = Inl e \<Longrightarrow> c = Inr None \<and> isConflict e \<or> (\<exists>e. c = Inl e)"
      using r g z u by (auto simp: tryClaim_def split: sum.splits if_splits)
    have key: "keyOf (inst_meta ?new) = ?k" using pool_worldD(3) [OF w vz] by simp
    have body: "claimedBy y = Some (poolName pool) \<and> inst_Spec y = inst_Spec z"
      if "stored_as inst_meta instBody ?new y" for y
    proof -
      have "instBody y = instBody ?new" using that by (simp add: stored_as_def)
      moreover from claimedBy_body [OF this] have "claimedBy y = Some (poolName pool)" by simp
      ultimately show ?thesis by (simp add: instBody_def setLabel_def)
    qed
    show ?thesis
      using cas_store_update_cases [OF cas, of ?new s1] u t key body vz z v1
      by (auto simp: update_takes_def split: sum.splits)
  qed
qed

lemma tryClaim_owned:
  assumes "pool_world w r view"
  shows "leaves (owned view k q) (tryClaim r pool name)"
proof (rule leavesI)
  fix s assume o: "owned view k q s"
  obtain c t where "run_state (tryClaim r pool name) s = (c, t)" by fastforce
  with tryClaim_run [OF assms this] o show "owned view k q (state_after (tryClaim r pool name) s)"
    by (auto simp: owned_def)
qed

lemma claimLoop_owned:
  assumes "pool_world w r view"
  shows "leaves (owned view k q) (claimLoop r pool cands claimed)"
  by (induction cands arbitrary: claimed)
    (auto intro!: leaves_rules tryClaim_owned [OF assms] simp: option.case_eq_if)

lemma claim_owned:
  assumes "pool_world w r view"
  shows "leaves (owned view k q) (claim am r pool claimed)"
  unfolding claim_def
  by (auto intro!: leaves_rules claimLoop_owned [OF assms] owned_quiet [OF pool_worldD(4) [OF assms]])

lemma claimLoop_bound:
  assumes w: "pool_world w r view" and "run_state (claimLoop r pool cands claimed) s = (Inr cs, t)"
  shows "\<exists>new. cs = claimed @ new \<and> length new \<le> length cands \<and>
    int (length cs) \<le> max (int (length claimed)) (replicas pool) \<and>
    (\<forall>x\<in>set new. claimedBy x = Some (poolName pool))"
  using assms(2)
proof (induction cands arbitrary: claimed s)
  case Nil
  then show ?case by simp
next
  case (Cons cand rest)
  show ?case
  proof (cases "int (length claimed) \<ge> replicas pool")
    case True
    with Cons.prems show ?thesis by simp
  next
    case False
    obtain c s1 where c: "run_state (tryClaim r pool (instName cand)) s = (c, s1)" by fastforce
    consider "c = Inr None" "run_state (claimLoop r pool rest claimed) s1 = (Inr cs, t)"
      | x where "c = Inr (Some x)" "run_state (claimLoop r pool rest (claimed @ [x])) s1 = (Inr cs, t)"
      using Cons.prems False c by (auto split: sum.splits option.splits)
    then show ?thesis
    proof cases
      case 1
      from Cons.IH [OF 1(2)] show ?thesis by auto
    next
      case 2
      have "claimedBy x = Some (poolName pool)" using tryClaim_run [OF w c] 2(1) by auto
      with Cons.IH [OF 2(2)] False show ?thesis by auto
    qed
  qed
qed

section \<open>Releasing\<close>

lemma releaseLoop_owned:
  assumes w: "pool_world w r view" and q: "q \<noteq> p"
    and "distinct (map (keyOf \<circ> inst_meta) xs)"
    and "\<forall>x\<in>set xs. view s (keyOf (inst_meta x)) = Some x \<and> claimedBy x = Some p"
    and "owned view k q s"
  shows "owned view k q (state_after (releaseLoop r pool target i xs rem) s)"
  using assms(3-5)
proof (induction xs arbitrary: i rem s)
  case Nil
  then show ?case by simp
next
  case (Cons x xs)
  show ?case
  proof (cases "i < target")
    case True
    with Cons show ?thesis by simp
  next
    case False
    let ?new = "setLabel x None"
    obtain u s1 where u: "run_state (kupdate (cl_Instance (pr_Client r)) ?new) s = (u, s1)" by fastforce
    have frame: "view s1 k' = view s k'" if "k' \<noteq> keyOf (inst_meta x)" for k'
      using cas_store_update_frame [OF pool_worldD(1) [OF w], of k' ?new s] u that by simp
    have "k \<noteq> keyOf (inst_meta x)" using Cons.prems q by (auto simp: owned_def)
    then have o: "owned view k q s1" using Cons.prems(3) frame owned_view by metis
    have rest: "\<forall>y\<in>set xs. view s1 (keyOf (inst_meta y)) = Some y \<and> claimedBy y = Some p"
    proof
      fix y assume y: "y \<in> set xs"
      then have "(keyOf \<circ> inst_meta) y \<in> (keyOf \<circ> inst_meta) ` set xs" by (rule imageI)
      moreover have "(keyOf \<circ> inst_meta) x \<notin> (keyOf \<circ> inst_meta) ` set xs" using Cons.prems(1) by simp
      ultimately have "(keyOf \<circ> inst_meta) y \<noteq> (keyOf \<circ> inst_meta) x" by metis
      then have "keyOf (inst_meta y) \<noteq> keyOf (inst_meta x)" by simp
      with frame [OF this] y Cons.prems(2)
      show "view s1 (keyOf (inst_meta y)) = Some y \<and> claimedBy y = Some p" by simp
    qed
    show ?thesis
      using False u o Cons.IH [OF _ rest o] Cons.prems(1) by (auto simp: Let_def split: sum.splits)
  qed
qed

lemma releaseLoop_length:
  assumes "run_state (releaseLoop r pool target i xs rem) s = (Inr out, t)"
  shows "\<exists>ys. out = rem @ take (nat (target - i)) xs @ ys \<and> length ys \<le> length xs - nat (target - i) \<and>
    instName ` set ys \<subseteq> instName ` set xs"
  using assms
proof (induction xs arbitrary: i rem s)
  case Nil
  then show ?case by simp
next
  case (Cons x xs)
  show ?case
  proof (cases "i < target")
    case True
    then have n: "nat (target - i) = Suc (nat (target - (i + 1)))" by simp
    from Cons.prems True Cons.IH [of "i + 1" "rem @ [x]" s] show ?thesis by (auto simp: n)
  next
    case False
    obtain u s1 where u: "run_state (kupdate (cl_Instance (pr_Client r)) (setLabel x None)) s = (u, s1)"
      by fastforce
    consider "run_state (releaseLoop r pool target (i + 1) xs rem) s1 = (Inr out, t)"
      | "run_state (releaseLoop r pool target (i + 1) xs (rem @ [setLabel x None])) s1 = (Inr out, t)"
      using Cons.prems False u by (auto simp: Let_def split: sum.splits if_splits)
    then show ?thesis
    proof cases
      case 1
      from False have n: "nat (target - (i + 1)) = 0" "nat (target - i) = 0" by simp_all
      from Cons.IH [OF 1] obtain ys where
        "out = rem @ ys" "length ys \<le> length xs" "instName ` set ys \<subseteq> instName ` set xs"
        unfolding n by auto
      then have "out = rem @ take (nat (target - i)) (x # xs) @ ys \<and>
          length ys \<le> length (x # xs) - nat (target - i) \<and> instName ` set ys \<subseteq> instName ` set (x # xs)"
        unfolding n by auto
      then show ?thesis by blast
    next
      case 2
      from False have n: "nat (target - (i + 1)) = 0" "nat (target - i) = 0" by simp_all
      from Cons.IH [OF 2] obtain ys where
        "out = (rem @ [setLabel x None]) @ ys" "length ys \<le> length xs" "instName ` set ys \<subseteq> instName ` set xs"
        unfolding n by auto
      then have "out = rem @ take (nat (target - i)) (x # xs) @ setLabel x None # ys \<and>
          length (setLabel x None # ys) \<le> length (x # xs) - nat (target - i) \<and>
          instName ` set (setLabel x None # ys) \<subseteq> instName ` set (x # xs)"
        unfolding n by (auto simp: setLabel_def)
      then show ?thesis by blast
    qed
  qed
qed

lemma release_owned:
  assumes w: "pool_world w r view" and q: "q \<noteq> p"
    and "distinct (map (keyOf \<circ> inst_meta) xs)"
    and "\<forall>x\<in>set xs. view s (keyOf (inst_meta x)) = Some x \<and> claimedBy x = Some p"
    and "owned view k q s"
  shows "owned view k q (state_after (release r pool xs target) s)"
proof -
  have "distinct (map (keyOf \<circ> inst_meta) (sort_by instName xs))"
    using assms(3) by (simp add: sort_by_def distinct_map)
  with releaseLoop_owned [OF w q, of "sort_by instName xs" s k] assms(4,5) show ?thesis
    by (simp add: release_def)
qed

section \<open>A concrete pool world\<close>

text \<open>One pool that wants one Instance, on an in-memory store of Instances; used by the witnesses.\<close>

definition demo_pool :: InstancePool where
  "demo_pool = \<lparr>pool_meta = (objectMeta ''tenant'' ''pool'')\<lparr>om_Finalizers := [InstancePoolFinalizer]\<rparr>,
     pool_Spec = \<lparr>ips_Selector = \<lparr>ls_MatchLabels = [], ls_MatchExpressions = []\<rparr>, ips_Replicas = 1, ips_Template = None\<rparr>,
     pool_Status = \<lparr>ipst_ReadyReplicas = 0, ipst_Conditions = []\<rparr>\<rparr>"

definition demo_pool_reconciler :: "Instance memstore PoolReconciler" where
  "demo_pool_reconciler = \<lparr>pr_Client = down_client\<lparr>cl_Instance := demo_instance_client,
       cl_InstancePool := down_kclient\<lparr>kupdateStatus := (\<lambda>x. return (Inr x))\<rparr>\<rparr>,
     pr_RetryInterval = poolDefaultRetryInterval, pr_Locker = NewLocker down_client down_client ''hub-1'' '''' 0\<rparr>"

definition demo_candidate :: Instance where
  "demo_candidate = (demo_instance ''i2'' Map.empty)\<lparr>inst_Status := zeroInstanceStatus\<lparr>ist_Conditions :=
     [\<lparr>cond_Type = DiscoveredConditionType, cond_Status = ConditionTrue, cond_Reason = '''', cond_Message = ''''\<rparr>,
      \<lparr>cond_Type = LiveConditionType, cond_Status = ConditionTrue, cond_Reason = '''', cond_Message = ''''\<rparr>]\<rparr>\<rparr>"

definition demo_pool_store :: "Instance memstore" where
  "demo_pool_store = \<lparr>ms_objs = [(''tenant'', ''i1'') \<mapsto> demo_instance ''i1'' [LabelClaimedBy \<mapsto> ''other''],
     (''tenant'', ''i2'') \<mapsto> demo_candidate], ms_keys = [(''tenant'', ''i1''), (''tenant'', ''i2'')], ms_rev = 0\<rparr>"

lemma demo_pool_world: "pool_world (still_world 1) demo_pool_reconciler (mem_view inst_meta)"
proof -
  have "cas_store demo_instance_client inst_meta instBody (mem_view inst_meta)"
    unfolding demo_instance_client_def by (rule mem_client_cas_store) (simp_all add: instBody_def stamp_def)
  moreover have "lists_stored demo_instance_client inst_meta (mem_view inst_meta)"
    unfolding demo_instance_client_def by (rule mem_client_lists_stored)
  ultimately show ?thesis
    by (auto simp: pool_world_def demo_pool_reconciler_def quiet_def locker_calls_leave_def leaves_def NewLocker_def
        still_world_def down_client_def down_kclient_def mem_view_key demo_instance_client_def mem_client_def)
qed

section \<open>The whole handler\<close>

lemma leaves_own_locker:
  assumes "pool_world w r view"
  shows "leaves (owned view k q) (TryAcquire w (pr_Locker r) z)" and "leaves (owned view k q) (Jitter w d)"
proof -
  have "quiet view (TryAcquire w (pr_Locker r) z)" "quiet view (Jitter w d)"
    using TryAcquire_leaves [OF pool_worldD(8) [OF assms]] Jitter_leaves [OF pool_worldD(8) [OF assms]]
    by (simp_all add: quiet_iff)
  then show "leaves (owned view k q) (TryAcquire w (pr_Locker r) z)" "leaves (owned view k q) (Jitter w d)"
    by (simp_all add: owned_quiet)
qed

lemma pool_calls_owned:
  assumes "pool_world w r view"
  shows "leaves (owned view k q) (fetchPool r key)"
    and "leaves (owned view k q) (acquireZoneLease w r pool)"
    and "leaves (owned view k q) (ensureFinalizer am r pool)"
    and "leaves (owned view k q) (updateStatus am r pool claimed b)"
    and "leaves (owned view k q) (kupdate (cl_InstancePool (pr_Client r)) y)"
    and "leaves (owned view k q) (listClaimed r ns name)"
  unfolding fetchPool_def acquireZoneLease_def ensureFinalizer_def updateStatus_def listClaimed_def
  by (auto intro!: leaves_rules leaves_own_locker [OF assms] owned_quiet [OF pool_worldD(4) [OF assms]]
      owned_quiet [OF pool_worldD(5) [OF assms]] owned_quiet [OF pool_worldD(6) [OF assms]]
      owned_quiet [OF pool_worldD(7) [OF assms]] split: prod.splits)

text \<open>What \<open>listClaimed\<close> returns: distinct stored Instances that carry the pool's label.\<close>

definition claimed_by :: "('s \<Rightarrow> ObjectKey \<rightharpoonup> Instance) \<Rightarrow> string \<Rightarrow> Instance list \<Rightarrow> 's \<Rightarrow> bool" where
  "claimed_by view p xs s \<longleftrightarrow> distinct (map (keyOf \<circ> inst_meta) xs) \<and>
     (\<forall>x\<in>set xs. view s (keyOf (inst_meta x)) = Some x \<and> claimedBy x = Some p)"

lemma listClaimed_claimed:
  assumes w: "pool_world w r view" and l: "run_state (listClaimed r ns p) s = (Inr xs, t)"
  shows "claimed_by view p xs t" and "view t = view s"
proof -
  have k: "run_state (klist (cl_Instance (pr_Client r)) (Some ns) (matchingLabel LabelClaimedBy p)) s = (Inr xs, t)"
    using l by (auto simp: listClaimed_def split: prod.splits sum.splits)
  show "claimed_by view p xs t" "view t = view s"
    using listed [OF w k] by (auto simp: claimed_by_def claimedBy_def matchingLabel_def)
qed

lemma release_owned_other:
  assumes "pool_world w r view" "q \<noteq> p" "claimed_by view p xs s" "owned view k q s"
  shows "owned view k q (state_after (release r pool xs target) s)"
  using release_owned [OF assms(1,2), of xs s k] assms(3,4) by (simp add: claimed_by_def)

lemma scale_owned:
  assumes w: "pool_world w r view" and "q \<noteq> p" "claimed_by view p xs s" "owned view k q s"
  shows "owned view k q (state_after (scale am r pool xs) s)"
proof -
  have "owned view k q (state_after (if int (length xs) > replicas pool
      then release r pool xs (replicas pool) else return (Inr xs)) s)"
    using release_owned_other [OF assms] assms(4) by simp
  then show ?thesis
    unfolding scale_def
    by (rule bind_keeps) (intro leaves_rules claim_owned [OF w] pool_calls_owned [OF w])
qed

lemma teardown_owned:
  assumes w: "pool_world w r view" and q: "q \<noteq> poolName pool"
  shows "leaves (owned view k q) (reconcileTeardown am r pool)"
proof (rule leavesI)
  fix s assume o: "owned view k q s"
  obtain l t where l: "run_state (listClaimed r (om_Namespace (pool_meta pool)) (poolName pool)) s = (l, t)" by fastforce
  have ot: "owned view k q t" using leaves_run [OF pool_calls_owned(6) [OF w] o l] .
  show "owned view k q (state_after (reconcileTeardown am r pool) s)"
  proof (cases l)
    case (Inl e)
    with l o ot show ?thesis by (simp add: reconcileTeardown_def)
  next
    case (Inr xs)
    have rel: "owned view k q (state_after (release r pool xs 0) t)"
      using release_owned_other [OF w q _ ot] listClaimed_claimed [OF w] l Inr by blast
    have upd: "owned view k q (state_after (kupdate (cl_InstancePool (pr_Client r)) y) t)" for y
      using leavesD [OF pool_calls_owned(5) [OF w] ot] .
    have "owned view k q (state_after (release r pool xs 0 \<bind> case_sum (\<lambda>err. return (noRequeue, Some err))
        (\<lambda>_. return (\<lparr>requeueAfter = pr_RetryInterval r\<rparr>, None))) t)"
      using rel by (rule bind_keeps) (intro leaves_rules)
    moreover have "owned view k q (state_after (kupdate (cl_InstancePool (pr_Client r)) y \<bind>
        case_sum (\<lambda>err. return (noRequeue, Some (f err))) (\<lambda>_. return (noRequeue, None))) t)" for y f
      using upd by (rule bind_keeps) (intro leaves_rules)
    ultimately show ?thesis using Inr o
      by (auto simp: reconcileTeardown_def simp del: run_state_bind
          intro!: bind_keeps_run [OF l, where I = "owned view k q"])
  qed
qed

lemma ensureFinalizer_name:
  assumes "keeps_identity (cl_InstancePool (pr_Client r)) pool_meta"
    and "result_of (ensureFinalizer am r pool) s = Inr p1"
  shows "poolName p1 = poolName pool"
proof (cases "am_addFinalizer am (om_Finalizers (pool_meta pool)) InstancePoolFinalizer")
  case (Pair added fs)
  show ?thesis
  proof (cases added)
    case False
    with assms(2) Pair show ?thesis by (simp add: ensureFinalizer_def)
  next
    case True
    let ?new = "pool\<lparr>pool_meta := (pool_meta pool)\<lparr>om_Finalizers := fs\<rparr>\<rparr>"
    have "result_of (kupdate (cl_InstancePool (pr_Client r)) ?new) s = Inr p1"
      using assms(2) Pair True by (auto simp: ensureFinalizer_def split: prod.splits sum.splits)
    with assms(1) have "keyOf (pool_meta p1) = keyOf (pool_meta ?new)" unfolding keeps_identity_def by blast
    then show ?thesis by (simp add: keyOf_def)
  qed
qed

lemma list_scale_owned:
  assumes w: "pool_world w r view" and q: "q \<noteq> p" and o: "owned view k q s"
  shows "owned view k q (state_after (listClaimed r ns p \<bind>
     case_sum (\<lambda>err. return (noRequeue, Some err)) (scale am r pool)) s)"
proof -
  obtain l t where l: "run_state (listClaimed r ns p) s = (l, t)" by fastforce
  have ot: "owned view k q t" using leaves_run [OF pool_calls_owned(6) [OF w] o l] .
  show ?thesis
  proof (rule bind_keeps_run [OF l], cases l)
    case (Inr xs)
    then show "owned view k q (state_after (case_sum (\<lambda>err. return (noRequeue, Some err)) (scale am r pool) l) t)"
      using scale_owned [OF w q _ ot] listClaimed_claimed [OF w] l by simp
  qed (simp add: ot)
qed


section \<open>Convergence\<close>

text \<open>\<open>holds view p xs s\<close>: the Instances named by \<open>xs\<close> are distinct and all claimed by \<open>p\<close> in the store.\<close>

definition holds :: "('s \<Rightarrow> ObjectKey \<rightharpoonup> Instance) \<Rightarrow> string \<Rightarrow> Instance list \<Rightarrow> 's \<Rightarrow> bool" where
  "holds view p xs s \<longleftrightarrow> distinct (map (keyOf \<circ> inst_meta) xs) \<and>
     (\<forall>x\<in>set xs. owned view (keyOf (inst_meta x)) p s)"

lemma claimed_by_holds: "claimed_by view p xs s \<Longrightarrow> holds view p xs s"
  by (auto simp: claimed_by_def holds_def owned_def)

lemma holds_leaves: "(\<And>k. leaves (owned view k p) m) \<Longrightarrow> leaves (holds view p xs) m"
  by (auto simp: holds_def leaves_def)

lemma tryClaim_holds:
  assumes w: "pool_world w r view" and h: "holds view (poolName pool) claimed s"
    and r: "run_state (tryClaim r pool name) s = (Inr (Some x), t)"
  shows "holds view (poolName pool) (claimed @ [x]) t"
proof -
  let ?k = "(om_Namespace (pool_meta pool), name)"
  obtain z where z: "view s ?k = Some z" "claimedBy z = None" "claimedBy x = Some (poolName pool)"
      "view t = (view s)(?k \<mapsto> x)"
    using tryClaim_run [OF w r] by auto
  have key: "keyOf (inst_meta x) = ?k" using pool_worldD(3) [OF w, of t ?k x] z by simp
  have new: "keyOf (inst_meta y) \<noteq> ?k" if "y \<in> set claimed" for y
    using h z that by (auto simp: holds_def owned_def)
  then have "?k \<notin> (keyOf \<circ> inst_meta) ` set claimed" by force
  moreover have "owned view (keyOf (inst_meta y)) (poolName pool) t" if "y \<in> set claimed" for y
    using h z(4) new [OF that] that by (simp add: holds_def owned_def)
  moreover have "owned view ?k (poolName pool) t" using z by (simp add: owned_def)
  ultimately show ?thesis using h key by (auto simp: holds_def)
qed

lemma claimLoop_holds:
  assumes w: "pool_world w r view" and "holds view (poolName pool) claimed s"
    and "run_state (claimLoop r pool cands claimed) s = (Inr cs, t)"
  shows "holds view (poolName pool) cs t"
  using assms(2,3)
proof (induction cands arbitrary: claimed s)
  case Nil
  then show ?case by simp
next
  case (Cons cand rest)
  obtain c s1 where c: "run_state (tryClaim r pool (instName cand)) s = (c, s1)" by fastforce
  have h1: "holds view (poolName pool) claimed s1"
    using leaves_run [OF holds_leaves [OF tryClaim_owned [OF w]] Cons.prems(1) c] .
  show ?case
  proof (cases "int (length claimed) \<ge> replicas pool")
    case True
    with Cons.prems show ?thesis by simp
  next
    case False
    consider "c = Inr None" "run_state (claimLoop r pool rest claimed) s1 = (Inr cs, t)"
      | x where "c = Inr (Some x)" "run_state (claimLoop r pool rest (claimed @ [x])) s1 = (Inr cs, t)"
      using Cons.prems False c by (auto split: sum.splits option.splits)
    then show ?thesis
      using Cons.IH h1 tryClaim_holds [OF w Cons.prems(1)] c by cases blast+
  qed
qed

lemma claim_holds:
  assumes w: "pool_world w r view" and h: "holds view (poolName pool) claimed s"
    and r: "run_state (claim am r pool claimed) s = (Inr cs, t)"
  shows "holds view (poolName pool) cs t"
proof -
  obtain sel where sel: "am_selector am (ips_Selector (pool_Spec pool)) = Inr sel"
    using r by (auto simp: claim_def split: sum.splits)
  obtain xs s1 where l: "run_state (klist (cl_Instance (pr_Client r)) (Some (om_Namespace (pool_meta pool))) sel) s = (Inr xs, s1)"
    and c: "run_state (claimLoop r pool (sort_by instName (claimableCandidates am xs)) claimed) s1 = (Inr cs, t)"
    using r sel by (auto simp: claim_def split: prod.splits sum.splits)
  have "holds view (poolName pool) claimed s1"
    using h listed(4) [OF w l] by (simp add: holds_def owned_def)
  from claimLoop_holds [OF w this c] show ?thesis .
qed

lemma release_one:
  assumes w: "pool_world w r view" and x: "view s (keyOf (inst_meta x)) = Some x" "claimedBy x = Some p"
    and u: "run_state (kupdate (cl_Instance (pr_Client r)) (setLabel x None)) s = (u, t)"
  shows "k \<noteq> keyOf (inst_meta x) \<Longrightarrow> view t k = view s k"
    and "u = Inl e \<Longrightarrow> isConflict e \<Longrightarrow> view t = view s"
  using cas_store_update_frame [OF pool_worldD(1) [OF w], of k "setLabel x None" s]
    cas_store_update(5) [OF pool_worldD(1) [OF w], of "setLabel x None" s e] u by simp_all

lemma releaseLoop_holds:
  assumes w: "pool_world w r view" and "holds view p (rem @ xs) s" and "\<forall>x\<in>set xs. view s (keyOf (inst_meta x)) = Some x"
    and "run_state (releaseLoop r pool target i xs rem) s = (Inr out, t)"
  shows "holds view p out t"
  using assms(2-4)
proof (induction xs arbitrary: i rem s)
  case Nil
  then show ?case by simp
next
  case (Cons x xs)
  show ?case
  proof (cases "i < target")
    case True
    with Cons.prems Cons.IH [of "rem @ [x]" s "i + 1"] show ?thesis by simp
  next
    case False
    let ?new = "setLabel x None"
    obtain u s1 where u: "run_state (kupdate (cl_Instance (pr_Client r)) ?new) s = (u, s1)" by fastforce
    have x: "view s (keyOf (inst_meta x)) = Some x" using Cons.prems(2) by simp
    have cl: "claimedBy x = Some p" using Cons.prems(1) x by (auto simp: holds_def owned_def)
    note one = release_one [OF w x cl u]
    have frame: "view s1 (keyOf (inst_meta y)) = view s (keyOf (inst_meta y))" if "y \<in> set (rem @ xs)" for y
    proof (rule one(1))
      have "(keyOf \<circ> inst_meta) x \<notin> (keyOf \<circ> inst_meta) ` set (rem @ xs)"
        using Cons.prems(1) unfolding holds_def by (auto simp only: map_append list.map distinct_append distinct.simps set_append set_map set_simps)
      with that show "keyOf (inst_meta y) \<noteq> keyOf (inst_meta x)" by (metis comp_apply imageI)
    qed
    have hs: "holds view p (rem @ xs) s1" using Cons.prems(1) frame by (auto simp: holds_def owned_def)
    have st: "\<forall>y\<in>set xs. view s1 (keyOf (inst_meta y)) = Some y" using frame Cons.prems(2) by simp
    consider "run_state (releaseLoop r pool target (i + 1) xs rem) s1 = (Inr out, t)"
      | e where "u = Inl e" "isConflict e"
          "run_state (releaseLoop r pool target (i + 1) xs (rem @ [?new])) s1 = (Inr out, t)"
      using Cons.prems(3) False u by (auto simp: Let_def split: sum.splits if_splits)
    then show ?thesis
    proof cases
      case 1
      from Cons.IH [OF hs st 1] show ?thesis .
    next
      case 2
      have "holds view p ((rem @ [?new]) @ xs) s1"
        using Cons.prems(1) one(2) [OF 2(1,2)] by (simp add: holds_def owned_def)
      from Cons.IH [OF this st 2(3)] show ?thesis .
    qed
  qed
qed

lemma release_holds:
  assumes w: "pool_world w r view" and c: "claimed_by view p xs s"
    and r: "run_state (release r pool xs target) s = (Inr out, t)"
  shows "holds view p out t" and "int (length xs) \<ge> target \<Longrightarrow> int (length out) \<ge> target"
proof -
  have loop: "run_state (releaseLoop r pool target 0 (sort_by instName xs) []) s = (Inr out, t)" and t: "0 \<le> target"
    using r by (auto simp: release_def split: if_splits)
  have d: "distinct (map (keyOf \<circ> inst_meta) (sort_by instName xs))"
    using c by (simp add: claimed_by_def sort_by_def distinct_map)
  then have "holds view p ([] @ sort_by instName xs) s"
    using claimed_by_holds [OF c] by (simp add: holds_def)
  from releaseLoop_holds [OF w this _ loop] c show "holds view p out t" by (simp add: claimed_by_def)
  show "int (length out) \<ge> target" if "int (length xs) \<ge> target"
    using releaseLoop_length [OF loop] t that by auto
qed

lemma updateStatus_holds:
  assumes "pool_world w r view"
  shows "leaves (holds view p xs) (updateStatus am r pool claimed b)"
  by (intro holds_leaves pool_calls_owned [OF assms])

lemma updateStatus_insufficient:
  assumes "run_state (updateStatus am r pool claimed True) s = ((res, None), t)"
  shows "requeueAfter res = pr_RetryInterval r"
  using assms by (auto simp: updateStatus_def Let_def split: prod.splits if_splits sum.splits)

text \<open>
  C15: A pool that reports success is served.  If the scaling step returns without an error
  and without asking to be run again, the store holds at least \<open>spec.replicas\<close> distinct
  Instances labelled with the pool's name, whatever conflicts the writes met on the way.
\<close>

theorem scale_converged:
  assumes w: "pool_world w r view"
    and l: "run_state (listClaimed r ns (poolName pool)) s0 = (Inr claimed0, s)"
    and run: "run_state (scale am r pool claimed0) s = ((res, None), t)"
    and fin: "requeueAfter res = 0" "pr_RetryInterval r \<noteq> 0"
  shows "\<exists>xs. holds view (poolName pool) xs t \<and> replicas pool \<le> int (length xs)"
proof -
  let ?rel = "if int (length claimed0) > replicas pool then release r pool claimed0 (replicas pool) else return (Inr claimed0)"
  note c = listClaimed_claimed(1) [OF w l]
  obtain claimed s1 where rel: "run_state ?rel s = (Inr claimed, s1)"
    using run unfolding scale_def by (auto split: prod.splits sum.splits)
  have h1: "holds view (poolName pool) claimed s1"
    using rel release_holds(1) [OF w c] claimed_by_holds [OF c] by (auto split: if_splits)
  show ?thesis
  proof (cases "int (length claimed) < replicas pool")
    case False
    then have "run_state (updateStatus am r pool claimed False) s1 = ((res, None), t)"
      using run rel unfolding scale_def by simp
    from leaves_run [OF updateStatus_holds [OF w] h1 this] False show ?thesis by auto
  next
    case True
    obtain cs s2 where cl: "run_state (claim am r pool claimed) s1 = (Inr cs, s2)"
      using run rel True unfolding scale_def by (auto split: prod.splits sum.splits)
    have u: "run_state (updateStatus am r pool cs (int (length cs) < replicas pool)) s2 = ((res, None), t)"
      using run rel True cl unfolding scale_def by simp
    have "\<not> int (length cs) < replicas pool" using updateStatus_insufficient [of am r pool cs s2 res t] u fin by auto
    moreover have "holds view (poolName pool) cs t"
      using leaves_run [OF updateStatus_holds [OF w] claim_holds [OF w h1 cl] u] .
    ultimately show ?thesis by auto
  qed
qed

text \<open>
  A pool's status settles.  Writing the status computed from a set of claimed Instances
  and computing it again from the same set finds nothing to change, so a quiet pool makes
  no status writes and does not retrigger itself; and the two conditions are exclusive:
  Ready is true exactly when InsufficientCapacity is not.
\<close>

theorem newPoolStatus_settles:
  assumes "apimachinery_ok am"
  shows "newPoolStatus am (pool\<lparr>pool_Status := snd (newPoolStatus am pool claimed b)\<rparr>) claimed b =
      (False, snd (newPoolStatus am pool claimed b)) \<and>
    am_isStatusConditionTrue am (ipst_Conditions (snd (newPoolStatus am pool claimed b))) ReadyConditionType = (\<not> b) \<and>
    am_isStatusConditionTrue am (ipst_Conditions (snd (newPoolStatus am pool claimed b))) InsufficientCapacityConditionType = b"
  by (auto simp: newPoolStatus_def Let_def split_beta replicas_def ReadyConditionType_def InsufficientCapacityConditionType_def
      find_setStatusCondition [OF assms] setStatusCondition_changed [OF assms] setStatusCondition_same [OF assms]
      isStatusConditionTrue_iff [OF assms])

theorem newPoolStatus_settles_witness:
  "\<exists>st. newPoolStatus (std_apimachinery (\<lambda>_. Inl unavailable)) (demo_pool\<lparr>pool_Status := st\<rparr>) [] True = (False, st)"
  using newPoolStatus_settles [OF std_apimachinery_ok, of "\<lambda>_. Inl unavailable" demo_pool "[]" True] by blast

text \<open>
  Teardown waits for the Instances.  As long as some Instance is still labelled with a
  deleted pool's name, \<open>reconcileTeardown\<close> makes no call on pools, so the finalizer stays
  and the pool cannot disappear under its Instances.
\<close>

theorem teardown_keeps_finalizer:
  assumes i: "\<And>x. quiet pools (kupdate (cl_Instance (pr_Client r)) x)"
    "\<And>ns p. quiet pools (klist (cl_Instance (pr_Client r)) ns p)"
    and l: "result_of (listClaimed r (om_Namespace (pool_meta pool)) (poolName pool)) s = Inr claimed" "claimed \<noteq> []"
  shows "pools (state_after (reconcileTeardown am r pool) s) = pools s"
proof -
  have loop: "quiet pools (releaseLoop r pool n j xs rem)" for n j xs rem
    unfolding quiet_iff using i
    by (induction xs arbitrary: j rem) (auto intro!: leaves_rules simp: quiet_iff Let_def)
  have list: "quiet pools (listClaimed r ns p)" for ns p
    unfolding quiet_iff listClaimed_def using i(2) by (auto intro!: leaves_rules simp: quiet_iff)
  show ?thesis
  proof (cases "am_containsFinalizer am (om_Finalizers (pool_meta pool)) InstancePoolFinalizer")
    case True
    obtain t where t: "run_state (listClaimed r (om_Namespace (pool_meta pool)) (poolName pool)) s = (Inr claimed, t)"
      using l(1) by (metis prod.collapse)
    have "pools t = pools s" using list t unfolding quiet_def by (metis snd_conv)
    moreover have "pools (state_after (release r pool claimed 0) t) = pools t"
      using loop by (simp add: release_def quiet_def)
    ultimately show ?thesis using True t l(2)
      by (auto simp: reconcileTeardown_def split: prod.splits sum.splits)
  qed (simp add: reconcileTeardown_def)
qed


theorem scale_converged_witness:
  "\<exists>res t xs. run_state (scale (std_apimachinery (\<lambda>_. Inr (\<lambda>_. True))) demo_pool_reconciler demo_pool []) demo_pool_store =
      ((res, None), t) \<and> holds (mem_view inst_meta) ''pool'' xs t \<and> replicas demo_pool \<le> int (length xs)"
proof -
  let ?am = "std_apimachinery (\<lambda>_. Inr (\<lambda>_. True))"
  have l: "run_state (listClaimed demo_pool_reconciler ''tenant'' (poolName demo_pool)) demo_pool_store = (Inr [], demo_pool_store)"
    by (simp add: listClaimed_def demo_pool_reconciler_def demo_instance_client_def mem_client_def demo_pool_store_def
       mem_view_def demo_pool_def demo_instance_def demo_candidate_def keyOf_def objectMeta_def List.map_filter_def matchingLabel_def)
  have "\<exists>t. run_state (scale ?am demo_pool_reconciler demo_pool []) demo_pool_store = ((noRequeue, None), t)"
    by (simp add: scale_def demo_pool_reconciler_def demo_instance_client_def mem_client_def demo_pool_store_def
       mem_view_def demo_pool_def demo_instance_def demo_candidate_def keyOf_def objectMeta_def List.map_filter_def
       claim_def claimableCandidates_def tryClaim_def mem_write_def Let_def updateStatus_def setLabel_def claimedBy_def
       replicas_def std_apimachinery_def newPoolStatus_def sort_by_def stamp_def
       DiscoveredConditionType_def LiveConditionType_def)
  then obtain t where r: "run_state (scale ?am demo_pool_reconciler demo_pool []) demo_pool_store = ((noRequeue, None), t)" ..
  with scale_converged [OF demo_pool_world l r] show ?thesis
    by (auto simp: demo_pool_reconciler_def poolDefaultRetryInterval_def second_def demo_pool_def objectMeta_def)
qed

theorem teardown_keeps_finalizer_witness:
  "state_after (reconcileTeardown (std_apimachinery (\<lambda>_. Inr (\<lambda>_. True)))
     (demo_pool_reconciler\<lparr>pr_Client := down_client\<lparr>cl_Instance := down_kclient\<lparr>klist := (\<lambda>_ _. return (Inr [demo_candidate]))\<rparr>\<rparr>\<rparr>) demo_pool)
     demo_pool_store = demo_pool_store"
  by (rule teardown_keeps_finalizer [where pools = "\<lambda>s. s" and claimed = "[demo_candidate]"])
    (simp_all add: quiet_def listClaimed_def down_kclient_def)

end
