(* ===== verification/Registry.thy ===== *)
theory Registry
  imports InstancePool
begin

text \<open>
  \<open>pkg/domain/registry\<close>: the server registry.  Every server process registers itself as a
  Kontinuum object and refreshes it (\<open>heartbeat.go\<close>); a reconciler deletes objects whose
  heartbeat has stopped and cleans up their config Secrets (\<open>ttl.go\<close>); both run behind
  one combined reconciler (\<open>controller.go\<close>).

  A Heartbeat has memory of its own, the atomic \<open>shuttingDown\<close>, so its methods run over a
  \<open>hbstate\<close>: the flag and the world.  \<open>api\<close> lifts a call on the world.  The mutex
  \<open>h.mu\<close> serialises the methods, so each one is a single step of the process.  Log lines
  are left out.
\<close>

section \<open>Roles and names\<close>

definition ErrRegionZoneRequired :: goerr where
  "ErrRegionZoneRequired = Sentinel ''region and zone must both be set, or both be empty''"

definition Role :: "string \<Rightarrow> string \<Rightarrow> goerr + string" where
  "Role region zone =
     (if region = '''' \<and> zone = '''' then Inr RoleControlPlane
      else if region = '''' \<or> zone = '''' then
        Inl (Errorf ''%w: region=%q zone=%q'' [region, zone] [ErrRegionZoneRequired])
      else Inr RoleWorker)"

definition secretNamePrefix :: string where "secretNamePrefix = ''kontinuum-''"

definition secretName :: "string \<Rightarrow> string" where
  "secretName instanceName = secretNamePrefix @ instanceName"

text \<open>
  \<open>InstanceName\<close>: the hostname in lower case, or a fresh UUID; \<open>uuidV7\<close> and \<open>uuidV4\<close> stand
  for the uuid package.
\<close>

definition toLowerChar :: "char \<Rightarrow> char" where
  "toLowerChar c = (let n = of_char c :: nat in if 65 \<le> n \<and> n \<le> 90 then char_of (n + 32) else c)"

definition toLower :: "string \<Rightarrow> string" where "toLower s = map toLowerChar s"

definition InstanceName :: "('s, goerr + string) state \<Rightarrow> ('s, string) state \<Rightarrow> goerr + string \<Rightarrow> ('s, string) state" where
  "InstanceName uuidV7 uuidV4 hostname = (case hostname of
       Inr h \<Rightarrow> if h = '''' \<or> toLower h = ''localhost''
         then do { u \<leftarrow> uuidV7; (case u of Inl _ \<Rightarrow> uuidV4 | Inr i \<Rightarrow> return i) }
         else return (toLower h)
     | Inl _ \<Rightarrow> do { u \<leftarrow> uuidV7; (case u of Inl _ \<Rightarrow> uuidV4 | Inr i \<Rightarrow> return i) })"

section \<open>Deleting stale registrations\<close>

definition ttlLeaseRetryInterval :: int where "ttlLeaseRetryInterval = 30 * second"

record 's TTLReconciler =
  ttl_Client :: "'s client"
  ttl_StaleThreshold :: int
  ttl_Locker :: "'s Locker"

definition Stale :: "int \<Rightarrow> int \<Rightarrow> int \<Rightarrow> bool" where
  "Stale seen now threshold \<longleftrightarrow> now - seen \<ge> threshold"

definition deleteStale :: "'s TTLReconciler \<Rightarrow> Kontinuum \<Rightarrow> ('s, goerr option) state" where
  "deleteStale r server = do {
     e \<leftarrow> kdelete (cl_Kontinuum (ttl_Client r)) server;
     (case e of
        Some err \<Rightarrow> if \<not> isNotFound err
          then return (Some (Errorf ''failed to delete stale server %q: %w'' [om_Name (kon_meta server)] [err]))
          else return None
      | None \<Rightarrow> return None)
   }"

definition secretObj :: "string \<Rightarrow> string \<Rightarrow> Secret" where
  "secretObj ns n = \<lparr>sec_meta = objectMeta ns n, sec_Type = '''', sec_Data = Map.empty, sec_StringData = Map.empty\<rparr>"

definition cleanupSecret :: "'s TTLReconciler \<Rightarrow> string \<Rightarrow> ('s, goerr option) state" where
  "cleanupSecret r name = do {
     e \<leftarrow> kdelete (cl_Secret (ttl_Client r)) (secretObj KontinuumSystemNamespace (secretName name));
     (case e of
        Some err \<Rightarrow> if isNotFound err then return None
          else return (Some (Errorf ''failed to delete config secret %q: %w'' [secretName name] [err]))
      | None \<Rightarrow> return None)
   }"

definition lastSeen :: "Kontinuum \<Rightarrow> int" where
  "lastSeen server = (let t = kst_LastHeartbeatTime (kon_Status server) in
     if t = 0 then om_CreationTimestamp (kon_meta server) else t)"

definition TTLReconcile :: "'s world \<Rightarrow> 's TTLReconciler \<Rightarrow> ObjectKey \<Rightarrow> ('s, outcome) state" where
  "TTLReconcile w r req = do {
     g \<leftarrow> kget (cl_Kontinuum (ttl_Client r)) req;
     (case g of
        Inl err \<Rightarrow>
          if isNotFound err then do { e \<leftarrow> cleanupSecret r (snd req); return (noRequeue, e) }
          else return (noRequeue, Some (Errorf ''failed to get server %q: %w'' [snd req] [err]))
      | Inr server \<Rightarrow> do {
          a \<leftarrow> TryAcquire w (ttl_Locker r) GlobalKey;
          (case a of
             Inl err \<Rightarrow> return (noRequeue, Some (Errorf ''failed to acquire zone lease for ttl sweep: %w'' [] [err]))
           | Inr acquired \<Rightarrow>
               if \<not> acquired then do {
                 d \<leftarrow> Jitter w ttlLeaseRetryInterval;
                 return (\<lparr>requeueAfter = d\<rparr>, None)
               }
               else do {
                 now \<leftarrow> w_now w;
                 if Stale (lastSeen server) now (ttl_StaleThreshold r)
                 then do { e \<leftarrow> deleteStale r server; return (noRequeue, e) }
                 else return (\<lparr>requeueAfter = ttl_StaleThreshold r - (now - lastSeen server)\<rparr>, None)
               })
        })
   }"

section \<open>The heartbeat\<close>

record 's Heartbeat =
  hb_Client :: "'s client"
  hb_Reader :: "'s client"
  hb_Name :: string
  hb_Role :: string
  hb_Spec :: KontinuumSpec
  hb_Interval :: int
  hb_Version :: string
  hb_SecretData :: labels
  hb_Config :: KontinuumConfigStatus

record 's hbstate =
  hs_shuttingDown :: bool
  hs_world :: 's

definition api :: "('s, 'a) state \<Rightarrow> ('s hbstate, 'a) state" where
  "api m = State (\<lambda>h. case run_state m (hs_world h) of (a, w) \<Rightarrow> (a, h\<lparr>hs_world := w\<rparr>))"

definition loadShuttingDown :: "('s hbstate, bool) state" where
  "loadShuttingDown = State (\<lambda>h. (hs_shuttingDown h, h))"

definition storeShuttingDown :: "bool \<Rightarrow> ('s hbstate, unit) state" where
  "storeShuttingDown b = State (\<lambda>h. ((), h\<lparr>hs_shuttingDown := b\<rparr>))"

definition selfObject :: "'s Heartbeat \<Rightarrow> KontinuumSpec \<Rightarrow> Kontinuum" where
  "selfObject h spec = \<lparr>kon_meta = objectMeta KontinuumSystemNamespace (hb_Name h), kon_Spec = spec,
     kon_Status = zeroKontinuumStatus\<rparr>"

definition registryEnsureNamespace :: "'s client \<Rightarrow> string \<Rightarrow> ('s, goerr option) state" where
  "registryEnsureNamespace c namespace = do {
     r \<leftarrow> kcreate (cl_Namespace c) (namespaceObj namespace);
     (case r of
        Inl err \<Rightarrow> if \<not> isAlreadyExists err
          then return (Some (Errorf ''failed to ensure %q namespace: %w'' [namespace] [err])) else return None
      | Inr _ \<Rightarrow> return None)
   }"

definition secretRef :: "'s Heartbeat \<Rightarrow> KontinuumSecretReference" where
  "secretRef h = \<lparr>ksr_Name = secretName (hb_Name h), ksr_Namespace = KontinuumSystemNamespace\<rparr>"

definition ownedSecret :: "apimachinery \<Rightarrow> Kontinuum \<Rightarrow> Secret \<Rightarrow> goerr + Secret" where
  "ownedSecret am server secret = (case am_setControllerReference am (kon_meta server) (sec_meta secret) of
       Inl err \<Rightarrow> Inl (Errorf ''failed to set owner reference on %q secret: %w'' [om_Name (sec_meta secret)] [err])
     | Inr m \<Rightarrow> Inr (secret\<lparr>sec_meta := m\<rparr>))"

definition ensureSecret :: "apimachinery \<Rightarrow> 's Heartbeat \<Rightarrow> Kontinuum \<Rightarrow>
    ('s, goerr + KontinuumSecretReference) state" where
  "ensureSecret am h server = do {
     let ref = secretRef h;
     n \<leftarrow> registryEnsureNamespace (hb_Client h) (ksr_Namespace ref);
     (case n of
        Some err \<Rightarrow> return (Inl err)
      | None \<Rightarrow> (case ownedSecret am server
            ((secretObj (ksr_Namespace ref) (ksr_Name ref))\<lparr>sec_StringData := hb_SecretData h\<rparr>) of
          Inl err \<Rightarrow> return (Inl err)
        | Inr secret \<Rightarrow> do {
            c \<leftarrow> kcreate (cl_Secret (hb_Client h)) secret;
            (case c of
               Inr _ \<Rightarrow> return (Inr ref)
             | Inl err \<Rightarrow>
                 if \<not> isAlreadyExists err
                 then return (Inl (Errorf ''failed to ensure %q secret: %w'' [ksr_Name ref] [err]))
                 else do {
                   g \<leftarrow> kget (cl_Secret (hb_Reader h)) (keyOf (sec_meta secret));
                   (case g of
                      Inl err \<Rightarrow> return (Inl (Errorf ''failed to fetch existing %q secret: %w'' [ksr_Name ref] [err]))
                    | Inr existing \<Rightarrow> (case ownedSecret am server (existing\<lparr>sec_StringData := hb_SecretData h\<rparr>) of
                        Inl err \<Rightarrow> return (Inl err)
                      | Inr existing1 \<Rightarrow> do {
                          u \<leftarrow> kupdate (cl_Secret (hb_Client h)) existing1;
                          (case u of
                             Inl err \<Rightarrow> return (Inl (Errorf ''failed to ensure %q secret: %w'' [ksr_Name ref] [err]))
                           | Inr _ \<Rightarrow> return (Inr ref))
                        }))
                 })
          }))
   }"

text \<open>
  The five status fields a heartbeat writes, and the write: shared by \<open>beat\<close> and
  \<open>reregister\<close>, which repeat the same lines.  The result is the in-memory \<open>server\<close>.
\<close>

definition heartbeatStatus :: "'s Heartbeat \<Rightarrow> KontinuumSecretReference \<Rightarrow> int \<Rightarrow> Kontinuum \<Rightarrow> Kontinuum" where
  "heartbeatStatus h ref now server = server\<lparr>kon_Status := (kon_Status server)
     \<lparr>kst_Role := hb_Role h, kst_LastHeartbeatTime := now, kst_Version := hb_Version h,
      kst_SecretRef := ref, kst_Config := hb_Config h\<rparr>\<rparr>"

definition sendHeartbeat :: "'s world \<Rightarrow> apimachinery \<Rightarrow> 's Heartbeat \<Rightarrow> Kontinuum \<Rightarrow> ('s, Kontinuum) state" where
  "sendHeartbeat w am h server = do {
     r \<leftarrow> ensureSecret am h server;
     (case r of
        Inl err \<Rightarrow> return server
      | Inr ref \<Rightarrow> do {
          now \<leftarrow> w_now w;
          let server1 = heartbeatStatus h ref now server;
          u \<leftarrow> kupdateStatus (cl_Kontinuum (hb_Client h)) server1;
          (case u of Inl err \<Rightarrow> return server1 | Inr server2 \<Rightarrow> return server2)
        })
   }"

definition reregister :: "'s world \<Rightarrow> apimachinery \<Rightarrow> 's Heartbeat \<Rightarrow> ('s, Kontinuum) state" where
  "reregister w am h = do {
     let server = selfObject h (hb_Spec h);
     n \<leftarrow> registryEnsureNamespace (hb_Client h) (om_Namespace (kon_meta server));
     (case n of
        Some err \<Rightarrow> return server
      | None \<Rightarrow> do {
          c \<leftarrow> kcreate (cl_Kontinuum (hb_Client h)) server;
          (case c of
             Inr server1 \<Rightarrow> sendHeartbeat w am h server1
           | Inl err \<Rightarrow>
               if isAlreadyExists err then do {
                 g \<leftarrow> kget (cl_Kontinuum (hb_Reader h)) (keyOf (kon_meta server));
                 (case g of Inl err \<Rightarrow> return server | Inr server1 \<Rightarrow> sendHeartbeat w am h server1)
               } else return server)
        })
   }"

definition beat :: "'s world \<Rightarrow> apimachinery \<Rightarrow> 's Heartbeat \<Rightarrow> Kontinuum \<Rightarrow> ('s hbstate, Kontinuum) state" where
  "beat w am h server = do {
     g \<leftarrow> api (kget (cl_Kontinuum (hb_Reader h)) (keyOf (kon_meta server)));
     (case g of
        Inl err \<Rightarrow>
          if isNotFound err then do {
            sd \<leftarrow> loadShuttingDown;
            if sd then return server else api (reregister w am h)
          }
          else return server
      | Inr server1 \<Rightarrow> api (sendHeartbeat w am h server1))
   }"

definition HeartbeatReconcile :: "'s world \<Rightarrow> apimachinery \<Rightarrow> 's Heartbeat \<Rightarrow> ObjectKey \<Rightarrow> ('s hbstate, outcome) state" where
  "HeartbeatReconcile w am h req = do {
     g \<leftarrow> api (kget (cl_Kontinuum (hb_Reader h)) req);
     (case g of
        Inl err \<Rightarrow>
          if isNotFound err then do {
            sd \<leftarrow> loadShuttingDown;
            if sd then return (noRequeue, None)
            else do { _ \<leftarrow> api (reregister w am h); return (noRequeue, None) }
          }
          else return (noRequeue, Some (Errorf ''failed to get server %q: %w'' [snd req] [err]))
      | Inr _ \<Rightarrow> return (noRequeue, None))
   }"

definition Deregister :: "'s Heartbeat \<Rightarrow> ('s hbstate, goerr option) state" where
  "Deregister h = do {
     _ \<leftarrow> storeShuttingDown True;
     e \<leftarrow> api (kdelete (cl_Kontinuum (hb_Client h)) (selfObject h \<lparr>ksp_Region = '''', ksp_Zone = ''''\<rparr>));
     (case e of
        Some err \<Rightarrow> if \<not> isNotFound err
          then return (Some (Errorf ''failed to deregister server %q: %w'' [hb_Name h] [err])) else return None
      | None \<Rightarrow> return None)
   }"

text \<open>
  \<open>Start\<close>: one beat, then one per tick, until the context is done.  The list holds what the
  \<open>select\<close> receives; it ends where the observation ends.
\<close>

datatype hbevent = TickerC | CtxDone

fun startLoop :: "'s world \<Rightarrow> apimachinery \<Rightarrow> 's Heartbeat \<Rightarrow> hbevent list \<Rightarrow> Kontinuum \<Rightarrow> ('s hbstate, unit) state" where
  "startLoop w am h [] server = return ()"
| "startLoop w am h (TickerC # evs) server = do { server1 \<leftarrow> beat w am h server; startLoop w am h evs server1 }"
| "startLoop w am h (CtxDone # evs) server = do { _ \<leftarrow> Deregister h; return () }"

definition HeartbeatStart :: "'s world \<Rightarrow> apimachinery \<Rightarrow> 's Heartbeat \<Rightarrow> hbevent list \<Rightarrow> ('s hbstate, unit) state" where
  "HeartbeatStart w am h evs = do {
     server \<leftarrow> beat w am h (selfObject h (hb_Spec h));
     startLoop w am h evs server
   }"

section \<open>The controller\<close>

definition defaultHeartbeatInterval :: int where "defaultHeartbeatInterval = minute"

definition defaultStaleThreshold :: int where "defaultStaleThreshold = 5 * minute"

definition storageSecretKey :: string where "storageSecretKey = ''KONTINUUM_SERVER_STORAGE''"

record RegistryConfig =
  rc_Role :: string
  rc_Region :: string
  rc_Zone :: string
  rc_HeartbeatInterval :: int
  rc_StaleThreshold :: int
  rc_Version :: string
  rc_Storage :: string
  rc_DisplayConfig :: KontinuumConfigStatus
  rc_ZoneLease :: Identity

definition NewRegistryController :: "RegistryConfig \<Rightarrow> RegistryConfig" where
  "NewRegistryController cfg =
     (let cfg1 = (if rc_HeartbeatInterval cfg = 0 then cfg\<lparr>rc_HeartbeatInterval := defaultHeartbeatInterval\<rparr> else cfg)
      in if rc_StaleThreshold cfg1 = 0 then cfg1\<lparr>rc_StaleThreshold := defaultStaleThreshold\<rparr> else cfg1)"

record 's CombinedReconciler =
  cr_TTL :: "'s TTLReconciler"
  cr_Heartbeat :: "'s Heartbeat"

text \<open>\<open>SetupWithManager\<close>: how the two reconcilers are built from the configuration and the manager's clients.\<close>

definition SetupWithManager :: "RegistryConfig \<Rightarrow> 's client \<Rightarrow> 's client \<Rightarrow> string \<Rightarrow> 's CombinedReconciler" where
  "SetupWithManager cfg mgrClient apiReader name =
     \<lparr>cr_TTL = \<lparr>ttl_Client = mgrClient, ttl_StaleThreshold = rc_StaleThreshold cfg,
        ttl_Locker = NewLocker mgrClient apiReader (id_HolderIdentity (rc_ZoneLease cfg))
          (id_SelfZoneKey (rc_ZoneLease cfg)) 0\<rparr>,
      cr_Heartbeat = \<lparr>hb_Client = mgrClient, hb_Reader = apiReader, hb_Name = name, hb_Role = rc_Role cfg,
        hb_Spec = \<lparr>ksp_Region = rc_Region cfg, ksp_Zone = rc_Zone cfg\<rparr>, hb_Interval = rc_HeartbeatInterval cfg,
        hb_Version = rc_Version cfg, hb_SecretData = [storageSecretKey \<mapsto> rc_Storage cfg],
        hb_Config = rc_DisplayConfig cfg\<rparr>\<rparr>"

definition ControllerDeregister :: "'s Heartbeat option \<Rightarrow> ('s hbstate, goerr option) state" where
  "ControllerDeregister hb = (case hb of None \<Rightarrow> return None | Some h \<Rightarrow> Deregister h)"

definition CombinedReconcile :: "'s world \<Rightarrow> apimachinery \<Rightarrow> 's CombinedReconciler \<Rightarrow> ObjectKey \<Rightarrow>
    ('s hbstate, outcome) state" where
  "CombinedReconcile w am r req = do {
     x \<leftarrow> api (TTLReconcile w (cr_TTL r) req);
     (case x of (result, e) \<Rightarrow> (case e of
        Some err \<Rightarrow> return (result, Some err)
      | None \<Rightarrow>
          if snd req = hb_Name (cr_Heartbeat r) then do {
            y \<leftarrow> HeartbeatReconcile w am (cr_Heartbeat r) req;
            (case snd y of Some err \<Rightarrow> return (result, Some err) | None \<Rightarrow> return (result, None))
          }
          else return (result, None)))
   }"

section \<open>Running the heartbeat\<close>

lemma run_api [simp]:
  "run_state (api m) h = (case run_state m (hs_world h) of (a, w) \<Rightarrow> (a, h\<lparr>hs_world := w\<rparr>))"
  by (simp add: api_def)

lemma run_flag [simp]:
  "run_state loadShuttingDown h = (hs_shuttingDown h, h)"
  "run_state (storeShuttingDown b) h = ((), h\<lparr>hs_shuttingDown := b\<rparr>)"
  by (simp_all add: loadShuttingDown_def storeShuttingDown_def)

definition selfKey :: "'s Heartbeat \<Rightarrow> ObjectKey" where
  "selfKey h = (KontinuumSystemNamespace, hb_Name h)"

definition secretKey :: "'s Heartbeat \<Rightarrow> ObjectKey" where
  "secretKey h = (KontinuumSystemNamespace, secretName (hb_Name h))"

lemma selfObject_key [simp]: "keyOf (kon_meta (selfObject h sp)) = selfKey h"
  by (simp add: selfObject_def selfKey_def)

section \<open>Shutting down\<close>

text \<open>
  One process, seen from its registration: its two entry points and \<open>Deregister\<close> run one at
  a time, in any order and any number of times, interleaved with everybody else, who may do
  anything but create an object under this process's name.
\<close>

inductive hb_step :: "'s world \<Rightarrow> apimachinery \<Rightarrow> 's Heartbeat \<Rightarrow> ('s \<Rightarrow> ObjectKey \<rightharpoonup> Kontinuum) \<Rightarrow>
    's hbstate \<Rightarrow> 's hbstate \<Rightarrow> bool" for w am h kv where
  step_beat: "keyOf (kon_meta server) = selfKey h \<Longrightarrow>
    hb_step w am h kv s (state_after (beat w am h server) s)"
| step_reconcile: "hb_step w am h kv s (state_after (HeartbeatReconcile w am h req) s)"
| step_deregister: "hb_step w am h kv s (state_after (Deregister h) s)"
| step_other: "hs_shuttingDown t = hs_shuttingDown s \<Longrightarrow>
    (kv (hs_world s) (selfKey h) = None \<Longrightarrow> kv (hs_world t) (selfKey h) = None) \<Longrightarrow> hb_step w am h kv s t"

inductive hb_steps :: "'s world \<Rightarrow> apimachinery \<Rightarrow> 's Heartbeat \<Rightarrow> ('s \<Rightarrow> ObjectKey \<rightharpoonup> Kontinuum) \<Rightarrow>
    's hbstate \<Rightarrow> 's hbstate \<Rightarrow> bool" for w am h kv where
  steps_refl: "hb_steps w am h kv s s"
| steps_step: "hb_steps w am h kv s t \<Longrightarrow> hb_step w am h kv t u \<Longrightarrow> hb_steps w am h kv s u"

text \<open>A delete that reports success or \<open>NotFound\<close> leaves no object behind, and no delete makes one.\<close>

definition delete_removes :: "('s, 'o) kclient \<Rightarrow> ('o \<Rightarrow> ObjectMeta) \<Rightarrow> ('s \<Rightarrow> ObjectKey \<rightharpoonup> 'o) \<Rightarrow> bool" where
  "delete_removes c meta view \<longleftrightarrow> (\<forall>x s.
     (\<forall>e. result_of (kdelete c x) s = Some e \<longrightarrow> isNotFound e) \<longrightarrow> view (state_after (kdelete c x) s) (keyOf (meta x)) = None) \<and>
     (\<forall>x s k. view s k = None \<longrightarrow> view (state_after (kdelete c x) s) k = None)"

definition gone :: "'s Heartbeat \<Rightarrow> ('s \<Rightarrow> ObjectKey \<rightharpoonup> Kontinuum) \<Rightarrow> 's hbstate \<Rightarrow> bool" where
  "gone h kv s \<longleftrightarrow> hs_shuttingDown s \<and> kv (hs_world s) (selfKey h) = None"

lemma get_quiet:
  assumes "cas_store c kon_meta body kv" and "run_state (kget c k) s = (g, t)"
  shows "kv t = kv s" and "g = Inr x \<Longrightarrow> kv s k = Some x"
  using cas_store_get [OF assms(1), of k s] assms(2) by auto

lemma beat_gone:
  assumes c: "cas_store (cl_Kontinuum (hb_Reader h)) kon_meta kon_Spec kv"
    and g: "gone h kv s" and k: "keyOf (kon_meta server) = selfKey h"
  shows "gone h kv (state_after (beat w am h server) s)"
proof -
  obtain g s1 where r: "run_state (kget (cl_Kontinuum (hb_Reader h)) (selfKey h)) (hs_world s) = (g, s1)" by fastforce
  have n: "kv (hs_world s) (selfKey h) = None" "hs_shuttingDown s" using g by (simp_all add: gone_def)
  have "g \<noteq> Inr x" for x using get_quiet(2) [OF c r] n by auto
  then obtain err where "g = Inl err" by (cases g) auto
  then show ?thesis using r n k get_quiet(1) [OF c r] by (simp add: beat_def gone_def)
qed

lemma reconcile_gone:
  assumes c: "cas_store (cl_Kontinuum (hb_Reader h)) kon_meta kon_Spec kv" and g: "gone h kv s"
  shows "gone h kv (state_after (HeartbeatReconcile w am h req) s)"
proof -
  obtain g s1 where r: "run_state (kget (cl_Kontinuum (hb_Reader h)) req) (hs_world s) = (g, s1)" by fastforce
  show ?thesis
    using r g get_quiet(1) [OF c r] by (cases g) (auto simp: HeartbeatReconcile_def gone_def)
qed

lemma deregister_run:
  "run_state (Deregister h) s = (e, t) \<Longrightarrow> hs_shuttingDown t \<and>
     (\<exists>d x. run_state (kdelete (cl_Kontinuum (hb_Client h)) x) (hs_world s) = (d, hs_world t) \<and>
       keyOf (kon_meta x) = selfKey h \<and> (e = None \<longrightarrow> (\<forall>err. d = Some err \<longrightarrow> isNotFound err)))"
  by (force simp: Deregister_def split: prod.splits option.splits if_splits)

lemma deregister_gone:
  assumes d: "delete_removes (cl_Kontinuum (hb_Client h)) kon_meta kv" and r: "run_state (Deregister h) s = (e, t)"
  shows "e = None \<Longrightarrow> gone h kv t" and "gone h kv s \<Longrightarrow> gone h kv t"
  using deregister_run [OF r] d unfolding delete_removes_def gone_def by (metis fst_conv snd_conv)+

lemma hb_step_gone:
  assumes c: "cas_store (cl_Kontinuum (hb_Reader h)) kon_meta kon_Spec kv"
    and d: "delete_removes (cl_Kontinuum (hb_Client h)) kon_meta kv"
    and st: "hb_step w am h kv s t" and g: "gone h kv s"
  shows "gone h kv t"
  using st
proof (cases rule: hb_step.cases)
  case step_deregister
  then show ?thesis using deregister_gone(2) [OF d _ g] by (metis prod.collapse)
next
  case step_other
  then show ?thesis using g by (simp add: gone_def)
qed (use beat_gone [OF c g] reconcile_gone [OF c g] in auto)

text \<open>
  C13: A deregistered server stays deregistered.  Once \<open>Deregister\<close> has returned without an
  error, no interleaving of heartbeats, watch-triggered reconciles and further
  deregistrations of the same process brings its Kontinuum object back.
\<close>

theorem deregister_final:
  assumes "cas_store (cl_Kontinuum (hb_Reader h)) kon_meta kon_Spec kv"
    and "delete_removes (cl_Kontinuum (hb_Client h)) kon_meta kv"
    and "run_state (Deregister h) s = (None, t)" and "hb_steps w am h kv t u"
  shows "hs_shuttingDown u \<and> kv (hs_world u) (selfKey h) = None"
proof -
  have "gone h kv u" using assms(4) deregister_gone(1) [OF assms(2,3)]
    by (induction rule: hb_steps.induct) (auto intro: hb_step_gone [OF assms(1,2)])
  then show ?thesis by (simp add: gone_def)
qed

section \<open>Self-healing\<close>

text \<open>
  The server keeps second precision of a \<open>metav1.Time\<close>, and merges a Secret's
  \<open>StringData\<close> over its \<open>Data\<close>.
\<close>

definition storedTime :: "int \<Rightarrow> int" where "storedTime t = t - t mod second"

definition secretBody :: "Secret \<Rightarrow> labels" where "secretBody x = sec_Data x ++ sec_StringData x"

definition status_up :: "('s, Kontinuum) kclient \<Rightarrow> ('s \<Rightarrow> ObjectKey \<rightharpoonup> Kontinuum) \<Rightarrow> bool" where
  "status_up c kv \<longleftrightarrow> (\<forall>x z s. kv s (keyOf (kon_meta x)) = Some z \<and>
     om_ResourceVersion (kon_meta z) = om_ResourceVersion (kon_meta x) \<longrightarrow>
     (\<exists>y t. run_state (kupdateStatus c x) s = (Inr y, t) \<and> kv t = (kv s)(keyOf (kon_meta x) \<mapsto> y) \<and>
        kon_Spec y = kon_Spec z \<and> kon_Status y = (kon_Status x)
          \<lparr>kst_LastHeartbeatTime := storedTime (kst_LastHeartbeatTime (kon_Status x))\<rparr>))"

text \<open>
  \<open>controllerutil.SetControllerReference\<close> succeeds unless the object already has another
  controller, and changes nothing but the owner references.
\<close>

definition ownable :: "string \<Rightarrow> ObjectMeta \<Rightarrow> bool" where
  "ownable owner m \<longleftrightarrow> (\<forall>r\<in>set (om_OwnerReferences m). or_Controller r \<longrightarrow> or_Name r = owner)"

definition owner_ok :: "apimachinery \<Rightarrow> bool" where
  "owner_ok am \<longleftrightarrow> (\<forall>own m. ownable (om_Name own) m \<longrightarrow>
     (\<exists>rs. am_setControllerReference am own m = Inr (m\<lparr>om_OwnerReferences := rs\<rparr>)))"

definition registry_world :: "'s world \<Rightarrow> apimachinery \<Rightarrow> 's Heartbeat \<Rightarrow> ('s \<Rightarrow> ObjectKey \<rightharpoonup> Kontinuum) \<Rightarrow>
    ('s \<Rightarrow> ObjectKey \<rightharpoonup> Secret) \<Rightarrow> ('s \<Rightarrow> int) \<Rightarrow> bool" where
  "registry_world w am h kv sv clk \<longleftrightarrow>
     (\<forall>c\<in>{hb_Client h, hb_Reader h}.
        cas_store (cl_Kontinuum c) kon_meta kon_Spec kv \<and> server_up (cl_Kontinuum c) kon_meta kv \<and>
        cas_store (cl_Secret c) sec_meta secretBody sv \<and> server_up (cl_Secret c) sec_meta sv \<and>
        kclient_quiet sv (cl_Kontinuum c) \<and> kclient_quiet kv (cl_Secret c) \<and>
        kclient_mono clk (cl_Kontinuum c) \<and> kclient_mono clk (cl_Secret c)) \<and>
     status_up (cl_Kontinuum (hb_Client h)) kv \<and>
     kclient_quiet kv (cl_Namespace (hb_Client h)) \<and> kclient_quiet sv (cl_Namespace (hb_Client h)) \<and>
     kclient_mono clk (cl_Namespace (hb_Client h)) \<and>
     (\<forall>x s e. result_of (kcreate (cl_Namespace (hb_Client h)) x) s = Inl e \<longrightarrow> isAlreadyExists e) \<and>
     (\<forall>s k x. kv s k = Some x \<longrightarrow> keyOf (kon_meta x) = k) \<and>
     (\<forall>s k x. sv s k = Some x \<longrightarrow> keyOf (sec_meta x) = k) \<and>
     quiet kv (w_now w) \<and> quiet sv (w_now w) \<and>
     (\<forall>s. clk s \<le> result_of (w_now w) s \<and> result_of (w_now w) s \<le> clk (state_after (w_now w) s)) \<and>
     owner_ok am"

lemma registry_worldD:
  assumes "registry_world w am h kv sv clk"
  shows "c \<in> {hb_Client h, hb_Reader h} \<Longrightarrow> cas_store (cl_Kontinuum c) kon_meta kon_Spec kv"
    and "c \<in> {hb_Client h, hb_Reader h} \<Longrightarrow> server_up (cl_Kontinuum c) kon_meta kv"
    and "c \<in> {hb_Client h, hb_Reader h} \<Longrightarrow> cas_store (cl_Secret c) sec_meta secretBody sv"
    and "c \<in> {hb_Client h, hb_Reader h} \<Longrightarrow> server_up (cl_Secret c) sec_meta sv"
    and "c \<in> {hb_Client h, hb_Reader h} \<Longrightarrow> kclient_quiet sv (cl_Kontinuum c)"
    and "c \<in> {hb_Client h, hb_Reader h} \<Longrightarrow> kclient_quiet kv (cl_Secret c)"
    and "c \<in> {hb_Client h, hb_Reader h} \<Longrightarrow> kclient_mono clk (cl_Kontinuum c)"
    and "c \<in> {hb_Client h, hb_Reader h} \<Longrightarrow> kclient_mono clk (cl_Secret c)"
    and "status_up (cl_Kontinuum (hb_Client h)) kv" and "owner_ok am"
    and "kv s k = Some x \<Longrightarrow> keyOf (kon_meta x) = k" and "sv s k = Some y \<Longrightarrow> keyOf (sec_meta y) = k"
  using assms unfolding registry_world_def by blast+

lemma namespace_up:
  assumes w: "registry_world w am h kv sv clk"
  obtains t where "run_state (registryEnsureNamespace (hb_Client h) ns) s = (None, t)"
    and "kv t = kv s" "sv t = sv s" "clk s \<le> clk t"
proof -
  let ?m = "kcreate (cl_Namespace (hb_Client h)) (namespaceObj ns)"
  obtain r t where r: "run_state ?m s = (r, t)" by fastforce
  have ns: "kclient_quiet kv (cl_Namespace (hb_Client h))" "kclient_quiet sv (cl_Namespace (hb_Client h))"
    "kclient_mono clk (cl_Namespace (hb_Client h))" "\<And>e. r = Inl e \<Longrightarrow> isAlreadyExists e"
    using w r unfolding registry_world_def by (auto dest!: spec [of _ "namespaceObj ns"] spec [of _ s])
  have "run_state (registryEnsureNamespace (hb_Client h) ns) s = (None, t)"
    using r ns(4) by (auto simp: registryEnsureNamespace_def split: sum.splits)
  with that kclient_quietD(3) [OF ns(1) r] kclient_quietD(3) [OF ns(2) r] kclient_monoD(3) [OF ns(3) r]
  show ?thesis by blast
qed

lemma now_up:
  assumes "registry_world w am h kv sv clk"
  obtains now t where "run_state (w_now w) s = (now, t)" "kv t = kv s" "sv t = sv s" "clk s \<le> now" "now \<le> clk t"
proof -
  obtain now t where "run_state (w_now w) s = (now, t)" by fastforce
  moreover then have "kv t = kv s" "sv t = sv s" "clk s \<le> now" "now \<le> clk t"
    using assms quiet_run unfolding registry_world_def by (metis fst_conv snd_conv)+
  ultimately show ?thesis using that by blast
qed

lemma ownedSecret_ok:
  assumes "owner_ok am" and "ownable (om_Name (kon_meta server)) (sec_meta x)"
  shows "\<exists>rs. ownedSecret am server x = Inr (x\<lparr>sec_meta := (sec_meta x)\<lparr>om_OwnerReferences := rs\<rparr>\<rparr>)"
proof -
  obtain rs where "am_setControllerReference am (kon_meta server) (sec_meta x) = Inr ((sec_meta x)\<lparr>om_OwnerReferences := rs\<rparr>)"
    using assms unfolding owner_ok_def by blast
  then show ?thesis by (auto simp: ownedSecret_def)
qed

text \<open>The config Secret holds everything the process published.\<close>

definition secret_published :: "'s Heartbeat \<Rightarrow> ('s \<Rightarrow> ObjectKey \<rightharpoonup> Secret) \<Rightarrow> 's \<Rightarrow> bool" where
  "secret_published h sv s \<longleftrightarrow> (\<exists>x. sv s (secretKey h) = Some x \<and> hb_SecretData h \<subseteq>\<^sub>m secretBody x)"

definition secret_ours :: "'s Heartbeat \<Rightarrow> ('s \<Rightarrow> ObjectKey \<rightharpoonup> Secret) \<Rightarrow> 's \<Rightarrow> bool" where
  "secret_ours h sv s \<longleftrightarrow> (\<forall>x. sv s (secretKey h) = Some x \<longrightarrow> ownable (hb_Name h) (sec_meta x))"

lemma ensureSecret_up:
  assumes w: "registry_world w am h kv sv clk" and n: "om_Name (kon_meta server) = hb_Name h" and o: "secret_ours h sv s"
  obtains t where "run_state (ensureSecret am h server) s = (Inr (secretRef h), t)"
    and "kv t = kv s" and "secret_published h sv t" and "clk s \<le> clk t"
proof -
  obtain s1 where s1: "run_state (registryEnsureNamespace (hb_Client h) KontinuumSystemNamespace) s = (None, s1)"
    "kv s1 = kv s" "sv s1 = sv s" "clk s \<le> clk s1" by (rule namespace_up [OF w])
  let ?new = "(secretObj KontinuumSystemNamespace (secretName (hb_Name h)))\<lparr>sec_StringData := hb_SecretData h\<rparr>"
  obtain rs where rs: "ownedSecret am server ?new = Inr (?new\<lparr>sec_meta := (sec_meta ?new)\<lparr>om_OwnerReferences := rs\<rparr>\<rparr>)"
    using ownedSecret_ok [OF registry_worldD(10) [OF w], of server ?new] by (auto simp: ownable_def secretObj_def objectMeta_def)
  let ?sec = "?new\<lparr>sec_meta := (sec_meta ?new)\<lparr>om_OwnerReferences := rs\<rparr>\<rparr>"
  have key: "keyOf (sec_meta ?sec) = secretKey h" by (simp add: secretKey_def secretObj_def objectMeta_def keyOf_def)
  have cs: "cas_store (cl_Secret (hb_Client h)) sec_meta secretBody sv" "server_up (cl_Secret (hb_Client h)) sec_meta sv"
    and rd: "cas_store (cl_Secret (hb_Reader h)) sec_meta secretBody sv" "server_up (cl_Secret (hb_Reader h)) sec_meta sv"
    using registry_worldD(3,4) [OF w] by simp_all
  show ?thesis
  proof (cases "sv s1 (secretKey h)")
    case None
    obtain y t where y: "run_state (kcreate (cl_Secret (hb_Client h)) ?sec) s1 = (Inr y, t)"
      "secretBody y = secretBody ?sec" "sv t = (sv s1)(secretKey h \<mapsto> y)"
      using up_create_new [OF cs, of s1 ?sec] None unfolding key by blast
    show ?thesis
    proof (rule that)
      show "run_state (ensureSecret am h server) s = (Inr (secretRef h), t)"
        using s1(1) rs y(1) by (simp add: ensureSecret_def secretRef_def Let_def)
      show "kv t = kv s" using kclient_quietD(3) [OF registry_worldD(6) [OF w] y(1)] s1(2) by simp
      show "clk s \<le> clk t" using kclient_monoD(3) [OF registry_worldD(8) [OF w] y(1)] s1(4) by simp
      show "secret_published h sv t"
        using y(2,3) by (auto simp: secret_published_def secretBody_def secretObj_def map_le_def)
    qed
  next
    case (Some z)
    obtain s2 where s2: "run_state (kcreate (cl_Secret (hb_Client h)) ?sec) s1 = (Inl (ApiError AlreadyExists), s2)" "sv s2 = sv s1"
      using up_create_old [OF cs, of s1 ?sec z] Some unfolding key by blast
    obtain s3 where s3: "run_state (kget (cl_Secret (hb_Reader h)) (secretKey h)) s2 = (Inr z, s3)" "sv s3 = sv s2"
      using up_get [OF rd, of "secretKey h" s2] s2(2) Some by auto
    have zk: "keyOf (sec_meta z) = secretKey h" using registry_worldD(12) [OF w Some] .
    have "ownable (om_Name (kon_meta server)) (sec_meta (z\<lparr>sec_StringData := hb_SecretData h\<rparr>))"
      using o Some s1(3) n by (simp add: secret_ours_def)
    then obtain rs' where rs': "ownedSecret am server (z\<lparr>sec_StringData := hb_SecretData h\<rparr>) =
        Inr (z\<lparr>sec_StringData := hb_SecretData h, sec_meta := (sec_meta z)\<lparr>om_OwnerReferences := rs'\<rparr>\<rparr>)"
      using ownedSecret_ok [OF registry_worldD(10) [OF w]] by fastforce
    let ?z = "z\<lparr>sec_StringData := hb_SecretData h, sec_meta := (sec_meta z)\<lparr>om_OwnerReferences := rs'\<rparr>\<rparr>"
    have kz: "keyOf (sec_meta ?z) = secretKey h" using zk by (simp add: keyOf_def)
    obtain y t where y: "run_state (kupdate (cl_Secret (hb_Client h)) ?z) s3 = (Inr y, t)"
      "secretBody y = secretBody ?z" "sv t = (sv s3)(secretKey h \<mapsto> y)"
      using up_update [OF cs, of s3 ?z z] Some s2(2) s3(2) unfolding kz by auto
    show ?thesis
    proof (rule that)
      show "run_state (ensureSecret am h server) s = (Inr (secretRef h), t)"
        using s1(1) rs s2(1) s3(1) rs' y(1) key by (simp add: ensureSecret_def secretRef_def Let_def)
      show "kv t = kv s"
        using kclient_quietD(3) [OF registry_worldD(6) [OF w] s2(1)] kclient_quietD(1) [OF registry_worldD(6) [OF w] s3(1)]
          kclient_quietD(4) [OF registry_worldD(6) [OF w] y(1)] s1(2) by simp
      show "clk s \<le> clk t"
        using kclient_monoD(3) [OF registry_worldD(8) [OF w] s2(1)] kclient_monoD(1) [OF registry_worldD(8) [OF w] s3(1)]
          kclient_monoD(4) [OF registry_worldD(8) [OF w] y(1)] s1(4) by simp
      show "secret_published h sv t"
        using y(2,3) by (auto simp: secret_published_def secretBody_def map_le_def)
    qed
  qed
qed

text \<open>The registration is current: stored with this process's status, stamped at \<open>t0\<close> or later.\<close>

definition registered :: "'s Heartbeat \<Rightarrow> ('s \<Rightarrow> ObjectKey \<rightharpoonup> Kontinuum) \<Rightarrow> ('s \<Rightarrow> ObjectKey \<rightharpoonup> Secret) \<Rightarrow> int \<Rightarrow> 's \<Rightarrow> bool" where
  "registered h kv sv t0 s \<longleftrightarrow> secret_published h sv s \<and>
     (\<exists>x now. kv s (selfKey h) = Some x \<and> t0 \<le> now \<and> kon_Status x =
        \<lparr>kst_Role = hb_Role h, kst_LastHeartbeatTime = storedTime now, kst_Version = hb_Version h,
         kst_SecretRef = secretRef h, kst_Config = hb_Config h\<rparr>)"

lemma registered_mono: "registered h kv sv t1 s \<Longrightarrow> t0 \<le> t1 \<Longrightarrow> registered h kv sv t0 s"
  unfolding registered_def by (meson order_trans)

lemma sendHeartbeat_up:
  assumes w: "registry_world w am h kv sv clk" and v: "kv s (selfKey h) = Some server" and o: "secret_ours h sv s"
    and r: "run_state (sendHeartbeat w am h server) s = (y, t)"
  shows "registered h kv sv (clk s) t"
proof -
  have k: "keyOf (kon_meta server) = selfKey h" using registry_worldD(11) [OF w v] .
  then have n: "om_Name (kon_meta server) = hb_Name h" by (simp add: keyOf_def selfKey_def)
  obtain s1 where s1: "run_state (ensureSecret am h server) s = (Inr (secretRef h), s1)" "kv s1 = kv s"
    "secret_published h sv s1" "clk s \<le> clk s1" by (rule ensureSecret_up [OF w n o])
  obtain now s2 where s2: "run_state (w_now w) s1 = (now, s2)" "kv s2 = kv s1" "sv s2 = sv s1" "clk s1 \<le> now" "now \<le> clk s2"
    by (rule now_up [OF w])
  let ?new = "heartbeatStatus h (secretRef h) now server"
  have m: "kon_meta ?new = kon_meta server" by (simp add: heartbeatStatus_def)
  have "kv s2 (keyOf (kon_meta ?new)) = Some server \<and> om_ResourceVersion (kon_meta server) = om_ResourceVersion (kon_meta ?new)"
    using v k s1(2) s2(2) m by simp
  then obtain y' t' where u: "run_state (kupdateStatus (cl_Kontinuum (hb_Client h)) ?new) s2 = (Inr y', t')"
      "kv t' = (kv s2)(selfKey h \<mapsto> y')"
      "kon_Status y' = (kon_Status ?new)\<lparr>kst_LastHeartbeatTime := storedTime (kst_LastHeartbeatTime (kon_Status ?new))\<rparr>"
    using registry_worldD(9) [OF w] unfolding status_up_def by (metis k m)
  have tt: "t = t'" using r s1(1) s2(1) u(1) by (simp add: sendHeartbeat_def Let_def)
  have "sv t' = sv s2" using kclient_quietD(5) [OF registry_worldD(5) [OF w] u(1)] by simp
  then have "secret_published h sv t'" using s1(3) s2(3) by (simp add: secret_published_def)
  moreover have "kon_Status y' = \<lparr>kst_Role = hb_Role h, kst_LastHeartbeatTime = storedTime now, kst_Version = hb_Version h,
         kst_SecretRef = secretRef h, kst_Config = hb_Config h\<rparr>"
    unfolding u(3) by (simp add: heartbeatStatus_def)
  ultimately show ?thesis
    unfolding registered_def tt using u(2) s1(4) s2(4) by (auto intro!: exI [of _ now])
qed

lemma reregister_up:
  assumes w: "registry_world w am h kv sv clk" and o: "secret_ours h sv s"
    and r: "run_state (reregister w am h) s = (y, t)"
  shows "registered h kv sv (clk s) t"
proof -
  let ?new = "selfObject h (hb_Spec h)"
  have ns: "om_Namespace (kon_meta ?new) = KontinuumSystemNamespace" by (simp add: selfObject_def objectMeta_def)
  obtain s1 where s1: "run_state (registryEnsureNamespace (hb_Client h) KontinuumSystemNamespace) s = (None, s1)"
    "kv s1 = kv s" "sv s1 = sv s" "clk s \<le> clk s1" by (rule namespace_up [OF w])
  have cs: "cas_store (cl_Kontinuum (hb_Client h)) kon_meta kon_Spec kv" "server_up (cl_Kontinuum (hb_Client h)) kon_meta kv"
    and rd: "cas_store (cl_Kontinuum (hb_Reader h)) kon_meta kon_Spec kv" "server_up (cl_Kontinuum (hb_Reader h)) kon_meta kv"
    using registry_worldD(1,2) [OF w] by simp_all
  show ?thesis
  proof (cases "kv s1 (selfKey h)")
    case None
    then obtain x s2 where x: "run_state (kcreate (cl_Kontinuum (hb_Client h)) ?new) s1 = (Inr x, s2)"
        "kv s2 = (kv s1)(selfKey h \<mapsto> x)"
      using up_create_new [OF cs, of s1 ?new] unfolding selfObject_key by blast
    have "sv s2 = sv s1" "clk s1 \<le> clk s2"
      using kclient_quietD(3) [OF registry_worldD(5) [OF w] x(1)] kclient_monoD(3) [OF registry_worldD(7) [OF w] x(1)] by simp_all
    moreover have "run_state (sendHeartbeat w am h x) s2 = (y, t)"
      using r s1(1) x(1) ns by (simp add: reregister_def Let_def)
    ultimately show ?thesis
      using sendHeartbeat_up [OF w, of s2 x y t] x(2) o s1(3,4) registered_mono by (fastforce simp: secret_ours_def)
  next
    case (Some z)
    then obtain s2 where s2: "run_state (kcreate (cl_Kontinuum (hb_Client h)) ?new) s1 = (Inl (ApiError AlreadyExists), s2)" "kv s2 = kv s1"
      using up_create_old [OF cs, of s1 ?new z] unfolding selfObject_key by blast
    obtain s3 where s3: "run_state (kget (cl_Kontinuum (hb_Reader h)) (selfKey h)) s2 = (Inr z, s3)" "kv s3 = kv s2"
      using up_get [OF rd, of "selfKey h" s2] s2(2) Some by auto
    have "sv s3 = sv s1" "clk s1 \<le> clk s3"
      using kclient_quietD(3) [OF registry_worldD(5) [OF w] s2(1)] kclient_monoD(3) [OF registry_worldD(7) [OF w] s2(1)]
        kclient_quietD(1) [OF registry_worldD(5) [OF w] s3(1)] kclient_monoD(1) [OF registry_worldD(7) [OF w] s3(1)] by simp_all
    moreover have "run_state (sendHeartbeat w am h z) s3 = (y, t)"
      using r s1(1) s2(1) s3(1) ns by (simp add: reregister_def Let_def)
    ultimately show ?thesis
      using sendHeartbeat_up [OF w, of s3 z y t] Some s2(2) s3(2) o s1(3,4) registered_mono by (fastforce simp: secret_ours_def)
  qed
qed

lemma self_get:
  assumes w: "registry_world w am h kv sv clk"
  obtains s' where "run_state (kget (cl_Kontinuum (hb_Reader h)) k) s =
      (case kv s k of None \<Rightarrow> Inl (ApiError NotFound) | Some x \<Rightarrow> Inr x, s')"
    and "kv s' = kv s" "sv s' = sv s" "clk s \<le> clk s'"
proof -
  obtain s' where g: "run_state (kget (cl_Kontinuum (hb_Reader h)) k) s =
      (case kv s k of None \<Rightarrow> Inl (ApiError NotFound) | Some x \<Rightarrow> Inr x, s')" "kv s' = kv s"
    using up_get [OF registry_worldD(1) [OF w, of "hb_Reader h"] registry_worldD(2) [OF w, of "hb_Reader h"], of k s] by auto
  show ?thesis
    using that [OF g] kclient_quietD(1) [OF registry_worldD(5) [OF w] g(1)] kclient_monoD(1) [OF registry_worldD(7) [OF w] g(1)] by simp
qed


section \<open>The TTL sweep\<close>

text \<open>
  The TTL sweep deletes only what is stale.  If a reconcile of a stored registration
  finds, at the time \<open>now\<close> it reads from the clock, that its last heartbeat is less than
  the threshold ago, nothing stored changes and it asks to run again exactly when the
  registration would become stale; that delay is positive.
\<close>

theorem TTL_keeps_live:
  assumes q: "\<And>v. locker_calls_leave (\<lambda>s. kv s = v) w (ttl_Locker r)"
    and g: "run_state (kget (cl_Kontinuum (ttl_Client r)) req) s = (Inr server, s1)" "kv s1 = kv s"
    and a: "run_state (TryAcquire w (ttl_Locker r) GlobalKey) s1 = (Inr True, s2)"
    and n: "run_state (w_now w) s2 = (now, s3)" and live: "now - lastSeen server < ttl_StaleThreshold r"
  shows "\<exists>d. run_state (TTLReconcile w r req) s = ((\<lparr>requeueAfter = d\<rparr>, None), s3) \<and> kv s3 = kv s \<and> 0 < d \<and>
     Stale (lastSeen server) (now + d) (ttl_StaleThreshold r) \<and>
     \<not> Stale (lastSeen server) (now + d - 1) (ttl_StaleThreshold r)"
proof -
  have "leaves (\<lambda>s. kv s = kv s1) (TryAcquire w (ttl_Locker r) GlobalKey)" using q by (intro leaves_rules)
  from leaves_run [OF this refl a] have k2: "kv s2 = kv s1" .
  have "leaves (\<lambda>s. kv s = kv s2) (w_now w)" using q unfolding locker_calls_leave_def by blast
  from leaves_run [OF this refl n] have "kv s3 = kv s2" .
  with k2 g live a n show ?thesis
    by (auto simp: TTLReconcile_def Stale_def)
qed

text \<open>
  The TTL sweep removes the dead.  If the process holds the global lease and the last
  heartbeat is at least the threshold ago, the registration is gone after the reconcile
  unless the delete itself failed, and then the error is returned so that it is retried.
\<close>

theorem TTL_deletes_stale:
  assumes d: "delete_removes (cl_Kontinuum (ttl_Client r)) kon_meta kv"
    and g: "run_state (kget (cl_Kontinuum (ttl_Client r)) req) s = (Inr server, s1)" "keyOf (kon_meta server) = req"
    and a: "run_state (TryAcquire w (ttl_Locker r) GlobalKey) s1 = (Inr True, s2)"
    and n: "run_state (w_now w) s2 = (now, s3)" and stale: "now - lastSeen server \<ge> ttl_StaleThreshold r"
  shows "fst (result_of (TTLReconcile w r req) s) = noRequeue \<and>
    (snd (result_of (TTLReconcile w r req) s) = None \<longrightarrow> kv (state_after (TTLReconcile w r req) s) req = None)"
proof -
  obtain e t where e: "run_state (kdelete (cl_Kontinuum (ttl_Client r)) server) s3 = (e, t)" by fastforce
  have "kv t req = None" if "\<forall>err. e = Some err \<longrightarrow> isNotFound err"
    using d that e g(2) unfolding delete_removes_def by (metis fst_conv snd_conv)
  with g a n stale e show ?thesis
    by (auto simp: TTLReconcile_def Stale_def deleteStale_def split: option.splits if_splits)
qed

section \<open>A concrete registry\<close>

record demo_cluster =
  dc_kontinuums :: "Kontinuum memstore"
  dc_secrets :: "Secret memstore"

text \<open>The status subresource: only the status is taken, and its time loses its fraction of a second.\<close>

definition demo_updateStatus :: "Kontinuum \<Rightarrow> (Kontinuum memstore, goerr + Kontinuum) state" where
  "demo_updateStatus x = State (\<lambda>s. (case mem_view kon_meta s (keyOf (kon_meta x)) of
       None \<Rightarrow> (Inl (ApiError NotFound), s)
     | Some z \<Rightarrow> if om_ResourceVersion (kon_meta z) = om_ResourceVersion (kon_meta x)
         then mem_write (\<lambda>m x. x\<lparr>kon_meta := m\<rparr>) kon_meta (z\<lparr>kon_Status := (kon_Status x)
           \<lparr>kst_LastHeartbeatTime := storedTime (kst_LastHeartbeatTime (kon_Status x))\<rparr>\<rparr>) s
         else (Inl (ApiError ConflictReason), s)))"

definition demo_kontinuums :: "(demo_cluster, Kontinuum) kclient" where
  "demo_kontinuums = zoom_client dc_kontinuums (\<lambda>s t. t\<lparr>dc_kontinuums := s\<rparr>)
     ((mem_client (\<lambda>m x. x\<lparr>kon_meta := m\<rparr>) kon_meta)\<lparr>kupdateStatus := demo_updateStatus\<rparr>)"

definition demo_secrets :: "(demo_cluster, Secret) kclient" where
  "demo_secrets = zoom_client dc_secrets (\<lambda>s t. t\<lparr>dc_secrets := s\<rparr>) (mem_client (\<lambda>m x. x\<lparr>sec_meta := m\<rparr>) sec_meta)"

definition demo_registry_client :: "demo_cluster client" where
  "demo_registry_client = down_client\<lparr>cl_Kontinuum := demo_kontinuums, cl_Secret := demo_secrets,
     cl_Namespace := down_kclient\<lparr>kcreate := (\<lambda>x. return (Inr x))\<rparr>\<rparr>"

definition demo_heartbeat :: "demo_cluster Heartbeat" where
  "demo_heartbeat = \<lparr>hb_Client = demo_registry_client, hb_Reader = demo_registry_client, hb_Name = ''worker-1'',
     hb_Role = RoleWorker, hb_Spec = \<lparr>ksp_Region = ''eu'', ksp_Zone = ''1''\<rparr>, hb_Interval = minute,
     hb_Version = ''v1'', hb_SecretData = [storageSecretKey \<mapsto> ''postgres://''], hb_Config = zeroConfigStatus\<rparr>"

definition demo_kv :: "demo_cluster \<Rightarrow> ObjectKey \<rightharpoonup> Kontinuum" where
  "demo_kv t = mem_view kon_meta (dc_kontinuums t)"

definition demo_sv :: "demo_cluster \<Rightarrow> ObjectKey \<rightharpoonup> Secret" where
  "demo_sv t = mem_view sec_meta (dc_secrets t)"

definition demo_empty :: demo_cluster where
  "demo_empty = \<lparr>dc_kontinuums = empty_store, dc_secrets = empty_store\<rparr>"

lemma demo_kontinuums_store:
  "cas_store demo_kontinuums kon_meta kon_Spec demo_kv" "server_up demo_kontinuums kon_meta demo_kv"
proof -
  let ?c = "(mem_client (\<lambda>m x. x\<lparr>kon_meta := m\<rparr>) kon_meta)\<lparr>kupdateStatus := demo_updateStatus\<rparr>"
  have c: "cas_store (mem_client (\<lambda>m x. x\<lparr>kon_meta := m\<rparr>) kon_meta) kon_meta kon_Spec (mem_view kon_meta)"
    by (rule mem_client_cas_store) simp_all
  have f: "kget ?c = kget (mem_client (\<lambda>m x. x\<lparr>kon_meta := m\<rparr>) kon_meta)"
    "kcreate ?c = kcreate (mem_client (\<lambda>m x. x\<lparr>kon_meta := m\<rparr>) kon_meta)"
    "kupdate ?c = kupdate (mem_client (\<lambda>m x. x\<lparr>kon_meta := m\<rparr>) kon_meta)" by simp_all
  have "cas_store ?c kon_meta kon_Spec (mem_view kon_meta)" "server_up ?c kon_meta (mem_view kon_meta)"
    using c mem_client_server_up [of "\<lambda>m x. x\<lparr>kon_meta := m\<rparr>" kon_meta] unfolding cas_store_def server_up_def f by blast+
  then show "cas_store demo_kontinuums kon_meta kon_Spec demo_kv" "server_up demo_kontinuums kon_meta demo_kv"
    unfolding demo_kontinuums_def demo_kv_def [abs_def] by (auto intro: zoom_cas_store zoom_server_up)
qed

lemma demo_secrets_store:
  "cas_store demo_secrets sec_meta secretBody demo_sv" "server_up demo_secrets sec_meta demo_sv"
  unfolding demo_secrets_def demo_sv_def [abs_def]
  by (auto intro!: zoom_cas_store zoom_server_up mem_client_cas_store mem_client_server_up simp: secretBody_def)

lemma demo_status_up: "status_up demo_kontinuums demo_kv"
  unfolding status_up_def demo_kontinuums_def demo_kv_def zoom_client_def demo_updateStatus_def
  by (auto simp: mem_write_def Let_def fun_eq_iff mem_view_def stamp_def keyOf_def split: option.splits if_splits)

lemma demo_registry_world:
  "registry_world (still_world n) (std_apimachinery sel) demo_heartbeat demo_kv demo_sv (\<lambda>_. n)"
proof -
  have q: "kclient_quiet demo_sv demo_kontinuums" "kclient_quiet demo_kv demo_secrets"
    unfolding demo_kontinuums_def demo_secrets_def demo_sv_def [abs_def] demo_kv_def [abs_def]
    by (rule zoom_quiet, simp)+
  have o: "owner_ok (std_apimachinery sel)" by (auto simp: owner_ok_def std_apimachinery_def)
  have k: "demo_kv s k = Some x \<Longrightarrow> keyOf (kon_meta x) = k" "demo_sv s k = Some y \<Longrightarrow> keyOf (sec_meta y) = k" for s k x y
    by (auto simp: demo_kv_def demo_sv_def dest: mem_view_key)
  show ?thesis
    unfolding registry_world_def
    using demo_kontinuums_store demo_secrets_store demo_status_up q o k
    by (simp add: still_mono demo_heartbeat_def demo_registry_client_def still_world_def quiet_def kclient_quiet_def down_kclient_def)
qed


lemma demo_delete_removes: "delete_removes demo_kontinuums kon_meta demo_kv"
  unfolding delete_removes_def demo_kontinuums_def demo_kv_def zoom_client_def mem_client_def
  by (auto simp: mem_view_def split: option.splits if_splits)

theorem deregister_final_witness:
  "\<exists>t. run_state (Deregister demo_heartbeat) \<lparr>hs_shuttingDown = False, hs_world = demo_empty\<rparr> = (None, t) \<and>
     demo_kv (hs_world (state_after (beat (still_world 42) (std_apimachinery (\<lambda>_. Inl unavailable)) demo_heartbeat
        (selfObject demo_heartbeat (hb_Spec demo_heartbeat))) t)) (KontinuumSystemNamespace, ''worker-1'') = None"
proof -
  let ?am = "std_apimachinery (\<lambda>_. Inl unavailable)" and ?s = "selfObject demo_heartbeat (hb_Spec demo_heartbeat)"
  have k: "selfKey demo_heartbeat = (KontinuumSystemNamespace, ''worker-1'')" by (simp add: selfKey_def demo_heartbeat_def)
  have cl: "cl_Kontinuum (hb_Client demo_heartbeat) = demo_kontinuums" "cl_Kontinuum (hb_Reader demo_heartbeat) = demo_kontinuums"
    by (simp_all add: demo_heartbeat_def demo_registry_client_def)
  obtain t where t: "run_state (Deregister demo_heartbeat) \<lparr>hs_shuttingDown = False, hs_world = demo_empty\<rparr> = (None, t)"
    by (simp add: Deregister_def cl demo_kontinuums_def zoom_client_def mem_client_def demo_empty_def)
  have "hb_steps (still_world 42) ?am demo_heartbeat demo_kv t (state_after (beat (still_world 42) ?am demo_heartbeat ?s) t)"
    by (intro steps_step [OF steps_refl] step_beat selfObject_key)
  from deregister_final [OF _ _ t this] demo_kontinuums_store(1) demo_delete_removes cl t k show ?thesis by auto
qed

definition demo_ttl :: "demo_cluster TTLReconciler" where
  "demo_ttl = (let c = demo_registry_client\<lparr>cl_Lease := down_kclient\<lparr>kget := (\<lambda>_. return (Inl (ApiError NotFound))),
       kcreate := (\<lambda>x. return (Inr x))\<rparr>\<rparr>
     in \<lparr>ttl_Client = c, ttl_StaleThreshold = defaultStaleThreshold, ttl_Locker = NewLocker c c ''hub-1'' '''' 0\<rparr>)"

definition demo_server :: Kontinuum where
  "demo_server = (selfObject demo_heartbeat (hb_Spec demo_heartbeat))\<lparr>kon_Status := zeroKontinuumStatus
     \<lparr>kst_LastHeartbeatTime := 100 * second\<rparr>\<rparr>"

definition demo_joined :: demo_cluster where
  "demo_joined = demo_empty\<lparr>dc_kontinuums := empty_store\<lparr>ms_objs := [selfKey demo_heartbeat \<mapsto> demo_server]\<rparr>\<rparr>"

lemma demo_ttl_runs:
  "run_state (kget (cl_Kontinuum (ttl_Client demo_ttl)) (selfKey demo_heartbeat)) demo_joined = (Inr demo_server, demo_joined)"
  "run_state (TryAcquire (still_world n) (ttl_Locker demo_ttl) GlobalKey) demo_joined = (Inr True, demo_joined)"
  "keyOf (kon_meta demo_server) = selfKey demo_heartbeat" "lastSeen demo_server = 100 * second"
proof -
  show k: "keyOf (kon_meta demo_server) = selfKey demo_heartbeat" by (simp add: demo_server_def selfObject_def selfKey_def)
  show "lastSeen demo_server = 100 * second" by (simp add: lastSeen_def demo_server_def second_def Let_def)
  show "run_state (kget (cl_Kontinuum (ttl_Client demo_ttl)) (selfKey demo_heartbeat)) demo_joined = (Inr demo_server, demo_joined)"
    using k by (simp add: demo_ttl_def Let_def demo_registry_client_def demo_kontinuums_def zoom_client_def mem_client_def mem_view_def
        demo_joined_def)
  show "run_state (TryAcquire (still_world n) (ttl_Locker demo_ttl) GlobalKey) demo_joined = (Inr True, demo_joined)"
    by (simp add: TryAcquire_def demo_ttl_def NewLocker_def Let_def GlobalKey_def create_def ensureNamespace_def
        demo_registry_client_def still_world_def)
qed

theorem TTL_keeps_live_witness:
  "\<exists>d. run_state (TTLReconcile (still_world (160 * second)) demo_ttl (selfKey demo_heartbeat)) demo_joined =
     ((\<lparr>requeueAfter = d\<rparr>, None), demo_joined) \<and> 0 < d"
proof -
  have q: "locker_calls_leave (\<lambda>s. demo_kv s = v) (still_world (160 * second)) (ttl_Locker demo_ttl)" for v
    by (simp add: locker_calls_leave_def leaves_def demo_ttl_def NewLocker_def demo_registry_client_def still_world_def
        down_kclient_def Let_def)
  have n: "run_state (w_now (still_world (160 * second))) demo_joined = (160 * second, demo_joined)" by (simp add: still_world_def)
  show ?thesis
    using TTL_keeps_live [OF q demo_ttl_runs(1) refl demo_ttl_runs(2) n] demo_ttl_runs(4)
    by (auto simp: demo_ttl_def Let_def defaultStaleThreshold_def second_def)
qed

theorem TTL_deletes_stale_witness:
  "demo_kv (state_after (TTLReconcile (still_world hour) demo_ttl (selfKey demo_heartbeat)) demo_joined) (selfKey demo_heartbeat) = None"
proof -
  have d: "delete_removes (cl_Kontinuum (ttl_Client demo_ttl)) kon_meta demo_kv"
    using demo_delete_removes by (simp add: demo_ttl_def Let_def demo_registry_client_def)
  have n: "run_state (w_now (still_world hour)) demo_joined = (hour, demo_joined)" by (simp add: still_world_def)
  have "result_of (kdelete (cl_Kontinuum (ttl_Client demo_ttl)) demo_server) demo_joined = None"
    using demo_ttl_runs(3) by (simp add: demo_ttl_def Let_def demo_registry_client_def demo_kontinuums_def zoom_client_def
        mem_client_def mem_view_def demo_joined_def)
  then have "snd (result_of (TTLReconcile (still_world hour) demo_ttl (selfKey demo_heartbeat)) demo_joined) = None"
    using demo_ttl_runs n by (auto simp: TTLReconcile_def deleteStale_def split: prod.splits)
  then show ?thesis
    using TTL_deletes_stale [OF d demo_ttl_runs(1,3,2) n] demo_ttl_runs(4)
    by (simp add: demo_ttl_def Let_def defaultStaleThreshold_def second_def)
qed

end
