(* ===== verification/ProxyIdentity.thy ===== *)
theory ProxyIdentity
  imports Registry
begin

text \<open>
  The etcd proxy's zone identities: \<open>identity.go\<close>, \<open>downstreamsecret.go\<close>, \<open>jwt.go\<close> and
  \<open>verifier.go\<close> of \<open>pkg/domain/etcdproxy\<close>.  A zone signs a short-lived JWT with its
  private key; the hub verifies it against the zone's current and previous certificate,
  kept in a Secret and cached for half a minute.

  PEM, X.509, ed25519, the JWT library, the LRU cache and RFC 3339 text are parameters
  (\<open>crypto\<close>, \<open>jwtlib\<close>, \<open>lru\<close>); byte strings are \<open>string\<close>.
\<close>

section \<open>Certificates\<close>

datatype PublicKey = Ed25519Public string | OtherPublic string

datatype PrivateKey = Ed25519Private string | OtherPrivate string

record Certificate =
  ct_Raw :: string
  ct_PublicKey :: PublicKey

record CertTemplate =
  tpl_SerialNumber :: nat
  tpl_CommonName :: string
  tpl_NotBefore :: int
  tpl_NotAfter :: int

record 's crypto =
  cx_generateKey :: "('s, goerr + (string \<times> string)) state"
  cx_randInt :: "nat \<Rightarrow> ('s, goerr + nat) state"
  cx_createCertificate :: "CertTemplate \<Rightarrow> string \<Rightarrow> string \<Rightarrow> ('s, goerr + string) state"
  cx_marshalPKCS8 :: "string \<Rightarrow> goerr + string"
  cx_parsePKCS8 :: "string \<Rightarrow> goerr + PrivateKey"
  cx_pemEncode :: "string \<Rightarrow> string \<Rightarrow> string"
  cx_pemDecode :: "string \<Rightarrow> string option"
  cx_parseCertificate :: "string \<Rightarrow> goerr + Certificate"
  cx_sha256 :: "string \<Rightarrow> 8 word list"
  cx_formatTime :: "int \<Rightarrow> string"
  cx_parseTime :: "string \<Rightarrow> goerr + int"

definition identityValidity :: int where "identityValidity = 100 * 365 * 24 * hour"

definition IdentityRotationInterval :: int where "IdentityRotationInterval = 6 * hour"

definition IdentityOverlapWindow :: int where "IdentityOverlapWindow = 5 * minute"

definition certSerialBits :: nat where "certSerialBits = 128"

definition AuthSecretName :: "string \<Rightarrow> string" where
  "AuthSecretName zoneName = zoneName @ ''-etcd-auth''"

definition GenerateIdentity :: "'s world \<Rightarrow> 's crypto \<Rightarrow> string \<Rightarrow> ('s, goerr + (string \<times> string)) state" where
  "GenerateIdentity w cx zoneName = do {
     k \<leftarrow> cx_generateKey cx;
     (case k of
        Inl err \<Rightarrow> return (Inl (Errorf ''failed to generate ed25519 key: %w'' [] [err]))
      | Inr (pub, priv) \<Rightarrow> do {
          sn \<leftarrow> cx_randInt cx (2 ^ certSerialBits);
          (case sn of
             Inl err \<Rightarrow> return (Inl (Errorf ''failed to generate certificate serial: %w'' [] [err]))
           | Inr serial \<Rightarrow> do {
               now \<leftarrow> w_now w;
               d \<leftarrow> cx_createCertificate cx \<lparr>tpl_SerialNumber = serial, tpl_CommonName = zoneName,
                      tpl_NotBefore = now - hour, tpl_NotAfter = now + identityValidity\<rparr> pub priv;
               (case d of
                  Inl err \<Rightarrow> return (Inl (Errorf ''failed to create self-signed certificate: %w'' [] [err]))
                | Inr der \<Rightarrow> (case cx_marshalPKCS8 cx priv of
                    Inl err \<Rightarrow> return (Inl (Errorf ''failed to marshal private key: %w'' [] [err]))
                  | Inr keyBytes \<Rightarrow>
                      return (Inr (cx_pemEncode cx ''CERTIFICATE'' der, cx_pemEncode cx ''PRIVATE KEY'' keyBytes))))
             })
        })
   }"

definition ErrInvalidCertificate :: goerr where
  "ErrInvalidCertificate = Sentinel ''invalid identity certificate''"

definition ErrNotEd25519Key :: goerr where
  "ErrNotEd25519Key = Sentinel ''certificate does not hold an ed25519 public key''"

definition parseCert :: "'s crypto \<Rightarrow> string \<Rightarrow> goerr + Certificate" where
  "parseCert cx certPEM = (case cx_pemDecode cx certPEM of
       None \<Rightarrow> Inl ErrInvalidCertificate
     | Some block \<Rightarrow> (case cx_parseCertificate cx block of
         Inl err \<Rightarrow> Inl (Errorf ''%w: %w'' [] [ErrInvalidCertificate, err])
       | Inr cert \<Rightarrow> Inr cert))"

definition PublicKeyFromCert :: "'s crypto \<Rightarrow> string \<Rightarrow> goerr + string" where
  "PublicKeyFromCert cx certPEM = (case parseCert cx certPEM of
       Inl err \<Rightarrow> Inl err
     | Inr cert \<Rightarrow> (case ct_PublicKey cert of
         Ed25519Public pub \<Rightarrow> Inr pub
       | OtherPublic _ \<Rightarrow> Inl ErrNotEd25519Key))"

text \<open>\<open>%02X\<close> of a byte, and \<open>strings.Join\<close>.\<close>

definition hexDigit :: "nat \<Rightarrow> char" where
  "hexDigit n = (if n < 10 then char_of (48 + n) else char_of (55 + n))"

definition hexByte :: "8 word \<Rightarrow> string" where
  "hexByte b = [hexDigit (unat b div 16), hexDigit (unat b mod 16)]"

fun joinWith :: "string \<Rightarrow> string list \<Rightarrow> string" where
  "joinWith sep [] = ''''"
| "joinWith sep [x] = x"
| "joinWith sep (x # y # zs) = x @ sep @ joinWith sep (y # zs)"

definition Thumbprint :: "'s crypto \<Rightarrow> string \<Rightarrow> goerr + string" where
  "Thumbprint cx certPEM = (case parseCert cx certPEM of
       Inl err \<Rightarrow> Inl err
     | Inr cert \<Rightarrow> Inr (joinWith '':'' (map hexByte (cx_sha256 cx (ct_Raw cert)))))"

section \<open>Identities and their Secrets\<close>

record EtcdIdentity =
  ei_CertPEM :: string
  ei_IssuedAt :: int

definition DueAt :: "EtcdIdentity \<Rightarrow> int" where
  "DueAt i = ei_IssuedAt i + IdentityRotationInterval"

definition ExpiresAt :: "EtcdIdentity \<Rightarrow> int" where
  "ExpiresAt i = DueAt i + IdentityOverlapWindow"

definition Valid :: "EtcdIdentity \<Rightarrow> int \<Rightarrow> bool" where
  "Valid i now \<longleftrightarrow> length (ei_CertPEM i) > 0 \<and> now < ExpiresAt i"

record IdentityPair =
  ip_Current :: EtcdIdentity
  ip_Previous :: EtcdIdentity

definition TLSCertKey :: string where "TLSCertKey = ''tls.crt''"

definition TLSPrivateKeyKey :: string where "TLSPrivateKeyKey = ''tls.key''"

definition issuedAtSecretField :: string where "issuedAtSecretField = ''issued-at''"

definition currentCertField :: string where "currentCertField = ''current-'' @ TLSCertKey"

definition currentIssuedAtField :: string where "currentIssuedAtField = ''current-'' @ issuedAtSecretField"

definition previousCertField :: string where "previousCertField = ''previous-'' @ TLSCertKey"

definition previousIssuedAtField :: string where "previousIssuedAtField = ''previous-'' @ issuedAtSecretField"

definition BuildPublicSecret :: "'s crypto \<Rightarrow> string \<Rightarrow> string \<Rightarrow> IdentityPair \<Rightarrow> Secret" where
  "BuildPublicSecret cx zoneName namespace pair = (secretObj namespace (AuthSecretName zoneName))
     \<lparr>sec_StringData :=
       [currentCertField \<mapsto> ei_CertPEM (ip_Current pair),
        currentIssuedAtField \<mapsto> cx_formatTime cx (ei_IssuedAt (ip_Current pair)),
        previousCertField \<mapsto> ei_CertPEM (ip_Previous pair),
        previousIssuedAtField \<mapsto> cx_formatTime cx (ei_IssuedAt (ip_Previous pair))]\<rparr>"

text \<open>A missing key of a Go map reads as the zero value: the empty byte string.\<close>

definition dataField :: "Secret \<Rightarrow> string \<Rightarrow> string" where
  "dataField secret f = (case sec_Data secret f of None \<Rightarrow> '''' | Some v \<Rightarrow> v)"

definition parseIdentity :: "'s crypto \<Rightarrow> Secret \<Rightarrow> string \<Rightarrow> string \<Rightarrow> EtcdIdentity option" where
  "parseIdentity cx secret certField issuedAtField = (case sec_Data secret certField of
       None \<Rightarrow> None
     | Some cert \<Rightarrow> if length cert = 0 then None
         else (case cx_parseTime cx (dataField secret issuedAtField) of
           Inl err \<Rightarrow> None
         | Inr issuedAt \<Rightarrow> Some \<lparr>ei_CertPEM = cert, ei_IssuedAt = issuedAt\<rparr>))"

definition ParsePublicSecret :: "'s crypto \<Rightarrow> Secret \<Rightarrow> IdentityPair option" where
  "ParsePublicSecret cx secret = (case parseIdentity cx secret currentCertField currentIssuedAtField of
       None \<Rightarrow> None
     | Some current \<Rightarrow> (case parseIdentity cx secret previousCertField previousIssuedAtField of
         None \<Rightarrow> None
       | Some previous \<Rightarrow> Some \<lparr>ip_Current = current, ip_Previous = previous\<rparr>))"

definition IdentitySecretName :: string where "IdentitySecretName = ''kontinuum-etcd-identity''"

definition BuildDownstreamIdentitySecret :: "string \<Rightarrow> string \<Rightarrow> string \<Rightarrow> Secret" where
  "BuildDownstreamIdentitySecret namespace certPEM keyPEM = (secretObj namespace IdentitySecretName)
     \<lparr>sec_Type := ''kubernetes.io/tls'',
      sec_StringData := [TLSCertKey \<mapsto> certPEM, TLSPrivateKeyKey \<mapsto> keyPEM]\<rparr>"

definition ErrNoPrivateKey :: goerr where
  "ErrNoPrivateKey = Sentinel ''no private key found in PEM data''"

definition LoadPrivateKey :: "'s crypto \<Rightarrow> string \<Rightarrow> goerr + string" where
  "LoadPrivateKey cx keyPEM = (case cx_pemDecode cx keyPEM of
       None \<Rightarrow> Inl ErrNoPrivateKey
     | Some block \<Rightarrow> (case cx_parsePKCS8 cx block of
         Inl err \<Rightarrow> Inl (Errorf ''failed to parse pkcs8 private key: %w'' [] [err])
       | Inr (Ed25519Private priv) \<Rightarrow> Inr priv
       | Inr (OtherPrivate _) \<Rightarrow> Inl ErrNotEd25519Key))"

section \<open>Tokens\<close>

record Claims =
  cm_Issuer :: string
  cm_Subject :: string
  cm_Audience :: "string list"
  cm_IssuedAt :: int
  cm_ExpiresAt :: int

definition tokenAudience :: string where "tokenAudience = ''kontinuum-etcd-proxy''"

definition tokenTTL :: int where "tokenTTL = 5 * minute"

definition tokenClockSkew :: int where "tokenClockSkew = 10 * second"

definition ErrInvalidToken :: goerr where "ErrInvalidToken = Sentinel ''invalid etcd proxy token''"

text \<open>
  The JWT library: \<open>jl_parse token key audience leeway now\<close> is \<open>ParseWithClaims\<close> restricted
  to EdDSA, with the time it reads; it returns the error, the \<open>Valid\<close> flag and the claims.
  \<open>NewNumericDate\<close> truncates to seconds.
\<close>

record jwtlib =
  jl_sign :: "Claims \<Rightarrow> string \<Rightarrow> goerr + string"
  jl_parseUnverified :: "string \<Rightarrow> goerr + Claims"
  jl_parse :: "string \<Rightarrow> string \<Rightarrow> string \<Rightarrow> int \<Rightarrow> int \<Rightarrow> goerr option \<times> bool \<times> Claims"

definition newNumericDate :: "int \<Rightarrow> int" where "newNumericDate t = t - t mod second"

definition SignToken :: "'s world \<Rightarrow> jwtlib \<Rightarrow> string \<Rightarrow> string \<Rightarrow> ('s, goerr + string) state" where
  "SignToken w jl zone key = do {
     now \<leftarrow> w_now w;
     (case jl_sign jl \<lparr>cm_Issuer = zone, cm_Subject = zone, cm_Audience = [tokenAudience],
          cm_IssuedAt = newNumericDate now, cm_ExpiresAt = newNumericDate (now + tokenTTL)\<rparr> key of
        Inl err \<Rightarrow> return (Inl (Errorf ''failed to sign etcd proxy token: %w'' [] [err]))
      | Inr tok \<Rightarrow> return (Inr tok))
   }"

text \<open>The loop of \<open>verifyWithAnyKey\<close>; an error that was never set is a nil \<open>%w\<close> argument.\<close>

fun verifyWithAnyKey :: "'s world \<Rightarrow> jwtlib \<Rightarrow> string \<Rightarrow> string \<Rightarrow> string list \<Rightarrow> goerr option \<Rightarrow>
    ('s, goerr + string) state" where
  "verifyWithAnyKey w jl token issuer [] lastErr =
     return (Inl (Errorf ''%w: %w'' [] (ErrInvalidToken # (case lastErr of None \<Rightarrow> [] | Some e \<Rightarrow> [e]))))"
| "verifyWithAnyKey w jl token issuer (key # keys) lastErr = do {
     now \<leftarrow> w_now w;
     (case jl_parse jl token key tokenAudience tokenClockSkew now of (verifyErr, valid, claims) \<Rightarrow>
        if verifyErr = None \<and> valid \<and> cm_Issuer claims \<noteq> '''' \<and> cm_Issuer claims = cm_Subject claims \<and>
           cm_Issuer claims = issuer
        then return (Inr (cm_Issuer claims))
        else verifyWithAnyKey w jl token issuer keys verifyErr)
   }"

definition VerifyToken :: "'s world \<Rightarrow> jwtlib \<Rightarrow> string \<Rightarrow> (string \<Rightarrow> ('s, goerr + string list) state) \<Rightarrow>
    ('s, goerr + string) state" where
  "VerifyToken w jl token lookupKeys = (case jl_parseUnverified jl token of
       Inl err \<Rightarrow> return (Inl (Errorf ''%w: %w'' [] [ErrInvalidToken, err]))
     | Inr unverified \<Rightarrow>
         if cm_Issuer unverified = '''' then return (Inl ErrInvalidToken)
         else do {
           l \<leftarrow> lookupKeys (cm_Issuer unverified);
           (case l of
              Inl err \<Rightarrow> return (Inl (Errorf ''%w: %w'' [] [ErrInvalidToken, err]))
            | Inr keys \<Rightarrow>
                if length keys = 0 then return (Inl ErrInvalidToken)
                else verifyWithAnyKey w jl token (cm_Issuer unverified) keys None)
         })"

section \<open>The verifier\<close>

record cacheEntry =
  ce_keys :: "string list"
  ce_fetchedAt :: int

record 's lru =
  lru_Get :: "string \<Rightarrow> ('s, cacheEntry option) state"
  lru_Add :: "string \<Rightarrow> cacheEntry \<Rightarrow> ('s, unit) state"

record 's Verifier =
  vf_client :: "'s client"
  vf_namespace :: string
  vf_cache :: "'s lru"

definition ErrUnauthenticated :: goerr where
  "ErrUnauthenticated = Sentinel ''invalid or expired etcd proxy credential''"

definition errIdentitySecretInvalid :: goerr where
  "errIdentitySecretInvalid = Sentinel ''identity secret is not valid''"

definition errNoValidIdentityKeys :: goerr where
  "errNoValidIdentityKeys = Sentinel ''no currently-valid identity keys''"

definition verifierCacheSize :: nat where "verifierCacheSize = 256"

definition verifierCacheTTL :: int where "verifierCacheTTL = 30 * second"

definition NewVerifier :: "(nat \<Rightarrow> goerr + 's lru) \<Rightarrow> 's client \<Rightarrow> string \<Rightarrow> goerr + 's Verifier" where
  "NewVerifier lruNew hubClient namespace = (case lruNew verifierCacheSize of
       Inl err \<Rightarrow> Inl (Errorf ''failed to build auth verifier cache: %w'' [] [err])
     | Inr cache \<Rightarrow> Inr \<lparr>vf_client = hubClient, vf_namespace = namespace, vf_cache = cache\<rparr>)"

definition validKeys :: "'s crypto \<Rightarrow> IdentityPair \<Rightarrow> int \<Rightarrow> string list" where
  "validKeys cx pair now = concat (map (\<lambda>i. if Valid i now then
       (case PublicKeyFromCert cx (ei_CertPEM i) of Inl _ \<Rightarrow> [] | Inr pub \<Rightarrow> [pub]) else [])
     [ip_Current pair, ip_Previous pair])"

definition fetchKeys :: "'s world \<Rightarrow> 's crypto \<Rightarrow> 's Verifier \<Rightarrow> string \<Rightarrow> ('s, goerr + string list) state" where
  "fetchKeys w cx v zone = do {
     g \<leftarrow> kget (cl_Secret (vf_client v)) (vf_namespace v, AuthSecretName zone);
     (case g of
        Inl err \<Rightarrow> return (Inl (Errorf ''failed to get identity secret for zone %q: %w'' [zone] [err]))
      | Inr secret \<Rightarrow> (case ParsePublicSecret cx secret of
          None \<Rightarrow> return (Inl (Errorf ''%w: zone %q'' [zone] [errIdentitySecretInvalid]))
        | Some pair \<Rightarrow> do {
            now \<leftarrow> w_now w;
            let keys = validKeys cx pair now;
            if length keys = 0 then return (Inl (Errorf ''%w: zone %q'' [zone] [errNoValidIdentityKeys]))
            else do {
              _ \<leftarrow> lru_Add (vf_cache v) zone \<lparr>ce_keys = keys, ce_fetchedAt = now\<rparr>;
              return (Inr keys)
            }
          }))
   }"

definition lookup :: "'s world \<Rightarrow> 's crypto \<Rightarrow> 's Verifier \<Rightarrow> string \<Rightarrow> ('s, goerr + string list) state" where
  "lookup w cx v zone = do {
     c \<leftarrow> lru_Get (vf_cache v) zone;
     (case c of
        None \<Rightarrow> fetchKeys w cx v zone
      | Some entry \<Rightarrow> do {
          now \<leftarrow> w_now w;
          if now - ce_fetchedAt entry < verifierCacheTTL then return (Inr (ce_keys entry))
          else fetchKeys w cx v zone
        })
   }"

definition Authenticate :: "'s world \<Rightarrow> 's crypto \<Rightarrow> jwtlib \<Rightarrow> 's Verifier \<Rightarrow> string \<Rightarrow> ('s, goerr + string) state" where
  "Authenticate w cx jl v token = do {
     r \<leftarrow> VerifyToken w jl token (lookup w cx v);
     (case r of
        Inl err \<Rightarrow> return (Inl (Errorf ''%w: %w'' [] [ErrUnauthenticated, err]))
      | Inr zone \<Rightarrow> return (Inr zone))
   }"

section \<open>The public Secret\<close>

text \<open>A Secret as the API server serves it back: \<open>StringData\<close> merged into \<open>Data\<close>.\<close>

definition served :: "Secret \<Rightarrow> Secret" where
  "served x = x\<lparr>sec_Data := secretBody x, sec_StringData := Map.empty\<rparr>"

definition time_ok :: "'s crypto \<Rightarrow> bool" where
  "time_ok cx \<longleftrightarrow> (\<forall>t. cx_parseTime cx (cx_formatTime cx t) = Inr t)"

lemmas identity_fields = currentCertField_def currentIssuedAtField_def previousCertField_def previousIssuedAtField_def
  TLSCertKey_def issuedAtSecretField_def

lemma served_public_fields:
  "sec_Data (served (BuildPublicSecret cx z ns p)) currentCertField = Some (ei_CertPEM (ip_Current p))"
  "sec_Data (served (BuildPublicSecret cx z ns p)) currentIssuedAtField = Some (cx_formatTime cx (ei_IssuedAt (ip_Current p)))"
  "sec_Data (served (BuildPublicSecret cx z ns p)) previousCertField = Some (ei_CertPEM (ip_Previous p))"
  "sec_Data (served (BuildPublicSecret cx z ns p)) previousIssuedAtField = Some (cx_formatTime cx (ei_IssuedAt (ip_Previous p)))"
  by (simp_all add: served_def secretBody_def BuildPublicSecret_def secretObj_def identity_fields)

text \<open>
  The identity pair survives its Secret.  What \<open>BuildPublicSecret\<close> writes is read back by
  \<open>ParsePublicSecret\<close> exactly, provided both certificates are there; a pair with an empty
  certificate in either slot is refused as a whole.
\<close>

theorem ParsePublicSecret_Build:
  assumes "time_ok cx"
  shows "ParsePublicSecret cx (served (BuildPublicSecret cx z ns p)) =
    (if ei_CertPEM (ip_Current p) \<noteq> '''' \<and> ei_CertPEM (ip_Previous p) \<noteq> '''' then Some p else None)"
  using assms by (simp add: ParsePublicSecret_def parseIdentity_def dataField_def served_public_fields time_ok_def)

section \<open>Who is let in\<close>

text \<open>
  \<open>cert z i\<close>: the hub has at some time stored identity \<open>i\<close> for zone \<open>z\<close>.  The world of a
  Verifier: reading zone \<open>z\<close>'s Secret yields only such identities; the cache returns what was
  added under the key and may forget; calls do not touch each other's part; the clock does
  not run backwards.
\<close>

definition verifier_world :: "'s world \<Rightarrow> 's crypto \<Rightarrow> 's Verifier \<Rightarrow> ('s \<Rightarrow> string \<rightharpoonup> cacheEntry) \<Rightarrow>
    (string \<Rightarrow> EtcdIdentity \<Rightarrow> bool) \<Rightarrow> ('s \<Rightarrow> int) \<Rightarrow> bool" where
  "verifier_world w cx v cv cert clk \<longleftrightarrow>
     (\<forall>z s e. result_of (lru_Get (vf_cache v) z) s = Some e \<longrightarrow> cv s z = Some e) \<and>
     (\<forall>z s. cv (state_after (lru_Get (vf_cache v) z) s) \<subseteq>\<^sub>m cv s) \<and>
     (\<forall>z e s. cv (state_after (lru_Add (vf_cache v) z e) s) \<subseteq>\<^sub>m (cv s)(z \<mapsto> e)) \<and>
     (\<forall>k. quiet cv (kget (cl_Secret (vf_client v)) k)) \<and> quiet cv (w_now w) \<and>
     (\<forall>z s x p. result_of (kget (cl_Secret (vf_client v)) (vf_namespace v, AuthSecretName z)) s = Inr x \<and>
        ParsePublicSecret cx x = Some p \<longrightarrow> cert z (ip_Current p) \<and> cert z (ip_Previous p)) \<and>
     (\<forall>s. clk s \<le> result_of (w_now w) s \<and> result_of (w_now w) s \<le> clk (state_after (w_now w) s)) \<and>
     (\<forall>z. clock_mono clk (lru_Get (vf_cache v) z)) \<and> (\<forall>k. clock_mono clk (kget (cl_Secret (vf_client v)) k))"

lemma verifier_worldD:
  assumes "verifier_world w cx v cv cert clk"
  shows "run_state (lru_Get (vf_cache v) z) s = (r, t) \<Longrightarrow> cv t \<subseteq>\<^sub>m cv s \<and> clk s \<le> clk t \<and> (\<forall>e. r = Some e \<longrightarrow> cv s z = Some e)"
    and "run_state (lru_Add (vf_cache v) z e) s = (u, t) \<Longrightarrow> cv t \<subseteq>\<^sub>m (cv s)(z \<mapsto> e)"
    and "run_state (kget (cl_Secret (vf_client v)) k) s = (g, t) \<Longrightarrow> cv t = cv s \<and> clk s \<le> clk t"
    and "run_state (kget (cl_Secret (vf_client v)) (vf_namespace v, AuthSecretName z)) s = (Inr x, t) \<Longrightarrow>
           ParsePublicSecret cx x = Some p \<Longrightarrow> cert z (ip_Current p) \<and> cert z (ip_Previous p)"
    and "run_state (w_now w) s = (n, t) \<Longrightarrow> cv t = cv s \<and> clk s \<le> n \<and> n \<le> clk t"
proof -
  show "run_state (lru_Get (vf_cache v) z) s = (r, t) \<Longrightarrow> cv t \<subseteq>\<^sub>m cv s \<and> clk s \<le> clk t \<and> (\<forall>e. r = Some e \<longrightarrow> cv s z = Some e)"
    using assms unfolding verifier_world_def clock_mono_def by (metis fst_conv snd_conv)
  show "run_state (lru_Add (vf_cache v) z e) s = (u, t) \<Longrightarrow> cv t \<subseteq>\<^sub>m (cv s)(z \<mapsto> e)"
    using assms unfolding verifier_world_def by (metis snd_conv)
  show "run_state (kget (cl_Secret (vf_client v)) k) s = (g, t) \<Longrightarrow> cv t = cv s \<and> clk s \<le> clk t"
    using assms unfolding verifier_world_def quiet_def clock_mono_def by (metis snd_conv)
  show "run_state (kget (cl_Secret (vf_client v)) (vf_namespace v, AuthSecretName z)) s = (Inr x, t) \<Longrightarrow>
      ParsePublicSecret cx x = Some p \<Longrightarrow> cert z (ip_Current p) \<and> cert z (ip_Previous p)"
    using assms unfolding verifier_world_def by (metis fst_conv)
  show "run_state (w_now w) s = (n, t) \<Longrightarrow> cv t = cv s \<and> clk s \<le> n \<and> n \<le> clk t"
    using assms unfolding verifier_world_def quiet_def by (metis fst_conv snd_conv)
qed

definition vouched :: "'s crypto \<Rightarrow> (string \<Rightarrow> EtcdIdentity \<Rightarrow> bool) \<Rightarrow> string \<Rightarrow> string \<Rightarrow> int \<Rightarrow> bool" where
  "vouched cx cert z k f \<longleftrightarrow> (\<exists>i. cert z i \<and> Valid i f \<and> PublicKeyFromCert cx (ei_CertPEM i) = Inr k)"

definition cache_inv :: "'s crypto \<Rightarrow> (string \<Rightarrow> EtcdIdentity \<Rightarrow> bool) \<Rightarrow> (string \<rightharpoonup> cacheEntry) \<Rightarrow> bool" where
  "cache_inv cx cert c \<longleftrightarrow> (\<forall>z e. c z = Some e \<longrightarrow> (\<forall>k\<in>set (ce_keys e). vouched cx cert z k (ce_fetchedAt e)))"

lemma cache_inv_sub: "cache_inv cx cert c \<Longrightarrow> c' \<subseteq>\<^sub>m c \<Longrightarrow> cache_inv cx cert c'"
  unfolding cache_inv_def map_le_def by (metis domI)

lemma validKeys_vouched:
  assumes "cert z (ip_Current p)" and "cert z (ip_Previous p)" and "k \<in> set (validKeys cx p now)"
  shows "vouched cx cert z k now"
proof -
  obtain i where i: "i \<in> {ip_Current p, ip_Previous p}" "Valid i now"
      "k \<in> set (case PublicKeyFromCert cx (ei_CertPEM i) of Inl _ \<Rightarrow> [] | Inr pub \<Rightarrow> [pub])"
    using assms(3) unfolding validKeys_def
    by (cases "Valid (ip_Current p) now"; cases "Valid (ip_Previous p) now") auto
  then have "PublicKeyFromCert cx (ei_CertPEM i) = Inr k" by (cases "PublicKeyFromCert cx (ei_CertPEM i)") simp_all
  with i assms(1,2) show ?thesis unfolding vouched_def by blast
qed

lemma fetchKeys_sound:
  assumes w: "verifier_world w cx v cv cert clk" and i: "cache_inv cx cert (cv s)"
    and r: "run_state (fetchKeys w cx v z) s = (r, t)"
  shows "cache_inv cx cert (cv t) \<and> (\<forall>keys. r = Inr keys \<longrightarrow> (\<exists>f. clk s \<le> f \<and> (\<forall>k\<in>set keys. vouched cx cert z k f)))"
proof -
  obtain g s1 where g: "run_state (kget (cl_Secret (vf_client v)) (vf_namespace v, AuthSecretName z)) s = (g, s1)" by fastforce
  have i1: "cache_inv cx cert (cv s1)" "clk s \<le> clk s1" using verifier_worldD(3) [OF w g] i by simp_all
  show ?thesis
  proof (cases "\<exists>x p. g = Inr x \<and> ParsePublicSecret cx x = Some p")
    case False
    with r g i1 show ?thesis by (auto simp: fetchKeys_def split: sum.splits option.splits)
  next
    case True
    then obtain x p where x: "g = Inr x" "ParsePublicSecret cx x = Some p" by blast
    have c: "cert z (ip_Current p) \<and> cert z (ip_Previous p)" using verifier_worldD(4) [OF w] g x by blast
    obtain n s2 where n: "run_state (w_now w) s1 = (n, s2)" by fastforce
    have n1: "cv s2 = cv s1" "clk s1 \<le> n" using verifier_worldD(5) [OF w n] by simp_all
    let ?ks = "validKeys cx p n"
    have v: "\<forall>k\<in>set ?ks. vouched cx cert z k n" using validKeys_vouched c by blast
    obtain u s3 where u: "run_state (lru_Add (vf_cache v) z \<lparr>ce_keys = ?ks, ce_fetchedAt = n\<rparr>) s2 = (u, s3)"
      by (metis prod.collapse)
    have "cache_inv cx cert ((cv s2)(z \<mapsto> \<lparr>ce_keys = ?ks, ce_fetchedAt = n\<rparr>))"
      using i1(1) n1(1) v by (simp add: cache_inv_def)
    then have "cache_inv cx cert (cv s3)" using cache_inv_sub verifier_worldD(2) [OF w u] by blast
    with r g x n u v i1 n1 show ?thesis
      by (auto simp: fetchKeys_def Let_def intro!: exI [of _ n] split: if_splits)
  qed
qed

lemma lookup_sound:
  assumes w: "verifier_world w cx v cv cert clk" and i: "cache_inv cx cert (cv s)"
    and r: "run_state (lookup w cx v z) s = (r, t)"
  shows "cache_inv cx cert (cv t) \<and>
    (\<forall>keys. r = Inr keys \<longrightarrow> (\<exists>f. clk s < f + verifierCacheTTL \<and> (\<forall>k\<in>set keys. vouched cx cert z k f)))"
proof -
  have ttl: "0 < verifierCacheTTL" by (simp add: verifierCacheTTL_def second_def)
  obtain c s1 where c: "run_state (lru_Get (vf_cache v) z) s = (c, s1)" by fastforce
  note get = verifier_worldD(1) [OF w c]
  have i1: "cache_inv cx cert (cv s1)" using cache_inv_sub [OF i] get by blast
  have fetch: "cache_inv cx cert (cv t) \<and>
      (\<forall>keys. r = Inr keys \<longrightarrow> (\<exists>f. clk s < f + verifierCacheTTL \<and> (\<forall>k\<in>set keys. vouched cx cert z k f)))"
    if "run_state (fetchKeys w cx v z) s' = (r, t)" "cache_inv cx cert (cv s')" "clk s \<le> clk s'" for s'
  proof -
    note f = fetchKeys_sound [OF w that(2,1)]
    have "\<exists>f. clk s < f + verifierCacheTTL \<and> (\<forall>k\<in>set keys. vouched cx cert z k f)" if rk: "r = Inr keys" for keys
    proof -
      obtain f where "clk s' \<le> f" "\<forall>k\<in>set keys. vouched cx cert z k f" using f rk by blast
      moreover have "clk s < f + verifierCacheTTL" using calculation(1) \<open>clk s \<le> clk s'\<close> ttl by linarith
      ultimately show ?thesis by blast
    qed
    with f show ?thesis by blast
  qed
  show ?thesis
  proof (cases c)
    case None
    with r c fetch [OF _ i1] get show ?thesis by (simp add: lookup_def)
  next
    case (Some e)
    obtain n s2 where n: "run_state (w_now w) s1 = (n, s2)" by fastforce
    note now = verifier_worldD(5) [OF w n]
    show ?thesis
    proof (cases "n - ce_fetchedAt e < verifierCacheTTL")
      case True
      have "\<forall>k\<in>set (ce_keys e). vouched cx cert z k (ce_fetchedAt e)"
        using i get Some unfolding cache_inv_def by blast
      with r c Some n True now get i1 show ?thesis by (auto simp: lookup_def intro!: exI [of _ "ce_fetchedAt e"])
    next
      case False
      with r c Some n fetch [of s2] now get i1 show ?thesis by (simp add: lookup_def)
    qed
  qed
qed

lemma verifyWithAnyKey_accepted:
  assumes "run_state (verifyWithAnyKey w jl token iss keys e) s = (Inr z, t)"
  shows "z = iss \<and> (\<exists>k\<in>set keys. \<exists>now c. jl_parse jl token k tokenAudience tokenClockSkew now = (None, True, c) \<and>
     cm_Issuer c = z \<and> cm_Subject c = z)"
  using assms
proof (induction keys arbitrary: e s)
  case (Cons k keys)
  obtain n s1 where n: "run_state (w_now w) s = (n, s1)" by fastforce
  obtain ve va c where p: "jl_parse jl token k tokenAudience tokenClockSkew n = (ve, va, c)" by (metis prod_cases3)
  show ?case
  proof (cases "ve = None \<and> va \<and> cm_Issuer c \<noteq> '''' \<and> cm_Issuer c = cm_Subject c \<and> cm_Issuer c = iss")
    case True
    with Cons.prems n p show ?thesis by auto
  next
    case False
    with Cons.prems n p have "run_state (verifyWithAnyKey w jl token iss keys ve) s1 = (Inr z, t)" by (auto split: if_splits)
    from Cons.IH [OF this] show ?thesis by auto
  qed
qed simp

lemma verifyWithAnyKey_quiet: "quiet cv (w_now w) \<Longrightarrow> quiet cv (verifyWithAnyKey w jl token iss keys e)"
  unfolding quiet_iff by (induction keys arbitrary: e) (auto intro!: leaves_rules)

text \<open>Why a token is accepted: the evidence \<open>entitled\<close> for zone \<open>z\<close> at the start of the call.\<close>

definition entitled :: "'s crypto \<Rightarrow> jwtlib \<Rightarrow> (string \<Rightarrow> EtcdIdentity \<Rightarrow> bool) \<Rightarrow> ('s \<Rightarrow> int) \<Rightarrow> string \<Rightarrow> string \<Rightarrow> 's \<Rightarrow> bool" where
  "entitled cx jl cert clk token z s \<longleftrightarrow> (\<exists>i k now c. cert z i \<and>
    PublicKeyFromCert cx (ei_CertPEM i) = Inr k \<and> clk s < ei_IssuedAt i + 6 * hour + 5 * minute + 30 * second \<and>
    jl_parse jl token k tokenAudience tokenClockSkew now = (None, True, c) \<and> cm_Issuer c = z \<and> cm_Subject c = z)"

lemma Authenticate_entitled:
  assumes w: "verifier_world w cx v cv cert clk" and i: "cache_inv cx cert (cv s)"
    and r: "run_state (Authenticate w cx jl v token) s = (r, t)"
  shows "cache_inv cx cert (cv t) \<and> (\<forall>z. r = Inr z \<longrightarrow> entitled cx jl cert clk token z s)"
proof (cases "\<exists>u. jl_parseUnverified jl token = Inr u \<and> cm_Issuer u \<noteq> ''''")
  case False
  with r i show ?thesis by (auto simp: Authenticate_def VerifyToken_def split: sum.splits if_splits)
next
  case True
  then obtain u where u: "jl_parseUnverified jl token = Inr u" "cm_Issuer u \<noteq> ''''" by blast
  obtain l s1 where l: "run_state (lookup w cx v (cm_Issuer u)) s = (l, s1)" by fastforce
  note ls = lookup_sound [OF w i l]
  show ?thesis
  proof (cases "\<exists>keys. l = Inr keys \<and> keys \<noteq> []")
    case False
    with r u l ls show ?thesis by (auto simp: Authenticate_def VerifyToken_def split: sum.splits if_splits)
  next
    case True
    then obtain keys where keys: "l = Inr keys" "keys \<noteq> []" by blast
    obtain a s2 where a: "run_state (verifyWithAnyKey w jl token (cm_Issuer u) keys None) s1 = (a, s2)" by fastforce
    have "quiet cv (w_now w)" using w unfolding verifier_world_def by blast
    then have q: "cv s2 = cv s1" by (rule quiet_run [OF verifyWithAnyKey_quiet a])
    have t: "t = s2" "\<And>z. r = Inr z \<Longrightarrow> a = Inr z" using r u l keys a
      by (auto simp: Authenticate_def VerifyToken_def split: sum.splits)
    obtain f where f: "clk s < f + verifierCacheTTL" "\<forall>k\<in>set keys. vouched cx cert (cm_Issuer u) k f"
      using ls keys by blast
    have "entitled cx jl cert clk token z s" if rz: "r = Inr z" for z
    proof -
      obtain k now c where k: "z = cm_Issuer u" "k \<in> set keys"
          "jl_parse jl token k tokenAudience tokenClockSkew now = (None, True, c)" "cm_Issuer c = z" "cm_Subject c = z"
        using verifyWithAnyKey_accepted [of w jl token "cm_Issuer u" keys None s1 z s2] t(2) [OF rz] a by auto
      then obtain i where i: "cert z i" "Valid i f" "PublicKeyFromCert cx (ei_CertPEM i) = Inr k"
        using f(2) unfolding vouched_def by blast
      then have "clk s < ei_IssuedAt i + 6 * hour + 5 * minute + 30 * second"
        using f(1) by (simp add: Valid_def ExpiresAt_def DueAt_def IdentityRotationInterval_def IdentityOverlapWindow_def verifierCacheTTL_def)
      with i k show ?thesis unfolding entitled_def by blast
    qed
    then show ?thesis using ls q t(1) by simp
  qed
qed

text \<open>
  C3: Only a holder of a current key gets in, and a dead identity dies.  If \<open>Authenticate\<close>
  accepts a token for zone \<open>z\<close>, the token verifies (signature, audience, expiry) under the
  key of a certificate the hub stored for exactly that zone, its issuer and subject are
  \<open>z\<close>, and the certificate's acceptance window (issue + 6 h rotation + 5 min overlap) plus
  the 30 s cache lifetime was not over when the call began.  Accepted or not, the cache
  holds only vouched keys afterwards, so the bound holds for every later call.
\<close>

theorem Authenticate_sound:
  assumes w: "verifier_world w cx v cv cert clk" and i: "cache_inv cx cert (cv s)"
    and r: "run_state (Authenticate w cx jl v token) s = (r, t)"
  shows "cache_inv cx cert (cv t) \<and> (\<forall>z. r = Inr z \<longrightarrow> (\<exists>i k now c. cert z i \<and>
    PublicKeyFromCert cx (ei_CertPEM i) = Inr k \<and> clk s < ei_IssuedAt i + 6 * hour + 5 * minute + 30 * second \<and>
    jl_parse jl token k tokenAudience tokenClockSkew now = (None, True, c) \<and> cm_Issuer c = z \<and> cm_Subject c = z))"
  using Authenticate_entitled [OF assms] by (simp add: entitled_def)

section \<open>Tokens verify\<close>

text \<open>
  What the JWT library promises: the claims of a signed token can be read without the key;
  under a matching key it verifies as long as the audience is right and the expiry, with
  the leeway, has not passed; under any other key it does not.
\<close>

definition jwt_ok :: "jwtlib \<Rightarrow> (string \<Rightarrow> string \<Rightarrow> bool) \<Rightarrow> bool" where
  "jwt_ok jl keypair \<longleftrightarrow> (\<forall>c priv tok. jl_sign jl c priv = Inr tok \<longrightarrow> jl_parseUnverified jl tok = Inr c \<and>
     (\<forall>pub aud lw now. if keypair priv pub \<and> aud \<in> set (cm_Audience c) \<and> now < cm_ExpiresAt c + lw
        then jl_parse jl tok pub aud lw now = (None, True, c)
        else fst (jl_parse jl tok pub aud lw now) \<noteq> None))"

text \<open>States in which every clock reading stays before a deadline.\<close>

definition before :: "'s world \<Rightarrow> int \<Rightarrow> ('s \<Rightarrow> bool) \<Rightarrow> bool" where
  "before w deadline P \<longleftrightarrow> (\<forall>s. P s \<longrightarrow> result_of (w_now w) s < deadline \<and> P (state_after (w_now w) s))"

lemma verifyWithAnyKey_finds:
  assumes j: "jwt_ok jl keypair" and tok: "jl_sign jl c priv = Inr tok"
    and c: "cm_Issuer c = z" "cm_Subject c = z" "z \<noteq> ''''" "tokenAudience \<in> set (cm_Audience c)"
    and b: "before w (cm_ExpiresAt c + tokenClockSkew) P" and p: "P s"
    and k: "\<exists>pub\<in>set keys. keypair priv pub"
  shows "result_of (verifyWithAnyKey w jl tok z keys e) s = Inr z"
  using k p
proof (induction keys arbitrary: e s)
  case (Cons key keys)
  obtain n s1 where n: "run_state (w_now w) s = (n, s1)" by fastforce
  have n1: "n < cm_ExpiresAt c + tokenClockSkew" "P s1" using b Cons.prems(2) n unfolding before_def by (metis fst_conv snd_conv)+
  have parse: "if keypair priv key \<and> tokenAudience \<in> set (cm_Audience c) \<and> n < cm_ExpiresAt c + tokenClockSkew
      then jl_parse jl tok key tokenAudience tokenClockSkew n = (None, True, c)
      else fst (jl_parse jl tok key tokenAudience tokenClockSkew n) \<noteq> None"
    using j tok unfolding jwt_ok_def by blast
  show ?case
  proof (cases "keypair priv key")
    case True
    with parse n1 c n show ?thesis by simp
  next
    case False
    then have "\<exists>pub\<in>set keys. keypair priv pub" using Cons.prems(1) by auto
    from Cons.IH [OF this n1(2)] parse False n show ?thesis by (auto split: prod.splits)
  qed
qed simp

text \<open>
  A zone's own token is accepted.  A token \<open>SignToken\<close> mints for a named zone verifies,
  as exactly that zone, whenever the key list the hub looks up for the zone contains the
  public half of the signing key (in either slot) and the clock has not passed the
  token's lifetime plus the tolerated skew.
\<close>

theorem SignToken_verifies:
  assumes j: "jwt_ok jl keypair" and z: "zone \<noteq> ''''"
    and sg: "run_state (SignToken w jl zone priv) s = (Inr tok, s1)"
    and l: "run_state (lookupKeys zone) s2 = (Inr keys, s3)" and k: "pub \<in> set keys" "keypair priv pub"
    and b: "before w (newNumericDate (result_of (w_now w) s + tokenTTL) + tokenClockSkew) P" "P s3"
  shows "result_of (VerifyToken w jl tok lookupKeys) s2 = Inr zone"
proof -
  let ?c = "\<lparr>cm_Issuer = zone, cm_Subject = zone, cm_Audience = [tokenAudience],
    cm_IssuedAt = newNumericDate (result_of (w_now w) s), cm_ExpiresAt = newNumericDate (result_of (w_now w) s + tokenTTL)\<rparr>"
  have tok: "jl_sign jl ?c priv = Inr tok"
    using sg by (auto simp: SignToken_def split: prod.splits sum.splits)
  then have u: "jl_parseUnverified jl tok = Inr ?c" using j unfolding jwt_ok_def by blast
  have "result_of (verifyWithAnyKey w jl tok zone keys None) s3 = Inr zone"
    using verifyWithAnyKey_finds [OF j tok, of zone w P s3 keys None] z b k by auto
  with u z l k show ?thesis by (auto simp: VerifyToken_def split: prod.splits)
qed

section \<open>A concrete verifier\<close>

definition demo_format :: "int \<Rightarrow> string" where
  "demo_format t = (if t < 0 then CHR ''-'' # replicate (nat (- t)) (CHR ''x'') else replicate (nat t) (CHR ''x''))"

definition demo_parse :: "string \<Rightarrow> goerr + int" where
  "demo_parse x = (case x of [] \<Rightarrow> Inr 0 | c # cs \<Rightarrow> Inr (if c = CHR ''-'' then - int (length cs) else int (length x)))"

definition demo_crypto :: "(string \<rightharpoonup> cacheEntry) crypto" where
  "demo_crypto = \<lparr>cx_generateKey = return (Inr (''pub'', ''priv'')), cx_randInt = (\<lambda>_. return (Inr 7)),
     cx_createCertificate = (\<lambda>_ pub _. return (Inr pub)), cx_marshalPKCS8 = Inr, cx_parsePKCS8 = (\<lambda>x. Inr (Ed25519Private x)),
     cx_pemEncode = (\<lambda>_ x. x), cx_pemDecode = Some,
     cx_parseCertificate = (\<lambda>x. Inr \<lparr>ct_Raw = x, ct_PublicKey = Ed25519Public x\<rparr>),
     cx_sha256 = (\<lambda>_. [0xAB, 0x0C]), cx_formatTime = demo_format, cx_parseTime = demo_parse\<rparr>"

lemma demo_time_ok: "time_ok demo_crypto"
proof -
  have "demo_parse (demo_format t) = Inr t" for t
  proof (cases "t \<le> 0")
    case True
    then show ?thesis by (cases "t = 0") (simp_all add: demo_format_def demo_parse_def)
  next
    case False
    then obtain n where n: "nat t = Suc n" by (metis Suc_pred nat_eq_iff2 zero_less_nat_eq not_le)
    then have "t = int (Suc n)" "demo_format t = CHR ''x'' # replicate n (CHR ''x'')"
      by (simp_all add: demo_format_def)
    then show ?thesis by (simp add: demo_parse_def)
  qed
  then show ?thesis by (simp add: time_ok_def demo_crypto_def)
qed

definition demo_pair :: IdentityPair where
  "demo_pair = \<lparr>ip_Current = \<lparr>ei_CertPEM = ''new'', ei_IssuedAt = 2\<rparr>, ip_Previous = \<lparr>ei_CertPEM = ''old'', ei_IssuedAt = 1\<rparr>\<rparr>"

theorem ParsePublicSecret_Build_witness:
  "ParsePublicSecret demo_crypto (served (BuildPublicSecret demo_crypto ''eu-1'' ''sys'' demo_pair)) = Some demo_pair"
  using ParsePublicSecret_Build [OF demo_time_ok, of "''eu-1''" "''sys''" demo_pair] by (simp add: demo_pair_def)

definition demo_claims :: Claims where
  "demo_claims = \<lparr>cm_Issuer = ''eu-1'', cm_Subject = ''eu-1'', cm_Audience = [tokenAudience], cm_IssuedAt = 0, cm_ExpiresAt = 300 * second\<rparr>"

definition demo_jwt :: jwtlib where
  "demo_jwt = \<lparr>jl_sign = (\<lambda>c k. if c = demo_claims \<and> k = ''old'' then Inr ''token'' else Inl unavailable),
     jl_parseUnverified = (\<lambda>_. Inr demo_claims),
     jl_parse = (\<lambda>tok k aud lw now. if k = ''old'' \<and> aud = tokenAudience \<and> now < 300 * second + lw then (None, True, demo_claims)
        else (Some unavailable, False, demo_claims))\<rparr>"

lemma demo_jwt_ok: "jwt_ok demo_jwt (\<lambda>priv pub. pub = ''old'')"
  by (auto simp: jwt_ok_def demo_jwt_def demo_claims_def)

theorem SignToken_verifies_witness:
  "result_of (VerifyToken (still_world 0) demo_jwt ''token'' (\<lambda>_. return (Inr [''new'', ''old'']))) () = Inr ''eu-1''"
proof (rule SignToken_verifies [OF demo_jwt_ok, where priv = "''old''" and s = "()" and P = "\<lambda>_. True"])
  show "run_state (SignToken (still_world 0) demo_jwt ''eu-1'' ''old'') () = (Inr ''token'', ())"
    by (simp add: SignToken_def still_world_def demo_jwt_def demo_claims_def newNumericDate_def tokenTTL_def second_def)
  show "''old'' \<in> set [''new'', ''old'']" by simp
qed (simp_all add: before_def still_world_def newNumericDate_def tokenTTL_def tokenClockSkew_def second_def)

definition demo_verifier :: "(string \<rightharpoonup> cacheEntry) Verifier" where
  "demo_verifier = \<lparr>vf_client = down_client\<lparr>cl_Secret := down_kclient\<lparr>kget := (\<lambda>k.
       return (Inr (served (BuildPublicSecret demo_crypto ''eu-1'' ''sys'' demo_pair))))\<rparr>\<rparr>,
     vf_namespace = ''sys'',
     vf_cache = \<lparr>lru_Get = (\<lambda>z. State (\<lambda>c. (c z, c))), lru_Add = (\<lambda>z e. State (\<lambda>c. ((), c(z \<mapsto> e))))\<rparr>\<rparr>"

lemma demo_verifier_world:
  "verifier_world (still_world n) demo_crypto demo_verifier (\<lambda>c. c)
     (\<lambda>_ i. i \<in> {ip_Current demo_pair, ip_Previous demo_pair}) (\<lambda>_. n)"
proof -
  have "ParsePublicSecret demo_crypto (served (BuildPublicSecret demo_crypto ''eu-1'' ''sys'' demo_pair)) = Some demo_pair"
    by (simp add: ParsePublicSecret_def parseIdentity_def dataField_def served_public_fields
        demo_time_ok [unfolded time_ok_def, rule_format] demo_pair_def)
  then show ?thesis
    by (simp add: verifier_world_def demo_verifier_def quiet_def clock_mono_def still_world_def)
qed

theorem Authenticate_sound_witness:
  "\<exists>t. run_state (Authenticate (still_world (100 * second)) demo_crypto demo_jwt demo_verifier ''token'') Map.empty = (Inr ''eu-1'', t) \<and>
     cache_inv demo_crypto (\<lambda>_ i. i \<in> {ip_Current demo_pair, ip_Previous demo_pair}) t"
proof -
  have p: "ParsePublicSecret demo_crypto (served (BuildPublicSecret demo_crypto ''eu-1'' ''sys'' demo_pair)) = Some demo_pair"
    by (simp add: ParsePublicSecret_def parseIdentity_def dataField_def served_public_fields
        demo_time_ok [unfolded time_ok_def, rule_format] demo_pair_def)
  have k: "validKeys demo_crypto demo_pair (100 * second) = [''new'', ''old'']"
    by (simp add: validKeys_def Valid_def ExpiresAt_def DueAt_def demo_pair_def IdentityRotationInterval_def IdentityOverlapWindow_def
        second_def PublicKeyFromCert_def parseCert_def demo_crypto_def)
  obtain t where t: "run_state (Authenticate (still_world (100 * second)) demo_crypto demo_jwt demo_verifier ''token'') Map.empty = (Inr ''eu-1'', t)"
    using p k by (simp add: Authenticate_def VerifyToken_def lookup_def fetchKeys_def demo_verifier_def demo_jwt_def demo_claims_def
        still_world_def Let_def second_def tokenClockSkew_def)
  have "cache_inv demo_crypto (\<lambda>_ i. i \<in> {ip_Current demo_pair, ip_Previous demo_pair}) Map.empty" by (simp add: cache_inv_def)
  from Authenticate_sound [OF demo_verifier_world this t] t show ?thesis by blast
qed

end
