(* ===== verification/EtcdProxy.thy ===== *)
theory EtcdProxy
  imports ProxyIdentity
begin

text \<open>
  The etcd gRPC proxy: \<open>proxy.go\<close> (authentication and verbatim forwarding), \<open>pool.go\<close>
  (round-robin over a fixed set of upstream connections), \<open>hub.go\<close>, \<open>localpool.go\<close> and
  \<open>relay.go\<close> (how the pieces are started and torn down, recovery from a stale key),
  \<open>identitywatch.go\<close> (following the rotated key) and \<open>dsn.go\<close>.

  Requests and responses are opaque byte strings, which is how the proxy treats them.  A
  gRPC connection is a record of the calls the proxy makes on it; dialling, listening and
  the storage backend are parameters.  Two goroutines pump a stream, so \<open>pumpBidi\<close> is a
  step relation over their interleavings.
\<close>

type_synonym payload = string

section \<open>Upstream connections and streams\<close>

record 's clientStream =
  cs_Send :: "payload \<Rightarrow> ('s, goerr option) state"
  cs_Recv :: "('s, goerr + payload) state"
  cs_CloseSend :: "('s, goerr option) state"

record 's serverStream =
  ss_Send :: "payload \<Rightarrow> ('s, goerr option) state"
  ss_Recv :: "('s, goerr + payload) state"

record 's KVClient =
  kvc_Range :: "payload \<Rightarrow> ('s, goerr + payload) state"
  kvc_Put :: "payload \<Rightarrow> ('s, goerr + payload) state"
  kvc_DeleteRange :: "payload \<Rightarrow> ('s, goerr + payload) state"
  kvc_Txn :: "payload \<Rightarrow> ('s, goerr + payload) state"
  kvc_Compact :: "payload \<Rightarrow> ('s, goerr + payload) state"

record 's LeaseClient =
  lsc_LeaseGrant :: "payload \<Rightarrow> ('s, goerr + payload) state"
  lsc_LeaseRevoke :: "payload \<Rightarrow> ('s, goerr + payload) state"
  lsc_LeaseTimeToLive :: "payload \<Rightarrow> ('s, goerr + payload) state"
  lsc_LeaseLeases :: "payload \<Rightarrow> ('s, goerr + payload) state"
  lsc_LeaseKeepAlive :: "('s, goerr + 's clientStream) state"

record 's ClientConn =
  cc_id :: nat
  cc_kv :: "'s KVClient"
  cc_lease :: "'s LeaseClient"
  cc_watch :: "('s, goerr + 's clientStream) state"
  cc_Close :: "('s, unit) state"
  cc_ResetConnectBackoff :: "('s, unit) state"

text \<open>gRPC status errors; \<open>status.Code\<close> looks through wrapping errors.\<close>

definition statusError :: "string \<Rightarrow> string \<Rightarrow> goerr" where
  "statusError code msg = Errorf ''rpc error: code = %s desc = %s'' [code, msg] []"

fun statusCodeIs :: "string \<Rightarrow> goerr \<Rightarrow> bool" where
  "statusCodeIs code (ApiError _) = False"
| "statusCodeIs code (Sentinel _) = False"
| "statusCodeIs code (Errorf f args es) =
     (f = ''rpc error: code = %s desc = %s'' \<and> args \<noteq> [] \<and> hd args = code \<or> (\<exists>e\<in>set es. statusCodeIs code e))"

section \<open>The proxy\<close>

type_synonym metadata = "(string \<Rightarrow> string list) option"

type_synonym 's Authenticator = "string \<Rightarrow> ('s, goerr + string) state"

record 's Proxy =
  px_kv :: "'s KVClient"
  px_watch :: "('s, goerr + 's clientStream) state"
  px_lease :: "'s LeaseClient"
  px_auth :: "'s Authenticator option"

definition AuthorizationMetadataKey :: string where "AuthorizationMetadataKey = ''authorization''"

definition BearerPrefix :: string where "BearerPrefix = ''Bearer ''"

definition NewProxy :: "'s ClientConn \<Rightarrow> 's Authenticator option \<Rightarrow> 's Proxy" where
  "NewProxy upstream auth = \<lparr>px_kv = cc_kv upstream, px_watch = cc_watch upstream, px_lease = cc_lease upstream,
     px_auth = auth\<rparr>"

definition hasPrefix :: "string \<Rightarrow> string \<Rightarrow> bool" where
  "hasPrefix s p \<longleftrightarrow> take (length p) s = p"

definition trimPrefix :: "string \<Rightarrow> string \<Rightarrow> string" where
  "trimPrefix s p = (if hasPrefix s p then drop (length p) s else s)"

definition authenticate :: "'s Proxy \<Rightarrow> metadata \<Rightarrow> ('s, goerr option) state" where
  "authenticate p md = (case px_auth p of
       None \<Rightarrow> return None
     | Some auth \<Rightarrow> (case md of
         None \<Rightarrow> return (Some (statusError ''Unauthenticated'' ''missing authorization metadata''))
       | Some get \<Rightarrow> (case get AuthorizationMetadataKey of
           [] \<Rightarrow> return (Some (statusError ''Unauthenticated'' ''missing bearer token''))
         | v # _ \<Rightarrow>
             if \<not> hasPrefix v BearerPrefix
             then return (Some (statusError ''Unauthenticated'' ''missing bearer token''))
             else do {
               r \<leftarrow> auth (trimPrefix v BearerPrefix);
               (case r of
                  Inl err \<Rightarrow> return (Some (statusError ''Unauthenticated'' ''invalid bearer token''))
                | Inr _ \<Rightarrow> return None)
             })))"

text \<open>The body every unary method has: authenticate, forward, wrap the upstream's error.\<close>

definition unary :: "string \<Rightarrow> 's Proxy \<Rightarrow> metadata \<Rightarrow> (payload \<Rightarrow> ('s, goerr + payload) state) \<Rightarrow> payload \<Rightarrow>
    ('s, goerr + payload) state" where
  "unary msg p md call req = do {
     a \<leftarrow> authenticate p md;
     (case a of
        Some err \<Rightarrow> return (Inl err)
      | None \<Rightarrow> do {
          r \<leftarrow> call req;
          (case r of Inl err \<Rightarrow> return (Inl (Errorf msg [] [err])) | Inr resp \<Rightarrow> return (Inr resp))
        })
   }"

definition RangeRPC :: "'s Proxy \<Rightarrow> metadata \<Rightarrow> payload \<Rightarrow> ('s, goerr + payload) state" where
  "RangeRPC p md req = unary ''upstream range failed: %w'' p md (kvc_Range (px_kv p)) req"

definition Put :: "'s Proxy \<Rightarrow> metadata \<Rightarrow> payload \<Rightarrow> ('s, goerr + payload) state" where
  "Put p md req = unary ''upstream put failed: %w'' p md (kvc_Put (px_kv p)) req"

definition DeleteRange :: "'s Proxy \<Rightarrow> metadata \<Rightarrow> payload \<Rightarrow> ('s, goerr + payload) state" where
  "DeleteRange p md req = unary ''upstream delete-range failed: %w'' p md (kvc_DeleteRange (px_kv p)) req"

definition Txn :: "'s Proxy \<Rightarrow> metadata \<Rightarrow> payload \<Rightarrow> ('s, goerr + payload) state" where
  "Txn p md req = unary ''upstream txn failed: %w'' p md (kvc_Txn (px_kv p)) req"

definition Compact :: "'s Proxy \<Rightarrow> metadata \<Rightarrow> payload \<Rightarrow> ('s, goerr + payload) state" where
  "Compact p md req = unary ''upstream compact failed: %w'' p md (kvc_Compact (px_kv p)) req"

definition LeaseGrant :: "'s Proxy \<Rightarrow> metadata \<Rightarrow> payload \<Rightarrow> ('s, goerr + payload) state" where
  "LeaseGrant p md req = unary ''upstream lease-grant failed: %w'' p md (lsc_LeaseGrant (px_lease p)) req"

definition LeaseRevoke :: "'s Proxy \<Rightarrow> metadata \<Rightarrow> payload \<Rightarrow> ('s, goerr + payload) state" where
  "LeaseRevoke p md req = unary ''upstream lease-revoke failed: %w'' p md (lsc_LeaseRevoke (px_lease p)) req"

definition LeaseTimeToLive :: "'s Proxy \<Rightarrow> metadata \<Rightarrow> payload \<Rightarrow> ('s, goerr + payload) state" where
  "LeaseTimeToLive p md req =
     unary ''upstream lease-time-to-live failed: %w'' p md (lsc_LeaseTimeToLive (px_lease p)) req"

definition LeaseLeases :: "'s Proxy \<Rightarrow> metadata \<Rightarrow> payload \<Rightarrow> ('s, goerr + payload) state" where
  "LeaseLeases p md req = unary ''upstream lease-leases failed: %w'' p md (lsc_LeaseLeases (px_lease p)) req"

text \<open>
  The streaming methods up to the point where the pumps take over: an error, or the
  upstream stream to pump.
\<close>

definition openStream :: "string \<Rightarrow> 's Proxy \<Rightarrow> metadata \<Rightarrow> ('s, goerr + 's clientStream) state \<Rightarrow>
    ('s, goerr + 's clientStream) state" where
  "openStream msg p md call = do {
     a \<leftarrow> authenticate p md;
     (case a of
        Some err \<Rightarrow> return (Inl err)
      | None \<Rightarrow> do {
          r \<leftarrow> call;
          (case r of Inl err \<Rightarrow> return (Inl (Errorf msg [] [err])) | Inr up \<Rightarrow> return (Inr up))
        })
   }"

definition LeaseKeepAlive :: "'s Proxy \<Rightarrow> metadata \<Rightarrow> ('s, goerr + 's clientStream) state" where
  "LeaseKeepAlive p md =
     openStream ''failed to open upstream lease-keep-alive stream: %w'' p md (lsc_LeaseKeepAlive (px_lease p))"

definition Watch :: "'s Proxy \<Rightarrow> metadata \<Rightarrow> ('s, goerr + 's clientStream) state" where
  "Watch p md = openStream ''failed to open upstream watch stream: %w'' p md (px_watch p)"

section \<open>Pumping a stream\<close>

definition EOF :: goerr where "EOF = Sentinel ''EOF''"

text \<open>
  One iteration of a pump: \<open>None\<close> when the loop goes round again, \<open>Some r\<close> when it sends
  \<open>r\<close> to the error channel and returns.
\<close>

definition pumpRequests :: "'s serverStream \<Rightarrow> 's clientStream \<Rightarrow> ('s, goerr option option) state" where
  "pumpRequests server client = do {
     r \<leftarrow> ss_Recv server;
     (case r of
        Inl err \<Rightarrow>
          if errorsIs err ''EOF'' then do { e \<leftarrow> cs_CloseSend client; return (Some e) }
          else return (Some (Some err))
      | Inr req \<Rightarrow> do {
          e \<leftarrow> cs_Send client req;
          (case e of Some err \<Rightarrow> return (Some (Some err)) | None \<Rightarrow> return None)
        })
   }"

definition pumpResponses :: "'s serverStream \<Rightarrow> 's clientStream \<Rightarrow> ('s, goerr option option) state" where
  "pumpResponses server client = do {
     r \<leftarrow> cs_Recv client;
     (case r of
        Inl err \<Rightarrow> if errorsIs err ''EOF'' then return (Some None) else return (Some (Some err))
      | Inr resp \<Rightarrow> do {
          e \<leftarrow> ss_Send server resp;
          (case e of Some err \<Rightarrow> return (Some (Some err)) | None \<Rightarrow> return None)
        })
   }"

record 's pumpst =
  pu_world :: 's
  pu_req :: bool
  pu_resp :: bool
  pu_errCh :: "goerr option list"

inductive pump_step :: "'s serverStream \<Rightarrow> 's clientStream \<Rightarrow> 's pumpst \<Rightarrow> 's pumpst \<Rightarrow> bool" for server client where
  req_loop: "pu_req s \<Longrightarrow> run_state (pumpRequests server client) (pu_world s) = (None, w) \<Longrightarrow>
    pump_step server client s (s\<lparr>pu_world := w\<rparr>)"
| req_done: "pu_req s \<Longrightarrow> run_state (pumpRequests server client) (pu_world s) = (Some r, w) \<Longrightarrow>
    pump_step server client s (s\<lparr>pu_world := w, pu_req := False, pu_errCh := pu_errCh s @ [r]\<rparr>)"
| resp_loop: "pu_resp s \<Longrightarrow> run_state (pumpResponses server client) (pu_world s) = (None, w) \<Longrightarrow>
    pump_step server client s (s\<lparr>pu_world := w\<rparr>)"
| resp_done: "pu_resp s \<Longrightarrow> run_state (pumpResponses server client) (pu_world s) = (Some r, w) \<Longrightarrow>
    pump_step server client s (s\<lparr>pu_world := w, pu_resp := False, pu_errCh := pu_errCh s @ [r]\<rparr>)"

inductive pump_reach :: "'s serverStream \<Rightarrow> 's clientStream \<Rightarrow> 's \<Rightarrow> 's pumpst \<Rightarrow> bool" for server client w where
  pump_start: "pump_reach server client w \<lparr>pu_world = w, pu_req = True, pu_resp = True, pu_errCh = []\<rparr>"
| pump_next: "pump_reach server client w s \<Longrightarrow> pump_step server client s t \<Longrightarrow> pump_reach server client w t"

text \<open>\<open>pumpBidi\<close> returns once both results are in: the first error, in order of arrival.\<close>

definition firstErr :: "goerr option list \<Rightarrow> goerr option" where
  "firstErr es = (case filter (\<lambda>e. e \<noteq> None) es of [] \<Rightarrow> None | e # _ \<Rightarrow> e)"

definition pumpBidi :: "'s pumpst \<Rightarrow> goerr option option" where
  "pumpBidi s = (if length (pu_errCh s) = 2 then Some (firstErr (pu_errCh s)) else None)"

section \<open>The pool\<close>

record 's Pool =
  pl_proxies :: "'s Proxy list"
  pl_next :: uint64

definition NewPool :: "'s ClientConn list \<Rightarrow> 's Authenticator option \<Rightarrow> 's Pool" where
  "NewPool upstreams auth = \<lparr>pl_proxies = map (\<lambda>u. NewProxy u auth) upstreams, pl_next = 0\<rparr>"

definition dividePanic :: goerr where
  "dividePanic = Sentinel ''panic: runtime error: integer divide by zero''"

definition pick :: "'s Pool \<Rightarrow> (goerr + 's Proxy) \<times> 's Pool" where
  "pick p = (let next = pl_next p + 1; n = next - 1; p1 = p\<lparr>pl_next := next\<rparr> in
     if pl_proxies p = [] then (Inl dividePanic, p1)
     else (Inr (pl_proxies p ! unat (n mod of_nat (length (pl_proxies p)))), p1))"

text \<open>Each method of the pool picks a proxy and delegates to it.\<close>

definition delegate :: "('s Proxy \<Rightarrow> ('s, goerr + 'a) state) \<Rightarrow> 's Pool \<Rightarrow> ('s, goerr + 'a) state \<times> 's Pool" where
  "delegate call p = (case pick p of (r, p1) \<Rightarrow>
     (case r of Inl panic \<Rightarrow> return (Inl panic) | Inr px \<Rightarrow> call px, p1))"

datatype unaryMethod = MRange | MPut | MDeleteRange | MTxn | MCompact | MLeaseGrant | MLeaseRevoke
  | MLeaseTimeToLive | MLeaseLeases

datatype streamMethod = MWatch | MLeaseKeepAlive

text \<open>The services \<open>Register\<close> puts on a server: which handler each method name gets.\<close>

fun ProxyRegister :: "'s Proxy \<Rightarrow> unaryMethod \<Rightarrow> metadata \<Rightarrow> payload \<Rightarrow> ('s, goerr + payload) state" where
  "ProxyRegister p MRange = RangeRPC p"
| "ProxyRegister p MPut = Put p"
| "ProxyRegister p MDeleteRange = DeleteRange p"
| "ProxyRegister p MTxn = Txn p"
| "ProxyRegister p MCompact = Compact p"
| "ProxyRegister p MLeaseGrant = LeaseGrant p"
| "ProxyRegister p MLeaseRevoke = LeaseRevoke p"
| "ProxyRegister p MLeaseTimeToLive = LeaseTimeToLive p"
| "ProxyRegister p MLeaseLeases = LeaseLeases p"

fun ProxyRegisterStream :: "'s Proxy \<Rightarrow> streamMethod \<Rightarrow> metadata \<Rightarrow> ('s, goerr + 's clientStream) state" where
  "ProxyRegisterStream p MWatch = Watch p"
| "ProxyRegisterStream p MLeaseKeepAlive = LeaseKeepAlive p"

definition PoolRegister :: "'s Pool \<Rightarrow> unaryMethod \<Rightarrow> metadata \<Rightarrow> payload \<Rightarrow>
    ('s, goerr + payload) state \<times> 's Pool" where
  "PoolRegister p m md req = delegate (\<lambda>px. ProxyRegister px m md req) p"

definition PoolRegisterStream :: "'s Pool \<Rightarrow> streamMethod \<Rightarrow> metadata \<Rightarrow>
    ('s, goerr + 's clientStream) state \<times> 's Pool" where
  "PoolRegisterStream p m md = delegate (\<lambda>px. ProxyRegisterStream px m md) p"

section \<open>Dialling\<close>

definition poolStreamWindowSize :: nat where "poolStreamWindowSize = 256 * 2 ^ 10"

definition poolConnWindowSize :: nat where "poolConnWindowSize = 2 ^ 20"

datatype DialOption = WithInitialWindowSize nat | WithInitialConnWindowSize nat | WithTransportCredentials string
  | WithPerRPCCredentials | WithChainUnaryInterceptor | WithChainStreamInterceptor

type_synonym 's newClient = "string \<Rightarrow> DialOption list \<Rightarrow> ('s, goerr + 's ClientConn) state"

fun closeAll :: "'s ClientConn list \<Rightarrow> ('s, unit) state" where
  "closeAll [] = return ()"
| "closeAll (c # cs) = do { _ \<leftarrow> cc_Close c; closeAll cs }"

fun dialLoop :: "'s newClient \<Rightarrow> string \<Rightarrow> DialOption list \<Rightarrow> nat \<Rightarrow> 's ClientConn list \<Rightarrow>
    ('s, goerr + 's ClientConn list) state" where
  "dialLoop nc target opts 0 conns = return (Inr conns)"
| "dialLoop nc target opts (Suc n) conns = do {
     r \<leftarrow> nc target opts;
     (case r of
        Inl err \<Rightarrow> do { _ \<leftarrow> closeAll conns; return (Inl (Errorf ''failed to dial %q: %w'' [target] [err])) }
      | Inr conn \<Rightarrow> dialLoop nc target opts n (conns @ [conn]))
   }"

definition DialPool :: "'s newClient \<Rightarrow> string \<Rightarrow> nat \<Rightarrow> 's Authenticator option \<Rightarrow> DialOption list \<Rightarrow>
    ('s, goerr + ('s Pool \<times> ('s, unit) state)) state" where
  "DialPool nc target sz auth dialOpts = do {
     r \<leftarrow> dialLoop nc target ([WithInitialWindowSize poolStreamWindowSize,
            WithInitialConnWindowSize poolConnWindowSize] @ dialOpts) sz [];
     (case r of Inl err \<Rightarrow> return (Inl err) | Inr conns \<Rightarrow> return (Inr (NewPool conns auth, closeAll conns)))
   }"

definition zonePoolSize :: nat where "zonePoolSize = 8"

definition RegisterHub :: "'s world \<Rightarrow> 's crypto \<Rightarrow> jwtlib \<Rightarrow> (nat \<Rightarrow> goerr + 's lru) \<Rightarrow> 's newClient \<Rightarrow> string \<Rightarrow>
    's client \<Rightarrow> string \<Rightarrow> ('s, goerr + ('s Pool \<times> ('s, unit) state)) state" where
  "RegisterHub w cx jl lruNew nc kineTarget hubClient namespace =
     (case NewVerifier lruNew hubClient namespace of
        Inl err \<Rightarrow> return (Inl err)
      | Inr verifier \<Rightarrow> do {
          r \<leftarrow> DialPool nc kineTarget zonePoolSize (Some (Authenticate w cx jl verifier)) [WithTransportCredentials ''insecure''];
          (case r of
             Inl err \<Rightarrow> return (Inl (Errorf ''failed to dial local storage endpoint %q: %w'' [kineTarget] [err]))
           | Inr x \<Rightarrow> return (Inr x))
        })"

section \<open>The local pool and the relay\<close>

definition localPoolSize :: nat where "localPoolSize = 4"

definition IsPoolableBackend :: "(string \<Rightarrow> goerr + string) \<Rightarrow> (string \<Rightarrow> bool) \<Rightarrow> string \<Rightarrow> bool" where
  "IsPoolableBackend urlScheme isKineDSNScheme connStr = (case urlScheme connStr of
     Inl _ \<Rightarrow> False | Inr scheme \<Rightarrow> isKineDSNScheme scheme)"

record 's handle =
  hd_Endpoints :: "string list"
  hd_Close :: "('s, unit) state"

record 's hostenv =
  he_resolve :: "string \<Rightarrow> ('s, goerr + 's handle) state"
  he_remove :: "string \<Rightarrow> ('s, unit) state"
  he_listen :: "string \<Rightarrow> ('s, goerr + ('s, unit) state) state"
  he_newClient :: "'s newClient"

definition indexPanic :: goerr where
  "indexPanic = Sentinel ''panic: runtime error: index out of range [0] with length 0''"

text \<open>A started pool: its services, and the three things \<open>Close\<close> runs in order.\<close>

record 's LocalPool =
  lp_pool :: "'s Pool"
  lp_listenerClose :: "('s, unit) state"
  lp_closePool :: "('s, unit) state"
  lp_handleClose :: "('s, unit) state"

definition StartLocalPool :: "'s hostenv \<Rightarrow> string \<Rightarrow> string \<Rightarrow> ('s, goerr + 's LocalPool) state" where
  "StartLocalPool he socketPath backend = do {
     h \<leftarrow> he_resolve he backend;
     (case h of
        Inl err \<Rightarrow> return (Inl (Errorf ''failed to resolve storage backend %q: %w'' [backend] [err]))
      | Inr handle \<Rightarrow> do {
          _ \<leftarrow> he_remove he socketPath;
          l \<leftarrow> he_listen he socketPath;
          (case l of
             Inl err \<Rightarrow> do {
               _ \<leftarrow> hd_Close handle;
               return (Inl (Errorf ''failed to listen on %q: %w'' [socketPath] [err]))
             }
           | Inr listenerClose \<Rightarrow> (case hd_Endpoints handle of
               [] \<Rightarrow> return (Inl indexPanic)
             | ep # _ \<Rightarrow> do {
                 r \<leftarrow> DialPool (he_newClient he) ep localPoolSize None [WithTransportCredentials ''insecure''];
                 (case r of
                    Inl err \<Rightarrow> do {
                      _ \<leftarrow> listenerClose;
                      _ \<leftarrow> hd_Close handle;
                      return (Inl (Errorf ''failed to dial local storage pool: %w'' [] [err]))
                    }
                  | Inr (pool, closePool) \<Rightarrow> return (Inr \<lparr>lp_pool = pool, lp_listenerClose = listenerClose,
                      lp_closePool = closePool, lp_handleClose = hd_Close handle\<rparr>))
               }))
        })
   }"

text \<open>\<open>Close\<close>: \<open>GracefulStop\<close> closes the listener, then the connections and the backend go.\<close>

definition LocalPoolClose :: "'s LocalPool \<Rightarrow> ('s, unit) state" where
  "LocalPoolClose l = do { _ \<leftarrow> lp_listenerClose l; _ \<leftarrow> lp_closePool l; lp_handleClose l }"

record RelayConfig =
  rl_SocketPath :: string
  rl_HubEndpoint :: string
  rl_Zone :: string
  rl_Insecure :: bool
  rl_InsecureSkipVerify :: bool

record 's Relay =
  ry_proxy :: "'s Proxy"
  ry_upstream :: "'s ClientConn"
  ry_listenerClose :: "('s, unit) state"

definition StartRelay :: "'s hostenv \<Rightarrow> RelayConfig \<Rightarrow> ('s, goerr + 's Relay) state" where
  "StartRelay he cfg = do {
     _ \<leftarrow> he_remove he (rl_SocketPath cfg);
     l \<leftarrow> he_listen he (rl_SocketPath cfg);
     (case l of
        Inl err \<Rightarrow> return (Inl (Errorf ''failed to listen on %q: %w'' [rl_SocketPath cfg] [err]))
      | Inr listenerClose \<Rightarrow> do {
          let creds = (if rl_Insecure cfg then ''insecure''
                       else if rl_InsecureSkipVerify cfg then ''tls-skip-verify'' else ''tls'');
          c \<leftarrow> he_newClient he (rl_HubEndpoint cfg) [WithTransportCredentials creds, WithPerRPCCredentials,
                 WithInitialWindowSize poolStreamWindowSize, WithInitialConnWindowSize poolConnWindowSize,
                 WithChainUnaryInterceptor, WithChainStreamInterceptor];
          (case c of
             Inl err \<Rightarrow> do {
               _ \<leftarrow> listenerClose;
               return (Inl (Errorf ''failed to dial hub etcd proxy %q: %w'' [rl_HubEndpoint cfg] [err]))
             }
           | Inr upstream \<Rightarrow> return (Inr \<lparr>ry_proxy = NewProxy upstream None, ry_upstream = upstream,
               ry_listenerClose = listenerClose\<rparr>))
        })
   }"

definition RelayClose :: "'s Relay \<Rightarrow> ('s, unit) state" where
  "RelayClose r = do { _ \<leftarrow> ry_listenerClose r; cc_Close (ry_upstream r) }"

section \<open>Recovery from rejected credentials\<close>

definition authFailureThreshold :: nat where "authFailureThreshold = 5"

text \<open>\<open>recover\<close>: refresh the key if the source can, ignore its error, reset the connection's backoff.\<close>

definition authRecover :: "('s, goerr option) state option \<Rightarrow> 's ClientConn \<Rightarrow> ('s, unit) state" where
  "authRecover refresh conn = (case refresh of
       None \<Rightarrow> cc_ResetConnectBackoff conn
     | Some m \<Rightarrow> do { _ \<leftarrow> m; cc_ResetConnectBackoff conn })"

text \<open>\<open>recordResult\<close>: the new failure count, and whether recovery is triggered.\<close>

definition recordResult :: "goerr option \<Rightarrow> nat \<Rightarrow> nat \<times> bool" where
  "recordResult err failures =
     (if \<not> (case err of None \<Rightarrow> False | Some e \<Rightarrow> statusCodeIs ''Unauthenticated'' e) then (0, False)
      else let f = failures + 1; trigger = (f \<ge> authFailureThreshold) in (if trigger then 0 else f, trigger))"

fun recordAll :: "goerr option list \<Rightarrow> nat \<Rightarrow> nat \<times> nat" where
  "recordAll [] f = (f, 0)"
| "recordAll (e # es) f = (case recordResult e f of (f1, trig) \<Rightarrow>
     (case recordAll es f1 of (f2, n) \<Rightarrow> (f2, n + (if trig then 1 else 0))))"

section \<open>Following the rotated key\<close>

datatype watchType = Added | Modified | Deleted | Bookmark | ErrorEvent

record watchEvent =
  we_Type :: watchType
  we_Secret :: "Secret option"

definition getIdentityKey :: "'s crypto \<Rightarrow> 's client \<Rightarrow> string \<Rightarrow> ('s, goerr + string) state" where
  "getIdentityKey cx reader namespace = do {
     g \<leftarrow> kget (cl_Secret reader) (namespace, IdentitySecretName);
     (case g of
        Inl err \<Rightarrow> return (Inl (Errorf ''failed to fetch %q secret: %w'' [IdentitySecretName] [err]))
      | Inr secret \<Rightarrow> (case LoadPrivateKey cx (dataField secret TLSPrivateKeyKey) of
          Inl err \<Rightarrow> return (Inl (Errorf ''failed to parse %q secret: %w'' [IdentitySecretName] [err]))
        | Inr key \<Rightarrow> return (Inr key)))
   }"

text \<open>The key a source holds is its state; these are the new key and the error.\<close>

definition Refresh :: "'s crypto \<Rightarrow> 's client \<Rightarrow> string \<Rightarrow> string \<Rightarrow> ('s, string \<times> goerr option) state" where
  "Refresh cx reader namespace key = do {
     r \<leftarrow> getIdentityKey cx reader namespace;
     (case r of Inl err \<Rightarrow> return (key, Some err) | Inr k \<Rightarrow> return (k, None))
   }"

definition handleEvent :: "'s crypto \<Rightarrow> watchEvent \<Rightarrow> string \<Rightarrow> string" where
  "handleEvent cx ev key =
     (if we_Type ev \<noteq> Added \<and> we_Type ev \<noteq> Modified then key
      else (case we_Secret ev of
        None \<Rightarrow> key
      | Some secret \<Rightarrow>
          if om_Name (sec_meta secret) \<noteq> IdentitySecretName then key
          else (case LoadPrivateKey cx (dataField secret TLSPrivateKeyKey) of Inl _ \<Rightarrow> key | Inr k \<Rightarrow> k)))"

fun consume :: "'s crypto \<Rightarrow> watchEvent list \<Rightarrow> string \<Rightarrow> string" where
  "consume cx [] key = key"
| "consume cx (ev # evs) key = consume cx evs (handleEvent cx ev key)"

text \<open>\<open>WatchIdentity\<close> up to the background loop: open the watch, load the key, stop the watch on failure.\<close>

definition WatchIdentity :: "'s crypto \<Rightarrow> (string \<Rightarrow> ('s, goerr + ('s, unit) state) state) \<Rightarrow> 's client \<Rightarrow> string \<Rightarrow>
    ('s, goerr + string) state" where
  "WatchIdentity cx startWatch reader namespace = do {
     wr \<leftarrow> startWatch namespace;
     (case wr of
        Inl err \<Rightarrow> return (Inl (Errorf ''failed to watch %q secret: %w'' [IdentitySecretName] [err]))
      | Inr stop \<Rightarrow> do {
          r \<leftarrow> getIdentityKey cx reader namespace;
          (case r of
             Inl err \<Rightarrow> do { _ \<leftarrow> stop; return (Inl err) }
           | Inr key \<Rightarrow> return (Inr key))
        })
   }"

text \<open>\<open>GetRequestMetadata\<close>: a fresh token for every call, signed with the key held now.\<close>

definition GetRequestMetadata :: "'s world \<Rightarrow> jwtlib \<Rightarrow> string \<Rightarrow> string \<Rightarrow> ('s, goerr + (string \<times> string)) state" where
  "GetRequestMetadata w jl zone key = do {
     t \<leftarrow> SignToken w jl zone key;
     (case t of
        Inl err \<Rightarrow> return (Inl (Errorf ''failed to sign etcd proxy token: %w'' [] [err]))
      | Inr token \<Rightarrow> return (Inr (AuthorizationMetadataKey, BearerPrefix @ token)))
   }"

section \<open>The relay address\<close>

record URL =
  url_Scheme :: string
  url_User :: "string option"
  url_Host :: string

definition RelayScheme :: string where "RelayScheme = ''grpc''"

definition BuildRelayDSN :: "(URL \<Rightarrow> string) \<Rightarrow> string \<Rightarrow> string \<Rightarrow> string" where
  "BuildRelayDSN urlString zone hubEndpoint =
     urlString \<lparr>url_Scheme = RelayScheme, url_User = Some zone, url_Host = hubEndpoint\<rparr>"

definition ParseRelayDSN :: "(string \<Rightarrow> goerr + URL) \<Rightarrow> string \<Rightarrow> (string \<times> string) option" where
  "ParseRelayDSN urlParse dsn = (case urlParse dsn of
       Inl _ \<Rightarrow> None
     | Inr parsed \<Rightarrow>
         if url_Scheme parsed \<noteq> RelayScheme \<or> url_Host parsed = '''' then None
         else (case url_User parsed of
           None \<Rightarrow> None
         | Some u \<Rightarrow> if u = '''' then None else Some (u, url_Host parsed)))"

section \<open>Nobody passes unauthenticated\<close>

text \<open>
  The interface between the proxy and whatever authenticates its callers: a state
  predicate the authenticator keeps, and what its acceptance of a token means.
\<close>

locale authenticator =
  fixes auth :: "'s Authenticator" and ready :: "'s \<Rightarrow> bool" and trusted :: "string \<Rightarrow> string \<Rightarrow> 's \<Rightarrow> bool"
  assumes auth_ready: "ready s \<Longrightarrow> ready (state_after (auth token) s)"
    and auth_trusted: "ready s \<Longrightarrow> result_of (auth token) s = Inr z \<Longrightarrow> trusted token z s"
begin

lemma authenticate_cases:
  assumes p: "px_auth p = Some auth" and s: "ready s" and r: "run_state (authenticate p md) s = (e, t)"
  shows "ready t \<and> ((\<exists>msg. e = Some (statusError ''Unauthenticated'' msg)) \<or>
    e = None \<and> (\<exists>get v vs z. md = Some get \<and> get AuthorizationMetadataKey = v # vs \<and> hasPrefix v BearerPrefix \<and>
      trusted (trimPrefix v BearerPrefix) z s))"
proof (cases "\<exists>get v vs. md = Some get \<and> get AuthorizationMetadataKey = v # vs \<and> hasPrefix v BearerPrefix")
  case False
  with p r s show ?thesis by (auto simp: authenticate_def split: option.splits list.splits if_splits)
next
  case True
  then obtain get v vs where v: "md = Some get" "get AuthorizationMetadataKey = v # vs" "hasPrefix v BearerPrefix" by blast
  obtain a t' where a: "run_state (auth (trimPrefix v BearerPrefix)) s = (a, t')" by fastforce
  have t': "ready t'" using auth_ready [OF s, of "trimPrefix v BearerPrefix"] a by simp
  show ?thesis
  proof (cases a)
    case (Inl err)
    with p r v a t' show ?thesis by (auto simp: authenticate_def)
  next
    case (Inr z)
    then have "trusted (trimPrefix v BearerPrefix) z s" using auth_trusted [OF s] a by simp
    with p r v a Inr t' show ?thesis by (auto simp: authenticate_def)
  qed
qed

lemma unary_guarded:
  assumes p: "px_auth p = Some auth" and s: "ready s" and r: "run_state (unary msg p md call req) s = (x, t)"
  shows "(\<exists>m. x = Inl (statusError ''Unauthenticated'' m)) \<and> t = state_after (authenticate p md) s \<or>
    (\<exists>get v vs z. md = Some get \<and> get AuthorizationMetadataKey = v # vs \<and> hasPrefix v BearerPrefix \<and>
      trusted (trimPrefix v BearerPrefix) z s)"
proof -
  obtain e s1 where e: "run_state (authenticate p md) s = (e, s1)" by fastforce
  from authenticate_cases [OF p s e] r e show ?thesis by (auto simp: unary_def)
qed

end

definition verifier_ready :: "'s world \<Rightarrow> 's crypto \<Rightarrow> 's Verifier \<Rightarrow> ('s \<Rightarrow> string \<rightharpoonup> cacheEntry) \<Rightarrow>
    (string \<Rightarrow> EtcdIdentity \<Rightarrow> bool) \<Rightarrow> ('s \<Rightarrow> int) \<Rightarrow> 's \<Rightarrow> bool" where
  "verifier_ready w cx v cv cert clk s \<longleftrightarrow> verifier_world w cx v cv cert clk \<and> cache_inv cx cert (cv s)"

interpretation verifier: authenticator "Authenticate w cx jl v" "verifier_ready w cx v cv cert clk" "entitled cx jl cert clk"
  for w cx jl v cv cert clk
proof
  fix s token z
  assume "verifier_ready w cx v cv cert clk s"
  then have r: "verifier_world w cx v cv cert clk" "cache_inv cx cert (cv s)" by (simp_all add: verifier_ready_def)
  note a = Authenticate_entitled [OF r prod.collapse [symmetric], of jl token]
  show "verifier_ready w cx v cv cert clk (state_after (Authenticate w cx jl v token) s)"
    using a r(1) by (simp add: verifier_ready_def)
  show "result_of (Authenticate w cx jl v token) s = Inr z \<Longrightarrow> entitled cx jl cert clk token z s"
    using a by simp
qed

text \<open>Which upstream call a method forwards to.\<close>

fun upstreamCall :: "'s Proxy \<Rightarrow> unaryMethod \<Rightarrow> payload \<Rightarrow> ('s, goerr + payload) state" where
  "upstreamCall p MRange = kvc_Range (px_kv p)"
| "upstreamCall p MPut = kvc_Put (px_kv p)"
| "upstreamCall p MDeleteRange = kvc_DeleteRange (px_kv p)"
| "upstreamCall p MTxn = kvc_Txn (px_kv p)"
| "upstreamCall p MCompact = kvc_Compact (px_kv p)"
| "upstreamCall p MLeaseGrant = lsc_LeaseGrant (px_lease p)"
| "upstreamCall p MLeaseRevoke = lsc_LeaseRevoke (px_lease p)"
| "upstreamCall p MLeaseTimeToLive = lsc_LeaseTimeToLive (px_lease p)"
| "upstreamCall p MLeaseLeases = lsc_LeaseLeases (px_lease p)"

lemma ProxyRegister_unary: "\<exists>msg. ProxyRegister p m md req = unary msg p md (upstreamCall p m) req"
  by (cases m) (auto simp: RangeRPC_def Put_def DeleteRange_def Txn_def Compact_def LeaseGrant_def LeaseRevoke_def
      LeaseTimeToLive_def LeaseLeases_def)

text \<open>
  C4: The hub's storage is closed to strangers.  For every method of a proxy authenticated
  by the Verifier, whatever the caller sends: either the call is answered Unauthenticated
  and nothing beyond the credential check has happened, in particular the upstream was not
  called, or the caller presented a bearer token that the Verifier's evidence backs: it
  verifies under a key of a certificate stored for the zone it names, within its
  acceptance window.
\<close>

theorem hub_proxy_guarded:
  assumes "px_auth p = Some (Authenticate w cx jl v)" and "verifier_world w cx v cv cert clk"
    and "cache_inv cx cert (cv s)" and "run_state (ProxyRegister p m md req) s = (x, t)"
  shows "(\<exists>msg. x = Inl (statusError ''Unauthenticated'' msg)) \<and> t = state_after (authenticate p md) s \<or>
    (\<exists>get tok vs z. md = Some get \<and> get AuthorizationMetadataKey = tok # vs \<and> hasPrefix tok BearerPrefix \<and>
      entitled cx jl cert clk (trimPrefix tok BearerPrefix) z s)"
proof -
  obtain msg where m: "ProxyRegister p m md req = unary msg p md (upstreamCall p m) req" using ProxyRegister_unary by blast
  have "verifier_ready w cx v cv cert clk s" using assms(2,3) by (simp add: verifier_ready_def)
  from verifier.unary_guarded [OF assms(1) this, of msg md "upstreamCall p m" req x t] assms(4) m show ?thesis by simp
qed

text \<open>
  What passes is passed on untouched.  On a proxy without an authenticator (a zone's own
  relay) every method makes exactly one upstream call, with the request as it came, and
  returns the response as it came; an upstream failure is reported with the upstream's
  error, so its status code is still visible to the caller.
\<close>

theorem relay_forwards_verbatim:
  assumes "px_auth p = None"
  shows "state_after (ProxyRegister p m md req) s = state_after (upstreamCall p m req) s \<and>
    (case result_of (upstreamCall p m req) s of
       Inr resp \<Rightarrow> result_of (ProxyRegister p m md req) s = Inr resp
     | Inl err \<Rightarrow> (\<exists>e. result_of (ProxyRegister p m md req) s = Inl e \<and>
         (\<forall>code. statusCodeIs code err \<longrightarrow> statusCodeIs code e)))"
proof -
  obtain msg where m: "ProxyRegister p m md req = unary msg p md (upstreamCall p m) req" using ProxyRegister_unary by blast
  show ?thesis unfolding m using assms
    by (auto simp: unary_def authenticate_def split: sum.splits prod.splits)
qed

section \<open>Round robin\<close>

lemma shift_mod_inj:
  fixes a :: nat
  assumes "(a + x) mod l = (a + y) mod l" and "x < l" and "y < l"
  shows "x = y"
proof -
  have "u = v" if "(a + u) mod l = (a + v) mod l" "u < l" "v \<le> u" for u v
  proof -
    have "l dvd (a + u) - (a + v)" using that by (simp add: mod_eq_dvd_iff_nat)
    then have "l dvd u - v" by simp
    moreover have "u - v < l" using that(2) by simp
    ultimately show ?thesis using that(3) by (metis dvd_imp_le le_antisym not_le zero_less_diff)
  qed
  then show ?thesis using assms by (metis le_cases)
qed

text \<open>
  The interface every pool method relies on: a picker over a fixed list of members with a
  64-bit turn counter.
\<close>

locale round_robin =
  fixes pick :: "'p \<Rightarrow> (goerr + 'x) \<times> 'p" and members :: "'p \<Rightarrow> 'x list" and turn :: "'p \<Rightarrow> nat"
  assumes pick_member: "members p \<noteq> [] \<Longrightarrow> fst (pick p) = Inr (members p ! (turn p mod length (members p)))"
    and pick_members: "members (snd (pick p)) = members p"
    and pick_turn: "turn (snd (pick p)) = (turn p + 1) mod 2 ^ 64"
begin

primrec after :: "nat \<Rightarrow> 'p \<Rightarrow> 'p" where
  "after 0 p = p"
| "after (Suc n) p = snd (pick (after n p))"

lemma after_members [simp]: "members (after n p) = members p"
  by (induction n) (simp_all add: pick_members)

lemma after_turn: "turn (after n p) mod 2 ^ 64 = (turn p + n) mod 2 ^ 64"
proof (induction n)
  case (Suc n)
  have "turn (after (Suc n) p) mod 2 ^ 64 = (turn (after n p) mod 2 ^ 64 + 1) mod 2 ^ 64"
    unfolding after.simps pick_turn mod_mod_trivial by (rule mod_add_left_eq [symmetric])
  also have "\<dots> = (turn p + n + 1) mod 2 ^ 64" unfolding Suc.IH by (rule mod_add_left_eq)
  finally show ?case by (simp add: add.assoc)
qed simp

lemma picks_in_turn:
  assumes m: "members p \<noteq> []" and d: "length (members p) dvd 2 ^ 64"
  shows "fst (pick (after n p)) = Inr (members p ! ((turn p + n) mod length (members p)))"
proof -
  have "turn (after n p) mod length (members p) = turn (after n p) mod 2 ^ 64 mod length (members p)"
    using d by (simp add: mod_mod_cancel)
  also have "\<dots> = (turn p + n) mod length (members p)" unfolding after_turn using d by (simp add: mod_mod_cancel)
  finally show ?thesis using pick_member [of "after n p"] m by simp
qed

lemma window_covers:
  assumes m: "members p \<noteq> []" and d: "length (members p) dvd 2 ^ 64" and i: "i < length (members p)"
  shows "\<exists>!j. j < length (members p) \<and> (turn p + (n + j)) mod length (members p) = i"
proof -
  let ?L = "length (members p)" and ?a = "turn p + n"
  have L: "0 < ?L" using m by simp
  define j where "j = (i + (?L - ?a mod ?L)) mod ?L"
  have "(?a + j) mod ?L = (?a mod ?L + (i + (?L - ?a mod ?L))) mod ?L" unfolding j_def by (simp add: mod_simps)
  also have "?a mod ?L + (i + (?L - ?a mod ?L)) = i + ?L"
    using mod_less_divisor [OF L, of ?a] by simp
  finally have j: "(?a + j) mod ?L = i" using i by simp
  show ?thesis
  proof (rule ex1I [of _ j])
    show "j < ?L \<and> (turn p + (n + j)) mod ?L = i" using j L by (simp add: j_def add.assoc)
  next
    fix j' assume j': "j' < ?L \<and> (turn p + (n + j')) mod ?L = i"
    then have "(?a + j') mod ?L = (?a + j) mod ?L" using j by (simp add: add.assoc)
    then show "j' = j" using shift_mod_inj [of ?a j' ?L j] j' L by (simp add: j_def)
  qed
qed

end

lemma unat_of_nat_lt: "(n::nat) < 2 ^ 64 \<Longrightarrow> unat (of_nat n :: uint64) = n"
  by (simp add: unsigned_of_nat take_bit_nat_eq_self)

text \<open>The pool's length fits its counter, as any slice's does.\<close>

lemma pick_nth:
  assumes "pl_proxies p \<noteq> []" and "length (pl_proxies p) < 2 ^ 64"
  shows "fst (pick p) = Inr (pl_proxies p ! (unat (pl_next p) mod length (pl_proxies p)))"
  using assms by (simp add: pick_def Let_def unat_mod_distrib unat_of_nat_lt)

definition turnOf :: "'s Pool \<Rightarrow> nat" where "turnOf p = unat (pl_next p)"

definition smallMembers :: "'s Pool \<Rightarrow> 's Proxy list" where
  "smallMembers p = (if length (pl_proxies p) < 2 ^ 64 then pl_proxies p else [])"

interpretation pool: round_robin pick smallMembers turnOf
proof
  fix p :: "'s Pool"
  show "smallMembers p \<noteq> [] \<Longrightarrow> fst (pick p) = Inr (smallMembers p ! (turnOf p mod length (smallMembers p)))"
    using pick_nth [of p] by (auto simp: smallMembers_def turnOf_def split: if_splits)
  show "smallMembers (snd (pick p)) = smallMembers p" by (simp add: pick_def Let_def smallMembers_def)
  have "unat (pl_next p + 1) = (unat (pl_next p) + 1) mod 2 ^ 64" by (simp add: unat_word_ariths)
  then show "turnOf (snd (pick p)) = (turnOf p + 1) mod 2 ^ 64" by (simp add: pick_def Let_def turnOf_def)
qed

primrec afterPicks :: "nat \<Rightarrow> 's Pool \<Rightarrow> 's Pool" where
  "afterPicks 0 p = p"
| "afterPicks (Suc n) p = snd (pick (afterPicks n p))"

lemma pool_after: "pool.after n p = afterPicks n p"
  by (induction n) simp_all

text \<open>
  The pool spreads its calls evenly, for ever.  With the pool sizes the program uses (4
  and 8 connections; any size that divides \<open>2 ^ 64\<close>), every run of as many consecutive
  calls as there are connections uses each connection exactly once, wherever it starts
  and also across the overflow of the 64-bit counter.
\<close>

theorem pool_round_robin:
  assumes "length (pl_proxies p) \<in> {localPoolSize, zonePoolSize}" and "i < length (pl_proxies p)"
  shows "(\<forall>m. fst (pick (afterPicks m p)) = Inr (pl_proxies p ! ((unat (pl_next p) + m) mod length (pl_proxies p)))) \<and>
     (\<exists>!j. j < length (pl_proxies p) \<and> (unat (pl_next p) + (n + j)) mod length (pl_proxies p) = i)"
proof -
  have L: "length (pl_proxies p) \<in> {4, 8}" using assms(1) by (auto simp: localPoolSize_def zonePoolSize_def)
  then have d: "length (pl_proxies p) dvd 2 ^ 64" by auto
  have sm: "smallMembers p = pl_proxies p" "pl_proxies p \<noteq> []" using L by (auto simp: smallMembers_def)
  show ?thesis
    using pool.window_covers [of p i n] pool.picks_in_turn [of p] sm d assms(2)
    unfolding turnOf_def pool_after by metis
qed

section \<open>Nothing dialled is lost\<close>

text \<open>
  What is open in the world: connections, the listener, the backend.  Opening adds a fresh
  resource, closing removes it, a failed opening changes nothing.
\<close>

datatype resource = ResConn nat | ResListener | ResBackend

definition closes :: "('s \<Rightarrow> resource set) \<Rightarrow> 's ClientConn \<Rightarrow> bool" where
  "closes opened c \<longleftrightarrow> (\<forall>u. opened (state_after (cc_Close c) u) = opened u - {ResConn (cc_id c)})"

definition dial_world :: "'s newClient \<Rightarrow> ('s \<Rightarrow> resource set) \<Rightarrow> bool" where
  "dial_world nc opened \<longleftrightarrow>
     (\<forall>target opts s err t. run_state (nc target opts) s = (Inl err, t) \<longrightarrow> opened t = opened s) \<and>
     (\<forall>target opts s c t. run_state (nc target opts) s = (Inr c, t) \<longrightarrow> ResConn (cc_id c) \<notin> opened s \<and>
        opened t = insert (ResConn (cc_id c)) (opened s) \<and> closes opened c)"

lemma dial_worldD:
  assumes "dial_world nc opened"
  shows "run_state (nc target opts) s = (Inl err, t) \<Longrightarrow> opened t = opened s"
    and "run_state (nc target opts) s = (Inr c, t) \<Longrightarrow> ResConn (cc_id c) \<notin> opened s"
    and "run_state (nc target opts) s = (Inr c, t) \<Longrightarrow> opened t = insert (ResConn (cc_id c)) (opened s)"
    and "run_state (nc target opts) s = (Inr c, t) \<Longrightarrow> closes opened c"
  using assms unfolding dial_world_def by blast+

lemma closeAll_opened:
  assumes "\<forall>c\<in>set cs. closes opened c"
  shows "opened (state_after (closeAll cs) s) = opened s - (ResConn \<circ> cc_id) ` set cs"
  using assms
proof (induction cs arbitrary: s)
  case (Cons c cs)
  obtain u t where u: "run_state (cc_Close c) s = (u, t)" by (metis prod.collapse)
  have "opened t = opened s - {ResConn (cc_id c)}" using Cons.prems u unfolding closes_def by (metis list.set_intros(1) snd_conv)
  moreover have "opened (state_after (closeAll cs) t) = opened t - (ResConn \<circ> cc_id) ` set cs" using Cons by simp
  ultimately show ?case using u by auto
qed simp

lemma dialLoop_opened:
  assumes w: "dial_world nc opened" and "\<forall>c\<in>set conns. closes opened c"
    and "run_state (dialLoop nc target opts n conns) s = (r, t)"
    and "opened s = base \<union> (ResConn \<circ> cc_id) ` set conns" and "base \<inter> (ResConn \<circ> cc_id) ` set conns = {}"
  shows "(\<forall>err. r = Inl err \<longrightarrow> opened t = base) \<and>
    (\<forall>cs. r = Inr cs \<longrightarrow> length cs = length conns + n \<and> (\<forall>c\<in>set cs. closes opened c) \<and>
       opened t = base \<union> (ResConn \<circ> cc_id) ` set cs \<and> base \<inter> (ResConn \<circ> cc_id) ` set cs = {})"
  using assms(2-)
proof (induction n arbitrary: conns s)
  case 0
  then show ?case by auto
next
  case (Suc n)
  obtain x s1 where x: "run_state (nc target opts) s = (x, s1)" by fastforce
  show ?case
  proof (cases x)
    case (Inl err)
    then have "opened s1 = opened s" using dial_worldD(1) [OF w] x by blast
    then have "opened (state_after (closeAll conns) s1) = base"
      using closeAll_opened [OF Suc.prems(1), of s1] Suc.prems(3,4) by auto
    with Suc.prems(2) x Inl show ?thesis by (auto split: prod.splits)
  next
    case (Inr c)
    then have c: "ResConn (cc_id c) \<notin> opened s" "opened s1 = insert (ResConn (cc_id c)) (opened s)" "closes opened c"
      using dial_worldD(2-4) [OF w] x by blast+
    have "run_state (dialLoop nc target opts n (conns @ [c])) s1 = (r, t)" using Suc.prems(2) x Inr by simp
    from Suc.IH [OF _ this] c Suc.prems(1,3,4) show ?thesis by auto
  qed
qed

lemma DialPool_opened:
  assumes w: "dial_world nc opened" and r: "run_state (DialPool nc target sz auth opts) s = (r, t)"
  shows "\<And>err. r = Inl err \<Longrightarrow> opened t = opened s"
    and "\<And>pool cleanup. r = Inr (pool, cleanup) \<Longrightarrow> length (pl_proxies pool) = sz \<and>
      (\<exists>cs. opened t = opened s \<union> cs \<and> opened s \<inter> cs = {} \<and> range ResConn \<supseteq> cs \<and>
        (\<forall>u. opened (state_after cleanup u) = opened u - cs))"
proof -
  let ?opts = "[WithInitialWindowSize poolStreamWindowSize, WithInitialConnWindowSize poolConnWindowSize] @ opts"
  obtain x t' where x: "run_state (dialLoop nc target ?opts sz []) s = (x, t')" by fastforce
  note loop = dialLoop_opened [OF w _ x, of "opened s", simplified]
  have tt: "t' = t" using r x by (auto simp: DialPool_def split: sum.splits)
  show "opened t = opened s" if "r = Inl err" for err
    using r x that loop tt by (auto simp: DialPool_def split: sum.splits)
  show "length (pl_proxies pool) = sz \<and> (\<exists>cs. opened t = opened s \<union> cs \<and> opened s \<inter> cs = {} \<and> range ResConn \<supseteq> cs \<and>
        (\<forall>u. opened (state_after cleanup u) = opened u - cs))" if rr: "r = Inr (pool, cleanup)" for pool cleanup
  proof -
    obtain conns where c: "x = Inr conns" "pool = NewPool conns auth" "cleanup = closeAll conns"
      using r x rr by (auto simp: DialPool_def split: sum.splits)
    have "length conns = sz" "\<forall>c\<in>set conns. closes opened c" "opened t = opened s \<union> (ResConn \<circ> cc_id) ` set conns"
      "opened s \<inter> (ResConn \<circ> cc_id) ` set conns = {}" using loop c(1) tt by auto
    then show ?thesis using c closeAll_opened [of conns opened]
      by (intro conjI exI [of _ "(ResConn \<circ> cc_id) ` set conns"]) (auto simp: NewPool_def)
  qed
qed

text \<open>The host: resolving the backend and listening open one resource each, which their closers release.\<close>

definition host_world :: "'s hostenv \<Rightarrow> ('s \<Rightarrow> resource set) \<Rightarrow> bool" where
  "host_world he opened \<longleftrightarrow> dial_world (he_newClient he) opened \<and>
     (\<forall>b s err t. run_state (he_resolve he b) s = (Inl err, t) \<longrightarrow> opened t = opened s) \<and>
     (\<forall>b s h t. run_state (he_resolve he b) s = (Inr h, t) \<longrightarrow> opened t = insert ResBackend (opened s) \<and>
        hd_Endpoints h \<noteq> [] \<and> (\<forall>u x v. run_state (hd_Close h) u = (x, v) \<longrightarrow> opened v = opened u - {ResBackend})) \<and>
     (\<forall>p s x t. run_state (he_remove he p) s = (x, t) \<longrightarrow> opened t = opened s) \<and>
     (\<forall>p s err t. run_state (he_listen he p) s = (Inl err, t) \<longrightarrow> opened t = opened s) \<and>
     (\<forall>p s c t. run_state (he_listen he p) s = (Inr c, t) \<longrightarrow> opened t = insert ResListener (opened s) \<and>
        (\<forall>u x v. run_state c u = (x, v) \<longrightarrow> opened v = opened u - {ResListener}))"

lemma host_worldD:
  assumes "host_world he opened"
  shows "dial_world (he_newClient he) opened"
    and "run_state (he_resolve he b) s = (Inl err, t) \<Longrightarrow> opened t = opened s"
    and "run_state (he_resolve he b) s = (Inr h, t) \<Longrightarrow> opened t = insert ResBackend (opened s)"
    and "run_state (he_resolve he b) s = (Inr h, t) \<Longrightarrow> hd_Endpoints h \<noteq> []"
    and "run_state (he_resolve he b) s = (Inr h, t) \<Longrightarrow> run_state (hd_Close h) u = (x, v) \<Longrightarrow> opened v = opened u - {ResBackend}"
    and "run_state (he_remove he p) s = (x, t) \<Longrightarrow> opened t = opened s"
    and "run_state (he_listen he p) s = (Inl err, t) \<Longrightarrow> opened t = opened s"
    and "run_state (he_listen he p) s = (Inr c, t) \<Longrightarrow> opened t = insert ResListener (opened s)"
    and "run_state (he_listen he p) s = (Inr c, t) \<Longrightarrow> run_state c u = (x, v) \<Longrightarrow> opened v = opened u - {ResListener}"
  using assms unfolding host_world_def by metis+

lemma run_unit: "\<exists>t. run_state (m :: ('s, unit) state) s = ((), t)"
  by (metis prod.collapse unit.exhaust)

text \<open>
  A failed start leaves nothing behind.  Starting a local pool on a world in which
  neither the listener nor the backend is open either succeeds with four upstream
  connections, or releases everything it opened: backend, listener and every connection
  dialled so far, whichever step failed.
\<close>

theorem StartLocalPool_no_leak:
  assumes w: "host_world he opened" and fresh: "ResListener \<notin> opened s" "ResBackend \<notin> opened s"
    and r: "run_state (StartLocalPool he sock backend) s = (r, t)"
  shows "(case r of Inl err \<Rightarrow> opened t = opened s | Inr l \<Rightarrow> length (pl_proxies (lp_pool l)) = 4)"
proof -
  obtain h s1 where h: "run_state (he_resolve he backend) s = (h, s1)" by fastforce
  show ?thesis
  proof (cases h)
    case (Inl err)
    with r h host_worldD(2) [OF w h [unfolded Inl]] show ?thesis by (auto simp: StartLocalPool_def)
  next
    case (Inr hd)
    note h' = h [unfolded Inr]
    obtain s2 where rm: "run_state (he_remove he sock) s1 = ((), s2)" by (rule exE [OF run_unit])
    have o2: "opened s2 = insert ResBackend (opened s)" using host_worldD(3) [OF w h'] host_worldD(6) [OF w rm] by simp
    obtain l s3 where l: "run_state (he_listen he sock) s2 = (l, s3)" by fastforce
    show ?thesis
    proof (cases l)
      case (Inl err)
      obtain s4 where c: "run_state (hd_Close hd) s3 = ((), s4)" by (rule exE [OF run_unit])
      have "opened s4 = opened s"
        using host_worldD(5) [OF w h' c] host_worldD(7) [OF w l [unfolded Inl]] o2 fresh by auto
      with r h' rm l Inl c show ?thesis by (auto simp: StartLocalPool_def)
    next
      case (Inr lc)
      note l' = l [unfolded Inr]
      have o3: "opened s3 = insert ResListener (insert ResBackend (opened s))" using host_worldD(8) [OF w l'] o2 by simp
      obtain ep eps where ep: "hd_Endpoints hd = ep # eps" using host_worldD(4) [OF w h'] by (cases "hd_Endpoints hd") auto
      obtain d s4 where d: "run_state (DialPool (he_newClient he) ep localPoolSize None [WithTransportCredentials ''insecure'']) s3 = (d, s4)"
        by fastforce
      note dp = DialPool_opened [OF host_worldD(1) [OF w] d]
      show ?thesis
      proof (cases d)
        case (Inl err)
        obtain s5 where c1: "run_state lc s4 = ((), s5)" by (rule exE [OF run_unit])
        obtain s6 where c2: "run_state (hd_Close hd) s5 = ((), s6)" by (rule exE [OF run_unit])
        have "opened s6 = opened s"
          using host_worldD(9) [OF w l' c1] host_worldD(5) [OF w h' c2] dp(1) [OF Inl] o3 fresh by auto
        with r h' rm l' ep d Inl c1 c2 show ?thesis by (auto simp: StartLocalPool_def)
      next
        case (Inr pc)
        obtain pool cl where pc: "pc = (pool, cl)" by fastforce
        then have "length (pl_proxies pool) = 4" using dp(2) [of pool cl] Inr by (simp add: localPoolSize_def)
        with r h' rm l' ep d Inr pc show ?thesis by (auto simp: StartLocalPool_def)
      qed
    qed
  qed
qed

section \<open>Recovery, key rotation and streams\<close>

definition rejected :: "goerr option \<Rightarrow> bool" where
  "rejected e \<longleftrightarrow> (\<exists>err. e = Some err \<and> statusCodeIs ''Unauthenticated'' err)"

lemma recordResult_cases:
  "recordResult e f = (if \<not> rejected e then (0, False) else if f + 1 \<ge> 5 then (0, True) else (f + 1, False))"
  by (auto simp: recordResult_def rejected_def authFailureThreshold_def Let_def split: option.splits)

lemma recordAll_rejected:
  assumes "\<forall>e\<in>set es. rejected e" and "f < 5"
  shows "recordAll es f = ((f + length es) mod 5, (f + length es) div 5)"
  using assms
proof (induction es arbitrary: f)
  case (Cons e es)
  have r: "rejected e" using Cons.prems by simp
  show ?case
  proof (cases "f = 4")
    case True
    then have "recordAll es 0 = (length es mod 5, length es div 5)" using Cons.IH [of 0] Cons.prems by simp
    with True r show ?thesis by (simp add: recordResult_cases mod_add_self1 div_add_self1)
  next
    case False
    then have "recordAll es (f + 1) = ((f + 1 + length es) mod 5, (f + 1 + length es) div 5)"
      using Cons.IH [of "f + 1"] Cons.prems by simp
    with False r Cons.prems(2) show ?thesis by (simp add: recordResult_cases)
  qed
qed simp

text \<open>
  Recovery comes after every fifth rejection in a row.  From any reachable count, a run
  of \<open>n\<close> consecutive Unauthenticated answers triggers recovery exactly \<open>(f + n) div 5\<close>
  times, and a single other answer puts the count back to zero without triggering.
\<close>

theorem recovery_every_fifth:
  assumes "\<forall>e\<in>set es. rejected e" and "f < 5" and "\<not> rejected other"
  shows "recordAll es f = ((f + length es) mod 5, (f + length es) div 5) \<and> recordResult other f = (0, False)"
  using recordAll_rejected [OF assms(1,2)] assms(3) by (simp add: recordResult_cases)

text \<open>An event that carries a usable key for this zone's own identity Secret.\<close>

definition newKey :: "'s crypto \<Rightarrow> watchEvent \<Rightarrow> string option" where
  "newKey cx ev = (if we_Type ev \<in> {Added, Modified} then
     (case we_Secret ev of None \<Rightarrow> None
      | Some x \<Rightarrow> if om_Name (sec_meta x) = IdentitySecretName
          then (case LoadPrivateKey cx (dataField x TLSPrivateKeyKey) of Inl _ \<Rightarrow> None | Inr k \<Rightarrow> Some k) else None) else None)"

lemma handleEvent_newKey: "handleEvent cx ev key = (case newKey cx ev of None \<Rightarrow> key | Some k \<Rightarrow> k)"
  by (auto simp: handleEvent_def newKey_def split: option.splits sum.splits)

text \<open>
  The relay signs with the newest key it was shown.  After any sequence of watch events
  the key in use is the one of the last event that added or modified the zone's own
  identity Secret with a parseable key; deletions, other Secrets and malformed updates
  never lose or change it.
\<close>

theorem consume_latest:
  "consume cx evs key = last (key # List.map_filter (newKey cx) evs)"
  by (induction evs arbitrary: key)
    (auto simp: handleEvent_newKey List.map_filter_def split: option.splits)

lemma pump_reach_errCh:
  "pump_reach server client w s \<Longrightarrow>
     length (pu_errCh s) = (if pu_req s then 0 else 1) + (if pu_resp s then 0 else 1)"
  by (induction rule: pump_reach.induct) (auto elim!: pump_step.cases split: if_splits)

lemma firstErr_None: "firstErr es = None \<longleftrightarrow> (\<forall>e\<in>set es. e = None)"
  by (induction es) (auto simp: firstErr_def split: list.splits)

text \<open>
  A proxied stream ends only when both directions have ended.  In every interleaving of
  the two pumps, \<open>pumpBidi\<close> has a result exactly when neither pump is running any more, and
  the result is an error exactly when one of them failed.  In particular, an upstream that
  fails or closes while the caller is silent does not end the call: it stays open until
  the caller's side ends too.
\<close>

theorem pumpBidi_waits_for_both:
  assumes "pump_reach server client w s"
  shows "(pumpBidi s \<noteq> None \<longleftrightarrow> \<not> pu_req s \<and> \<not> pu_resp s) \<and>
    (\<forall>r. pumpBidi s = Some r \<longrightarrow> (r = None \<longleftrightarrow> (\<forall>e\<in>set (pu_errCh s). e = None)))"
  using pump_reach_errCh [OF assms] by (auto simp: pumpBidi_def firstErr_None split: if_splits)

text \<open>
  The relay address carries the zone and the hub:  \<open>ParseRelayDSN\<close> recovers exactly the
  zone and endpoint \<open>BuildRelayDSN\<close> was given, provided the URL library reads back what it
  prints and neither is empty, and it accepts no address with another scheme.
\<close>

lemma RelayDSN_roundtrip:
  assumes "\<And>u. urlParse (urlString u) = Inr u" and "zone \<noteq> ''''" and "hub \<noteq> ''''"
  shows "ParseRelayDSN urlParse (BuildRelayDSN urlString zone hub) = Some (zone, hub) \<and>
    (\<forall>dsn u. urlParse dsn = Inr u \<and> url_Scheme u \<noteq> ''grpc'' \<longrightarrow> ParseRelayDSN urlParse dsn = None)"
  using assms by (auto simp: ParseRelayDSN_def BuildRelayDSN_def RelayScheme_def)

section \<open>Concrete connections\<close>

text \<open>A connection that echoes, on a world that lists what is open; used by the witnesses.\<close>

definition echo_kv :: "'s KVClient" where
  "echo_kv = (let e = (\<lambda>x. return (Inr x)) in \<lparr>kvc_Range = e, kvc_Put = e, kvc_DeleteRange = e, kvc_Txn = e, kvc_Compact = e\<rparr>)"

definition echo_lease :: "'s LeaseClient" where
  "echo_lease = (let e = (\<lambda>x. return (Inr x)) in \<lparr>lsc_LeaseGrant = e, lsc_LeaseRevoke = e, lsc_LeaseTimeToLive = e,
     lsc_LeaseLeases = e, lsc_LeaseKeepAlive = return (Inl unavailable)\<rparr>)"

definition echo_conn :: "nat \<Rightarrow> ('s, unit) state \<Rightarrow> 's ClientConn" where
  "echo_conn i cl = \<lparr>cc_id = i, cc_kv = echo_kv, cc_lease = echo_lease, cc_watch = return (Inl unavailable),
     cc_Close = cl, cc_ResetConnectBackoff = return ()\<rparr>"

fun residx :: "resource \<Rightarrow> nat" where
  "residx (ResConn n) = n" | "residx ResListener = 0" | "residx ResBackend = 0"

definition release_res :: "resource \<Rightarrow> (resource list, unit) state" where
  "release_res x = State (\<lambda>s. ((), filter (\<lambda>y. y \<noteq> x) s))"

definition demo_host :: "resource list hostenv" where
  "demo_host = \<lparr>he_resolve = (\<lambda>_. State (\<lambda>s. (Inr \<lparr>hd_Endpoints = [''unix:kine''], hd_Close = release_res ResBackend\<rparr>, ResBackend # s))),
     he_remove = (\<lambda>_. return ()),
     he_listen = (\<lambda>_. State (\<lambda>s. (Inr (release_res ResListener), ResListener # s))),
     he_newClient = (\<lambda>_ _. State (\<lambda>s. let i = Suc (sum_list (map residx s)) in
        if length s > 4 then (Inl unavailable, s) else (Inr (echo_conn i (release_res (ResConn i))), ResConn i # s)))\<rparr>"

lemma residx_le: "ResConn n \<in> set s \<Longrightarrow> n \<le> sum_list (map residx s)"
  by (induction s) auto

lemma demo_host_world: "host_world demo_host set"
proof -
  have "ResConn (Suc (sum_list (map residx s))) \<notin> set s" for s using residx_le by fastforce
  then show ?thesis
    by (auto simp: host_world_def dial_world_def demo_host_def closes_def release_res_def echo_conn_def Let_def split: if_splits)
qed

theorem StartLocalPool_no_leak_witness:
  "\<exists>err t. run_state (StartLocalPool demo_host ''sock'' ''sqlite://'') [] = (Inl err, t) \<and> set t = {}"
proof -
  obtain err t where r: "run_state (StartLocalPool demo_host ''sock'' ''sqlite://'') [] = (Inl err, t)"
    by (simp add: StartLocalPool_def demo_host_def DialPool_def localPoolSize_def eval_nat_numeral Let_def release_res_def echo_conn_def)
  with StartLocalPool_no_leak [OF demo_host_world _ _ r] show ?thesis by auto
qed

theorem hub_proxy_guarded_witness:
  "\<exists>msg. result_of (ProxyRegister (NewProxy (echo_conn 1 (return ()))
       (Some (Authenticate (still_world 0) demo_crypto demo_jwt demo_verifier))) MPut None ''x'') Map.empty =
     Inl (statusError ''Unauthenticated'' msg)"
proof -
  let ?p = "NewProxy (echo_conn 1 (return ())) (Some (Authenticate (still_world 0) demo_crypto demo_jwt demo_verifier))"
  have a: "px_auth ?p = Some (Authenticate (still_world 0) demo_crypto demo_jwt demo_verifier)" by (simp add: NewProxy_def)
  have c: "cache_inv demo_crypto (\<lambda>_ i. i \<in> {ip_Current demo_pair, ip_Previous demo_pair}) Map.empty" by (simp add: cache_inv_def)
  from hub_proxy_guarded [OF a demo_verifier_world c prod.collapse [symmetric], of MPut None "''x''"] show ?thesis by auto
qed

theorem relay_forwards_verbatim_witness:
  "result_of (ProxyRegister (NewProxy (echo_conn 1 (return ())) None) MTxn None ''req'') () = Inr ''req''"
  using relay_forwards_verbatim [of "NewProxy (echo_conn 1 (return ())) None" MTxn None "''req''" "()"]
  by (simp add: NewProxy_def echo_conn_def echo_kv_def Let_def)

theorem pool_round_robin_witness:
  "fst (pick (afterPicks 5 (NewPool (map (\<lambda>i. echo_conn i (return ())) [0..<4]) None))) =
     Inr (NewProxy (echo_conn 1 (return ())) (None :: unit Authenticator option))"
proof -
  let ?p = "NewPool (map (\<lambda>i. echo_conn i (return ())) [0..<4]) (None :: unit Authenticator option)"
  have L: "length (pl_proxies ?p) = 4" by (simp add: NewPool_def)
  have "pl_proxies ?p ! 1 = NewProxy (echo_conn 1 (return ())) None" by (simp add: NewPool_def)
  moreover have "pl_next ?p = 0" by (simp add: NewPool_def)
  ultimately show ?thesis
    using pool_round_robin [of ?p 0 0] L by (simp add: localPoolSize_def)
qed

theorem recovery_every_fifth_witness:
  "recordAll (replicate 12 (Some (statusError ''Unauthenticated'' ''''))) 0 = (2, 2)"
  using recovery_every_fifth [of "replicate 12 (Some (statusError ''Unauthenticated'' ''''))" 0 None]
  by (simp add: rejected_def statusError_def)

theorem pumpBidi_waits_for_both_witness:
  "pumpBidi \<lparr>pu_world = (), pu_req = True, pu_resp = False, pu_errCh = [Some unavailable]\<rparr> = None"
proof -
  let ?srv = "\<lparr>ss_Send = (\<lambda>_. return None), ss_Recv = return (Inr ''req'')\<rparr> :: unit serverStream"
  let ?cl = "\<lparr>cs_Send = (\<lambda>_. return None), cs_Recv = return (Inl unavailable), cs_CloseSend = return None\<rparr> :: unit clientStream"
  let ?s0 = "\<lparr>pu_world = (), pu_req = True, pu_resp = True, pu_errCh = []\<rparr> :: unit pumpst"
  have "run_state (pumpResponses ?srv ?cl) (pu_world ?s0) = (Some (Some unavailable), ())"
    by (simp add: pumpResponses_def unavailable_def)
  from resp_done [OF _ this] have "pump_step ?srv ?cl ?s0
      \<lparr>pu_world = (), pu_req = True, pu_resp = False, pu_errCh = [Some unavailable]\<rparr>" by simp
  from pump_next [OF pump_start this]
  have "pump_reach ?srv ?cl () \<lparr>pu_world = (), pu_req = True, pu_resp = False, pu_errCh = [Some unavailable]\<rparr>" .
  from pumpBidi_waits_for_both [OF this] show ?thesis by auto
qed

end
