(* ===== verification/Kms.thy ===== *)
theory Kms
  imports EtcdProxy
begin

text \<open>
  \<open>pkg/domain/kms/server.go\<close>: the key service that seals and unseals disk passphrases with
  one AES-256-GCM key per node, generated on first use and kept in memory.  The server's
  memory is the map \<open>ks_keys\<close>; AES-GCM and the random source are parameters (\<open>kmscrypto\<close>).
  A mutex makes \<open>keyFor\<close> one step.
\<close>

section \<open>The server\<close>

definition aesKeySize :: nat where "aesKeySize = 32"

definition ErrInvalidPassphraseSize :: string where
  "ErrInvalidPassphraseSize = ''data must be exactly the passphrase size''"

definition ErrSealedDataTooShort :: string where
  "ErrSealedDataTooShort = ''sealed data is shorter than the nonce''"

definition ErrAuthenticationFailed :: string where
  "ErrAuthenticationFailed = ''failed to authenticate sealed data''"

record AEAD =
  ae_NonceSize :: nat
  ae_Seal :: "string \<Rightarrow> string \<Rightarrow> string"
  ae_Open :: "string \<Rightarrow> string \<Rightarrow> goerr + string"

record 's kmscrypto =
  kc_read :: "nat \<Rightarrow> ('s, goerr + string) state"
  kc_NewCipher :: "string \<Rightarrow> goerr option"
  kc_newGCM :: "string \<Rightarrow> goerr + AEAD"
  kc_PassphraseSize :: nat

record 's kmsst =
  ks_keys :: "string \<rightharpoonup> string"
  ks_world :: 's

definition kcall :: "('s, 'a) state \<Rightarrow> ('s kmsst, 'a) state" where
  "kcall m = State (\<lambda>k. case run_state m (ks_world k) of (a, w) \<Rightarrow> (a, k\<lparr>ks_world := w\<rparr>))"

definition NewKms :: "'s \<Rightarrow> 's kmsst" where
  "NewKms w = \<lparr>ks_keys = Map.empty, ks_world = w\<rparr>"

definition lookupKey :: "string \<Rightarrow> ('s kmsst, string option) state" where
  "lookupKey nodeUUID = State (\<lambda>k. (ks_keys k nodeUUID, k))"

definition storeKey :: "string \<Rightarrow> string \<Rightarrow> ('s kmsst, unit) state" where
  "storeKey nodeUUID key = State (\<lambda>k. ((), k\<lparr>ks_keys := (ks_keys k)(nodeUUID \<mapsto> key)\<rparr>))"

definition keyFor :: "'s kmscrypto \<Rightarrow> string \<Rightarrow> ('s kmsst, goerr + string) state" where
  "keyFor kc nodeUUID = do {
     l \<leftarrow> lookupKey nodeUUID;
     (case l of
        Some key \<Rightarrow> return (Inr key)
      | None \<Rightarrow> do {
          r \<leftarrow> kcall (kc_read kc aesKeySize);
          (case r of
             Inl err \<Rightarrow> return (Inl (Errorf ''failed to generate key for node %q: %w'' [nodeUUID] [err]))
           | Inr key \<Rightarrow> do { _ \<leftarrow> storeKey nodeUUID key; return (Inr key) })
        })
   }"

definition cipherFor :: "'s kmscrypto \<Rightarrow> string \<Rightarrow> ('s kmsst, goerr + AEAD) state" where
  "cipherFor kc nodeUUID = do {
     k \<leftarrow> keyFor kc nodeUUID;
     (case k of
        Inl err \<Rightarrow> return (Inl err)
      | Inr key \<Rightarrow> (case kc_NewCipher kc key of
          Some err \<Rightarrow> return (Inl (Errorf ''failed to create AES cipher: %w'' [] [err]))
        | None \<Rightarrow> (case kc_newGCM kc key of
            Inl err \<Rightarrow> return (Inl (Errorf ''failed to create AES-GCM: %w'' [] [err]))
          | Inr aesgcm \<Rightarrow> return (Inr aesgcm))))
   }"

record KmsRequest =
  rq_NodeUuid :: string
  rq_Data :: string

definition Seal :: "'s kmscrypto \<Rightarrow> KmsRequest \<Rightarrow> ('s kmsst, goerr + string) state" where
  "Seal kc req =
     (if length (rq_Data req) \<noteq> kc_PassphraseSize kc
      then return (Inl (statusError ''InvalidArgument'' (ErrInvalidPassphraseSize @ '': got '' @
             itoa (int (length (rq_Data req))) @ '' bytes, want '' @ itoa (int (kc_PassphraseSize kc)))))
      else do {
        c \<leftarrow> cipherFor kc (rq_NodeUuid req);
        (case c of
           Inl err \<Rightarrow> return (Inl err)
         | Inr aesgcm \<Rightarrow> do {
             n \<leftarrow> kcall (kc_read kc (ae_NonceSize aesgcm));
             (case n of
                Inl err \<Rightarrow> return (Inl (Errorf ''failed to generate nonce: %w'' [] [err]))
              | Inr nonce \<Rightarrow> return (Inr (nonce @ ae_Seal aesgcm nonce (rq_Data req))))
           })
      })"

definition Unseal :: "'s kmscrypto \<Rightarrow> (goerr \<Rightarrow> string) \<Rightarrow> KmsRequest \<Rightarrow> ('s kmsst, goerr + string) state" where
  "Unseal kc errorText req = do {
     c \<leftarrow> cipherFor kc (rq_NodeUuid req);
     (case c of
        Inl err \<Rightarrow> return (Inl err)
      | Inr aesgcm \<Rightarrow>
          if length (rq_Data req) < ae_NonceSize aesgcm
          then return (Inl (statusError ''InvalidArgument'' ErrSealedDataTooShort))
          else (case ae_Open aesgcm (take (ae_NonceSize aesgcm) (rq_Data req)) (drop (ae_NonceSize aesgcm) (rq_Data req)) of
            Inl err \<Rightarrow> return (Inl (statusError ''InvalidArgument'' (ErrAuthenticationFailed @ '': '' @ errorText err)))
          | Inr data \<Rightarrow> return (Inr data)))
   }"

section \<open>Listening\<close>

text \<open>The process waits for whichever comes first: the end of its context or the return of the gRPC
  server, which runs in a goroutine of its own.\<close>

datatype kmsEnd = ContextDone | ServeReturned "goerr option"

record ('s, 'l) kmshost =
  kh_Listen :: "string \<Rightarrow> ('s, goerr + 'l) state"
  kh_ServeUntil :: "'l \<Rightarrow> ('s, kmsEnd) state"
  kh_GracefulStop :: "('s, unit) state"

definition kmsServe :: "('s, 'l) kmshost \<Rightarrow> 'l \<Rightarrow> ('s, goerr option) state" where
  "kmsServe kh listener = do {
     ev \<leftarrow> kh_ServeUntil kh listener;
     (case ev of
        ContextDone \<Rightarrow> do { _ \<leftarrow> kh_GracefulStop kh; return None }
      | ServeReturned (Some err) \<Rightarrow> return (Some (Errorf ''kms grpc server exited: %w'' [] [err]))
      | ServeReturned None \<Rightarrow> return None)
   }"

definition kmsStart :: "('s, 'l) kmshost \<Rightarrow> string \<Rightarrow> ('s, goerr option) state" where
  "kmsStart kh addr = do {
     l \<leftarrow> kh_Listen kh addr;
     (case l of
        Inl err \<Rightarrow> return (Some (Errorf ''failed to listen on %q: %w'' [addr] [err]))
      | Inr listener \<Rightarrow> kmsServe kh listener)
   }"

text \<open>A server that listens and is told to stop has stopped gracefully and reports no error.\<close>

lemma kmsStart_stops:
  assumes "run_state (kh_Listen kh addr) s = (Inr l, s1)" and "run_state (kh_ServeUntil kh l) s1 = (ContextDone, s2)"
  shows "run_state (kmsStart kh addr) s = (None, state_after (kh_GracefulStop kh) s2)"
  using assms by (simp add: kmsStart_def kmsServe_def split: prod.splits)

section \<open>Keys are kept\<close>

lemma run_kms [simp]:
  "run_state (kcall m) k = (case run_state m (ks_world k) of (a, w) \<Rightarrow> (a, k\<lparr>ks_world := w\<rparr>))"
  "run_state (lookupKey u) k = (ks_keys k u, k)"
  "run_state (storeKey u x) k = ((), k\<lparr>ks_keys := (ks_keys k)(u \<mapsto> x)\<rparr>)"
  by (simp_all add: kcall_def lookupKey_def storeKey_def)

text \<open>
  The interface of the key store its two clients rely on: a key that was handed out is
  stored, and a stored key is never replaced.
\<close>

locale key_store =
  fixes getKey :: "string \<Rightarrow> ('k, goerr + string) state" and keys :: "'k \<Rightarrow> string \<rightharpoonup> string"
  assumes get_stored: "run_state (getKey u) k = (Inr x, k') \<Longrightarrow> keys k' u = Some x"
    and get_keeps: "run_state (getKey u) k = (r, k') \<Longrightarrow> keys k \<subseteq>\<^sub>m keys k'"
    and get_again: "keys k u = Some x \<Longrightarrow> run_state (getKey u) k = (Inr x, k)"
begin

lemma same_key_later:
  assumes "run_state (getKey u) k = (Inr x, k1)" and "keys k1 \<subseteq>\<^sub>m keys k2"
  shows "run_state (getKey u) k2 = (Inr x, k2)"
proof -
  have "keys k2 u = Some x" using get_stored [OF assms(1)] assms(2) unfolding map_le_def by (metis domI)
  then show ?thesis by (rule get_again)
qed

end

interpretation kms: key_store "keyFor kc" ks_keys for kc
proof
  fix u k x k' r
  show "run_state (keyFor kc u) k = (Inr x, k') \<Longrightarrow> ks_keys k' u = Some x"
    by (auto simp: keyFor_def split: option.splits sum.splits prod.splits)
  show "run_state (keyFor kc u) k = (r, k') \<Longrightarrow> ks_keys k \<subseteq>\<^sub>m ks_keys k'"
    by (auto simp: keyFor_def map_le_def split: option.splits sum.splits prod.splits)
  show "ks_keys k u = Some x \<Longrightarrow> run_state (keyFor kc u) k = (Inr x, k)"
    by (simp add: keyFor_def)
qed

lemma cipherFor_run:
  assumes "run_state (cipherFor kc u) k = (r, k')"
  shows "ks_keys k \<subseteq>\<^sub>m ks_keys k'"
    and "r = Inr a \<Longrightarrow> \<exists>x. run_state (keyFor kc u) k = (Inr x, k') \<and> kc_NewCipher kc x = None \<and> kc_newGCM kc x = Inr a"
proof -
  obtain y k1 where y: "run_state (keyFor kc u) k = (y, k1)" by fastforce
  have "k1 = k'" using assms y by (auto simp: cipherFor_def split: sum.splits option.splits)
  then show "ks_keys k \<subseteq>\<^sub>m ks_keys k'" using kms.get_keeps [OF y] by simp
  show "r = Inr a \<Longrightarrow> \<exists>x. run_state (keyFor kc u) k = (Inr x, k') \<and> kc_NewCipher kc x = None \<and> kc_newGCM kc x = Inr a"
    using assms y by (auto simp: cipherFor_def split: sum.splits option.splits)
qed

lemma cipherFor_later:
  assumes "run_state (cipherFor kc u) k = (Inr a, k1)" and "ks_keys k1 \<subseteq>\<^sub>m ks_keys k2"
  shows "run_state (cipherFor kc u) k2 = (Inr a, k2)"
proof -
  obtain x where x: "run_state (keyFor kc u) k = (Inr x, k1)" "kc_NewCipher kc x = None" "kc_newGCM kc x = Inr a"
    using cipherFor_run(2) [OF assms(1) refl] by blast
  show ?thesis using kms.same_key_later [OF x(1) assms(2)] x(2,3) by (simp add: cipherFor_def)
qed

text \<open>The server's life after a call: any sequence of calls, with any results.\<close>

inductive kms_steps :: "'s kmscrypto \<Rightarrow> (goerr \<Rightarrow> string) \<Rightarrow> 's kmsst \<Rightarrow> 's kmsst \<Rightarrow> bool" for kc et where
  kms_refl: "kms_steps kc et k k"
| kms_seal: "kms_steps kc et k k1 \<Longrightarrow> kms_steps kc et k (state_after (Seal kc req) k1)"
| kms_unseal: "kms_steps kc et k k1 \<Longrightarrow> kms_steps kc et k (state_after (Unseal kc et req) k1)"

lemma Seal_keeps: "ks_keys k \<subseteq>\<^sub>m ks_keys (state_after (Seal kc req) k)"
proof -
  obtain c k1 where c: "run_state (cipherFor kc (rq_NodeUuid req)) k = (c, k1)" by fastforce
  from cipherFor_run(1) [OF c] c show ?thesis
    by (auto simp: Seal_def split: sum.splits prod.splits)
qed

lemma Unseal_keeps: "ks_keys k \<subseteq>\<^sub>m ks_keys (state_after (Unseal kc et req) k)"
proof -
  obtain c k1 where c: "run_state (cipherFor kc (rq_NodeUuid req)) k = (c, k1)" by fastforce
  from cipherFor_run(1) [OF c] c show ?thesis
    by (auto simp: Unseal_def split: sum.splits prod.splits)
qed

lemma kms_steps_keep: "kms_steps kc et k k' \<Longrightarrow> ks_keys k \<subseteq>\<^sub>m ks_keys k'"
  by (induction rule: kms_steps.induct) (auto intro: map_le_trans Seal_keeps Unseal_keeps)

section \<open>A sealed passphrase can be opened\<close>

definition aead_ok :: "'s kmscrypto \<Rightarrow> bool" where
  "aead_ok kc \<longleftrightarrow> (\<forall>key a nonce data. kc_newGCM kc key = Inr a \<longrightarrow> ae_Open a nonce (ae_Seal a nonce data) = Inr data) \<and>
     (\<forall>n s b t. run_state (kc_read kc n) s = (Inr b, t) \<longrightarrow> length b = n)"

text \<open>
  What the key service seals it can unseal.  After any further sequence of seal and
  unseal calls, for this and for other nodes and whatever their outcomes, unsealing the
  sealed data for the same node gives the passphrase back.
\<close>

theorem Seal_Unseal:
  assumes ok: "aead_ok kc" and s: "run_state (Seal kc \<lparr>rq_NodeUuid = u, rq_Data = d\<rparr>) k = (Inr sealed, k1)"
    and st: "kms_steps kc et k1 k2"
  shows "result_of (Unseal kc et \<lparr>rq_NodeUuid = u, rq_Data = sealed\<rparr>) k2 = Inr d"
proof -
  obtain a k' where c: "run_state (cipherFor kc u) k = (Inr a, k')"
    using s by (auto simp: Seal_def split: if_splits sum.splits prod.splits)
  obtain x where x: "kc_newGCM kc x = Inr a" using cipherFor_run(2) [OF c refl] by blast
  obtain nonce w where n: "run_state (kc_read kc (ae_NonceSize a)) (ks_world k') = (Inr nonce, w)"
      and k1: "k1 = k'\<lparr>ks_world := w\<rparr>" "sealed = nonce @ ae_Seal a nonce d"
    using s c by (auto simp: Seal_def split: if_splits sum.splits prod.splits)
  have "ks_keys k' \<subseteq>\<^sub>m ks_keys k2" using kms_steps_keep [OF st] k1(1) by simp
  from cipherFor_later [OF c this] have "run_state (cipherFor kc u) k2 = (Inr a, k2)" .
  moreover have "length nonce = ae_NonceSize a" "ae_Open a nonce (ae_Seal a nonce d) = Inr d"
    using ok n x unfolding aead_ok_def by blast+
  ultimately show ?thesis using k1(2) by (simp add: Unseal_def)
qed

definition demo_kms :: "unit kmscrypto" where
  "demo_kms = \<lparr>kc_read = (\<lambda>n. return (Inr (replicate n (CHR ''k'')))),
     kc_NewCipher = (\<lambda>key. None), kc_newGCM = (\<lambda>key. Inr \<lparr>ae_NonceSize = 2, ae_Seal = (\<lambda>_ d. rev d), ae_Open = (\<lambda>_ d. Inr (rev d))\<rparr>), kc_PassphraseSize = 3\<rparr>"

theorem Seal_Unseal_witness:
  "result_of (Unseal demo_kms (\<lambda>_. '''') \<lparr>rq_NodeUuid = ''n1'', rq_Data = ''kkcba''\<rparr>)
     (state_after (Seal demo_kms \<lparr>rq_NodeUuid = ''n2'', rq_Data = ''xyz''\<rparr>)
       (state_after (Seal demo_kms \<lparr>rq_NodeUuid = ''n1'', rq_Data = ''abc''\<rparr>) (NewKms ()))) = Inr ''abc''"
proof (rule Seal_Unseal [where k = "NewKms ()"])
  show "aead_ok demo_kms" by (auto simp: aead_ok_def demo_kms_def)
  show "run_state (Seal demo_kms \<lparr>rq_NodeUuid = ''n1'', rq_Data = ''abc''\<rparr>) (NewKms ()) =
      (Inr ''kkcba'', state_after (Seal demo_kms \<lparr>rq_NodeUuid = ''n1'', rq_Data = ''abc''\<rparr>) (NewKms ()))"
    by (simp add: Seal_def demo_kms_def cipherFor_def keyFor_def NewKms_def aesKeySize_def numeral_2_eq_2)
qed (rule kms_seal [OF kms_refl])

end
