(* ===== verification/Config.thy ===== *)
theory Config
  imports Api
begin

text \<open>
  The configuration of a process, \<open>pkg/config\<close>.  The Go code walks the configuration
  struct by reflection; here \<open>reflectConfig\<close> is the struct as \<open>reflect\<close> shows it (field
  names in order, the \<open>default\<close> and \<open>secret\<close> tags, and the value) and
  \<open>unreflectConfig\<close> reads the struct back, so that the walk, the derivation of the
  variable names, loading and listing are the functions of the source.  The process
  environment is a function from names to values that is empty where nothing is set
  (\<open>os.Getenv\<close>); the URL library is a parameter of the redaction.
\<close>

section \<open>Reflection\<close>

record StructTag =
  tag_default :: string
  tag_secret :: string

datatype rvalue = RString string | RBool bool | RStruct "rfield list"
and rfield = RField (rf_Name: string) (rf_Tag: StructTag) (rf_Value: rvalue)

abbreviation leaf :: "string \<Rightarrow> string \<Rightarrow> string \<Rightarrow> rfield" where
  "leaf n d v \<equiv> RField n \<lparr>tag_default = d, tag_secret = ''''\<rparr> (RString v)"

abbreviation secretLeaf :: "string \<Rightarrow> string \<Rightarrow> string \<Rightarrow> rfield" where
  "secretLeaf n d v \<equiv> RField n \<lparr>tag_default = d, tag_secret = ''true''\<rparr> (RString v)"

abbreviation group :: "string \<Rightarrow> rfield list \<Rightarrow> rfield" where
  "group n fs \<equiv> RField n \<lparr>tag_default = '''', tag_secret = ''''\<rparr> (RStruct fs)"

type_synonym KConfig = KontinuumConfigStatus

definition reflectServer :: "KontinuumServerConfigStatus \<Rightarrow> rfield list" where
  "reflectServer s =
     [leaf ''Addr'' '':8080'' (ksrv_Addr s),
      secretLeaf ''Storage'' ''sqlite://kontinuum.db'' (ksrv_Storage s),
      leaf ''Region'' '''' (ksrv_Region s),
      leaf ''Zone'' '''' (ksrv_Zone s),
      group ''DNS''
        [leaf ''Domain'' '''' (kdns_Domain (ksrv_DNS s)),
         leaf ''Provider'' '''' (kdns_Provider (ksrv_DNS s)),
         secretLeaf ''Credential'' '''' (kdns_Credential (ksrv_DNS s))],
      group ''GRPC''
        [leaf ''Endpoint'' '''' (kgrpc_Endpoint (ksrv_GRPC s)),
         leaf ''InsecureTLSSkipVerify'' ''false'' (kgrpc_InsecureTLSSkipVerify (ksrv_GRPC s))]]"

definition reflectConfig :: "KConfig \<Rightarrow> rfield list" where
  "reflectConfig c =
     [group ''Server'' (reflectServer (kcfg_Server c)),
      group ''Log'' [leaf ''Level'' ''warn'' (klog_Level (kcfg_Log c)),
                     leaf ''Format'' ''json'' (klog_Format (kcfg_Log c))],
      group ''OIDC''
        [RField ''Enabled'' \<lparr>tag_default = '''', tag_secret = ''''\<rparr> (RBool (koidc_Enabled (kcfg_OIDC c))),
         leaf ''IssuerURL'' '''' (koidc_IssuerURL (kcfg_OIDC c)),
         leaf ''ClientID'' ''kontinuum'' (koidc_ClientID (kcfg_OIDC c)),
         leaf ''RedirectURL'' ''http://localhost:8080/app'' (koidc_RedirectURL (kcfg_OIDC c)),
         leaf ''AdminGroups'' '''' (koidc_AdminGroups (kcfg_OIDC c))],
      leaf ''InsecureAllowAnonymous'' ''false'' (kcfg_InsecureAllowAnonymous c),
      group ''ACME''
        [leaf ''Email'' '''' (kacme_Email (kcfg_ACME c)),
         leaf ''Server'' ''https://acme-v02.api.letsencrypt.org/directory'' (kacme_Server (kcfg_ACME c)),
         leaf ''InsecureSkipVerify'' ''false'' (kacme_InsecureSkipVerify (kcfg_ACME c))]]"

text \<open>Reading a field of a struct by its name; the struct always has it.\<close>

definition fieldAt :: "string \<Rightarrow> rfield list \<Rightarrow> rvalue" where
  "fieldAt n fs = (case find (\<lambda>f. rf_Name f = n) fs of None \<Rightarrow> RStruct [] | Some f \<Rightarrow> rf_Value f)"

fun strOf :: "rvalue \<Rightarrow> string" where
  "strOf (RString s) = s"
| "strOf _ = ''''"

fun boolOf :: "rvalue \<Rightarrow> bool" where
  "boolOf (RBool b) = b"
| "boolOf _ = False"

fun fieldsOf :: "rvalue \<Rightarrow> rfield list" where
  "fieldsOf (RStruct fs) = fs"
| "fieldsOf _ = []"

abbreviation strAt :: "string \<Rightarrow> rfield list \<Rightarrow> string" where
  "strAt n fs \<equiv> strOf (fieldAt n fs)"

abbreviation groupAt :: "string \<Rightarrow> rfield list \<Rightarrow> rfield list" where
  "groupAt n fs \<equiv> fieldsOf (fieldAt n fs)"

definition unreflectServer :: "rfield list \<Rightarrow> KontinuumServerConfigStatus" where
  "unreflectServer s =
     \<lparr>ksrv_Addr = strAt ''Addr'' s, ksrv_Storage = strAt ''Storage'' s, ksrv_Region = strAt ''Region'' s,
      ksrv_Zone = strAt ''Zone'' s,
      ksrv_DNS = \<lparr>kdns_Domain = strAt ''Domain'' (groupAt ''DNS'' s),
        kdns_Provider = strAt ''Provider'' (groupAt ''DNS'' s),
        kdns_Credential = strAt ''Credential'' (groupAt ''DNS'' s)\<rparr>,
      ksrv_GRPC = \<lparr>kgrpc_Endpoint = strAt ''Endpoint'' (groupAt ''GRPC'' s),
        kgrpc_InsecureTLSSkipVerify = strAt ''InsecureTLSSkipVerify'' (groupAt ''GRPC'' s)\<rparr>\<rparr>"

definition unreflectConfig :: "rfield list \<Rightarrow> KConfig" where
  "unreflectConfig c =
     \<lparr>kcfg_Server = unreflectServer (groupAt ''Server'' c),
      kcfg_Log = \<lparr>klog_Level = strAt ''Level'' (groupAt ''Log'' c), klog_Format = strAt ''Format'' (groupAt ''Log'' c)\<rparr>,
      kcfg_OIDC = \<lparr>koidc_Enabled = boolOf (fieldAt ''Enabled'' (groupAt ''OIDC'' c)),
        koidc_IssuerURL = strAt ''IssuerURL'' (groupAt ''OIDC'' c), koidc_ClientID = strAt ''ClientID'' (groupAt ''OIDC'' c),
        koidc_RedirectURL = strAt ''RedirectURL'' (groupAt ''OIDC'' c),
        koidc_AdminGroups = strAt ''AdminGroups'' (groupAt ''OIDC'' c)\<rparr>,
      kcfg_InsecureAllowAnonymous = strAt ''InsecureAllowAnonymous'' c,
      kcfg_ACME = \<lparr>kacme_Email = strAt ''Email'' (groupAt ''ACME'' c), kacme_Server = strAt ''Server'' (groupAt ''ACME'' c),
        kacme_InsecureSkipVerify = strAt ''InsecureSkipVerify'' (groupAt ''ACME'' c)\<rparr>\<rparr>"

lemma unreflect_reflect: "unreflectConfig (reflectConfig c) = c"
  by (simp add: unreflectConfig_def unreflectServer_def reflectConfig_def reflectServer_def fieldAt_def)

section \<open>Names\<close>

definition envPrefix :: string where "envPrefix = ''KONTINUUM_''"

definition isUpper :: "char \<Rightarrow> bool" where "isUpper c \<longleftrightarrow> CHR ''A'' \<le> c \<and> c \<le> CHR ''Z''"

definition isLower :: "char \<Rightarrow> bool" where "isLower c \<longleftrightarrow> CHR ''a'' \<le> c \<and> c \<le> CHR ''z''"

definition toUpper :: "char \<Rightarrow> char" where
  "toUpper c = (if isLower c then char_of (of_char c - 32 :: nat) else c)"

definition isWordBoundary :: "string \<Rightarrow> nat \<Rightarrow> bool" where
  "isWordBoundary runes index =
     (if isLower (runes ! (index - 1)) then True
      else isUpper (runes ! (index - 1)) \<and> index + 1 < length runes \<and> isLower (runes ! (index + 1)))"

definition toSnakeUpper :: "string \<Rightarrow> string" where
  "toSnakeUpper source = concat (map (\<lambda>index.
     (if index > 0 \<and> isUpper (source ! index) \<and> isWordBoundary source index then ''_'' else '''') @
     [toUpper (source ! index)]) [0..<length source])"

fun join :: "string \<Rightarrow> string list \<Rightarrow> string" where
  "join sep [] = ''''"
| "join sep [x] = x"
| "join sep (x # y # zs) = x @ sep @ join sep (y # zs)"

definition envName :: "string list \<Rightarrow> string" where
  "envName path = envPrefix @ join ''_'' (map toSnakeUpper path)"

section \<open>The walk\<close>

text \<open>
  \<open>walkStringFields\<close> visits every string leaf in order, depth first, with its path and
  tags.  The callback may set the field and carry state along: it returns the new value
  and the new state.
\<close>

fun walkStringFields :: "(string list \<Rightarrow> string \<Rightarrow> StructTag \<Rightarrow> 'a \<Rightarrow> string \<times> 'a) \<Rightarrow> string list \<Rightarrow>
    rfield list \<Rightarrow> 'a \<Rightarrow> rfield list \<times> 'a" where
  "walkStringFields visit path [] acc = ([], acc)"
| "walkStringFields visit path (RField n t (RStruct gs) # fs) acc =
     (case walkStringFields visit (path @ [n]) gs acc of (gs1, acc1) \<Rightarrow>
      (case walkStringFields visit path fs acc1 of (fs1, acc2) \<Rightarrow> (RField n t (RStruct gs1) # fs1, acc2)))"
| "walkStringFields visit path (RField n t (RBool b) # fs) acc =
     (case walkStringFields visit path fs acc of (fs1, acc1) \<Rightarrow> (RField n t (RBool b) # fs1, acc1))"
| "walkStringFields visit path (RField n t (RString v) # fs) acc =
     (case visit (path @ [n]) v t acc of (v1, acc1) \<Rightarrow>
      (case walkStringFields visit path fs acc1 of (fs1, acc2) \<Rightarrow> (RField n t (RString v1) # fs1, acc2)))"

text \<open>What the callbacks of \<open>loadStruct\<close> and \<open>EnvVars\<close> do at one field.\<close>

definition loadField :: "(string \<Rightarrow> string) \<Rightarrow> bool \<Rightarrow> string list \<Rightarrow> string \<Rightarrow> StructTag \<Rightarrow> unit \<Rightarrow> string \<times> unit" where
  "loadField getenv useEnv fieldPath field tag _ =
     (if useEnv \<and> getenv (envName fieldPath) \<noteq> '''' then getenv (envName fieldPath) else tag_default tag, ())"

definition loadStruct :: "(string \<Rightarrow> string) \<Rightarrow> rfield list \<Rightarrow> string list \<Rightarrow> bool \<Rightarrow> rfield list" where
  "loadStruct getenv structVal path useEnv = fst (walkStringFields (loadField getenv useEnv) path structVal ())"

definition Load :: "(string \<Rightarrow> string) \<Rightarrow> KConfig" where
  "Load getenv = unreflectConfig (loadStruct getenv (reflectConfig zeroConfigStatus) [] True)"

definition Defaults :: "KConfig \<Rightarrow> KConfig" where
  "Defaults c = unreflectConfig (loadStruct (\<lambda>_. '''') (reflectConfig c) [] False)"

record EnvVar =
  ev_Name :: string
  ev_Value :: string
  ev_Secret :: bool

definition listField :: "string list \<Rightarrow> string \<Rightarrow> StructTag \<Rightarrow> EnvVar list \<Rightarrow> string \<times> EnvVar list" where
  "listField fieldPath field tag vars =
     (field, vars @ [\<lparr>ev_Name = envName fieldPath, ev_Value = field, ev_Secret = (tag_secret tag = ''true'')\<rparr>])"

definition EnvVars :: "KConfig \<Rightarrow> EnvVar list" where
  "EnvVars c = snd (walkStringFields listField [] (reflectConfig c) [])"

section \<open>Redaction\<close>

text \<open>
  \<open>net/url\<close>: what \<open>url.Parse\<close> returns is opaque but for its user information, which
  can be dropped, and its text.
\<close>

record 'u urllib =
  ul_parse :: "string \<Rightarrow> goerr + 'u"
  ul_dropUser :: "'u \<Rightarrow> 'u"
  ul_string :: "'u \<Rightarrow> string"

definition RedactStorage :: "'u urllib \<Rightarrow> string \<Rightarrow> string" where
  "RedactStorage ul raw = (case ul_parse ul raw of
       Inl err \<Rightarrow> raw
     | Inr parsed \<Rightarrow> ul_string ul (ul_dropUser ul parsed))"

definition Redact :: "'u urllib \<Rightarrow> KConfig \<Rightarrow> KConfig" where
  "Redact ul c = c\<lparr>kcfg_Server := (kcfg_Server c)
     \<lparr>ksrv_Storage := RedactStorage ul (ksrv_Storage (kcfg_Server c)),
      ksrv_DNS := (ksrv_DNS (kcfg_Server c))\<lparr>kdns_Credential := ''''\<rparr>\<rparr>\<rparr>"

section \<open>Admin groups and the authentication choice\<close>

text \<open>\<open>strings.SplitSeq\<close> at a single character.\<close>

fun splitAt :: "char \<Rightarrow> string \<Rightarrow> string \<Rightarrow> string list" where
  "splitAt sep [] cur = [cur]"
| "splitAt sep (c # cs) cur = (if c = sep then cur # splitAt sep cs '''' else splitAt sep cs (cur @ [c]))"

definition ParseAdminGroups :: "string \<Rightarrow> string list" where
  "ParseAdminGroups raw = filter (\<lambda>g. g \<noteq> '''') (map trimSpace (splitAt (CHR '','') raw ''''))"

definition ErrAuthenticationNotConfigured :: goerr where
  "ErrAuthenticationNotConfigured =
     Sentinel ''neither KONTINUUM_OIDC_ISSUER_URL nor KONTINUUM_INSECURE_ALLOW_ANONYMOUS=true is set''"

definition ErrAnonymousAccessWithOIDC :: goerr where
  "ErrAnonymousAccessWithOIDC =
     Sentinel ''KONTINUUM_INSECURE_ALLOW_ANONYMOUS=true is incompatible with KONTINUUM_OIDC_ISSUER_URL being set''"

definition ErrInvalidInsecureAllowAnonymous :: goerr where
  "ErrInvalidInsecureAllowAnonymous = Sentinel ''KONTINUUM_INSECURE_ALLOW_ANONYMOUS must be a boolean''"

text \<open>\<open>strconv.ParseBool\<close>.\<close>

definition parseBool :: "string \<Rightarrow> goerr + bool" where
  "parseBool s =
     (if s \<in> {''1'', ''t'', ''T'', ''TRUE'', ''true'', ''True''} then Inr True
      else if s \<in> {''0'', ''f'', ''F'', ''FALSE'', ''false'', ''False''} then Inr False
      else Inl (Errorf ''strconv.ParseBool: parsing %q: invalid syntax'' [s] []))"

definition ValidateAuthentication :: "KConfig \<Rightarrow> goerr + bool" where
  "ValidateAuthentication c = (case parseBool (kcfg_InsecureAllowAnonymous c) of
       Inl err \<Rightarrow> Inl (Errorf ''%w: %q'' [kcfg_InsecureAllowAnonymous c] [ErrInvalidInsecureAllowAnonymous])
     | Inr anonymous \<Rightarrow>
         let hasIssuerURL = koidc_IssuerURL (kcfg_OIDC c) \<noteq> '''' in
         if \<not> anonymous \<and> \<not> hasIssuerURL then Inl ErrAuthenticationNotConfigured
         else if anonymous \<and> hasIssuerURL then Inl ErrAnonymousAccessWithOIDC
         else Inr anonymous)"

section \<open>Loading what was listed\<close>

text \<open>The derived names, evaluated once.\<close>

lemma envName_simps:
  "envName [''Server'', ''Addr''] = ''KONTINUUM_SERVER_ADDR''"
  "envName [''Server'', ''Storage''] = ''KONTINUUM_SERVER_STORAGE''"
  "envName [''Server'', ''Region''] = ''KONTINUUM_SERVER_REGION''"
  "envName [''Server'', ''Zone''] = ''KONTINUUM_SERVER_ZONE''"
  "envName [''Server'', ''DNS'', ''Domain''] = ''KONTINUUM_SERVER_DNS_DOMAIN''"
  "envName [''Server'', ''DNS'', ''Provider''] = ''KONTINUUM_SERVER_DNS_PROVIDER''"
  "envName [''Server'', ''DNS'', ''Credential''] = ''KONTINUUM_SERVER_DNS_CREDENTIAL''"
  "envName [''Server'', ''GRPC'', ''Endpoint''] = ''KONTINUUM_SERVER_GRPC_ENDPOINT''"
  "envName [''Server'', ''GRPC'', ''InsecureTLSSkipVerify''] = ''KONTINUUM_SERVER_GRPC_INSECURE_TLS_SKIP_VERIFY''"
  "envName [''Log'', ''Level''] = ''KONTINUUM_LOG_LEVEL''"
  "envName [''Log'', ''Format''] = ''KONTINUUM_LOG_FORMAT''"
  "envName [''OIDC'', ''IssuerURL''] = ''KONTINUUM_OIDC_ISSUER_URL''"
  "envName [''OIDC'', ''ClientID''] = ''KONTINUUM_OIDC_CLIENT_ID''"
  "envName [''OIDC'', ''RedirectURL''] = ''KONTINUUM_OIDC_REDIRECT_URL''"
  "envName [''OIDC'', ''AdminGroups''] = ''KONTINUUM_OIDC_ADMIN_GROUPS''"
  "envName [''InsecureAllowAnonymous''] = ''KONTINUUM_INSECURE_ALLOW_ANONYMOUS''"
  "envName [''ACME'', ''Email''] = ''KONTINUUM_ACME_EMAIL''"
  "envName [''ACME'', ''Server''] = ''KONTINUUM_ACME_SERVER''"
  "envName [''ACME'', ''InsecureSkipVerify''] = ''KONTINUUM_ACME_INSECURE_SKIP_VERIFY''"
  by code_simp+

lemma EnvVars_explicit:
  "EnvVars c = map (\<lambda>(n, v, s). \<lparr>ev_Name = n, ev_Value = v, ev_Secret = s\<rparr>)
    [(''KONTINUUM_SERVER_ADDR'', ksrv_Addr (kcfg_Server c), False),
     (''KONTINUUM_SERVER_STORAGE'', ksrv_Storage (kcfg_Server c), True),
     (''KONTINUUM_SERVER_REGION'', ksrv_Region (kcfg_Server c), False),
     (''KONTINUUM_SERVER_ZONE'', ksrv_Zone (kcfg_Server c), False),
     (''KONTINUUM_SERVER_DNS_DOMAIN'', kdns_Domain (ksrv_DNS (kcfg_Server c)), False),
     (''KONTINUUM_SERVER_DNS_PROVIDER'', kdns_Provider (ksrv_DNS (kcfg_Server c)), False),
     (''KONTINUUM_SERVER_DNS_CREDENTIAL'', kdns_Credential (ksrv_DNS (kcfg_Server c)), True),
     (''KONTINUUM_SERVER_GRPC_ENDPOINT'', kgrpc_Endpoint (ksrv_GRPC (kcfg_Server c)), False),
     (''KONTINUUM_SERVER_GRPC_INSECURE_TLS_SKIP_VERIFY'', kgrpc_InsecureTLSSkipVerify (ksrv_GRPC (kcfg_Server c)), False),
     (''KONTINUUM_LOG_LEVEL'', klog_Level (kcfg_Log c), False),
     (''KONTINUUM_LOG_FORMAT'', klog_Format (kcfg_Log c), False),
     (''KONTINUUM_OIDC_ISSUER_URL'', koidc_IssuerURL (kcfg_OIDC c), False),
     (''KONTINUUM_OIDC_CLIENT_ID'', koidc_ClientID (kcfg_OIDC c), False),
     (''KONTINUUM_OIDC_REDIRECT_URL'', koidc_RedirectURL (kcfg_OIDC c), False),
     (''KONTINUUM_OIDC_ADMIN_GROUPS'', koidc_AdminGroups (kcfg_OIDC c), False),
     (''KONTINUUM_INSECURE_ALLOW_ANONYMOUS'', kcfg_InsecureAllowAnonymous c, False),
     (''KONTINUUM_ACME_EMAIL'', kacme_Email (kcfg_ACME c), False),
     (''KONTINUUM_ACME_SERVER'', kacme_Server (kcfg_ACME c), False),
     (''KONTINUUM_ACME_INSECURE_SKIP_VERIFY'', kacme_InsecureSkipVerify (kcfg_ACME c), False)]"
  unfolding EnvVars_def reflectConfig_def reflectServer_def
  by (simp add: listField_def envName_simps)

text \<open>The two walks in closed form.\<close>

fun listing :: "string list \<Rightarrow> rfield list \<Rightarrow> EnvVar list" where
  "listing path [] = []"
| "listing path (RField n t (RStruct gs) # fs) = listing (path @ [n]) gs @ listing path fs"
| "listing path (RField n t (RBool b) # fs) = listing path fs"
| "listing path (RField n t (RString v) # fs) =
     \<lparr>ev_Name = envName (path @ [n]), ev_Value = v, ev_Secret = (tag_secret t = ''true'')\<rparr> # listing path fs"

fun loaded :: "(string \<Rightarrow> string) \<Rightarrow> string list \<Rightarrow> rfield list \<Rightarrow> rfield list" where
  "loaded g path [] = []"
| "loaded g path (RField n t (RStruct gs) # fs) = RField n t (RStruct (loaded g (path @ [n]) gs)) # loaded g path fs"
| "loaded g path (RField n t (RBool b) # fs) = RField n t (RBool b) # loaded g path fs"
| "loaded g path (RField n t (RString v) # fs) =
     RField n t (RString (if g (envName (path @ [n])) \<noteq> '''' then g (envName (path @ [n])) else tag_default t)) # loaded g path fs"

lemma walk_listing: "walkStringFields listField path fs acc = (fs, acc @ listing path fs)"
  by (induction path fs arbitrary: acc rule: listing.induct) (simp_all add: listField_def)

lemma walk_loaded: "walkStringFields (loadField g True) path fs acc = (loaded g path fs, ())"
  by (induction g path fs arbitrary: acc rule: loaded.induct) (simp_all add: loadField_def)

lemma load_again:
  "list_all (\<lambda>v. g' (ev_Name v) = ev_Value v) (listing path (loaded g path fs)) \<Longrightarrow>
   loaded g' path fs = loaded g path fs"
  by (induction g path fs rule: loaded.induct) (auto split: if_splits)

lemma reflect_loaded: "reflectConfig (unreflectConfig (loaded g [] (reflectConfig c))) = loaded g [] (reflectConfig c)"
  by (simp add: unreflectConfig_def unreflectServer_def reflectConfig_def reflectServer_def fieldAt_def)

lemma EnvVars_listing: "EnvVars c = listing [] (reflectConfig c)"
  by (simp add: EnvVars_def walk_listing)

lemma Load_loaded: "Load g = unreflectConfig (loaded g [] (reflectConfig zeroConfigStatus))"
  by (simp add: Load_def loadStruct_def walk_loaded)

text \<open>
  A configuration travels through the environment unchanged.  Whatever environment
  a process was started in, a second process whose environment holds every variable
  \<open>EnvVars\<close> lists for the first one's configuration loads the same configuration,
  whatever else is set there: no field is missed, no two fields share a name, and the
  defaults do not depend on where they are filled in.
\<close>

theorem Load_EnvVars:
  assumes "\<And>v. v \<in> set (EnvVars (Load getenv)) \<Longrightarrow> getenv' (ev_Name v) = ev_Value v"
  shows "Load getenv' = Load getenv"
proof -
  have "loaded getenv' [] (reflectConfig zeroConfigStatus) = loaded getenv [] (reflectConfig zeroConfigStatus)"
    by (rule load_again) (use assms in \<open>simp add: list_all_iff EnvVars_listing Load_loaded reflect_loaded\<close>)
  then show ?thesis by (simp add: Load_loaded)
qed

text \<open>
  A struct is loadable if no field with a default is empty, as after every load; loading
  from its own listing reproduces it.
\<close>

fun loadable :: "rfield list \<Rightarrow> bool" where
  "loadable [] = True"
| "loadable (RField n t (RStruct gs) # fs) = (loadable gs \<and> loadable fs)"
| "loadable (RField n t (RBool b) # fs) = loadable fs"
| "loadable (RField n t (RString v) # fs) = ((v = '''' \<longrightarrow> tag_default t = '''') \<and> loadable fs)"

lemma loadable_loaded: "loadable (loaded g path fs)"
  by (induction g path fs rule: loaded.induct) auto

lemma load_fixed:
  "list_all (\<lambda>v. g (ev_Name v) = ev_Value v) (listing path fs) \<Longrightarrow> loadable fs \<Longrightarrow> loaded g path fs = fs"
  by (induction g path fs rule: loaded.induct) auto

lemma Load_loadable: "loadable (reflectConfig (Load g))"
  by (simp add: Load_loaded reflect_loaded loadable_loaded)

lemma Load_disabled: "\<not> koidc_Enabled (kcfg_OIDC (Load g))"
  by (simp add: Load_loaded unreflectConfig_def reflectConfig_def fieldAt_def zeroConfigStatus_def)

lemma Load_fixed:
  assumes "\<And>v. v \<in> set (EnvVars c) \<Longrightarrow> g (ev_Name v) = ev_Value v" and "loadable (reflectConfig c)"
    and "\<not> koidc_Enabled (kcfg_OIDC c)"
  shows "Load g = c"
proof -
  have "loaded g [] (reflectConfig zeroConfigStatus) = loaded g [] (reflectConfig c)"
    using assms(3) by (simp add: reflectConfig_def reflectServer_def zeroConfigStatus_def)
  also have "\<dots> = reflectConfig c"
    by (rule load_fixed) (use assms(1,2) in \<open>simp_all add: list_all_iff EnvVars_listing\<close>)
  finally show ?thesis by (simp add: Load_loaded unreflect_reflect)
qed

text \<open>The environment that holds exactly the listed variables.\<close>

definition environ :: "EnvVar list \<Rightarrow> string \<Rightarrow> string" where
  "environ vars n = (case find (\<lambda>v. ev_Name v = n) vars of None \<Rightarrow> '''' | Some v \<Rightarrow> ev_Value v)"

lemma environ_listed: "distinct (map ev_Name vars) \<Longrightarrow> v \<in> set vars \<Longrightarrow> environ vars (ev_Name v) = ev_Value v"
  unfolding environ_def by (induction vars) (auto simp: image_iff)

lemma EnvVars_distinct: "distinct (map ev_Name (EnvVars c))"
  unfolding EnvVars_explicit by simp

theorem Load_EnvVars_witness:
  "Load (environ (EnvVars (Load (\<lambda>n. if n = ''KONTINUUM_LOG_LEVEL'' then ''debug'' else '''')))) =
   Load (\<lambda>n. if n = ''KONTINUUM_LOG_LEVEL'' then ''debug'' else '''')"
  by (rule Load_EnvVars) (rule environ_listed [OF EnvVars_distinct])

text \<open>
  A process starts only with a deliberate choice about authentication.
  \<open>ValidateAuthentication\<close> accepts exactly the configurations in which the anonymous flag
  is a boolean and exactly one of the flag and the issuer URL is set, and then returns
  the flag; each other configuration is refused with the error of its case.
\<close>

lemma ValidateAuthentication_exact:
  "ValidateAuthentication c =
     (if parseBool (kcfg_InsecureAllowAnonymous c) = Inr True \<and> koidc_IssuerURL (kcfg_OIDC c) = '''' then Inr True
      else if parseBool (kcfg_InsecureAllowAnonymous c) = Inr False \<and> koidc_IssuerURL (kcfg_OIDC c) \<noteq> '''' then Inr False
      else if parseBool (kcfg_InsecureAllowAnonymous c) = Inr True then Inl ErrAnonymousAccessWithOIDC
      else if parseBool (kcfg_InsecureAllowAnonymous c) = Inr False then Inl ErrAuthenticationNotConfigured
      else Inl (Errorf ''%w: %q'' [kcfg_InsecureAllowAnonymous c] [ErrInvalidInsecureAllowAnonymous]))"
  by (simp add: ValidateAuthentication_def Let_def split: sum.splits)

end
