(* ===== verification/ZoneWorkload.thy ===== *)
theory ZoneWorkload
  imports Config EtcdProxy
begin

text \<open>
  The workload a zone's own cluster runs: \<open>workload.go\<close> of \<open>pkg/domain/zone\<close>.  The zone
  controller creates or updates, on the downstream cluster, the namespace, the
  environment (a Secret and a ConfigMap), the identity RBAC objects, the Deployment and
  the Service, and deletes them again on teardown.

  \<open>'s downstream\<close> is the client of the downstream cluster, one field per kind.  The
  create-then-get-and-update idiom the source repeats for every kind is \<open>upsert\<close>; the
  chain \<open>err = f(); if err != nil { return err }\<close> is \<open>andThen\<close>.  The semantic-version
  library is the parameter \<open>semverlib\<close>.
\<close>

section \<open>Kinds of the downstream cluster\<close>

record ConfigMap =
  cm_meta :: ObjectMeta
  cm_Data :: labels

record ServiceAccount = sa_meta :: ObjectMeta

record PolicyRule =
  rule_APIGroups :: "string list"
  rule_Resources :: "string list"
  rule_ResourceNames :: "string list"
  rule_Verbs :: "string list"

record RbacRole =
  role_meta :: ObjectMeta
  role_Rules :: "PolicyRule list"

record RoleRef =
  rref_APIGroup :: string
  rref_Kind :: string
  rref_Name :: string

record Subject =
  subj_Kind :: string
  subj_Name :: string
  subj_Namespace :: string

record RoleBinding =
  rb_meta :: ObjectMeta
  rb_RoleRef :: RoleRef
  rb_Subjects :: "Subject list"

datatype PullPolicy = PullIfNotPresent | PullAlways

record PodSecurityContext =
  psc_RunAsNonRoot :: bool
  psc_RunAsUser :: int
  psc_RunAsGroup :: int
  psc_FSGroup :: int
  psc_SeccompProfile :: string

record SecurityContext =
  ssc_AllowPrivilegeEscalation :: bool
  ssc_ReadOnlyRootFilesystem :: bool
  ssc_Drop :: "string list"

datatype EnvFromSource = SecretEnv string | ConfigMapEnv string

record Container =
  ctr_Name :: string
  ctr_Image :: string
  ctr_ImagePullPolicy :: PullPolicy
  ctr_Ports :: "(string \<times> int) list"
  ctr_SecurityContext :: SecurityContext
  ctr_EnvFrom :: "EnvFromSource list"
  ctr_VolumeMounts :: "(string \<times> string) list"

text \<open>An \<open>emptyDir\<close> volume is its name.\<close>

record PodSpec =
  pod_ServiceAccountName :: string
  pod_SecurityContext :: PodSecurityContext
  pod_Containers :: "Container list"
  pod_Volumes :: "string list"

record DeploymentSpec =
  dsp_Replicas :: int32
  dsp_Selector :: labels
  dsp_TemplateLabels :: labels
  dsp_Pod :: PodSpec

record Deployment =
  dep_meta :: ObjectMeta
  dep_Spec :: DeploymentSpec

record ServicePort =
  spt_Name :: string
  spt_Port :: int
  spt_TargetPort :: string

record ServiceSpec =
  ssp_Selector :: labels
  ssp_Ports :: "ServicePort list"
  ssp_ClusterIP :: string

record Service =
  svc_meta :: ObjectMeta
  svc_Spec :: ServiceSpec

record ACMEIssuer =
  acme_Email :: string
  acme_Server :: string
  acme_SkipTLSVerify :: bool
  acme_PrivateKey :: string
  acme_SolverParents :: "string list"

record ClusterIssuer =
  iss_meta :: ObjectMeta
  iss_ACME :: ACMEIssuer

record Listener =
  lst_Name :: string
  lst_Port :: int
  lst_Protocol :: string
  lst_Hostname :: "string option"
  lst_TLS :: "(string \<times> string list) option"

record GatewayAddress =
  gad_Type :: "string option"
  gad_Value :: string

record GatewaySpec =
  gsp_GatewayClassName :: string
  gsp_Listeners :: "Listener list"

record Gateway =
  gw_meta :: ObjectMeta
  gw_Spec :: GatewaySpec
  gw_Addresses :: "GatewayAddress list"

record TLSCertificateSpec =
  csp_DNSNames :: "string list"
  csp_SecretName :: string
  csp_IssuerRef :: RoleRef

record TLSCertificate =
  cert_meta :: ObjectMeta
  cert_Spec :: TLSCertificateSpec
  cert_Conditions :: "Condition list"

record HTTPRouteSpec =
  hrs_Parents :: "(string \<times> string) list"
  hrs_Hostnames :: "string list"
  hrs_Backends :: "(string \<times> int) list"

record HTTPRoute =
  hr_meta :: ObjectMeta
  hr_Spec :: HTTPRouteSpec

record Endpoint =
  ep_DNSName :: string
  ep_Targets :: "string list"
  ep_RecordType :: string

record DNSEndpointSpec = des_Endpoints :: "Endpoint list"

record DNSEndpointStatus = dest_ObservedGeneration :: int

record DNSEndpoint =
  de_meta :: ObjectMeta
  de_Spec :: DNSEndpointSpec
  de_Status :: DNSEndpointStatus

record 's downstream =
  dc_Namespace :: "('s, Namespace) kclient"
  dc_Secret :: "('s, Secret) kclient"
  dc_ConfigMap :: "('s, ConfigMap) kclient"
  dc_ServiceAccount :: "('s, ServiceAccount) kclient"
  dc_Role :: "('s, RbacRole) kclient"
  dc_RoleBinding :: "('s, RoleBinding) kclient"
  dc_Deployment :: "('s, Deployment) kclient"
  dc_Service :: "('s, Service) kclient"
  dc_ClusterIssuer :: "('s, ClusterIssuer) kclient"
  dc_Gateway :: "('s, Gateway) kclient"
  dc_Certificate :: "('s, TLSCertificate) kclient"
  dc_HTTPRoute :: "('s, HTTPRoute) kclient"
  dc_DNSEndpoint :: "('s, DNSEndpoint) kclient"

section \<open>Idioms\<close>

definition andThen :: "('s, goerr option) state \<Rightarrow> ('s, goerr option) state \<Rightarrow> ('s, goerr option) state" where
  "andThen m n = do { e \<leftarrow> m; (case e of Some err \<Rightarrow> return (Some err) | None \<Rightarrow> n) }"

definition wrapErr :: "string \<Rightarrow> string list \<Rightarrow> goerr option \<Rightarrow> goerr option" where
  "wrapErr fmt args e = map_option (\<lambda>err. Errorf fmt args [err]) e"

text \<open>
  Create; when the name is taken, fetch the stored object, merge the desired one into it
  and update.  \<open>m1\<close>, \<open>m2\<close> and \<open>m3\<close> are the messages of a failed fetch, update and create.
\<close>

definition upsert :: "('s, 'o) kclient \<Rightarrow> ('o \<Rightarrow> ObjectMeta) \<Rightarrow> ('o \<Rightarrow> 'o \<Rightarrow> 'o) \<Rightarrow> string \<Rightarrow> string \<Rightarrow> string \<Rightarrow>
    'o \<Rightarrow> ('s, goerr option) state" where
  "upsert c meta merge m1 m2 m3 obj = do {
     r \<leftarrow> kcreate c obj;
     (case r of
        Inr _ \<Rightarrow> return None
      | Inl err \<Rightarrow>
          if \<not> isAlreadyExists err then return (Some (Errorf m3 [om_Name (meta obj)] [err]))
          else do {
            g \<leftarrow> kget c (keyOf (meta obj));
            (case g of
               Inl err \<Rightarrow> return (Some (Errorf m1 [om_Name (meta obj)] [err]))
             | Inr existing \<Rightarrow> do {
                 u \<leftarrow> kupdate c (merge obj existing);
                 (case u of
                    Inl err \<Rightarrow> return (Some (Errorf m2 [om_Name (meta obj)] [err]))
                  | Inr _ \<Rightarrow> return None)
               })
          })
   }"

text \<open>Create and leave what is there alone when the name is taken.\<close>

definition createOnce :: "('s, 'o) kclient \<Rightarrow> string \<Rightarrow> string list \<Rightarrow> 'o \<Rightarrow> ('s, goerr option) state" where
  "createOnce c msg args obj = do {
     r \<leftarrow> kcreate c obj;
     (case r of
        Inr _ \<Rightarrow> return None
      | Inl err \<Rightarrow> if \<not> isAlreadyExists err then return (Some (Errorf msg args [err])) else return None)
   }"

definition ignoreNotFound :: "goerr option \<Rightarrow> goerr option" where
  "ignoreNotFound e = (case e of None \<Rightarrow> None | Some err \<Rightarrow> if isNotFound err then None else Some err)"

section \<open>Names\<close>

definition downstreamNamespace :: string where "downstreamNamespace = ''kontinuum-system''"

definition envSecretName :: string where "envSecretName = ''kontinuum-env''"

definition envConfigMapName :: string where "envConfigMapName = ''kontinuum-env''"

definition deploymentName :: string where "deploymentName = ''kontinuum''"

definition serviceName :: string where "serviceName = ''kontinuum''"

definition portName :: string where "portName = ''http''"

definition containerPort :: int where "containerPort = 8080"

definition servicePort :: int where "servicePort = 80"

section \<open>Environment\<close>

definition zoneEnsureNamespace :: "('s, Namespace) kclient \<Rightarrow> string \<Rightarrow> ('s, goerr option) state" where
  "zoneEnsureNamespace c namespace =
     createOnce c ''failed to ensure %q namespace: %w'' [namespace] (namespaceObj namespace)"

definition zoneStorageSecretKey :: string where "zoneStorageSecretKey = ''KONTINUUM_SERVER_STORAGE''"

definition zoneEnvOverrides :: "string \<Rightarrow> string \<Rightarrow> string \<Rightarrow> string \<Rightarrow> labels" where
  "zoneEnvOverrides region zoneName storage hostname =
     (let overrides = [''KONTINUUM_SERVER_ADDR'' \<mapsto> '':8080'', ''KONTINUUM_SERVER_REGION'' \<mapsto> region,
            ''KONTINUUM_SERVER_ZONE'' \<mapsto> zoneName, zoneStorageSecretKey \<mapsto> storage] in
      if hostname \<noteq> '''' then overrides(''KONTINUUM_OIDC_REDIRECT_URL'' \<mapsto> ''https://'' @ hostname @ ''/app'')
      else overrides)"

definition zoneSecretObj :: "string \<Rightarrow> labels \<Rightarrow> Secret" where
  "zoneSecretObj namespace d = (secretObj namespace envSecretName)\<lparr>sec_StringData := d\<rparr>"

definition zoneEnsureSecret :: "('s, Secret) kclient \<Rightarrow> string \<Rightarrow> labels \<Rightarrow> ('s, goerr option) state" where
  "zoneEnsureSecret c namespace d =
     upsert c sec_meta (\<lambda>secret existing. existing\<lparr>sec_StringData := sec_StringData secret\<rparr>)
       ''failed to fetch existing %q secret: %w'' ''failed to update %q secret: %w''
       ''failed to create %q secret: %w'' (zoneSecretObj namespace d)"

definition configMapObj :: "string \<Rightarrow> labels \<Rightarrow> ConfigMap" where
  "configMapObj namespace d = \<lparr>cm_meta = objectMeta namespace envConfigMapName, cm_Data = d\<rparr>"

definition ensureConfigMap :: "('s, ConfigMap) kclient \<Rightarrow> string \<Rightarrow> labels \<Rightarrow> ('s, goerr option) state" where
  "ensureConfigMap c namespace d =
     upsert c cm_meta (\<lambda>configMap existing. existing\<lparr>cm_Data := cm_Data configMap\<rparr>)
       ''failed to fetch existing %q configmap: %w'' ''failed to update %q configmap: %w''
       ''failed to create %q configmap: %w'' (configMapObj namespace d)"

text \<open>The loop of \<open>ensureEnv\<close> over the variables: the Secret's and the ConfigMap's data.\<close>

fun envData :: "EnvVar list \<Rightarrow> labels \<Rightarrow> labels \<times> labels \<Rightarrow> labels \<times> labels" where
  "envData [] overrides (secretData, configData) = (secretData, configData)"
| "envData (envVar # rest) overrides (secretData, configData) =
     (let v = (case overrides (ev_Name envVar) of None \<Rightarrow> ev_Value envVar | Some override \<Rightarrow> override) in
      if ev_Secret envVar then envData rest overrides (secretData(ev_Name envVar \<mapsto> v), configData)
      else envData rest overrides (secretData, configData(ev_Name envVar \<mapsto> v)))"

definition ensureEnv :: "'s downstream \<Rightarrow> string \<Rightarrow> KConfig \<Rightarrow> labels \<Rightarrow> ('s, goerr option) state" where
  "ensureEnv d namespace hubConfig overrides =
     (case envData (EnvVars hubConfig) overrides (Map.empty, Map.empty) of (secretData, configData) \<Rightarrow>
        andThen (zoneEnsureSecret (dc_Secret d) namespace secretData)
                (ensureConfigMap (dc_ConfigMap d) namespace configData))"

section \<open>Identity RBAC\<close>

definition etcdIdentityServiceAccountName :: string where
  "etcdIdentityServiceAccountName = ''kontinuum-etcd-identity-watcher''"

definition ensureIdentityServiceAccount :: "'s downstream \<Rightarrow> string \<Rightarrow> ('s, goerr option) state" where
  "ensureIdentityServiceAccount d namespace =
     createOnce (dc_ServiceAccount d) ''failed to ensure %q service account: %w'' [etcdIdentityServiceAccountName]
       \<lparr>sa_meta = objectMeta namespace etcdIdentityServiceAccountName\<rparr>"

definition identityRules :: "PolicyRule list" where
  "identityRules =
     [\<lparr>rule_APIGroups = [''''], rule_Resources = [''secrets''], rule_ResourceNames = [IdentitySecretName],
       rule_Verbs = [''get'']\<rparr>,
      \<lparr>rule_APIGroups = [''''], rule_Resources = [''secrets''], rule_ResourceNames = [],
       rule_Verbs = [''list'', ''watch'']\<rparr>]"

definition ensureIdentityRole :: "'s downstream \<Rightarrow> string \<Rightarrow> ('s, goerr option) state" where
  "ensureIdentityRole d namespace =
     upsert (dc_Role d) role_meta (\<lambda>role existing. existing\<lparr>role_Rules := role_Rules role\<rparr>)
       ''failed to fetch existing %q role: %w'' ''failed to ensure %q role: %w'' ''failed to ensure %q role: %w''
       \<lparr>role_meta = objectMeta namespace etcdIdentityServiceAccountName, role_Rules = identityRules\<rparr>"

definition ensureIdentityRoleBinding :: "'s downstream \<Rightarrow> string \<Rightarrow> ('s, goerr option) state" where
  "ensureIdentityRoleBinding d namespace =
     createOnce (dc_RoleBinding d) ''failed to ensure %q role binding: %w'' [etcdIdentityServiceAccountName]
       \<lparr>rb_meta = objectMeta namespace etcdIdentityServiceAccountName,
        rb_RoleRef = \<lparr>rref_APIGroup = ''rbac.authorization.k8s.io'', rref_Kind = ''Role'',
          rref_Name = etcdIdentityServiceAccountName\<rparr>,
        rb_Subjects = [\<lparr>subj_Kind = ''ServiceAccount'', subj_Name = etcdIdentityServiceAccountName,
          subj_Namespace = namespace\<rparr>]\<rparr>"

definition ensureIdentityRBAC :: "'s downstream \<Rightarrow> string \<Rightarrow> ('s, goerr option) state" where
  "ensureIdentityRBAC d namespace =
     andThen (ensureIdentityServiceAccount d namespace)
    (andThen (ensureIdentityRole d namespace)
             (ensureIdentityRoleBinding d namespace))"

section \<open>Deployment and Service\<close>

record semverlib =
  sv_IsValid :: "string \<Rightarrow> bool"
  sv_Compare :: "string \<Rightarrow> string \<Rightarrow> int"

definition deploymentLabels :: labels where
  "deploymentLabels = [''app.kubernetes.io/name'' \<mapsto> deploymentName]"

definition nonRootUID :: int where "nonRootUID = 65532"

definition tmpVolumeName :: string where "tmpVolumeName = ''tmp''"

definition tmpVolumeMountPath :: string where "tmpVolumeMountPath = ''/tmp''"

definition podSecurityContext :: PodSecurityContext where
  "podSecurityContext = \<lparr>psc_RunAsNonRoot = True, psc_RunAsUser = nonRootUID, psc_RunAsGroup = nonRootUID,
     psc_FSGroup = nonRootUID, psc_SeccompProfile = ''RuntimeDefault''\<rparr>"

definition containerSecurityContext :: SecurityContext where
  "containerSecurityContext = \<lparr>ssc_AllowPrivilegeEscalation = False, ssc_ReadOnlyRootFilesystem = True,
     ssc_Drop = [''ALL'']\<rparr>"

text \<open>\<open>strings.Contains\<close>, and \<open>image[strings.LastIndex(image, ":")+1:]\<close>: the text after the last colon.\<close>

fun containsStr :: "string \<Rightarrow> string \<Rightarrow> bool" where
  "containsStr [] sub = (sub = '''')"
| "containsStr (c # cs) sub = (take (length sub) (c # cs) = sub \<or> containsStr cs sub)"

definition afterLast :: "char \<Rightarrow> string \<Rightarrow> string" where
  "afterLast sep s = rev (takeWhile (\<lambda>c. c \<noteq> sep) (rev s))"

definition imagePullPolicy :: "semverlib \<Rightarrow> string \<Rightarrow> PullPolicy" where
  "imagePullPolicy sv img =
     (if containsStr img ''@sha256:'' then PullIfNotPresent
      else if sv_IsValid sv (afterLast (CHR '':'') img) then PullIfNotPresent else PullAlways)"

definition buildDeployment :: "semverlib \<Rightarrow> string \<Rightarrow> string \<Rightarrow> Deployment" where
  "buildDeployment sv namespace img =
     \<lparr>dep_meta = objectMeta namespace deploymentName,
      dep_Spec = \<lparr>dsp_Replicas = 1, dsp_Selector = deploymentLabels, dsp_TemplateLabels = deploymentLabels,
        dsp_Pod = \<lparr>pod_ServiceAccountName = etcdIdentityServiceAccountName,
          pod_SecurityContext = podSecurityContext,
          pod_Containers = [\<lparr>ctr_Name = deploymentName, ctr_Image = img,
            ctr_ImagePullPolicy = imagePullPolicy sv img,
            ctr_Ports = [(portName, containerPort)],
            ctr_SecurityContext = containerSecurityContext,
            ctr_EnvFrom = [SecretEnv envSecretName, ConfigMapEnv envConfigMapName],
            ctr_VolumeMounts = [(tmpVolumeName, tmpVolumeMountPath)]\<rparr>],
          pod_Volumes = [tmpVolumeName]\<rparr>\<rparr>\<rparr>"

definition ensureDeployment :: "semverlib \<Rightarrow> 's downstream \<Rightarrow> string \<Rightarrow> string \<Rightarrow> ('s, goerr option) state" where
  "ensureDeployment sv d namespace img =
     upsert (dc_Deployment d) dep_meta (\<lambda>deployment existing. existing\<lparr>dep_Spec := dep_Spec deployment\<rparr>)
       ''failed to fetch existing %q deployment: %w'' ''failed to update %q deployment: %w''
       ''failed to create %q deployment: %w'' (buildDeployment sv namespace img)"

definition serviceObj :: "string \<Rightarrow> Service" where
  "serviceObj namespace = \<lparr>svc_meta = objectMeta namespace serviceName,
     svc_Spec = \<lparr>ssp_Selector = deploymentLabels,
       ssp_Ports = [\<lparr>spt_Name = portName, spt_Port = servicePort, spt_TargetPort = portName\<rparr>],
       ssp_ClusterIP = ''''\<rparr>\<rparr>"

text \<open>The stored cluster address is kept.\<close>

definition ensureService :: "'s downstream \<Rightarrow> string \<Rightarrow> ('s, goerr option) state" where
  "ensureService d namespace =
     upsert (dc_Service d) svc_meta
       (\<lambda>service existing. existing\<lparr>svc_Spec := (svc_Spec service)\<lparr>ssp_ClusterIP := ssp_ClusterIP (svc_Spec existing)\<rparr>\<rparr>)
       ''failed to fetch existing %q service: %w'' ''failed to update %q service: %w''
       ''failed to create %q service: %w'' (serviceObj namespace)"

section \<open>Deletion\<close>

definition deleteDeployment :: "'s downstream \<Rightarrow> string \<Rightarrow> ('s, goerr option) state" where
  "deleteDeployment d namespace = do {
     e \<leftarrow> kdelete (dc_Deployment d) \<lparr>dep_meta = objectMeta namespace deploymentName,
       dep_Spec = \<lparr>dsp_Replicas = 0, dsp_Selector = Map.empty, dsp_TemplateLabels = Map.empty,
         dsp_Pod = \<lparr>pod_ServiceAccountName = '''',
           pod_SecurityContext = \<lparr>psc_RunAsNonRoot = False, psc_RunAsUser = 0, psc_RunAsGroup = 0,
             psc_FSGroup = 0, psc_SeccompProfile = ''''\<rparr>, pod_Containers = [], pod_Volumes = []\<rparr>\<rparr>\<rparr>;
     return (wrapErr ''failed to delete %q deployment: %w'' [deploymentName] (ignoreNotFound e))
   }"

definition deleteService :: "'s downstream \<Rightarrow> string \<Rightarrow> ('s, goerr option) state" where
  "deleteService d namespace = do {
     e \<leftarrow> kdelete (dc_Service d) \<lparr>svc_meta = objectMeta namespace serviceName,
       svc_Spec = \<lparr>ssp_Selector = Map.empty, ssp_Ports = [], ssp_ClusterIP = ''''\<rparr>\<rparr>;
     return (wrapErr ''failed to delete %q service: %w'' [serviceName] (ignoreNotFound e))
   }"

definition deleteConfigMap :: "'s downstream \<Rightarrow> string \<Rightarrow> ('s, goerr option) state" where
  "deleteConfigMap d namespace = do {
     e \<leftarrow> kdelete (dc_ConfigMap d) (configMapObj namespace Map.empty);
     return (wrapErr ''failed to delete %q configmap: %w'' [envConfigMapName] (ignoreNotFound e))
   }"

definition deleteSecret :: "'s downstream \<Rightarrow> string \<Rightarrow> ('s, goerr option) state" where
  "deleteSecret d namespace = do {
     e \<leftarrow> kdelete (dc_Secret d) (secretObj namespace envSecretName);
     return (wrapErr ''failed to delete %q secret: %w'' [envSecretName] (ignoreNotFound e))
   }"

definition deleteNamespace :: "'s downstream \<Rightarrow> string \<Rightarrow> ('s, goerr option) state" where
  "deleteNamespace d namespace = do {
     e \<leftarrow> kdelete (dc_Namespace d) (namespaceObj namespace);
     return (wrapErr ''failed to delete %q namespace: %w'' [namespace] (ignoreNotFound e))
   }"

section \<open>The environment of a zone's server\<close>

definition envValue :: "labels \<Rightarrow> EnvVar \<Rightarrow> string" where
  "envValue overrides v = (case overrides (ev_Name v) of None \<Rightarrow> ev_Value v | Some override \<Rightarrow> override)"

lemma envData_both:
  "distinct (map ev_Name vars) \<Longrightarrow>
   fst (envData vars ov (sd, cd)) n = (case find (\<lambda>v. ev_Name v = n) vars of
     None \<Rightarrow> sd n | Some v \<Rightarrow> if ev_Secret v then Some (envValue ov v) else sd n) \<and>
   snd (envData vars ov (sd, cd)) n = (case find (\<lambda>v. ev_Name v = n) vars of
     None \<Rightarrow> cd n | Some v \<Rightarrow> if ev_Secret v then cd n else Some (envValue ov v))"
proof (induction vars arbitrary: sd cd)
  case (Cons x xs)
  have "find (\<lambda>v. ev_Name v = ev_Name x) xs = None"
    using Cons.prems by (auto simp: find_None_iff image_iff)
  with Cons show ?case
    by (auto simp: Let_def envValue_def split: option.splits)
qed simp

lemmas envData_lookup = envData_both [THEN conjunct1] envData_both [THEN conjunct2]

text \<open>What \<open>envFrom\<close> gives the container: the Secret's keys and the ConfigMap's.\<close>

definition podEnv :: "labels \<times> labels \<Rightarrow> string \<Rightarrow> string" where
  "podEnv e n = (case (fst e ++ snd e) n of None \<Rightarrow> '''' | Some v \<Rightarrow> v)"

definition zoneConfig :: "KConfig \<Rightarrow> string \<Rightarrow> string \<Rightarrow> string \<Rightarrow> string \<Rightarrow> KConfig" where
  "zoneConfig hub region zone storage hostname = hub
     \<lparr>kcfg_Server := (kcfg_Server hub)\<lparr>ksrv_Addr := '':8080'', ksrv_Region := region, ksrv_Zone := zone,
        ksrv_Storage := storage\<rparr>,
      kcfg_OIDC := (kcfg_OIDC hub)\<lparr>koidc_RedirectURL := (if hostname = '''' then koidc_RedirectURL (kcfg_OIDC hub)
        else ''https://'' @ hostname @ ''/app'')\<rparr>\<rparr>"

lemma podEnv_var:
  assumes "distinct (map ev_Name vars)" and "v \<in> set vars"
  shows "podEnv (envData vars ov (Map.empty, Map.empty)) (ev_Name v) = envValue ov v"
proof -
  have "find (\<lambda>u. ev_Name u = ev_Name v) vars = Some v"
    using assms by (induction vars) (auto simp: image_iff)
  then show ?thesis
    by (simp add: podEnv_def envData_lookup [OF assms(1)] map_add_def split: option.splits)
qed

lemma overridden_vars:
  "map (\<lambda>v. v\<lparr>ev_Value := envValue (zoneEnvOverrides region zone storage hostname) v\<rparr>) (EnvVars hub) =
   EnvVars (zoneConfig hub region zone storage hostname)"
  unfolding EnvVars_explicit
  by (simp add: zoneConfig_def envValue_def zoneEnvOverrides_def zoneStorageSecretKey_def Let_def)



section \<open>Storing by upsert\<close>

text \<open>Every stored object is under its own key.\<close>

definition keyed :: "('o \<Rightarrow> ObjectMeta) \<Rightarrow> ('s \<Rightarrow> ObjectKey \<rightharpoonup> 'o) \<Rightarrow> bool" where
  "keyed meta view \<longleftrightarrow> (\<forall>s k x. view s k = Some x \<longrightarrow> keyOf (meta x) = k)"

lemma upsert_stored:
  assumes c: "cas_store c meta body view" and k: "keyed meta view"
    and m: "\<And>e. meta (merge obj e) = meta e"
    and r: "run_state (upsert c meta merge m1 m2 m3 obj) s = (None, t)"
  shows "\<exists>y. view t = (view s)(keyOf (meta obj) \<mapsto> y) \<and>
    (body y = body obj \<or> (\<exists>e. view s (keyOf (meta obj)) = Some e \<and> body y = body (merge obj e)))"
proof -
  obtain g1 s1 where g1: "run_state (kcreate c obj) s = (g1, s1)" by fastforce
  show ?thesis
  proof (cases g1)
    case (Inr y)
    with r g1 have "t = s1" by (simp add: upsert_def)
    with Inr g1 cas_store_create(2,3) [OF c, of obj s y] show ?thesis by auto
  next
    case (Inl err)
    with r g1 have ae: "isAlreadyExists err" by (auto simp: upsert_def split: if_splits)
    with Inl g1 cas_store_create(4) [OF c, of obj s err] have v1: "view s1 = view s" by simp
    obtain g2 s2 where g2: "run_state (kget c (keyOf (meta obj))) s1 = (g2, s2)" by fastforce
    with r g1 Inl ae obtain e where e: "g2 = Inr e" by (cases g2) (simp_all add: upsert_def)
    with g2 cas_store_get [OF c, of "keyOf (meta obj)" s1] have v2: "view s2 = view s" "view s (keyOf (meta obj)) = Some e"
      by (simp_all add: v1)
    obtain g3 s3 where g3: "run_state (kupdate c (merge obj e)) s2 = (g3, s3)" by fastforce
    with r g1 Inl ae g2 e obtain y where "g3 = Inr y" "t = s3" by (cases g3) (simp_all add: upsert_def)
    moreover have "keyOf (meta e) = keyOf (meta obj)" using k v2(2) unfolding keyed_def by blast
    ultimately show ?thesis
      using g3 cas_store_update(2,4) [OF c, of "merge obj e" s2 y] v2 by (auto simp: m)
  qed
qed

lemma upsert_quiet:
  assumes "kclient_quiet view c"
  shows "quiet view (upsert c meta merge m1 m2 m3 obj)"
  unfolding upsert_def quiet_iff
  by (intro allI leaves_rules) (use assms in \<open>simp_all add: kclient_quiet_def quiet_iff del: split_paired_All\<close>)

end
