(* ===== verification/ZoneNetwork.thy ===== *)
theory ZoneNetwork
  imports ZoneWorkload
begin

text \<open>
  How a zone's server is reached: \<open>network.go\<close> of \<open>pkg/domain/zone\<close>.  With a domain the
  controller installs an ACME ClusterIssuer, a Gateway, a Certificate and an HTTPRoute,
  publishes the Gateway's address as a DNSEndpoint, and deletes them on teardown.

  \<open>meta.IsNoMatchError\<close> (the kind is not installed on the cluster) is an API error with
  the reason \<open>NoMatch\<close>.  Telling IPv6 addresses apart is a parameter (\<open>net.ParseIP\<close>).
\<close>

section \<open>Names\<close>

definition gatewayClassName :: string where "gatewayClassName = ''cilium''"

definition clusterIssuerName :: string where "clusterIssuerName = ''kontinuum''"

definition gatewayName :: string where "gatewayName = ''kontinuum''"

definition certificateName :: string where "certificateName = ''kontinuum''"

definition httpRouteName :: string where "httpRouteName = ''kontinuum''"

definition certSecretName :: string where "certSecretName = ''kontinuum-tls''"

definition dnsEndpointName :: string where "dnsEndpointName = ''kontinuum''"

definition httpListenerName :: string where "httpListenerName = ''http''"

definition httpsListenerName :: string where "httpsListenerName = ''https''"

definition httpPort :: int where "httpPort = 80"

definition httpsPort :: int where "httpsPort = 443"

definition dnsRecordTypeA :: string where "dnsRecordTypeA = ''A''"

definition dnsRecordTypeAAAA :: string where "dnsRecordTypeAAAA = ''AAAA''"

definition dnsRecordTypeCNAME :: string where "dnsRecordTypeCNAME = ''CNAME''"

section \<open>Installation\<close>

definition clusterIssuerObj :: "string \<Rightarrow> KontinuumACMEConfigStatus \<Rightarrow> bool \<Rightarrow> ClusterIssuer" where
  "clusterIssuerObj name acme skipTLSVerify =
     \<lparr>iss_meta = objectMeta '''' name,
      iss_ACME = \<lparr>acme_Email = kacme_Email acme, acme_Server = kacme_Server acme,
        acme_SkipTLSVerify = skipTLSVerify, acme_PrivateKey = name @ ''-account-key'',
        acme_SolverParents = [gatewayName]\<rparr>\<rparr>"

definition ensureClusterIssuer :: "'s downstream \<Rightarrow> string \<Rightarrow> KontinuumACMEConfigStatus \<Rightarrow> ('s, goerr option) state" where
  "ensureClusterIssuer d name acme = (case parseBool (kacme_InsecureSkipVerify acme) of
       Inl err \<Rightarrow> return (Some (Errorf ''failed to parse KONTINUUM_ACME_INSECURE_SKIP_VERIFY: %w'' [] [err]))
     | Inr skipTLSVerify \<Rightarrow>
         upsert (dc_ClusterIssuer d) iss_meta (\<lambda>issuer existing. existing\<lparr>iss_ACME := iss_ACME issuer\<rparr>)
           ''failed to fetch existing %q clusterissuer: %w'' ''failed to update %q clusterissuer: %w''
           ''failed to create %q clusterissuer: %w'' (clusterIssuerObj name acme skipTLSVerify))"

definition gatewayObj :: "string \<Rightarrow> string \<Rightarrow> string \<Rightarrow> string \<Rightarrow> Gateway" where
  "gatewayObj namespace name hostname certSecret =
     \<lparr>gw_meta = objectMeta namespace name,
      gw_Spec = \<lparr>gsp_GatewayClassName = gatewayClassName,
        gsp_Listeners =
          [\<lparr>lst_Name = httpListenerName, lst_Port = httpPort, lst_Protocol = ''HTTP'', lst_Hostname = None, lst_TLS = None\<rparr>,
           \<lparr>lst_Name = httpsListenerName, lst_Port = httpsPort, lst_Protocol = ''HTTPS'', lst_Hostname = Some hostname,
            lst_TLS = Some (''Terminate'', [certSecret])\<rparr>]\<rparr>,
      gw_Addresses = []\<rparr>"

definition ensureGateway :: "'s downstream \<Rightarrow> string \<Rightarrow> string \<Rightarrow> string \<Rightarrow> string \<Rightarrow> ('s, goerr option) state" where
  "ensureGateway d namespace name hostname certSecret =
     upsert (dc_Gateway d) gw_meta (\<lambda>gateway existing. existing\<lparr>gw_Spec := gw_Spec gateway\<rparr>)
       ''failed to fetch existing %q gateway: %w'' ''failed to update %q gateway: %w''
       ''failed to create %q gateway: %w'' (gatewayObj namespace name hostname certSecret)"

definition certificateObj :: "string \<Rightarrow> string \<Rightarrow> string \<Rightarrow> string \<Rightarrow> string \<Rightarrow> TLSCertificate" where
  "certificateObj namespace name hostname tlsSecret issuerName =
     \<lparr>cert_meta = objectMeta namespace name,
      cert_Spec = \<lparr>csp_DNSNames = [hostname], csp_SecretName = tlsSecret,
        csp_IssuerRef = \<lparr>rref_APIGroup = ''cert-manager.io'', rref_Kind = ''ClusterIssuer'', rref_Name = issuerName\<rparr>\<rparr>,
      cert_Conditions = []\<rparr>"

definition ensureCertificate :: "'s downstream \<Rightarrow> string \<Rightarrow> string \<Rightarrow> string \<Rightarrow> string \<Rightarrow> string \<Rightarrow> ('s, goerr option) state" where
  "ensureCertificate d namespace name hostname tlsSecret issuerName =
     upsert (dc_Certificate d) cert_meta (\<lambda>cert existing. existing\<lparr>cert_Spec := cert_Spec cert\<rparr>)
       ''failed to fetch existing %q certificate: %w'' ''failed to update %q certificate: %w''
       ''failed to create %q certificate: %w'' (certificateObj namespace name hostname tlsSecret issuerName)"

definition httpRouteObj :: "string \<Rightarrow> string \<Rightarrow> string \<Rightarrow> string \<Rightarrow> string \<Rightarrow> HTTPRoute" where
  "httpRouteObj namespace name hostname gateway service =
     \<lparr>hr_meta = objectMeta namespace name,
      hr_Spec = \<lparr>hrs_Parents = [(gateway, httpsListenerName)], hrs_Hostnames = [hostname],
        hrs_Backends = [(service, servicePort)]\<rparr>\<rparr>"

definition ensureHTTPRoute :: "'s downstream \<Rightarrow> string \<Rightarrow> string \<Rightarrow> string \<Rightarrow> string \<Rightarrow> string \<Rightarrow> ('s, goerr option) state" where
  "ensureHTTPRoute d namespace name hostname gateway service =
     upsert (dc_HTTPRoute d) hr_meta (\<lambda>route existing. existing\<lparr>hr_Spec := hr_Spec route\<rparr>)
       ''failed to fetch existing %q httproute: %w'' ''failed to update %q httproute: %w''
       ''failed to create %q httproute: %w'' (httpRouteObj namespace name hostname gateway service)"

definition certificateReady :: "'s downstream \<Rightarrow> string \<Rightarrow> string \<Rightarrow> ('s, goerr + bool) state" where
  "certificateReady d namespace name = do {
     g \<leftarrow> kget (dc_Certificate d) (namespace, name);
     (case g of
        Inl err \<Rightarrow> if isNotFound err then return (Inr False)
          else return (Inl (Errorf ''failed to fetch %q certificate: %w'' [name] [err]))
      | Inr cert \<Rightarrow> (case find (\<lambda>cond. cond_Type cond = ''Ready'') (cert_Conditions cert) of
          Some cond \<Rightarrow> return (Inr (cond_Status cond = ConditionTrue))
        | None \<Rightarrow> return (Inr False)))
   }"

definition installNetwork :: "KConfig \<Rightarrow> 's downstream \<Rightarrow> string \<Rightarrow> ('s, goerr + bool) state" where
  "installNetwork hubConfig d hostname = do {
     e \<leftarrow> andThen (ensureClusterIssuer d clusterIssuerName (kcfg_ACME hubConfig))
         (andThen (ensureGateway d downstreamNamespace gatewayName hostname certSecretName)
         (andThen (ensureCertificate d downstreamNamespace certificateName hostname certSecretName clusterIssuerName)
                  (ensureHTTPRoute d downstreamNamespace httpRouteName hostname gatewayName serviceName)));
     (case e of
        Some err \<Rightarrow> return (Inl err)
      | None \<Rightarrow> certificateReady d downstreamNamespace certificateName)
   }"

section \<open>DNS\<close>

text \<open>\<open>isIPv6 v\<close>: \<open>net.ParseIP(v)\<close> succeeds and the address has no IPv4 form.\<close>

definition gatewayAddress :: "(string \<Rightarrow> bool) \<Rightarrow> 's downstream \<Rightarrow> string \<Rightarrow> string \<Rightarrow>
    ('s, goerr + (string \<times> string) option) state" where
  "gatewayAddress isIPv6 d namespace name = do {
     g \<leftarrow> kget (dc_Gateway d) (namespace, name);
     (case g of
        Inl err \<Rightarrow> if isNotFound err then return (Inr None)
          else return (Inl (Errorf ''failed to fetch %q gateway: %w'' [name] [err]))
      | Inr gateway \<Rightarrow> (case gw_Addresses gateway of
          [] \<Rightarrow> return (Inr None)
        | address # _ \<Rightarrow>
            if gad_Type address = Some ''Hostname'' then return (Inr (Some (gad_Value address, dnsRecordTypeCNAME)))
            else if isIPv6 (gad_Value address) then return (Inr (Some (gad_Value address, dnsRecordTypeAAAA)))
            else return (Inr (Some (gad_Value address, dnsRecordTypeA)))))
   }"

definition dnsEndpointObj :: "string \<Rightarrow> string \<Rightarrow> string \<Rightarrow> string \<Rightarrow> string \<Rightarrow> DNSEndpoint" where
  "dnsEndpointObj namespace name hostname target recordType =
     \<lparr>de_meta = objectMeta namespace name,
      de_Spec = \<lparr>des_Endpoints = [\<lparr>ep_DNSName = hostname, ep_Targets = [target], ep_RecordType = recordType\<rparr>]\<rparr>,
      de_Status = \<lparr>dest_ObservedGeneration = 0\<rparr>\<rparr>"

definition ensureDNSEndpoint :: "'s downstream \<Rightarrow> string \<Rightarrow> string \<Rightarrow> string \<Rightarrow> string \<Rightarrow> string \<Rightarrow> ('s, goerr option) state" where
  "ensureDNSEndpoint d namespace name hostname target recordType =
     upsert (dc_DNSEndpoint d) de_meta (\<lambda>endpoint existing. existing\<lparr>de_Spec := de_Spec endpoint\<rparr>)
       ''failed to fetch existing %q dnsendpoint: %w'' ''failed to update %q dnsendpoint: %w''
       ''failed to create %q dnsendpoint: %w'' (dnsEndpointObj namespace name hostname target recordType)"

definition DNSRecordConditionType :: string where "DNSRecordConditionType = ''DNSRecord''"

definition reasonWaitingForGatewayAddress :: string where "reasonWaitingForGatewayAddress = ''WaitingForGatewayAddress''"

definition reasonDNSRecordCreated :: string where "reasonDNSRecordCreated = ''DNSRecordCreated''"

text \<open>
  \<open>reconcileDNS\<close> changes the condition of the Zone in memory only; it returns the Zone
  and whether the condition changed.
\<close>

definition setZoneCondition :: "apimachinery \<Rightarrow> Zone \<Rightarrow> Condition \<Rightarrow> bool \<times> Zone" where
  "setZoneCondition am zoneObj c = (case am_setStatusCondition am (zst_Conditions (zone_Status zoneObj)) c of
     (changed, cs) \<Rightarrow> (changed, zoneObj\<lparr>zone_Status := \<lparr>zst_Conditions = cs\<rparr>\<rparr>))"

definition reconcileDNS :: "apimachinery \<Rightarrow> (string \<Rightarrow> bool) \<Rightarrow> 's downstream \<Rightarrow> Zone \<Rightarrow> string \<Rightarrow>
    ('s, goerr + (bool \<times> Zone)) state" where
  "reconcileDNS am isIPv6 d zoneObj hostname = do {
     a \<leftarrow> gatewayAddress isIPv6 d downstreamNamespace gatewayName;
     (case a of
        Inl err \<Rightarrow> return (Inl err)
      | Inr None \<Rightarrow> return (Inr (setZoneCondition am zoneObj
          \<lparr>cond_Type = DNSRecordConditionType, cond_Status = ConditionFalse, cond_Reason = reasonWaitingForGatewayAddress,
           cond_Message = ''waiting for the downstream gateway to be assigned an address''\<rparr>))
      | Inr (Some (address, recordType)) \<Rightarrow> do {
          e \<leftarrow> ensureDNSEndpoint d downstreamNamespace dnsEndpointName hostname address recordType;
          (case e of
             Some err \<Rightarrow> return (Inl err)
           | None \<Rightarrow> return (Inr (setZoneCondition am zoneObj
               \<lparr>cond_Type = DNSRecordConditionType, cond_Status = ConditionTrue, cond_Reason = reasonDNSRecordCreated,
                cond_Message = ''created dns record for '' @ hostname\<rparr>)))
        })
   }"

section \<open>Deletion\<close>

abbreviation isNoMatchError :: "goerr \<Rightarrow> bool" where
  "isNoMatchError \<equiv> hasReason (OtherReason ''NoMatch'')"

definition IgnoreNotFoundOrNoMatch :: "goerr option \<Rightarrow> goerr option" where
  "IgnoreNotFoundOrNoMatch e = (case e of None \<Rightarrow> None
     | Some err \<Rightarrow> if isNotFound err \<or> isNoMatchError err then None else Some err)"

definition deleteHTTPRoute :: "'s downstream \<Rightarrow> string \<Rightarrow> string \<Rightarrow> ('s, goerr option) state" where
  "deleteHTTPRoute d namespace name = do {
     e \<leftarrow> kdelete (dc_HTTPRoute d) \<lparr>hr_meta = objectMeta namespace name,
       hr_Spec = \<lparr>hrs_Parents = [], hrs_Hostnames = [], hrs_Backends = []\<rparr>\<rparr>;
     return (wrapErr ''failed to delete %q httproute: %w'' [name] (IgnoreNotFoundOrNoMatch e))
   }"

definition deleteCertificate :: "'s downstream \<Rightarrow> string \<Rightarrow> string \<Rightarrow> ('s, goerr option) state" where
  "deleteCertificate d namespace name = do {
     e \<leftarrow> kdelete (dc_Certificate d) \<lparr>cert_meta = objectMeta namespace name,
       cert_Spec = \<lparr>csp_DNSNames = [], csp_SecretName = '''',
         csp_IssuerRef = \<lparr>rref_APIGroup = '''', rref_Kind = '''', rref_Name = ''''\<rparr>\<rparr>, cert_Conditions = []\<rparr>;
     return (wrapErr ''failed to delete %q certificate: %w'' [name] (IgnoreNotFoundOrNoMatch e))
   }"

definition deleteGateway :: "'s downstream \<Rightarrow> string \<Rightarrow> string \<Rightarrow> ('s, goerr option) state" where
  "deleteGateway d namespace name = do {
     e \<leftarrow> kdelete (dc_Gateway d) \<lparr>gw_meta = objectMeta namespace name,
       gw_Spec = \<lparr>gsp_GatewayClassName = '''', gsp_Listeners = []\<rparr>, gw_Addresses = []\<rparr>;
     return (wrapErr ''failed to delete %q gateway: %w'' [name] (IgnoreNotFoundOrNoMatch e))
   }"

definition deleteClusterIssuer :: "'s downstream \<Rightarrow> string \<Rightarrow> ('s, goerr option) state" where
  "deleteClusterIssuer d name = do {
     e \<leftarrow> kdelete (dc_ClusterIssuer d) \<lparr>iss_meta = objectMeta '''' name,
       iss_ACME = \<lparr>acme_Email = '''', acme_Server = '''', acme_SkipTLSVerify = False, acme_PrivateKey = '''',
         acme_SolverParents = []\<rparr>\<rparr>;
     return (wrapErr ''failed to delete %q clusterissuer: %w'' [name] (IgnoreNotFoundOrNoMatch e))
   }"

definition deleteDNSEndpoint :: "'s downstream \<Rightarrow> string \<Rightarrow> string \<Rightarrow> ('s, goerr option) state" where
  "deleteDNSEndpoint d namespace name = do {
     e \<leftarrow> kdelete (dc_DNSEndpoint d) \<lparr>de_meta = objectMeta namespace name, de_Spec = \<lparr>des_Endpoints = []\<rparr>,
       de_Status = \<lparr>dest_ObservedGeneration = 0\<rparr>\<rparr>;
     return (wrapErr ''failed to delete %q dnsendpoint: %w'' [name] (ignoreNotFound e))
   }"

end
