(* ===== verification/ZoneIdentity.thy ===== *)
theory ZoneIdentity
  imports ZoneNetwork
begin

text \<open>
  The rotation of a zone's etcd proxy identity: \<open>auth.go\<close> of \<open>pkg/domain/zone\<close>.  The
  private key lives in a Secret of the zone's own cluster, the public pair in a Secret of
  the hub; \<open>ensureEtcdIdentity\<close> issues the first identity, repairs the hub's copy after a
  half-finished rotation, and rotates when the current identity is due.
\<close>

section \<open>The reconciler\<close>

text \<open>
  The libraries of the zone reconciler: the clock, the helpers of apimachinery, the
  certificates, the URL text, semantic versions, the registry client that resolves image
  digests, the client builder, YAML credentials and the test for IPv6 addresses.
\<close>

record 's zonelibs =
  zl_world :: "'s world"
  zl_am :: apimachinery
  zl_crypto :: "'s crypto"
  zl_urlString :: "URL \<Rightarrow> string"
  zl_semver :: semverlib
  zl_parseCredential :: "string \<Rightarrow> goerr + (string \<times> string) list"
  zl_isIPv6 :: "string \<Rightarrow> bool"

type_synonym 's DownstreamClientBuilder = "string \<Rightarrow> ('s, goerr + 's downstream) state"

type_synonym 's DigestResolver = "string \<Rightarrow> ('s, goerr + string) state"

record 's ZoneReconciler =
  zr_Client :: "'s client"
  zr_DownstreamClientBuilder :: "'s DownstreamClientBuilder"
  zr_Digests :: "'s DigestResolver"
  zr_HubConfig :: KConfig
  zr_ImageRepo :: string
  zr_RetryInterval :: int
  zr_TeardownTimeout :: int
  zr_Locker :: "'s Locker"

abbreviation zoneName :: "Zone \<Rightarrow> string" where
  "zoneName z \<equiv> om_Name (zone_meta z)"

abbreviation zoneNamespace :: "Zone \<Rightarrow> string" where
  "zoneNamespace z \<equiv> om_Namespace (zone_meta z)"

section \<open>Schedule\<close>

definition identityCheckInterval :: int where "identityCheckInterval = 30 * minute"

definition minDuration :: "int \<Rightarrow> int \<Rightarrow> int" where
  "minDuration a b = (if a < b then a else b)"

definition reconcileIdentityRotationSchedule :: "'s zonelibs \<Rightarrow> 's ZoneReconciler \<Rightarrow> Zone \<Rightarrow> ('s, goerr + int) state" where
  "reconcileIdentityRotationSchedule lib r zoneObj = do {
     g \<leftarrow> kget (cl_Secret (zr_Client r)) (zoneNamespace zoneObj, AuthSecretName (zoneName zoneObj));
     (case g of
        Inl err \<Rightarrow> if isNotFound err then return (Inr 0)
          else return (Inl (Errorf ''failed to get identity secret for zone %q: %w'' [zoneName zoneObj] [err]))
      | Inr hubSecret \<Rightarrow> (case ParsePublicSecret (zl_crypto lib) hubSecret of
          None \<Rightarrow> return (Inr identityCheckInterval)
        | Some pair \<Rightarrow> do {
            now \<leftarrow> w_now (zl_world lib);
            let dueIn = DueAt (ip_Current pair) - now;
            if dueIn \<le> 0 then return (Inr identityCheckInterval)
            else return (Inr (minDuration dueIn identityCheckInterval))
          }))
   }"

section \<open>Persisting\<close>

text \<open>
  The Secret is created; when it exists, it is fetched and its data replaced.  The
  message of a failed create and of a failed update is the same.
\<close>

definition persistDownstreamIdentity :: "'s downstream \<Rightarrow> string \<Rightarrow> string \<Rightarrow> ('s, goerr option) state" where
  "persistDownstreamIdentity d certPEM keyPEM =
     upsert (dc_Secret d) sec_meta
       (\<lambda>_ existing. existing\<lparr>sec_StringData := [TLSCertKey \<mapsto> certPEM, TLSPrivateKeyKey \<mapsto> keyPEM]\<rparr>)
       ''failed to fetch existing %q secret: %w'' ''failed to persist %q secret: %w'' ''failed to persist %q secret: %w''
       (BuildDownstreamIdentitySecret downstreamNamespace certPEM keyPEM)"

definition persistHubPublicSecret :: "'s zonelibs \<Rightarrow> 's ZoneReconciler \<Rightarrow> Zone \<Rightarrow> IdentityPair \<Rightarrow> ('s, goerr option) state" where
  "persistHubPublicSecret lib r zoneObj pair =
     (let target0 = BuildPublicSecret (zl_crypto lib) (zoneName zoneObj) (zoneNamespace zoneObj) pair in
      case am_setControllerReference (zl_am lib) (zone_meta zoneObj) (sec_meta target0) of
        Inl err \<Rightarrow> return (Some (Errorf ''failed to set owner reference on %q secret: %w'' [om_Name (sec_meta target0)] [err]))
      | Inr m \<Rightarrow>
          (let target = target0\<lparr>sec_meta := m\<rparr>;
               persisted = (\<lambda>u. case u of
                  Inl err \<Rightarrow> return (Some (Errorf ''failed to persist identity secret for zone %q: %w'' [zoneName zoneObj] [err]))
                | Inr _ \<Rightarrow> return None)
           in do {
             g \<leftarrow> kget (cl_Secret (zr_Client r)) (keyOf (sec_meta target));
             (case g of
                Inl err \<Rightarrow>
                  if isNotFound err then do { u \<leftarrow> kcreate (cl_Secret (zr_Client r)) target; persisted u }
                  else return (Some (Errorf ''failed to get identity secret for zone %q: %w'' [zoneName zoneObj] [err]))
              | Inr existing \<Rightarrow> do {
                  u \<leftarrow> kupdate (cl_Secret (zr_Client r))
                    (target\<lparr>sec_meta := (sec_meta target)\<lparr>om_ResourceVersion := om_ResourceVersion (sec_meta existing)\<rparr>\<rparr>);
                  persisted u
                })
           }))"

section \<open>Issuing and rotating\<close>

definition deliverIdentity :: "'s zonelibs \<Rightarrow> 's downstream \<Rightarrow> Zone \<Rightarrow> ('s, goerr + string) state" where
  "deliverIdentity lib d zoneObj = do {
     gi \<leftarrow> GenerateIdentity (zl_world lib) (zl_crypto lib) (zoneName zoneObj);
     (case gi of
        Inl err \<Rightarrow> return (Inl (Errorf ''failed to generate identity for zone %q: %w'' [zoneName zoneObj] [err]))
      | Inr (certPEM, keyPEM) \<Rightarrow> do {
          e \<leftarrow> persistDownstreamIdentity d certPEM keyPEM;
          (case e of
             Some err \<Rightarrow> return (Inl (Errorf ''failed to persist downstream identity secret for zone %q: %w''
                                          [zoneName zoneObj] [err]))
           | None \<Rightarrow> return (Inr certPEM))
        })
   }"

definition issueInitialEtcdIdentity :: "'s zonelibs \<Rightarrow> 's ZoneReconciler \<Rightarrow> 's downstream \<Rightarrow> Zone \<Rightarrow> ('s, goerr option) state" where
  "issueInitialEtcdIdentity lib r d zoneObj = do {
     c \<leftarrow> deliverIdentity lib d zoneObj;
     (case c of
        Inl err \<Rightarrow> return (Some err)
      | Inr certPEM \<Rightarrow> do {
          now \<leftarrow> w_now (zl_world lib);
          let identity = \<lparr>ei_CertPEM = certPEM, ei_IssuedAt = now\<rparr>;
          persistHubPublicSecret lib r zoneObj \<lparr>ip_Current = identity, ip_Previous = identity\<rparr>
        })
   }"

definition rotateEtcdIdentity :: "'s zonelibs \<Rightarrow> 's ZoneReconciler \<Rightarrow> 's downstream \<Rightarrow> Zone \<Rightarrow> EtcdIdentity \<Rightarrow>
    ('s, goerr option) state" where
  "rotateEtcdIdentity lib r d zoneObj oldCurrent = do {
     c \<leftarrow> deliverIdentity lib d zoneObj;
     (case c of
        Inl err \<Rightarrow> return (Some err)
      | Inr certPEM \<Rightarrow> do {
          now \<leftarrow> w_now (zl_world lib);
          persistHubPublicSecret lib r zoneObj
            \<lparr>ip_Current = \<lparr>ei_CertPEM = certPEM, ei_IssuedAt = now\<rparr>, ip_Previous = oldCurrent\<rparr>
        })
   }"

definition resyncHubPublicSecret :: "'s zonelibs \<Rightarrow> 's ZoneReconciler \<Rightarrow> Zone \<Rightarrow> IdentityPair option \<Rightarrow> string \<Rightarrow>
    ('s, goerr option) state" where
  "resyncHubPublicSecret lib r zoneObj existing downstreamCert = do {
     now \<leftarrow> w_now (zl_world lib);
     let current = \<lparr>ei_CertPEM = downstreamCert, ei_IssuedAt = now\<rparr>;
     let previous = (case existing of None \<Rightarrow> current
        | Some pair \<Rightarrow> if length (ei_CertPEM (ip_Current pair)) > 0 then ip_Current pair else current);
     persistHubPublicSecret lib r zoneObj \<lparr>ip_Current = current, ip_Previous = previous\<rparr>
   }"

definition errDownstreamIdentityMissingCert :: goerr where
  "errDownstreamIdentityMissingCert = Sentinel ''downstream identity secret has no certificate''"

text \<open>The result is the flag \<open>rotated\<close> and the error, as in the source.\<close>

definition reconcileExistingEtcdIdentity :: "'s zonelibs \<Rightarrow> 's ZoneReconciler \<Rightarrow> 's downstream \<Rightarrow> Zone \<Rightarrow> Secret \<Rightarrow>
    ('s, bool \<times> goerr option) state" where
  "reconcileExistingEtcdIdentity lib r d zoneObj downstreamSecret =
     (let downstreamCert = dataField downstreamSecret TLSCertKey in
      if length downstreamCert = 0
      then return (False, Some (Errorf ''%w: zone %q'' [zoneName zoneObj] [errDownstreamIdentityMissingCert]))
      else do {
        g \<leftarrow> kget (cl_Secret (zr_Client r)) (zoneNamespace zoneObj, AuthSecretName (zoneName zoneObj));
        (if (case g of Inl err \<Rightarrow> \<not> isNotFound err | Inr _ \<Rightarrow> False)
         then return (False, Some (Errorf ''failed to get hub identity secret for zone %q: %w'' [zoneName zoneObj]
           (case g of Inl err \<Rightarrow> [err] | Inr _ \<Rightarrow> [])))
         else
           (let parsed = (case g of Inl _ \<Rightarrow> None | Inr hubSecret \<Rightarrow> ParsePublicSecret (zl_crypto lib) hubSecret) in
            case parsed of
              None \<Rightarrow> do { e \<leftarrow> resyncHubPublicSecret lib r zoneObj None downstreamCert; return (False, e) }
            | Some pair \<Rightarrow>
                if ei_CertPEM (ip_Current pair) \<noteq> downstreamCert
                then do { e \<leftarrow> resyncHubPublicSecret lib r zoneObj (Some pair) downstreamCert; return (False, e) }
                else do {
                  now \<leftarrow> w_now (zl_world lib);
                  if now < DueAt (ip_Current pair) then return (False, None)
                  else do { e \<leftarrow> rotateEtcdIdentity lib r d zoneObj (ip_Current pair); return (True, e) }
                }))
      })"

definition ensureEtcdIdentity :: "'s zonelibs \<Rightarrow> 's ZoneReconciler \<Rightarrow> 's downstream \<Rightarrow> Zone \<Rightarrow> ('s, bool \<times> goerr option) state" where
  "ensureEtcdIdentity lib r d zoneObj = do {
     g \<leftarrow> kget (dc_Secret d) (downstreamNamespace, IdentitySecretName);
     (case g of
        Inl err \<Rightarrow>
          if isNotFound err then do { e \<leftarrow> issueInitialEtcdIdentity lib r d zoneObj; return (False, e) }
          else return (False, Some (Errorf ''failed to get downstream identity secret for zone %q: %w'' [zoneName zoneObj] [err]))
      | Inr downstreamSecret \<Rightarrow> reconcileExistingEtcdIdentity lib r d zoneObj downstreamSecret)
   }"

definition errGRPCEndpointNotConfigured :: goerr where
  "errGRPCEndpointNotConfigured = Sentinel ''this hub has no KONTINUUM_SERVER_GRPC_ENDPOINT configured''"

definition zoneStorageDSN :: "'s zonelibs \<Rightarrow> 's ZoneReconciler \<Rightarrow> Zone \<Rightarrow> goerr + string" where
  "zoneStorageDSN lib r zoneObj =
     (let endpoint = kgrpc_Endpoint (ksrv_GRPC (kcfg_Server (zr_HubConfig r))) in
      if endpoint = '''' then Inl errGRPCEndpointNotConfigured
      else Inr (BuildRelayDSN (zl_urlString lib) (zoneName zoneObj) endpoint))"

section \<open>The two copies agree\<close>

text \<open>
  What the rotation relies on: both Secret stores are compare-and-swap stores whose
  objects are served with \<open>StringData\<close> merged into \<open>Data\<close>, they are different stores,
  reading the clock and generating keys touches neither, times and PEM text survive, and
  an owner reference does not rename the object.
\<close>

definition identity_world :: "'s zonelibs \<Rightarrow> 's ZoneReconciler \<Rightarrow> 's downstream \<Rightarrow> ('s \<Rightarrow> ObjectKey \<rightharpoonup> Secret) \<Rightarrow>
    ('s \<Rightarrow> ObjectKey \<rightharpoonup> Secret) \<Rightarrow> bool" where
  "identity_world lib r d hv dv \<longleftrightarrow>
     cas_store (cl_Secret (zr_Client r)) sec_meta secretBody hv \<and> cas_store (dc_Secret d) sec_meta secretBody dv \<and>
     kclient_quiet dv (cl_Secret (zr_Client r)) \<and> kclient_quiet hv (dc_Secret d) \<and>
     keyed sec_meta hv \<and> keyed sec_meta dv \<and>
     (\<forall>s k x. hv s k = Some x \<or> dv s k = Some x \<longrightarrow> sec_StringData x = Map.empty) \<and>
     (\<forall>view\<in>{hv, dv}. quiet view (w_now (zl_world lib)) \<and> quiet view (cx_generateKey (zl_crypto lib)) \<and>
        (\<forall>n. quiet view (cx_randInt (zl_crypto lib) n)) \<and>
        (\<forall>c p k. quiet view (cx_createCertificate (zl_crypto lib) c p k))) \<and>
     time_ok (zl_crypto lib) \<and> (\<forall>x. cx_pemEncode (zl_crypto lib) ''CERTIFICATE'' x \<noteq> '''') \<and>
     (\<forall>own m m'. am_setControllerReference (zl_am lib) own m = Inr m' \<longrightarrow> keyOf m' = keyOf m)"

abbreviation hubKey :: "Zone \<Rightarrow> ObjectKey" where
  "hubKey z \<equiv> (zoneNamespace z, AuthSecretName (zoneName z))"

abbreviation downKey :: ObjectKey where
  "downKey \<equiv> (downstreamNamespace, IdentitySecretName)"

text \<open>The pair the hub has published and the certificate the zone was handed.\<close>

definition hubPair :: "'s zonelibs \<Rightarrow> ('s \<Rightarrow> ObjectKey \<rightharpoonup> Secret) \<Rightarrow> Zone \<Rightarrow> 's \<Rightarrow> IdentityPair option" where
  "hubPair lib hv z s = Option.bind (hv s (hubKey z)) (ParsePublicSecret (zl_crypto lib))"

definition downCert :: "('s \<Rightarrow> ObjectKey \<rightharpoonup> Secret) \<Rightarrow> 's \<Rightarrow> string" where
  "downCert dv s = (case dv s downKey of None \<Rightarrow> '''' | Some x \<Rightarrow> dataField x TLSCertKey)"

lemma GenerateIdentity_quiet:
  assumes "quiet view (w_now w)" and "quiet view (cx_generateKey cx)" and "\<And>n. quiet view (cx_randInt cx n)"
    and "\<And>c p k. quiet view (cx_createCertificate cx c p k)"
  shows "quiet view (GenerateIdentity w cx z)"
  using assms unfolding GenerateIdentity_def quiet_iff by (auto intro!: leaves_rules)

lemma GenerateIdentity_pem:
  assumes "\<And>x. cx_pemEncode cx ''CERTIFICATE'' x \<noteq> ''''" and "run_state (GenerateIdentity w cx z) s = (Inr (c, k), t)"
  shows "c \<noteq> ''''"
  using assms(2) assms(1) unfolding GenerateIdentity_def
  by (auto split: sum.splits prod.splits)

lemmas identity_worldD = iffD1 [OF identity_world_def]

lemma published_parses:
  assumes "time_ok cx" and "sec_Data y = secretBody (BuildPublicSecret cx n ns pair)"
    and "ei_CertPEM (ip_Current pair) \<noteq> ''''" "ei_CertPEM (ip_Previous pair) \<noteq> ''''"
  shows "ParsePublicSecret cx y = Some pair"
proof -
  have "sec_Data y = sec_Data (served (BuildPublicSecret cx n ns pair))"
    using assms(2) by (simp add: served_def)
  with assms(1,3,4) show ?thesis
    by (simp add: ParsePublicSecret_def parseIdentity_def dataField_def served_public_fields time_ok_def)
qed

text \<open>Publishing a pair of non-empty certificates: the hub then serves exactly this pair.\<close>

lemma persistHub_writes:
  assumes w: "identity_world lib r d hv dv" and r: "run_state (persistHubPublicSecret lib r z pair) s = (None, t)"
  shows "\<exists>y. hv t (hubKey z) = Some y \<and>
    secretBody y = secretBody (BuildPublicSecret (zl_crypto lib) (zoneName z) (zoneNamespace z) pair) \<and> dv t = dv s"
proof -
  let ?c = "cl_Secret (zr_Client r)" and ?b = "BuildPublicSecret (zl_crypto lib) (zoneName z) (zoneNamespace z) pair"
  note c = identity_worldD [OF w, THEN conjunct1]
  have q: "kclient_quiet dv ?c" using w by (simp add: identity_world_def)
  have bk: "keyOf (sec_meta ?b) = hubKey z" by (simp add: BuildPublicSecret_def secretObj_def)
  obtain m where m: "am_setControllerReference (zl_am lib) (zone_meta z) (sec_meta ?b) = Inr m"
    using r by (cases "am_setControllerReference (zl_am lib) (zone_meta z) (sec_meta ?b)")
      (simp_all add: persistHubPublicSecret_def Let_def)
  then have mk: "keyOf m = hubKey z" using w bk unfolding identity_world_def by metis
  obtain g s1 where g: "run_state (kget ?c (hubKey z)) s = (g, s1)" by fastforce
  have d1: "dv s1 = dv s" using kclient_quietD(1) [OF q g] .
  let ?t = "?b\<lparr>sec_meta := m\<rparr>"
  show ?thesis
  proof (cases g)
    case (Inl err)
    obtain u s2 where u: "run_state (kcreate ?c ?t) s1 = (u, s2)" by fastforce
    with r m mk g Inl obtain y where "u = Inr y" "t = s2"
      by (cases u) (auto simp: persistHubPublicSecret_def Let_def split: if_splits)
    with u d1 cas_store_create(2,3) [OF c, of ?t s1 y] kclient_quietD(3) [OF q u] show ?thesis
      by (simp add: mk secretBody_def)
  next
    case (Inr e)
    let ?u = "?t\<lparr>sec_meta := m\<lparr>om_ResourceVersion := om_ResourceVersion (sec_meta e)\<rparr>\<rparr>"
    obtain u s2 where u: "run_state (kupdate ?c ?u) s1 = (u, s2)" by fastforce
    with r m mk g Inr obtain y where "u = Inr y" "t = s2"
      by (cases u) (auto simp: persistHubPublicSecret_def Let_def split: if_splits)
    moreover have "keyOf (m\<lparr>om_ResourceVersion := v\<rparr>) = hubKey z" for v using mk by (simp add: keyOf_def)
    ultimately show ?thesis
      using u d1 cas_store_update(2,4) [OF c, of ?u s1 y] kclient_quietD(4) [OF q u] by (simp add: secretBody_def)
  qed
qed

lemma persistHub_publishes:
  assumes w: "identity_world lib r d hv dv" and r: "run_state (persistHubPublicSecret lib r z pair) s = (None, t)"
    and ne: "ei_CertPEM (ip_Current pair) \<noteq> ''''" "ei_CertPEM (ip_Previous pair) \<noteq> ''''"
  shows "hubPair lib hv z t = Some pair \<and> dv t = dv s"
proof -
  obtain y where y: "hv t (hubKey z) = Some y" "dv t = dv s"
      "secretBody y = secretBody (BuildPublicSecret (zl_crypto lib) (zoneName z) (zoneNamespace z) pair)"
    using persistHub_writes [OF w r] by blast
  have "sec_StringData y = Map.empty" using w y(1) unfolding identity_world_def by blast
  then have "sec_Data y = secretBody y" by (simp add: secretBody_def)
  with published_parses [of "zl_crypto lib" y "zoneName z" "zoneNamespace z" pair] w ne y show ?thesis
    by (simp add: hubPair_def identity_world_def)
qed

text \<open>Delivering a new key: the zone's cluster then holds its certificate and the hub is untouched.\<close>

lemma deliver_delivers:
  assumes w: "identity_world lib r d hv dv" and r: "run_state (deliverIdentity lib d z) s = (Inr c, t)"
  shows "c \<noteq> '''' \<and> downCert dv t = c \<and> dv t downKey \<noteq> None \<and> hv t = hv s"
proof -
  let ?G = "GenerateIdentity (zl_world lib) (zl_crypto lib) (zoneName z)"
  obtain gi s1 where gi: "run_state ?G s = (gi, s1)" by fastforce
  obtain k where k: "gi = Inr (c, k)" and p: "run_state (persistDownstreamIdentity d c k) s1 = (None, t)"
    using r gi by (auto simp: deliverIdentity_def split: sum.splits option.splits prod.splits)
  have "quiet hv ?G" by (rule GenerateIdentity_quiet) (use w in \<open>simp_all add: identity_world_def\<close>)
  then have h1: "hv s1 = hv s" using gi by (rule quiet_run)
  have "quiet hv (persistDownstreamIdentity d c k)"
    unfolding persistDownstreamIdentity_def by (rule upsert_quiet) (use w in \<open>simp add: identity_world_def\<close>)
  then have h2: "hv t = hv s1" using p by (rule quiet_run)
  have "\<exists>y. dv t = (dv s1)(downKey \<mapsto> y) \<and>
      (secretBody y = secretBody (BuildDownstreamIdentitySecret downstreamNamespace c k) \<or>
       (\<exists>e. dv s1 downKey = Some e \<and> secretBody y = secretBody (e\<lparr>sec_StringData := [TLSCertKey \<mapsto> c, TLSPrivateKeyKey \<mapsto> k]\<rparr>)))"
    using upsert_stored [OF _ _ _ p [unfolded persistDownstreamIdentity_def], of secretBody dv] w
    by (simp add: identity_world_def BuildDownstreamIdentitySecret_def secretObj_def)
  then obtain y where y: "dv t downKey = Some y" and b: "secretBody y TLSCertKey = Some c"
    by (auto simp: secretBody_def BuildDownstreamIdentitySecret_def secretObj_def TLSCertKey_def TLSPrivateKeyKey_def)
  have "sec_StringData y = Map.empty" using w y unfolding identity_world_def by blast
  then have "dataField y TLSCertKey = c" using b by (simp add: secretBody_def dataField_def)
  moreover have "c \<noteq> ''''"
    by (rule GenerateIdentity_pem [OF _ gi [unfolded k]]) (use w in \<open>simp add: identity_world_def\<close>)
  ultimately show ?thesis using y h1 h2 by (simp add: downCert_def)
qed

definition in_sync :: "'s zonelibs \<Rightarrow> ('s \<Rightarrow> ObjectKey \<rightharpoonup> Secret) \<Rightarrow> ('s \<Rightarrow> ObjectKey \<rightharpoonup> Secret) \<Rightarrow> Zone \<Rightarrow> 's \<Rightarrow> bool \<Rightarrow> 's \<Rightarrow> bool" where
  "in_sync lib hv dv z s rotated t \<longleftrightarrow> (\<exists>pair. hubPair lib hv z t = Some pair \<and>
     ei_CertPEM (ip_Current pair) = downCert dv t \<and> downCert dv t \<noteq> '''' \<and>
     (dv s downKey \<noteq> None \<longrightarrow> (\<forall>p0. hubPair lib hv z s = Some p0 \<longrightarrow> ip_Current p0 \<in> {ip_Current pair, ip_Previous pair})) \<and>
     (if rotated then \<exists>p0. hubPair lib hv z s = Some p0 \<and> ei_CertPEM (ip_Current p0) = downCert dv s \<and> ip_Previous pair = ip_Current p0
      else dv s downKey \<noteq> None \<longrightarrow> downCert dv t = downCert dv s))"

lemma parse_nonempty:
  "ParsePublicSecret cx x = Some p \<Longrightarrow> ei_CertPEM (ip_Current p) \<noteq> '''' \<and> ei_CertPEM (ip_Previous p) \<noteq> ''''"
  by (auto simp: ParsePublicSecret_def parseIdentity_def split: option.splits sum.splits if_splits)

lemma now_run:
  assumes w: "identity_world lib r d hv dv" and r: "run_state (w_now (zl_world lib)) s = (now, t)"
  shows "hv t = hv s \<and> dv t = dv s"
  using w quiet_run [OF _ r] by (auto simp: identity_world_def)

lemma hubPair_cong: "hv t = hv s \<Longrightarrow> hubPair lib hv z t = hubPair lib hv z s"
  by (simp add: hubPair_def)

lemma downCert_cong: "dv t = dv s \<Longrightarrow> downCert dv t = downCert dv s"
  by (simp add: downCert_def)

lemma in_sync_cong:
  "hv s1 = hv s \<Longrightarrow> dv s1 = dv s \<Longrightarrow> in_sync lib hv dv z s1 rotated t = in_sync lib hv dv z s rotated t"
  unfolding in_sync_def hubPair_def downCert_def by simp

lemma issue_syncs:
  assumes w: "identity_world lib r d hv dv" and r: "run_state (issueInitialEtcdIdentity lib r d z) s = (None, t)"
    and n: "dv s downKey = None"
  shows "in_sync lib hv dv z s False t"
proof -
  obtain dr s1 where dr: "run_state (deliverIdentity lib d z) s = (dr, s1)" by fastforce
  with r obtain c where c: "dr = Inr c" by (cases dr) (simp_all add: issueInitialEtcdIdentity_def)
  obtain now s2 where nw: "run_state (w_now (zl_world lib)) s1 = (now, s2)" by fastforce
  let ?i = "\<lparr>ei_CertPEM = c, ei_IssuedAt = now\<rparr>"
  have p: "run_state (persistHubPublicSecret lib r z \<lparr>ip_Current = ?i, ip_Previous = ?i\<rparr>) s2 = (None, t)"
    using r dr c nw by (simp add: issueInitialEtcdIdentity_def Let_def)
  note dl = deliver_delivers [OF w dr [unfolded c]]
  show ?thesis
    using persistHub_publishes [OF w p] dl now_run [OF w nw] n
    by (auto simp: in_sync_def downCert_def)
qed

lemma rotate_syncs:
  assumes w: "identity_world lib r d hv dv" and r: "run_state (rotateEtcdIdentity lib r d z (ip_Current p0)) s = (None, t)"
    and p0: "hubPair lib hv z s = Some p0" "ei_CertPEM (ip_Current p0) = downCert dv s"
  shows "in_sync lib hv dv z s True t"
proof -
  obtain dr s1 where dr: "run_state (deliverIdentity lib d z) s = (dr, s1)" by fastforce
  with r obtain c where c: "dr = Inr c" by (cases dr) (simp_all add: rotateEtcdIdentity_def)
  obtain now s2 where nw: "run_state (w_now (zl_world lib)) s1 = (now, s2)" by fastforce
  have p: "run_state (persistHubPublicSecret lib r z
      \<lparr>ip_Current = \<lparr>ei_CertPEM = c, ei_IssuedAt = now\<rparr>, ip_Previous = ip_Current p0\<rparr>) s2 = (None, t)"
    using r dr c nw by (simp add: rotateEtcdIdentity_def)
  have "ei_CertPEM (ip_Current p0) \<noteq> ''''"
    using p0(1) parse_nonempty by (fastforce simp: hubPair_def Option.bind_eq_Some_conv)
  then show ?thesis
    using persistHub_publishes [OF w p] deliver_delivers [OF w dr [unfolded c]] now_run [OF w nw] p0
    by (auto simp: in_sync_def downCert_def)
qed

lemma resync_syncs:
  assumes w: "identity_world lib r d hv dv"
    and r: "run_state (resyncHubPublicSecret lib r z (hubPair lib hv z s) (downCert dv s)) s = (None, t)"
    and ne: "downCert dv s \<noteq> ''''"
  shows "in_sync lib hv dv z s False t"
proof -
  obtain now s2 where nw: "run_state (w_now (zl_world lib)) s = (now, s2)" by fastforce
  let ?i = "\<lparr>ei_CertPEM = downCert dv s, ei_IssuedAt = now\<rparr>"
  define prev where "prev = (case hubPair lib hv z s of None \<Rightarrow> ?i
    | Some pair \<Rightarrow> if length (ei_CertPEM (ip_Current pair)) > 0 then ip_Current pair else ?i)"
  have p: "run_state (persistHubPublicSecret lib r z \<lparr>ip_Current = ?i, ip_Previous = prev\<rparr>) s2 = (None, t)"
    using r nw by (simp add: resyncHubPublicSecret_def Let_def prev_def)
  have pn: "ei_CertPEM (ip_Current p0) \<noteq> ''''" if "hubPair lib hv z s = Some p0" for p0
    using that parse_nonempty by (fastforce simp: hubPair_def Option.bind_eq_Some_conv)
  have "ei_CertPEM prev \<noteq> ''''" and "hubPair lib hv z s = Some p0 \<Longrightarrow> prev = ip_Current p0" for p0
    using ne pn by (auto simp: prev_def split: option.splits)
  then show ?thesis
    using persistHub_publishes [OF w p] now_run [OF w nw] ne by (auto simp: in_sync_def downCert_def)
qed

lemma existing_syncs:
  assumes w: "identity_world lib r d hv dv" and ds: "dv s downKey = Some ds"
    and r: "run_state (reconcileExistingEtcdIdentity lib r d z ds) s = ((rotated, None), t)"
  shows "in_sync lib hv dv z s rotated t"
proof -
  have dc: "dataField ds TLSCertKey = downCert dv s" by (simp add: downCert_def ds)
  have ne: "downCert dv s \<noteq> ''''" using r by (auto simp: reconcileExistingEtcdIdentity_def Let_def dc)
  obtain g s1 where g: "run_state (kget (cl_Secret (zr_Client r)) (hubKey z)) s = (g, s1)" by fastforce
  note c = identity_worldD [OF w, THEN conjunct1]
  have q: "kclient_quiet dv (cl_Secret (zr_Client r))" using w by (simp add: identity_world_def)
  have v: "hv s1 = hv s" "dv s1 = dv s" using cas_store_get(1) [OF c, of "hubKey z" s] kclient_quietD(1) [OF q g] g by simp_all
  have pr: "(case g of Inl _ \<Rightarrow> None | Inr x \<Rightarrow> ParsePublicSecret (zl_crypto lib) x) = hubPair lib hv z s1"
    if "\<forall>err. g = Inl err \<longrightarrow> isNotFound err"
    using that cas_store_get(2,3) [OF c, of "hubKey z" s] g by (auto simp: hubPair_def v split: sum.splits)
  have nf: "\<forall>err. g = Inl err \<longrightarrow> isNotFound err"
    using r g ne by (auto simp: reconcileExistingEtcdIdentity_def Let_def dc split: if_splits)
  have sync: "in_sync lib hv dv z s1 rotated t"
  proof (cases "hubPair lib hv z s1")
    case None
    then have "run_state (resyncHubPublicSecret lib r z (hubPair lib hv z s1) (downCert dv s1)) s1 = (None, t) \<and> \<not> rotated"
      using r g ne nf pr [OF nf] downCert_cong [OF v(2)]
      by (auto simp: reconcileExistingEtcdIdentity_def Let_def dc split: if_splits prod.splits sum.splits)
    with resync_syncs [OF w, of z s1 t] ne downCert_cong [OF v(2)] show ?thesis by simp
  next
    case (Some p)
    show ?thesis
    proof (cases "ei_CertPEM (ip_Current p) = downCert dv s")
      case False
      then have "run_state (resyncHubPublicSecret lib r z (hubPair lib hv z s1) (downCert dv s1)) s1 = (None, t) \<and> \<not> rotated"
        using r g ne nf pr [OF nf] downCert_cong [OF v(2)] Some
        by (auto simp: reconcileExistingEtcdIdentity_def Let_def dc split: if_splits prod.splits sum.splits)
      with resync_syncs [OF w, of z s1 t] ne downCert_cong [OF v(2)] show ?thesis by simp
    next
      case True
      obtain now s2 where nw: "run_state (w_now (zl_world lib)) s1 = (now, s2)" by fastforce
      have v2: "hv s2 = hv s1" "dv s2 = dv s1" using now_run [OF w nw] by simp_all
      have cs: "(if now < DueAt (ip_Current p) then t = s2 \<and> \<not> rotated
          else run_state (rotateEtcdIdentity lib r d z (ip_Current p)) s2 = (None, t) \<and> rotated)"
        using r g ne nf pr [OF nf] Some True nw
        by (auto simp: reconcileExistingEtcdIdentity_def Let_def dc split: if_splits prod.splits sum.splits)
      show ?thesis
      proof (cases "now < DueAt (ip_Current p)")
        case soon: True
        with cs show ?thesis
          using Some True ne v2 v by (auto simp: in_sync_def hubPair_def downCert_def)
      next
        case False
        with cs rotate_syncs [OF w, of z p s2 t] have "in_sync lib hv dv z s2 rotated t"
          using Some True hubPair_cong [OF v2(1)] downCert_cong [of dv s2 s] v v2 by simp
        then show ?thesis by (simp add: in_sync_cong [OF v2])
      qed
    qed
  qed
  then show ?thesis by (simp add: in_sync_cong [OF v])
qed

lemma ensureEtcdIdentity_syncs:
  assumes w: "identity_world lib r d hv dv" and r: "run_state (ensureEtcdIdentity lib r d z) s = ((rotated, None), t)"
  shows "in_sync lib hv dv z s rotated t"
proof -
  have c: "cas_store (dc_Secret d) sec_meta secretBody dv" and q: "kclient_quiet hv (dc_Secret d)"
    using w by (simp_all add: identity_world_def)
  obtain g s1 where g: "run_state (kget (dc_Secret d) downKey) s = (g, s1)" by fastforce
  have v: "dv s1 = dv s" "hv s1 = hv s" using cas_store_get(1) [OF c, of downKey s] kclient_quietD(1) [OF q g] g by simp_all
  have "in_sync lib hv dv z s1 rotated t"
  proof (cases g)
    case (Inl err)
    with r g have "isNotFound err" "run_state (issueInitialEtcdIdentity lib r d z) s1 = (None, t)" "\<not> rotated"
      by (auto simp: ensureEtcdIdentity_def split: if_splits prod.splits)
    with issue_syncs [OF w, of z s1 t] cas_store_get(3) [OF c, of downKey s err] g Inl v show ?thesis by simp
  next
    case (Inr ds)
    with r g have "run_state (reconcileExistingEtcdIdentity lib r d z ds) s1 = ((rotated, None), t)"
      by (simp add: ensureEtcdIdentity_def)
    with existing_syncs [OF w, of s1 ds] cas_store_get(2) [OF c, of downKey s ds] g Inr v show ?thesis by simp
  qed
  then show ?thesis by (simp add: in_sync_cong [OF v(2,1)])
qed


section \<open>A concrete world\<close>

text \<open>
  An in-memory Secret store that serves Secrets as the API server does; the world of a hub
  and a zone's cluster has two of them.
\<close>

definition served_view :: "Secret memstore \<Rightarrow> ObjectKey \<rightharpoonup> Secret" where
  "served_view s k = map_option served (mem_view sec_meta s k)"

definition served_client :: "(Secret memstore, Secret) kclient" where
  "served_client = (mem_client (\<lambda>m x. (served x)\<lparr>sec_meta := m\<rparr>) sec_meta)
     \<lparr>kget := (\<lambda>k. State (\<lambda>s. (case served_view s k of None \<Rightarrow> Inl (ApiError NotFound) | Some x \<Rightarrow> Inr x, s)))\<rparr>"

lemma served_simps [simp]:
  "sec_meta (served x) = sec_meta x" "secretBody (served x) = secretBody x" "sec_StringData (served x) = Map.empty"
  "secretBody (x\<lparr>sec_meta := m\<rparr>) = secretBody x" "served ((served x)\<lparr>sec_meta := m\<rparr>) = (served x)\<lparr>sec_meta := m\<rparr>"
  by (simp_all add: served_def secretBody_def)

lemma served_client_cas: "cas_store served_client sec_meta secretBody served_view"
  unfolding cas_store_def served_client_def mem_client_def
  by (auto simp: mem_write_result mem_write_view served_view_def create_takes_def update_takes_def stored_as_def fun_eq_iff
      split: option.splits if_splits sum.splits)

lemma served_keyed: "keyed sec_meta served_view"
  by (auto simp: keyed_def served_view_def dest: mem_view_key)

type_synonym zone_demo = "Secret memstore \<times> Secret memstore"

definition demo_hub_secrets :: "(zone_demo, Secret) kclient" where
  "demo_hub_secrets = zoom_client fst (\<lambda>a s. (a, snd s)) served_client"

definition demo_down_secrets :: "(zone_demo, Secret) kclient" where
  "demo_down_secrets = zoom_client snd (\<lambda>a s. (fst s, a)) served_client"

definition demo_downstream :: "zone_demo downstream" where
  "demo_downstream = \<lparr>dc_Namespace = down_kclient, dc_Secret = demo_down_secrets, dc_ConfigMap = down_kclient,
     dc_ServiceAccount = down_kclient, dc_Role = down_kclient, dc_RoleBinding = down_kclient,
     dc_Deployment = down_kclient, dc_Service = down_kclient, dc_ClusterIssuer = down_kclient,
     dc_Gateway = down_kclient, dc_Certificate = down_kclient, dc_HTTPRoute = down_kclient, dc_DNSEndpoint = down_kclient\<rparr>"

definition demo_zone_crypto :: "'s crypto" where
  "demo_zone_crypto = \<lparr>cx_generateKey = return (Inr (''pub'', ''priv'')), cx_randInt = (\<lambda>_. return (Inr 7)),
     cx_createCertificate = (\<lambda>_ pub _. return (Inr pub)), cx_marshalPKCS8 = Inr, cx_parsePKCS8 = (\<lambda>x. Inr (Ed25519Private x)),
     cx_pemEncode = (\<lambda>t x. t @ x), cx_pemDecode = (\<lambda>x. Some (drop 11 x)),
     cx_parseCertificate = (\<lambda>x. Inr \<lparr>ct_Raw = x, ct_PublicKey = Ed25519Public x\<rparr>),
     cx_sha256 = (\<lambda>_. []), cx_formatTime = demo_format, cx_parseTime = demo_parse\<rparr>"

definition demo_zonelibs :: "int \<Rightarrow> 's zonelibs" where
  "demo_zonelibs now = \<lparr>zl_world = still_world now, zl_am = std_apimachinery (\<lambda>_. Inr (\<lambda>_. True)), zl_crypto = demo_zone_crypto,
     zl_urlString = (\<lambda>u. url_Host u), zl_semver = \<lparr>sv_IsValid = (\<lambda>_. False), sv_Compare = (\<lambda>_ _. 0)\<rparr>,
     zl_parseCredential = (\<lambda>_. Inr []), zl_isIPv6 = (\<lambda>_. False)\<rparr>"

definition demo_zone_reconciler :: "zone_demo ZoneReconciler" where
  "demo_zone_reconciler = \<lparr>zr_Client = down_client\<lparr>cl_Secret := demo_hub_secrets\<rparr>,
     zr_DownstreamClientBuilder = (\<lambda>_. return (Inr demo_downstream)), zr_Digests = (\<lambda>_. return (Inl unavailable)),
     zr_HubConfig = zeroConfigStatus, zr_ImageRepo = ''repo'', zr_RetryInterval = 15 * second,
     zr_TeardownTimeout = 15 * minute, zr_Locker = NewLocker down_client down_client ''hub'' '''' 0\<rparr>"

definition demo_zone :: Zone where
  "demo_zone = \<lparr>zone_meta = objectMeta ''kontinuum-system'' ''eu-1'', zone_Spec = \<lparr>zsp_Region = ''eu'', zsp_Zone = ''1'', zsp_Domain = ''''\<rparr>,
     zone_Status = \<lparr>zst_Conditions = []\<rparr>\<rparr>"

lemma demo_zone_simps:
  "cl_Secret (zr_Client demo_zone_reconciler) = demo_hub_secrets" "dc_Secret demo_downstream = demo_down_secrets"
  "zl_world (demo_zonelibs now) = still_world now" "zl_crypto (demo_zonelibs now) = demo_zone_crypto"
  "zl_am (demo_zonelibs now) = std_apimachinery (\<lambda>_. Inr (\<lambda>_. True))"
  by (simp_all add: demo_zone_reconciler_def demo_downstream_def demo_zonelibs_def)

lemma demo_identity_world:
  "identity_world (demo_zonelibs now) demo_zone_reconciler demo_downstream (\<lambda>s. served_view (fst s)) (\<lambda>s. served_view (snd s))"
  unfolding identity_world_def demo_zone_simps demo_hub_secrets_def demo_down_secrets_def
proof (intro conjI)
  show "time_ok demo_zone_crypto"
    using demo_time_ok by (simp add: time_ok_def demo_crypto_def demo_zone_crypto_def)
  show "\<forall>s k x. served_view (fst s) k = Some x \<or> served_view (snd s) k = Some x \<longrightarrow> sec_StringData x = Map.empty"
    by (auto simp: served_view_def)
qed (use served_keyed in \<open>auto intro: zoom_cas_store served_client_cas zoom_quiet
      simp: demo_zone_crypto_def still_world_def quiet_def keyed_def std_apimachinery_def keyOf_def\<close>)


end
