(* ===== verification/ZoneInference.thy ===== *)
theory ZoneInference
  imports ZoneIdentity
begin

text \<open>
  What the zone controller reads off the registry: \<open>inference.go\<close>, \<open>imageresolve.go\<close> and
  \<open>downstreamclient.go\<close> of \<open>pkg/domain/zone\<close>, and the choice of the image to deploy
  (\<open>resolveImage\<close> of \<open>controller.go\<close>).
\<close>

section \<open>Sorting with a comparison\<close>

text \<open>\<open>sort.Slice\<close> with a \<open>less\<close> function.\<close>

fun insertLess :: "('a \<Rightarrow> 'a \<Rightarrow> bool) \<Rightarrow> 'a \<Rightarrow> 'a list \<Rightarrow> 'a list" where
  "insertLess lt x [] = [x]"
| "insertLess lt x (y # ys) = (if lt y x then y # insertLess lt x ys else x # y # ys)"

fun sortLess :: "('a \<Rightarrow> 'a \<Rightarrow> bool) \<Rightarrow> 'a list \<Rightarrow> 'a list" where
  "sortLess lt [] = []"
| "sortLess lt (x # xs) = insertLess lt x (sortLess lt xs)"

lemma insertLess_set [simp]: "set (insertLess lt x ys) = insert x (set ys)"
  by (induction ys) auto

lemma sortLess_set [simp]: "set (sortLess lt xs) = set xs"
  by (induction xs) auto

lemma insertLess_Nil [simp]: "insertLess lt x ys \<noteq> []"
  by (cases ys) auto

lemma sortLess_Nil [simp]: "sortLess lt xs = [] \<longleftrightarrow> xs = []"
  by (cases xs) auto

text \<open>For a comparison that is transitive where it says no, nothing is less than the head.\<close>

lemma insertLess_hd: "hd (insertLess lt x ys) = (if ys \<noteq> [] \<and> lt (hd ys) x then hd ys else x)"
  by (cases ys) auto

lemma sortLess_hd_least:
  assumes tr: "\<And>a b c. \<not> lt a b \<Longrightarrow> \<not> lt b c \<Longrightarrow> \<not> lt a c"
    and as: "\<And>a b. lt a b \<Longrightarrow> \<not> lt b a"
  shows "x \<in> set xs \<Longrightarrow> \<not> lt x (hd (sortLess lt xs))"
proof (induction xs)
  case (Cons y ys)
  have irr: "\<not> lt a a" for a using as by blast
  show ?case
  proof (cases "ys = []")
    case True
    then show ?thesis using Cons.prems irr by simp
  next
    case False
    let ?h = "hd (sortLess lt ys)"
    have h: "hd (sortLess lt (y # ys)) = (if lt ?h y then ?h else y)" using False by (simp add: insertLess_hd)
    show ?thesis
    proof (cases "x = y")
      case True
      then show ?thesis using h as irr by auto
    next
      case ne: False
      then have "\<not> lt x ?h" using Cons by simp
      then show ?thesis using h tr [of x ?h y] by auto
    qed
  qed
qed simp

section \<open>Reading the registry\<close>

definition errNoRegisteredKontinuum :: goerr where
  "errNoRegisteredKontinuum = Sentinel ''no registered kontinuum found''"

definition errNoKontinuumDNSDomain :: goerr where
  "errNoKontinuumDNSDomain = Sentinel ''no registered kontinuum publishes a DNS domain''"

definition errNoKontinuumVersion :: goerr where
  "errNoKontinuumVersion = Sentinel ''no registered kontinuum reports a version yet''"

abbreviation kontinuumName :: "Kontinuum \<Rightarrow> string" where
  "kontinuumName k \<equiv> om_Name (kon_meta k)"

definition anyRegisteredKontinuum :: "'s client \<Rightarrow> ('s, goerr + Kontinuum) state" where
  "anyRegisteredKontinuum c = do {
     l \<leftarrow> klist (cl_Kontinuum c) None (\<lambda>_. True);
     (case l of
        Inl err \<Rightarrow> return (Inl (Errorf ''failed to list kontinuums: %w'' [] [err]))
      | Inr items \<Rightarrow>
          if items = [] then return (Inl errNoRegisteredKontinuum)
          else return (Inr (hd (sort_by kontinuumName items))))
   }"

definition FindJoinedKontinuum :: "'s client \<Rightarrow> string \<Rightarrow> string \<Rightarrow> ('s, goerr + Kontinuum option) state" where
  "FindJoinedKontinuum c region zone = do {
     l \<leftarrow> klist (cl_Kontinuum c) (Some KontinuumSystemNamespace) (\<lambda>_. True);
     (case l of
        Inl err \<Rightarrow> return (Inl (Errorf ''failed to list kontinuums: %w'' [] [err]))
      | Inr items \<Rightarrow> return (Inr (find (\<lambda>item. ksp_Region (kon_Spec item) = region \<and> ksp_Zone (kon_Spec item) = zone \<and>
            kst_LastHeartbeatTime (kon_Status item) \<noteq> 0) (sort_by kontinuumName items))))
   }"

definition findKontinuumDomain :: "'s client \<Rightarrow> ('s, goerr + string) state" where
  "findKontinuumDomain c = do {
     k \<leftarrow> anyRegisteredKontinuum c;
     (case k of
        Inl err \<Rightarrow> return (Inl err)
      | Inr kontinuum \<Rightarrow>
          let domain = kdns_Domain (ksrv_DNS (kcfg_Server (kst_Config (kon_Status kontinuum)))) in
          if domain = '''' then return (Inl (Errorf ''%w: %q has none configured'' [kontinuumName kontinuum] [errNoKontinuumDNSDomain]))
          else return (Inr domain))
   }"

text \<open>\<open>errors.Is\<close> with one of the sentinels above.\<close>

definition isSentinel :: "goerr \<Rightarrow> goerr \<Rightarrow> bool" where
  "isSentinel err target = (case target of Sentinel n \<Rightarrow> errorsIs err n | _ \<Rightarrow> False)"

definition inferDomain :: "'s client \<Rightarrow> ('s, goerr + string) state" where
  "inferDomain c = do {
     dom \<leftarrow> findKontinuumDomain c;
     (case dom of
        Inr domain \<Rightarrow> return (Inr domain)
      | Inl err \<Rightarrow>
          if isSentinel err errNoRegisteredKontinuum \<or> isSentinel err errNoKontinuumDNSDomain then return (Inr '''')
          else return (Inl (Errorf ''failed to infer domain: %w'' [] [err])))
   }"

definition versionBefore :: "semverlib \<Rightarrow> Kontinuum \<Rightarrow> Kontinuum \<Rightarrow> bool" where
  "versionBefore sv left right =
     (let cmp = sv_Compare sv (kst_Version (kon_Status left)) (kst_Version (kon_Status right)) in
      if cmp \<noteq> 0 then cmp > 0 else kontinuumName left < kontinuumName right)"

definition findKontinuumVersion :: "semverlib \<Rightarrow> 's client \<Rightarrow> ('s, goerr + string) state" where
  "findKontinuumVersion sv c = do {
     l \<leftarrow> klist (cl_Kontinuum c) None (\<lambda>_. True);
     (case l of
        Inl err \<Rightarrow> return (Inl (Errorf ''failed to list kontinuums: %w'' [] [err]))
      | Inr items \<Rightarrow>
          if items = [] then return (Inl errNoRegisteredKontinuum)
          else
            let highest = kst_Version (kon_Status (hd (sortLess (versionBefore sv) items))) in
            if highest = '''' then return (Inl (Errorf ''%w: none of the %d registered kontinuums reported one''
              [itoa (int (length items))] [errNoKontinuumVersion]))
            else return (Inr highest))
   }"

section \<open>The image to deploy\<close>

text \<open>\<open>ResolveDigest\<close> over the registry client: building it and resolving a reference may fail.\<close>

definition ResolveDigest :: "('s, goerr + (string \<Rightarrow> ('s, goerr + string) state)) state \<Rightarrow> 's DigestResolver" where
  "ResolveDigest newClient img = do {
     c \<leftarrow> newClient;
     (case c of
        Inl err \<Rightarrow> return (Inl (Errorf ''failed to create registry client: %w'' [] [err]))
      | Inr resolve \<Rightarrow> do {
          x \<leftarrow> resolve img;
          (case x of
             Inl err \<Rightarrow> return (Inl (Errorf ''failed to resolve %q: %w'' [img] [err]))
           | Inr digest \<Rightarrow> return (Inr digest))
        })
   }"

definition resolveImage :: "'s zonelibs \<Rightarrow> 's ZoneReconciler \<Rightarrow> ('s, goerr + string) state" where
  "resolveImage lib r = do {
     v \<leftarrow> findKontinuumVersion (zl_semver lib) (zr_Client r);
     (case v of
        Inl err \<Rightarrow> return (Inl err)
      | Inr tag \<Rightarrow>
          let img = zr_ImageRepo r @ '':'' @ tag in
          if sv_IsValid (zl_semver lib) tag then return (Inr img)
          else do {
            g \<leftarrow> zr_Digests r img;
            (case g of
               Inl err \<Rightarrow> return (Inr img)
             | Inr digest \<Rightarrow> return (Inr (img @ ''@'' @ digest)))
          })
   }"

section \<open>The downstream cluster\<close>

definition kubeconfigSecretKey :: string where "kubeconfigSecretKey = ''kubeconfig''"

definition errKubeconfigNotStored :: goerr where
  "errKubeconfigNotStored = Sentinel ''secret has no stored kubeconfig yet''"

definition loadClusterKubeconfig :: "'s client \<Rightarrow> TalosCluster \<Rightarrow> ('s, goerr + string) state" where
  "loadClusterKubeconfig c cluster =
     (let ref = tcst_SecretRef (tc_Status cluster) in do {
        g \<leftarrow> kget (cl_Secret c) (sr_Namespace ref, sr_Name ref);
        (case g of
           Inl err \<Rightarrow> return (Inl (Errorf ''failed to fetch %q secret to load kubeconfig: %w'' [sr_Name ref] [err]))
         | Inr secret \<Rightarrow> (case sec_Data secret kubeconfigSecretKey of
             None \<Rightarrow> return (Inl (Errorf ''%q %w'' [sr_Name ref] [errKubeconfigNotStored]))
           | Some kubeconfig \<Rightarrow> return (Inr kubeconfig)))
      })"

text \<open>The production client builder: the kubeconfig is parsed and a client built from it.\<close>

definition Build :: "(string \<Rightarrow> goerr + 'cfg) \<Rightarrow> ('cfg \<Rightarrow> ('s, goerr + 's downstream) state) \<Rightarrow> 's DownstreamClientBuilder" where
  "Build restConfig newClient kubeconfig = (case restConfig kubeconfig of
       Inl err \<Rightarrow> return (Inl (Errorf ''failed to build rest config from kubeconfig: %w'' [] [err]))
     | Inr cfg \<Rightarrow> do {
         c \<leftarrow> newClient cfg;
         (case c of
            Inl err \<Rightarrow> return (Inl (Errorf ''failed to build downstream client: %w'' [] [err]))
          | Inr downstream \<Rightarrow> return (Inr downstream))
       })"

section \<open>Which image runs\<close>

text \<open>
  What the choice of the version relies on: \<open>semver.Compare\<close> orders versions.
\<close>

definition semver_ok :: "semverlib \<Rightarrow> bool" where
  "semver_ok sv \<longleftrightarrow> (\<forall>a b. sv_Compare sv a b > 0 \<longleftrightarrow> sv_Compare sv b a < 0) \<and>
     (\<forall>a b. sv_Compare sv a b = 0 \<longleftrightarrow> sv_Compare sv b a = 0) \<and>
     (\<forall>a b c. sv_Compare sv a b \<le> 0 \<and> sv_Compare sv b c \<le> 0 \<longrightarrow> sv_Compare sv a c \<le> 0) \<and>
     (\<forall>a b. sv_IsValid sv a \<and> \<not> sv_IsValid sv b \<longrightarrow> sv_Compare sv a b > 0)"

lemma versionBefore_order:
  assumes "semver_ok sv"
  shows "versionBefore sv a b \<Longrightarrow> \<not> versionBefore sv b a"
    and "\<not> versionBefore sv a b \<Longrightarrow> \<not> versionBefore sv b c \<Longrightarrow> \<not> versionBefore sv a c"
proof -
  let ?v = "\<lambda>k. kst_Version (kon_Status k)" and ?cmp = "sv_Compare sv"
  note s = assms [unfolded semver_ok_def]
  show "versionBefore sv a b \<Longrightarrow> \<not> versionBefore sv b a"
    using s [THEN conjunct1, rule_format, of "?v a" "?v b"] s [THEN conjunct1, rule_format, of "?v b" "?v a"]
    by (auto simp: versionBefore_def Let_def split: if_splits)
  have le: "\<not> versionBefore sv x y \<longleftrightarrow> ?cmp (?v x) (?v y) < 0 \<or> (?cmp (?v x) (?v y) = 0 \<and> kontinuumName y \<le> kontinuumName x)" for x y
    by (auto simp: versionBefore_def Let_def)
  show "\<not> versionBefore sv a b \<Longrightarrow> \<not> versionBefore sv b c \<Longrightarrow> \<not> versionBefore sv a c"
    unfolding le using s by (smt (verit) order.trans)
qed

lemma containsStr_set: "containsStr s sub \<Longrightarrow> set sub \<subseteq> set s"
proof (induction s)
  case (Cons c cs)
  then show ?case using set_take_subset [of "length sub" "c # cs"] by auto
qed simp

lemma afterLast_tag: "CHR '':'' \<notin> set tag \<Longrightarrow> afterLast (CHR '':'') (repo @ CHR '':'' # tag) = tag"
proof -
  assume "CHR '':'' \<notin> set tag"
  then have "takeWhile (\<lambda>c. c \<noteq> CHR '':'') (rev tag @ CHR '':'' # rev repo) = rev tag"
    by (subst takeWhile_append2) auto
  then show ?thesis by (simp add: afterLast_def)
qed

lemma pullPolicy_tag:
  assumes "CHR ''@'' \<notin> set (repo @ '':'' @ tag)" and "CHR '':'' \<notin> set tag"
  shows "imagePullPolicy sv (repo @ '':'' @ tag) = (if sv_IsValid sv tag then PullIfNotPresent else PullAlways)"
proof -
  have "\<not> containsStr (repo @ '':'' @ tag) ''@sha256:''" using assms(1) containsStr_set by fastforce
  then show ?thesis using afterLast_tag [OF assms(2), of repo] by (simp add: imagePullPolicy_def)
qed

text \<open>
  Zones run the newest version the fleet reports, and never a stale copy of a moving
  tag.  If an image is chosen, its tag is the version of some registered server and no
  registered server reports a higher one; a released version is deployed as it is and
  cached, a floating tag is pinned to its digest or, when the lookup failed, pulled on
  every start.
\<close>

theorem resolveImage_newest:
  assumes sv: "semver_ok (zl_semver lib)"
    and l: "run_state (klist (cl_Kontinuum (zr_Client r)) None (\<lambda>_. True)) s = (Inr items, s1)"
    and img: "result_of (resolveImage lib r) s = Inr img"
    and at: "CHR ''@'' \<notin> set (zr_ImageRepo r)"
    and tags: "\<And>k. k \<in> set items \<Longrightarrow> CHR ''@'' \<notin> set (kst_Version (kon_Status k)) \<and> CHR '':'' \<notin> set (kst_Version (kon_Status k))"
  shows "\<exists>k\<in>set items. let tag = kst_Version (kon_Status k) in tag \<noteq> '''' \<and>
     (\<forall>k'\<in>set items. sv_Compare (zl_semver lib) (kst_Version (kon_Status k')) tag \<le> 0) \<and>
     (if sv_IsValid (zl_semver lib) tag
      then img = zr_ImageRepo r @ '':'' @ tag \<and> imagePullPolicy (zl_semver lib) img = PullIfNotPresent
      else (\<exists>digest. result_of (zr_Digests r (zr_ImageRepo r @ '':'' @ tag)) s1 = Inr digest \<and> img = zr_ImageRepo r @ '':'' @ tag @ ''@'' @ digest) \<or>
        (img = zr_ImageRepo r @ '':'' @ tag \<and> imagePullPolicy (zl_semver lib) img = PullAlways))"
proof -
  let ?sv = "zl_semver lib"
  let ?k = "hd (sortLess (versionBefore ?sv) items)"
  let ?tag = "kst_Version (kon_Status ?k)"
  have ne: "items \<noteq> []" and tne: "?tag \<noteq> ''''"
    using img l by (auto simp: resolveImage_def findKontinuumVersion_def Let_def split: if_splits)
  have mem: "?k \<in> set items" using ne by (metis list.set_sel(1) sortLess_Nil sortLess_set)
  have "\<not> versionBefore ?sv k' ?k" if "k' \<in> set items" for k'
    by (rule sortLess_hd_least, erule (1) versionBefore_order(2) [OF sv], erule versionBefore_order(1) [OF sv], rule that)
  then have max: "\<forall>k'\<in>set items. sv_Compare ?sv (kst_Version (kon_Status k')) ?tag \<le> 0"
    by (auto simp: versionBefore_def Let_def split: if_splits) (metis order.refl linorder_le_less_linear)
  note pp = pullPolicy_tag [of "zr_ImageRepo r" ?tag ?sv]
  obtain g s2 where g: "run_state (zr_Digests r (zr_ImageRepo r @ '':'' @ ?tag)) s1 = (g, s2)" by fastforce
  have "if sv_IsValid ?sv ?tag then img = zr_ImageRepo r @ '':'' @ ?tag
     else (\<exists>digest. g = Inr digest \<and> img = zr_ImageRepo r @ '':'' @ ?tag @ ''@'' @ digest) \<or> img = zr_ImageRepo r @ '':'' @ ?tag"
    using img l ne tne g by (auto simp: resolveImage_def findKontinuumVersion_def Let_def split: sum.splits)
  then show ?thesis
    using mem max tne pp at tags [OF mem] g by (intro bexI [OF _ mem]) (auto simp: Let_def)
qed

text \<open>A fleet in the middle of an upgrade: one release and one development build.\<close>

definition demo_server_version :: "string \<Rightarrow> string \<Rightarrow> Kontinuum" where
  "demo_server_version n v = \<lparr>kon_meta = objectMeta KontinuumSystemNamespace n, kon_Spec = \<lparr>ksp_Region = '''', ksp_Zone = ''''\<rparr>,
     kon_Status = zeroKontinuumStatus\<lparr>kst_Version := v\<rparr>\<rparr>"

definition demo_rank :: "string \<Rightarrow> int" where
  "demo_rank v = (if take 1 v = ''v'' then int (length v) else 0)"

definition demo_semver :: semverlib where
  "demo_semver = \<lparr>sv_IsValid = (\<lambda>v. take 1 v = ''v''), sv_Compare = (\<lambda>a b. demo_rank a - demo_rank b)\<rparr>"

definition demo_fleet :: "Kontinuum list" where
  "demo_fleet = [demo_server_version ''a'' ''dev'', demo_server_version ''b'' ''v1'']"

definition demo_image_reconciler :: "unit ZoneReconciler" where
  "demo_image_reconciler = \<lparr>zr_Client = down_client\<lparr>cl_Kontinuum := down_kclient\<lparr>klist := (\<lambda>_ _. return (Inr demo_fleet))\<rparr>\<rparr>,
     zr_DownstreamClientBuilder = (\<lambda>_. return (Inl unavailable)), zr_Digests = (\<lambda>_. return (Inl unavailable)),
     zr_HubConfig = zeroConfigStatus, zr_ImageRepo = ''repo'', zr_RetryInterval = 15 * second,
     zr_TeardownTimeout = 15 * minute, zr_Locker = NewLocker down_client down_client ''hub'' '''' 0\<rparr>"

theorem resolveImage_newest_witness:
  "result_of (resolveImage ((demo_zonelibs 0)\<lparr>zl_semver := demo_semver\<rparr>) demo_image_reconciler) () = Inr ''repo:v1'' \<and>
   imagePullPolicy demo_semver ''repo:v1'' = PullIfNotPresent"
proof -
  let ?lib = "(demo_zonelibs 0)\<lparr>zl_semver := demo_semver\<rparr> :: unit zonelibs"
  have ok: "semver_ok (zl_semver ?lib)"
    by (auto simp: semver_ok_def demo_semver_def demo_rank_def split: if_splits)
  obtain img where img: "result_of (resolveImage ?lib demo_image_reconciler) () = Inr img"
    by (simp add: resolveImage_def findKontinuumVersion_def demo_image_reconciler_def demo_fleet_def demo_server_version_def
        versionBefore_def demo_semver_def demo_rank_def objectMeta_def Let_def)
  have "\<exists>k\<in>set demo_fleet. let tag = kst_Version (kon_Status k) in tag \<noteq> '''' \<and>
     (\<forall>k'\<in>set demo_fleet. sv_Compare (zl_semver ?lib) (kst_Version (kon_Status k')) tag \<le> 0) \<and>
     (if sv_IsValid (zl_semver ?lib) tag
      then img = zr_ImageRepo demo_image_reconciler @ '':'' @ tag \<and> imagePullPolicy (zl_semver ?lib) img = PullIfNotPresent
      else (\<exists>digest. result_of (zr_Digests demo_image_reconciler (zr_ImageRepo demo_image_reconciler @ '':'' @ tag)) () = Inr digest \<and>
          img = zr_ImageRepo demo_image_reconciler @ '':'' @ tag @ ''@'' @ digest) \<or>
        (img = zr_ImageRepo demo_image_reconciler @ '':'' @ tag \<and> imagePullPolicy (zl_semver ?lib) img = PullAlways))"
    by (rule resolveImage_newest [OF ok _ img]) (auto simp: demo_image_reconciler_def demo_fleet_def demo_server_version_def)
  then show ?thesis
    using img by (auto simp: demo_fleet_def demo_server_version_def demo_semver_def demo_rank_def demo_image_reconciler_def Let_def)
qed

end
