(* ===== verification/Zone.thy ===== *)
theory Zone
  imports ZoneInference
begin

text \<open>
  The zone controller: \<open>controller.go\<close> and \<open>teardown.go\<close> of \<open>pkg/domain/zone\<close>.  A pass
  takes the zone's lease, then either tears a deleted Zone down or walks the installation
  steps in order (cluster ready, identity, image, workload, network, registry), recording
  each step as a condition.  A handler that changes the Zone in memory returns it: the
  result of a handler is the Zone and what the handler returns.  Texts are ASCII: the em
  dash of two messages is written \<open>--\<close>.
\<close>

section \<open>Conditions and constants\<close>

definition ClusterReadyConditionType :: string where "ClusterReadyConditionType = ''ClusterReady''"

definition InstalledConditionType :: string where "InstalledConditionType = ''Installed''"

definition RegistryJoinedConditionType :: string where "RegistryJoinedConditionType = ''RegistryJoined''"

definition TeardownConditionType :: string where "TeardownConditionType = ''Teardown''"

definition zoneReadyConditionType :: string where "zoneReadyConditionType = ''Ready''"

definition talosReadyConditionType :: string where "talosReadyConditionType = ''Ready''"

definition reasonTalosClusterNotFound :: string where "reasonTalosClusterNotFound = ''TalosClusterNotFound''"

definition reasonWaitingForTalosCluster :: string where "reasonWaitingForTalosCluster = ''WaitingForTalosCluster''"

definition reasonClusterReady :: string where "reasonClusterReady = ''ClusterReady''"

definition reasonDownstreamNotReady :: string where "reasonDownstreamNotReady = ''DownstreamNotReady''"

definition reasonNoStorageSecret :: string where "reasonNoStorageSecret = ''NoStorageSecretFound''"

definition reasonNoVersionFound :: string where "reasonNoVersionFound = ''NoVersionFound''"

definition reasonInstallFailed :: string where "reasonInstallFailed = ''InstallFailed''"

definition reasonWaitingForCertificate :: string where "reasonWaitingForCertificate = ''WaitingForCertificate''"

definition reasonInstalled :: string where "reasonInstalled = ''Installed''"

definition reasonWaitingForRegistry :: string where "reasonWaitingForRegistry = ''WaitingForRegistry''"

definition reasonRegistryJoined :: string where "reasonRegistryJoined = ''RegistryJoined''"

definition reasonWaitingForDNSConfiguration :: string where "reasonWaitingForDNSConfiguration = ''WaitingForDNSConfiguration''"

definition reasonDownstreamTeardownFailed :: string where "reasonDownstreamTeardownFailed = ''DownstreamTeardownFailed''"

definition reasonTalosClusterDeleteFailed :: string where "reasonTalosClusterDeleteFailed = ''TalosClusterDeleteFailed''"

definition zoneDefaultRetryInterval :: int where "zoneDefaultRetryInterval = 15 * second"

definition defaultTeardownTimeout :: int where "defaultTeardownTimeout = 15 * minute"

definition ZoneFinalizer :: string where "ZoneFinalizer = ''kontinuum.sh/zone-teardown''"

definition imageRefreshInterval :: int where "imageRefreshInterval = 5 * minute"

text \<open>\<open>%q\<close> of a Kubernetes name, which needs no escapes.\<close>

definition quoted :: "string \<Rightarrow> string" where "quoted s = [CHR 0x22] @ s @ [CHR 0x22]"

section \<open>Construction\<close>

record 's ZoneControllerConfig =
  zc_DownstreamClientBuilder :: "'s DownstreamClientBuilder option"
  zc_Digests :: "'s DigestResolver option"
  zc_HubConfig :: KConfig
  zc_ImageRepo :: string
  zc_RetryInterval :: int
  zc_TeardownTimeout :: int
  zc_ZoneLease :: Identity

text \<open>The production builder and resolver, which the constructor fills in, are arguments.\<close>

definition NewZoneController :: "'s DownstreamClientBuilder \<Rightarrow> 's DigestResolver \<Rightarrow> 's ZoneControllerConfig \<Rightarrow> 's ZoneControllerConfig" where
  "NewZoneController newBuilder newResolver cfg = cfg
     \<lparr>zc_DownstreamClientBuilder := (case zc_DownstreamClientBuilder cfg of None \<Rightarrow> Some newBuilder | b \<Rightarrow> b),
      zc_Digests := (case zc_Digests cfg of None \<Rightarrow> Some newResolver | g \<Rightarrow> g),
      zc_RetryInterval := (if zc_RetryInterval cfg = 0 then zoneDefaultRetryInterval else zc_RetryInterval cfg),
      zc_TeardownTimeout := (if zc_TeardownTimeout cfg = 0 then defaultTeardownTimeout else zc_TeardownTimeout cfg)\<rparr>"

section \<open>Watches\<close>

definition mapTalosClusterToZone :: "ObjectMeta \<Rightarrow> ObjectKey list" where
  "mapTalosClusterToZone m = [(om_Namespace m, om_Name m)]"

text \<open>The object of a watch event; only a Kontinuum is mapped.\<close>

definition mapKontinuumToZone :: "Kontinuum option \<Rightarrow> ObjectKey list" where
  "mapKontinuumToZone obj = (case obj of
       None \<Rightarrow> []
     | Some kontinuum \<Rightarrow>
         let name = Key (ksp_Region (kon_Spec kontinuum)) (ksp_Zone (kon_Spec kontinuum)) in
         if name = '''' then [] else [(KontinuumSystemNamespace, name)])"

datatype watch_event = CreateEvent "Kontinuum option" | UpdateEvent "Kontinuum option" "Kontinuum option" | DeleteEvent | GenericEvent

fun kontinuumVersionChangedPredicate :: "watch_event \<Rightarrow> bool" where
  "kontinuumVersionChangedPredicate (CreateEvent obj) = (case obj of None \<Rightarrow> False | Some k \<Rightarrow> kst_Version (kon_Status k) \<noteq> '''')"
| "kontinuumVersionChangedPredicate (UpdateEvent old new) = (case (old, new) of
     (Some k, Some k') \<Rightarrow> kst_Version (kon_Status k) \<noteq> kst_Version (kon_Status k') | _ \<Rightarrow> False)"
| "kontinuumVersionChangedPredicate DeleteEvent = False"
| "kontinuumVersionChangedPredicate GenericEvent = False"

definition mapKontinuumVersionChangeToAllZones :: "'s ZoneReconciler \<Rightarrow> ('s, ObjectKey list) state" where
  "mapKontinuumVersionChangeToAllZones r = do {
     l \<leftarrow> klist (cl_Zone (zr_Client r)) (Some KontinuumSystemNamespace) (\<lambda>_. True);
     (case l of
        Inl err \<Rightarrow> return []
      | Inr items \<Rightarrow> return (map (\<lambda>z. (zoneNamespace z, zoneName z)) items))
   }"

section \<open>Recording progress\<close>

type_synonym zoutcome = "Zone \<times> outcome"

definition persistStatus :: "'s ZoneReconciler \<Rightarrow> Zone \<Rightarrow> ConditionStatus \<Rightarrow> bool \<Rightarrow> ('s, zoutcome) state" where
  "persistStatus r zoneObj status changed = do {
     w \<leftarrow> (if changed then kupdateStatus (cl_Zone (zr_Client r)) zoneObj else return (Inr zoneObj));
     (case w of
        Inl err \<Rightarrow> return (zoneObj, noRequeue, Some (Errorf ''failed to update zone %q status: %w'' [zoneName zoneObj] [err]))
      | Inr zoneObj1 \<Rightarrow>
          if status = ConditionTrue then return (zoneObj1, noRequeue, None)
          else return (zoneObj1, \<lparr>requeueAfter = zr_RetryInterval r\<rparr>, None))
   }"

abbreviation cond :: "string \<Rightarrow> ConditionStatus \<Rightarrow> string \<Rightarrow> string \<Rightarrow> Condition" where
  "cond t st reason message \<equiv> \<lparr>cond_Type = t, cond_Status = st, cond_Reason = reason, cond_Message = message\<rparr>"

text \<open>A condition that is false also makes the Zone not ready.\<close>

definition setBlockingCondition :: "'s zonelibs \<Rightarrow> 's ZoneReconciler \<Rightarrow> string \<Rightarrow> Zone \<Rightarrow> ConditionStatus \<Rightarrow> string \<Rightarrow> string \<Rightarrow>
    bool \<Rightarrow> ('s, zoutcome) state" where
  "setBlockingCondition lib r t zoneObj status reason message otherChanged =
     (case setZoneCondition (zl_am lib) zoneObj (cond t status reason message) of (changed0, z1) \<Rightarrow>
      let changed = changed0 \<or> otherChanged in
      if status = ConditionFalse then
        (case setZoneCondition (zl_am lib) z1 (cond zoneReadyConditionType status reason message) of (readyChanged, z2) \<Rightarrow>
           persistStatus r z2 status (changed \<or> readyChanged))
      else persistStatus r z1 status changed)"

definition setClusterReadyCondition :: "'s zonelibs \<Rightarrow> 's ZoneReconciler \<Rightarrow> Zone \<Rightarrow> ConditionStatus \<Rightarrow> string \<Rightarrow> string \<Rightarrow>
    ('s, zoutcome) state" where
  "setClusterReadyCondition lib r zoneObj status reason message =
     setBlockingCondition lib r ClusterReadyConditionType zoneObj status reason message False"

definition setInstalledCondition :: "'s zonelibs \<Rightarrow> 's ZoneReconciler \<Rightarrow> Zone \<Rightarrow> ConditionStatus \<Rightarrow> string \<Rightarrow> string \<Rightarrow> bool \<Rightarrow>
    ('s, zoutcome) state" where
  "setInstalledCondition lib r zoneObj status reason message otherChanged =
     setBlockingCondition lib r InstalledConditionType zoneObj status reason message otherChanged"

definition setRegistryJoinedCondition :: "'s zonelibs \<Rightarrow> 's ZoneReconciler \<Rightarrow> Zone \<Rightarrow> ConditionStatus \<Rightarrow> string \<Rightarrow> string \<Rightarrow>
    ('s, zoutcome) state" where
  "setRegistryJoinedCondition lib r zoneObj status reason message =
     (case setZoneCondition (zl_am lib) zoneObj (cond RegistryJoinedConditionType status reason message) of (joinedChanged, z1) \<Rightarrow>
      (case setZoneCondition (zl_am lib) z1 (cond zoneReadyConditionType status reason message) of (readyChanged, z2) \<Rightarrow>
         persistStatus r z2 status (joinedChanged \<or> readyChanged)))"

section \<open>Installation\<close>

definition reconcileRegistryJoin :: "'s zonelibs \<Rightarrow> 's ZoneReconciler \<Rightarrow> Zone \<Rightarrow> ('s, zoutcome) state" where
  "reconcileRegistryJoin lib r zoneObj = do {
     j \<leftarrow> FindJoinedKontinuum (zr_Client r) (zsp_Region (zone_Spec zoneObj)) (zsp_Zone (zone_Spec zoneObj));
     (case j of
        Inl err \<Rightarrow> return (zoneObj, noRequeue,
          Some (Errorf ''failed to check whether zone %q joined the registry: %w'' [zoneName zoneObj] [err]))
      | Inr None \<Rightarrow> setRegistryJoinedCondition lib r zoneObj ConditionFalse reasonWaitingForRegistry
          (''waiting for this zone'' @ [CHR 0x27] @ ''s kontinuum-server to register itself in the hub'' @ [CHR 0x27] @ ''s registry'')
      | Inr (Some _) \<Rightarrow> setRegistryJoinedCondition lib r zoneObj ConditionTrue reasonRegistryJoined
          ''kontinuum-server for this zone is registered and heartbeating'')
   }"

definition finishInstallWithoutDomain :: "'s zonelibs \<Rightarrow> 's ZoneReconciler \<Rightarrow> Zone \<Rightarrow> ('s, zoutcome) state" where
  "finishInstallWithoutDomain lib r zoneObj = do {
     x \<leftarrow> setInstalledCondition lib r zoneObj ConditionTrue reasonInstalled
       ''kontinuum-server installed (no spec.domain configured -- network exposure skipped)'' False;
     (case x of (z1, result, e) \<Rightarrow> (case e of
        Some err \<Rightarrow> return (z1, result, Some err)
      | None \<Rightarrow> reconcileRegistryJoin lib r z1))
   }"

definition ErrInvalidDNSCredential :: goerr where
  "ErrInvalidDNSCredential = Sentinel ''dns credential must be a non-empty flat yaml mapping of strings''"

text \<open>\<open>addon.ParseDNSCredentialKeys\<close> over the YAML library, which returns the pairs of a flat mapping.\<close>

definition ParseDNSCredentialKeys :: "(string \<Rightarrow> goerr + (string \<times> string) list) \<Rightarrow> string \<Rightarrow> goerr + (string \<times> string) list" where
  "ParseDNSCredentialKeys unmarshal credential = (case unmarshal credential of
       Inl err \<Rightarrow> Inl (Errorf ''%w: %w'' [] [ErrInvalidDNSCredential, err])
     | Inr keys \<Rightarrow> if length keys = 0 then Inl (Errorf ''%w: no keys'' [] [ErrInvalidDNSCredential]) else Inr keys)"

definition finishInstallWithDomain :: "'s zonelibs \<Rightarrow> 's ZoneReconciler \<Rightarrow> 's downstream \<Rightarrow> Zone \<Rightarrow> string \<Rightarrow> ('s, zoutcome) state" where
  "finishInstallWithDomain lib r d zoneObj hostname =
     (let dns = ksrv_DNS (kcfg_Server (zr_HubConfig r));
          failed = (\<lambda>z err. setInstalledCondition lib r z ConditionFalse reasonInstallFailed (am_errorText (zl_am lib) err) False) in
      if kdns_Provider dns = '''' \<or> kdns_Credential dns = '''' then
        setInstalledCondition lib r zoneObj ConditionFalse reasonWaitingForDNSConfiguration
          (''waiting for a dns provider and credential to be configured on the hub before exposing '' @ hostname @
           ''; see docs/workflows/zone-add.md'') False
      else (case ParseDNSCredentialKeys (zl_parseCredential lib) (kdns_Credential dns) of
        Inl err \<Rightarrow> failed zoneObj err
      | Inr _ \<Rightarrow> do {
          n \<leftarrow> installNetwork (zr_HubConfig r) d hostname;
          (case n of
             Inl err \<Rightarrow> failed zoneObj err
           | Inr certReady \<Rightarrow> do {
               dn \<leftarrow> reconcileDNS (zl_am lib) (zl_isIPv6 lib) d zoneObj hostname;
               (case dn of
                  Inl err \<Rightarrow> failed zoneObj err
                | Inr (dnsChanged, z1) \<Rightarrow>
                    if \<not> certReady then
                      setInstalledCondition lib r z1 ConditionFalse reasonWaitingForCertificate
                        (''waiting for cert-manager to issue '' @ hostname @ [CHR 0x27] @ ''s certificate'') dnsChanged
                    else do {
                      x \<leftarrow> setInstalledCondition lib r z1 ConditionTrue reasonInstalled
                        (''kontinuum-server installed and serving at '' @ hostname) dnsChanged;
                      (case x of (z2, result, e) \<Rightarrow> (case e of
                         Some err \<Rightarrow> return (z2, result, Some err)
                       | None \<Rightarrow> reconcileRegistryJoin lib r z2))
                    })
             })
        }))"

definition installWorkload :: "'s zonelibs \<Rightarrow> 's ZoneReconciler \<Rightarrow> 's downstream \<Rightarrow> Zone \<Rightarrow> string \<Rightarrow> string \<Rightarrow> string \<Rightarrow>
    ('s, goerr option) state" where
  "installWorkload lib r d zoneObj storage img hostname =
     andThen (zoneEnsureNamespace (dc_Namespace d) downstreamNamespace)
    (andThen (ensureEnv d downstreamNamespace (zr_HubConfig r)
               (zoneEnvOverrides (zsp_Region (zone_Spec zoneObj)) (zsp_Zone (zone_Spec zoneObj)) storage hostname))
    (andThen (ensureIdentityRBAC d downstreamNamespace)
    (andThen (ensureDeployment (zl_semver lib) d downstreamNamespace img)
             (ensureService d downstreamNamespace))))"

definition prepareZoneStorage :: "'s zonelibs \<Rightarrow> 's ZoneReconciler \<Rightarrow> 's downstream \<Rightarrow> Zone \<Rightarrow> ('s, goerr + (string \<times> bool)) state" where
  "prepareZoneStorage lib r d zoneObj = do {
     x \<leftarrow> ensureEtcdIdentity lib r d zoneObj;
     (case x of (rotatedIdentity, e) \<Rightarrow> (case e of
        Some err \<Rightarrow> return (Inl err)
      | None \<Rightarrow> (case zoneStorageDSN lib r zoneObj of
          Inl err \<Rightarrow> return (Inl err)
        | Inr storage \<Rightarrow> return (Inr (storage, rotatedIdentity)))))
   }"

definition reconcileInstall :: "'s zonelibs \<Rightarrow> 's ZoneReconciler \<Rightarrow> Zone \<Rightarrow> TalosCluster \<Rightarrow> ('s, zoutcome) state" where
  "reconcileInstall lib r zoneObj cluster =
     (let notYet = (\<lambda>reason err. setInstalledCondition lib r zoneObj ConditionFalse reason (am_errorText (zl_am lib) err) False) in do {
        k \<leftarrow> loadClusterKubeconfig (zr_Client r) cluster;
        (case k of
           Inl err \<Rightarrow> notYet reasonDownstreamNotReady err
         | Inr kubeconfig \<Rightarrow> do {
             b \<leftarrow> zr_DownstreamClientBuilder r kubeconfig;
             (case b of
                Inl err \<Rightarrow> return (zoneObj, noRequeue, Some (Errorf ''failed to build downstream client for %q: %w'' [zoneName zoneObj] [err]))
              | Inr d \<Rightarrow> do {
                  p \<leftarrow> prepareZoneStorage lib r d zoneObj;
                  (case p of
                     Inl err \<Rightarrow> notYet reasonNoStorageSecret err
                   | Inr (storage, rotatedIdentity) \<Rightarrow> do {
                       im \<leftarrow> resolveImage lib r;
                       (case im of
                          Inl err \<Rightarrow> notYet reasonNoVersionFound err
                        | Inr img \<Rightarrow>
                            (let sp = zone_Spec zoneObj;
                                 hasDomain = zsp_Domain sp \<noteq> '''';
                                 hostname = (if hasDomain then zsp_Zone sp @ ''.'' @ zsp_Region sp @ ''.'' @ zsp_Domain sp else '''') in do {
                               e \<leftarrow> installWorkload lib r d zoneObj storage img hostname;
                               (case e of
                                  Some err \<Rightarrow> notYet reasonInstallFailed err
                                | None \<Rightarrow>
                                    if \<not> hasDomain then finishInstallWithoutDomain lib r zoneObj
                                    else finishInstallWithDomain lib r d zoneObj hostname)
                             }))
                     })
                })
           })
      })"

definition reconcileClusterAndInstall :: "'s zonelibs \<Rightarrow> 's ZoneReconciler \<Rightarrow> Zone \<Rightarrow> ('s, zoutcome) state" where
  "reconcileClusterAndInstall lib r zoneObj = do {
     g \<leftarrow> kget (cl_TalosCluster (zr_Client r)) (zoneNamespace zoneObj, zoneName zoneObj);
     (case g of
        Inl err \<Rightarrow>
          if isNotFound err then
            setClusterReadyCondition lib r zoneObj ConditionFalse reasonTalosClusterNotFound
              (''no talos cluster named '' @ quoted (zoneName zoneObj) @ '' found yet'')
          else return (zoneObj, noRequeue, Some (Errorf ''failed to get talos cluster %q: %w'' [zoneName zoneObj] [err]))
      | Inr cluster \<Rightarrow>
          if \<not> am_isStatusConditionTrue (zl_am lib) (tcst_Conditions (tc_Status cluster)) talosReadyConditionType then
            setClusterReadyCondition lib r zoneObj ConditionFalse reasonWaitingForTalosCluster
              (''waiting for talos cluster '' @ quoted (om_Name (tc_meta cluster)) @ '' to become ready'')
          else do {
            x \<leftarrow> setClusterReadyCondition lib r zoneObj ConditionTrue reasonClusterReady ''talos cluster is ready'';
            (case x of (z1, result, e) \<Rightarrow> (case e of
               Some err \<Rightarrow> return (z1, result, Some err)
             | None \<Rightarrow> reconcileInstall lib r z1 cluster))
          })
   }"

definition earliestRequeue :: "Result \<Rightarrow> int \<Rightarrow> Result" where
  "earliestRequeue result candidate =
     (if candidate \<le> 0 then result
      else if requeueAfter result = 0 \<or> candidate < requeueAfter result then \<lparr>requeueAfter = candidate\<rparr>
      else result)"

definition reconcileImageRefreshSchedule :: "'s zonelibs \<Rightarrow> 's ZoneReconciler \<Rightarrow> Zone \<Rightarrow> ('s, goerr + int) state" where
  "reconcileImageRefreshSchedule lib r zoneObj =
     (if \<not> am_isStatusConditionTrue (zl_am lib) (zst_Conditions (zone_Status zoneObj)) RegistryJoinedConditionType then return (Inr 0)
      else do {
        v \<leftarrow> findKontinuumVersion (zl_semver lib) (zr_Client r);
        (case v of
           Inl err \<Rightarrow>
             if isSentinel err errNoRegisteredKontinuum \<or> isSentinel err errNoKontinuumVersion then return (Inr 0)
             else return (Inl (Errorf ''failed to check image refresh schedule for zone %q: %w'' [zoneName zoneObj] [err]))
         | Inr tag \<Rightarrow>
             if sv_IsValid (zl_semver lib) tag then return (Inr 0)
             else do { j \<leftarrow> Jitter (zl_world lib) imageRefreshInterval; return (Inr j) })
      })"

section \<open>Teardown\<close>

definition ExternalDNSCredentialSecretName :: "string \<Rightarrow> string" where
  "ExternalDNSCredentialSecretName clusterName = clusterName @ ''-external-dns-credentials''"

definition deleteExternalDNSCredentialSecret :: "'s downstream \<Rightarrow> string \<Rightarrow> string \<Rightarrow> ('s, goerr option) state" where
  "deleteExternalDNSCredentialSecret d namespace clusterName = do {
     e \<leftarrow> kdelete (dc_Secret d) (secretObj namespace (ExternalDNSCredentialSecretName clusterName));
     return (wrapErr ''failed to delete %q secret: %w'' [ExternalDNSCredentialSecretName clusterName] (ignoreNotFound e))
   }"

definition uninstallNetwork :: "'s downstream \<Rightarrow> string \<Rightarrow> ('s, goerr option) state" where
  "uninstallNetwork d clusterName =
     andThen (deleteDNSEndpoint d downstreamNamespace dnsEndpointName)
    (andThen (deleteExternalDNSCredentialSecret d downstreamNamespace clusterName)
    (andThen (deleteHTTPRoute d downstreamNamespace httpRouteName)
    (andThen (deleteCertificate d downstreamNamespace certificateName)
    (andThen (deleteGateway d downstreamNamespace gatewayName)
             (deleteClusterIssuer d clusterIssuerName)))))"

definition uninstallWorkload :: "'s downstream \<Rightarrow> ('s, goerr option) state" where
  "uninstallWorkload d =
     andThen (deleteDeployment d downstreamNamespace)
    (andThen (deleteService d downstreamNamespace)
    (andThen (deleteConfigMap d downstreamNamespace)
    (andThen (deleteSecret d downstreamNamespace)
             (deleteNamespace d downstreamNamespace))))"

definition teardownDownstream :: "'s ZoneReconciler \<Rightarrow> Zone \<Rightarrow> TalosCluster \<Rightarrow> ('s, goerr option) state" where
  "teardownDownstream r zoneObj cluster = do {
     k \<leftarrow> loadClusterKubeconfig (zr_Client r) cluster;
     (case k of
        Inl err \<Rightarrow> return None
      | Inr kubeconfig \<Rightarrow> do {
          b \<leftarrow> zr_DownstreamClientBuilder r kubeconfig;
          (case b of
             Inl err \<Rightarrow> return (Some (Errorf ''failed to build downstream client for %q: %w'' [zoneName zoneObj] [err]))
           | Inr d \<Rightarrow> andThen (uninstallNetwork d (om_Name (tc_meta cluster))) (uninstallWorkload d))
        })
   }"

definition teardownTimedOut :: "'s zonelibs \<Rightarrow> 's ZoneReconciler \<Rightarrow> Zone \<Rightarrow> ('s, bool) state" where
  "teardownTimedOut lib r zoneObj = (case om_DeletionTimestamp (zone_meta zoneObj) of
       None \<Rightarrow> return False
     | Some t \<Rightarrow> if t = 0 then return False
         else do { now \<leftarrow> w_now (zl_world lib); return (now - t > zr_TeardownTimeout r) })"

definition teardownDeadline :: "'s ZoneReconciler \<Rightarrow> Zone \<Rightarrow> int" where
  "teardownDeadline r zoneObj = (case om_DeletionTimestamp (zone_meta zoneObj) of None \<Rightarrow> 0 | Some t \<Rightarrow> t) + zr_TeardownTimeout r"

definition teardownRetryMessage :: "'s zonelibs \<Rightarrow> 's ZoneReconciler \<Rightarrow> Zone \<Rightarrow> goerr \<Rightarrow> string" where
  "teardownRetryMessage lib r zoneObj err = am_errorText (zl_am lib) err @ '' -- will keep retrying until '' @
     cx_formatTime (zl_crypto lib) (teardownDeadline r zoneObj) @
     '', after which the finalizer is removed automatically; see docs/workflows/zone-remove.md to force this sooner''"

definition setTeardownCondition :: "'s zonelibs \<Rightarrow> 's ZoneReconciler \<Rightarrow> Zone \<Rightarrow> string \<Rightarrow> string \<Rightarrow> ('s, outcome) state" where
  "setTeardownCondition lib r zoneObj reason message =
     (case setZoneCondition (zl_am lib) zoneObj (cond TeardownConditionType ConditionFalse reason message) of (changed, z1) \<Rightarrow> do {
        w \<leftarrow> (if changed then kupdateStatus (cl_Zone (zr_Client r)) z1 else return (Inr z1));
        (case w of
           Inl err \<Rightarrow> return (noRequeue, Some (Errorf ''failed to update zone %q status: %w'' [zoneName zoneObj] [err]))
         | Inr _ \<Rightarrow> return (\<lparr>requeueAfter = zr_RetryInterval r\<rparr>, None))
      })"

definition removeZoneFinalizer :: "'s zonelibs \<Rightarrow> 's ZoneReconciler \<Rightarrow> Zone \<Rightarrow> ('s, outcome) state" where
  "removeZoneFinalizer lib r zoneObj =
     (let m = zone_meta zoneObj; fs = snd (am_removeFinalizer (zl_am lib) (om_Finalizers m) ZoneFinalizer) in do {
        u \<leftarrow> kupdate (cl_Zone (zr_Client r)) (zoneObj\<lparr>zone_meta := m\<lparr>om_Finalizers := fs\<rparr>\<rparr>);
        (case u of
           Inl err \<Rightarrow> return (noRequeue, Some (Errorf ''failed to remove finalizer from zone %q: %w'' [zoneName zoneObj] [err]))
         | Inr _ \<Rightarrow> return (noRequeue, None))
      })"

definition zoneTeardown :: "'s zonelibs \<Rightarrow> 's ZoneReconciler \<Rightarrow> Zone \<Rightarrow> ('s, outcome) state" where
  "zoneTeardown lib r zoneObj =
     (if \<not> am_containsFinalizer (zl_am lib) (om_Finalizers (zone_meta zoneObj)) ZoneFinalizer then return (noRequeue, None)
      else do {
        timedOut \<leftarrow> teardownTimedOut lib r zoneObj;
        if timedOut then removeZoneFinalizer lib r zoneObj
        else do {
          g \<leftarrow> kget (cl_TalosCluster (zr_Client r)) (zoneNamespace zoneObj, zoneName zoneObj);
          (case g of
             Inl err \<Rightarrow>
               if isNotFound err then removeZoneFinalizer lib r zoneObj
               else return (noRequeue, Some (Errorf ''failed to get talos cluster %q for teardown: %w'' [zoneName zoneObj] [err]))
           | Inr cluster \<Rightarrow> do {
               e \<leftarrow> teardownDownstream r zoneObj cluster;
               (case e of
                  Some err \<Rightarrow> setTeardownCondition lib r zoneObj reasonDownstreamTeardownFailed (teardownRetryMessage lib r zoneObj err)
                | None \<Rightarrow> do {
                    dl \<leftarrow> kdelete (cl_TalosCluster (zr_Client r)) cluster;
                    (case ignoreNotFound dl of
                       Some err \<Rightarrow> setTeardownCondition lib r zoneObj reasonTalosClusterDeleteFailed (teardownRetryMessage lib r zoneObj err)
                     | None \<Rightarrow> removeZoneFinalizer lib r zoneObj)
                  })
             })
        }
      })"

section \<open>The reconciler\<close>

definition addZoneFinalizer :: "'s zonelibs \<Rightarrow> 's ZoneReconciler \<Rightarrow> Zone \<Rightarrow> ('s, goerr + Zone) state" where
  "addZoneFinalizer lib r zoneObj =
     (case am_addFinalizer (zl_am lib) (om_Finalizers (zone_meta zoneObj)) ZoneFinalizer of (added, fs) \<Rightarrow>
        if added then do {
          u \<leftarrow> kupdate (cl_Zone (zr_Client r)) (zoneObj\<lparr>zone_meta := (zone_meta zoneObj)\<lparr>om_Finalizers := fs\<rparr>\<rparr>);
          (case u of
             Inl err \<Rightarrow> return (Inl (Errorf ''failed to add finalizer to zone %q: %w'' [zoneName zoneObj] [err]))
           | Inr z1 \<Rightarrow> return (Inr z1))
        }
        else return (Inr zoneObj))"

definition ZoneReconcile :: "'s zonelibs \<Rightarrow> 's ZoneReconciler \<Rightarrow> ObjectKey \<Rightarrow> ('s, outcome) state" where
  "ZoneReconcile lib r req = do {
     g \<leftarrow> kget (cl_Zone (zr_Client r)) req;
     (case g of
        Inl err \<Rightarrow>
          if isNotFound err then return (noRequeue, None)
          else return (noRequeue, Some (Errorf ''failed to get zone %q: %w'' [snd req] [err]))
      | Inr zoneObj \<Rightarrow> do {
          a \<leftarrow> TryAcquire (zl_world lib) (zr_Locker r) (Key (zsp_Region (zone_Spec zoneObj)) (zsp_Zone (zone_Spec zoneObj)));
          (case a of
             Inl err \<Rightarrow> return (noRequeue, Some (Errorf ''failed to acquire zone lease for %q: %w'' [zoneName zoneObj] [err]))
           | Inr acquired \<Rightarrow>
               if \<not> acquired then do {
                 j \<leftarrow> Jitter (zl_world lib) (zr_RetryInterval r);
                 return (\<lparr>requeueAfter = j\<rparr>, None)
               }
               else if \<not> deletionIsZero (zone_meta zoneObj) then zoneTeardown lib r zoneObj
               else do {
                 f \<leftarrow> addZoneFinalizer lib r zoneObj;
                 (case f of
                    Inl err \<Rightarrow> return (noRequeue, Some err)
                  | Inr z1 \<Rightarrow> do {
                      i \<leftarrow> reconcileIdentityRotationSchedule lib r z1;
                      (case i of
                         Inl err \<Rightarrow> return (noRequeue, Some (Errorf ''failed to check identity rotation schedule for zone %q: %w'' [zoneName z1] [err]))
                       | Inr identityRequeue \<Rightarrow> do {
                           im \<leftarrow> reconcileImageRefreshSchedule lib r z1;
                           (case im of
                              Inl err \<Rightarrow> return (noRequeue, Some err)
                            | Inr imageRefreshRequeue \<Rightarrow> do {
                                x \<leftarrow> reconcileClusterAndInstall lib r z1;
                                (case x of (z2, result, e) \<Rightarrow>
                                   return (earliestRequeue (earliestRequeue result identityRequeue) imageRefreshRequeue, e))
                              })
                         })
                    })
               })
        })
   }"

end
