(* ===== verification/ZoneTeardown.thy ===== *)
theory ZoneTeardown
  imports Zone
begin

text \<open>
  The order and the bounds of a zone's teardown.  The locale \<open>ordered_steps\<close> is the
  contract of a chain of idempotent steps with early return, and is interpreted on the
  eleven deletions of \<open>teardown.go\<close>.
\<close>

section \<open>Chains of steps\<close>

fun sequenced :: "('k \<Rightarrow> ('s, goerr option) state) \<Rightarrow> 'k list \<Rightarrow> ('s, goerr option) state" where
  "sequenced step [] = return None"
| "sequenced step (k # ks) = andThen (step k) (sequenced step ks)"

lemma andThen_return [simp]: "andThen m (return None) = m"
  by (rule state.expand, rule ext) (simp add: andThen_def split: prod.splits option.splits)

lemma andThen_assoc [simp]: "andThen (andThen a b) c = andThen a (andThen b c)"
proof -
  have "State_Monad.bind (case e of None \<Rightarrow> b | Some err \<Rightarrow> return (Some err)) (\<lambda>e. case e of None \<Rightarrow> c | Some err \<Rightarrow> return (Some err)) =
    (case e of None \<Rightarrow> State_Monad.bind b (\<lambda>e. case e of None \<Rightarrow> c | Some err \<Rightarrow> return (Some err)) | Some err \<Rightarrow> return (Some err))" for e
    by (cases e) simp_all
  then show ?thesis by (simp add: andThen_def)
qed

lemma run_andThen:
  "run_state (andThen m n) s = (case result_of m s of None \<Rightarrow> run_state n (state_after m s) | Some err \<Rightarrow> (Some err, state_after m s))"
  by (simp add: andThen_def split: prod.splits option.splits)

locale ordered_steps =
  fixes step :: "'k \<Rightarrow> ('s, goerr option) state"
    and completed :: "'k \<Rightarrow> 's \<Rightarrow> bool"
  assumes step_completes: "result_of (step k) s = None \<Longrightarrow> completed k (state_after (step k) s)"
    and step_keeps: "completed j s \<Longrightarrow> completed j (state_after (step k) s)"
begin

lemma sequenced_keeps: "completed j s \<Longrightarrow> completed j (state_after (sequenced step ks) s)"
  by (induction ks arbitrary: s) (auto simp: run_andThen step_keeps split: option.splits)

text \<open>A chain that succeeds has completed every step, and they stay completed.\<close>

lemma sequenced_completes:
  "result_of (sequenced step ks) s = None \<Longrightarrow> k \<in> set ks \<Longrightarrow> completed k (state_after (sequenced step ks) s)"
proof (induction ks arbitrary: s)
  case (Cons j ks)
  then show ?case
    by (auto simp: run_andThen step_completes intro: sequenced_keeps split: option.splits)
qed simp

text \<open>A chain that fails stops at the first failing step: what precedes it is completed.\<close>

lemma sequenced_stops:
  "result_of (sequenced step ks) s = Some err \<Longrightarrow>
   \<exists>pre k post. ks = pre @ k # post \<and> run_state (step k) (state_after (sequenced step pre) s) = (Some err, state_after (sequenced step ks) s) \<and>
     (\<forall>j\<in>set pre. completed j (state_after (sequenced step pre) s))"
proof -
  have "\<exists>pre k post. ks = pre @ k # post \<and> result_of (sequenced step pre) s = None \<and>
      run_state (step k) (state_after (sequenced step pre) s) = (Some err, state_after (sequenced step ks) s)"
    if "result_of (sequenced step ks) s = Some err" for ks s
    using that
  proof (induction ks arbitrary: s)
    case (Cons j ks)
    show ?case
    proof (cases "result_of (step j) s")
      case (Some e)
      then show ?thesis using Cons.prems
        by (intro exI [of _ "[]"] exI [of _ j] exI [of _ ks]) (simp add: run_andThen prod_eq_iff)
    next
      case None
      then have "result_of (sequenced step ks) (state_after (step j) s) = Some err"
        using Cons.prems by (simp add: run_andThen)
      from Cons.IH [OF this] obtain pre k post where "ks = pre @ k # post" "result_of (sequenced step pre) (state_after (step j) s) = None"
        "run_state (step k) (state_after (sequenced step pre) (state_after (step j) s)) = (Some err, state_after (sequenced step ks) (state_after (step j) s))"
        by blast
      with None show ?thesis
        by (intro exI [of _ "j # pre"] exI [of _ k] exI [of _ post]) (simp add: run_andThen)
    qed
  qed simp
  then show "result_of (sequenced step ks) s = Some err \<Longrightarrow> ?thesis"
    using sequenced_completes by metis
qed

end

section \<open>The deletions of a teardown\<close>

datatype teardown_target = TDNSEndpoint | TCredentialSecret | THTTPRoute | TCertificate | TGateway | TClusterIssuer |
  TDeployment | TService | TConfigMap | TEnvSecret | TNamespace

text \<open>The deletions in the order of \<open>uninstallNetwork\<close> and \<open>uninstallWorkload\<close>.\<close>

definition teardownTargets :: "teardown_target list" where
  "teardownTargets = [TDNSEndpoint, TCredentialSecret, THTTPRoute, TCertificate, TGateway, TClusterIssuer,
     TDeployment, TService, TConfigMap, TEnvSecret, TNamespace]"

definition deleteStep :: "'s downstream \<Rightarrow> string \<Rightarrow> teardown_target \<Rightarrow> ('s, goerr option) state" where
  "deleteStep d clusterName k = (case k of
       TDNSEndpoint \<Rightarrow> deleteDNSEndpoint d downstreamNamespace dnsEndpointName
     | TCredentialSecret \<Rightarrow> deleteExternalDNSCredentialSecret d downstreamNamespace clusterName
     | THTTPRoute \<Rightarrow> deleteHTTPRoute d downstreamNamespace httpRouteName
     | TCertificate \<Rightarrow> deleteCertificate d downstreamNamespace certificateName
     | TGateway \<Rightarrow> deleteGateway d downstreamNamespace gatewayName
     | TClusterIssuer \<Rightarrow> deleteClusterIssuer d clusterIssuerName
     | TDeployment \<Rightarrow> deleteDeployment d downstreamNamespace
     | TService \<Rightarrow> deleteService d downstreamNamespace
     | TConfigMap \<Rightarrow> deleteConfigMap d downstreamNamespace
     | TEnvSecret \<Rightarrow> deleteSecret d downstreamNamespace
     | TNamespace \<Rightarrow> deleteNamespace d downstreamNamespace)"

lemma teardownTargets_all: "k \<in> set teardownTargets"
  by (cases k) (simp_all add: teardownTargets_def)

lemma uninstall_sequenced:
  "andThen (uninstallNetwork d cn) (uninstallWorkload d) = sequenced (deleteStep d cn) teardownTargets"
  by (simp add: uninstallNetwork_def uninstallWorkload_def teardownTargets_def deleteStep_def)

text \<open>
  What the teardown relies on.  \<open>gv s kd k\<close> says that the downstream cluster has no object
  of kind \<open>kd\<close> under \<open>k\<close>, or that its deletion has been accepted.  A delete that is
  accepted, or answered with \<open>NotFound\<close> or \<open>NoMatch\<close>, establishes this, and no delete
  brings an object back.
\<close>

datatype dkind = KDNSEndpoint | KSecret | KHTTPRoute | KCertificate | KGateway | KClusterIssuer | KDeployment | KService |
  KConfigMap | KNamespace

definition deletes :: "('s, 'o) kclient \<Rightarrow> ('o \<Rightarrow> ObjectMeta) \<Rightarrow> dkind \<Rightarrow> ('s \<Rightarrow> dkind \<Rightarrow> ObjectKey \<Rightarrow> bool) \<Rightarrow> bool" where
  "deletes c meta kd gv \<longleftrightarrow> (\<forall>x s.
     ((case result_of (kdelete c x) s of None \<Rightarrow> True | Some e \<Rightarrow> isNotFound e \<or> isNoMatchError e) \<longrightarrow>
        gv (state_after (kdelete c x) s) kd (keyOf (meta x))) \<and>
     (\<forall>kd' k. gv s kd' k \<longrightarrow> gv (state_after (kdelete c x) s) kd' k))"

definition downstream_deletes :: "'s downstream \<Rightarrow> ('s \<Rightarrow> dkind \<Rightarrow> ObjectKey \<Rightarrow> bool) \<Rightarrow> bool" where
  "downstream_deletes d gv \<longleftrightarrow>
     deletes (dc_DNSEndpoint d) de_meta KDNSEndpoint gv \<and> deletes (dc_Secret d) sec_meta KSecret gv \<and>
     deletes (dc_HTTPRoute d) hr_meta KHTTPRoute gv \<and> deletes (dc_Certificate d) cert_meta KCertificate gv \<and>
     deletes (dc_Gateway d) gw_meta KGateway gv \<and> deletes (dc_ClusterIssuer d) iss_meta KClusterIssuer gv \<and>
     deletes (dc_Deployment d) dep_meta KDeployment gv \<and> deletes (dc_Service d) svc_meta KService gv \<and>
     deletes (dc_ConfigMap d) cm_meta KConfigMap gv \<and> deletes (dc_Namespace d) ns_meta KNamespace gv"

text \<open>Where each target is.\<close>

definition targetAt :: "string \<Rightarrow> teardown_target \<Rightarrow> dkind \<times> ObjectKey" where
  "targetAt clusterName k = (case k of
       TDNSEndpoint \<Rightarrow> (KDNSEndpoint, (downstreamNamespace, dnsEndpointName))
     | TCredentialSecret \<Rightarrow> (KSecret, (downstreamNamespace, ExternalDNSCredentialSecretName clusterName))
     | THTTPRoute \<Rightarrow> (KHTTPRoute, (downstreamNamespace, httpRouteName))
     | TCertificate \<Rightarrow> (KCertificate, (downstreamNamespace, certificateName))
     | TGateway \<Rightarrow> (KGateway, (downstreamNamespace, gatewayName))
     | TClusterIssuer \<Rightarrow> (KClusterIssuer, ('''', clusterIssuerName))
     | TDeployment \<Rightarrow> (KDeployment, (downstreamNamespace, deploymentName))
     | TService \<Rightarrow> (KService, (downstreamNamespace, serviceName))
     | TConfigMap \<Rightarrow> (KConfigMap, (downstreamNamespace, envConfigMapName))
     | TEnvSecret \<Rightarrow> (KSecret, (downstreamNamespace, envSecretName))
     | TNamespace \<Rightarrow> (KNamespace, ('''', downstreamNamespace)))"

definition torndown :: "('s \<Rightarrow> dkind \<Rightarrow> ObjectKey \<Rightarrow> bool) \<Rightarrow> string \<Rightarrow> teardown_target \<Rightarrow> 's \<Rightarrow> bool" where
  "torndown gv clusterName k s = (case targetAt clusterName k of (kd, key) \<Rightarrow> gv s kd key)"

lemma deletes_run:
  assumes "deletes c meta kd gv" and "run_state (kdelete c x) s = (e, t)"
  shows "(case e of None \<Rightarrow> True | Some err \<Rightarrow> isNotFound err \<or> isNoMatchError err) \<Longrightarrow> gv t kd (keyOf (meta x))"
    and "gv s kd' k \<Longrightarrow> gv t kd' k"
proof -
  have "((case result_of (kdelete c x) s of None \<Rightarrow> True | Some e \<Rightarrow> isNotFound e \<or> isNoMatchError e) \<longrightarrow>
        gv (state_after (kdelete c x) s) kd (keyOf (meta x))) \<and>
     (\<forall>kd' k. gv s kd' k \<longrightarrow> gv (state_after (kdelete c x) s) kd' k)"
    using assms(1) unfolding deletes_def by blast
  with assms(2) show "(case e of None \<Rightarrow> True | Some err \<Rightarrow> isNotFound err \<or> isNoMatchError err) \<Longrightarrow> gv t kd (keyOf (meta x))"
    and "gv s kd' k \<Longrightarrow> gv t kd' k" by (simp_all del: split_paired_All)
qed

lemma tolerated:
  "wrapErr f a (ignoreNotFound e) = None \<Longrightarrow> (case e of None \<Rightarrow> True | Some err \<Rightarrow> isNotFound err \<or> isNoMatchError err)"
  "wrapErr f a (IgnoreNotFoundOrNoMatch e) = None \<Longrightarrow> (case e of None \<Rightarrow> True | Some err \<Rightarrow> isNotFound err \<or> isNoMatchError err)"
  by (auto simp: wrapErr_def ignoreNotFound_def IgnoreNotFoundOrNoMatch_def split: option.splits if_splits)

lemmas delete_defs = deleteDNSEndpoint_def deleteExternalDNSCredentialSecret_def deleteHTTPRoute_def deleteCertificate_def
  deleteGateway_def deleteClusterIssuer_def deleteDeployment_def deleteService_def deleteConfigMap_def deleteSecret_def
  deleteNamespace_def

text \<open>One deletion: a delete call with a stub of its target, and the errors it tolerates.\<close>

lemma delete_call:
  assumes del: "deletes c meta kd gv" and f: "f = ignoreNotFound \<or> f = IgnoreNotFoundOrNoMatch"
  shows "(result_of (State_Monad.bind (kdelete c x) (\<lambda>e. return (wrapErr m as (f e)))) s = None \<longrightarrow>
      gv (state_after (State_Monad.bind (kdelete c x) (\<lambda>e. return (wrapErr m as (f e)))) s) kd (keyOf (meta x))) \<and>
    (\<forall>kd' k. gv s kd' k \<longrightarrow> gv (state_after (State_Monad.bind (kdelete c x) (\<lambda>e. return (wrapErr m as (f e)))) s) kd' k)"
proof -
  obtain e t where r: "run_state (kdelete c x) s = (e, t)" by fastforce
  show ?thesis
    using f deletes_run [OF del r] tolerated [of m as e] by (auto simp: r)
qed

lemma deleteStep_ok:
  assumes "downstream_deletes d gv"
  shows "(result_of (deleteStep d cn k) s = None \<longrightarrow> torndown gv cn k (state_after (deleteStep d cn k) s)) \<and>
    (\<forall>j. torndown gv cn j s \<longrightarrow> torndown gv cn j (state_after (deleteStep d cn k) s))"
proof -
  note dd = assms [unfolded downstream_deletes_def]
  have gen: "(result_of m s = None \<longrightarrow> torndown gv cn k (state_after m s)) \<and>
      (\<forall>j. torndown gv cn j s \<longrightarrow> torndown gv cn j (state_after m s))"
    if "(result_of m s = None \<longrightarrow> gv (state_after m s) kd key) \<and> (\<forall>kd' k. gv s kd' k \<longrightarrow> gv (state_after m s) kd' k)"
      and "targetAt cn k = (kd, key)" for m kd key k
    using that by (auto simp: torndown_def split: prod.splits)
  note stubs = targetAt_def secretObj_def configMapObj_def namespaceObj_def
  show ?thesis
    by (cases k; hypsubst; simp only: deleteStep_def delete_defs teardown_target.case;
        rule gen, rule delete_call [where meta = de_meta] delete_call [where meta = sec_meta] delete_call [where meta = hr_meta]
          delete_call [where meta = cert_meta] delete_call [where meta = gw_meta] delete_call [where meta = iss_meta]
          delete_call [where meta = dep_meta] delete_call [where meta = svc_meta] delete_call [where meta = cm_meta]
          delete_call [where meta = ns_meta]; insert dd; simp add: stubs)
qed

text \<open>The contract holds for the deletions on every downstream cluster that deletes.\<close>

interpretation teardown: ordered_steps "deleteStep d cn" "\<lambda>k s. downstream_deletes d gv \<longrightarrow> torndown gv cn k s"
proof unfold_locales
  fix k s assume "result_of (deleteStep d cn k) s = None"
  then show "downstream_deletes d gv \<longrightarrow> torndown gv cn k (state_after (deleteStep d cn k) s)"
    using deleteStep_ok [of d gv cn k s] by blast
next
  fix j s k assume "downstream_deletes d gv \<longrightarrow> torndown gv cn j s"
  then show "downstream_deletes d gv \<longrightarrow> torndown gv cn j (state_after (deleteStep d cn k) s)"
    using deleteStep_ok [of d gv cn k s] by blast
qed

section \<open>Order and bound of the teardown\<close>

abbreviation zoneKey :: "Zone \<Rightarrow> ObjectKey" where
  "zoneKey z \<equiv> (zoneNamespace z, zoneName z)"

definition downstream_quiet :: "('s \<Rightarrow> 'v) \<Rightarrow> 's downstream \<Rightarrow> bool" where
  "downstream_quiet view d \<longleftrightarrow>
     kclient_quiet view (dc_Namespace d) \<and> kclient_quiet view (dc_Secret d) \<and> kclient_quiet view (dc_ConfigMap d) \<and>
     kclient_quiet view (dc_ServiceAccount d) \<and> kclient_quiet view (dc_Role d) \<and> kclient_quiet view (dc_RoleBinding d) \<and>
     kclient_quiet view (dc_Deployment d) \<and> kclient_quiet view (dc_Service d) \<and> kclient_quiet view (dc_ClusterIssuer d) \<and>
     kclient_quiet view (dc_Gateway d) \<and> kclient_quiet view (dc_Certificate d) \<and> kclient_quiet view (dc_HTTPRoute d) \<and>
     kclient_quiet view (dc_DNSEndpoint d)"

text \<open>
  The world of a teardown: \<open>tv\<close> shows the TalosClusters of the hub, which only calls on
  TalosClusters change; \<open>gv\<close> shows what is gone downstream, which hub calls do not undo.
\<close>

definition teardown_world :: "'s zonelibs \<Rightarrow> 's ZoneReconciler \<Rightarrow> ('s \<Rightarrow> ObjectKey \<rightharpoonup> TalosCluster) \<Rightarrow>
    ('s \<Rightarrow> dkind \<Rightarrow> ObjectKey \<Rightarrow> bool) \<Rightarrow> bool" where
  "teardown_world lib r tv gv \<longleftrightarrow>
     (\<forall>k. quiet tv (kget (cl_TalosCluster (zr_Client r)) k)) \<and>
     (\<forall>k s x. result_of (kget (cl_TalosCluster (zr_Client r)) k) s = Inr x \<longrightarrow> tv s k = Some x) \<and>
     quiet tv (w_now (zl_world lib)) \<and> kclient_quiet tv (cl_Secret (zr_Client r)) \<and> kclient_quiet tv (cl_Zone (zr_Client r)) \<and>
     (\<forall>kc. quiet tv (zr_DownstreamClientBuilder r kc)) \<and>
     (\<forall>kc s d. result_of (zr_DownstreamClientBuilder r kc) s = Inr d \<longrightarrow> downstream_deletes d gv \<and> downstream_quiet tv d) \<and>
     (\<forall>kd k x. leaves (\<lambda>s. gv s kd k) (kdelete (cl_TalosCluster (zr_Client r)) x)) \<and>
     (\<forall>kd k x. leaves (\<lambda>s. gv s kd k) (kupdate (cl_Zone (zr_Client r)) x)) \<and>
     (\<forall>kd k x. leaves (\<lambda>s. gv s kd k) (kupdateStatus (cl_Zone (zr_Client r)) x))"

lemma quiet_bind: "quiet view m \<Longrightarrow> (\<And>a. quiet view (f a)) \<Longrightarrow> quiet view (State_Monad.bind m f)"
  unfolding quiet_iff by (blast intro: leaves_bind)

lemma quiet_return [simp]: "quiet view (return a)"
  by (simp add: quiet_def)

lemma deleteStep_quiet:
  assumes "downstream_quiet view d"
  shows "quiet view (deleteStep d cn k)"
  using assms unfolding deleteStep_def delete_defs downstream_quiet_def kclient_quiet_def
  by (cases k) (auto intro!: quiet_bind)

lemma sequenced_quiet: "(\<And>k. quiet view (step k)) \<Longrightarrow> quiet view (sequenced step ks)"
  by (induction ks) (auto simp: andThen_def intro!: quiet_bind split: option.splits)

lemma removeFinalizer_quiet:
  "kclient_quiet view (cl_Zone (zr_Client r)) \<Longrightarrow> quiet view (removeZoneFinalizer lib r z)"
  unfolding removeZoneFinalizer_def kclient_quiet_def Let_def by (auto intro!: quiet_bind split: sum.splits)

lemma setTeardown_quiet:
  "kclient_quiet view (cl_Zone (zr_Client r)) \<Longrightarrow> quiet view (setTeardownCondition lib r z reason message)"
  unfolding setTeardownCondition_def kclient_quiet_def by (auto intro!: quiet_bind split: sum.splits prod.splits)

lemma loadKubeconfig_quiet:
  "kclient_quiet view (cl_Secret c) \<Longrightarrow> quiet view (loadClusterKubeconfig c cluster)"
  unfolding loadClusterKubeconfig_def kclient_quiet_def Let_def
  by (auto intro!: quiet_bind split: sum.splits option.splits simp del: split_paired_All)

lemma timedOut_quiet: "quiet view (w_now (zl_world lib)) \<Longrightarrow> quiet view (teardownTimedOut lib r z)"
  unfolding teardownTimedOut_def by (auto intro!: quiet_bind split: option.splits)

text \<open>A downstream teardown that succeeds found no kubeconfig or deleted everything.\<close>

lemma teardownDownstream_done:
  assumes w: "teardown_world lib r tv gv" and r: "run_state (teardownDownstream r z cluster) s = (e, t)"
  shows "tv t = tv s" and "e = None \<Longrightarrow> (\<exists>err. result_of (loadClusterKubeconfig (zr_Client r) cluster) s = Inl err) \<or>
    (\<forall>k. torndown gv (om_Name (tc_meta cluster)) k t)"
proof -
  obtain k s1 where k: "run_state (loadClusterKubeconfig (zr_Client r) cluster) s = (k, s1)" by fastforce
  have q1: "tv s1 = tv s" using quiet_run [OF loadKubeconfig_quiet k, of tv] w by (simp add: teardown_world_def)
  have *: "tv t = tv s \<and> (e = None \<longrightarrow> (\<exists>err. k = Inl err) \<or> (\<forall>k. torndown gv (om_Name (tc_meta cluster)) k t))"
  proof (cases k)
    case (Inl err)
    then show ?thesis using r k q1 by (simp add: teardownDownstream_def)
  next
    case (Inr kc)
    obtain b s2 where b: "run_state (zr_DownstreamClientBuilder r kc) s1 = (b, s2)" by fastforce
    have q2: "tv s2 = tv s" using quiet_run [OF _ b, of tv] w q1 by (simp add: teardown_world_def)
    show ?thesis
    proof (cases b)
      case (Inl err)
      then show ?thesis using r k Inr b q2 by (auto simp: teardownDownstream_def)
    next
      case d: (Inr d)
      let ?seq = "sequenced (deleteStep d (om_Name (tc_meta cluster))) teardownTargets"
      have "run_state ?seq s2 = (e, t)" using r k Inr b d by (simp add: teardownDownstream_def uninstall_sequenced)
      moreover have dd: "downstream_deletes d gv" "downstream_quiet tv d"
        using w b d unfolding teardown_world_def by (metis fst_conv)+
      moreover have "tv t = tv s2"
        using quiet_run [OF sequenced_quiet] deleteStep_quiet [OF dd(2)] calculation(1) by metis
      ultimately show ?thesis
        using teardown.sequenced_completes [of d _ teardownTargets s2 _ gv] teardownTargets_all q2 by (metis fst_conv snd_conv)
    qed
  qed
  show "tv t = tv s" using * by blast
  show "e = None \<Longrightarrow> (\<exists>err. result_of (loadClusterKubeconfig (zr_Client r) cluster) s = Inl err) \<or>
    (\<forall>k. torndown gv (om_Name (tc_meta cluster)) k t)" using * k by auto
qed

lemma torndown_leaves:
  "(\<And>kd k. leaves (\<lambda>s. gv s kd k) m) \<Longrightarrow> leaves (torndown gv cn j) m"
  by (auto simp: torndown_def leaves_def split: prod.splits)

lemma removeFinalizer_leaves:
  "(\<And>x. leaves I (kupdate (cl_Zone (zr_Client r)) x)) \<Longrightarrow> leaves I (removeZoneFinalizer lib r z)"
  unfolding removeZoneFinalizer_def Let_def by (auto intro!: leaves_rules)

lemma setTeardown_leaves:
  "(\<And>x. leaves I (kupdateStatus (cl_Zone (zr_Client r)) x)) \<Longrightarrow> leaves I (setTeardownCondition lib r z reason message)"
  unfolding setTeardownCondition_def by (auto intro!: leaves_rules)


text \<open>
  Deleting a Zone always comes to an end.  Once the teardown timeout has passed since
  the deletion was requested, a pass makes no further downstream call: it sends one update
  of the Zone that no longer carries the finalizer, whatever state the zone's cluster and
  its TalosCluster are in, and reports success if the API server accepts it.
\<close>

theorem teardown_bounded:
  assumes am: "apimachinery_ok (zl_am lib)" and fin: "ZoneFinalizer \<in> set (om_Finalizers (zone_meta z))"
    and del: "om_DeletionTimestamp (zone_meta z) = Some t0" "t0 \<noteq> 0"
    and clk: "run_state (w_now (zl_world lib)) s = (now, s1)" and late: "now - t0 > zr_TeardownTimeout r"
  shows "\<exists>z'. ZoneFinalizer \<notin> set (om_Finalizers (zone_meta z')) \<and> zone_Spec z' = zone_Spec z \<and> keyOf (zone_meta z') = keyOf (zone_meta z) \<and>
    state_after (zoneTeardown lib r z) s = state_after (kupdate (cl_Zone (zr_Client r)) z') s1 \<and>
    (snd (result_of (zoneTeardown lib r z) s) = None \<longleftrightarrow> (\<exists>y. result_of (kupdate (cl_Zone (zr_Client r)) z') s1 = Inr y))"
proof -
  let ?z = "z\<lparr>zone_meta := (zone_meta z)\<lparr>om_Finalizers := snd (am_removeFinalizer (zl_am lib) (om_Finalizers (zone_meta z)) ZoneFinalizer)\<rparr>\<rparr>"
  have "run_state (zoneTeardown lib r z) s = run_state (removeZoneFinalizer lib r z) s1"
    using fin del clk late by (simp add: zoneTeardown_def teardownTimedOut_def containsFinalizer_iff [OF am])
  then show ?thesis
    by (intro exI [of _ ?z]) (auto simp: removeZoneFinalizer_def Let_def removeFinalizer_set [OF am] keyOf_def split: prod.splits sum.splits)
qed

text \<open>
  C37: A zone without external-dns is not torn down before the timeout.  When the
  DNSEndpoint kind is not installed on the zone's cluster, which is the case unless the
  hub has a DNS provider configured, the first deletion fails with \<open>NoMatch\<close>, which
  \<open>deleteDNSEndpoint\<close> does not tolerate: a pass before the timeout then deletes nothing
  else downstream, leaves the TalosCluster and the finalizer alone, and only records
  \<open>DownstreamTeardownFailed\<close>.
\<close>

theorem teardown_stuck_without_external_dns:
  assumes "am_containsFinalizer (zl_am lib) (om_Finalizers (zone_meta z)) ZoneFinalizer"
    and "run_state (teardownTimedOut lib r z) s = (False, s1)"
    and "run_state (kget (cl_TalosCluster (zr_Client r)) (zoneKey z)) s1 = (Inr cluster, s2)"
    and "run_state (loadClusterKubeconfig (zr_Client r) cluster) s2 = (Inr kubeconfig, s3)"
    and "run_state (zr_DownstreamClientBuilder r kubeconfig) s3 = (Inr d, s4)"
    and "\<And>x. run_state (kdelete (dc_DNSEndpoint d) x) s4 = (Some err, s5)" and "isNoMatchError err" and "\<not> isNotFound err"
  shows "run_state (zoneTeardown lib r z) s = run_state (setTeardownCondition lib r z reasonDownstreamTeardownFailed
     (teardownRetryMessage lib r z (Errorf ''failed to delete %q dnsendpoint: %w'' [dnsEndpointName] [err]))) s5"
proof -
  have "run_state (uninstallNetwork d cn) s4 = (Some (Errorf ''failed to delete %q dnsendpoint: %w'' [dnsEndpointName] [err]), s5)" for cn
    using assms(6-8) by (simp add: uninstallNetwork_def run_andThen deleteDNSEndpoint_def wrapErr_def ignoreNotFound_def)
  then have "run_state (teardownDownstream r z cluster) s2 = (Some (Errorf ''failed to delete %q dnsendpoint: %w'' [dnsEndpointName] [err]), s5)"
    using assms(4,5) by (simp add: teardownDownstream_def run_andThen)
  with assms(1-3) show ?thesis by (simp add: zoneTeardown_def)
qed

section \<open>A concrete teardown\<close>

record td_state =
  td_present :: bool
  td_gv :: "dkind \<Rightarrow> ObjectKey \<Rightarrow> bool"

definition td_client :: "('o \<Rightarrow> ObjectMeta) \<Rightarrow> dkind \<Rightarrow> (td_state, 'o) kclient" where
  "td_client meta kd = down_kclient\<lparr>kdelete := (\<lambda>x. State (\<lambda>s.
     (None, s\<lparr>td_gv := (\<lambda>kd' k. kd' = kd \<and> k = keyOf (meta x) \<or> td_gv s kd' k)\<rparr>)))\<rparr>"

definition td_downstream :: "td_state downstream" where
  "td_downstream = \<lparr>dc_Namespace = td_client ns_meta KNamespace, dc_Secret = td_client sec_meta KSecret,
     dc_ConfigMap = td_client cm_meta KConfigMap, dc_ServiceAccount = down_kclient, dc_Role = down_kclient,
     dc_RoleBinding = down_kclient, dc_Deployment = td_client dep_meta KDeployment, dc_Service = td_client svc_meta KService,
     dc_ClusterIssuer = td_client iss_meta KClusterIssuer, dc_Gateway = td_client gw_meta KGateway,
     dc_Certificate = td_client cert_meta KCertificate, dc_HTTPRoute = td_client hr_meta KHTTPRoute,
     dc_DNSEndpoint = td_client de_meta KDNSEndpoint\<rparr>"

definition td_cluster :: TalosCluster where
  "td_cluster = \<lparr>tc_meta = objectMeta ''kontinuum-system'' ''eu-1'',
     tc_Spec = \<lparr>tcs_Talos = \<lparr>tsp_Version = ''''\<rparr>, tcs_Kubernetes = \<lparr>k8s_Version = ''''\<rparr>,
       tcs_ControlPlane = \<lparr>tcm_PoolRef = \<lparr>ipr_Name = ''eu-1''\<rparr>\<rparr>, tcs_Workers = [], tcs_Teardown = \<lparr>tds_UnregisterInstances = False\<rparr>\<rparr>,
     tc_Status = \<lparr>tcst_Conditions = [], tcst_SecretRef = \<lparr>sr_Name = ''kc'', sr_Namespace = ''kontinuum-system''\<rparr>\<rparr>\<rparr>"

definition td_tv :: "td_state \<Rightarrow> ObjectKey \<rightharpoonup> TalosCluster" where
  "td_tv s k = (if td_present s then Some td_cluster else None)"

definition td_reconciler :: "td_state downstream \<Rightarrow> td_state ZoneReconciler" where
  "td_reconciler d = \<lparr>zr_Client = down_client
       \<lparr>cl_TalosCluster := down_kclient
          \<lparr>kget := (\<lambda>k. State (\<lambda>s. (case td_tv s k of None \<Rightarrow> Inl (ApiError NotFound) | Some x \<Rightarrow> Inr x, s))),
           kdelete := (\<lambda>x. State (\<lambda>s. (None, s\<lparr>td_present := False\<rparr>)))\<rparr>,
        cl_Secret := down_kclient\<lparr>kget := (\<lambda>k. return (Inr ((secretObj '''' ''kc'')\<lparr>sec_Data := [''kubeconfig'' \<mapsto> ''cfg'']\<rparr>)))\<rparr>,
        cl_Zone := down_kclient\<lparr>kupdate := (\<lambda>x. return (Inr x)), kupdateStatus := (\<lambda>x. return (Inr x))\<rparr>\<rparr>,
     zr_DownstreamClientBuilder = (\<lambda>_. return (Inr d)), zr_Digests = (\<lambda>_. return (Inl unavailable)),
     zr_HubConfig = zeroConfigStatus, zr_ImageRepo = ''repo'', zr_RetryInterval = 15 * second,
     zr_TeardownTimeout = 15 * minute, zr_Locker = NewLocker down_client down_client ''hub'' '''' 0\<rparr>"

definition td_zone :: Zone where
  "td_zone = demo_zone\<lparr>zone_meta := (objectMeta ''kontinuum-system'' ''eu-1'')
     \<lparr>om_DeletionTimestamp := Some 1, om_Finalizers := [ZoneFinalizer]\<rparr>\<rparr>"

definition td_start :: td_state where
  "td_start = \<lparr>td_present = True, td_gv = (\<lambda>_ _. False)\<rparr>"

lemma td_deletes: "deletes (td_client meta kd) meta kd td_gv"
  by (auto simp: deletes_def td_client_def)

lemma td_quiet: "kclient_quiet td_tv (td_client meta kd)"
  by (simp add: kclient_quiet_def quiet_def td_client_def down_kclient_def td_tv_def fun_eq_iff)

lemma down_quiet: "kclient_quiet view (down_kclient :: ('s, 'o) kclient)"
  by (simp add: kclient_quiet_def quiet_def down_kclient_def)

lemma td_world: "teardown_world (demo_zonelibs now) (td_reconciler td_downstream) td_tv td_gv"
proof -
  have "downstream_deletes td_downstream td_gv" "downstream_quiet td_tv td_downstream"
    by (simp_all add: downstream_deletes_def downstream_quiet_def td_downstream_def td_deletes td_quiet down_quiet)
  then show ?thesis
    by (auto simp: teardown_world_def td_reconciler_def demo_zonelibs_def still_world_def quiet_def kclient_quiet_def
        down_kclient_def leaves_def td_tv_def split: if_splits)
qed

lemmas td_defs = zoneTeardown_def teardownTimedOut_def td_zone_def demo_zone_def demo_zonelibs_def still_world_def
  std_apimachinery_def objectMeta_def td_reconciler_def td_tv_def loadClusterKubeconfig_def kubeconfigSecretKey_def second_def


theorem teardown_bounded_witness:
  "\<exists>z'. ZoneFinalizer \<notin> set (om_Finalizers (zone_meta z')) \<and> zone_Spec z' = zone_Spec td_zone \<and> keyOf (zone_meta z') = keyOf (zone_meta td_zone) \<and>
    state_after (zoneTeardown (demo_zonelibs hour) (td_reconciler td_downstream) td_zone) td_start =
      state_after (kupdate (cl_Zone (zr_Client (td_reconciler td_downstream))) z') td_start \<and>
    (snd (result_of (zoneTeardown (demo_zonelibs hour) (td_reconciler td_downstream) td_zone) td_start) = None \<longleftrightarrow>
     (\<exists>y. result_of (kupdate (cl_Zone (zr_Client (td_reconciler td_downstream))) z') td_start = Inr y))"
  by (rule teardown_bounded [where now = hour and ?t0.0 = 1])
    (simp_all add: td_zone_def demo_zonelibs_def std_apimachinery_ok still_world_def td_reconciler_def second_def)

definition td_no_external_dns :: "td_state downstream" where
  "td_no_external_dns = td_downstream\<lparr>dc_DNSEndpoint := down_kclient\<lparr>kdelete := (\<lambda>_. return (Some (ApiError (OtherReason ''NoMatch''))))\<rparr>\<rparr>"

theorem teardown_stuck_without_external_dns_witness:
  "run_state (zoneTeardown (demo_zonelibs 2) (td_reconciler td_no_external_dns) td_zone) td_start =
   run_state (setTeardownCondition (demo_zonelibs 2) (td_reconciler td_no_external_dns) td_zone reasonDownstreamTeardownFailed
     (teardownRetryMessage (demo_zonelibs 2) (td_reconciler td_no_external_dns) td_zone
       (Errorf ''failed to delete %q dnsendpoint: %w'' [dnsEndpointName] [ApiError (OtherReason ''NoMatch'')]))) td_start"
  by (rule teardown_stuck_without_external_dns [where d = td_no_external_dns and cluster = td_cluster and kubeconfig = "''cfg''"
        and ?s1.0 = td_start and ?s2.0 = td_start and ?s3.0 = td_start and ?s4.0 = td_start])
    (simp_all add: td_defs td_start_def td_no_external_dns_def Let_def)

end
