(* ===== verification/TalosMachine.thy ===== *)
theory TalosMachine
  imports Zone
begin

text \<open>
  What the TalosCluster controller knows of machines and of Talos: the sysfs parser of
  \<open>cpusysfs.go\<close>, the production client of \<open>bootstrap.go\<close>, the members of a cluster
  (\<open>members.go\<close>), their conditions (\<open>conditions.go\<close>), the secrets of a cluster
  (\<open>secrets.go\<close>) and the generated configuration (\<open>config.go\<close>), all of
  \<open>pkg/domain/taloscluster\<close>.  The Talos machinery library is the parameter \<open>taloslib\<close>, the
  machine API the parameter \<open>talosrpc\<close>.

  A Go panic (here: an index out of range in \<open>dialAddress\<close>) ends the whole call with no
  result; such a function returns \<open>None\<close>, and \<open>whenOk\<close> passes the panic on.  A loop that may
  run forever is a \<open>partial_function\<close> whose \<open>None\<close> is not returning.
\<close>

definition whenOk :: "'a option \<Rightarrow> ('a \<Rightarrow> ('s, 'b option) state) \<Rightarrow> ('s, 'b option) state" where
  "whenOk x f = (case x of None \<Rightarrow> return None | Some a \<Rightarrow> f a)"

lemma whenOk_simps [simp]: "whenOk None f = return None" "whenOk (Some a) f = f a"
  by (simp_all add: whenOk_def)

section \<open>Parsing sysfs\<close>

text \<open>
  \<open>strings.Split\<close> and \<open>strings.Cut\<close> at a single character, and \<open>strconv.ParseUint(s, 10, 32)\<close>: the
  digits are read from the left and the first character or prefix that is wrong decides
  the error.
\<close>

fun splitOn :: "char \<Rightarrow> string \<Rightarrow> string list" where
  "splitOn c [] = ['''']"
| "splitOn c (x # xs) = (if x = c then '''' # splitOn c xs
     else (case splitOn c xs of [] \<Rightarrow> [[x]] | g # gs \<Rightarrow> (x # g) # gs))"

fun cut :: "char \<Rightarrow> string \<Rightarrow> string \<times> string \<times> bool" where
  "cut c [] = ('''', '''', False)"
| "cut c (x # xs) = (if x = c then ('''', xs, True)
     else (case cut c xs of (pre, post, found) \<Rightarrow> (x # pre, post, found)))"

definition errSyntax :: goerr where "errSyntax = Sentinel ''invalid syntax''"

definition errRange :: goerr where "errRange = Sentinel ''value out of range''"

definition isDigit :: "char \<Rightarrow> bool" where
  "isDigit c \<longleftrightarrow> of_char c \<ge> (48::nat) \<and> of_char c \<le> (57::nat)"

fun parseUintLoop :: "nat \<Rightarrow> string \<Rightarrow> goerr + nat" where
  "parseUintLoop n [] = Inr n"
| "parseUintLoop n (c # cs) = (if \<not> isDigit c then Inl errSyntax
     else let n1 = n * 10 + (of_char c - 48) in if n1 > 2 ^ 32 - 1 then Inl errRange else parseUintLoop n1 cs)"

definition parseUint32 :: "string \<Rightarrow> goerr + nat" where
  "parseUint32 s = (if s = '''' then Inl errSyntax else parseUintLoop 0 s)"

definition parseSysfsUint :: "string \<Rightarrow> goerr + 32 word" where
  "parseSysfsUint value = (case parseUint32 (trimSpace value) of
       Inl err \<Rightarrow> Inl (Errorf ''failed to parse sysfs value %q: %w'' [value] [err])
     | Inr val \<Rightarrow> Inr (word_of_nat val))"

text \<open>
  The two bounds of one group of a list, and the loop over its range with the counter of
  type \<open>uint32\<close>, which wraps around.
\<close>

definition cpuGroup :: "string \<Rightarrow> goerr + 32 word \<times> 32 word" where
  "cpuGroup grp = (case cut (CHR ''-'') grp of (lowerBound, upperBound, isRange) \<Rightarrow>
     (case parseSysfsUint lowerBound of
        Inl err \<Rightarrow> Inl (Errorf ''failed to parse cpu list group %q: %w'' [grp] [err])
      | Inr loVal \<Rightarrow>
          if \<not> isRange then Inr (loVal, loVal)
          else (case parseSysfsUint upperBound of
             Inl err \<Rightarrow> Inl (Errorf ''failed to parse cpu list group %q: %w'' [grp] [err])
           | Inr hiVal \<Rightarrow> Inr (loVal, hiVal))))"

partial_function (option) cpuRange :: "32 word \<Rightarrow> 32 word \<Rightarrow> 32 word list \<Rightarrow> 32 word list option" where
  [code]: "cpuRange cpu hiVal cpus = (if cpu \<le> hiVal then cpuRange (cpu + 1) hiVal (cpus @ [cpu]) else Some cpus)"

fun cpuGroups :: "string list \<Rightarrow> 32 word list \<Rightarrow> (goerr + 32 word list) option" where
  "cpuGroups [] cpus = Some (Inr cpus)"
| "cpuGroups (grp # groups) cpus = (case cpuGroup grp of
       Inl err \<Rightarrow> Some (Inl err)
     | Inr (loVal, hiVal) \<Rightarrow> (case cpuRange loVal hiVal cpus of
          None \<Rightarrow> None
        | Some cpus1 \<Rightarrow> cpuGroups groups cpus1))"

definition parseCPUList :: "string \<Rightarrow> (goerr + 32 word list) option" where
  "parseCPUList cpuList = (let s = trimSpace cpuList in
     if s = '''' then Some (Inr []) else cpuGroups (splitOn (CHR '','') s) [])"

text \<open>
  The loop ends exactly when its upper bound is not the largest \<open>uint32\<close>: the counter
  passes every smaller bound, and never passes that one.
\<close>

lemma cpuRange_result:
  assumes "cpuRange lo hi acc = Some r"
  shows "hi \<noteq> - 1"
  by (rule cpuRange.raw_induct [OF _ assms, where P = "\<lambda>_ hi _ _. hi \<noteq> - 1"]) (auto split: if_splits)

lemma cpuRange_run:
  assumes "hi \<noteq> - 1"
  shows "cpuRange lo hi acc = Some (acc @ map word_of_nat [unat lo..<Suc (unat hi)])"
proof (induction "Suc (unat hi) - unat lo" arbitrary: lo acc)
  case 0
  then have "\<not> lo \<le> hi" by (simp add: word_le_nat_alt)
  with 0 show ?case by (simp add: cpuRange.simps)
next
  case (Suc n)
  then have le: "lo \<le> hi" by (simp add: word_le_nat_alt)
  then have "lo \<noteq> - 1" using assms by (metis word_order.extremum_unique)
  then have u: "unat (lo + 1) = Suc (unat lo)" by (simp add: unatSuc add.commute add_eq_0_iff)
  have "[unat lo..<Suc (unat hi)] = unat lo # [Suc (unat lo)..<Suc (unat hi)]"
    using le by (simp add: upt_conv_Cons word_le_nat_alt)
  moreover have "cpuRange (lo + 1) hi (acc @ [lo]) = Some ((acc @ [lo]) @ map word_of_nat [unat (lo + 1)..<Suc (unat hi)])"
    using Suc(1) [of "lo + 1" "acc @ [lo]"] Suc(2) u by simp
  ultimately show ?case using le u by (subst cpuRange.simps) simp
qed

text \<open>The CPUs a group names.\<close>

definition cpuSpan :: "32 word \<times> 32 word \<Rightarrow> 32 word list" where
  "cpuSpan b = map word_of_nat [unat (fst b)..<Suc (unat (snd b))]"

lemma cpuRange_exact: "cpuRange lo hi acc = (if hi = - 1 then None else Some (acc @ cpuSpan (lo, hi)))"
  using cpuRange_run [of hi lo acc] cpuRange_result [of lo hi acc]
  by (cases "cpuRange lo hi acc") (auto simp: cpuSpan_def simp del: upt_Suc)

lemma cpuGroups_exact:
  "map cpuGroup gs = map Inr bs \<Longrightarrow>
   cpuGroups gs acc = (if \<exists>b\<in>set bs. snd b = - 1 then None else Some (Inr (acc @ concat (map cpuSpan bs))))"
proof (induction gs arbitrary: bs acc)
  case (Cons g gs)
  then obtain lo hi bs' where "bs = (lo, hi) # bs'" by (cases bs) auto
  with Cons show ?case by (auto simp: cpuRange_exact)
qed simp

text \<open>
  C32: When the CPU list parser returns.  On a list whose groups parse, \<open>parseCPUList\<close> never
  returns if one group ends at 4294967295, the largest \<open>uint32\<close>, because the loop's counter
  wraps around below that bound; on every other such list it returns exactly the CPUs the
  groups name, in order.
\<close>

theorem parseCPUList_exact:
  assumes "trimSpace s \<noteq> ''''" and "map cpuGroup (splitOn (CHR '','') (trimSpace s)) = map Inr bs"
  shows "parseCPUList s = (if \<exists>b\<in>set bs. snd b = - 1 then None else Some (Inr (concat (map cpuSpan bs))))"
  using assms(1) cpuGroups_exact [OF assms(2), of "[]"] by (simp add: parseCPUList_def Let_def)

theorem parseCPUList_exact_witness:
  "parseCPUList ''0-3,8-9'' = Some (Inr [0, 1, 2, 3, 8, 9]) \<and> parseCPUList ''0-3,8-4294967295'' = None"
proof -
  note a = parseCPUList_exact [of "''0-3,8-9''" "[(0, 3), (8, 9)]"]
  note b = parseCPUList_exact [of "''0-3,8-4294967295''" "[(0, 3), (8, 4294967295)]"]
  have "map cpuGroup (splitOn (CHR '','') (trimSpace ''0-3,8-9'')) = map Inr [(0, 3), (8, 9)]"
    "map cpuGroup (splitOn (CHR '','') (trimSpace ''0-3,8-4294967295'')) = map Inr [(0, 3), (8, 4294967295)]"
    "trimSpace ''0-3,8-9'' \<noteq> []" "trimSpace ''0-3,8-4294967295'' \<noteq> []" 
    by (simp_all add: cpuGroup_def parseSysfsUint_def parseUint32_def trimSpace_def isSpace_def isDigit_def)
  note r = a [OF this(3,1)] b [OF this(4,2)]
  have "cpuSpan (0, 3) = [0, 1, 2, 3]" "cpuSpan (8, 9) = [8, 9]" by (simp_all add: cpuSpan_def upt_rec)
  then show ?thesis unfolding r by simp
qed

section \<open>The machine API\<close>

text \<open>
  Values of the Talos machinery library that the code only passes on: a client
  configuration, a secrets bundle, a generator input.
\<close>

datatype talosConfig = TalosConfig string

datatype talosBundle = TalosBundle string

datatype talosInput = TalosInput string

datatype machineType = TypeControlPlane | TypeWorker

text \<open>
  What the controller asks of Talos: the interface \<open>ClusterBootstrapper\<close>.
\<close>

record 's ClusterBootstrapper =
  cb_ApplyConfiguration :: "string \<Rightarrow> string \<Rightarrow> ('s, goerr option) state"
  cb_Bootstrap :: "string \<Rightarrow> talosConfig \<Rightarrow> ('s, goerr option) state"
  cb_HealthCheck :: "string \<Rightarrow> talosConfig \<Rightarrow> string list \<Rightarrow> int \<Rightarrow> ('s, goerr option) state"
  cb_Kubeconfig :: "string \<Rightarrow> talosConfig \<Rightarrow> ('s, goerr + string) state"
  cb_Version :: "string \<Rightarrow> string \<Rightarrow> talosConfig \<Rightarrow> ('s, goerr + string \<times> string) state"
  cb_CPUTopology :: "string \<Rightarrow> string \<Rightarrow> talosConfig \<Rightarrow> ('s, goerr + 32 word \<times> 32 word \<times> 32 word) state"
  cb_Reset :: "string \<Rightarrow> string \<Rightarrow> talosConfig \<Rightarrow> bool \<Rightarrow> ('s, goerr option) state"

record ResetRequest =
  rr_Graceful :: bool
  rr_Reboot :: bool
  rr_SystemPartitionsToWipe :: "(string \<times> bool) list"

text \<open>
  An open connection.  A health check answers with the progress messages and how the stream
  ends (\<open>None\<close>: end of file); the deadline put on it makes the stream finite.  A read gives
  what reading the whole stream gives.  A call that takes a node is routed to it.
\<close>

record 's talosrpc =
  tr_ApplyConfiguration :: "string \<Rightarrow> string \<Rightarrow> ('s, goerr option) state"
  tr_Bootstrap :: "('s, goerr option) state"
  tr_ClusterHealthCheck :: "int \<Rightarrow> string list \<Rightarrow> ('s, goerr + string list \<times> goerr option) state"
  tr_Kubeconfig :: "('s, goerr + string) state"
  tr_Version :: "string \<Rightarrow> ('s, goerr + (string \<times> string) list) state"
  tr_Read :: "string \<Rightarrow> string \<Rightarrow> ('s, goerr + (goerr + string)) state"
  tr_ResetGeneric :: "string \<Rightarrow> ResetRequest \<Rightarrow> ('s, goerr option) state"
  tr_Close :: "('s, unit) state"

text \<open>How \<open>talosclient.New\<close> is called: without verification in maintenance mode, or with a client configuration.\<close>

datatype dialOption = MaintenanceMode | WithConfig talosConfig

type_synonym 's talosdial = "dialOption \<Rightarrow> string \<Rightarrow> ('s, goerr + 's talosrpc) state"

text \<open>A connection that is closed when the function that opened it returns.\<close>

definition withClient :: "'s talosrpc \<Rightarrow> ('s, 'a) state \<Rightarrow> ('s, 'a) state" where
  "withClient c body = do { r \<leftarrow> body; _ \<leftarrow> tr_Close c; return r }"

definition talosDial :: "'s talosdial \<Rightarrow> string \<Rightarrow> talosConfig \<Rightarrow> ('s, goerr + 's talosrpc) state" where
  "talosDial new addr talosCfg = do {
     c \<leftarrow> new (WithConfig talosCfg) addr;
     (case c of
        Inl err \<Rightarrow> return (Inl (Errorf ''failed to dial %s: %w'' [addr] [err]))
      | Inr client \<Rightarrow> return (Inr client))
   }"

definition talosApplyConfiguration :: "'s talosdial \<Rightarrow> string \<Rightarrow> string \<Rightarrow> ('s, goerr option) state" where
  "talosApplyConfiguration new addr data =
     (let endpoint = joinHostPort addr (itoa maintenanceModePort) in do {
        c \<leftarrow> new MaintenanceMode endpoint;
        (case c of
           Inl err \<Rightarrow> return (Some (Errorf ''failed to dial %s in maintenance mode: %w'' [endpoint] [err]))
         | Inr client \<Rightarrow> withClient client (do {
             e \<leftarrow> tr_ApplyConfiguration client data ''REBOOT'';
             return (wrapErr ''failed to apply configuration to %s: %w'' [endpoint] e)
           }))
      })"

definition talosBootstrap :: "'s talosdial \<Rightarrow> string \<Rightarrow> talosConfig \<Rightarrow> ('s, goerr option) state" where
  "talosBootstrap new addr talosCfg = do {
     c \<leftarrow> talosDial new addr talosCfg;
     (case c of
        Inl err \<Rightarrow> return (Some err)
      | Inr client \<Rightarrow> withClient client (do {
          e \<leftarrow> tr_Bootstrap client;
          return (wrapErr ''failed to bootstrap %s: %w'' [addr] e)
        }))
   }"

text \<open>The receive loop of a health check: every progress message is logged.\<close>

fun drainProgress :: "string \<Rightarrow> string list \<Rightarrow> goerr option \<Rightarrow> goerr option" where
  "drainProgress addr [] None = None"
| "drainProgress addr [] (Some recvErr) = Some (Errorf ''cluster health check against %s failed: %w'' [addr] [recvErr])"
| "drainProgress addr (progress # rest) final = drainProgress addr rest final"

definition talosHealthCheck :: "'s talosdial \<Rightarrow> string \<Rightarrow> talosConfig \<Rightarrow> string list \<Rightarrow> int \<Rightarrow> ('s, goerr option) state" where
  "talosHealthCheck new addr talosCfg controlPlaneNodes timeout = do {
     c \<leftarrow> talosDial new addr talosCfg;
     (case c of
        Inl err \<Rightarrow> return (Some err)
      | Inr client \<Rightarrow> withClient client (do {
          h \<leftarrow> tr_ClusterHealthCheck client timeout controlPlaneNodes;
          (case h of
             Inl err \<Rightarrow> return (Some (Errorf ''failed to start health check against %s: %w'' [addr] [err]))
           | Inr (messages, final) \<Rightarrow> return (drainProgress addr messages final))
        }))
   }"

definition talosKubeconfig :: "'s talosdial \<Rightarrow> string \<Rightarrow> talosConfig \<Rightarrow> ('s, goerr + string) state" where
  "talosKubeconfig new addr talosCfg = do {
     c \<leftarrow> talosDial new addr talosCfg;
     (case c of
        Inl err \<Rightarrow> return (Inl err)
      | Inr client \<Rightarrow> withClient client (do {
          k \<leftarrow> tr_Kubeconfig client;
          (case k of
             Inl err \<Rightarrow> return (Inl (Errorf ''failed to fetch kubeconfig from %s: %w'' [addr] [err]))
           | Inr kubeconfig \<Rightarrow> return (Inr kubeconfig))
        }))
   }"

definition talosVersion :: "'s talosdial \<Rightarrow> string \<Rightarrow> string \<Rightarrow> talosConfig \<Rightarrow> ('s, goerr + string \<times> string) state" where
  "talosVersion new endpoint node talosCfg = do {
     c \<leftarrow> talosDial new endpoint talosCfg;
     (case c of
        Inl err \<Rightarrow> return (Inl err)
      | Inr client \<Rightarrow> withClient client (do {
          v \<leftarrow> tr_Version client node;
          (case v of
             Inl err \<Rightarrow> return (Inl (Errorf ''failed to fetch talos version for %s via %s: %w'' [node, endpoint] [err]))
           | Inr [] \<Rightarrow> return (Inr ('''', ''''))
           | Inr ((tag, arch) # _) \<Rightarrow> return (Inr (tag, arch)))
        }))
   }"

definition errNoCPUsReported :: goerr where "errNoCPUsReported = Sentinel ''no possible cpus reported''"

definition cpuPossiblePath :: string where "cpuPossiblePath = ''/sys/devices/system/cpu/possible''"

definition cpuCoreIDPath :: "32 word \<Rightarrow> string" where
  "cpuCoreIDPath cpu = ''/sys/devices/system/cpu/cpu'' @ itoa (uint cpu) @ ''/topology/core_id''"

definition cpuMaxFreqPath :: "32 word \<Rightarrow> string" where
  "cpuMaxFreqPath cpu = ''/sys/devices/system/cpu/cpu'' @ itoa (uint cpu) @ ''/cpufreq/cpuinfo_max_freq''"

definition khzPerMHz :: "32 word" where "khzPerMHz = 1000"

definition readSysfsFile :: "'s talosrpc \<Rightarrow> string \<Rightarrow> string \<Rightarrow> ('s, goerr + string) state" where
  "readSysfsFile client node path = do {
     f \<leftarrow> tr_Read client node path;
     (case f of
        Inl err \<Rightarrow> return (Inl (Errorf ''failed to read %s: %w'' [path] [err]))
      | Inr (Inl err) \<Rightarrow> return (Inl (Errorf ''failed to read %s: %w'' [path] [err]))
      | Inr (Inr data) \<Rightarrow> return (Inr data))
   }"

definition countCPUs :: "32 word list \<Rightarrow> 32 word" where
  "countCPUs cpus = word_of_nat (length cpus)"

fun coreIDs :: "'s talosrpc \<Rightarrow> string \<Rightarrow> 32 word list \<Rightarrow> 32 word list \<Rightarrow> ('s, 32 word list) state" where
  "coreIDs client node [] ids = return ids"
| "coreIDs client node (cpu # cpus) ids = do {
     raw \<leftarrow> readSysfsFile client node (cpuCoreIDPath cpu);
     (case raw of
        Inl err \<Rightarrow> coreIDs client node cpus ids
      | Inr coreIDRaw \<Rightarrow> (case parseSysfsUint coreIDRaw of
           Inl err \<Rightarrow> coreIDs client node cpus ids
         | Inr coreID \<Rightarrow> coreIDs client node cpus (List.insert coreID ids)))
   }"

definition countDistinctCores :: "'s talosrpc \<Rightarrow> string \<Rightarrow> 32 word list \<Rightarrow> ('s, 32 word) state" where
  "countDistinctCores client node cpus = do {
     ids \<leftarrow> coreIDs client node cpus [];
     return (word_of_nat (length ids))
   }"

definition readMaxSpeedMHz :: "'s talosrpc \<Rightarrow> string \<Rightarrow> 32 word \<Rightarrow> ('s, 32 word) state" where
  "readMaxSpeedMHz client node cpu = do {
     raw \<leftarrow> readSysfsFile client node (cpuMaxFreqPath cpu);
     (case raw of
        Inl err \<Rightarrow> return 0
      | Inr maxFreqRaw \<Rightarrow> (case parseSysfsUint maxFreqRaw of
           Inl err \<Rightarrow> return 0
         | Inr maxFreqKHz \<Rightarrow> return (maxFreqKHz div khzPerMHz)))
   }"

text \<open>\<open>None\<close>: the CPU list of the node makes the parser run forever.\<close>

definition talosCPUTopology :: "'s talosdial \<Rightarrow> string \<Rightarrow> string \<Rightarrow> talosConfig \<Rightarrow>
    ('s, (goerr + 32 word \<times> 32 word \<times> 32 word) option) state" where
  "talosCPUTopology new endpoint node talosCfg = do {
     c \<leftarrow> talosDial new endpoint talosCfg;
     (case c of
        Inl err \<Rightarrow> return (Some (Inl err))
      | Inr client \<Rightarrow> do {
          raw \<leftarrow> readSysfsFile client node cpuPossiblePath;
          (case raw of
             Inl err \<Rightarrow> withClient client (return (Some (Inl (Errorf ''failed to read cpu list for %s via %s: %w'' [node, endpoint] [err]))))
           | Inr possible \<Rightarrow> whenOk (parseCPUList possible) (\<lambda>parsed. withClient client (case parsed of
               Inl err \<Rightarrow> return (Some (Inl (Errorf ''failed to parse cpu list for %s: %w'' [node] [err])))
             | Inr [] \<Rightarrow> return (Some (Inl (Errorf ''%w: %s'' [node] [errNoCPUsReported])))
             | Inr (cpu0 # rest) \<Rightarrow> do {
                 let threadCount = countCPUs (cpu0 # rest);
                 cores \<leftarrow> countDistinctCores client node (cpu0 # rest);
                 let coreCount = (if cores = 0 then threadCount else cores);
                 maxSpeedMHz \<leftarrow> readMaxSpeedMHz client node cpu0;
                 return (Some (Inr (coreCount, threadCount, maxSpeedMHz)))
               })))
        })
   }"

definition talosResetRequest :: "bool \<Rightarrow> ResetRequest" where
  "talosResetRequest graceful = \<lparr>rr_Graceful = graceful, rr_Reboot = True,
     rr_SystemPartitionsToWipe = [(''STATE'', True), (''EPHEMERAL'', True)]\<rparr>"

definition talosReset :: "'s talosdial \<Rightarrow> string \<Rightarrow> string \<Rightarrow> talosConfig \<Rightarrow> bool \<Rightarrow> ('s, goerr option) state" where
  "talosReset new endpoint node talosCfg graceful = do {
     c \<leftarrow> talosDial new endpoint talosCfg;
     (case c of
        Inl err \<Rightarrow> return (Some err)
      | Inr client \<Rightarrow> withClient client (do {
          e \<leftarrow> tr_ResetGeneric client node (talosResetRequest graceful);
          return (wrapErr ''failed to reset %s via %s: %w'' [node, endpoint] e)
        }))
   }"

section \<open>Generated configuration\<close>

text \<open>
  The arguments of \<open>generate.NewInput\<close>, the part of a generated machine configuration that
  the code edits, and the Talos machinery library.  \<open>tl_removeStatusCondition\<close> is
  \<open>meta.RemoveStatusCondition\<close>, \<open>tl_parseCIDR\<close> is \<open>net.ParseCIDR\<close>: the text of the address
  and whether it is a loopback address.
\<close>

record GenerateOptions =
  go_ClusterName :: string
  go_Endpoint :: string
  go_KubernetesVersion :: string
  go_Bundle :: talosBundle
  go_Contract :: string
  go_EndpointList :: "string list"
  go_CNIName :: string
  go_AllowSchedulingOnControlPlanes :: bool

record MachineConfig =
  mc_Type :: machineType
  mc_InstallDiskSelector :: "string option"
  mc_MachineNodeLabels :: labels
  mc_Rest :: string

record 's taloslib =
  tl_world :: "'s world"
  tl_am :: apimachinery
  tl_removeStatusCondition :: "Condition list \<Rightarrow> string \<Rightarrow> bool \<times> Condition list"
  tl_parseCIDR :: "string \<Rightarrow> goerr + string \<times> bool"
  tl_ParseContract :: "string \<Rightarrow> goerr + string"
  tl_NewBundle :: "string \<Rightarrow> ('s, goerr + talosBundle) state"
  tl_Marshal :: "talosBundle \<Rightarrow> goerr + string"
  tl_Unmarshal :: "string \<Rightarrow> goerr + talosBundle"
  tl_NewInput :: "GenerateOptions \<Rightarrow> goerr + talosInput"
  tl_Talosconfig :: "talosInput \<Rightarrow> goerr + talosConfig"
  tl_Config :: "talosInput \<Rightarrow> machineType \<Rightarrow> goerr + MachineConfig"
  tl_Container :: "MachineConfig \<Rightarrow> string \<Rightarrow> goerr + string"
  tl_Bytes :: "string \<Rightarrow> goerr + string"
  tl_NoneCNI :: string

definition defaultTalosVersion :: string where "defaultTalosVersion = ''v1.13.0''"

definition defaultKubernetesVersion :: string where "defaultKubernetesVersion = ''v1.32.0''"

definition kubernetesAPIPort :: int where "kubernetesAPIPort = 6443"

definition trimV :: "string \<Rightarrow> string" where
  "trimV s = (case s of [] \<Rightarrow> [] | c # cs \<Rightarrow> if c = CHR ''v'' then cs else s)"

definition resolveVersions :: "TalosCluster \<Rightarrow> string \<times> string" where
  "resolveVersions cluster =
     (let talosVersion = tsp_Version (tcs_Talos (tc_Spec cluster));
          talosVersion = (if talosVersion = '''' then defaultTalosVersion else talosVersion);
          kubernetesVersion = k8s_Version (tcs_Kubernetes (tc_Spec cluster));
          kubernetesVersion = (if kubernetesVersion = '''' then defaultKubernetesVersion else kubernetesVersion)
      in (talosVersion, trimV kubernetesVersion))"

definition endpointFor :: "string \<Rightarrow> string" where
  "endpointFor addr = ''https://'' @ joinHostPort addr (itoa kubernetesAPIPort)"

abbreviation clusterName :: "TalosCluster \<Rightarrow> string" where "clusterName cluster \<equiv> om_Name (tc_meta cluster)"

abbreviation clusterNamespace :: "TalosCluster \<Rightarrow> string" where "clusterNamespace cluster \<equiv> om_Namespace (tc_meta cluster)"

definition generateOptions :: "'s taloslib \<Rightarrow> talosBundle \<Rightarrow> TalosCluster \<Rightarrow> string \<Rightarrow> string \<Rightarrow> GenerateOptions" where
  "generateOptions lib bundle cluster contract controlPlaneAddr =
     \<lparr>go_ClusterName = clusterName cluster, go_Endpoint = endpointFor controlPlaneAddr,
      go_KubernetesVersion = snd (resolveVersions cluster), go_Bundle = bundle, go_Contract = contract,
      go_EndpointList = [controlPlaneAddr], go_CNIName = tl_NoneCNI lib, go_AllowSchedulingOnControlPlanes = True\<rparr>"

definition generateConfigs :: "'s taloslib \<Rightarrow> talosBundle \<Rightarrow> TalosCluster \<Rightarrow> string \<Rightarrow> goerr + talosInput \<times> talosConfig" where
  "generateConfigs lib bundle cluster controlPlaneAddr =
     (let ver = fst (resolveVersions cluster) in
      case tl_ParseContract lib ver of
        Inl err \<Rightarrow> Inl (Errorf ''failed to parse talos version contract %q: %w'' [ver] [err])
      | Inr contract \<Rightarrow> (case tl_NewInput lib (generateOptions lib bundle cluster contract controlPlaneAddr) of
          Inl err \<Rightarrow> Inl (Errorf ''failed to build config generator input for %q: %w'' [clusterName cluster] [err])
        | Inr input \<Rightarrow> (case tl_Talosconfig lib input of
            Inl err \<Rightarrow> Inl (Errorf ''failed to generate talosconfig for %q: %w'' [clusterName cluster] [err])
          | Inr talosCfg \<Rightarrow> Inr (input, talosCfg))))"

definition machineTypeName :: "machineType \<Rightarrow> string" where
  "machineTypeName t = (case t of TypeControlPlane \<Rightarrow> ''controlplane'' | TypeWorker \<Rightarrow> ''worker'')"

definition applyAutoInstallDiskSelector :: "MachineConfig \<Rightarrow> MachineConfig" where
  "applyAutoInstallDiskSelector c = c\<lparr>mc_InstallDiskSelector := Some ''''\<rparr>"

definition labelExcludeFromExternalLB :: string where
  "labelExcludeFromExternalLB = ''node.kubernetes.io/exclude-from-external-load-balancers''"

definition removeExternalLoadBalancerExclusion :: "MachineConfig \<Rightarrow> MachineConfig" where
  "removeExternalLoadBalancerExclusion c = c\<lparr>mc_MachineNodeLabels := (mc_MachineNodeLabels c)(labelExcludeFromExternalLB := None)\<rparr>"

definition configBytes :: "'s taloslib \<Rightarrow> talosInput \<Rightarrow> machineType \<Rightarrow> string \<Rightarrow> goerr + string" where
  "configBytes lib input machineType hostname = (case tl_Config lib input machineType of
       Inl err \<Rightarrow> Inl (Errorf ''failed to generate %s config: %w'' [machineTypeName machineType] [err])
     | Inr provider \<Rightarrow>
         (case tl_Container lib (removeExternalLoadBalancerExclusion (applyAutoInstallDiskSelector provider)) hostname of
            Inl err \<Rightarrow> Inl (Errorf ''failed to bundle %s hostname config: %w'' [machineTypeName machineType] [err])
          | Inr bundle \<Rightarrow> (case tl_Bytes lib bundle of
              Inl err \<Rightarrow> Inl (Errorf ''failed to encode %s config: %w'' [machineTypeName machineType] [err])
            | Inr data \<Rightarrow> Inr data)))"

section \<open>Members\<close>

definition listClaimedByPool :: "'s client \<Rightarrow> string \<Rightarrow> string \<Rightarrow> ('s, goerr + Instance list) state" where
  "listClaimedByPool c namespace pool = do {
     l \<leftarrow> klist (cl_Instance c) (Some namespace) (matchingLabel LabelClaimedBy pool);
     (case l of
        Inl err \<Rightarrow> return (Inl (Errorf ''failed to list instances claimed by pool %q: %w'' [pool] [err]))
      | Inr items \<Rightarrow> return (Inr items))
   }"

abbreviation memberIs :: "'s taloslib \<Rightarrow> string \<Rightarrow> Instance \<Rightarrow> bool" where
  "memberIs lib ty inst \<equiv> am_isStatusConditionTrue (tl_am lib) (ist_Conditions (inst_Status inst)) ty"

definition resolveMembers :: "'s taloslib \<Rightarrow> 's client \<Rightarrow> string \<Rightarrow> InstancePoolReference \<Rightarrow> ('s, goerr + Instance list) state" where
  "resolveMembers lib c namespace poolRef = do {
     l \<leftarrow> listClaimedByPool c namespace (ipr_Name poolRef);
     (case l of
        Inl err \<Rightarrow> return (Inl err)
      | Inr claimed \<Rightarrow> return (Inr (filter (memberIs lib DiscoveredConditionType) claimed)))
   }"

text \<open>The first address of the list that parses and is not a loopback address.\<close>

fun usableAddress :: "'s taloslib \<Rightarrow> string list \<Rightarrow> string option" where
  "usableAddress lib [] = None"
| "usableAddress lib (addr # addrs) = (case tl_parseCIDR lib addr of
       Inl err \<Rightarrow> usableAddress lib addrs
     | Inr (ip, loopback) \<Rightarrow> if loopback then usableAddress lib addrs else Some ip)"

text \<open>\<open>None\<close>: there is no usable address and \<open>spec.interfaces\<close> is empty, so the index panics.\<close>

definition dialAddress :: "'s taloslib \<Rightarrow> Instance \<Rightarrow> string option" where
  "dialAddress lib inst =
     (case usableAddress lib (concat (map iif_Addresses (ist_Interfaces (inst_Status inst)))) of
        Some ip \<Rightarrow> Some ip
      | None \<Rightarrow> (case isp_Interfaces (inst_Spec inst) of [] \<Rightarrow> None | addr # _ \<Rightarrow> Some addr))"

section \<open>Conditions of a member\<close>

definition MemberConfiguredConditionType :: string where "MemberConfiguredConditionType = ''Configured''"

definition MemberJoinedConditionType :: string where "MemberJoinedConditionType = ''Joined''"

definition MemberReadyConditionType :: string where "MemberReadyConditionType = ''Ready''"

definition MemberLiveConditionType :: string where "MemberLiveConditionType = ''Live''"

definition reasonMemberConfigured :: string where "reasonMemberConfigured = ''ConfigApplied''"

definition reasonMemberJoined :: string where "reasonMemberJoined = ''Joined''"

definition reasonMemberHealthy :: string where "reasonMemberHealthy = ''Healthy''"

definition reasonMemberUnhealthy :: string where "reasonMemberUnhealthy = ''Unhealthy''"

definition reasonMemberLive :: string where "reasonMemberLive = ''Live''"

definition reasonMemberUnreachable :: string where "reasonMemberUnreachable = ''Unreachable''"

definition messageMemberAnsweredVersion :: string where
  "messageMemberAnsweredVersion = ''node answered a Version RPC with its real, post-config Talos identity''"

lemmas member_condition_types = MemberConfiguredConditionType_def MemberJoinedConditionType_def MemberReadyConditionType_def
  MemberLiveConditionType_def DiscoveredConditionType_def

definition withConditions :: "Condition list \<Rightarrow> Instance \<Rightarrow> Instance" where
  "withConditions cs member = member\<lparr>inst_Status := (inst_Status member)\<lparr>ist_Conditions := cs\<rparr>\<rparr>"

text \<open>
  \<open>Status().Update\<close> of a member whose error is only logged.  The result is the member as the
  caller's pointer sees it afterwards: what the server stored, or the local value.
\<close>

definition persistMember :: "'s client \<Rightarrow> Instance \<Rightarrow> ('s, Instance) state" where
  "persistMember c member = do {
     u \<leftarrow> kupdateStatus (cl_Instance c) member;
     (case u of Inl err \<Rightarrow> return member | Inr member1 \<Rightarrow> return member1)
   }"

definition setMemberCondition :: "'s taloslib \<Rightarrow> 's client \<Rightarrow> Instance \<Rightarrow> string \<Rightarrow> ConditionStatus \<Rightarrow> string \<Rightarrow> string \<Rightarrow>
    ('s, Instance) state" where
  "setMemberCondition lib c member conditionType status reason message =
     (case am_setStatusCondition (tl_am lib) (ist_Conditions (inst_Status member)) (cond conditionType status reason message) of
        (changed, cs) \<Rightarrow>
          if \<not> changed then return (withConditions cs member) else persistMember c (withConditions cs member))"

definition markMemberCondition :: "'s taloslib \<Rightarrow> 's client \<Rightarrow> Instance \<Rightarrow> string \<Rightarrow> string \<Rightarrow> string \<Rightarrow> ('s, Instance) state" where
  "markMemberCondition lib c member conditionType reason message =
     setMemberCondition lib c member conditionType ConditionTrue reason message"

fun removeConditions :: "'s taloslib \<Rightarrow> string list \<Rightarrow> Condition list \<Rightarrow> bool \<times> Condition list" where
  "removeConditions lib [] cs = (False, cs)"
| "removeConditions lib (ty # tys) cs = (case tl_removeStatusCondition lib cs ty of (removed, cs1) \<Rightarrow>
     (case removeConditions lib tys cs1 of (changed, cs2) \<Rightarrow> (removed \<or> changed, cs2)))"

definition clearMemberConditions :: "'s taloslib \<Rightarrow> 's client \<Rightarrow> Instance \<Rightarrow> ('s, Instance) state" where
  "clearMemberConditions lib c member =
     (case removeConditions lib [MemberConfiguredConditionType, MemberJoinedConditionType, MemberReadyConditionType]
          (ist_Conditions (inst_Status member)) of
        (changed, cs) \<Rightarrow>
          if \<not> changed then return (withConditions cs member) else persistMember c (withConditions cs member))"

fun setConditions :: "apimachinery \<Rightarrow> Condition list \<Rightarrow> Condition list \<Rightarrow> Condition list" where
  "setConditions am [] cs = cs"
| "setConditions am (x # xs) cs = setConditions am xs (snd (am_setStatusCondition am cs x))"

definition persistMemberProbe :: "'s taloslib \<Rightarrow> 's client \<Rightarrow> Instance \<Rightarrow> int \<Rightarrow> Condition list \<Rightarrow> ('s, Instance) state" where
  "persistMemberProbe lib c member probeTime conds =
     persistMember c (member\<lparr>inst_Status := (inst_Status member)
       \<lparr>ist_Conditions := setConditions (tl_am lib) conds (ist_Conditions (inst_Status member)), ist_LastProbeTime := probeTime\<rparr>\<rparr>)"

section \<open>Secrets of a cluster\<close>

definition secretsBundleKey :: string where "secretsBundleKey = ''secrets-bundle''"

definition kubeconfigKey :: string where "kubeconfigKey = ''kubeconfig''"

definition clusterSecretNamePrefix :: string where "clusterSecretNamePrefix = ''taloscluster-''"

definition secretRefFor :: "string \<Rightarrow> SecretReference" where
  "secretRefFor name = \<lparr>sr_Name = clusterSecretNamePrefix @ name, sr_Namespace = KontinuumSystemNamespace\<rparr>"

definition loadSecretsBundle :: "'s taloslib \<Rightarrow> 's client \<Rightarrow> SecretReference \<Rightarrow> ('s, goerr + talosBundle) state" where
  "loadSecretsBundle lib c ref = do {
     g \<leftarrow> kget (cl_Secret c) (sr_Namespace ref, sr_Name ref);
     (case g of
        Inl err \<Rightarrow> return (Inl (Errorf ''failed to fetch %q secrets bundle secret: %w'' [sr_Name ref] [err]))
      | Inr secret \<Rightarrow> (case tl_Unmarshal lib (dataField secret secretsBundleKey) of
           Inl err \<Rightarrow> return (Inl (Errorf ''failed to unmarshal %q secrets bundle: %w'' [sr_Name ref] [err]))
         | Inr bundle \<Rightarrow> return (Inr bundle)))
   }"

definition clusterEnsureNamespace :: "'s client \<Rightarrow> string \<Rightarrow> ('s, goerr option) state" where
  "clusterEnsureNamespace c namespace = do {
     n \<leftarrow> kcreate (cl_Namespace c) (namespaceObj namespace);
     (case n of
        Inl err \<Rightarrow> if \<not> isAlreadyExists err then return (Some (Errorf ''failed to ensure %q namespace: %w'' [namespace] [err])) else return None
      | Inr _ \<Rightarrow> return None)
   }"

definition bundleSecret :: "SecretReference \<Rightarrow> string \<Rightarrow> Secret" where
  "bundleSecret ref data = \<lparr>sec_meta = objectMeta (sr_Namespace ref) (sr_Name ref), sec_Type = '''',
     sec_Data = [secretsBundleKey \<mapsto> data], sec_StringData = Map.empty\<rparr>"

definition setSecretRef :: "SecretReference \<Rightarrow> TalosCluster \<Rightarrow> TalosCluster" where
  "setSecretRef ref cluster = cluster\<lparr>tc_Status := (tc_Status cluster)\<lparr>tcst_SecretRef := ref\<rparr>\<rparr>"

text \<open>The second half of \<open>ensureSecretsBundle\<close>: a fresh bundle is marshalled and its Secret created.\<close>

definition createBundleSecret :: "'s taloslib \<Rightarrow> 's client \<Rightarrow> TalosCluster \<Rightarrow> talosBundle \<Rightarrow> ('s, goerr + TalosCluster \<times> talosBundle) state" where
  "createBundleSecret lib c cluster bundle = (case tl_Marshal lib bundle of
       Inl err \<Rightarrow> return (Inl (Errorf ''failed to marshal secrets bundle for %q: %w'' [clusterName cluster] [err]))
     | Inr data \<Rightarrow> (let ref = secretRefFor (clusterName cluster); secret = bundleSecret ref data in do {
         n \<leftarrow> clusterEnsureNamespace c (sr_Namespace ref);
         (case n of
            Some err \<Rightarrow> return (Inl err)
          | None \<Rightarrow> (case am_setControllerReference (tl_am lib) (tc_meta cluster) (sec_meta secret) of
              Inl err \<Rightarrow> return (Inl (Errorf ''failed to set owner reference on %q secret: %w'' [sr_Name ref] [err]))
            | Inr m \<Rightarrow> do {
                k \<leftarrow> kcreate (cl_Secret c) (secret\<lparr>sec_meta := m\<rparr>);
                (case k of
                   Inl err \<Rightarrow> return (Inl (Errorf ''failed to create %q secret: %w'' [sr_Name ref] [err]))
                 | Inr _ \<Rightarrow> return (Inr (setSecretRef ref cluster, bundle)))
              }))
       }))"

text \<open>The result is the cluster, whose status the function changes, and the bundle.\<close>

definition ensureSecretsBundle :: "'s taloslib \<Rightarrow> 's client \<Rightarrow> TalosCluster \<Rightarrow> ('s, goerr + TalosCluster \<times> talosBundle) state" where
  "ensureSecretsBundle lib c cluster =
     (if sr_Name (tcst_SecretRef (tc_Status cluster)) \<noteq> '''' then do {
        b \<leftarrow> loadSecretsBundle lib c (tcst_SecretRef (tc_Status cluster));
        (case b of Inl err \<Rightarrow> return (Inl err) | Inr bundle \<Rightarrow> return (Inr (cluster, bundle)))
      }
      else (let ver = fst (resolveVersions cluster) in
        case tl_ParseContract lib ver of
          Inl err \<Rightarrow> return (Inl (Errorf ''failed to parse talos version contract %q: %w'' [ver] [err]))
        | Inr contract \<Rightarrow> do {
            b \<leftarrow> tl_NewBundle lib contract;
            (case b of
               Inl err \<Rightarrow> return (Inl (Errorf ''failed to generate secrets bundle for %q: %w'' [clusterName cluster] [err]))
             | Inr bundle \<Rightarrow> createBundleSecret lib c cluster bundle)
          }))"

definition storeKubeconfig :: "'s client \<Rightarrow> TalosCluster \<Rightarrow> string \<Rightarrow> ('s, goerr option) state" where
  "storeKubeconfig c cluster kubeconfig =
     (let ref = tcst_SecretRef (tc_Status cluster) in do {
        g \<leftarrow> kget (cl_Secret c) (sr_Namespace ref, sr_Name ref);
        (case g of
           Inl err \<Rightarrow> return (Some (Errorf ''failed to fetch %q secret to store kubeconfig: %w'' [sr_Name ref] [err]))
         | Inr secret \<Rightarrow> do {
             u \<leftarrow> kupdate (cl_Secret c) (secret\<lparr>sec_Data := (sec_Data secret)(kubeconfigKey \<mapsto> kubeconfig)\<rparr>);
             (case u of
                Inl err \<Rightarrow> return (Some (Errorf ''failed to store kubeconfig on %q secret: %w'' [sr_Name ref] [err]))
              | Inr _ \<Rightarrow> return None)
           })
      })"

end
