(* ===== verification/AddonValues.thy ===== *)
theory AddonValues
  imports TalosMachine "HOL-Library.AList"
begin

text \<open>
  What an addon installs: \<open>values.go\<close>, \<open>celvalues.go\<close>, \<open>resources.go\<close> and \<open>externaldns.go\<close> of
  \<open>pkg/domain/addon\<close>.  A Go value of type \<open>any\<close> that came out of a JSON or YAML decoder is
  a \<open>jval\<close>; a \<open>map[string]any\<close> is a list of pairs with distinct keys.  The decoders, the
  CEL library and the embedded files are the parameter \<open>addonlib\<close>.
\<close>

section \<open>Values\<close>

datatype jval = JNull | JBool bool | JNum int | JStr string | JList "jval list" | JMap "(string \<times> jval) list"

type_synonym jmap = "(string \<times> jval) list"

text \<open>The value a key gets when an overlay is merged over what is there.\<close>

function mergeValues :: "jmap \<Rightarrow> jmap \<Rightarrow> jmap" and mergeValue :: "jval option \<Rightarrow> jval \<Rightarrow> jval" where
  "mergeValues base [] = base"
| "mergeValues base ((key, overlayValue) # overlay) =
     mergeValues (AList.update key (mergeValue (map_of base key) overlayValue) base) overlay"
| "mergeValue baseValue overlayValue = (case baseValue of
     Some (JMap baseMap) \<Rightarrow> (case overlayValue of JMap overlayMap \<Rightarrow> JMap (mergeValues baseMap overlayMap) | _ \<Rightarrow> overlayValue)
   | _ \<Rightarrow> overlayValue)"
  by pat_completeness auto
termination
  by (relation "measure (\<lambda>x. case x of Inl (b, ov) \<Rightarrow> 2 * size_list (size_prod (\<lambda>_. 0) size) ov | Inr (b, v) \<Rightarrow> Suc (2 * size v))") auto

declare mergeValue.simps [simp del]

text \<open>What the merge leaves under a key, for an overlay that names every key once.\<close>

lemma mergeValues_other: "key \<notin> fst ` set overlay \<Longrightarrow> map_of (mergeValues base overlay) key = map_of base key"
  by (induction overlay arbitrary: base) (auto simp: update_conv')

lemma mergeValues_key:
  "distinct (map fst overlay) \<Longrightarrow> map_of overlay key = Some v \<Longrightarrow>
   map_of (mergeValues base overlay) key = Some (mergeValue (map_of base key) v)"
proof (induction overlay arbitrary: base)
  case (Cons kv overlay)
  obtain k v' where kv: "kv = (k, v')" by fastforce
  show ?case
  proof (cases "k = key")
    case True
    then show ?thesis using Cons(2,3) kv by (simp add: mergeValues_other update_conv')
  next
    case False
    then show ?thesis using Cons kv by (simp add: update_conv')
  qed
qed simp

text \<open>The value at a path of keys; a tree whose maps name every key once.\<close>

fun atPath :: "jval \<Rightarrow> string list \<Rightarrow> jval option" where
  "atPath v [] = Some v"
| "atPath (JMap m) (k # p) = (case map_of m k of None \<Rightarrow> None | Some v \<Rightarrow> atPath v p)"
| "atPath _ (k # p) = None"

fun uniqueKeys :: "jval \<Rightarrow> bool" where
  "uniqueKeys (JMap m) = (distinct (map fst m) \<and> (\<forall>kv\<in>set m. uniqueKeys (snd kv)))"
| "uniqueKeys (JList l) = (\<forall>v\<in>set l. uniqueKeys v)"
| "uniqueKeys _ = True"

fun isMap :: "jval \<Rightarrow> bool" where
  "isMap (JMap _) = True"
| "isMap _ = False"

lemma mergeValue_leaf: "\<not> isMap v \<Longrightarrow> mergeValue b v = v"
  by (cases v) (simp_all add: mergeValue.simps split: option.splits jval.splits)

lemma mergeValue_no_map: "(\<And>m. b \<noteq> Some (JMap m)) \<Longrightarrow> mergeValue b v = v"
  by (auto simp: mergeValue.simps split: option.splits jval.splits)

text \<open>
  Where the overlay holds a value that is not a map, the merge holds it too; a path at which
  the overlay says nothing, and above which it only has maps, keeps its base value.
\<close>

lemma mergeValue_wins:
  "uniqueKeys v \<Longrightarrow> atPath v p = Some lf \<Longrightarrow> \<not> isMap lf \<Longrightarrow> atPath (mergeValue b v) p = Some lf"
proof (induction p arbitrary: b v)
  case Nil
  then show ?case by (simp add: mergeValue_leaf)
next
  case (Cons k p)
  then obtain m where m: "v = JMap m" by (cases v) auto
  with Cons(3) obtain w where w: "map_of m k = Some w" "atPath w p = Some lf" by (auto split: option.splits)
  have u: "uniqueKeys w" "distinct (map fst m)" using Cons(2) m w(1) map_of_SomeD by fastforce+
  show ?case
  proof (cases "\<exists>bm. b = Some (JMap bm)")
    case True
    then obtain bm where "b = Some (JMap bm)" by blast
    then show ?thesis using Cons(1) [OF u(1) w(2) Cons(4)] w(1) m mergeValues_key [OF u(2) w(1), of bm]
      by (simp add: mergeValue.simps)
  next
    case False
    then show ?thesis using Cons(3) mergeValue_no_map by metis
  qed
qed

fun silentAt :: "jval \<Rightarrow> string list \<Rightarrow> bool" where
  "silentAt (JMap m) (k # p) = (case map_of m k of None \<Rightarrow> True | Some v \<Rightarrow> silentAt v p)"
| "silentAt _ _ = False"

lemma mergeValue_keeps:
  "uniqueKeys v \<Longrightarrow> silentAt v p \<Longrightarrow> atPath b p = Some w \<Longrightarrow> atPath (mergeValue (Some b) v) p = Some w"
proof (induction p arbitrary: b v)
  case (Cons k p)
  then obtain m where m: "v = JMap m" by (cases v) auto
  from Cons(4) obtain bm where bm: "b = JMap bm" by (cases b) auto
  with Cons(4) obtain bw where bw: "map_of bm k = Some bw" "atPath bw p = Some w" by (auto split: option.splits)
  show ?case
  proof (cases "map_of m k")
    case None
    then have "k \<notin> fst ` set m" by (simp add: map_of_eq_None_iff)
    then show ?thesis using m bm bw by (simp add: mergeValue.simps mergeValues_other)
  next
    case (Some u)
    then have "uniqueKeys u" "distinct (map fst m)" using Cons(2) m map_of_SomeD by fastforce+
    moreover have "silentAt u p" using Cons(3) m Some by simp
    ultimately show ?thesis using Cons(1) [of u bw] bw m bm mergeValues_key [OF _ Some, of bm]
      by (simp add: mergeValue.simps)
  qed
qed simp

section \<open>Defaults of an addon\<close>

definition ciliumAddonName :: string where "ciliumAddonName = ''cilium''"

definition certManagerAddonName :: string where "certManagerAddonName = ''cert-manager''"

definition gatewayAPICRDsAddonName :: string where "gatewayAPICRDsAddonName = ''gateway-api-crds''"

definition externalDNSAddonName :: string where "externalDNSAddonName = ''external-dns''"

definition defaultAddonPriority :: int32 where "defaultAddonPriority = 100"

definition AddonProvisioningMethodHelmUpgradeInstall :: string where
  "AddonProvisioningMethodHelmUpgradeInstall = ''HelmUpgradeInstall''"

definition AddonProvisioningMethodKubectlApply :: string where
  "AddonProvisioningMethodKubectlApply = ''KubectlApply''"

record addonDefaults =
  ad_Chart :: AddonChartSpec
  ad_Namespace :: AddonNamespaceSpec
  ad_Provisioning :: AddonProvisioningSpec
  ad_Priority :: int32
  ad_Values :: jmap

definition zeroAddonDefaults :: addonDefaults where
  "zeroAddonDefaults = \<lparr>ad_Chart = \<lparr>acs_Repo = '''', acs_Name = '''', acs_Version = ''''\<rparr>, ad_Namespace = \<lparr>ans_Name = ''''\<rparr>,
     ad_Provisioning = \<lparr>aps_Method = ''''\<rparr>, ad_Priority = 0, ad_Values = []\<rparr>"

text \<open>
  The libraries an addon needs: the embedded files and the YAML decoder, the JSON decoder and
  encoder, the CEL library (environment, compile, program, evaluate), the conversion of a
  cluster to a map, Helm's test for an OCI reference and the check of a label value.
\<close>

record addonlib =
  al_am :: apimachinery
  al_readFile :: "string \<Rightarrow> goerr + string"
  al_yamlDefaults :: "string \<Rightarrow> goerr + addonDefaults"
  al_yamlStrings :: "string \<Rightarrow> goerr + (string \<times> string) list"
  al_jsonUnmarshal :: "string \<Rightarrow> goerr + jmap"
  al_jsonMarshal :: "jval \<Rightarrow> goerr + string"
  al_celEnv :: "goerr option"
  al_celCompile :: "string \<Rightarrow> goerr + string"
  al_celProgram :: "string \<Rightarrow> goerr + string"
  al_celEval :: "string \<Rightarrow> jval \<Rightarrow> goerr + jval"
  al_toUnstructured :: "TalosCluster \<Rightarrow> goerr + jmap"
  al_IsOCI :: "string \<Rightarrow> bool"
  al_IsValidLabelValue :: "string \<Rightarrow> string list"

definition loadAddonDefaults :: "addonlib \<Rightarrow> string \<Rightarrow> goerr + addonDefaults" where
  "loadAddonDefaults al name = (case al_readFile al (''values/'' @ name @ ''.yaml'') of
       Inl err \<Rightarrow> Inl (Errorf ''failed to read embedded %s.yaml: %w'' [name] [err])
     | Inr data \<Rightarrow> (case al_yamlDefaults al data of
         Inl err \<Rightarrow> Inl (Errorf ''failed to parse embedded %s.yaml: %w'' [name] [err])
       | Inr defaults \<Rightarrow> Inr defaults))"

definition Enabled :: "AddonSpec \<Rightarrow> bool" where
  "Enabled spec \<longleftrightarrow> asp_Enabled spec = None \<or> asp_Enabled spec = Some True"

abbreviation addonName :: "Addon \<Rightarrow> string" where "addonName addon \<equiv> om_Name (addon_meta addon)"

definition ReleaseName :: "Addon \<Rightarrow> string" where
  "ReleaseName addon = (if asp_ReleaseName (addon_Spec addon) \<noteq> '''' then asp_ReleaseName (addon_Spec addon) else addonName addon)"

abbreviation specMethod :: "AddonSpec \<Rightarrow> string" where "specMethod spec \<equiv> aps_Method (als_Provisioning (asp_Lifecycle spec))"

definition addonMethod :: "AddonSpec \<Rightarrow> addonDefaults \<Rightarrow> string" where
  "addonMethod spec def =
     (if specMethod spec \<noteq> '''' then specMethod spec
      else if aps_Method (ad_Provisioning def) \<noteq> '''' then aps_Method (ad_Provisioning def)
      else AddonProvisioningMethodHelmUpgradeInstall)"

definition addonUserValues :: "addonlib \<Rightarrow> AddonSpec \<Rightarrow> goerr + jmap" where
  "addonUserValues al spec = (case asp_Values spec of
       None \<Rightarrow> Inr []
     | Some raw \<Rightarrow> if length raw = 0 then Inr []
         else (case al_jsonUnmarshal al raw of
            Inl err \<Rightarrow> Inl (Errorf ''failed to parse addon values: %w'' [] [err])
          | Inr values \<Rightarrow> Inr values))"

definition errAddonMissingChart :: goerr where
  "errAddonMissingChart = Sentinel ''addon has no chart repo/name -- set spec.chart (no built-in default for this ReleaseName)''"

definition errAddonMissingNamespace :: goerr where
  "errAddonMissingNamespace = Sentinel ''addon has no namespace -- set spec.namespace (no built-in default for this ReleaseName)''"

definition builtinAddonNames :: "string list" where
  "builtinAddonNames = [gatewayAPICRDsAddonName, ciliumAddonName, certManagerAddonName]"

definition addonNamesWithDefaults :: "string list" where
  "addonNamesWithDefaults = builtinAddonNames @ [externalDNSAddonName]"

definition overridden :: "string \<Rightarrow> string \<Rightarrow> string" where
  "overridden base new = (if new \<noteq> '''' then new else base)"

definition resolveAddonChart :: "addonlib \<Rightarrow> AddonSpec \<Rightarrow> addonDefaults \<Rightarrow> goerr + string \<times> string \<times> string" where
  "resolveAddonChart al spec def =
     (let repo = acs_Repo (ad_Chart def); chartName = overridden (asp_ReleaseName spec) (acs_Name (ad_Chart def));
          version = acs_Version (ad_Chart def);
          (repo, chartName, version) = (case asp_Chart spec of
             None \<Rightarrow> (repo, chartName, version)
           | Some chart \<Rightarrow> (overridden repo (acs_Repo chart), overridden chartName (acs_Name chart), overridden version (acs_Version chart)))
      in if chartName = '''' \<or> repo = '''' \<and> \<not> al_IsOCI al chartName
         then Inl (Errorf ''%q: %w'' [asp_ReleaseName spec] [errAddonMissingChart])
         else Inr (repo, chartName, version))"

definition EffectivePriority :: "addonlib \<Rightarrow> Addon \<Rightarrow> goerr + int32" where
  "EffectivePriority al addon = (case als_Priority (asp_Lifecycle (addon_Spec addon)) of
       Some p \<Rightarrow> Inr p
     | None \<Rightarrow> (let releaseName = ReleaseName addon in
         if releaseName \<notin> set addonNamesWithDefaults then Inr defaultAddonPriority
         else (case loadAddonDefaults al releaseName of
            Inl err \<Rightarrow> Inl err
          | Inr def \<Rightarrow> if ad_Priority def \<noteq> 0 then Inr (ad_Priority def) else Inr defaultAddonPriority)))"

section \<open>Computed values\<close>

definition kubePrismPort :: int where "kubePrismPort = 7445"

definition CelFieldKey :: string where "CelFieldKey = ''$cel''"

definition errComputedValuesNotMap :: goerr where
  "errComputedValuesNotMap = Sentinel ''resolved computed values is not a map''"

definition celEnv :: "addonlib \<Rightarrow> goerr option" where
  "celEnv al = wrapErr ''failed to build CEL environment: %w'' [] (al_celEnv al)"

text \<open>A value that is no map counts as no status at all.\<close>

definition CelContext :: "addonlib \<Rightarrow> TalosCluster \<Rightarrow> int \<Rightarrow> goerr + jmap" where
  "CelContext al cluster controlPlaneCount = (case al_toUnstructured al cluster of
       Inl err \<Rightarrow> Inl (Errorf ''failed to convert TalosCluster to CEL context: %w'' [] [err])
     | Inr unstructuredCluster \<Rightarrow>
         (let status = (case map_of unstructuredCluster ''status'' of Some (JMap m) \<Rightarrow> m | _ \<Rightarrow> []);
              status = AList.update ''controlPlane'' (JMap [(''replicas'', JNum controlPlaneCount)]) status;
              unstructuredCluster = AList.update ''status'' (JMap status) unstructuredCluster
          in Inr [(''taloscluster'', JMap unstructuredCluster), (''talos'', JMap [(''kubePrism'', JMap [(''port'', JNum kubePrismPort)])])]))"

fun celExpr :: "jmap \<Rightarrow> string option" where
  "celExpr [(k, JStr expr)] = (if k = CelFieldKey then Some expr else None)"
| "celExpr _ = None"

definition evalExpr :: "addonlib \<Rightarrow> string \<Rightarrow> jmap \<Rightarrow> goerr + jval" where
  "evalExpr al expr celCtx = (case al_celCompile al expr of
       Inl err \<Rightarrow> Inl (Errorf ''failed to compile CEL expression %q: %w'' [expr] [err])
     | Inr ast \<Rightarrow> (case al_celProgram al ast of
         Inl err \<Rightarrow> Inl (Errorf ''failed to build CEL program for %q: %w'' [expr] [err])
       | Inr prg \<Rightarrow> (case al_celEval al prg (JMap [(''ctx'', JMap celCtx)]) of
           Inl err \<Rightarrow> Inl (Errorf ''failed to evaluate CEL expression %q: %w'' [expr] [err])
         | Inr out \<Rightarrow> Inr out)))"

text \<open>
  Go walks a map in an arbitrary order; here it is the order of the list, which decides only
  which of several errors is reported.
\<close>

fun evalNode :: "addonlib \<Rightarrow> jval \<Rightarrow> jmap \<Rightarrow> goerr + jval" and
    evalEntries :: "addonlib \<Rightarrow> jmap \<Rightarrow> jmap \<Rightarrow> goerr + jmap" and
    evalItems :: "addonlib \<Rightarrow> jval list \<Rightarrow> jmap \<Rightarrow> goerr + jval list" where
  "evalNode al (JMap m) celCtx = (case celExpr m of
       Some expr \<Rightarrow> evalExpr al expr celCtx
     | None \<Rightarrow> (case evalEntries al m celCtx of Inl err \<Rightarrow> Inl err | Inr resolved \<Rightarrow> Inr (JMap resolved)))"
| "evalNode al (JList l) celCtx = (case evalItems al l celCtx of Inl err \<Rightarrow> Inl err | Inr resolved \<Rightarrow> Inr (JList resolved))"
| "evalNode al v celCtx = Inr v"
| "evalEntries al [] celCtx = Inr []"
| "evalEntries al ((key, child) # rest) celCtx = (case evalNode al child celCtx of
       Inl err \<Rightarrow> Inl (Errorf ''failed to resolve %q: %w'' [key] [err])
     | Inr resolvedChild \<Rightarrow> (case evalEntries al rest celCtx of
         Inl err \<Rightarrow> Inl err
       | Inr resolved \<Rightarrow> Inr ((key, resolvedChild) # resolved)))"
| "evalItems al [] celCtx = Inr []"
| "evalItems al (child # rest) celCtx = (case evalNode al child celCtx of
       Inl err \<Rightarrow> Inl err
     | Inr resolvedChild \<Rightarrow> (case evalItems al rest celCtx of
         Inl err \<Rightarrow> Inl err
       | Inr resolved \<Rightarrow> Inr (resolvedChild # resolved)))"

definition EvaluateComputedValues :: "addonlib \<Rightarrow> jmap \<Rightarrow> jmap \<Rightarrow> goerr + jmap" where
  "EvaluateComputedValues al values celCtx =
     (if length values = 0 then Inr values
      else (case celEnv al of
         Some err \<Rightarrow> Inl err
       | None \<Rightarrow> (case evalNode al (JMap values) celCtx of
           Inl err \<Rightarrow> Inl err
         | Inr (JMap resolvedMap) \<Rightarrow> Inr resolvedMap
         | Inr resolved \<Rightarrow> Inl (Errorf ''%T: %w'' [''any''] [errComputedValuesNotMap]))))"

record InstallRequest =
  ir_ReleaseName :: string
  ir_RepoURL :: string
  ir_ChartName :: string
  ir_Version :: string
  ir_Namespace :: string
  ir_Method :: string
  ir_Values :: jmap

definition resolveAddon :: "addonlib \<Rightarrow> AddonSpec \<Rightarrow> jmap \<Rightarrow> goerr + InstallRequest" where
  "resolveAddon al spec celCtx =
     (case (if asp_ReleaseName spec \<in> set addonNamesWithDefaults then loadAddonDefaults al (asp_ReleaseName spec) else Inr zeroAddonDefaults) of
        Inl err \<Rightarrow> Inl err
      | Inr def \<Rightarrow> (case resolveAddonChart al spec def of
          Inl err \<Rightarrow> Inl err
        | Inr (repo, chartName, version) \<Rightarrow>
            (let namespace = overridden (ans_Name (ad_Namespace def)) (ans_Name (asp_Namespace spec)) in
             if namespace = '''' then Inl (Errorf ''%q: %w'' [asp_ReleaseName spec] [errAddonMissingNamespace])
             else (case addonUserValues al spec of
               Inl err \<Rightarrow> Inl err
             | Inr userValues \<Rightarrow> (case EvaluateComputedValues al (ad_Values def) celCtx of
                 Inl err \<Rightarrow> Inl (Errorf ''failed to resolve computed values for addon %q: %w'' [asp_ReleaseName spec] [err])
               | Inr resolvedDefaults \<Rightarrow> Inr
                   \<lparr>ir_ReleaseName = asp_ReleaseName spec, ir_RepoURL = repo, ir_ChartName = chartName, ir_Version = version,
                    ir_Namespace = namespace, ir_Method = addonMethod spec def,
                    ir_Values = mergeValues resolvedDefaults userValues\<rparr>)))))"

lemma mergeValues_as_value: "JMap (mergeValues b v) = mergeValue (Some (JMap b)) (JMap v)"
  by (simp add: mergeValue.simps)

lemma resolveAddon_request:
  assumes "resolveAddon al spec celCtx = Inr req"
  shows "ir_ChartName req \<noteq> [] \<and> ir_Namespace req \<noteq> [] \<and> (ir_RepoURL req = [] \<longrightarrow> al_IsOCI al (ir_ChartName req))"
  using assms
  by (auto simp: resolveAddon_def resolveAddonChart_def Let_def split: sum.splits if_splits prod.splits option.splits)

lemma resolveAddon_merged:
  assumes "resolveAddon al spec celCtx = Inr req" and "addonUserValues al spec = Inr user"
    and "asp_ReleaseName spec \<in> set addonNamesWithDefaults" and "loadAddonDefaults al (asp_ReleaseName spec) = Inr def"
    and "EvaluateComputedValues al (ad_Values def) celCtx = Inr dv"
  shows "ir_Values req = mergeValues dv user"
  using assms by (auto simp: resolveAddon_def Let_def split: sum.splits if_splits prod.splits)

text \<open>
  What an addon is installed with.  A request that \<open>resolveAddon\<close> builds names a chart and a
  namespace, and a repository unless the chart is an OCI reference.  Its values are the
  addon's defaults with the user's laid over them: every value of the user that is not a map
  is in force at its path, and a default is in force at every path where the user is silent.
\<close>

theorem resolveAddon_values:
  assumes "resolveAddon al spec celCtx = Inr req" and "addonUserValues al spec = Inr user" and "uniqueKeys (JMap user)"
    and "asp_ReleaseName spec \<in> set addonNamesWithDefaults" and "loadAddonDefaults al (asp_ReleaseName spec) = Inr def"
    and "EvaluateComputedValues al (ad_Values def) celCtx = Inr dv"
  shows "ir_ChartName req \<noteq> '''' \<and> ir_Namespace req \<noteq> '''' \<and> (ir_RepoURL req = '''' \<longrightarrow> al_IsOCI al (ir_ChartName req)) \<and>
    (atPath (JMap user) p = Some v \<and> \<not> isMap v \<longrightarrow> atPath (JMap (ir_Values req)) p = Some v) \<and>
    (silentAt (JMap user) p \<and> atPath (JMap dv) p = Some w \<longrightarrow> atPath (JMap (ir_Values req)) p = Some w)"
proof -
  have "ir_Values req = mergeValues dv user"
    by (rule resolveAddon_merged [OF assms(1,2,4-6)])
  with resolveAddon_request [OF assms(1)] mergeValue_wins [OF assms(3)] mergeValue_keeps [OF assms(3)]
  show ?thesis by (simp add: mergeValues_as_value)
qed

section \<open>Seeding addons\<close>

definition addonResourceName :: "string \<Rightarrow> string \<Rightarrow> string" where
  "addonResourceName cluster releaseName = cluster @ ''-'' @ releaseName"

definition emptyAddon :: "string \<Rightarrow> string \<Rightarrow> Addon" where
  "emptyAddon namespace name = \<lparr>addon_meta = objectMeta namespace name,
     addon_Spec = \<lparr>asp_TalosClusterRef = \<lparr>tcr_Name = ''''\<rparr>, asp_ReleaseName = '''', asp_Enabled = None, asp_Chart = None,
        asp_Lifecycle = \<lparr>als_Provisioning = \<lparr>aps_Method = ''''\<rparr>, als_Priority = None\<rparr>, asp_Namespace = \<lparr>ans_Name = ''''\<rparr>,
        asp_Values = None, asp_Secrets = []\<rparr>,
     addon_Status = \<lparr>ast_Conditions = []\<rparr>\<rparr>"

definition defaultLifecycle :: "addonDefaults \<Rightarrow> AddonLifecycleSpec" where
  "defaultLifecycle def = \<lparr>als_Provisioning = \<lparr>aps_Method =
      (if aps_Method (ad_Provisioning def) = '''' then AddonProvisioningMethodHelmUpgradeInstall else aps_Method (ad_Provisioning def))\<rparr>,
     als_Priority = Some (ad_Priority def)\<rparr>"

definition seedSpec :: "string \<Rightarrow> string \<Rightarrow> addonDefaults \<Rightarrow> AddonSpec" where
  "seedSpec cluster releaseName def = (addon_Spec (emptyAddon '''' ''''))
     \<lparr>asp_TalosClusterRef := \<lparr>tcr_Name = cluster\<rparr>, asp_ReleaseName := releaseName, asp_Namespace := ad_Namespace def,
      asp_Lifecycle := defaultLifecycle def\<rparr>"

definition ensureBuiltinAddonSeed :: "addonlib \<Rightarrow> 's client \<Rightarrow> TalosCluster \<Rightarrow> string \<Rightarrow> ('s, goerr option) state" where
  "ensureBuiltinAddonSeed al c cluster releaseName =
     (let seed = emptyAddon (clusterNamespace cluster) (addonResourceName (clusterName cluster) releaseName) in do {
        g \<leftarrow> kget (cl_Addon c) (keyOf (addon_meta seed));
        (case g of
           Inr _ \<Rightarrow> return None
         | Inl err \<Rightarrow>
             if \<not> isNotFound err then return (Some (Errorf ''failed to check for existing addon %q: %w'' [addonName seed] [err]))
             else (case loadAddonDefaults al releaseName of
                Inl err \<Rightarrow> return (Some (Errorf ''failed to load built-in defaults for addon %q: %w'' [releaseName] [err]))
              | Inr def \<Rightarrow> (case am_setControllerReference (al_am al) (tc_meta cluster) (addon_meta seed) of
                  Inl err \<Rightarrow> return (Some (Errorf ''failed to set owner reference on addon %q: %w'' [addonName seed] [err]))
                | Inr m \<Rightarrow> do {
                    k \<leftarrow> kcreate (cl_Addon c) (seed\<lparr>addon_meta := m, addon_Spec := seedSpec (clusterName cluster) releaseName def\<rparr>);
                    (case k of
                       Inl err \<Rightarrow> if \<not> isAlreadyExists err then return (Some (Errorf ''failed to create addon %q: %w'' [addonName seed] [err])) else return None
                     | Inr _ \<Rightarrow> return None)
                  })))
      })"

fun seedLoop :: "addonlib \<Rightarrow> 's client \<Rightarrow> TalosCluster \<Rightarrow> string list \<Rightarrow> ('s, goerr option) state" where
  "seedLoop al c cluster [] = return None"
| "seedLoop al c cluster (releaseName # names) = andThen (ensureBuiltinAddonSeed al c cluster releaseName) (seedLoop al c cluster names)"

definition EnsureBuiltinSeeds :: "addonlib \<Rightarrow> 's client \<Rightarrow> TalosCluster \<Rightarrow> ('s, goerr option) state" where
  "EnsureBuiltinSeeds al c cluster = seedLoop al c cluster builtinAddonNames"

definition ListForCluster :: "'s client \<Rightarrow> string \<Rightarrow> string \<Rightarrow> ('s, goerr + Addon list) state" where
  "ListForCluster c namespace cluster = do {
     l \<leftarrow> klist (cl_Addon c) (Some namespace) (\<lambda>_. True);
     (case l of
        Inl err \<Rightarrow> return (Inl (Errorf ''failed to list addons for %q: %w'' [cluster] [err]))
      | Inr items \<Rightarrow> return (Inr (filter (\<lambda>item. tcr_Name (asp_TalosClusterRef (addon_Spec item)) = cluster) items)))
   }"

text \<open>
  \<open>controllerutil.CreateOrUpdate\<close> of controller-runtime: a missing object is created as the
  callback makes it, an existing one is updated when the callback changes it.
\<close>

definition CreateOrUpdate :: "('s, 'o) kclient \<Rightarrow> ('o \<Rightarrow> ObjectMeta) \<Rightarrow> 'o \<Rightarrow> ('o \<Rightarrow> goerr + 'o) \<Rightarrow> ('s, goerr option) state" where
  "CreateOrUpdate c meta obj mutate = do {
     g \<leftarrow> kget c (keyOf (meta obj));
     (case g of
        Inl err \<Rightarrow>
          if \<not> isNotFound err then return (Some err)
          else (case mutate obj of
             Inl err \<Rightarrow> return (Some err)
           | Inr obj1 \<Rightarrow> do { k \<leftarrow> kcreate c obj1; (case k of Inl err \<Rightarrow> return (Some err) | Inr _ \<Rightarrow> return None) })
      | Inr existing \<Rightarrow> (case mutate existing of
           Inl err \<Rightarrow> return (Some err)
         | Inr obj1 \<Rightarrow> if obj1 = existing then return None
             else do { u \<leftarrow> kupdate c obj1; (case u of Inl err \<Rightarrow> return (Some err) | Inr _ \<Rightarrow> return None) }))
   }"

definition owned :: "apimachinery \<Rightarrow> TalosCluster \<Rightarrow> ('o \<Rightarrow> ObjectMeta) \<Rightarrow> (ObjectMeta \<Rightarrow> 'o \<Rightarrow> 'o) \<Rightarrow> 'o \<Rightarrow> goerr + 'o" where
  "owned am cluster meta setMeta obj = (case am_setControllerReference am (tc_meta cluster) (meta obj) of
       Inl err \<Rightarrow> Inl err | Inr m \<Rightarrow> Inr (setMeta m obj))"

definition credentialSecret :: "(string \<times> string) list \<Rightarrow> Secret \<Rightarrow> Secret" where
  "credentialSecret keys secret = secret\<lparr>sec_Type := ''Opaque'', sec_StringData := Map.empty, sec_Data := map_of keys\<rparr>"

definition ensureExternalDNSCredentialSecret :: "addonlib \<Rightarrow> 's client \<Rightarrow> TalosCluster \<Rightarrow> string \<Rightarrow> (string \<times> string) list \<Rightarrow>
    ('s, goerr option) state" where
  "ensureExternalDNSCredentialSecret al c cluster name keys = do {
     e \<leftarrow> CreateOrUpdate (cl_Secret c) sec_meta (secretObj (clusterNamespace cluster) name)
            (\<lambda>secret. owned (al_am al) cluster sec_meta (\<lambda>m x. x\<lparr>sec_meta := m\<rparr>) (credentialSecret keys secret));
     return (wrapErr ''failed to ensure %q secret: %w'' [name] e)
   }"

definition externalDNSAddonValues :: "addonlib \<Rightarrow> string \<Rightarrow> string \<Rightarrow> (string \<times> string) list \<Rightarrow> goerr + string" where
  "externalDNSAddonValues al provider credName keys =
     (let env = map (\<lambda>name. JMap [(''name'', JStr name), (''valueFrom'', JMap [(''secretKeyRef'',
            JMap [(''name'', JStr credName), (''key'', JStr name)])])]) (sort (map fst keys)) in
      case al_jsonMarshal al (JMap [(''provider'', JMap [(''name'', JStr provider)]), (''env'', JList env)]) of
        Inl err \<Rightarrow> Inl (Errorf ''failed to marshal external-dns addon values: %w'' [] [err])
      | Inr raw \<Rightarrow> Inr raw)"

definition externalDNSSpec :: "string \<Rightarrow> addonDefaults \<Rightarrow> string \<Rightarrow> string \<Rightarrow> Addon \<Rightarrow> Addon" where
  "externalDNSSpec cluster def credName values addon = addon\<lparr>addon_Spec := (addon_Spec addon)
     \<lparr>asp_TalosClusterRef := \<lparr>tcr_Name = cluster\<rparr>, asp_ReleaseName := externalDNSAddonName, asp_Namespace := ad_Namespace def,
      asp_Lifecycle := defaultLifecycle def, asp_Secrets := [\<lparr>asr_Name = credName\<rparr>], asp_Values := Some values\<rparr>\<rparr>"

definition ensureExternalDNSAddon :: "addonlib \<Rightarrow> 's client \<Rightarrow> TalosCluster \<Rightarrow> string \<Rightarrow> string \<Rightarrow> ('s, goerr option) state" where
  "ensureExternalDNSAddon al c cluster credName values = (case loadAddonDefaults al externalDNSAddonName of
       Inl err \<Rightarrow> return (Some (Errorf ''failed to load defaults for addon %q: %w'' [externalDNSAddonName] [err]))
     | Inr def \<Rightarrow> (let addon = emptyAddon (clusterNamespace cluster) (addonResourceName (clusterName cluster) externalDNSAddonName) in do {
         e \<leftarrow> CreateOrUpdate (cl_Addon c) addon_meta addon
                (\<lambda>a. owned (al_am al) cluster addon_meta (\<lambda>m x. x\<lparr>addon_meta := m\<rparr>) (externalDNSSpec (clusterName cluster) def credName values a));
         (case e of
            Some err \<Rightarrow> if \<not> isAlreadyExists err then return (Some (Errorf ''failed to ensure addon %q: %w'' [addonName addon] [err])) else return None
          | None \<Rightarrow> return None)
       }))"

definition EnsureExternalDNSSeed :: "addonlib \<Rightarrow> 's client \<Rightarrow> TalosCluster \<Rightarrow> string \<Rightarrow> string \<Rightarrow> ('s, goerr option) state" where
  "EnsureExternalDNSSeed al c cluster provider credential = (case ParseDNSCredentialKeys (al_yamlStrings al) credential of
       Inl err \<Rightarrow> return (Some err)
     | Inr keys \<Rightarrow> (let name = ExternalDNSCredentialSecretName (clusterName cluster) in
         andThen (ensureExternalDNSCredentialSecret al c cluster name keys)
           (case externalDNSAddonValues al provider name keys of
              Inl err \<Rightarrow> return (Some err)
            | Inr values \<Rightarrow> ensureExternalDNSAddon al c cluster name values)))"

section \<open>A concrete addon\<close>

text \<open>Libraries of a small world: one addon with a computed value, and user values that change another.\<close>

definition demo_defaults :: addonDefaults where
  "demo_defaults = zeroAddonDefaults\<lparr>ad_Chart := \<lparr>acs_Repo = ''https://helm.cilium.io'', acs_Name = '''', acs_Version = ''1.20.2''\<rparr>,
     ad_Namespace := \<lparr>ans_Name = ''kube-system''\<rparr>, ad_Priority := 100,
     ad_Values := [(''k8sServicePort'', JMap [(''$cel'', JStr ''port'')]), (''envoy'', JMap [(''enabled'', JBool True), (''port'', JNum 1)])]\<rparr>"

definition demo_user :: jmap where "demo_user = [(''envoy'', JMap [(''enabled'', JBool False)])]"

definition demo_addonlib :: addonlib where
  "demo_addonlib = \<lparr>al_am = std_apimachinery (\<lambda>_. Inr (\<lambda>_. True)), al_readFile = Inr, al_yamlDefaults = (\<lambda>_. Inr demo_defaults),
     al_yamlStrings = (\<lambda>_. Inr []), al_jsonUnmarshal = (\<lambda>_. Inr demo_user), al_jsonMarshal = (\<lambda>_. Inr ''{}''),
     al_celEnv = None, al_celCompile = Inr, al_celProgram = Inr, al_celEval = (\<lambda>_ _. Inr (JNum kubePrismPort)),
     al_toUnstructured = (\<lambda>_. Inr []), al_IsOCI = (\<lambda>_. False), al_IsValidLabelValue = (\<lambda>_. [])\<rparr>"

definition demo_addon :: Addon where
  "demo_addon = (emptyAddon ''kontinuum-system'' ''eu-a-cilium'')\<lparr>addon_Spec := (addon_Spec (emptyAddon '''' ''''))
     \<lparr>asp_TalosClusterRef := \<lparr>tcr_Name = ''eu-a''\<rparr>, asp_ReleaseName := ciliumAddonName, asp_Values := Some ''{...}''\<rparr>\<rparr>"

definition demo_request :: InstallRequest where
  "demo_request = \<lparr>ir_ReleaseName = ciliumAddonName, ir_RepoURL = ''https://helm.cilium.io'', ir_ChartName = ''cilium'', ir_Version = ''1.20.2'',
     ir_Namespace = ''kube-system'', ir_Method = ''HelmUpgradeInstall'',
     ir_Values = [(''k8sServicePort'', JNum 7445), (''envoy'', JMap [(''enabled'', JBool False), (''port'', JNum 1)])]\<rparr>"

lemma demo_resolved:
  "addonUserValues demo_addonlib (addon_Spec demo_addon) = Inr demo_user"
  "loadAddonDefaults demo_addonlib ciliumAddonName = Inr demo_defaults"
  "EvaluateComputedValues demo_addonlib (ad_Values demo_defaults) celCtx =
     Inr [(''k8sServicePort'', JNum 7445), (''envoy'', JMap [(''enabled'', JBool True), (''port'', JNum 1)])]"
  "resolveAddon demo_addonlib (addon_Spec demo_addon) celCtx = Inr demo_request"
  by (simp_all add: addonUserValues_def demo_addonlib_def demo_addon_def emptyAddon_def loadAddonDefaults_def EvaluateComputedValues_def
      celEnv_def wrapErr_def demo_defaults_def zeroAddonDefaults_def evalExpr_def CelFieldKey_def kubePrismPort_def resolveAddon_def
      resolveAddonChart_def overridden_def addonMethod_def demo_request_def demo_user_def addonNamesWithDefaults_def builtinAddonNames_def
      ciliumAddonName_def AddonProvisioningMethodHelmUpgradeInstall_def mergeValue.simps)

theorem resolveAddon_values_witness:
  "ir_ChartName demo_request \<noteq> '''' \<and> ir_Namespace demo_request \<noteq> '''' \<and>
   atPath (JMap (ir_Values demo_request)) [''envoy'', ''enabled''] = Some (JBool False) \<and>
   atPath (JMap (ir_Values demo_request)) [''k8sServicePort''] = Some (JNum 7445)"
proof -
  have s: "asp_ReleaseName (addon_Spec demo_addon) = ciliumAddonName" "ciliumAddonName \<in> set addonNamesWithDefaults"
    by (simp_all add: demo_addon_def addonNamesWithDefaults_def builtinAddonNames_def)
  have u: "uniqueKeys (JMap demo_user)" by (simp add: demo_user_def)
  note r = resolveAddon_values [OF demo_resolved(4) [of "[]"] demo_resolved(1) u _ _ demo_resolved(3), unfolded s(1), OF s(2) demo_resolved(2)]
  from r [where p = "[''envoy'', ''enabled'']" and v = "JBool False"] r [where p = "[''k8sServicePort'']" and w = "JNum 7445"]
  show ?thesis by (simp add: demo_user_def)
qed

end
