(* ===== verification/TalosReset.thy ===== *)
theory TalosReset
  imports AddonValues
begin

text \<open>
  How machines leave a cluster: \<open>instance_reset.go\<close> and \<open>teardown.go\<close> of
  \<open>pkg/domain/taloscluster\<close>.  The instance reset reconciler wipes the node of a deleted
  Instance before its finalizer goes; the teardown of a cluster wipes every claimed member,
  workers first, and releases or deletes it before the cluster's own finalizer goes.  Both
  give up after a timeout.
\<close>

section \<open>Constants and state\<close>

definition InstanceResetFinalizer :: string where "InstanceResetFinalizer = ''kontinuum.sh/talos-reset''"

definition TalosClusterFinalizer :: string where "TalosClusterFinalizer = ''kontinuum.sh/taloscluster-teardown''"

definition defaultInstanceResetTimeout :: int where "defaultInstanceResetTimeout = 15 * minute"

definition clusterDefaultRetryInterval :: int where "clusterDefaultRetryInterval = 15 * second"

definition errNoSecretsBundle :: goerr where "errNoSecretsBundle = Sentinel ''talos cluster has no secrets bundle yet''"

definition errNoControlPlaneEndpoint :: goerr where
  "errNoControlPlaneEndpoint = Sentinel ''no reachable control-plane member left to dial through''"

datatype memberRole = roleControlPlane | roleWorker

record 's InstanceResetConfig =
  irc_Bootstrapper :: "'s ClusterBootstrapper option"
  irc_RetryInterval :: int
  irc_ResetTimeout :: int

definition NewInstanceResetController :: "'s ClusterBootstrapper \<Rightarrow> 's InstanceResetConfig \<Rightarrow> 's InstanceResetConfig" where
  "NewInstanceResetController production cfg = cfg
     \<lparr>irc_Bootstrapper := (case irc_Bootstrapper cfg of None \<Rightarrow> Some production | b \<Rightarrow> b),
      irc_RetryInterval := (if irc_RetryInterval cfg = 0 then clusterDefaultRetryInterval else irc_RetryInterval cfg),
      irc_ResetTimeout := (if irc_ResetTimeout cfg = 0 then defaultInstanceResetTimeout else irc_ResetTimeout cfg)\<rparr>"

record 's InstanceResetReconciler =
  irr_Client :: "'s client"
  irr_Bootstrapper :: "'s ClusterBootstrapper"
  irr_RetryInterval :: int
  irr_ResetTimeout :: int

record 's ClusterReconciler =
  kr_Client :: "'s client"
  kr_Bootstrapper :: "'s ClusterBootstrapper"
  kr_HealthCheckTimeout :: int
  kr_RetryInterval :: int
  kr_HealthCheckInterval :: int
  kr_TeardownTimeout :: int
  kr_DNS :: KontinuumDNSConfigStatus
  kr_Locker :: "'s Locker"

abbreviation instName :: "Instance \<Rightarrow> string" where "instName inst \<equiv> om_Name (inst_meta inst)"

abbreviation controlPlanePool :: "TalosCluster \<Rightarrow> InstancePoolReference" where
  "controlPlanePool cluster \<equiv> tcm_PoolRef (tcs_ControlPlane (tc_Spec cluster))"

section \<open>Resetting a node\<close>

definition resolveResetEndpoint :: "'s taloslib \<Rightarrow> 's client \<Rightarrow> Instance \<Rightarrow> TalosCluster \<Rightarrow> memberRole \<Rightarrow>
    ('s, (goerr + string \<times> bool) option) state" where
  "resolveResetEndpoint lib c inst cluster role = do {
     m \<leftarrow> resolveMembers lib c (clusterNamespace cluster) (controlPlanePool cluster);
     (case m of
        Inl err \<Rightarrow> return (Some (Inl err))
      | Inr controlPlaneMembers \<Rightarrow> (case filter (\<lambda>member. instName member \<noteq> instName inst) controlPlaneMembers of
          other # _ \<Rightarrow> whenOk (dialAddress lib other) (\<lambda>addr. return (Some (Inr (addr, True))))
        | [] \<Rightarrow>
            if role = roleWorker then return (Some (Inl (Errorf ''%w: %q'' [clusterName cluster] [errNoControlPlaneEndpoint])))
            else whenOk (dialAddress lib inst) (\<lambda>addr. return (Some (Inr (addr, False))))))
   }"

definition resetInstance :: "'s taloslib \<Rightarrow> 's client \<Rightarrow> 's ClusterBootstrapper \<Rightarrow> Instance \<Rightarrow> TalosCluster \<Rightarrow> memberRole \<Rightarrow>
    ('s, goerr option option) state" where
  "resetInstance lib c bootstrapper inst cluster role =
     (if sr_Name (tcst_SecretRef (tc_Status cluster)) = ''''
      then return (Some (Some (Errorf ''%w: %q'' [clusterName cluster] [errNoSecretsBundle])))
      else do {
        b \<leftarrow> loadSecretsBundle lib c (tcst_SecretRef (tc_Status cluster));
        (case b of
           Inl err \<Rightarrow> return (Some (Some (Errorf ''failed to load secrets bundle for %q: %w'' [clusterName cluster] [err])))
         | Inr bundle \<Rightarrow> do {
             e \<leftarrow> resolveResetEndpoint lib c inst cluster role;
             whenOk e (\<lambda>e. case e of
                Inl err \<Rightarrow> return (Some (Some err))
              | Inr (endpoint, graceful) \<Rightarrow> (case generateConfigs lib bundle cluster endpoint of
                  Inl err \<Rightarrow> return (Some (Some (Errorf ''failed to regenerate talosconfig for %q: %w'' [clusterName cluster] [err])))
                | Inr (_, talosCfg) \<Rightarrow> whenOk (dialAddress lib inst) (\<lambda>node. do {
                    x \<leftarrow> cb_Reset bootstrapper endpoint node talosCfg graceful;
                    return (Some (wrapErr ''failed to reset %q: %w'' [instName inst] x))
                  })))
           })
      })"

section \<open>The instance reset reconciler\<close>

definition irrRemoveFinalizer :: "'s taloslib \<Rightarrow> 's InstanceResetReconciler \<Rightarrow> Instance \<Rightarrow> ('s, outcome) state" where
  "irrRemoveFinalizer lib r inst =
     (case am_removeFinalizer (tl_am lib) (om_Finalizers (inst_meta inst)) InstanceResetFinalizer of (removed, fs) \<Rightarrow>
        if \<not> removed then return (noRequeue, None)
        else do {
          u \<leftarrow> kupdate (cl_Instance (irr_Client r)) (inst\<lparr>inst_meta := (inst_meta inst)\<lparr>om_Finalizers := fs\<rparr>\<rparr>);
          (case u of
             Inl err \<Rightarrow> return (noRequeue, Some (Errorf ''failed to remove finalizer from instance %q: %w'' [instName inst] [err]))
           | Inr _ \<Rightarrow> return (noRequeue, None))
        })"

definition reconcileUnclaimed :: "'s taloslib \<Rightarrow> 's InstanceResetReconciler \<Rightarrow> Instance \<Rightarrow> ('s, outcome) state" where
  "reconcileUnclaimed lib r inst =
     (if \<not> deletionIsZero (inst_meta inst) then irrRemoveFinalizer lib r inst
      else do { _ \<leftarrow> clearMemberConditions lib (irr_Client r) inst; return (noRequeue, None) })"

fun owningCluster :: "string \<Rightarrow> TalosCluster list \<Rightarrow> (TalosCluster \<times> memberRole) option" where
  "owningCluster pool [] = None"
| "owningCluster pool (cluster # clusters) =
     (if ipr_Name (controlPlanePool cluster) = pool then Some (cluster, roleControlPlane)
      else if \<exists>worker\<in>set (tcs_Workers (tc_Spec cluster)). ipr_Name (tcw_PoolRef worker) = pool then Some (cluster, roleWorker)
      else owningCluster pool clusters)"

definition findOwningCluster :: "'s client \<Rightarrow> string \<Rightarrow> string \<Rightarrow> ('s, goerr + (TalosCluster \<times> memberRole) option) state" where
  "findOwningCluster c namespace pool = do {
     l \<leftarrow> klist (cl_TalosCluster c) (Some namespace) (\<lambda>_. True);
     (case l of
        Inl err \<Rightarrow> return (Inl (Errorf ''failed to list talos clusters in %q: %w'' [namespace] [err]))
      | Inr items \<Rightarrow> return (Inr (owningCluster pool items)))
   }"

text \<open>
  \<open>time.Since\<close> the deletion.  The callers have checked that the deletion timestamp is set; a
  nil timestamp would panic.
\<close>

definition sinceDeletion :: "'s taloslib \<Rightarrow> ObjectMeta \<Rightarrow> ('s, int option) state" where
  "sinceDeletion lib m = (case om_DeletionTimestamp m of
       None \<Rightarrow> return None
     | Some t \<Rightarrow> do { now \<leftarrow> w_now (tl_world lib); return (Some (now - t)) })"

definition irrTeardown :: "'s taloslib \<Rightarrow> 's InstanceResetReconciler \<Rightarrow> Instance \<Rightarrow> TalosCluster \<Rightarrow> memberRole \<Rightarrow> ('s, outcome option) state" where
  "irrTeardown lib r inst cluster role =
     (let done = (do { out \<leftarrow> irrRemoveFinalizer lib r inst; return (Some out) }) in
      if \<not> am_containsFinalizer (tl_am lib) (om_Finalizers (inst_meta inst)) InstanceResetFinalizer then return (Some (noRequeue, None))
      else if \<not> memberIs lib MemberConfiguredConditionType inst then done
      else do {
        e \<leftarrow> resetInstance lib (irr_Client r) (irr_Bootstrapper r) inst cluster role;
        whenOk e (\<lambda>e. case e of
           None \<Rightarrow> done
         | Some err \<Rightarrow> do {
             age \<leftarrow> sinceDeletion lib (inst_meta inst);
             whenOk age (\<lambda>age.
               if age > irr_ResetTimeout r then done
               else return (Some (\<lparr>requeueAfter = irr_RetryInterval r\<rparr>, None)))
           })
      })"

definition InstanceResetReconcile :: "'s taloslib \<Rightarrow> 's InstanceResetReconciler \<Rightarrow> ObjectKey \<Rightarrow> ('s, outcome option) state" where
  "InstanceResetReconcile lib r req = do {
     g \<leftarrow> kget (cl_Instance (irr_Client r)) req;
     (case g of
        Inl err \<Rightarrow>
          if isNotFound err then return (Some (noRequeue, None))
          else return (Some (noRequeue, Some (Errorf ''failed to get instance %q: %w'' [snd req] [err])))
      | Inr inst \<Rightarrow> (case om_Labels (inst_meta inst) LabelClaimedBy of
          None \<Rightarrow> do { out \<leftarrow> reconcileUnclaimed lib r inst; return (Some out) }
        | Some pool \<Rightarrow> do {
            f \<leftarrow> findOwningCluster (irr_Client r) (om_Namespace (inst_meta inst)) pool;
            (case f of
               Inl err \<Rightarrow> return (Some (noRequeue, Some err))
             | Inr None \<Rightarrow>
                 if \<not> deletionIsZero (inst_meta inst) then do { out \<leftarrow> irrRemoveFinalizer lib r inst; return (Some out) }
                 else return (Some (noRequeue, None))
             | Inr (Some (cluster, role)) \<Rightarrow>
                 if \<not> deletionIsZero (inst_meta inst) then irrTeardown lib r inst cluster role
                 else (case am_addFinalizer (tl_am lib) (om_Finalizers (inst_meta inst)) InstanceResetFinalizer of (added, fs) \<Rightarrow>
                   if added then do {
                     u \<leftarrow> kupdate (cl_Instance (irr_Client r)) (inst\<lparr>inst_meta := (inst_meta inst)\<lparr>om_Finalizers := fs\<rparr>\<rparr>);
                     (case u of
                        Inl err \<Rightarrow> return (Some (noRequeue, Some (Errorf ''failed to add finalizer to instance %q: %w'' [instName inst] [err])))
                      | Inr _ \<Rightarrow> return (Some (noRequeue, None)))
                   }
                   else return (Some (noRequeue, None))))
          }))
   }"

section \<open>Tearing a cluster down\<close>

type_synonym claimedMember = "Instance \<times> memberRole"

definition releaseMember :: "'s client \<Rightarrow> Instance \<Rightarrow> ('s, goerr option) state" where
  "releaseMember c inst = do {
     u \<leftarrow> kupdate (cl_Instance c) (setLabel inst None);
     (case u of
        Inl err \<Rightarrow> if \<not> isConflict err then return (Some (Errorf ''failed to release instance %q: %w'' [instName inst] [err])) else return None
      | Inr _ \<Rightarrow> return None)
   }"

text \<open>\<open>teardownMember\<close> once the node is wiped.\<close>

definition dropMember :: "'s taloslib \<Rightarrow> 's ClusterReconciler \<Rightarrow> TalosCluster \<Rightarrow> Instance \<Rightarrow> ('s, goerr option) state" where
  "dropMember lib r cluster inst = do {
     inst1 \<leftarrow> clearMemberConditions lib (kr_Client r) inst;
     if tds_UnregisterInstances (tcs_Teardown (tc_Spec cluster)) then do {
       d \<leftarrow> kdelete (cl_Instance (kr_Client r)) inst1;
       (case d of
          Some err \<Rightarrow> if \<not> isNotFound err then return (Some (Errorf ''failed to delete instance %q: %w'' [instName inst] [err])) else return None
        | None \<Rightarrow> return None)
     }
     else releaseMember (kr_Client r) inst1
   }"

definition teardownMember :: "'s taloslib \<Rightarrow> 's ClusterReconciler \<Rightarrow> TalosCluster \<Rightarrow> Instance \<Rightarrow> memberRole \<Rightarrow> ('s, goerr option option) state" where
  "teardownMember lib r cluster inst role =
     (let drop = (do { e \<leftarrow> dropMember lib r cluster inst; return (Some e) }) in
      if memberIs lib MemberConfiguredConditionType inst then do {
        e \<leftarrow> resetInstance lib (kr_Client r) (kr_Bootstrapper r) inst cluster role;
        whenOk e (\<lambda>e. case e of Some err \<Rightarrow> return (Some (Some err)) | None \<Rightarrow> drop)
      }
      else drop)"

definition removeClusterFinalizer :: "'s taloslib \<Rightarrow> 's ClusterReconciler \<Rightarrow> TalosCluster \<Rightarrow> ('s, outcome) state" where
  "removeClusterFinalizer lib r cluster = do {
     u \<leftarrow> kupdate (cl_TalosCluster (kr_Client r)) (cluster\<lparr>tc_meta := (tc_meta cluster)
            \<lparr>om_Finalizers := snd (am_removeFinalizer (tl_am lib) (om_Finalizers (tc_meta cluster)) TalosClusterFinalizer)\<rparr>\<rparr>);
     (case u of
        Inl err \<Rightarrow> return (noRequeue, Some (Errorf ''failed to remove finalizer from talos cluster %q: %w'' [clusterName cluster] [err]))
      | Inr _ \<Rightarrow> return (noRequeue, None))
   }"

fun claimedWorkers :: "'s client \<Rightarrow> string \<Rightarrow> TalosClusterWorkerSpec list \<Rightarrow> ('s, goerr + claimedMember list) state" where
  "claimedWorkers c namespace [] = return (Inr [])"
| "claimedWorkers c namespace (worker # workers) = do {
     l \<leftarrow> listClaimedByPool c namespace (ipr_Name (tcw_PoolRef worker));
     (case l of
        Inl err \<Rightarrow> return (Inl err)
      | Inr claimed \<Rightarrow> do {
          rest \<leftarrow> claimedWorkers c namespace workers;
          (case rest of
             Inl err \<Rightarrow> return (Inl err)
           | Inr members \<Rightarrow> return (Inr (map (\<lambda>inst. (inst, roleWorker)) (sort_by instName claimed) @ members)))
        })
   }"

definition listClaimedMembers :: "'s client \<Rightarrow> TalosCluster \<Rightarrow> ('s, goerr + claimedMember list) state" where
  "listClaimedMembers c cluster = do {
     w \<leftarrow> claimedWorkers c (clusterNamespace cluster) (tcs_Workers (tc_Spec cluster));
     (case w of
        Inl err \<Rightarrow> return (Inl err)
      | Inr members \<Rightarrow> do {
          l \<leftarrow> listClaimedByPool c (clusterNamespace cluster) (ipr_Name (controlPlanePool cluster));
          (case l of
             Inl err \<Rightarrow> return (Inl err)
           | Inr claimed \<Rightarrow> return (Inr (members @ map (\<lambda>inst. (inst, roleControlPlane)) (sort_by instName claimed))))
        })
   }"

text \<open>The loop over the members: whether one of them failed.\<close>

fun teardownLoop :: "'s taloslib \<Rightarrow> 's ClusterReconciler \<Rightarrow> TalosCluster \<Rightarrow> claimedMember list \<Rightarrow> bool \<Rightarrow> ('s, bool option) state" where
  "teardownLoop lib r cluster [] anyFailed = return (Some anyFailed)"
| "teardownLoop lib r cluster ((inst, role) # members) anyFailed = do {
     e \<leftarrow> teardownMember lib r cluster inst role;
     whenOk e (\<lambda>e. teardownLoop lib r cluster members (anyFailed \<or> e \<noteq> None))
   }"

definition clusterTeardown :: "'s taloslib \<Rightarrow> 's ClusterReconciler \<Rightarrow> TalosCluster \<Rightarrow> ('s, outcome option) state" where
  "clusterTeardown lib r cluster =
     (let done = (do { out \<leftarrow> removeClusterFinalizer lib r cluster; return (Some out) }) in
      if \<not> am_containsFinalizer (tl_am lib) (om_Finalizers (tc_meta cluster)) TalosClusterFinalizer then return (Some (noRequeue, None))
      else do {
        age \<leftarrow> sinceDeletion lib (tc_meta cluster);
        whenOk age (\<lambda>age.
          if age > kr_TeardownTimeout r then done
          else do {
            l \<leftarrow> listClaimedMembers (kr_Client r) cluster;
            (case l of
               Inl err \<Rightarrow> return (Some (noRequeue, Some err))
             | Inr members \<Rightarrow>
                 if length members = 0 then done
                 else do {
                   f \<leftarrow> teardownLoop lib r cluster members False;
                   whenOk f (\<lambda>anyFailed.
                     if anyFailed then return (Some (\<lparr>requeueAfter = kr_RetryInterval r\<rparr>, None)) else done)
                 })
          })
      })"

end
