(* ===== verification/TalosTeardown.thy ===== *)
theory TalosTeardown
  imports TalosReset
begin

text \<open>
  What the teardown of a cluster leaves behind, and which reset calls are made.
\<close>

section \<open>Members are freed\<close>

text \<open>The Instances of a namespace that carry the claim of one of the pools.\<close>

definition claimedKeys :: "(ObjectKey \<rightharpoonup> Instance) \<Rightarrow> string \<Rightarrow> string set \<Rightarrow> ObjectKey set" where
  "claimedKeys v ns pools = {k. \<exists>x pool. v k = Some x \<and> fst k = ns \<and> pool \<in> pools \<and> om_Labels (inst_meta x) LabelClaimedBy = Some pool}"

definition poolsOf :: "TalosCluster \<Rightarrow> string set" where
  "poolsOf cluster = insert (ipr_Name (controlPlanePool cluster)) ((\<lambda>w. ipr_Name (tcw_PoolRef w)) ` set (tcs_Workers (tc_Spec cluster)))"

text \<open>
  What the teardown relies on: a list returns every stored Instance of the namespace whose
  labels match, an update stores the labels it is given or nothing, the status endpoint
  never changes labels, and every other call leaves the Instances alone.
\<close>

definition instance_store :: "'s taloslib \<Rightarrow> 's ClusterReconciler \<Rightarrow> ('s \<Rightarrow> ObjectKey \<rightharpoonup> Instance) \<Rightarrow> bool" where
  "instance_store lib r iv \<longleftrightarrow>
     (let c = cl_Instance (kr_Client r) in
      (\<forall>ns p s xs k x. result_of (klist c (Some ns) p) s = Inr xs \<and> iv s k = Some x \<and> fst k = ns \<and> p (om_Labels (inst_meta x)) \<longrightarrow>
         (\<exists>y\<in>set xs. keyOf (inst_meta y) = k)) \<and>
      (\<forall>ns p. quiet iv (klist c ns p)) \<and>
      cas_store c inst_meta (\<lambda>x. om_Labels (inst_meta x)) iv \<and>
      (\<forall>x s k. map_option (\<lambda>y. om_Labels (inst_meta y)) (iv (state_after (kupdateStatus c x) s) k) =
               map_option (\<lambda>y. om_Labels (inst_meta y)) (iv s k)) \<and>
      (\<forall>x s y. result_of (kupdateStatus c x) s = Inr y \<longrightarrow> keyOf (inst_meta y) = keyOf (inst_meta x)) \<and>
      quiet iv (w_now (tl_world lib)) \<and> (\<forall>k. quiet iv (kget (cl_Secret (kr_Client r)) k)) \<and>
      (\<forall>e n cfg g. quiet iv (cb_Reset (kr_Bootstrapper r) e n cfg g)) \<and>
      (\<forall>x. quiet iv (kupdate (cl_TalosCluster (kr_Client r)) x)))"

lemma instance_storeD:
  assumes "instance_store lib r iv"
  shows "result_of (klist (cl_Instance (kr_Client r)) (Some ns) p) s = Inr xs \<Longrightarrow> iv s k = Some x \<Longrightarrow> fst k = ns \<Longrightarrow>
      p (om_Labels (inst_meta x)) \<Longrightarrow> \<exists>y\<in>set xs. keyOf (inst_meta y) = k"
    and "quiet iv (klist (cl_Instance (kr_Client r)) n p)"
    and "cas_store (cl_Instance (kr_Client r)) inst_meta (\<lambda>x. om_Labels (inst_meta x)) iv"
    and "map_option (\<lambda>y. om_Labels (inst_meta y)) (iv (state_after (kupdateStatus (cl_Instance (kr_Client r)) z) s) k) =
               map_option (\<lambda>y. om_Labels (inst_meta y)) (iv s k)"
    and "result_of (kupdateStatus (cl_Instance (kr_Client r)) z) s = Inr y \<Longrightarrow> keyOf (inst_meta y) = keyOf (inst_meta z)"
    and "quiet iv (w_now (tl_world lib))" and "quiet iv (kget (cl_Secret (kr_Client r)) k)"
    and "quiet iv (cb_Reset (kr_Bootstrapper r) e nd cfg g)" and "quiet iv (kupdate (cl_TalosCluster (kr_Client r)) tc)"
  using assms unfolding instance_store_def Let_def by blast+

lemma claimedKeys_labels:
  "(\<And>k. map_option (\<lambda>y. om_Labels (inst_meta y)) (v' k) = map_option (\<lambda>y. om_Labels (inst_meta y)) (v k)) \<Longrightarrow>
   claimedKeys v' ns pools = claimedKeys v ns pools"
  unfolding claimedKeys_def by (auto simp: map_option_eq_Some) (metis (mono_tags, lifting) map_option_eq_Some)+

lemma claimedKeys_release:
  "om_Labels (inst_meta y) LabelClaimedBy = None \<Longrightarrow> claimedKeys (v(k \<mapsto> y)) ns pools = claimedKeys v ns pools - {k}"
  by (auto simp: claimedKeys_def)

lemma setLabel_None: "om_Labels (inst_meta (setLabel inst None)) LabelClaimedBy = None"
  by (simp add: setLabel_def)

lemma setLabel_key [simp]: "keyOf (inst_meta (setLabel inst v)) = keyOf (inst_meta inst)"
  by (simp add: setLabel_def keyOf_def)

lemma withConditions_key [simp]: "keyOf (inst_meta (withConditions cs inst)) = keyOf (inst_meta inst)"
  by (simp add: withConditions_def)

text \<open>Releasing one member: it is no longer claimed unless the update failed, and no other one becomes claimed.\<close>

lemma releaseMember_frees:
  assumes st: "instance_store lib r iv" and run: "run_state (releaseMember (kr_Client r) inst) s = (e, t)"
    and nc: "\<And>err. result_of (kupdate (cl_Instance (kr_Client r)) (setLabel inst None)) s = Inl err \<Longrightarrow> \<not> isConflict err"
  shows "claimedKeys (iv t) ns pools \<subseteq> claimedKeys (iv s) ns pools"
    and "e = None \<Longrightarrow> keyOf (inst_meta inst) \<notin> claimedKeys (iv t) ns pools"
proof -
  let ?c = "cl_Instance (kr_Client r)" and ?x = "setLabel inst None"
  have t: "t = state_after (kupdate ?c ?x) s" using run by (auto simp: releaseMember_def split: sum.splits prod.splits if_splits)
  have cases: "case result_of (kupdate ?c ?x) s of
      Inr y \<Rightarrow> update_takes inst_meta (\<lambda>x. om_Labels (inst_meta x)) (iv s) ?x y (iv t)
    | Inl e \<Rightarrow> iv t = iv s \<or> \<not> isConflict e \<and> (\<exists>y. update_takes inst_meta (\<lambda>x. om_Labels (inst_meta x)) (iv s) ?x y (iv t))"
    using cas_store_update_cases [OF instance_storeD(3) [OF st], of ?x s] unfolding t .
  have taken: "claimedKeys (iv t) ns pools = claimedKeys (iv s) ns pools - {keyOf (inst_meta inst)}"
    if "update_takes inst_meta (\<lambda>x. om_Labels (inst_meta x)) (iv s) ?x y (iv t)" for y
    using that claimedKeys_release [of y "iv s"] setLabel_None by (auto simp: update_takes_def stored_as_def)
  show "claimedKeys (iv t) ns pools \<subseteq> claimedKeys (iv s) ns pools"
    using cases taken by (auto split: sum.splits)
  assume "e = None"
  then obtain y where "result_of (kupdate ?c ?x) s = Inr y"
    using run nc by (cases "result_of (kupdate ?c ?x) s") (auto simp: releaseMember_def split: prod.splits)
  then show "keyOf (inst_meta inst) \<notin> claimedKeys (iv t) ns pools" using cases taken by simp
qed

lemma clearMemberConditions_labels:
  assumes st: "instance_store lib r iv" and run: "run_state (clearMemberConditions lib (kr_Client r) inst) s = (inst1, t)"
  shows "claimedKeys (iv t) ns pools = claimedKeys (iv s) ns pools" and "keyOf (inst_meta inst1) = keyOf (inst_meta inst)"
proof -
  obtain ch cs where rc: "removeConditions lib [MemberConfiguredConditionType, MemberJoinedConditionType, MemberReadyConditionType]
      (ist_Conditions (inst_Status inst)) = (ch, cs)" by fastforce
  let ?u = "kupdateStatus (cl_Instance (kr_Client r)) (withConditions cs inst)"
  have "t = s \<or> t = state_after ?u s"
    using run rc by (auto simp: clearMemberConditions_def persistMember_def split: if_splits sum.splits prod.splits)
  moreover have "claimedKeys (iv (state_after ?u s)) ns pools = claimedKeys (iv s) ns pools"
    by (rule claimedKeys_labels, rule instance_storeD(4) [OF st])
  ultimately show "claimedKeys (iv t) ns pools = claimedKeys (iv s) ns pools" by auto
  show "keyOf (inst_meta inst1) = keyOf (inst_meta inst)"
    using run rc instance_storeD(5) [OF st, of "withConditions cs inst" s]
    by (auto simp: clearMemberConditions_def persistMember_def split: if_splits sum.splits prod.splits)
qed

lemma resetInstance_quiet:
  assumes "instance_store lib r iv"
  shows "quiet iv (resetInstance lib (kr_Client r) (kr_Bootstrapper r) inst cluster role)"
proof -
  note q = instance_storeD(2,7,8) [OF assms]
  show ?thesis using q unfolding quiet_iff resetInstance_def loadSecretsBundle_def resolveResetEndpoint_def resolveMembers_def
    listClaimedByPool_def whenOk_def
    by (auto intro!: leaves_rules split: list.splits prod.splits)
qed

definition no_conflicts :: "'s ClusterReconciler \<Rightarrow> bool" where
  "no_conflicts r \<longleftrightarrow> (\<forall>x s err. result_of (kupdate (cl_Instance (kr_Client r)) x) s = Inl err \<longrightarrow> \<not> isConflict err)"

lemma dropMember_frees:
  assumes st: "instance_store lib r iv" and nc: "no_conflicts r" and rel: "\<not> tds_UnregisterInstances (tcs_Teardown (tc_Spec cluster))"
    and run: "run_state (dropMember lib r cluster inst) s = (e, t)"
  shows "claimedKeys (iv t) ns pools \<subseteq> claimedKeys (iv s) ns pools \<and> (e = None \<longrightarrow> keyOf (inst_meta inst) \<notin> claimedKeys (iv t) ns pools)"
proof -
  obtain inst1 u where u: "run_state (clearMemberConditions lib (kr_Client r) inst) s = (inst1, u)" by fastforce
  then have "run_state (releaseMember (kr_Client r) inst1) u = (e, t)" using run rel by (simp add: dropMember_def)
  from releaseMember_frees [OF st this] clearMemberConditions_labels [OF st u] nc show ?thesis
    by (simp add: no_conflicts_def)
qed

lemma teardownMember_frees:
  assumes st: "instance_store lib r iv" and nc: "no_conflicts r" and rel: "\<not> tds_UnregisterInstances (tcs_Teardown (tc_Spec cluster))"
    and run: "run_state (teardownMember lib r cluster inst role) s = (Some e, t)"
  shows "claimedKeys (iv t) ns pools \<subseteq> claimedKeys (iv s) ns pools \<and> (e = None \<longrightarrow> keyOf (inst_meta inst) \<notin> claimedKeys (iv t) ns pools)"
proof -
  obtain x u where x: "run_state (resetInstance lib (kr_Client r) (kr_Bootstrapper r) inst cluster role) s = (x, u)" by fastforce
  have u: "iv u = iv s" by (rule quiet_run [OF resetInstance_quiet [OF st] x])
  have "(\<exists>v. iv v = iv s \<and> run_state (dropMember lib r cluster inst) v = (e, t)) \<or> iv t = iv s \<and> e \<noteq> None"
    using run x u by (cases x; cases "the x") (auto simp: teardownMember_def Let_def split: if_splits prod.splits)
  then show ?thesis using dropMember_frees [OF st nc rel] by (metis subset_refl)
qed

lemma teardownLoop_frees:
  assumes st: "instance_store lib r iv" and nc: "no_conflicts r" and rel: "\<not> tds_UnregisterInstances (tcs_Teardown (tc_Spec cluster))"
  shows "run_state (teardownLoop lib r cluster members failed) s = (Some False, t) \<Longrightarrow>
    claimedKeys (iv t) ns pools \<subseteq> claimedKeys (iv s) ns pools - (\<lambda>m. keyOf (inst_meta (fst m))) ` set members"
proof (induction members arbitrary: failed s)
  case (Cons m members)
  obtain inst role where m: "m = (inst, role)" by fastforce
  obtain x u where x: "run_state (teardownMember lib r cluster inst role) s = (x, u)" by fastforce
  with Cons(2) m obtain e where e: "x = Some e" "run_state (teardownLoop lib r cluster members (failed \<or> e \<noteq> None)) u = (Some False, t)"
    by (cases x) auto
  have keep: "run_state (teardownLoop lib r cluster ms True) v = (Some b, w) \<Longrightarrow> b" for ms v b w
    by (induction ms arbitrary: v) (auto simp: whenOk_def split: option.splits prod.splits)
  have "e = None"
  proof (rule ccontr)
    assume "e \<noteq> None"
    with e(2) have "run_state (teardownLoop lib r cluster members True) u = (Some False, t)" by simp
    then show False using keep by blast
  qed
  with teardownMember_frees [OF st nc rel, of inst role s e u ns pools] x e(1) Cons(1) [OF e(2)] m show ?case by auto
qed simp

text \<open>Every claimed Instance is listed.\<close>

lemma listClaimedByPool_complete:
  assumes st: "instance_store lib r iv" and run: "run_state (listClaimedByPool (kr_Client r) ns pool) s = (Inr xs, t)"
  shows "iv t = iv s" and "claimedKeys (iv s) ns {pool} \<subseteq> (\<lambda>x. keyOf (inst_meta x)) ` set xs"
proof -
  have l: "run_state (klist (cl_Instance (kr_Client r)) (Some ns) (matchingLabel LabelClaimedBy pool)) s = (Inr xs, t)"
    using run by (auto simp: listClaimedByPool_def split: sum.splits prod.splits)
  then show "iv t = iv s" using quiet_run [OF instance_storeD(2) [OF st]] by blast
  show "claimedKeys (iv s) ns {pool} \<subseteq> (\<lambda>x. keyOf (inst_meta x)) ` set xs"
  proof
    fix k assume "k \<in> claimedKeys (iv s) ns {pool}"
    then obtain x where "iv s k = Some x" "fst k = ns" "matchingLabel LabelClaimedBy pool (om_Labels (inst_meta x))"
      by (auto simp: claimedKeys_def matchingLabel_def)
    then show "k \<in> (\<lambda>x. keyOf (inst_meta x)) ` set xs"
      using instance_storeD(1) [OF st, of ns "matchingLabel LabelClaimedBy pool" s xs k x] l by auto
  qed
qed

lemma claimedKeys_Un: "claimedKeys v ns (A \<union> B) = claimedKeys v ns A \<union> claimedKeys v ns B"
  by (auto simp: claimedKeys_def)

lemma claimedWorkers_complete:
  assumes st: "instance_store lib r iv"
  shows "run_state (claimedWorkers (kr_Client r) ns ws) s = (Inr ms, t) \<Longrightarrow> iv t = iv s \<and>
    claimedKeys (iv s) ns ((\<lambda>w. ipr_Name (tcw_PoolRef w)) ` set ws) \<subseteq> (\<lambda>m. keyOf (inst_meta (fst m))) ` set ms"
proof (induction ws arbitrary: s ms)
  case Nil
  then show ?case by (auto simp: claimedKeys_def)
next
  case (Cons w ws)
  obtain l u where l: "run_state (listClaimedByPool (kr_Client r) ns (ipr_Name (tcw_PoolRef w))) s = (l, u)" by fastforce
  with Cons(2) obtain xs ms' where xs: "l = Inr xs" "run_state (claimedWorkers (kr_Client r) ns ws) u = (Inr ms', t)"
    "ms = map (\<lambda>inst. (inst, roleWorker)) (sort_by instName xs) @ ms'"
    by (cases l; cases "run_state (claimedWorkers (kr_Client r) ns ws) u"; cases "fst (run_state (claimedWorkers (kr_Client r) ns ws) u)") auto
  note c = listClaimedByPool_complete [OF st, of ns _ s xs u]
  have "claimedKeys (iv s) ns ((\<lambda>w. ipr_Name (tcw_PoolRef w)) ` set (w # ws)) =
    claimedKeys (iv s) ns {ipr_Name (tcw_PoolRef w)} \<union> claimedKeys (iv s) ns ((\<lambda>w. ipr_Name (tcw_PoolRef w)) ` set ws)"
    by (subst claimedKeys_Un [symmetric]) simp
  moreover have "iv u = iv s" "claimedKeys (iv s) ns {ipr_Name (tcw_PoolRef w)} \<subseteq> (\<lambda>x. keyOf (inst_meta x)) ` set xs"
    using c l xs(1) by blast+
  moreover have "(\<lambda>m. keyOf (inst_meta (fst m))) ` set ms = (\<lambda>x. keyOf (inst_meta x)) ` set xs \<union> (\<lambda>m. keyOf (inst_meta (fst m))) ` set ms'"
    by (simp add: xs(3) image_Un image_image)
  ultimately show ?case using Cons(1) [OF xs(2)] by auto
qed

lemma listClaimedMembers_complete:
  assumes st: "instance_store lib r iv" and run: "run_state (listClaimedMembers (kr_Client r) cluster) s = (Inr ms, t)"
  shows "iv t = iv s" and "claimedKeys (iv s) (clusterNamespace cluster) (poolsOf cluster) \<subseteq> (\<lambda>m. keyOf (inst_meta (fst m))) ` set ms"
proof -
  let ?ns = "clusterNamespace cluster" and ?cp = "ipr_Name (controlPlanePool cluster)"
  obtain w u where w: "run_state (claimedWorkers (kr_Client r) ?ns (tcs_Workers (tc_Spec cluster))) s = (w, u)" by fastforce
  with run obtain ws xs where ws: "w = Inr ws" "run_state (listClaimedByPool (kr_Client r) ?ns ?cp) u = (Inr xs, t)"
    "ms = ws @ map (\<lambda>inst. (inst, roleControlPlane)) (sort_by instName xs)"
    by (auto simp: listClaimedMembers_def split: sum.splits prod.splits)
  note a = claimedWorkers_complete [OF st, of ?ns "tcs_Workers (tc_Spec cluster)" s ws u] and b = listClaimedByPool_complete [OF st ws(2)]
  show "iv t = iv s" using a b(1) w ws(1) by simp
  have "claimedKeys (iv s) ?ns (poolsOf cluster) = claimedKeys (iv s) ?ns {?cp} \<union>
    claimedKeys (iv s) ?ns ((\<lambda>w. ipr_Name (tcw_PoolRef w)) ` set (tcs_Workers (tc_Spec cluster)))"
    unfolding poolsOf_def by (subst insert_is_Un) (rule claimedKeys_Un)
  then show "claimedKeys (iv s) ?ns (poolsOf cluster) \<subseteq> (\<lambda>m. keyOf (inst_meta (fst m))) ` set ms"
    using a b(2) w ws(1) by (simp add: ws(3) image_Un image_image) blast
qed



section \<open>Which resets are made\<close>

lemma resolveResetEndpoint_choice:
  assumes "run_state (resolveResetEndpoint lib c inst cluster role) s = (Some (Inr (endpoint, graceful)), t)"
  shows "\<exists>members. run_state (resolveMembers lib c (clusterNamespace cluster) (controlPlanePool cluster)) s = (Inr members, t) \<and>
    (if graceful then \<exists>other\<in>set members. instName other \<noteq> instName inst \<and> dialAddress lib other = Some endpoint
     else role = roleControlPlane \<and> dialAddress lib inst = Some endpoint \<and> (\<forall>m\<in>set members. instName m = instName inst))"
proof -
  obtain m u where m: "run_state (resolveMembers lib c (clusterNamespace cluster) (controlPlanePool cluster)) s = (m, u)" by fastforce
  then obtain members where ms: "m = Inr members" using assms by (cases m) (auto simp: resolveResetEndpoint_def)
  show ?thesis
  proof (cases "filter (\<lambda>member. instName member \<noteq> instName inst) members")
    case Nil
    then have "\<forall>x\<in>set members. instName x = instName inst" by (auto simp: filter_empty_conv)
    with Nil assms m ms show ?thesis
      by (cases role; cases "dialAddress lib inst") (auto simp: resolveResetEndpoint_def)
  next
    case (Cons other rest)
    then have "other \<in> set members" "instName other \<noteq> instName inst"
      using filter_set [of "\<lambda>member. instName member \<noteq> instName inst" members] by (auto simp: filter_eq_Cons_iff)
    with Cons assms m ms show ?thesis by (cases "dialAddress lib other") (auto simp: resolveResetEndpoint_def)
  qed
qed



section \<open>A small fleet\<close>

text \<open>
  One machine, claimed by the control plane pool of a cluster that is being deleted.  The
  store of Instances is in memory; the status endpoint accepts everything and an update of
  an old version is refused as unavailable.
\<close>

definition demo_taloslib :: "int \<Rightarrow> 's taloslib" where
  "demo_taloslib now = \<lparr>tl_world = still_world now, tl_am = std_apimachinery (\<lambda>_. Inr (\<lambda>_. True)),
     tl_removeStatusCondition = (\<lambda>cs t. (t \<in> cond_Type ` set cs, filter (\<lambda>c. cond_Type c \<noteq> t) cs)),
     tl_parseCIDR = (\<lambda>a. Inr (a, False)), tl_ParseContract = Inr, tl_NewBundle = (\<lambda>_. return (Inr (TalosBundle ''ca''))),
     tl_Marshal = (\<lambda>b. case b of TalosBundle x \<Rightarrow> Inr x), tl_Unmarshal = (\<lambda>x. Inr (TalosBundle x)),
     tl_NewInput = (\<lambda>opts. Inr (TalosInput (go_ClusterName opts))), tl_Talosconfig = (\<lambda>_. Inr (TalosConfig ''admin'')),
     tl_Config = (\<lambda>_ ty. Inr \<lparr>mc_Type = ty, mc_InstallDiskSelector = None, mc_MachineNodeLabels = Map.empty, mc_Rest = ''''\<rparr>),
     tl_Container = (\<lambda>_ host. Inr host), tl_Bytes = Inr, tl_NoneCNI = ''none''\<rparr>"

definition fleet_bootstrapper :: "'s ClusterBootstrapper" where
  "fleet_bootstrapper = \<lparr>cb_ApplyConfiguration = (\<lambda>_ _. return None), cb_Bootstrap = (\<lambda>_ _. return None),
     cb_HealthCheck = (\<lambda>_ _ _ _. return None), cb_Kubeconfig = (\<lambda>_ _. return (Inr ''cfg'')),
     cb_Version = (\<lambda>_ _ _. return (Inr (''v1.13.0'', ''amd64''))), cb_CPUTopology = (\<lambda>_ _ _. return (Inr (1, 1, 1))),
     cb_Reset = (\<lambda>_ _ _ _. return None)\<rparr>"

definition fleet_instance :: Instance where
  "fleet_instance = \<lparr>inst_meta = (objectMeta ''kontinuum-system'' ''n1'')\<lparr>om_Labels := [LabelClaimedBy \<mapsto> ''eu-a'']\<rparr>,
     inst_Spec = \<lparr>isp_Interfaces = [''10.0.0.1''], isp_ProviderRef = None\<rparr>,
     inst_Status = \<lparr>ist_Interfaces = [], ist_Disks = [], ist_CPUs = [], ist_Memory = [], ist_SerialNumber = '''',
        ist_Talos = \<lparr>its_Version = ''''\<rparr>, ist_LastProbeTime = 0, ist_Conditions = []\<rparr>\<rparr>"

definition fleet_cluster :: TalosCluster where
  "fleet_cluster = \<lparr>tc_meta = (objectMeta ''kontinuum-system'' ''eu-a'')\<lparr>om_DeletionTimestamp := Some 1, om_Finalizers := [TalosClusterFinalizer]\<rparr>,
     tc_Spec = \<lparr>tcs_Talos = \<lparr>tsp_Version = ''''\<rparr>, tcs_Kubernetes = \<lparr>k8s_Version = ''''\<rparr>, tcs_ControlPlane = \<lparr>tcm_PoolRef = \<lparr>ipr_Name = ''eu-a''\<rparr>\<rparr>,
        tcs_Workers = [], tcs_Teardown = \<lparr>tds_UnregisterInstances = False\<rparr>\<rparr>,
     tc_Status = \<lparr>tcst_Conditions = [], tcst_SecretRef = secretRefFor ''eu-a''\<rparr>\<rparr>"

text \<open>A store with room for one Instance.\<close>

definition slot_view :: "Instance option \<Rightarrow> ObjectKey \<rightharpoonup> Instance" where
  "slot_view s k = (case s of Some x \<Rightarrow> if keyOf (inst_meta x) = k then Some x else None | None \<Rightarrow> None)"

definition slot_client :: "(Instance option, Instance) kclient" where
  "slot_client = down_kclient
     \<lparr>kget := (\<lambda>k. State (\<lambda>s. (case slot_view s k of None \<Rightarrow> Inl (ApiError NotFound) | Some x \<Rightarrow> Inr x, s))),
      klist := (\<lambda>ns p. State (\<lambda>s. (Inr (case s of None \<Rightarrow> [] | Some x \<Rightarrow>
         if (ns = None \<or> ns = Some (om_Namespace (inst_meta x))) \<and> p (om_Labels (inst_meta x)) then [x] else []), s))),
      kupdate := (\<lambda>x. State (\<lambda>s. case slot_view s (keyOf (inst_meta x)) of
         None \<Rightarrow> (Inl unavailable, s)
       | Some z \<Rightarrow> if om_ResourceVersion (inst_meta z) = om_ResourceVersion (inst_meta x) then (Inr x, Some x) else (Inl unavailable, s))),
      kupdateStatus := (\<lambda>x. return (Inr x))\<rparr>"

definition fleet_client :: "Instance option client" where
  "fleet_client = down_client\<lparr>cl_Instance := slot_client, cl_TalosCluster := down_kclient\<lparr>kupdate := (\<lambda>x. return (Inr x))\<rparr>\<rparr>"

lemma slot_cas_store: "cas_store slot_client inst_meta (\<lambda>x. om_Labels (inst_meta x)) slot_view"
  unfolding cas_store_def slot_client_def down_kclient_def
  by (auto simp: slot_view_def unavailable_def update_takes_def stored_as_def fun_eq_iff split: option.splits if_splits)

lemma slot_updates: "run_state (kupdate slot_client x) s = (Inl err, t) \<Longrightarrow> \<not> isConflict err"
  by (auto simp: slot_client_def down_kclient_def unavailable_def split: option.splits if_splits)

definition fleet_reconciler :: "'s client \<Rightarrow> 's ClusterReconciler" where
  "fleet_reconciler c = \<lparr>kr_Client = c, kr_Bootstrapper = fleet_bootstrapper, kr_HealthCheckTimeout = minute,
     kr_RetryInterval = 15 * second, kr_HealthCheckInterval = 5 * minute, kr_TeardownTimeout = 15 * minute,
     kr_DNS = \<lparr>kdns_Domain = '''', kdns_Provider = '''', kdns_Credential = ''''\<rparr>,
     kr_Locker = \<lparr>lk_Client = c, lk_Reader = c, lk_HolderIdentity = ''hub'', lk_SelfZoneKey = '''', lk_LeaseDuration = 30\<rparr>\<rparr>"

lemma fleet_instance_store: "instance_store (demo_taloslib now) (fleet_reconciler fleet_client) slot_view"
  unfolding instance_store_def Let_def fleet_reconciler_def ClusterReconciler.simps fleet_client_def client.simps
  using slot_cas_store
  by (auto simp: slot_client_def down_kclient_def down_client_def demo_taloslib_def still_world_def fleet_bootstrapper_def quiet_def
      slot_view_def keyOf_def split: option.splits if_splits)

lemma fleet_no_conflicts: "no_conflicts (fleet_reconciler fleet_client)"
  using slot_updates by (simp add: no_conflicts_def fleet_reconciler_def fleet_client_def) (metis prod.collapse)

lemmas fleet_defs = fleet_reconciler_def fleet_client_def slot_client_def down_kclient_def down_client_def demo_taloslib_def still_world_def
  fleet_bootstrapper_def fleet_cluster_def std_apimachinery_def TalosClusterFinalizer_def second_def


text \<open>The same fleet on a server where every update of an Instance meets a conflict.\<close>

definition contested_client :: "Instance option client" where
  "contested_client = fleet_client\<lparr>cl_Instance := slot_client\<lparr>kupdate := (\<lambda>_. return (Inl (ApiError ConflictReason)))\<rparr>\<rparr>"


text \<open>The reset of the only control plane member, on a world that counts resets.\<close>

definition counting_client :: "nat client" where
  "counting_client = down_client
     \<lparr>cl_Secret := down_kclient\<lparr>kget := (\<lambda>_. return (Inr (bundleSecret (secretRefFor ''eu-a'') ''ca'')))\<rparr>,
      cl_Instance := down_kclient\<lparr>klist := (\<lambda>_ _. return (Inr [fleet_instance]))\<rparr>\<rparr>"

definition counting_bootstrapper :: "nat ClusterBootstrapper" where
  "counting_bootstrapper = fleet_bootstrapper\<lparr>cb_Reset := (\<lambda>_ _ _ graceful. State (\<lambda>n. (None, if graceful then n + 2 else n + 1)))\<rparr>"

lemma counting_run:
  "run_state (resetInstance (demo_taloslib 0) counting_client counting_bootstrapper fleet_instance fleet_cluster roleControlPlane) 0 = (Some None, 1)"
  by (simp add: resetInstance_def fleet_cluster_def secretRefFor_def clusterSecretNamePrefix_def loadSecretsBundle_def counting_client_def
      demo_taloslib_def resolveResetEndpoint_def resolveMembers_def listClaimedByPool_def fleet_instance_def std_apimachinery_def
      dialAddress_def generateConfigs_def resolveVersions_def counting_bootstrapper_def wrapErr_def Let_def)



end
