(* ===== verification/Cluster.thy ===== *)
theory Cluster
  imports TalosTeardown
begin

text \<open>
  The TalosCluster reconciler: \<open>controller.go\<close> of \<open>pkg/domain/taloscluster\<close>.  A pass takes the
  lease of the cluster's zone, then tears a deleted cluster down, or makes sure of its
  secrets and brings up the control plane first, then the workers, then the addons, and
  keeps probing once everything is up.  A handler that changes the cluster in memory returns
  it.  \<open>None\<close> is a panic.  Conditions carry no transition times, so the second by which the
  Ready condition of a member is dated after its Joined condition does not show.
\<close>

section \<open>Constants and construction\<close>

definition ControlPlaneReadyConditionType :: string where "ControlPlaneReadyConditionType = ''ControlPlaneReady''"

definition BootstrappedConditionType :: string where "BootstrappedConditionType = ''Bootstrapped''"

definition ClusterReadyType :: string where "ClusterReadyType = ''Ready''"

definition clusterAddonReadyConditionType :: string where "clusterAddonReadyConditionType = ''Ready''"

definition reasonWaitingForInstances :: string where "reasonWaitingForInstances = ''WaitingForInstances''"

definition reasonBootstrapping :: string where "reasonBootstrapping = ''Bootstrapping''"

definition reasonBootstrapped :: string where "reasonBootstrapped = ''Bootstrapped''"

definition reasonHealthy :: string where "reasonHealthy = ''Healthy''"

definition reasonAddonsInstalled :: string where "reasonAddonsInstalled = ''AddonsInstalled''"

definition reasonAddonNotHealthy :: string where "reasonAddonNotHealthy = ''AddonNotHealthy''"

definition defaultHealthCheckTimeout :: int where "defaultHealthCheckTimeout = 60 * second"

definition defaultHealthCheckInterval :: int where "defaultHealthCheckInterval = 5 * minute"

definition clusterDefaultTeardownTimeout :: int where "clusterDefaultTeardownTimeout = 15 * minute"

record 's ClusterConfig =
  kc_Bootstrapper :: "'s ClusterBootstrapper option"
  kc_HealthCheckTimeout :: int
  kc_RetryInterval :: int
  kc_HealthCheckInterval :: int
  kc_TeardownTimeout :: int
  kc_ZoneLease :: Identity
  kc_DNS :: KontinuumDNSConfigStatus

definition NewClusterController :: "'s ClusterBootstrapper \<Rightarrow> 's ClusterConfig \<Rightarrow> 's ClusterConfig" where
  "NewClusterController production cfg = cfg
     \<lparr>kc_Bootstrapper := (case kc_Bootstrapper cfg of None \<Rightarrow> Some production | b \<Rightarrow> b),
      kc_HealthCheckTimeout := (if kc_HealthCheckTimeout cfg = 0 then defaultHealthCheckTimeout else kc_HealthCheckTimeout cfg),
      kc_RetryInterval := (if kc_RetryInterval cfg = 0 then clusterDefaultRetryInterval else kc_RetryInterval cfg),
      kc_HealthCheckInterval := (if kc_HealthCheckInterval cfg = 0 then defaultHealthCheckInterval else kc_HealthCheckInterval cfg),
      kc_TeardownTimeout := (if kc_TeardownTimeout cfg = 0 then clusterDefaultTeardownTimeout else kc_TeardownTimeout cfg)\<rparr>"

abbreviation clusterIs :: "'s taloslib \<Rightarrow> string \<Rightarrow> TalosCluster \<Rightarrow> bool" where
  "clusterIs lib ty cluster \<equiv> am_isStatusConditionTrue (tl_am lib) (tcst_Conditions (tc_Status cluster)) ty"

section \<open>Status of the cluster\<close>

type_synonym koutcome = "TalosCluster \<times> outcome"

definition clusterPersistStatus :: "'s ClusterReconciler \<Rightarrow> TalosCluster \<Rightarrow> ConditionStatus \<Rightarrow> bool \<Rightarrow> ('s, koutcome) state" where
  "clusterPersistStatus r cluster status changed = do {
     w \<leftarrow> (if changed then kupdateStatus (cl_TalosCluster (kr_Client r)) cluster else return (Inr cluster));
     (case w of
        Inl err \<Rightarrow> return (cluster, noRequeue, Some (Errorf ''failed to update talos cluster %q status: %w'' [clusterName cluster] [err]))
      | Inr cluster1 \<Rightarrow>
          if status = ConditionTrue then return (cluster1, noRequeue, None)
          else return (cluster1, \<lparr>requeueAfter = kr_RetryInterval r\<rparr>, None))
   }"

definition withClusterCondition :: "'s taloslib \<Rightarrow> Condition \<Rightarrow> TalosCluster \<Rightarrow> bool \<times> TalosCluster" where
  "withClusterCondition lib c cluster = (case am_setStatusCondition (tl_am lib) (tcst_Conditions (tc_Status cluster)) c of
     (changed, cs) \<Rightarrow> (changed, cluster\<lparr>tc_Status := (tc_Status cluster)\<lparr>tcst_Conditions := cs\<rparr>\<rparr>))"

definition setControlPlaneCondition :: "'s taloslib \<Rightarrow> 's ClusterReconciler \<Rightarrow> TalosCluster \<Rightarrow> ConditionStatus \<Rightarrow> string \<Rightarrow> string \<Rightarrow> ('s, koutcome) state" where
  "setControlPlaneCondition lib r cluster status reason message =
     (case withClusterCondition lib (cond ControlPlaneReadyConditionType status reason message) cluster of
        (changed, cluster1) \<Rightarrow> clusterPersistStatus r cluster1 status changed)"

definition setClusterReady :: "'s taloslib \<Rightarrow> 's ClusterReconciler \<Rightarrow> TalosCluster \<Rightarrow> ConditionStatus \<Rightarrow> string \<Rightarrow> string \<Rightarrow> ('s, koutcome) state" where
  "setClusterReady lib r cluster status reason message =
     (case withClusterCondition lib (cond ClusterReadyType status reason message) cluster of
        (changed, cluster1) \<Rightarrow> clusterPersistStatus r cluster1 status changed)"

section \<open>Addons\<close>

definition seedExternalDNS :: "addonlib \<Rightarrow> 's ClusterReconciler \<Rightarrow> TalosCluster \<Rightarrow> ('s, goerr option) state" where
  "seedExternalDNS al r cluster =
     (if kdns_Provider (kr_DNS r) = '''' \<or> kdns_Credential (kr_DNS r) = '''' then return None
      else do {
        e \<leftarrow> EnsureExternalDNSSeed al (kr_Client r) cluster (kdns_Provider (kr_DNS r)) (kdns_Credential (kr_DNS r));
        (case e of
           None \<Rightarrow> return None
         | Some err \<Rightarrow>
             if errorsIs err ''dns credential must be a non-empty flat yaml mapping of strings'' then return None
             else return (Some (Errorf ''failed to seed external-dns addon for %q: %w'' [clusterName cluster] [err])))
      })"

fun unhealthyAddons :: "'s taloslib \<Rightarrow> Addon list \<Rightarrow> string list" where
  "unhealthyAddons lib [] = []"
| "unhealthyAddons lib (candidate # rest) =
     (if \<not> Enabled (addon_Spec candidate) then unhealthyAddons lib rest
      else (case am_findStatusCondition (tl_am lib) (ast_Conditions (addon_Status candidate)) clusterAddonReadyConditionType of
         None \<Rightarrow> (ReleaseName candidate @ '': Pending'') # unhealthyAddons lib rest
       | Some c \<Rightarrow> if cond_Status c \<noteq> ConditionTrue then (ReleaseName candidate @ '': '' @ cond_Reason c) # unhealthyAddons lib rest
           else unhealthyAddons lib rest))"

fun joinStrings :: "string \<Rightarrow> string list \<Rightarrow> string" where
  "joinStrings sep [] = ''''"
| "joinStrings sep [x] = x"
| "joinStrings sep (x # xs) = x @ sep @ joinStrings sep xs"

definition reconcileAddons :: "'s taloslib \<Rightarrow> addonlib \<Rightarrow> 's ClusterReconciler \<Rightarrow> TalosCluster \<Rightarrow> ('s, koutcome) state" where
  "reconcileAddons lib al r cluster = do {
     e \<leftarrow> EnsureBuiltinSeeds al (kr_Client r) cluster;
     (case e of
        Some err \<Rightarrow> return (cluster, noRequeue, Some (Errorf ''failed to seed built-in addons for %q: %w'' [clusterName cluster] [err]))
      | None \<Rightarrow> do {
          d \<leftarrow> seedExternalDNS al r cluster;
          (case d of
             Some err \<Rightarrow> return (cluster, noRequeue, Some err)
           | None \<Rightarrow> do {
               l \<leftarrow> ListForCluster (kr_Client r) (clusterNamespace cluster) (clusterName cluster);
               (case l of
                  Inl err \<Rightarrow> return (cluster, noRequeue, Some (Errorf ''failed to list addons for %q: %w'' [clusterName cluster] [err]))
                | Inr addons \<Rightarrow>
                    (let unhealthy = unhealthyAddons lib addons in
                     if length unhealthy > 0
                     then setClusterReady lib r cluster ConditionFalse reasonAddonNotHealthy (''waiting for addons: '' @ joinStrings ''; '' unhealthy)
                     else setClusterReady lib r cluster ConditionTrue reasonAddonsInstalled ''all addons installed and healthy''))
             })
        })
   }"

section \<open>Members\<close>

text \<open>Applying the configuration to one member, and to all; the members are changed in place.\<close>

definition applyMember :: "'s taloslib \<Rightarrow> 's ClusterReconciler \<Rightarrow> talosInput \<Rightarrow> machineType \<Rightarrow> Instance \<Rightarrow> string \<Rightarrow> ('s, Instance) state" where
  "applyMember lib r input ty member addr = (case configBytes lib input ty (instName member) of
       Inl err \<Rightarrow> return member
     | Inr bytes \<Rightarrow> do {
         e \<leftarrow> cb_ApplyConfiguration (kr_Bootstrapper r) addr bytes;
         (case e of
            Some err \<Rightarrow> return member
          | None \<Rightarrow> markMemberCondition lib (kr_Client r) member MemberConfiguredConditionType reasonMemberConfigured ''talos machine configuration applied'')
       })"

fun applyMembers :: "'s taloslib \<Rightarrow> 's ClusterReconciler \<Rightarrow> talosInput \<Rightarrow> machineType \<Rightarrow> Instance list \<Rightarrow> ('s, (string list \<times> Instance list) option) state" where
  "applyMembers lib r input ty [] = return (Some ([], []))"
| "applyMembers lib r input ty (member # members) = whenOk (dialAddress lib member) (\<lambda>addr. do {
     member1 \<leftarrow> applyMember lib r input ty member addr;
     rest \<leftarrow> applyMembers lib r input ty members;
     whenOk rest (\<lambda>(nodes, members1). return (Some (addr # nodes, member1 # members1)))
   })"

definition applyControlPlaneConfig :: "'s taloslib \<Rightarrow> 's ClusterReconciler \<Rightarrow> talosInput \<Rightarrow> Instance list \<Rightarrow> ('s, (string list \<times> Instance list) option) state" where
  "applyControlPlaneConfig lib r input members = applyMembers lib r input TypeControlPlane members"

definition cpuCoreDataMissing :: "InstanceCPUStatus list \<Rightarrow> bool" where
  "cpuCoreDataMissing cpus \<longleftrightarrow> (\<exists>cpu\<in>set cpus. icp_CoreCount cpu = 0)"

definition withCPUs :: "(InstanceCPUStatus \<Rightarrow> InstanceCPUStatus) \<Rightarrow> Instance \<Rightarrow> Instance" where
  "withCPUs f member = member\<lparr>inst_Status := (inst_Status member)\<lparr>ist_CPUs := map f (ist_CPUs (inst_Status member))\<rparr>\<rparr>"

definition fillMemberCPUData :: "'s taloslib \<Rightarrow> 's ClusterReconciler \<Rightarrow> Instance \<Rightarrow> string \<Rightarrow> talosConfig \<Rightarrow> string \<Rightarrow> ('s, Instance option) state" where
  "fillMemberCPUData lib r member dialAddr talosCfg arch =
     (let member1 = (if arch \<noteq> '''' then withCPUs (\<lambda>cpu. cpu\<lparr>icp_Architecture := arch\<rparr>) member else member) in
      if \<not> cpuCoreDataMissing (ist_CPUs (inst_Status member1)) then return (Some member1)
      else whenOk (dialAddress lib member1) (\<lambda>node. do {
        t \<leftarrow> cb_CPUTopology (kr_Bootstrapper r) dialAddr node talosCfg;
        (case t of
           Inl err \<Rightarrow> return (Some member1)
         | Inr (coreCount, threadCount, maxSpeedMHz) \<Rightarrow> return (Some (withCPUs (\<lambda>cpu.
             if icp_CoreCount cpu = 0 then cpu\<lparr>icp_CoreCount := coreCount, icp_ThreadCount := threadCount, icp_MaxSpeedMHz := maxSpeedMHz\<rparr> else cpu) member1)))
      }))"

definition joinedConditions :: "bool \<Rightarrow> Condition list" where
  "joinedConditions markReady =
     [cond MemberJoinedConditionType ConditionTrue reasonMemberJoined messageMemberAnsweredVersion,
      cond MemberLiveConditionType ConditionTrue reasonMemberLive messageMemberAnsweredVersion] @
     (if markReady then [cond MemberReadyConditionType ConditionTrue reasonMemberHealthy ''control plane cluster health check passed with this node included'']
      else [])"

fun recordTalosVersions :: "'s taloslib \<Rightarrow> 's ClusterReconciler \<Rightarrow> Instance list \<Rightarrow> string \<Rightarrow> talosConfig \<Rightarrow> bool \<Rightarrow> ('s, unit option) state" where
  "recordTalosVersions lib r [] dialAddr talosCfg markReady = return (Some ())"
| "recordTalosVersions lib r (member # members) dialAddr talosCfg markReady =
     (if memberIs lib MemberJoinedConditionType member then recordTalosVersions lib r members dialAddr talosCfg markReady
      else whenOk (dialAddress lib member) (\<lambda>node. do {
        v \<leftarrow> cb_Version (kr_Bootstrapper r) dialAddr node talosCfg;
        (case v of
           Inl err \<Rightarrow> recordTalosVersions lib r members dialAddr talosCfg markReady
         | Inr (version, arch) \<Rightarrow> do {
             now \<leftarrow> w_now (tl_world lib);
             f \<leftarrow> fillMemberCPUData lib r (member\<lparr>inst_Status := (inst_Status member)
                    \<lparr>ist_Talos := \<lparr>its_Version = version\<rparr>, ist_LastProbeTime := now\<rparr>\<rparr>) dialAddr talosCfg arch;
             whenOk f (\<lambda>member1. do {
               _ \<leftarrow> persistMember (kr_Client r)
                      (withConditions (setConditions (tl_am lib) (joinedConditions markReady) (ist_Conditions (inst_Status member1))) member1);
               recordTalosVersions lib r members dialAddr talosCfg markReady
             })
           })
      }))"

section \<open>The control plane\<close>

definition ensureBootstrapped :: "'s taloslib \<Rightarrow> 's ClusterReconciler \<Rightarrow> TalosCluster \<Rightarrow> string \<Rightarrow> talosConfig \<Rightarrow> ('s, TalosCluster) state" where
  "ensureBootstrapped lib r cluster controlPlaneAddr talosCfg =
     (if clusterIs lib BootstrappedConditionType cluster then return cluster
      else do {
        e \<leftarrow> cb_Bootstrap (kr_Bootstrapper r) controlPlaneAddr talosCfg;
        (if (case e of None \<Rightarrow> False | Some err \<Rightarrow> \<not> statusCodeIs ''AlreadyExists'' err) then return cluster
         else return (snd (withClusterCondition lib (cond BootstrappedConditionType ConditionTrue reasonBootstrapped ''etcd bootstrap completed'') cluster)))
      })"

text \<open>\<open>bootstrapAndCheckHealth\<close> after the addons were seeded.\<close>

definition checkHealth :: "'s taloslib \<Rightarrow> 's ClusterReconciler \<Rightarrow> TalosCluster \<Rightarrow> Result \<Rightarrow> string \<Rightarrow> string list \<Rightarrow> Instance list \<Rightarrow> talosConfig \<Rightarrow>
    ('s, koutcome option) state" where
  "checkHealth lib r cluster addonsResult controlPlaneAddr controlPlaneNodes members talosCfg = do {
     h \<leftarrow> cb_HealthCheck (kr_Bootstrapper r) controlPlaneAddr talosCfg controlPlaneNodes (kr_HealthCheckTimeout r);
     (case h of
        Some err \<Rightarrow> do {
          out \<leftarrow> setControlPlaneCondition lib r cluster ConditionFalse reasonBootstrapping ''waiting for control plane to become healthy'';
          return (Some out)
        }
      | None \<Rightarrow> do {
          v \<leftarrow> recordTalosVersions lib r members controlPlaneAddr talosCfg True;
          whenOk v (\<lambda>_. do {
            out \<leftarrow> setControlPlaneCondition lib r cluster ConditionTrue reasonHealthy ''control plane is healthy'';
            (case out of (cluster1, controlPlaneResult, e) \<Rightarrow>
               if e \<noteq> None then return (Some out)
               else if requeueAfter addonsResult > requeueAfter controlPlaneResult then return (Some (cluster1, addonsResult, None))
               else return (Some out))
          })
        })
   }"

definition bootstrapAndCheckHealth :: "'s taloslib \<Rightarrow> addonlib \<Rightarrow> 's ClusterReconciler \<Rightarrow> TalosCluster \<Rightarrow> string \<Rightarrow> string list \<Rightarrow> Instance list \<Rightarrow> talosConfig \<Rightarrow>
    ('s, koutcome option) state" where
  "bootstrapAndCheckHealth lib al r cluster controlPlaneAddr controlPlaneNodes members talosCfg = do {
     cluster1 \<leftarrow> ensureBootstrapped lib r cluster controlPlaneAddr talosCfg;
     k \<leftarrow> cb_Kubeconfig (kr_Bootstrapper r) controlPlaneAddr talosCfg;
     (case k of
        Inl err \<Rightarrow> do {
          out \<leftarrow> setControlPlaneCondition lib r cluster1 ConditionFalse reasonBootstrapping
                   ''waiting for the control plane's apiserver to become reachable'';
          return (Some out)
        }
      | Inr kubeconfig \<Rightarrow> do {
          e \<leftarrow> storeKubeconfig (kr_Client r) cluster1 kubeconfig;
          (case e of
             Some err \<Rightarrow> return (Some (cluster1, noRequeue, Some err))
           | None \<Rightarrow> do {
               a \<leftarrow> reconcileAddons lib al r cluster1;
               (case a of (cluster2, addonsResult, ae) \<Rightarrow>
                  if ae \<noteq> None then return (Some (cluster2, noRequeue, ae))
                  else checkHealth lib r cluster2 addonsResult controlPlaneAddr controlPlaneNodes members talosCfg)
             })
        })
   }"

definition reconcileControlPlane :: "'s taloslib \<Rightarrow> addonlib \<Rightarrow> 's ClusterReconciler \<Rightarrow> TalosCluster \<Rightarrow> talosBundle \<Rightarrow> ('s, koutcome option) state" where
  "reconcileControlPlane lib al r cluster bndl = do {
     m \<leftarrow> resolveMembers lib (kr_Client r) (clusterNamespace cluster) (controlPlanePool cluster);
     (case m of
        Inl err \<Rightarrow> return (Some (cluster, noRequeue, Some err))
      | Inr [] \<Rightarrow> do {
          out \<leftarrow> setControlPlaneCondition lib r cluster ConditionFalse reasonWaitingForInstances ''no discovered control-plane instances claimed yet'';
          return (Some out)
        }
      | Inr (first # others) \<Rightarrow> whenOk (dialAddress lib first) (\<lambda>controlPlaneAddr.
          (case generateConfigs lib bndl cluster controlPlaneAddr of
             Inl err \<Rightarrow> return (Some (cluster, noRequeue, Some (Errorf ''failed to generate control plane config for %q: %w'' [clusterName cluster] [err])))
           | Inr (input, talosCfg) \<Rightarrow> do {
               x \<leftarrow> applyControlPlaneConfig lib r input (first # others);
               whenOk x (\<lambda>(controlPlaneNodes, members). bootstrapAndCheckHealth lib al r cluster controlPlaneAddr controlPlaneNodes members talosCfg)
             })))
   }"

section \<open>Workers\<close>

definition reconcileWorkerPool :: "'s taloslib \<Rightarrow> 's ClusterReconciler \<Rightarrow> TalosCluster \<Rightarrow> TalosClusterWorkerSpec \<Rightarrow> talosInput \<Rightarrow> string \<Rightarrow> talosConfig \<Rightarrow>
    ('s, goerr option option) state" where
  "reconcileWorkerPool lib r cluster worker input controlPlaneAddr talosCfg = do {
     m \<leftarrow> resolveMembers lib (kr_Client r) (clusterNamespace cluster) (tcw_PoolRef worker);
     (case m of
        Inl err \<Rightarrow> return (Some (Some err))
      | Inr members \<Rightarrow> do {
          x \<leftarrow> applyMembers lib r input TypeWorker members;
          whenOk x (\<lambda>(_, members1). do {
            v \<leftarrow> recordTalosVersions lib r members1 controlPlaneAddr talosCfg False;
            whenOk v (\<lambda>_. return (Some None))
          })
        })
   }"

fun workerPools :: "'s taloslib \<Rightarrow> 's ClusterReconciler \<Rightarrow> TalosCluster \<Rightarrow> TalosClusterWorkerSpec list \<Rightarrow> talosInput \<Rightarrow> string \<Rightarrow> talosConfig \<Rightarrow>
    ('s, goerr option option) state" where
  "workerPools lib r cluster [] input controlPlaneAddr talosCfg = return (Some None)"
| "workerPools lib r cluster (worker # workers) input controlPlaneAddr talosCfg = do {
     e \<leftarrow> reconcileWorkerPool lib r cluster worker input controlPlaneAddr talosCfg;
     whenOk e (\<lambda>e. case e of Some err \<Rightarrow> return (Some (Some err)) | None \<Rightarrow> workerPools lib r cluster workers input controlPlaneAddr talosCfg)
   }"

definition reconcileWorkers :: "'s taloslib \<Rightarrow> 's ClusterReconciler \<Rightarrow> TalosCluster \<Rightarrow> talosBundle \<Rightarrow> ('s, goerr option option) state" where
  "reconcileWorkers lib r cluster bndl =
     (if length (tcs_Workers (tc_Spec cluster)) = 0 then return (Some None)
      else do {
        m \<leftarrow> resolveMembers lib (kr_Client r) (clusterNamespace cluster) (controlPlanePool cluster);
        (case m of
           Inl err \<Rightarrow> return (Some (Some err))
         | Inr [] \<Rightarrow> return (Some None)
         | Inr (first # _) \<Rightarrow> whenOk (dialAddress lib first) (\<lambda>controlPlaneAddr.
             (case generateConfigs lib bndl cluster controlPlaneAddr of
                Inl err \<Rightarrow> return (Some (Some (Errorf ''failed to generate worker config for %q: %w'' [clusterName cluster] [err])))
              | Inr (input, talosCfg) \<Rightarrow> workerPools lib r cluster (tcs_Workers (tc_Spec cluster)) input controlPlaneAddr talosCfg)))
      })"

section \<open>Probing a converged cluster\<close>

fun probeWorkers :: "'s taloslib \<Rightarrow> 's ClusterReconciler \<Rightarrow> Instance list \<Rightarrow> string \<Rightarrow> talosConfig \<Rightarrow> int \<Rightarrow> ('s, unit option) state" where
  "probeWorkers lib r [] controlPlaneAddr talosCfg probeTime = return (Some ())"
| "probeWorkers lib r (member # members) controlPlaneAddr talosCfg probeTime = whenOk (dialAddress lib member) (\<lambda>node. do {
     v \<leftarrow> cb_Version (kr_Bootstrapper r) controlPlaneAddr node talosCfg;
     _ \<leftarrow> persistMemberProbe lib (kr_Client r) member probeTime [case v of
            Inr _ \<Rightarrow> cond MemberLiveConditionType ConditionTrue reasonMemberLive messageMemberAnsweredVersion
          | Inl err \<Rightarrow> cond MemberLiveConditionType ConditionFalse reasonMemberUnreachable
              (''periodic liveness recheck failed: '' @ am_errorText (tl_am lib) err)];
     probeWorkers lib r members controlPlaneAddr talosCfg probeTime
   })"

fun probeWorkerPools :: "'s taloslib \<Rightarrow> 's ClusterReconciler \<Rightarrow> TalosCluster \<Rightarrow> TalosClusterWorkerSpec list \<Rightarrow> string \<Rightarrow> talosConfig \<Rightarrow> int \<Rightarrow> ('s, unit option) state" where
  "probeWorkerPools lib r cluster [] controlPlaneAddr talosCfg probeTime = return (Some ())"
| "probeWorkerPools lib r cluster (worker # workers) controlPlaneAddr talosCfg probeTime = do {
     m \<leftarrow> resolveMembers lib (kr_Client r) (clusterNamespace cluster) (tcw_PoolRef worker);
     (case m of
        Inl err \<Rightarrow> probeWorkerPools lib r cluster workers controlPlaneAddr talosCfg probeTime
      | Inr members \<Rightarrow> do {
          p \<leftarrow> probeWorkers lib r members controlPlaneAddr talosCfg probeTime;
          whenOk p (\<lambda>_. probeWorkerPools lib r cluster workers controlPlaneAddr talosCfg probeTime)
        })
   }"

definition recheckWorkerLiveness :: "'s taloslib \<Rightarrow> 's ClusterReconciler \<Rightarrow> TalosCluster \<Rightarrow> string \<Rightarrow> talosConfig \<Rightarrow> ('s, unit option) state" where
  "recheckWorkerLiveness lib r cluster controlPlaneAddr talosCfg = do {
     probeTime \<leftarrow> w_now (tl_world lib);
     probeWorkerPools lib r cluster (tcs_Workers (tc_Spec cluster)) controlPlaneAddr talosCfg probeTime
   }"

fun dialAddresses :: "'s taloslib \<Rightarrow> Instance list \<Rightarrow> string list option" where
  "dialAddresses lib [] = Some []"
| "dialAddresses lib (member # members) = (case dialAddress lib member of
       None \<Rightarrow> None
     | Some addr \<Rightarrow> (case dialAddresses lib members of None \<Rightarrow> None | Some addrs \<Rightarrow> Some (addr # addrs)))"

fun probeControlPlane :: "'s taloslib \<Rightarrow> 's ClusterReconciler \<Rightarrow> Instance list \<Rightarrow> int \<Rightarrow> ConditionStatus \<Rightarrow> string \<Rightarrow> string \<Rightarrow> ('s, unit) state" where
  "probeControlPlane lib r [] probeTime status reason message = return ()"
| "probeControlPlane lib r (member # members) probeTime status reason message = do {
     _ \<leftarrow> persistMemberProbe lib (kr_Client r) member probeTime
            [cond MemberReadyConditionType status reason message, cond MemberLiveConditionType status reason message];
     probeControlPlane lib r members probeTime status reason message
   }"

definition recheckControlPlaneHealth :: "'s taloslib \<Rightarrow> 's ClusterReconciler \<Rightarrow> TalosCluster \<Rightarrow> talosBundle \<Rightarrow> ('s, outcome option) state" where
  "recheckControlPlaneHealth lib r cluster bndl = do {
     m \<leftarrow> resolveMembers lib (kr_Client r) (clusterNamespace cluster) (controlPlanePool cluster);
     (case m of
        Inl err \<Rightarrow> return (Some (noRequeue, Some err))
      | Inr [] \<Rightarrow> return (Some (\<lparr>requeueAfter = kr_HealthCheckInterval r\<rparr>, None))
      | Inr (first # others) \<Rightarrow> whenOk (dialAddress lib first) (\<lambda>controlPlaneAddr.
          (case generateConfigs lib bndl cluster controlPlaneAddr of
             Inl err \<Rightarrow> return (Some (noRequeue, Some (Errorf ''failed to generate control plane config for %q: %w'' [clusterName cluster] [err])))
           | Inr (_, talosCfg) \<Rightarrow> whenOk (dialAddresses lib (first # others)) (\<lambda>controlPlaneNodes. do {
               h \<leftarrow> cb_HealthCheck (kr_Bootstrapper r) controlPlaneAddr talosCfg controlPlaneNodes (kr_HealthCheckTimeout r);
               probeTime \<leftarrow> w_now (tl_world lib);
               _ \<leftarrow> (case h of
                  None \<Rightarrow> probeControlPlane lib r (first # others) probeTime ConditionTrue reasonMemberHealthy
                    ''control plane cluster health check passed with this node included''
                | Some err \<Rightarrow> probeControlPlane lib r (first # others) probeTime ConditionFalse reasonMemberUnhealthy
                    (''periodic control plane health recheck failed: '' @ am_errorText (tl_am lib) err));
               w \<leftarrow> recheckWorkerLiveness lib r cluster controlPlaneAddr talosCfg;
               whenOk w (\<lambda>_. return (Some (\<lparr>requeueAfter = (if h \<noteq> None then kr_RetryInterval r else kr_HealthCheckInterval r)\<rparr>, None)))
             }))))
   }"

section \<open>Reconcile\<close>

definition fetchCluster :: "'s ClusterReconciler \<Rightarrow> ObjectKey \<Rightarrow> ('s, outcome + TalosCluster) state" where
  "fetchCluster r key = do {
     g \<leftarrow> kget (cl_TalosCluster (kr_Client r)) key;
     (case g of
        Inl err \<Rightarrow>
          if isNotFound err then return (Inl (noRequeue, None))
          else return (Inl (noRequeue, Some (Errorf ''failed to get talos cluster %q: %w'' [snd key] [err])))
      | Inr cluster \<Rightarrow> return (Inr cluster))
   }"

definition clusterAcquireZoneLease :: "'s taloslib \<Rightarrow> 's ClusterReconciler \<Rightarrow> TalosCluster \<Rightarrow> ('s, outcome + unit) state" where
  "clusterAcquireZoneLease lib r cluster = do {
     a \<leftarrow> TryAcquire (tl_world lib) (kr_Locker r) (clusterName cluster);
     (case a of
        Inl err \<Rightarrow> return (Inl (noRequeue, Some (Errorf ''failed to acquire zone lease for talos cluster %q: %w'' [clusterName cluster] [err])))
      | Inr acquired \<Rightarrow>
          if \<not> acquired then do { d \<leftarrow> Jitter (tl_world lib) (kr_RetryInterval r); return (Inl (\<lparr>requeueAfter = d\<rparr>, None)) }
          else return (Inr ()))
   }"

definition addClusterFinalizer :: "'s taloslib \<Rightarrow> 's ClusterReconciler \<Rightarrow> TalosCluster \<Rightarrow> ('s, goerr + TalosCluster) state" where
  "addClusterFinalizer lib r cluster =
     (case am_addFinalizer (tl_am lib) (om_Finalizers (tc_meta cluster)) TalosClusterFinalizer of (added, fs) \<Rightarrow>
        if \<not> added then return (Inr cluster)
        else do {
          u \<leftarrow> kupdate (cl_TalosCluster (kr_Client r)) (cluster\<lparr>tc_meta := (tc_meta cluster)\<lparr>om_Finalizers := fs\<rparr>\<rparr>);
          (case u of
             Inl err \<Rightarrow> return (Inl (Errorf ''failed to add finalizer to talos cluster %q: %w'' [clusterName cluster] [err]))
           | Inr cluster1 \<Rightarrow> return (Inr cluster1))
        })"

text \<open>\<open>Reconcile\<close> once the finalizer and the secrets are there.\<close>

definition convergeCluster :: "'s taloslib \<Rightarrow> addonlib \<Rightarrow> 's ClusterReconciler \<Rightarrow> TalosCluster \<Rightarrow> talosBundle \<Rightarrow> ('s, outcome option) state" where
  "convergeCluster lib al r cluster bndl =
     (if \<not> clusterIs lib ControlPlaneReadyConditionType cluster then do {
        x \<leftarrow> reconcileControlPlane lib al r cluster bndl;
        whenOk x (\<lambda>(_, out). return (Some out))
      }
      else do {
        e \<leftarrow> reconcileWorkers lib r cluster bndl;
        whenOk e (\<lambda>e. case e of
           Some err \<Rightarrow> return (Some (noRequeue, Some err))
         | None \<Rightarrow>
             if \<not> clusterIs lib ClusterReadyType cluster then do { a \<leftarrow> reconcileAddons lib al r cluster; return (Some (snd a)) }
             else recheckControlPlaneHealth lib r cluster bndl)
      })"

definition prepareCluster :: "'s taloslib \<Rightarrow> addonlib \<Rightarrow> 's ClusterReconciler \<Rightarrow> TalosCluster \<Rightarrow> ('s, outcome option) state" where
  "prepareCluster lib al r cluster = do {
     f \<leftarrow> addClusterFinalizer lib r cluster;
     (case f of
        Inl err \<Rightarrow> return (Some (noRequeue, Some err))
      | Inr cluster1 \<Rightarrow> do {
          b \<leftarrow> ensureSecretsBundle lib (kr_Client r) cluster1;
          (case b of
             Inl err \<Rightarrow> return (Some (noRequeue, Some (Errorf ''failed to ensure secrets bundle for %q: %w'' [clusterName cluster1] [err])))
           | Inr (cluster2, bndl) \<Rightarrow> convergeCluster lib al r cluster2 bndl)
        })
   }"

definition ClusterReconcile :: "'s taloslib \<Rightarrow> addonlib \<Rightarrow> 's ClusterReconciler \<Rightarrow> ObjectKey \<Rightarrow> ('s, outcome option) state" where
  "ClusterReconcile lib al r req = do {
     g \<leftarrow> fetchCluster r req;
     (case g of
        Inl out \<Rightarrow> return (Some out)
      | Inr cluster \<Rightarrow> do {
          a \<leftarrow> clusterAcquireZoneLease lib r cluster;
          (case a of
             Inl out \<Rightarrow> return (Some out)
           | Inr _ \<Rightarrow> if \<not> deletionIsZero (tc_meta cluster) then clusterTeardown lib r cluster else prepareCluster lib al r cluster)
        })
   }"

end
