(* ===== verification/ClusterProps.thy ===== *)
theory ClusterProps
  imports Cluster
begin

text \<open>
  What a pass of the TalosCluster reconciler keeps: which calls its handlers make, as state
  predicates the handlers leave alone, and on top of them the safety of the secrets bundle,
  the order in which machines get their configuration, and where a cluster stays once it is
  ready.
\<close>

section \<open>What the handlers leave alone\<close>

lemma leaves_whenOk [leaves_rules]: "(\<And>a. x = Some a \<Longrightarrow> leaves I (f a)) \<Longrightarrow> leaves I (whenOk x f)"
  by (cases x) (auto intro: leaves_return)

lemma leaves_andThen [leaves_rules]: "leaves I m \<Longrightarrow> leaves I n \<Longrightarrow> leaves I (andThen m n)"
  unfolding andThen_def by (auto intro!: leaves_rules split: option.splits)

text \<open>
  The calls of the probing half of a pass, then those of the converging half, then those
  of the addons and of the teardown.
\<close>

definition probe_calls_leave :: "('s \<Rightarrow> bool) \<Rightarrow> 's taloslib \<Rightarrow> 's ClusterReconciler \<Rightarrow> bool" where
  "probe_calls_leave I lib r \<longleftrightarrow> locker_calls_leave I (tl_world lib) (kr_Locker r) \<and>
     (\<forall>k. leaves I (kget (cl_TalosCluster (kr_Client r)) k)) \<and> (\<forall>k. leaves I (kget (cl_Secret (kr_Client r)) k)) \<and>
     (\<forall>ns p. leaves I (klist (cl_Instance (kr_Client r)) ns p)) \<and> (\<forall>x. leaves I (kupdateStatus (cl_Instance (kr_Client r)) x)) \<and>
     (\<forall>a n c. leaves I (cb_Version (kr_Bootstrapper r) a n c)) \<and> (\<forall>a n c. leaves I (cb_CPUTopology (kr_Bootstrapper r) a n c)) \<and>
     (\<forall>a c ns t. leaves I (cb_HealthCheck (kr_Bootstrapper r) a c ns t))"

definition build_calls_leave :: "('s \<Rightarrow> bool) \<Rightarrow> 's taloslib \<Rightarrow> 's ClusterReconciler \<Rightarrow> bool" where
  "build_calls_leave I lib r \<longleftrightarrow> (\<forall>a c. leaves I (cb_Bootstrap (kr_Bootstrapper r) a c)) \<and>
     (\<forall>a c. leaves I (cb_Kubeconfig (kr_Bootstrapper r) a c)) \<and> (\<forall>v. leaves I (tl_NewBundle lib v)) \<and>
     (\<forall>x. leaves I (kupdate (cl_TalosCluster (kr_Client r)) x)) \<and> (\<forall>x. leaves I (kupdateStatus (cl_TalosCluster (kr_Client r)) x)) \<and>
     (\<forall>x. leaves I (kcreate (cl_Namespace (kr_Client r)) x)) \<and>
     (\<forall>k. leaves I (kget (cl_Addon (kr_Client r)) k)) \<and> (\<forall>ns p. leaves I (klist (cl_Addon (kr_Client r)) ns p)) \<and>
     (\<forall>x. leaves I (kcreate (cl_Addon (kr_Client r)) x)) \<and> (\<forall>x. leaves I (kupdate (cl_Addon (kr_Client r)) x))"

definition drop_calls_leave :: "('s \<Rightarrow> bool) \<Rightarrow> 's ClusterReconciler \<Rightarrow> bool" where
  "drop_calls_leave I r \<longleftrightarrow> (\<forall>x. leaves I (kupdate (cl_Instance (kr_Client r)) x)) \<and> (\<forall>x. leaves I (kdelete (cl_Instance (kr_Client r)) x)) \<and>
     (\<forall>e n c g. leaves I (cb_Reset (kr_Bootstrapper r) e n c g)) \<and> (\<forall>x. leaves I (kupdate (cl_TalosCluster (kr_Client r)) x))"

lemmas calls_leave_defs = probe_calls_leave_def build_calls_leave_def drop_calls_leave_def

lemma probe_now: "probe_calls_leave I lib r \<Longrightarrow> leaves I (w_now (tl_world lib))"
  unfolding probe_calls_leave_def locker_calls_leave_def by blast

lemma resolveMembers_leaves [leaves_rules]:
  "probe_calls_leave I lib r \<Longrightarrow> leaves I (resolveMembers lib (kr_Client r) ns p)"
  unfolding resolveMembers_def listClaimedByPool_def probe_calls_leave_def by (auto intro!: leaves_rules)

lemma persistMember_leaves [leaves_rules]: "probe_calls_leave I lib r \<Longrightarrow> leaves I (persistMember (kr_Client r) x)"
  unfolding persistMember_def probe_calls_leave_def by (auto intro!: leaves_rules)

lemma member_writes_leave [leaves_rules]:
  assumes "probe_calls_leave I lib r"
  shows "leaves I (persistMemberProbe lib (kr_Client r) x t cs)" and "leaves I (markMemberCondition lib (kr_Client r) x ty re m)"
    and "leaves I (clearMemberConditions lib (kr_Client r) x)"
  unfolding persistMemberProbe_def markMemberCondition_def setMemberCondition_def clearMemberConditions_def
  by (auto intro!: leaves_rules persistMember_leaves [OF assms] split: prod.splits)

lemma recordTalosVersions_leaves [leaves_rules]:
  assumes "probe_calls_leave I lib r"
  shows "leaves I (recordTalosVersions lib r ms a cfg b)"
proof -
  have f: "leaves I (fillMemberCPUData lib r m a' c x)" for m a' c x
    using assms unfolding fillMemberCPUData_def probe_calls_leave_def Let_def by (auto intro!: leaves_rules)
  have v: "leaves I (cb_Version (kr_Bootstrapper r) x n c)" for x n c using assms unfolding probe_calls_leave_def by blast
  show ?thesis by (induction ms) (auto intro!: leaves_rules f v probe_now [OF assms] persistMember_leaves [OF assms])
qed

lemma recheck_leaves [leaves_rules]:
  assumes "probe_calls_leave I lib r"
  shows "leaves I (recheckControlPlaneHealth lib r cluster b)"
proof -
  have v: "leaves I (cb_Version (kr_Bootstrapper r) x n c)" "leaves I (cb_HealthCheck (kr_Bootstrapper r) x c ns t)" for x n c ns t
    using assms unfolding probe_calls_leave_def by blast+
  have w: "leaves I (probeWorkers lib r ms a cfg t)" for ms a cfg t
    by (induction ms) (auto intro!: leaves_rules v member_writes_leave [OF assms])
  have p: "leaves I (probeWorkerPools lib r cluster ws a cfg t)" for ws a cfg t
    by (induction ws) (auto intro!: leaves_rules w resolveMembers_leaves [OF assms])
  have c: "leaves I (probeControlPlane lib r ms t st re m)" for ms t st re m
    by (induction ms) (auto intro!: leaves_rules member_writes_leave [OF assms])
  have l: "leaves I (case ms of [] \<Rightarrow> m | x # xs \<Rightarrow> f x xs)" if "leaves I m" "\<And>x xs. leaves I (f x xs)" for m f and ms :: "Instance list"
    using that by (cases ms) auto
  show ?thesis unfolding recheckControlPlaneHealth_def recheckWorkerLiveness_def
    by (auto intro!: leaves_rules l v p c probe_now [OF assms] resolveMembers_leaves [OF assms] split: prod.splits)
qed

text \<open>
  Applying the configuration to every member keeps a predicate that the calls for these
  members and this machine type keep.
\<close>

definition apply_calls_leave :: "('s \<Rightarrow> bool) \<Rightarrow> 's taloslib \<Rightarrow> 's ClusterReconciler \<Rightarrow> talosInput \<Rightarrow> machineType \<Rightarrow> Instance list \<Rightarrow> bool" where
  "apply_calls_leave I lib r input ty ms \<longleftrightarrow> (\<forall>m\<in>set ms. \<forall>addr b. dialAddress lib m = Some addr \<and> configBytes lib input ty (instName m) = Inr b \<longrightarrow>
     leaves I (cb_ApplyConfiguration (kr_Bootstrapper r) addr b))"

lemma applyMembers_leaves:
  assumes "probe_calls_leave I lib r"
  shows "apply_calls_leave I lib r input ty ms \<Longrightarrow> leaves I (applyMembers lib r input ty ms)"
  by (induction ms) (auto simp: apply_calls_leave_def applyMember_def intro!: leaves_rules member_writes_leave [OF assms])

text \<open>
  The writes to Secrets of a pass: the fresh bundle, the kubeconfig and the credential of
  the external DNS addon, for a cluster of the given namespace and name.
\<close>

definition secret_writes_leave :: "('s \<Rightarrow> bool) \<Rightarrow> 's taloslib \<Rightarrow> addonlib \<Rightarrow> 's client \<Rightarrow> ObjectKey \<Rightarrow> bool" where
  "secret_writes_leave I lib al c key \<longleftrightarrow> (\<forall>cluster. keyOf (tc_meta cluster) = key \<longrightarrow>
     (\<forall>b. leaves I (createBundleSecret lib c cluster b)) \<and> (\<forall>x. leaves I (storeKubeconfig c cluster x)) \<and>
     (\<forall>name keys. name = ExternalDNSCredentialSecretName (snd key) \<longrightarrow> leaves I (ensureExternalDNSCredentialSecret al c cluster name keys)))"

text \<open>The server keeps the key of a TalosCluster it stores.\<close>

definition keeps_cluster_key :: "('s, TalosCluster) kclient \<Rightarrow> bool" where
  "keeps_cluster_key c \<longleftrightarrow> keeps_identity c tc_meta \<and>
     (\<forall>x s y. result_of (kupdateStatus c x) s = Inr y \<longrightarrow> keyOf (tc_meta y) = keyOf (tc_meta x))"

lemma build_calls:
  assumes "build_calls_leave I lib r"
  shows "leaves I (ensureBootstrapped lib r cluster a cfg)" and "leaves I (EnsureBuiltinSeeds al (kr_Client r) cluster)"
    and "leaves I (ListForCluster (kr_Client r) ns n)" and "leaves I (ensureExternalDNSAddon al (kr_Client r) cluster cn v)"
    and "leaves I (clusterPersistStatus r cluster st ch)" and "leaves I (addClusterFinalizer lib r cluster)"
proof -
  have k: "leaves I (kget (cl_Addon (kr_Client r)) k)" "leaves I (kcreate (cl_Addon (kr_Client r)) x)" for k x
    using assms unfolding build_calls_leave_def by blast+
  have s: "leaves I (seedLoop al (kr_Client r) cluster names)" for names
    by (induction names) (auto intro!: leaves_rules k simp: ensureBuiltinAddonSeed_def Let_def)
  then show "leaves I (EnsureBuiltinSeeds al (kr_Client r) cluster)" by (simp add: EnsureBuiltinSeeds_def)
  show "leaves I (ensureBootstrapped lib r cluster a cfg)" "leaves I (ListForCluster (kr_Client r) ns n)"
    "leaves I (clusterPersistStatus r cluster st ch)" "leaves I (addClusterFinalizer lib r cluster)"
    "leaves I (ensureExternalDNSAddon al (kr_Client r) cluster cn v)"
    using assms unfolding build_calls_leave_def ensureBootstrapped_def ListForCluster_def clusterPersistStatus_def addClusterFinalizer_def
      ensureExternalDNSAddon_def CreateOrUpdate_def Let_def
    by (auto intro!: leaves_rules k split: prod.splits)
qed

lemma set_condition_leaves [leaves_rules]:
  assumes "build_calls_leave I lib r"
  shows "leaves I (setControlPlaneCondition lib r cluster st re m)" and "leaves I (setClusterReady lib r cluster st re m)"
  unfolding setControlPlaneCondition_def setClusterReady_def by (auto intro!: leaves_rules build_calls [OF assms] split: prod.splits)

lemma withClusterCondition_meta [simp]: "tc_meta (snd (withClusterCondition lib c cluster)) = tc_meta cluster"
  by (simp add: withClusterCondition_def split: prod.splits)

lemma reconcileAddons_leaves:
  assumes "build_calls_leave I lib r" and "secret_writes_leave I lib al (kr_Client r) (keyOf (tc_meta cluster))"
  shows "leaves I (reconcileAddons lib al r cluster)"
proof -
  have "leaves I (seedExternalDNS al r cluster)"
    using assms(2) unfolding seedExternalDNS_def EnsureExternalDNSSeed_def secret_writes_leave_def Let_def
    by (auto intro!: leaves_rules build_calls [OF assms(1)] simp: keyOf_def)
  then show ?thesis unfolding reconcileAddons_def Let_def by (auto intro!: leaves_rules build_calls [OF assms(1)] set_condition_leaves [OF assms(1)])
qed

lemma leaves_bind_run:
  "leaves I m \<Longrightarrow> (\<And>s a t. run_state m s = (a, t) \<Longrightarrow> leaves I (f a)) \<Longrightarrow> leaves I (State_Monad.bind m f)"
  unfolding leaves_def by (fastforce split: prod.splits)

lemma bootstrap_leaves:
  assumes p: "probe_calls_leave I lib r" and b: "build_calls_leave I lib r"
    and s: "secret_writes_leave I lib al (kr_Client r) (keyOf (tc_meta cluster))"
  shows "leaves I (bootstrapAndCheckHealth lib al r cluster a ns ms cfg)"
proof -
  have c: "leaves I (checkHealth lib r x res a ns ms cfg)" for x res
    using p unfolding checkHealth_def probe_calls_leave_def
    by (auto intro!: leaves_rules set_condition_leaves [OF b] recordTalosVersions_leaves [OF p] split: prod.splits)
  have m: "tc_meta x = tc_meta cluster" if "run_state (ensureBootstrapped lib r cluster a cfg) u = (x, v)" for x u v
    using that by (auto simp: ensureBootstrapped_def split: if_splits prod.splits option.splits)
  show ?thesis unfolding bootstrapAndCheckHealth_def
  proof (rule leaves_bind_run [OF build_calls(1) [OF b]])
    fix u x v assume "run_state (ensureBootstrapped lib r cluster a cfg) u = (x, v)"
    then have sx: "secret_writes_leave I lib al (kr_Client r) (keyOf (tc_meta x))" using m s by simp
    then have k: "leaves I (storeKubeconfig (kr_Client r) x cfg')" for cfg' unfolding secret_writes_leave_def by simp
    have kc: "leaves I (cb_Kubeconfig (kr_Bootstrapper r) a cfg)" using b unfolding build_calls_leave_def by blast
    show "leaves I (do {
       k \<leftarrow> cb_Kubeconfig (kr_Bootstrapper r) a cfg;
       (case k of
          Inl err \<Rightarrow> do {
            out \<leftarrow> setControlPlaneCondition lib r x ConditionFalse reasonBootstrapping
                     ''waiting for the control plane's apiserver to become reachable'';
            return (Some out)
          }
        | Inr kubeconfig \<Rightarrow> do {
            e \<leftarrow> storeKubeconfig (kr_Client r) x kubeconfig;
            (case e of
               Some err \<Rightarrow> return (Some (x, noRequeue, Some err))
             | None \<Rightarrow> do {
                 aa \<leftarrow> reconcileAddons lib al r x;
                 (case aa of (cluster2, addonsResult, ae) \<Rightarrow>
                    if ae \<noteq> None then return (Some (cluster2, noRequeue, ae))
                    else checkHealth lib r cluster2 addonsResult a ns ms cfg)
               })
          })
     })"
      by (auto intro!: leaves_rules kc k c reconcileAddons_leaves [OF b sx] set_condition_leaves [OF b] split: prod.splits)
  qed
qed

text \<open>Which members the machine configuration may go to, over all lists of members a pool can have.\<close>

definition pool_applies_leave :: "('s \<Rightarrow> bool) \<Rightarrow> 's taloslib \<Rightarrow> 's ClusterReconciler \<Rightarrow> string \<Rightarrow> machineType \<Rightarrow> InstancePoolReference \<Rightarrow> bool" where
  "pool_applies_leave I lib r namespace ty pool \<longleftrightarrow> (\<forall>input s t ms.
     run_state (resolveMembers lib (kr_Client r) namespace pool) s = (Inr ms, t) \<longrightarrow> apply_calls_leave I lib r input ty ms)"

lemma reconcileControlPlane_leaves:
  assumes p: "probe_calls_leave I lib r" and b: "build_calls_leave I lib r"
    and s: "secret_writes_leave I lib al (kr_Client r) (keyOf (tc_meta cluster))"
    and a: "pool_applies_leave I lib r (clusterNamespace cluster) TypeControlPlane (controlPlanePool cluster)"
  shows "leaves I (reconcileControlPlane lib al r cluster bndl)"
  unfolding reconcileControlPlane_def
proof (rule leaves_bind_run [OF resolveMembers_leaves [OF p]])
  fix u m v assume m: "run_state (resolveMembers lib (kr_Client r) (clusterNamespace cluster) (controlPlanePool cluster)) u = (m, v)"
  note rules = leaves_rules applyMembers_leaves [OF p] bootstrap_leaves [OF p b s] set_condition_leaves [OF b]
  show "leaves I (case m of
        Inl err \<Rightarrow> return (Some (cluster, noRequeue, Some err))
      | Inr [] \<Rightarrow> do {
          out \<leftarrow> setControlPlaneCondition lib r cluster ConditionFalse reasonWaitingForInstances ''no discovered control-plane instances claimed yet'';
          return (Some out)
        }
      | Inr (first # others) \<Rightarrow> whenOk (dialAddress lib first) (\<lambda>controlPlaneAddr.
          (case generateConfigs lib bndl cluster controlPlaneAddr of
             Inl err \<Rightarrow> return (Some (cluster, noRequeue, Some (Errorf ''failed to generate control plane config for %q: %w'' [clusterName cluster] [err])))
           | Inr (input, talosCfg) \<Rightarrow> do {
               x \<leftarrow> applyControlPlaneConfig lib r input (first # others);
               whenOk x (\<lambda>(controlPlaneNodes, members). bootstrapAndCheckHealth lib al r cluster controlPlaneAddr controlPlaneNodes members talosCfg)
             })))"
  proof (cases m)
    case (Inl err)
    then show ?thesis by (simp add: leaves_return)
  next
    case (Inr ms)
    then have "apply_calls_leave I lib r input TypeControlPlane ms" for input using a m unfolding pool_applies_leave_def by simp
    with Inr show ?thesis unfolding applyControlPlaneConfig_def
      by (cases ms) (auto intro!: rules split: prod.splits)
  qed
qed

lemma reconcileWorkers_leaves:
  assumes p: "probe_calls_leave I lib r"
    and a: "\<And>w. w \<in> set (tcs_Workers (tc_Spec cluster)) \<Longrightarrow> pool_applies_leave I lib r (clusterNamespace cluster) TypeWorker (tcw_PoolRef w)"
  shows "leaves I (reconcileWorkers lib r cluster bndl)"
proof -
  have w: "leaves I (reconcileWorkerPool lib r cluster w input addr cfg)"
    if "pool_applies_leave I lib r (clusterNamespace cluster) TypeWorker (tcw_PoolRef w)" for w input addr cfg
    unfolding reconcileWorkerPool_def
    using that applyMembers_leaves [OF p, of input TypeWorker]
    by (intro leaves_bind_run [OF resolveMembers_leaves [OF p]])
      (auto intro!: leaves_rules recordTalosVersions_leaves [OF p] simp: pool_applies_leave_def split: prod.splits sum.splits)
  have ws: "(\<And>w. w \<in> set ws \<Longrightarrow> pool_applies_leave I lib r (clusterNamespace cluster) TypeWorker (tcw_PoolRef w)) \<Longrightarrow>
      leaves I (workerPools lib r cluster ws input addr cfg)" for ws input addr cfg
    by (induction ws) (auto intro!: leaves_rules w)
  have l: "leaves I (case ms of [] \<Rightarrow> m | x # xs \<Rightarrow> f x xs)" if "leaves I m" "\<And>x xs. leaves I (f x xs)" for m f and ms :: "Instance list"
    using that by (cases ms) auto
  show ?thesis unfolding reconcileWorkers_def
    by (auto intro!: leaves_rules l ws [OF a] resolveMembers_leaves [OF p] split: prod.splits)
qed

lemma clusterTeardown_leaves:
  assumes p: "probe_calls_leave I lib r" and d: "drop_calls_leave I r"
  shows "leaves I (clusterTeardown lib r cluster)"
proof -
  have k: "leaves I (kget (cl_Secret (kr_Client r)) k)" "leaves I (klist (cl_Instance (kr_Client r)) n q)" for k n q
    using p unfolding probe_calls_leave_def by blast+
  have dd: "leaves I (kupdate (cl_Instance (kr_Client r)) x)" "leaves I (kdelete (cl_Instance (kr_Client r)) x)"
    "leaves I (cb_Reset (kr_Bootstrapper r) e n c g)" "leaves I (kupdate (cl_TalosCluster (kr_Client r)) y)" for x e n c g y
    using d unfolding drop_calls_leave_def by blast+
  have e: "leaves I (resolveResetEndpoint lib (kr_Client r) inst cluster role)" for inst role
    unfolding resolveResetEndpoint_def by (auto intro!: leaves_rules resolveMembers_leaves [OF p] split: list.splits memberRole.splits)
  have r: "leaves I (resetInstance lib (kr_Client r) (kr_Bootstrapper r) inst cluster role)" for inst role
    unfolding resetInstance_def loadSecretsBundle_def Let_def by (auto intro!: leaves_rules k dd e split: prod.splits)
  have m: "leaves I (teardownMember lib r cluster inst role)" for inst role
    unfolding teardownMember_def dropMember_def releaseMember_def Let_def
    by (auto intro!: leaves_rules r dd member_writes_leave [OF p])
  have t: "leaves I (teardownLoop lib r cluster ms b)" for ms b
    by (induction ms arbitrary: b) (auto intro!: leaves_rules m)
  have w: "leaves I (claimedWorkers (kr_Client r) n ws)" for n ws
    by (induction ws) (auto intro!: leaves_rules k simp: listClaimedByPool_def)
  have l: "leaves I (listClaimedMembers (kr_Client r) cluster)"
    unfolding listClaimedMembers_def listClaimedByPool_def by (auto intro!: leaves_rules k w)
  have a: "leaves I (sinceDeletion lib x)" for x unfolding sinceDeletion_def by (auto intro!: leaves_rules probe_now [OF p])
  show ?thesis unfolding clusterTeardown_def removeClusterFinalizer_def Let_def
    by (auto intro!: leaves_rules a l t dd)
qed

lemma ensureSecretsBundle_leaves:
  assumes p: "probe_calls_leave I lib r" and b: "build_calls_leave I lib r"
    and s: "secret_writes_leave I lib al (kr_Client r) (keyOf (tc_meta cluster))"
  shows "leaves I (ensureSecretsBundle lib (kr_Client r) cluster)"
proof -
  have "leaves I (kget (cl_Secret (kr_Client r)) k)" for k using p unfolding probe_calls_leave_def by blast
  moreover have "leaves I (tl_NewBundle lib v)" for v using b unfolding build_calls_leave_def by blast
  moreover have "leaves I (createBundleSecret lib (kr_Client r) cluster x)" for x using s unfolding secret_writes_leave_def by simp
  ultimately show ?thesis unfolding ensureSecretsBundle_def loadSecretsBundle_def Let_def by (auto intro!: leaves_rules)
qed

lemma ensureSecretsBundle_meta:
  "run_state (ensureSecretsBundle lib c cluster) s = (Inr (cluster1, b), t) \<Longrightarrow> tc_meta cluster1 = tc_meta cluster \<and>
   tcst_Conditions (tc_Status cluster1) = tcst_Conditions (tc_Status cluster) \<and> tc_Spec cluster1 = tc_Spec cluster"
  by (auto simp: ensureSecretsBundle_def createBundleSecret_def setSecretRef_def Let_def split: if_splits sum.splits prod.splits option.splits)

lemma keeps_identityD:
  assumes "keeps_identity c meta"
  shows "run_state (kget c k) s = (Inr x, t) \<Longrightarrow> keyOf (meta x) = k"
    and "run_state (kupdate c x) s = (Inr y, t) \<Longrightarrow> keyOf (meta y) = keyOf (meta x)"
  using assms unfolding keeps_identity_def by (metis fst_conv)+

lemma addClusterFinalizer_key:
  assumes k: "keeps_identity (cl_TalosCluster (kr_Client r)) tc_meta" and run: "run_state (addClusterFinalizer lib r cluster) s = (Inr cluster1, t)"
  shows "keyOf (tc_meta cluster1) = keyOf (tc_meta cluster)"
proof -
  obtain added fs where f: "am_addFinalizer (tl_am lib) (om_Finalizers (tc_meta cluster)) TalosClusterFinalizer = (added, fs)" by fastforce
  let ?x = "cluster\<lparr>tc_meta := (tc_meta cluster)\<lparr>om_Finalizers := fs\<rparr>\<rparr>"
  obtain w u where w: "run_state (kupdate (cl_TalosCluster (kr_Client r)) ?x) s = (w, u)" by fastforce
  have "keyOf (tc_meta ?x) = keyOf (tc_meta cluster)" by (simp add: keyOf_def)
  with run f w keeps_identityD(2) [OF k, of ?x s _ u] show ?thesis
    by (cases added; cases w) (auto simp: addClusterFinalizer_def)
qed

lemma fetchCluster_key:
  assumes k: "keeps_identity (cl_TalosCluster (kr_Client r)) tc_meta" and run: "run_state (fetchCluster r key) s = (Inr cluster, t)"
  shows "keyOf (tc_meta cluster) = key"
proof -
  obtain g u where g: "run_state (kget (cl_TalosCluster (kr_Client r)) key) s = (g, u)" by fastforce
  with run keeps_identityD(1) [OF k, of key s _ u] show ?thesis by (cases g) (auto simp: fetchCluster_def split: if_splits)
qed

lemma convergeCluster_leaves:
  assumes p: "probe_calls_leave I lib r" and b: "build_calls_leave I lib r"
    and s: "secret_writes_leave I lib al (kr_Client r) (keyOf (tc_meta cluster))"
    and a: "\<And>ty pool. pool_applies_leave I lib r (clusterNamespace cluster) ty pool"
  shows "leaves I (convergeCluster lib al r cluster bndl)"
  unfolding convergeCluster_def
  by (auto intro!: leaves_rules reconcileControlPlane_leaves [OF p b s a] reconcileWorkers_leaves [OF p a] reconcileAddons_leaves [OF b s]
      recheck_leaves [OF p] split: prod.splits)

lemma prepareCluster_leaves:
  assumes p: "probe_calls_leave I lib r" and b: "build_calls_leave I lib r"
    and s: "secret_writes_leave I lib al (kr_Client r) (keyOf (tc_meta cluster))"
    and a: "\<And>ns ty pool. pool_applies_leave I lib r ns ty pool" and k: "keeps_identity (cl_TalosCluster (kr_Client r)) tc_meta"
  shows "leaves I (prepareCluster lib al r cluster)"
  unfolding prepareCluster_def
proof (rule leaves_bind_run [OF build_calls(6) [OF b]], rule leaves_sum)
  fix u x v cluster1
  assume "run_state (addClusterFinalizer lib r cluster) u = (x, v)" "x = Inr cluster1"
  then have s1: "secret_writes_leave I lib al (kr_Client r) (keyOf (tc_meta cluster1))" using addClusterFinalizer_key [OF k] s by metis
  show "leaves I (do {
          b \<leftarrow> ensureSecretsBundle lib (kr_Client r) cluster1;
          (case b of
             Inl err \<Rightarrow> return (Some (noRequeue, Some (Errorf ''failed to ensure secrets bundle for %q: %w'' [clusterName cluster1] [err])))
           | Inr (cluster2, bndl) \<Rightarrow> convergeCluster lib al r cluster2 bndl)
        })"
  proof (rule leaves_bind_run [OF ensureSecretsBundle_leaves [OF p b s1]], rule leaves_sum)
    fix u y v z assume "run_state (ensureSecretsBundle lib (kr_Client r) cluster1) u = (y, v)" "y = Inr z"
    then have "keyOf (tc_meta (fst z)) = keyOf (tc_meta cluster1)" using ensureSecretsBundle_meta by (cases z) fastforce
    then show "leaves I (case z of (cluster2, bndl) \<Rightarrow> convergeCluster lib al r cluster2 bndl)"
      using convergeCluster_leaves [OF p b _ a] s1 by (cases z) simp
  qed (rule leaves_return)
qed (rule leaves_return)

lemma ClusterReconcile_leaves:
  assumes p: "probe_calls_leave I lib r" and b: "build_calls_leave I lib r" and d: "drop_calls_leave I r"
    and s: "secret_writes_leave I lib al (kr_Client r) req"
    and a: "\<And>ns ty pool. pool_applies_leave I lib r ns ty pool" and k: "keeps_identity (cl_TalosCluster (kr_Client r)) tc_meta"
  shows "leaves I (ClusterReconcile lib al r req)"
  unfolding ClusterReconcile_def
proof (rule leaves_bind_run, goal_cases)
  case 1
  have "leaves I (kget (cl_TalosCluster (kr_Client r)) req)" using p unfolding probe_calls_leave_def by blast
  then show ?case unfolding fetchCluster_def by (auto intro!: leaves_rules)
next
  case (2 u g v)
  show ?case
  proof (rule leaves_sum)
    fix cluster assume "g = Inr cluster"
    with 2 have "keyOf (tc_meta cluster) = req" using fetchCluster_key [OF k] by blast
    then have s: "secret_writes_leave I lib al (kr_Client r) (keyOf (tc_meta cluster))" using s by simp
    have l: "locker_calls_leave I (tl_world lib) (kr_Locker r)" using p unfolding probe_calls_leave_def by blast
    show "leaves I (do {
          a \<leftarrow> clusterAcquireZoneLease lib r cluster;
          (case a of
             Inl out \<Rightarrow> return (Some out)
           | Inr _ \<Rightarrow> if \<not> deletionIsZero (tc_meta cluster) then clusterTeardown lib r cluster else prepareCluster lib al r cluster)
        })"
      unfolding clusterAcquireZoneLease_def
      by (auto intro!: leaves_rules TryAcquire_leaves [OF l] Jitter_leaves [OF l] clusterTeardown_leaves [OF p d] prepareCluster_leaves [OF p b s a k])
  qed (rule leaves_return)
qed

section \<open>The secrets bundle\<close>

definition bundleAt :: "(ObjectKey \<rightharpoonup> Secret) \<Rightarrow> ObjectKey \<Rightarrow> string option" where
  "bundleAt v k = (case v k of None \<Rightarrow> None | Some x \<Rightarrow> secretBody x secretsBundleKey)"

text \<open>
  What the bundles rely on: the Secrets follow the server's concurrency rules, every other
  call leaves them alone, objects keep their keys and an owner reference does not rename
  an object.
\<close>

definition keeps_key :: "apimachinery \<Rightarrow> bool" where
  "keeps_key am \<longleftrightarrow> (\<forall>own m m'. am_setControllerReference am own m = Inr m' \<longrightarrow> keyOf m' = keyOf m)"

definition bundle_store :: "'s taloslib \<Rightarrow> addonlib \<Rightarrow> 's ClusterReconciler \<Rightarrow> ('s \<Rightarrow> ObjectKey \<rightharpoonup> Secret) \<Rightarrow> bool" where
  "bundle_store lib al r sv \<longleftrightarrow> cas_store (cl_Secret (kr_Client r)) sec_meta secretBody sv \<and>
     keeps_identity (cl_Secret (kr_Client r)) sec_meta \<and> keeps_identity (cl_TalosCluster (kr_Client r)) tc_meta \<and>
     (\<forall>P. probe_calls_leave (\<lambda>s. P (sv s)) lib r \<and> build_calls_leave (\<lambda>s. P (sv s)) lib r \<and> drop_calls_leave (\<lambda>s. P (sv s)) r) \<and>
     (\<forall>a b. quiet sv (cb_ApplyConfiguration (kr_Bootstrapper r) a b)) \<and> keeps_key (tl_am lib) \<and> keeps_key (al_am al)"

lemma bundle_storeD:
  assumes "bundle_store lib al r sv"
  shows "cas_store (cl_Secret (kr_Client r)) sec_meta secretBody sv" and "keeps_identity (cl_Secret (kr_Client r)) sec_meta"
    and "keeps_identity (cl_TalosCluster (kr_Client r)) tc_meta" and "probe_calls_leave (\<lambda>s. P (sv s)) lib r"
    and "build_calls_leave (\<lambda>s. P (sv s)) lib r" and "drop_calls_leave (\<lambda>s. P (sv s)) r"
    and "quiet sv (cb_ApplyConfiguration (kr_Bootstrapper r) a b)" and "keeps_key (tl_am lib)" and "keeps_key (al_am al)"
  using assms unfolding bundle_store_def by blast+

lemma create_keeps_present:
  assumes cas: "cas_store c meta body view" and k: "view s k \<noteq> None"
  shows "view (state_after (kcreate c x) s) k \<noteq> None"
  using cas_store_create_cases [OF cas, of x s] k by (auto simp: create_takes_def split: sum.splits)

lemma update_keeps_bundle:
  assumes cas: "cas_store c sec_meta secretBody sv" and b: "bundleAt (sv s) k = Some d"
    and x: "k = keyOf (sec_meta x) \<Longrightarrow> secretBody x secretsBundleKey = Some d"
  shows "bundleAt (sv (state_after (kupdate c x) s)) k = Some d"
  using cas_store_update_cases [OF cas, of x s] b x unfolding bundleAt_def
  by (auto simp: update_takes_def stored_as_def split: sum.splits option.splits if_splits)

lemma create_keeps_bundle:
  assumes cas: "cas_store c sec_meta secretBody sv" and b: "bundleAt (sv s) k = Some d"
  shows "bundleAt (sv (state_after (kcreate c x) s)) k = Some d"
  using cas_store_create_cases [OF cas, of x s] b unfolding bundleAt_def
  by (auto simp: create_takes_def split: sum.splits option.splits if_splits)

lemma bundle_key: "secretsBundleKey \<noteq> kubeconfigKey"
  by (simp add: kubeconfigKey_def secretsBundleKey_def)

lemma storeKubeconfig_keeps_bundle:
  assumes cas: "cas_store (cl_Secret c) sec_meta secretBody sv" and id: "keeps_identity (cl_Secret c) sec_meta"
  shows "leaves (\<lambda>s. bundleAt (sv s) k = Some d) (storeKubeconfig c cluster x)"
proof (rule leavesI)
  fix s assume b: "bundleAt (sv s) k = Some d"
  let ?ref = "tcst_SecretRef (tc_Status cluster)"
  obtain g t where g: "run_state (kget (cl_Secret c) (sr_Namespace ?ref, sr_Name ?ref)) s = (g, t)" by fastforce
  have t: "sv t = sv s" using cas_store_get(1) [OF cas, of "(sr_Namespace ?ref, sr_Name ?ref)" s] g by simp
  show "bundleAt (sv (state_after (storeKubeconfig c cluster x) s)) k = Some d"
  proof (cases g)
    case (Inl err)
    then show ?thesis using b g t by (simp add: storeKubeconfig_def Let_def)
  next
    case (Inr sec)
    let ?y = "sec\<lparr>sec_Data := (sec_Data sec)(kubeconfigKey \<mapsto> x)\<rparr>"
    have "sv s (keyOf (sec_meta sec)) = Some sec"
      using cas_store_get(2) [OF cas, of "(sr_Namespace ?ref, sr_Name ?ref)" s sec] keeps_identityD(1) [OF id, of _ s sec t] g Inr by simp
    then have "k = keyOf (sec_meta ?y) \<Longrightarrow> secretBody ?y secretsBundleKey = Some d"
      using b by (simp add: bundleAt_def secretBody_def map_add_def bundle_key split: option.splits)
    then have "bundleAt (sv (state_after (kupdate (cl_Secret c) ?y) t)) k = Some d"
      using update_keeps_bundle [OF cas, of t k d ?y] b t by simp
    then show ?thesis using g Inr by (auto simp: storeKubeconfig_def Let_def split: sum.splits prod.splits)
  qed
qed

lemma createBundleSecret_keeps_bundle:
  assumes "cas_store (cl_Secret c) sec_meta secretBody sv" and "\<And>x. quiet sv (kcreate (cl_Namespace c) x)"
  shows "leaves (\<lambda>s. bundleAt (sv s) k = Some d) (createBundleSecret lib c cluster b)"
proof -
  have "leaves (\<lambda>s. bundleAt (sv s) k = Some d) (kcreate (cl_Secret c) x)" for x
    by (intro leavesI) (rule create_keeps_bundle [OF assms(1)])
  then show ?thesis using quiet_leaves [OF assms(2), of "\<lambda>v. bundleAt v k = Some d"]
    unfolding createBundleSecret_def clusterEnsureNamespace_def Let_def by (auto intro!: leaves_rules)
qed

lemma credential_keeps_bundle:
  assumes cas: "cas_store (cl_Secret c) sec_meta secretBody sv" and id: "keeps_identity (cl_Secret c) sec_meta"
    and am: "keeps_key (al_am al)" and k: "k \<noteq> (clusterNamespace cluster, name)"
  shows "leaves (\<lambda>s. bundleAt (sv s) k = Some d) (ensureExternalDNSCredentialSecret al c cluster name keys)"
proof -
  let ?mut = "\<lambda>secret. owned (al_am al) cluster sec_meta (\<lambda>m x. x\<lparr>sec_meta := m\<rparr>) (credentialSecret keys secret)"
  have key: "keyOf (sec_meta y) = keyOf (sec_meta x)" if "?mut x = Inr y" for x y
    using that am by (auto simp: owned_def credentialSecret_def keeps_key_def split: sum.splits)
  have "leaves (\<lambda>s. bundleAt (sv s) k = Some d) (CreateOrUpdate (cl_Secret c) sec_meta (secretObj (clusterNamespace cluster) name) ?mut)"
    unfolding CreateOrUpdate_def
  proof (rule leaves_bind_run, goal_cases)
    case 1
    then show ?case by (rule leavesI) (simp add: cas_store_get(1) [OF cas])
  next
    case (2 s g t)
    have "keyOf (sec_meta y) \<noteq> k" if "g = Inr x" "?mut x = Inr y" for x y
      using 2 that key [OF that(2)] keeps_identityD(1) [OF id] k by (fastforce simp: secretObj_def)
    then have "leaves (\<lambda>s. bundleAt (sv s) k = Some d) (kupdate (cl_Secret c) y)" if "g = Inr x" "?mut x = Inr y" for x y
      using that by (intro leavesI) (auto intro!: update_keeps_bundle [OF cas])
    moreover have "leaves (\<lambda>s. bundleAt (sv s) k = Some d) (kcreate (cl_Secret c) y)" for y
      by (intro leavesI) (rule create_keeps_bundle [OF cas])
    ultimately show ?case by (auto intro!: leaves_rules)
  qed
  then show ?thesis unfolding ensureExternalDNSCredentialSecret_def by (intro leaves_rules)
qed

text \<open>
  C9: A cluster keeps its identity.  Whatever a pass does and wherever it stops, the secrets
  bundle of every cluster that is stored when it starts, the keys and tokens its nodes
  trust, is still stored unchanged when it ends.  The only Secret a pass may overwrite is
  the credential of the external DNS addon.
\<close>

theorem bundle_never_replaced:
  assumes st: "bundle_store lib al r sv" and b: "bundleAt (sv s) k = Some d"
    and k: "k \<noteq> (fst req, ExternalDNSCredentialSecretName (snd req))"
  shows "bundleAt (sv (state_after (ClusterReconcile lib al r req) s)) k = Some d"
proof -
  let ?I = "\<lambda>s. bundleAt (sv s) k = Some d"
  have "leaves (\<lambda>s. sv s = v) (kcreate (cl_Namespace (kr_Client r)) x)" for v x
    using bundle_storeD(5) [OF st, of "\<lambda>z. z = v"] unfolding build_calls_leave_def by blast
  then have ns: "quiet sv (kcreate (cl_Namespace (kr_Client r)) x)" for x by (simp add: quiet_iff)
  have "leaves ?I (ensureExternalDNSCredentialSecret al (kr_Client r) cluster (ExternalDNSCredentialSecretName (snd req)) keys)"
    if "keyOf (tc_meta cluster) = req" for cluster keys
    by (rule credential_keeps_bundle [OF bundle_storeD(1,2,9) [OF st]]) (use k that in \<open>auto simp: keyOf_def\<close>)
  then have "secret_writes_leave ?I lib al (kr_Client r) req"
    using storeKubeconfig_keeps_bundle [OF bundle_storeD(1,2) [OF st]] createBundleSecret_keeps_bundle [OF bundle_storeD(1) [OF st] ns]
    unfolding secret_writes_leave_def by blast
  moreover have "pool_applies_leave ?I lib r ns ty pool" for ns ty pool
    using quiet_leaves [OF bundle_storeD(7) [OF st], of "\<lambda>v. bundleAt v k = Some d"]
    unfolding pool_applies_leave_def apply_calls_leave_def by blast
  ultimately have "leaves ?I (ClusterReconcile lib al r req)"
    by (intro ClusterReconcile_leaves bundle_storeD(3) [OF st] bundle_storeD(4-6) [OF st, of "\<lambda>v. bundleAt v k = Some d"])
  then show ?thesis using b by (rule leavesD)
qed

text \<open>
  A cluster with one discovered control plane member in front of a store of Secrets; every
  other call answers from constants.  The cluster is already known to be healthy, with all
  addons installed, as \<open>ready\<close> says.
\<close>

definition site_cluster :: "bool \<Rightarrow> TalosCluster" where
  "site_cluster ready = fleet_cluster\<lparr>tc_meta := (objectMeta ''kontinuum-system'' ''eu-a'')\<lparr>om_Finalizers := [TalosClusterFinalizer]\<rparr>,
     tc_Status := \<lparr>tcst_Conditions = (if ready then [cond ControlPlaneReadyConditionType ConditionTrue '''' '''', cond ClusterReadyType ConditionTrue '''' ''''] else []),
       tcst_SecretRef = secretRefFor ''eu-a''\<rparr>\<rparr>"

definition site_key :: ObjectKey where "site_key = (''kontinuum-system'', ''eu-a'')"

definition site_member :: Instance where
  "site_member = withConditions [cond DiscoveredConditionType ConditionTrue '''' ''''] fleet_instance"

definition site_client :: "('s, Secret) kclient \<Rightarrow> TalosCluster \<Rightarrow> 's client" where
  "site_client secrets cluster = down_client\<lparr>cl_Secret := secrets,
     cl_Namespace := down_kclient\<lparr>kcreate := (\<lambda>x. return (Inr x))\<rparr>,
     cl_Lease := down_kclient\<lparr>kget := (\<lambda>_. return (Inl (ApiError NotFound))), kcreate := (\<lambda>x. return (Inr x))\<rparr>,
     cl_Instance := down_kclient\<lparr>klist := (\<lambda>_ p. return (Inr (filter (\<lambda>x. p (om_Labels (inst_meta x))) [site_member]))), kupdateStatus := (\<lambda>x. return (Inr x))\<rparr>,
     cl_TalosCluster := down_kclient\<lparr>kget := (\<lambda>k. return (if k = site_key then Inr cluster else Inl (ApiError NotFound))),
       kupdate := (\<lambda>x. return (Inr x)), kupdateStatus := (\<lambda>x. return (Inr x))\<rparr>,
     cl_Addon := down_kclient\<lparr>kget := (\<lambda>_. return (Inl (ApiError NotFound))), kcreate := (\<lambda>x. return (Inr x)), klist := (\<lambda>_ _. return (Inr []))\<rparr>\<rparr>"

lemma site_key_cluster [simp]: "keyOf (tc_meta (site_cluster b)) = site_key"
  by (simp add: site_cluster_def site_key_def keyOf_def objectMeta_def)

lemma std_keeps_key: "keeps_key (std_apimachinery sel)"
  by (auto simp: keeps_key_def std_apimachinery_def keyOf_def)

lemma fleet_calls_leave:
  assumes "\<And>k. leaves I (kget secrets k)" and "kr_Client r = site_client secrets cluster" and "kr_Bootstrapper r = fleet_bootstrapper"
    and "kr_Locker r = kr_Locker (fleet_reconciler (site_client secrets cluster))"
  shows "probe_calls_leave I (demo_taloslib now) r" and "build_calls_leave I (demo_taloslib now) r" and "drop_calls_leave I r"
  using assms(1) unfolding calls_leave_defs locker_calls_leave_def assms(2-4)
  by (auto simp: site_client_def fleet_reconciler_def fleet_bootstrapper_def down_client_def down_kclient_def demo_taloslib_def still_world_def
      intro: leaves_return)

definition secrets_client :: "(Secret memstore, Secret) kclient" where
  "secrets_client = mem_client (\<lambda>m x. x\<lparr>sec_meta := m\<rparr>) sec_meta"

abbreviation site_reconciler :: "bool \<Rightarrow> Secret memstore ClusterReconciler" where
  "site_reconciler ready \<equiv> fleet_reconciler (site_client secrets_client (site_cluster ready))"

lemma secrets_store: "cas_store secrets_client sec_meta secretBody (mem_view sec_meta)"
  unfolding secrets_client_def by (rule mem_client_cas_store) (simp_all add: secretBody_def)

lemma secrets_gets_quiet: "leaves (\<lambda>s. P (mem_view sec_meta s)) (kget secrets_client k)"
  by (rule leavesI) (simp add: secrets_client_def mem_client_def)

lemma secrets_identity: "keeps_identity secrets_client sec_meta"
  by (auto simp: keeps_identity_def secrets_client_def mem_client_def mem_view_def mem_write_def Let_def split: option.splits if_splits)

lemma site_identity: "keeps_identity (cl_TalosCluster (site_client secrets (site_cluster b))) tc_meta"
  by (auto simp: keeps_identity_def site_client_def down_kclient_def)

lemma site_bundle_store: "bundle_store (demo_taloslib now) demo_addonlib (site_reconciler b) (mem_view sec_meta)"
  unfolding bundle_store_def
proof (intro conjI allI)
  show "cas_store (cl_Secret (kr_Client (site_reconciler b))) sec_meta secretBody (mem_view sec_meta)"
    "keeps_identity (cl_Secret (kr_Client (site_reconciler b))) sec_meta"
    "keeps_identity (cl_TalosCluster (kr_Client (site_reconciler b))) tc_meta"
    using secrets_store secrets_identity site_identity by (simp_all add: fleet_reconciler_def site_client_def)
  show "keeps_key (tl_am (demo_taloslib now :: Secret memstore taloslib))" "keeps_key (al_am demo_addonlib)"
    using std_keeps_key by (simp_all add: demo_taloslib_def demo_addonlib_def)
  show "quiet (mem_view sec_meta) (cb_ApplyConfiguration (kr_Bootstrapper (site_reconciler b)) x y)" for x y
    by (simp add: quiet_def fleet_reconciler_def fleet_bootstrapper_def)
  fix P :: "(ObjectKey \<rightharpoonup> Secret) \<Rightarrow> bool"
  have r: "kr_Client (site_reconciler b) = site_client secrets_client (site_cluster b)" "kr_Bootstrapper (site_reconciler b) = fleet_bootstrapper"
    "kr_Locker (site_reconciler b) = kr_Locker (fleet_reconciler (site_client secrets_client (site_cluster b)))"
    by (simp_all add: fleet_reconciler_def)
  show "probe_calls_leave (\<lambda>s. P (mem_view sec_meta s)) (demo_taloslib now) (site_reconciler b)"
    "build_calls_leave (\<lambda>s. P (mem_view sec_meta s)) (demo_taloslib now) (site_reconciler b)"
    "drop_calls_leave (\<lambda>s. P (mem_view sec_meta s)) (site_reconciler b)"
    using fleet_calls_leave [OF secrets_gets_quiet [of P] r] by blast+
qed

definition bundle_world :: "Secret memstore" where
  "bundle_world = snd (mem_write (\<lambda>m x. x\<lparr>sec_meta := m\<rparr>) sec_meta (bundleSecret (secretRefFor ''eu-a'') ''ca'') empty_store)"

lemma bundle_world_view: "mem_view sec_meta bundle_world =
  [(''kontinuum-system'', ''taloscluster-eu-a'') \<mapsto> (bundleSecret (secretRefFor ''eu-a'') ''ca'')\<lparr>sec_meta := stamp 1 (objectMeta ''kontinuum-system'' ''taloscluster-eu-a'')\<rparr>]"
  by (simp add: bundle_world_def mem_write_view bundleSecret_def secretRefFor_def clusterSecretNamePrefix_def KontinuumSystemNamespace_def)
    (simp add: empty_store_def)

theorem bundle_never_replaced_witness:
  "bundleAt (mem_view sec_meta (state_after (ClusterReconcile (demo_taloslib 0) demo_addonlib (site_reconciler False) site_key) bundle_world))
     (''kontinuum-system'', ''taloscluster-eu-a'') = Some ''ca''"
proof (rule bundle_never_replaced [OF site_bundle_store])
  show "bundleAt (mem_view sec_meta bundle_world) (''kontinuum-system'', ''taloscluster-eu-a'') = Some ''ca''"
    by (simp add: bundleAt_def bundle_world_view secretBody_def bundleSecret_def)
  show "(''kontinuum-system'', ''taloscluster-eu-a'') \<noteq> (fst site_key, ExternalDNSCredentialSecretName (snd site_key))"
    by (simp add: ExternalDNSCredentialSecretName_def site_key_def)
qed

section \<open>A cluster that is ready\<close>

lemma recheck_requeues:
  assumes "run_state (recheckControlPlaneHealth lib r cluster bndl) s = (Some (res, None), t)"
  shows "requeueAfter res \<in> {kr_RetryInterval r, kr_HealthCheckInterval r}"
proof -
  obtain m u where m: "run_state (resolveMembers lib (kr_Client r) (clusterNamespace cluster) (controlPlanePool cluster)) s = (m, u)" by fastforce
  show ?thesis
  proof (cases m)
    case (Inl err)
    with assms m show ?thesis by (simp add: recheckControlPlaneHealth_def)
  next
    case (Inr ms)
    then show ?thesis
    proof (cases ms)
      case Nil
      with Inr assms m show ?thesis by (auto simp: recheckControlPlaneHealth_def)
    next
      case (Cons first others)
      obtain addr where addr: "dialAddress lib first = Some addr"
        using assms m Inr Cons by (cases "dialAddress lib first") (simp_all add: recheckControlPlaneHealth_def)
      obtain input cfg where cfg: "generateConfigs lib bndl cluster addr = Inr (input, cfg)"
        using assms m Inr Cons addr by (cases "generateConfigs lib bndl cluster addr") (auto simp: recheckControlPlaneHealth_def)
      show ?thesis using assms m Inr Cons addr cfg
        by (auto simp: recheckControlPlaneHealth_def whenOk_def split: option.splits prod.splits if_splits)
    qed
  qed
qed

text \<open>\<open>Reconcile\<close> on a cluster that is not being deleted, has its finalizer and its secrets and is ready.\<close>

definition readyCluster :: "'s taloslib \<Rightarrow> TalosCluster \<Rightarrow> bool" where
  "readyCluster lib cluster \<longleftrightarrow> deletionIsZero (tc_meta cluster) \<and>
     \<not> fst (am_addFinalizer (tl_am lib) (om_Finalizers (tc_meta cluster)) TalosClusterFinalizer) \<and>
     sr_Name (tcst_SecretRef (tc_Status cluster)) \<noteq> '''' \<and>
     clusterIs lib ControlPlaneReadyConditionType cluster \<and> clusterIs lib ClusterReadyType cluster"

lemma state_eqI: "(\<And>s. run_state m s = run_state n s) \<Longrightarrow> m = n"
  by (cases m; cases n) (auto simp: fun_eq_iff)

lemma prepare_ready:
  assumes "readyCluster lib cluster"
  shows "prepareCluster lib al r cluster = do {
     b \<leftarrow> loadSecretsBundle lib (kr_Client r) (tcst_SecretRef (tc_Status cluster));
     (case b of
        Inl err \<Rightarrow> return (Some (noRequeue, Some (Errorf ''failed to ensure secrets bundle for %q: %w'' [clusterName cluster] [err])))
      | Inr bndl \<Rightarrow> do {
          e \<leftarrow> reconcileWorkers lib r cluster bndl;
          whenOk e (\<lambda>e. case e of Some err \<Rightarrow> return (Some (noRequeue, Some err)) | None \<Rightarrow> recheckControlPlaneHealth lib r cluster bndl)
        })
   }"
proof (rule state_eqI)
  fix s
  have f: "addClusterFinalizer lib r cluster = return (Inr cluster)"
    using assms by (auto simp: readyCluster_def addClusterFinalizer_def split: prod.splits)
  have c: "convergeCluster lib al r cluster bndl = do {
       e \<leftarrow> reconcileWorkers lib r cluster bndl;
       whenOk e (\<lambda>e. case e of Some err \<Rightarrow> return (Some (noRequeue, Some err)) | None \<Rightarrow> recheckControlPlaneHealth lib r cluster bndl)
     }" for bndl using assms by (simp add: readyCluster_def convergeCluster_def)
  obtain b t where b: "run_state (loadSecretsBundle lib (kr_Client r) (tcst_SecretRef (tc_Status cluster))) s = (b, t)" by fastforce
  have e: "run_state (ensureSecretsBundle lib (kr_Client r) cluster) s = (map_sum id (Pair cluster) b, t)"
    using assms b by (cases b) (simp_all add: readyCluster_def ensureSecretsBundle_def)
  show "run_state (prepareCluster lib al r cluster) s = run_state (do {
     b \<leftarrow> loadSecretsBundle lib (kr_Client r) (tcst_SecretRef (tc_Status cluster));
     (case b of
        Inl err \<Rightarrow> return (Some (noRequeue, Some (Errorf ''failed to ensure secrets bundle for %q: %w'' [clusterName cluster] [err])))
      | Inr bndl \<Rightarrow> do {
          e \<leftarrow> reconcileWorkers lib r cluster bndl;
          whenOk e (\<lambda>e. case e of Some err \<Rightarrow> return (Some (noRequeue, Some err)) | None \<Rightarrow> recheckControlPlaneHealth lib r cluster bndl)
        })
   }) s"
    unfolding prepareCluster_def f by (cases b) (simp_all add: b e c)
qed

text \<open>
  C35: Ready is final.  A pass over a cluster that is ready makes no calls other than the
  lease, reads, status writes of members, probes and the configuration of workers: whatever
  these keep the pass keeps, the stored TalosCluster and every Addon included.  It ends with
  an error, or it asks to be called again after the retry or the health check interval
  unless the zone lease was refused.  So a ready cluster stays ready while its addons fail.
\<close>

theorem ready_cluster_only_probes:
  assumes p: "probe_calls_leave I lib r" and a: "\<And>a b. leaves I (cb_ApplyConfiguration (kr_Bootstrapper r) a b)"
    and got: "run_state (kget (cl_TalosCluster (kr_Client r)) req) s = (Inr cluster, s1)" and ready: "readyCluster lib cluster" and I: "I s"
  shows "I (state_after (ClusterReconcile lib al r req) s) \<and>
    (\<forall>res. result_of (ClusterReconcile lib al r req) s = Some (res, None) \<longrightarrow>
       requeueAfter res \<in> {kr_RetryInterval r, kr_HealthCheckInterval r} \<or>
       (\<exists>u. result_of (clusterAcquireZoneLease lib r cluster) u = Inl (res, None)))"
proof
  have g: "leaves I (kget (cl_TalosCluster (kr_Client r)) k)" "leaves I (kget (cl_Secret (kr_Client r)) k)" for k
    using p unfolding probe_calls_leave_def by blast+
  have l: "locker_calls_leave I (tl_world lib) (kr_Locker r)" using p unfolding probe_calls_leave_def by blast
  have pa: "pool_applies_leave I lib r n ty pool" for n ty pool using a by (simp add: pool_applies_leave_def apply_calls_leave_def)
  have lb: "leaves I (loadSecretsBundle lib (kr_Client r) ref)" for ref unfolding loadSecretsBundle_def by (auto intro!: leaves_rules g)
  have z: "leaves I (clusterAcquireZoneLease lib r cluster)"
    unfolding clusterAcquireZoneLease_def by (auto intro!: leaves_rules TryAcquire_leaves [OF l] Jitter_leaves [OF l])
  have f: "run_state (fetchCluster r req) s = (Inr cluster, s1)" using got by (simp add: fetchCluster_def)
  have "leaves I (prepareCluster lib al r cluster)" unfolding prepare_ready [OF ready]
    by (auto intro!: leaves_rules lb reconcileWorkers_leaves [OF p pa] recheck_leaves [OF p])
  then have "leaves I (do {
       a \<leftarrow> clusterAcquireZoneLease lib r cluster;
       (case a of Inl out \<Rightarrow> return (Some out) | Inr _ \<Rightarrow> prepareCluster lib al r cluster)
     })" by (auto intro!: leaves_rules z)
  moreover have "I s1" using leaves_run [OF g(1) I got] .
  moreover have d: "deletionIsZero (tc_meta cluster)" using ready unfolding readyCluster_def by blast
  moreover have "state_after (ClusterReconcile lib al r req) s = state_after (do {
       a \<leftarrow> clusterAcquireZoneLease lib r cluster;
       (case a of Inl out \<Rightarrow> return (Some out) | Inr _ \<Rightarrow> prepareCluster lib al r cluster)
     }) s1" using f d by (simp add: ClusterReconcile_def)
  ultimately show "I (state_after (ClusterReconcile lib al r req) s)" by (simp only: leavesD [of I])
  show "\<forall>res. result_of (ClusterReconcile lib al r req) s = Some (res, None) \<longrightarrow>
       requeueAfter res \<in> {kr_RetryInterval r, kr_HealthCheckInterval r} \<or>
       (\<exists>u. result_of (clusterAcquireZoneLease lib r cluster) u = Inl (res, None))"
  proof (intro allI impI)
    fix res assume r: "result_of (ClusterReconcile lib al r req) s = Some (res, None)"
    obtain q s2 where q: "run_state (clusterAcquireZoneLease lib r cluster) s1 = (q, s2)" by fastforce
    show "requeueAfter res \<in> {kr_RetryInterval r, kr_HealthCheckInterval r} \<or> (\<exists>u. result_of (clusterAcquireZoneLease lib r cluster) u = Inl (res, None))"
    proof (cases q)
      case (Inl out)
      then have "out = (res, None)" using r q f by (simp add: ClusterReconcile_def)
      then show ?thesis using q Inl by (metis fst_conv)
    next
      case (Inr v)
      then have "result_of (prepareCluster lib al r cluster) s2 = Some (res, None)" using r q f d by (simp add: ClusterReconcile_def)
      then obtain bndl u where "result_of (recheckControlPlaneHealth lib r cluster bndl) u = Some (res, None)"
        unfolding prepare_ready [OF ready] by (auto simp: whenOk_def split: prod.splits sum.splits option.splits)
      then show ?thesis using recheck_requeues by (metis prod.collapse)
    qed
  qed
qed

text \<open>A world that counts the writes to the TalosCluster and every call on Addons.\<close>

definition tick :: "'a \<Rightarrow> (nat, 'a) state" where "tick a = State (\<lambda>n. (a, Suc n))"

definition ready_client :: "nat client" where
  "ready_client = (site_client (down_kclient\<lparr>kget := (\<lambda>_. return (Inr (bundleSecret (secretRefFor ''eu-a'') ''ca'')))\<rparr>) (site_cluster True))
     \<lparr>cl_Addon := \<lparr>kget = (\<lambda>_. tick (Inl unavailable)), klist = (\<lambda>_ _. tick (Inr [])), kcreate = (\<lambda>x. tick (Inr x)),
        kupdate = (\<lambda>x. tick (Inr x)), kupdateStatus = (\<lambda>x. tick (Inr x)), kdelete = (\<lambda>_. tick None)\<rparr>,
      cl_TalosCluster := down_kclient\<lparr>kget := (\<lambda>k. return (if k = site_key then Inr (site_cluster True) else Inl (ApiError NotFound))),
        kupdate := (\<lambda>x. tick (Inr x)), kupdateStatus := (\<lambda>x. tick (Inr x))\<rparr>\<rparr>"

lemma site_ready: "readyCluster (demo_taloslib now) (site_cluster True)"
  by (simp add: readyCluster_def site_cluster_def objectMeta_def deletionIsZero_def demo_taloslib_def std_apimachinery_def
      secretRefFor_def clusterSecretNamePrefix_def ControlPlaneReadyConditionType_def ClusterReadyType_def)

theorem ready_cluster_only_probes_witness:
  "state_after (ClusterReconcile (demo_taloslib 0) demo_addonlib (fleet_reconciler ready_client) site_key) 0 = 0 \<and>
   state_after (ListForCluster ready_client ''kontinuum-system'' ''eu-a'') 0 = 1"
proof
  let ?r = "fleet_reconciler ready_client"
  have p: "probe_calls_leave (\<lambda>n. n = 0) (demo_taloslib 0) ?r"
    by (auto simp: probe_calls_leave_def locker_calls_leave_def ready_client_def site_client_def fleet_reconciler_def fleet_bootstrapper_def
        down_client_def down_kclient_def demo_taloslib_def still_world_def intro: leaves_return)
  have a: "leaves (\<lambda>n. n = 0) (cb_ApplyConfiguration (kr_Bootstrapper ?r) x b)" for x b
    by (simp add: fleet_reconciler_def fleet_bootstrapper_def leaves_return)
  have g: "run_state (kget (cl_TalosCluster (kr_Client ?r)) site_key) 0 = (Inr (site_cluster True), 0)"
    by (simp add: fleet_reconciler_def ready_client_def)
  show "state_after (ClusterReconcile (demo_taloslib 0) demo_addonlib ?r site_key) 0 = 0"
    using ready_cluster_only_probes [OF p a g site_ready refl] by blast
  show "state_after (ListForCluster ready_client ''kontinuum-system'' ''eu-a'') 0 = 1"
    by (simp add: ListForCluster_def ready_client_def tick_def)
qed

section \<open>A reference that was lost\<close>

text \<open>
  The stored cluster has no \<open>status.secretRef\<close>, but the Secret its bundle goes to exists:
  what is left when a pass creates the Secret and ends before the status is written.
\<close>

definition refLost :: "'s taloslib \<Rightarrow> ('s \<Rightarrow> ObjectKey \<rightharpoonup> TalosCluster) \<Rightarrow> ('s \<Rightarrow> ObjectKey \<rightharpoonup> Secret) \<Rightarrow> ObjectKey \<Rightarrow> 's \<Rightarrow> bool" where
  "refLost lib tv sv key s \<longleftrightarrow> (\<exists>cluster. tv s key = Some cluster \<and> keyOf (tc_meta cluster) = key \<and> deletionIsZero (tc_meta cluster) \<and>
     \<not> fst (am_addFinalizer (tl_am lib) (om_Finalizers (tc_meta cluster)) TalosClusterFinalizer) \<and>
     sr_Name (tcst_SecretRef (tc_Status cluster)) = '''' \<and>
     sv s (KontinuumSystemNamespace, sr_Name (secretRefFor (snd key))) \<noteq> None)"

text \<open>What the pass relies on: the two stores follow the server's rules and the other calls leave both alone.\<close>

definition bundle_calls_leave :: "('s \<Rightarrow> bool) \<Rightarrow> 's taloslib \<Rightarrow> 's ClusterReconciler \<Rightarrow> bool" where
  "bundle_calls_leave I lib r \<longleftrightarrow> locker_calls_leave I (tl_world lib) (kr_Locker r) \<and> (\<forall>v. leaves I (tl_NewBundle lib v)) \<and>
     (\<forall>x. leaves I (kcreate (cl_Namespace (kr_Client r)) x)) \<and> (\<forall>k. leaves I (kget (cl_TalosCluster (kr_Client r)) k))"

lemma createBundleSecret_taken:
  assumes cas: "cas_store (cl_Secret c) sec_meta secretBody sv" and am: "keeps_key (tl_am lib)"
    and ns: "\<And>x v. leaves (\<lambda>s. sv s = v) (kcreate (cl_Namespace c) x)"
    and taken: "sv s (KontinuumSystemNamespace, sr_Name (secretRefFor (clusterName cluster))) \<noteq> None"
  shows "\<exists>err t. run_state (createBundleSecret lib c cluster b) s = (Inl err, t)"
proof (cases "tl_Marshal lib b")
  case (Inl err)
  then show ?thesis by (simp add: createBundleSecret_def)
next
  case (Inr data)
  let ?ref = "secretRefFor (clusterName cluster)"
  obtain n u where n: "run_state (clusterEnsureNamespace c (sr_Namespace ?ref)) s = (n, u)" by fastforce
  have l: "leaves (\<lambda>z. sv z = sv s) (clusterEnsureNamespace c (sr_Namespace ?ref))"
    unfolding clusterEnsureNamespace_def by (auto intro!: leaves_rules ns)
  have u: "sv u = sv s" by (rule leaves_run [where I = "\<lambda>z. sv z = sv s", OF l refl n])
  show ?thesis
  proof (cases "n \<noteq> None \<or> (\<exists>err. am_setControllerReference (tl_am lib) (tc_meta cluster) (sec_meta (bundleSecret ?ref data)) = Inl err)")
    case True
    then show ?thesis using Inr n by (cases n) (auto simp: createBundleSecret_def Let_def)
  next
    case False
    then obtain m where m: "am_setControllerReference (tl_am lib) (tc_meta cluster) (sec_meta (bundleSecret ?ref data)) = Inr m" "n = None"
      by (cases "am_setControllerReference (tl_am lib) (tc_meta cluster) (sec_meta (bundleSecret ?ref data))") auto
    let ?x = "(bundleSecret ?ref data)\<lparr>sec_meta := m\<rparr>"
    have "keyOf m = (KontinuumSystemNamespace, sr_Name ?ref)"
      using am m unfolding keeps_key_def by (auto simp: bundleSecret_def secretRefFor_def)
    then have "sv u (keyOf (sec_meta ?x)) \<noteq> None" using taken u by simp
    then obtain err v where "run_state (kcreate (cl_Secret c) ?x) u = (Inl err, v)"
      using cas_store_create(1) [OF cas, of ?x u] by (cases "run_state (kcreate (cl_Secret c) ?x) u"; cases "fst (run_state (kcreate (cl_Secret c) ?x) u)") auto
    then show ?thesis using Inr n m by (simp add: createBundleSecret_def Let_def)
  qed
qed

definition cluster_stores :: "'s taloslib \<Rightarrow> 's ClusterReconciler \<Rightarrow> ('s \<Rightarrow> ObjectKey \<rightharpoonup> TalosCluster) \<Rightarrow> ('s \<Rightarrow> ObjectKey \<rightharpoonup> Secret) \<Rightarrow> bool" where
  "cluster_stores lib r tv sv \<longleftrightarrow> cas_store (cl_Secret (kr_Client r)) sec_meta secretBody sv \<and> keeps_key (tl_am lib) \<and>
     (\<forall>P. bundle_calls_leave (\<lambda>s. P (tv s) (sv s)) lib r) \<and> (\<forall>x. quiet tv (kcreate (cl_Secret (kr_Client r)) x)) \<and>
     (\<forall>k s x. result_of (kget (cl_TalosCluster (kr_Client r)) k) s = Inr x \<longrightarrow> tv s k = Some x) \<and>
     (\<forall>k s e. result_of (kget (cl_TalosCluster (kr_Client r)) k) s = Inl e \<and> isNotFound e \<longrightarrow> tv s k = None)"

lemma cluster_storesD:
  assumes "cluster_stores lib r tv sv"
  shows "cas_store (cl_Secret (kr_Client r)) sec_meta secretBody sv" and "keeps_key (tl_am lib)"
    and "bundle_calls_leave (\<lambda>s. P (tv s) (sv s)) lib r" and "quiet tv (kcreate (cl_Secret (kr_Client r)) x)"
    and "result_of (kget (cl_TalosCluster (kr_Client r)) k) s = Inr c \<Longrightarrow> tv s k = Some c"
    and "result_of (kget (cl_TalosCluster (kr_Client r)) k) s = Inl e \<Longrightarrow> isNotFound e \<Longrightarrow> tv s k = None"
  using assms unfolding cluster_stores_def by blast+

lemma refLost_pass:
  assumes st: "cluster_stores lib r tv sv" and lost: "refLost lib tv sv req s"
  shows "refLost lib tv sv req (state_after (ClusterReconcile lib al r req) s)"
    and "\<exists>out. result_of (ClusterReconcile lib al r req) s = Some out \<and>
      (snd out = None \<longrightarrow> (\<exists>cluster u. result_of (clusterAcquireZoneLease lib r cluster) u = Inl out))"
proof -
  let ?K = "(KontinuumSystemNamespace, sr_Name (secretRefFor (snd req)))" and ?P = "ClusterReconcile lib al r req"
  define I where "I u \<longleftrightarrow> tv u = tv s \<and> sv u ?K \<noteq> None" for u
  have b: "bundle_calls_leave I lib r" using cluster_storesD(3) [OF st, of "\<lambda>t v. t = tv s \<and> v ?K \<noteq> None"] unfolding I_def .
  have bv: "leaves (\<lambda>s. sv s = v) (kcreate (cl_Namespace (kr_Client r)) x)" for x v
    using cluster_storesD(3) [OF st, of "\<lambda>_ w. w = v"] unfolding bundle_calls_leave_def by blast
  have sk: "leaves I (kcreate (cl_Secret (kr_Client r)) x)" for x
    using create_keeps_present [OF cluster_storesD(1) [OF st], of _ ?K x] cluster_storesD(4) [OF st, of x]
    unfolding I_def leaves_def quiet_def by metis
  have I: "I s" using lost unfolding I_def refLost_def by blast
  have keep: "refLost lib tv sv req u" if "I u" for u using that lost unfolding I_def refLost_def by auto
  obtain g s1 where g: "run_state (kget (cl_TalosCluster (kr_Client r)) req) s = (g, s1)" by fastforce
  have "leaves I (kget (cl_TalosCluster (kr_Client r)) req)" using b unfolding bundle_calls_leave_def by blast
  then have I1: "I s1" by (rule leaves_run [where I = I, OF _ I g])
  show "refLost lib tv sv req (state_after ?P s)" "\<exists>out. result_of ?P s = Some out \<and>
      (snd out = None \<longrightarrow> (\<exists>cluster u. result_of (clusterAcquireZoneLease lib r cluster) u = Inl out))"
  proof (atomize (full), cases g)
    case (Inl err)
    then have "\<not> isNotFound err" using cluster_storesD(6) [OF st, of req s err] g lost unfolding refLost_def by auto
    then show "refLost lib tv sv req (state_after ?P s) \<and> (\<exists>out. result_of ?P s = Some out \<and>
      (snd out = None \<longrightarrow> (\<exists>cluster u. result_of (clusterAcquireZoneLease lib r cluster) u = Inl out)))"
      using keep [OF I1] Inl g by (simp add: ClusterReconcile_def fetchCluster_def)
  next
    case (Inr cluster)
    then have c: "tv s req = Some cluster" using cluster_storesD(5) [OF st, of req s cluster] g by simp
    then have ok: "deletionIsZero (tc_meta cluster)" "keyOf (tc_meta cluster) = req" "sr_Name (tcst_SecretRef (tc_Status cluster)) = ''''"
      "addClusterFinalizer lib r cluster = return (Inr cluster)"
      using lost unfolding refLost_def by (auto simp: addClusterFinalizer_def split: prod.splits)
    obtain q s2 where q: "run_state (clusterAcquireZoneLease lib r cluster) s1 = (q, s2)" by fastforce
    have lk: "locker_calls_leave I (tl_world lib) (kr_Locker r)" using b unfolding bundle_calls_leave_def by blast
    have "leaves I (clusterAcquireZoneLease lib r cluster)"
      unfolding clusterAcquireZoneLease_def by (auto intro!: leaves_rules TryAcquire_leaves [OF lk] Jitter_leaves [OF lk])
    then have I2: "I s2" by (rule leaves_run [where I = I, OF _ I1 q])
    obtain e s3 where e: "run_state (ensureSecretsBundle lib (kr_Client r) cluster) s2 = (e, s3)" by fastforce
    have "leaves I (ensureSecretsBundle lib (kr_Client r) cluster)"
      using b unfolding ensureSecretsBundle_def createBundleSecret_def clusterEnsureNamespace_def bundle_calls_leave_def Let_def
      by (auto simp: ok intro!: leaves_rules sk)
    then have I3: "I s3" by (rule leaves_run [where I = I, OF _ I2 e])
    have "\<exists>err. e = Inl err"
    proof (cases "tl_ParseContract lib (fst (resolveVersions cluster))")
      case (Inl err)
      then show ?thesis using e ok by (auto simp: ensureSecretsBundle_def Let_def)
    next
      case (Inr contract)
      obtain b' s4 where nb: "run_state (tl_NewBundle lib contract) s2 = (b', s4)" by fastforce
      have "leaves I (tl_NewBundle lib contract)" using b unfolding bundle_calls_leave_def by blast
      then have "I s4" by (rule leaves_run [where I = I, OF _ I2 nb])
      then have k4: "sv s4 (KontinuumSystemNamespace, sr_Name (secretRefFor (clusterName cluster))) \<noteq> None"
        using ok(2) unfolding I_def by (auto simp: keyOf_def)
      show ?thesis
      proof (cases b')
        case (Inl err)
        then show ?thesis using e ok Inr nb by (auto simp: ensureSecretsBundle_def Let_def)
      next
        case inr: (Inr bndl)
        obtain err t where "run_state (createBundleSecret lib (kr_Client r) cluster bndl) s4 = (Inl err, t)"
          using createBundleSecret_taken [OF cluster_storesD(1,2) [OF st] bv k4] by blast
        then show ?thesis using e ok Inr nb inr by (auto simp: ensureSecretsBundle_def Let_def)
      qed
    qed
    then show "refLost lib tv sv req (state_after ?P s) \<and> (\<exists>out. result_of ?P s = Some out \<and>
      (snd out = None \<longrightarrow> (\<exists>cluster u. result_of (clusterAcquireZoneLease lib r cluster) u = Inl out)))"
      using keep [OF I2] keep [OF I3] Inr g q e ok
      by (cases q) (auto simp: ClusterReconcile_def fetchCluster_def prepareCluster_def, metis fst_conv)
  qed
qed


definition lost_cluster :: TalosCluster where
  "lost_cluster = setSecretRef \<lparr>sr_Name = '''', sr_Namespace = ''''\<rparr> (site_cluster False)"

lemma lost_world_stores:
  "cluster_stores (demo_taloslib now) (fleet_reconciler (site_client secrets_client lost_cluster)) (\<lambda>_. [site_key \<mapsto> lost_cluster]) (mem_view sec_meta)"
  using secrets_store std_keeps_key
  by (auto simp: cluster_stores_def fleet_reconciler_def site_client_def bundle_calls_leave_def locker_calls_leave_def down_client_def
      down_kclient_def demo_taloslib_def still_world_def quiet_def intro: leaves_return split: if_splits)


section \<open>The control plane comes first\<close>

text \<open>
  The calls that apply a configuration, as a log; a pass may add entries for the members a
  pool lists as claimed and discovered.
\<close>

definition logs_applies :: "'s ClusterBootstrapper \<Rightarrow> ('s \<Rightarrow> (string \<times> string) set) \<Rightarrow> bool" where
  "logs_applies b lg \<longleftrightarrow> (\<forall>addr bytes s. lg (state_after (cb_ApplyConfiguration b addr bytes) s) \<subseteq> insert (addr, bytes) (lg s))"

definition lists_matching :: "('s, 'o) kclient \<Rightarrow> ('o \<Rightarrow> ObjectMeta) \<Rightarrow> bool" where
  "lists_matching c meta \<longleftrightarrow> (\<forall>ns p s xs x. result_of (klist c ns p) s = Inr xs \<and> x \<in> set xs \<longrightarrow> p (om_Labels (meta x)))"

definition memberConfig :: "'s taloslib \<Rightarrow> TalosCluster \<Rightarrow> string \<times> string \<Rightarrow> bool" where
  "memberConfig lib cluster entry \<longleftrightarrow> (\<exists>m input. om_Labels (inst_meta m) LabelClaimedBy = Some (ipr_Name (controlPlanePool cluster)) \<and>
     memberIs lib DiscoveredConditionType m \<and> dialAddress lib m = Some (fst entry) \<and>
     configBytes lib input TypeControlPlane (instName m) = Inr (snd entry))"

lemma resolveMembers_lists:
  assumes m: "lists_matching (cl_Instance c) inst_meta" and r: "run_state (resolveMembers lib c ns pool) s = (Inr ms, t)" and x: "x \<in> set ms"
  shows "om_Labels (inst_meta x) LabelClaimedBy = Some (ipr_Name pool)" and "memberIs lib DiscoveredConditionType x"
proof -
  obtain l u where l: "run_state (klist (cl_Instance c) (Some ns) (matchingLabel LabelClaimedBy (ipr_Name pool))) s = (l, u)" by fastforce
  with r obtain xs where xs: "l = Inr xs" "ms = filter (memberIs lib DiscoveredConditionType) xs"
    by (cases l) (auto simp: resolveMembers_def listClaimedByPool_def)
  have "matchingLabel LabelClaimedBy (ipr_Name pool) (om_Labels (inst_meta x))"
  proof -
    have "result_of (klist (cl_Instance c) (Some ns) (matchingLabel LabelClaimedBy (ipr_Name pool))) s = Inr xs" "x \<in> set xs"
      using l xs x by simp_all
    then show ?thesis
      using m [unfolded lists_matching_def, rule_format, of "Some ns" "matchingLabel LabelClaimedBy (ipr_Name pool)" s xs x] by simp
  qed
  then show "om_Labels (inst_meta x) LabelClaimedBy = Some (ipr_Name pool)" by (simp add: matchingLabel_def)
  show "memberIs lib DiscoveredConditionType x" using xs x by simp
qed

lemma addClusterFinalizer_content:
  assumes upd: "\<And>x u y v. run_state (kupdate (cl_TalosCluster (kr_Client r)) x) u = (Inr y, v) \<Longrightarrow>
      tc_Status y = tc_Status x \<and> tc_Spec y = tc_Spec x"
    and run: "run_state (addClusterFinalizer lib r cluster) s = (Inr cluster1, t)"
  shows "tc_Spec cluster1 = tc_Spec cluster \<and> tc_Status cluster1 = tc_Status cluster"
proof -
  obtain added fs where f: "am_addFinalizer (tl_am lib) (om_Finalizers (tc_meta cluster)) TalosClusterFinalizer = (added, fs)" by fastforce
  let ?x = "cluster\<lparr>tc_meta := (tc_meta cluster)\<lparr>om_Finalizers := fs\<rparr>\<rparr>"
  obtain w u where w: "run_state (kupdate (cl_TalosCluster (kr_Client r)) ?x) s = (w, u)" by fastforce
  show ?thesis
  proof (cases w)
    case (Inr y)
    then show ?thesis using run f w upd [of ?x s y u] by (cases added) (auto simp: addClusterFinalizer_def)
  qed (use run f w in \<open>cases added; auto simp: addClusterFinalizer_def\<close>)
qed


text \<open>A cluster that is not up yet, in a world whose state is the set of the configurations that were sent.\<close>

definition log_reconciler :: "(string \<times> string) set ClusterReconciler" where
  "log_reconciler = (fleet_reconciler (site_client (down_kclient\<lparr>kget := (\<lambda>_. return (Inr (bundleSecret (secretRefFor ''eu-a'') ''ca''))),
       kcreate := (\<lambda>x. return (Inr x)), kupdate := (\<lambda>x. return (Inr x))\<rparr>) (site_cluster False)))
     \<lparr>kr_Bootstrapper := fleet_bootstrapper\<lparr>cb_ApplyConfiguration := (\<lambda>a b. State (\<lambda>l. (None, insert (a, b) l)))\<rparr>\<rparr>"

lemma log_calls:
  "probe_calls_leave I (demo_taloslib now) log_reconciler" "build_calls_leave I (demo_taloslib now) log_reconciler"
  "secret_writes_leave I (demo_taloslib now) al (kr_Client log_reconciler) k"
proof -
  show "probe_calls_leave I (demo_taloslib now) log_reconciler" "build_calls_leave I (demo_taloslib now) log_reconciler"
    unfolding calls_leave_defs locker_calls_leave_def log_reconciler_def
    by (auto simp: site_client_def fleet_reconciler_def fleet_bootstrapper_def down_client_def down_kclient_def demo_taloslib_def still_world_def
      intro: leaves_return)
  have c: "cl_Secret (kr_Client log_reconciler) = down_kclient\<lparr>kget := (\<lambda>_. return (Inr (bundleSecret (secretRefFor ''eu-a'') ''ca''))),
       kcreate := (\<lambda>x. return (Inr x)), kupdate := (\<lambda>x. return (Inr x))\<rparr>"
    "cl_Namespace (kr_Client log_reconciler) = down_kclient\<lparr>kcreate := (\<lambda>x. return (Inr x))\<rparr>"
    by (simp_all add: log_reconciler_def fleet_reconciler_def site_client_def down_client_def)
  show "secret_writes_leave I (demo_taloslib now) al (kr_Client log_reconciler) k"
    unfolding secret_writes_leave_def createBundleSecret_def clusterEnsureNamespace_def storeKubeconfig_def ensureExternalDNSCredentialSecret_def
      CreateOrUpdate_def c Let_def
    by (auto intro!: leaves_rules)
qed


end
