(* ===== verification/ZoneAdd.thy ===== *)
theory ZoneAdd
  imports ClusterProps
begin

text \<open>
  Adding a zone: \<open>add.go\<close> of \<open>pkg/domain/zone\<close> and the command \<open>zone add\<close> of \<open>pkg/cli/zone\<close>.
  One call creates the Zone, its TalosCluster and its InstancePool, each owned by the one
  before, and registers or adopts the seed Instance.  Go visits a map in any order: the
  order in which the required fields are checked is a parameter.
\<close>

record 's ZoneAddOptions =
  za_Region :: string
  za_Zone :: string
  za_Domain :: string
  za_TalosAddress :: string
  za_Resolver :: "'s Resolver"
  za_TalosVersion :: string
  za_KubernetesVersion :: string
  za_UnregisterInstancesOnDelete :: bool
  za_ExistingInstanceName :: string

record zoneaddlib =
  zal_am :: apimachinery
  zal_IsDNS1123Label :: "string \<Rightarrow> string list"
  zal_parsesAsIP :: "string \<Rightarrow> bool"
  zal_nameOf :: "string \<Rightarrow> string"
  zal_order :: "(string \<times> string) list \<Rightarrow> (string \<times> string) list"

definition errZoneAddMissingField :: goerr where "errZoneAddMissingField = Sentinel ''zone add: missing required field''"

definition errAddOptionsInvalidLabel :: goerr where "errAddOptionsInvalidLabel = Sentinel ''zone add: invalid value''"

definition errInstanceAlreadyClaimed :: goerr where "errInstanceAlreadyClaimed = Sentinel ''zone add: instance already claimed''"

fun firstMissing :: "(string \<times> string) list \<Rightarrow> goerr option" where
  "firstMissing [] = None"
| "firstMissing ((name, v) # rest) =
     (if v = '''' then Some (Errorf ''%w: %s'' [name] [errZoneAddMissingField]) else firstMissing rest)"

fun firstInvalid :: "(string \<Rightarrow> string list) \<Rightarrow> (string \<times> string) list \<Rightarrow> goerr option" where
  "firstInvalid isLabel [] = None"
| "firstInvalid isLabel ((name, v) # rest) = (case isLabel v of
       [] \<Rightarrow> firstInvalid isLabel rest
     | err # _ \<Rightarrow> Some (Errorf ''%w: %s %q: %s'' [name, v, err] [errAddOptionsInvalidLabel]))"

definition validateAddOptions :: "zoneaddlib \<Rightarrow> 's ZoneAddOptions \<Rightarrow> goerr option" where
  "validateAddOptions al opts =
     (case firstMissing (zal_order al [(''region'', za_Region opts), (''zone'', za_Zone opts), (''talos-address'', za_TalosAddress opts)]) of
        Some err \<Rightarrow> Some err
      | None \<Rightarrow> firstInvalid (zal_IsDNS1123Label al) (zal_order al [(''region'', za_Region opts), (''zone'', za_Zone opts)]))"

definition addObjectName :: "'s ZoneAddOptions \<Rightarrow> string" where
  "addObjectName opts = za_Region opts @ ''-'' @ za_Zone opts"

definition zoneLabelPairs :: "'s ZoneAddOptions \<Rightarrow> (string \<times> string) list" where
  "zoneLabelPairs opts = [(LabelRegion, za_Region opts), (LabelZone, za_Zone opts)]"

text \<open>The four objects of \<open>BuildAddObjects\<close>.\<close>

definition builtZone :: "'s ZoneAddOptions \<Rightarrow> Zone" where
  "builtZone opts = \<lparr>zone_meta = objectMeta KontinuumSystemNamespace (addObjectName opts),
     zone_Spec = \<lparr>zsp_Region = za_Region opts, zsp_Zone = za_Zone opts, zsp_Domain = za_Domain opts\<rparr>,
     zone_Status = \<lparr>zst_Conditions = []\<rparr>\<rparr>"

definition builtInstance :: "zoneaddlib \<Rightarrow> 's ZoneAddOptions \<Rightarrow> Instance" where
  "builtInstance al opts = \<lparr>inst_meta = (objectMeta KontinuumSystemNamespace (zal_nameOf al (za_TalosAddress opts)))
       \<lparr>om_Labels := map_of (zoneLabelPairs opts)\<rparr>,
     inst_Spec = \<lparr>isp_Interfaces = [za_TalosAddress opts], isp_ProviderRef = None\<rparr>, inst_Status = zeroInstanceStatus\<rparr>"

definition builtPool :: "'s ZoneAddOptions \<Rightarrow> InstancePool" where
  "builtPool opts = \<lparr>pool_meta = objectMeta KontinuumSystemNamespace (addObjectName opts),
     pool_Spec = \<lparr>ips_Selector = \<lparr>ls_MatchLabels = zoneLabelPairs opts, ls_MatchExpressions = []\<rparr>, ips_Replicas = 1, ips_Template = None\<rparr>,
     pool_Status = \<lparr>ipst_ReadyReplicas = 0, ipst_Conditions = []\<rparr>\<rparr>"

definition builtCluster :: "'s ZoneAddOptions \<Rightarrow> TalosCluster" where
  "builtCluster opts = \<lparr>tc_meta = objectMeta KontinuumSystemNamespace (addObjectName opts),
     tc_Spec = \<lparr>tcs_Talos = \<lparr>tsp_Version = za_TalosVersion opts\<rparr>, tcs_Kubernetes = \<lparr>k8s_Version = za_KubernetesVersion opts\<rparr>,
       tcs_ControlPlane = \<lparr>tcm_PoolRef = \<lparr>ipr_Name = addObjectName opts\<rparr>\<rparr>, tcs_Workers = [],
       tcs_Teardown = \<lparr>tds_UnregisterInstances = za_UnregisterInstancesOnDelete opts\<rparr>\<rparr>,
     tc_Status = \<lparr>tcst_Conditions = [], tcst_SecretRef = \<lparr>sr_Name = '''', sr_Namespace = ''''\<rparr>\<rparr>\<rparr>"

definition BuildAddObjects :: "zoneaddlib \<Rightarrow> 's ZoneAddOptions \<Rightarrow> Zone \<times> Instance \<times> InstancePool \<times> TalosCluster" where
  "BuildAddObjects al opts = (builtZone opts, builtInstance al opts, builtPool opts, builtCluster opts)"

definition resolveTalosAddress :: "zoneaddlib \<Rightarrow> 's ZoneAddOptions \<Rightarrow> ('s, goerr + 's ZoneAddOptions \<times> string) state" where
  "resolveTalosAddress al opts = do {
     ra \<leftarrow> ResolveAddress (zal_parsesAsIP al) (za_Resolver opts) (za_TalosAddress opts);
     (case ra of
        Inl err \<Rightarrow> return (Inl (Errorf ''failed to resolve talos address: %w'' [] [err]))
      | Inr (resolvedAddress, hostname) \<Rightarrow> return (Inr (opts\<lparr>za_TalosAddress := resolvedAddress\<rparr>, hostname)))
   }"

definition annotateHostname :: "Instance \<Rightarrow> string \<Rightarrow> Instance" where
  "annotateHostname inst hostname = (if hostname = '''' then inst
     else inst\<lparr>inst_meta := (inst_meta inst)\<lparr>om_Annotations := (om_Annotations (inst_meta inst))(AnnotationHostname \<mapsto> hostname)\<rparr>\<rparr>)"

text \<open>\<open>adoptInstance\<close>; \<open>maps.Copy\<close> overwrites the labels both maps have.\<close>

definition withLabels :: "labels \<Rightarrow> Instance \<Rightarrow> Instance" where
  "withLabels ls inst = inst\<lparr>inst_meta := (inst_meta inst)\<lparr>om_Labels := om_Labels (inst_meta inst) ++ ls\<rparr>\<rparr>"

definition adoptInstance :: "'s client \<Rightarrow> string \<Rightarrow> labels \<Rightarrow> ('s, goerr option) state" where
  "adoptInstance hub name ls = do {
     g \<leftarrow> kget (cl_Instance hub) (KontinuumSystemNamespace, name);
     (case g of
        Inl err \<Rightarrow> return (Some (Errorf ''failed to fetch existing instance %q: %w'' [name] [err]))
      | Inr inst \<Rightarrow>
          if claimedBy inst \<noteq> None then return (Some (Errorf ''%w: %q'' [name] [errInstanceAlreadyClaimed]))
          else do {
            u \<leftarrow> kupdate (cl_Instance hub) (withLabels ls inst);
            (case u of
               Inl err \<Rightarrow> return (Some (Errorf ''failed to label existing instance %q: %w'' [name] [err]))
             | Inr _ \<Rightarrow> return None)
          })
   }"

definition ensureSeedInstance :: "'s client \<Rightarrow> 's ZoneAddOptions \<Rightarrow> Instance \<Rightarrow> ('s, goerr option) state" where
  "ensureSeedInstance hub opts newInstance =
     (if za_ExistingInstanceName opts \<noteq> '''' then adoptInstance hub (za_ExistingInstanceName opts) (om_Labels (inst_meta newInstance))
      else do {
        k \<leftarrow> kcreate (cl_Instance hub) newInstance;
        (case k of
           Inr _ \<Rightarrow> return None
         | Inl err \<Rightarrow>
             if \<not> isAlreadyExists err then return (Some (Errorf ''failed to create %T %q: %w'' [''*v1alpha2.Instance'', instName newInstance] [err]))
             else adoptInstance hub (instName newInstance) (om_Labels (inst_meta newInstance)))
      })"

definition ensureObject :: "('s, 'o) kclient \<Rightarrow> ('o \<Rightarrow> ObjectMeta) \<Rightarrow> string \<Rightarrow> 'o \<Rightarrow> ('s, goerr + 'o) state" where
  "ensureObject c meta kind obj = do {
     k \<leftarrow> kcreate c obj;
     (case k of
        Inr x \<Rightarrow> return (Inr x)
      | Inl err \<Rightarrow>
          if \<not> isAlreadyExists err then return (Inl (Errorf ''failed to create %T %q: %w'' [kind, om_Name (meta obj)] [err]))
          else do {
            g \<leftarrow> kget c (keyOf (meta obj));
            (case g of
               Inl err \<Rightarrow> return (Inl (Errorf ''failed to fetch already-existing %T %q: %w'' [kind, om_Name (meta obj)] [err]))
             | Inr x \<Rightarrow> return (Inr x))
          })
   }"

text \<open>\<open>createOwnedDependents\<close> with the one dependent both of its calls pass.\<close>

definition createOwnedDependents :: "apimachinery \<Rightarrow> ('s, 'o) kclient \<Rightarrow> ('o \<Rightarrow> ObjectMeta) \<Rightarrow> (ObjectMeta \<Rightarrow> 'o \<Rightarrow> 'o) \<Rightarrow> string \<Rightarrow> ObjectMeta \<Rightarrow> 'o \<Rightarrow>
    ('s, goerr + 'o) state" where
  "createOwnedDependents am c meta setMeta kind ownerMeta dependent = (case am_setControllerReference am ownerMeta (meta dependent) of
       Inl err \<Rightarrow> return (Inl (Errorf ''failed to set owner reference on %T %q: %w'' [kind, om_Name (meta dependent)] [err]))
     | Inr m \<Rightarrow> ensureObject c meta kind (setMeta m dependent))"

text \<open>\<open>Add\<close> once the options are validated, inferred and resolved.\<close>

definition createZoneObjects :: "zoneaddlib \<Rightarrow> 's client \<Rightarrow> 's ZoneAddOptions \<Rightarrow> string \<Rightarrow> ('s, goerr + Zone) state" where
  "createZoneObjects al hub opts hostname = (case BuildAddObjects al opts of (zoneObj, instance0, pool, cluster) \<Rightarrow> do {
     n \<leftarrow> zoneEnsureNamespace (cl_Namespace hub) KontinuumSystemNamespace;
     (case n of
        Some err \<Rightarrow> return (Inl err)
      | None \<Rightarrow> do {
     z \<leftarrow> ensureObject (cl_Zone hub) zone_meta ''*v1alpha2.Zone'' zoneObj;
     (case z of
        Inl err \<Rightarrow> return (Inl err)
      | Inr zoneObj1 \<Rightarrow> do {
     c \<leftarrow> createOwnedDependents (zal_am al) (cl_TalosCluster hub) tc_meta (\<lambda>m x. x\<lparr>tc_meta := m\<rparr>) ''*v1alpha2.TalosCluster'' (zone_meta zoneObj1) cluster;
     (case c of
        Inl err \<Rightarrow> return (Inl err)
      | Inr cluster1 \<Rightarrow> do {
     p \<leftarrow> createOwnedDependents (zal_am al) (cl_InstancePool hub) pool_meta (\<lambda>m x. x\<lparr>pool_meta := m\<rparr>) ''*v1alpha2.InstancePool'' (tc_meta cluster1) pool;
     (case p of
        Inl err \<Rightarrow> return (Inl err)
      | Inr _ \<Rightarrow> do {
     e \<leftarrow> ensureSeedInstance hub opts (annotateHostname instance0 hostname);
     (case e of Some err \<Rightarrow> return (Inl err) | None \<Rightarrow> return (Inr zoneObj1))
     })})})})})"

definition AddZone :: "zoneaddlib \<Rightarrow> 's client \<Rightarrow> 's ZoneAddOptions \<Rightarrow> ('s, goerr + Zone) state" where
  "AddZone al hub opts = (case validateAddOptions al opts of
       Some err \<Rightarrow> return (Inl err)
     | None \<Rightarrow> do {
         d \<leftarrow> (if za_Domain opts = '''' then inferDomain hub else return (Inr (za_Domain opts)));
         (case d of
            Inl err \<Rightarrow> return (Inl err)
          | Inr domain \<Rightarrow> do {
              ra \<leftarrow> resolveTalosAddress al (opts\<lparr>za_Domain := domain\<rparr>);
              (case ra of
                 Inl err \<Rightarrow> return (Inl err)
               | Inr (opts1, hostname) \<Rightarrow> createZoneObjects al hub opts1 hostname)
            })
       })"

section \<open>Waiting for the zone\<close>

text \<open>
  The condition record leaves out \<open>LastTransitionTime\<close>; here the conditions of a Zone come with
  it.  \<open>latestCondition\<close> keeps the first of several equally late ones.
\<close>

fun latestLoop :: "(Condition \<times> int) list \<Rightarrow> (Condition \<times> int) option \<Rightarrow> (Condition \<times> int) option" where
  "latestLoop [] latest = latest"
| "latestLoop (c # cs) latest = latestLoop cs (case latest of None \<Rightarrow> Some c | Some l \<Rightarrow> if snd c > snd l then Some c else latest)"

definition latestCondition :: "(Condition \<times> int) list \<Rightarrow> Condition option" where
  "latestCondition cs = map_option fst (latestLoop cs None)"

definition statusText :: "ConditionStatus \<Rightarrow> string" where
  "statusText st = (case st of ConditionTrue \<Rightarrow> ''True'' | ConditionFalse \<Rightarrow> ''False'' | ConditionUnknown \<Rightarrow> ''Unknown'')"

definition pollZoneOnce :: "(Zone \<Rightarrow> (Condition \<times> int) list) \<Rightarrow> 's client \<Rightarrow> string \<Rightarrow> ('s, goerr + bool \<times> string) state" where
  "pollZoneOnce timed hub name = do {
     g \<leftarrow> kget (cl_Zone hub) (KontinuumSystemNamespace, name);
     (case g of
        Inl err \<Rightarrow>
          if isNotFound err then return (Inr (False, ''waiting for zone to appear...''))
          else return (Inl (Errorf ''failed to get zone %q: %w'' [name] [err]))
      | Inr zoneObj \<Rightarrow> (case latestCondition (timed zoneObj) of
          None \<Rightarrow> return (Inr (False, ''waiting for zone status...''))
        | Some c \<Rightarrow> return (Inr (cond_Type c = InstalledConditionType \<and> cond_Status c = ConditionTrue,
            cond_Type c @ ''='' @ statusText (cond_Status c) @ '' ('' @ cond_Reason c @ ''): '' @ cond_Message c))))
   }"

definition defaultWaitTimeout :: int where "defaultWaitTimeout = 15 * minute"

definition pollInterval :: int where "pollInterval = 2 * second"

definition errWaitTimedOut :: goerr where "errWaitTimedOut = Sentinel ''timed out waiting for zone to become installed''"

text \<open>
  The poll loop of \<open>waitForZone\<close>, as far as the given number of polls goes (\<open>None\<close>: still
  waiting).  \<open>timedOut\<close> is whether the deadline has passed when the loop looks, after a failed
  poll and in the select between two polls.
\<close>

fun waitForZone :: "(Zone \<Rightarrow> (Condition \<times> int) list) \<Rightarrow> 's client \<Rightarrow> ('s, bool) state \<Rightarrow> string \<Rightarrow> string \<Rightarrow> nat \<Rightarrow> ('s, goerr option option) state" where
  "waitForZone timed hub timedOut name lastLine 0 = return None"
| "waitForZone timed hub timedOut name lastLine (Suc polls) = do {
     p \<leftarrow> pollZoneOnce timed hub name;
     (case p of
        Inl err \<Rightarrow> do {
          x \<leftarrow> timedOut;
          return (Some (Some (if x then Errorf ''%w: last status was %q'' [lastLine] [errWaitTimedOut] else err)))
        }
      | Inr (installed, line) \<Rightarrow>
          if installed then return (Some None)
          else do {
            x \<leftarrow> timedOut;
            if x then return (Some (Some (Errorf ''%w: last status was %q'' [line] [errWaitTimedOut])))
            else waitForZone timed hub timedOut name line polls
          })
   }"

record AddFlags =
  af_Region :: string
  af_Zone :: string
  af_TalosAddress :: string
  af_TalosVersion :: string
  af_KubernetesVersion :: string
  af_Kubeconfig :: string
  af_Context :: string
  af_Wait :: bool
  af_Timeout :: int
  af_UnregisterInstancesOnDelete :: bool

text \<open>
  \<open>RunZoneAdd\<close>: \<open>buildClient\<close> is the injected constructor of the hub client, \<open>resolver\<close> the
  default resolver, \<open>print\<close> the output and \<open>timedOut\<close> the deadline that a timeout sets.
\<close>

definition RunZoneAdd :: "zoneaddlib \<Rightarrow> (Zone \<Rightarrow> (Condition \<times> int) list) \<Rightarrow> 's Resolver \<Rightarrow> (string \<Rightarrow> string \<Rightarrow> ('s, goerr + 's client) state) \<Rightarrow>
    (string list \<Rightarrow> ('s, goerr option) state) \<Rightarrow> (int \<Rightarrow> ('s, bool) state) \<Rightarrow> AddFlags \<Rightarrow> nat \<Rightarrow> ('s, goerr option option) state" where
  "RunZoneAdd al timed resolver buildClient print timedOut flags polls = do {
     h \<leftarrow> buildClient (af_Kubeconfig flags) (af_Context flags);
     (case h of
        Inl err \<Rightarrow> return (Some (Some err))
      | Inr hub \<Rightarrow> do {
          a \<leftarrow> AddZone al hub \<lparr>za_Region = af_Region flags, za_Zone = af_Zone flags, za_Domain = '''', za_TalosAddress = af_TalosAddress flags,
                 za_Resolver = resolver, za_TalosVersion = af_TalosVersion flags, za_KubernetesVersion = af_KubernetesVersion flags,
                 za_UnregisterInstancesOnDelete = af_UnregisterInstancesOnDelete flags, za_ExistingInstanceName = ''''\<rparr>;
          (case a of
             Inl err \<Rightarrow> return (Some (Some (Errorf ''failed to add zone: %w'' [] [err])))
           | Inr createdZone \<Rightarrow> do {
               e \<leftarrow> print [om_Name (zone_meta createdZone), af_Region flags, af_Zone flags];
               (case e of
                  Some err \<Rightarrow> return (Some (Some (Errorf ''failed to print add result: %w'' [] [err])))
                | None \<Rightarrow>
                    if \<not> af_Wait flags then return (Some None)
                    else waitForZone timed hub (timedOut (af_Timeout flags)) (om_Name (zone_meta createdZone)) '''' polls)
             })
        })
   }"

section \<open>The seed Instance\<close>

text \<open>
  The calls of \<open>AddZone\<close> on other objects than Instances, as a state predicate they keep, and
  the store of Instances: what the server keeps of one is its labels and its spec.
\<close>

definition zoneadd_calls_leave :: "('s \<Rightarrow> bool) \<Rightarrow> 's client \<Rightarrow> 's ZoneAddOptions \<Rightarrow> bool" where
  "zoneadd_calls_leave I hub opts \<longleftrightarrow> (\<forall>ns p. leaves I (klist (cl_Kontinuum hub) ns p)) \<and> (\<forall>a. leaves I (za_Resolver opts a)) \<and>
     (\<forall>x. leaves I (kcreate (cl_Namespace hub) x)) \<and>
     (\<forall>x. leaves I (kcreate (cl_Zone hub) x)) \<and> (\<forall>k. leaves I (kget (cl_Zone hub) k)) \<and>
     (\<forall>x. leaves I (kcreate (cl_TalosCluster hub) x)) \<and> (\<forall>k. leaves I (kget (cl_TalosCluster hub) k)) \<and>
     (\<forall>x. leaves I (kcreate (cl_InstancePool hub) x)) \<and> (\<forall>k. leaves I (kget (cl_InstancePool hub) k))"

definition instanceBody :: "Instance \<Rightarrow> labels \<times> InstanceSpec" where
  "instanceBody x = (om_Labels (inst_meta x), inst_Spec x)"

definition seed_store :: "'s client \<Rightarrow> 's ZoneAddOptions \<Rightarrow> ('s \<Rightarrow> ObjectKey \<rightharpoonup> Instance) \<Rightarrow> bool" where
  "seed_store hub opts iv \<longleftrightarrow> cas_store (cl_Instance hub) inst_meta instanceBody iv \<and> keeps_identity (cl_Instance hub) inst_meta \<and>
     (\<forall>v. zoneadd_calls_leave (\<lambda>s. iv s = v) hub opts)"

lemma seed_storeD:
  assumes "seed_store hub opts iv"
  shows "cas_store (cl_Instance hub) inst_meta instanceBody iv" and "keeps_identity (cl_Instance hub) inst_meta"
    and "zoneadd_calls_leave (\<lambda>s. iv s = v) hub opts"
  using assms unfolding seed_store_def by blast+

lemma inferDomain_leaves:
  assumes "\<And>ns p. leaves I (klist (cl_Kontinuum hub) ns p)"
  shows "leaves I (inferDomain hub)"
  unfolding inferDomain_def findKontinuumDomain_def anyRegisteredKontinuum_def by (auto intro!: leaves_rules assms)

lemma ensureObject_leaves:
  assumes "\<And>x. leaves I (kcreate c x)" and "\<And>k. leaves I (kget c k)"
  shows "leaves I (ensureObject c meta kind obj)"
  unfolding ensureObject_def by (auto intro!: leaves_rules assms)

lemma createOwnedDependents_leaves:
  assumes "\<And>x. leaves I (kcreate c x)" and "\<And>k. leaves I (kget c k)"
  shows "leaves I (createOwnedDependents am c meta setm kind own obj)"
  unfolding createOwnedDependents_def by (auto intro!: leaves_rules ensureObject_leaves assms)

text \<open>What the Instances are when \<open>AddZone\<close> comes to the seed: if it succeeds, the seed step did, on the Instances it started with.\<close>

lemma createZoneObjects_run:
  assumes calls: "zoneadd_calls_leave (\<lambda>s. iv s = v) hub opts" and s: "iv s = v"
    and run: "run_state (createZoneObjects al hub opts1 hostname) s = (res, t)"
  shows "iv t = v \<and> (\<exists>err. res = Inl err) \<or>
    (\<exists>u e. iv u = v \<and> run_state (ensureSeedInstance hub opts1 (annotateHostname (builtInstance al opts1) hostname)) u = (e, t) \<and>
       ((\<exists>z. res = Inr z) \<longleftrightarrow> e = None))"
proof -
  let ?I = "\<lambda>s. iv s = v"
  have c: "leaves ?I (zoneEnsureNamespace (cl_Namespace hub) n)" "leaves ?I (ensureObject (cl_Zone hub) zone_meta k1 z)"
    "leaves ?I (createOwnedDependents am (cl_TalosCluster hub) tc_meta f k2 om tc)"
    "leaves ?I (createOwnedDependents am (cl_InstancePool hub) pool_meta g k2 om pl)" for n k1 k2 z am f om tc g pl
    using calls unfolding zoneadd_calls_leave_def zoneEnsureNamespace_def createOnce_def
    by (auto intro!: leaves_rules ensureObject_leaves createOwnedDependents_leaves)
  obtain n s1 where n: "run_state (zoneEnsureNamespace (cl_Namespace hub) KontinuumSystemNamespace) s = (n, s1)" by fastforce
  have s1: "iv s1 = v" by (rule leaves_run [where I = ?I, OF c(1) s n])
  show ?thesis
  proof (cases n)
    case (Some err)
    then show ?thesis using run n s1 by (auto simp: createZoneObjects_def BuildAddObjects_def)
  next
    case nn: None
    obtain z s2 where z: "run_state (ensureObject (cl_Zone hub) zone_meta ''*v1alpha2.Zone'' (builtZone opts1)) s1 = (z, s2)" by fastforce
    have s2: "iv s2 = v" by (rule leaves_run [where I = ?I, OF c(2) s1 z])
    show ?thesis
    proof (cases z)
      case (Inl err)
      then show ?thesis using run n nn z s2 by (auto simp: createZoneObjects_def BuildAddObjects_def)
    next
      case zz: (Inr z1)
      obtain w s3 where w: "run_state (createOwnedDependents (zal_am al) (cl_TalosCluster hub) tc_meta (\<lambda>m x. x\<lparr>tc_meta := m\<rparr>) ''*v1alpha2.TalosCluster''
        (zone_meta z1) (builtCluster opts1)) s2 = (w, s3)" by fastforce
      have s3: "iv s3 = v" by (rule leaves_run [where I = ?I, OF c(3) s2 w])
      show ?thesis
      proof (cases w)
        case (Inl err)
        then show ?thesis using run n nn z zz w s3 by (auto simp: createZoneObjects_def BuildAddObjects_def)
      next
        case ww: (Inr c1)
        obtain p s4 where p: "run_state (createOwnedDependents (zal_am al) (cl_InstancePool hub) pool_meta (\<lambda>m x. x\<lparr>pool_meta := m\<rparr>) ''*v1alpha2.InstancePool''
          (tc_meta c1) (builtPool opts1)) s3 = (p, s4)" by fastforce
        have s4: "iv s4 = v" by (rule leaves_run [where I = ?I, OF c(4) s3 p])
        obtain e s5 where e: "run_state (ensureSeedInstance hub opts1 (annotateHostname (builtInstance al opts1) hostname)) s4 = (e, s5)" by fastforce
        show ?thesis using run n nn z zz w ww p s4 e
          by (cases p; cases e) (auto simp: createZoneObjects_def BuildAddObjects_def)
      qed
    qed
  qed
qed

lemma annotateHostname_simps [simp]:
  "keyOf (inst_meta (annotateHostname x h)) = keyOf (inst_meta x)" "om_Labels (inst_meta (annotateHostname x h)) = om_Labels (inst_meta x)"
  "instName (annotateHostname x h) = instName x" "instanceBody (annotateHostname x h) = instanceBody x"
  by (simp_all add: annotateHostname_def keyOf_def instanceBody_def)

lemma AddZone_run:
  assumes calls: "\<And>v. zoneadd_calls_leave (\<lambda>s. iv s = v) hub opts" and run: "run_state (AddZone al hub opts) s = (res, t)"
  shows "iv t = iv s \<and> (\<exists>err. res = Inl err) \<or>
    (\<exists>u e opts1 hostname. iv u = iv s \<and> za_Region opts1 = za_Region opts \<and> za_Zone opts1 = za_Zone opts \<and>
       za_ExistingInstanceName opts1 = za_ExistingInstanceName opts \<and>
       (zal_parsesAsIP al (za_TalosAddress opts) \<longrightarrow> za_TalosAddress opts1 = za_TalosAddress opts) \<and>
       run_state (ensureSeedInstance hub opts1 (annotateHostname (builtInstance al opts1) hostname)) u = (e, t) \<and>
       ((\<exists>z. res = Inr z) \<longleftrightarrow> e = None))"
proof (cases "validateAddOptions al opts")
  case (Some err)
  then show ?thesis using run by (auto simp: AddZone_def)
next
  case None
  let ?I = "\<lambda>u. iv u = iv s" and ?d = "if za_Domain opts = '''' then inferDomain hub else return (Inr (za_Domain opts))"
  have k: "leaves ?I ?d" using calls [of "iv s"] unfolding zoneadd_calls_leave_def
    by (auto intro!: leaves_rules inferDomain_leaves)
  obtain d s1 where d: "run_state ?d s = (d, s1)" by fastforce
  have s1: "iv s1 = iv s" by (rule leaves_run [where I = ?I, OF k refl d])
  show ?thesis
  proof (cases d)
    case (Inl err)
    then show ?thesis using run None d s1 by (auto simp: AddZone_def)
  next
    case dd: (Inr domain)
    let ?o = "opts\<lparr>za_Domain := domain\<rparr>"
    obtain q s2 where q: "run_state (resolveTalosAddress al ?o) s1 = (q, s2)" by fastforce
    have "leaves ?I (resolveTalosAddress al ?o)"
      using calls [of "iv s"] unfolding resolveTalosAddress_def ResolveAddress_def zoneadd_calls_leave_def
      by (auto intro!: leaves_rules split: list.splits)
    then have s2: "iv s2 = iv s" by (rule leaves_run [where I = ?I, OF _ s1 q])
    show ?thesis
    proof (cases q)
      case (Inl err)
      then show ?thesis using run None d dd q s2 by (auto simp: AddZone_def)
    next
      case (Inr z)
      obtain opts1 hostname where z: "z = (opts1, hostname)" by fastforce
      have o: "za_Region opts1 = za_Region opts" "za_Zone opts1 = za_Zone opts" "za_ExistingInstanceName opts1 = za_ExistingInstanceName opts"
        "zal_parsesAsIP al (za_TalosAddress opts) \<longrightarrow> za_TalosAddress opts1 = za_TalosAddress opts"
        using q Inr z by (auto simp: resolveTalosAddress_def ResolveAddress_def split: sum.splits prod.splits list.splits if_splits)
      have r: "run_state (createZoneObjects al hub opts1 hostname) s2 = (res, t)"
        using run None d dd q Inr z by (simp add: AddZone_def)
      show ?thesis using createZoneObjects_run [where iv = iv, OF calls s2 r] o by blast
    qed
  qed
qed

lemma AddZone_cases:
  assumes "\<And>v. zoneadd_calls_leave (\<lambda>s. iv s = v) hub opts" and "run_state (AddZone al hub opts) s = (res, t)"
  obtains (early) "iv t = iv s" "\<exists>err. res = Inl err"
  | (seed) u e opts1 hostname where "iv u = iv s" "za_Region opts1 = za_Region opts" "za_Zone opts1 = za_Zone opts"
      "za_ExistingInstanceName opts1 = za_ExistingInstanceName opts"
      "zal_parsesAsIP al (za_TalosAddress opts) \<longrightarrow> za_TalosAddress opts1 = za_TalosAddress opts"
      "run_state (ensureSeedInstance hub opts1 (annotateHostname (builtInstance al opts1) hostname)) u = (e, t)"
      "(\<exists>z. res = Inr z) \<longleftrightarrow> e = None"
  using AddZone_run [where iv = iv, OF assms] by (elim disjE exE conjE) ((rule early, assumption, rule exI, assumption) | (rule seed, assumption+))+

definition seedKey :: "'s ZoneAddOptions \<Rightarrow> Instance \<Rightarrow> ObjectKey" where
  "seedKey opts inst = (if za_ExistingInstanceName opts \<noteq> '''' then (KontinuumSystemNamespace, za_ExistingInstanceName opts)
     else (KontinuumSystemNamespace, instName inst))"

lemma withLabels_simps [simp]:
  "keyOf (inst_meta (withLabels ls x)) = keyOf (inst_meta x)" "om_Labels (inst_meta (withLabels ls x)) = om_Labels (inst_meta x) ++ ls"
  by (simp_all add: withLabels_def keyOf_def)

lemma adoptInstance_run:
  assumes cas: "cas_store (cl_Instance hub) inst_meta instanceBody iv" and id: "keeps_identity (cl_Instance hub) inst_meta"
    and run: "run_state (adoptInstance hub name ls) s = (e, t)" and free: "ls LabelClaimedBy = None"
  shows "iv s k = Some x \<Longrightarrow> claimedBy x \<noteq> None \<Longrightarrow> iv t k = Some x"
    and "e = None \<Longrightarrow> \<exists>y. iv t (KontinuumSystemNamespace, name) = Some y \<and> claimedBy y = None \<and> ls \<subseteq>\<^sub>m om_Labels (inst_meta y)"
    and "iv s (KontinuumSystemNamespace, name) = Some x \<Longrightarrow> claimedBy x \<noteq> None \<Longrightarrow> e \<noteq> None"
proof -
  let ?K = "(KontinuumSystemNamespace, name)"
  obtain g u where g: "run_state (kget (cl_Instance hub) ?K) s = (g, u)" by fastforce
  have u: "iv u = iv s" using cas_store_get(1) [OF cas, of ?K s] g by simp
  have all: "(iv s k = Some x \<longrightarrow> claimedBy x \<noteq> None \<longrightarrow> iv t k = Some x) \<and>
    (e = None \<longrightarrow> (\<exists>y. iv t ?K = Some y \<and> claimedBy y = None \<and> ls \<subseteq>\<^sub>m om_Labels (inst_meta y))) \<and>
    (iv s ?K = Some x \<longrightarrow> claimedBy x \<noteq> None \<longrightarrow> e \<noteq> None)" for k x
  proof (cases g)
    case (Inl err)
    then show ?thesis using run g u by (auto simp: adoptInstance_def)
  next
    case (Inr inst)
    have st: "iv s ?K = Some inst" "keyOf (inst_meta inst) = ?K"
      using cas_store_get(2) [OF cas, of ?K s inst] keeps_identityD(1) [OF id g [unfolded Inr]] g Inr by simp_all
    show ?thesis
    proof (cases "claimedBy inst = None")
      case False
      then show ?thesis using run g u Inr st by (auto simp: adoptInstance_def)
    next
      case True
      let ?y = "withLabels ls inst"
      obtain w v where w: "run_state (kupdate (cl_Instance hub) ?y) u = (w, v)" by fastforce
      have t: "t = v" "e = None \<longleftrightarrow> (\<exists>z. w = Inr z)" using run g Inr True w by (auto simp: adoptInstance_def split: sum.splits)
      have fr: "iv t j = iv s j" if "j \<noteq> ?K" for j
        using cas_store_update_frame [OF cas, of j ?y u] that st w u t by simp
      have ok: "\<exists>y. iv t ?K = Some y \<and> instanceBody y = instanceBody ?y" if "w = Inr z" for z
        using cas_store_update(2,4) [OF cas, of ?y u z] w st t that by auto
      have "claimedBy y = None \<and> ls \<subseteq>\<^sub>m om_Labels (inst_meta y)" if "instanceBody y = instanceBody ?y" for y
        using that True free by (auto simp: instanceBody_def claimedBy_def map_le_def map_add_def dom_def split: option.splits)
      then show ?thesis using fr ok t True st by (cases "k = ?K") auto
    qed
  qed
  show "iv s k = Some x \<Longrightarrow> claimedBy x \<noteq> None \<Longrightarrow> iv t k = Some x"
    "e = None \<Longrightarrow> \<exists>y. iv t ?K = Some y \<and> claimedBy y = None \<and> ls \<subseteq>\<^sub>m om_Labels (inst_meta y)"
    "iv s ?K = Some x \<Longrightarrow> claimedBy x \<noteq> None \<Longrightarrow> e \<noteq> None" using all [of k x] by blast+
qed

lemma ensureSeedInstance_run:
  assumes cas: "cas_store (cl_Instance hub) inst_meta instanceBody iv" and id: "keeps_identity (cl_Instance hub) inst_meta"
    and run: "run_state (ensureSeedInstance hub opts inst) s = (e, t)" and free: "claimedBy inst = None"
    and ns: "om_Namespace (inst_meta inst) = KontinuumSystemNamespace"
  shows "iv s k = Some x \<Longrightarrow> claimedBy x \<noteq> None \<Longrightarrow> iv t k = Some x"
    and "e = None \<Longrightarrow> \<exists>y. iv t (seedKey opts inst) = Some y \<and> claimedBy y = None \<and> om_Labels (inst_meta inst) \<subseteq>\<^sub>m om_Labels (inst_meta y)"
    and "iv s (seedKey opts inst) = Some x \<Longrightarrow> claimedBy x \<noteq> None \<Longrightarrow> e \<noteq> None"
proof -
  have ls: "om_Labels (inst_meta inst) LabelClaimedBy = None" using free by (simp add: claimedBy_def)
  have key: "keyOf (inst_meta inst) = (KontinuumSystemNamespace, instName inst)" using ns by (simp add: keyOf_def)
  have all: "(iv s k = Some x \<longrightarrow> claimedBy x \<noteq> None \<longrightarrow> iv t k = Some x) \<and>
    (e = None \<longrightarrow> (\<exists>y. iv t (seedKey opts inst) = Some y \<and> claimedBy y = None \<and> om_Labels (inst_meta inst) \<subseteq>\<^sub>m om_Labels (inst_meta y))) \<and>
    (iv s (seedKey opts inst) = Some x \<longrightarrow> claimedBy x \<noteq> None \<longrightarrow> e \<noteq> None)" for k x
  proof (cases "za_ExistingInstanceName opts \<noteq> ''''")
    case True
    then have "run_state (adoptInstance hub (za_ExistingInstanceName opts) (om_Labels (inst_meta inst))) s = (e, t)"
      using run by (simp add: ensureSeedInstance_def)
    from adoptInstance_run [OF cas id this ls] show ?thesis using True by (auto simp: seedKey_def)
  next
    case False
    obtain w u where w: "run_state (kcreate (cl_Instance hub) inst) s = (w, u)" by fastforce
    show ?thesis
    proof (cases w)
      case (Inr y)
      then have "iv s (keyOf (inst_meta inst)) = None" "instanceBody y = instanceBody inst" "iv u = (iv s)(keyOf (inst_meta inst) \<mapsto> y)"
        using cas_store_create(1-3) [OF cas, of inst s y] w by simp_all
      then show ?thesis using run w Inr False free key
        by (auto simp: ensureSeedInstance_def seedKey_def instanceBody_def claimedBy_def)
    next
      case (Inl err)
      show ?thesis
      proof (cases "isAlreadyExists err")
        case True
        then have "iv u = iv s" using cas_store_create(4) [OF cas, of inst s err] w Inl by simp
        moreover have ad: "run_state (adoptInstance hub (instName inst) (om_Labels (inst_meta inst))) u = (e, t)"
          using run w Inl True False by (simp add: ensureSeedInstance_def)
        ultimately show ?thesis using adoptInstance_run [OF cas id ad ls] False by (auto simp: seedKey_def)
      next
        case not: False
        have "iv s k = Some x \<Longrightarrow> iv u k = Some x" for k x
          using cas_store_create_cases [OF cas, of inst s] w Inl by (auto simp: create_takes_def)
        then show ?thesis using run w Inl False not by (auto simp: ensureSeedInstance_def)
      qed
    qed
  qed
  show "iv s k = Some x \<Longrightarrow> claimedBy x \<noteq> None \<Longrightarrow> iv t k = Some x"
    "e = None \<Longrightarrow> \<exists>y. iv t (seedKey opts inst) = Some y \<and> claimedBy y = None \<and> om_Labels (inst_meta inst) \<subseteq>\<^sub>m om_Labels (inst_meta y)"
    "iv s (seedKey opts inst) = Some x \<Longrightarrow> claimedBy x \<noteq> None \<Longrightarrow> e \<noteq> None" using all [of k x] by blast+
qed

lemma builtInstance_simps [simp]:
  "claimedBy (annotateHostname (builtInstance al opts) h) = None"
  "om_Namespace (inst_meta (annotateHostname (builtInstance al opts) h)) = KontinuumSystemNamespace"
  "om_Labels (inst_meta (builtInstance al opts)) = map_of (zoneLabelPairs opts)"
  "instName (builtInstance al opts) = zal_nameOf al (za_TalosAddress opts)"
  by (simp_all add: claimedBy_def annotateHostname_def builtInstance_def objectMeta_def zoneLabelPairs_def LabelClaimedBy_def LabelRegion_def LabelZone_def)

text \<open>
  C31: Adding a zone takes no machine away.  Whatever the outcome, every Instance that a pool
  has claimed is stored unchanged afterwards; and when the call succeeds there is an
  unclaimed Instance that carries every label the selector of the new InstancePool asks for,
  so the pool has a machine to claim.
\<close>

theorem zone_add_seed:
  assumes st: "seed_store hub opts iv" and run: "run_state (AddZone al hub opts) s = (res, t)"
  shows "(\<forall>k x. iv s k = Some x \<and> claimedBy x \<noteq> None \<longrightarrow> iv t k = Some x) \<and>
    (\<forall>z. res = Inr z \<longrightarrow> (\<exists>k y. iv t k = Some y \<and> claimedBy y = None \<and>
       (\<forall>(l, v)\<in>set (ls_MatchLabels (ips_Selector (pool_Spec (builtPool opts)))). om_Labels (inst_meta y) l = Some v)))"
proof (cases rule: AddZone_cases [where iv = iv, OF seed_storeD(3) [OF st] run, case_names early seed])
    case early
    then show ?thesis by auto
  next
    case (seed u e opts1 hostname)
    note seeded = ensureSeedInstance_run [OF seed_storeD(1,2) [OF st] seed(6) builtInstance_simps(1,2)]
    have sel: "\<forall>(l, v)\<in>set (ls_MatchLabels (ips_Selector (pool_Spec (builtPool opts)))). om_Labels (inst_meta y) l = Some v"
      if "map_of (zoneLabelPairs opts1) \<subseteq>\<^sub>m om_Labels (inst_meta y)" for y
      using that seed(2,3) by (auto simp: builtPool_def zoneLabelPairs_def map_le_def LabelRegion_def LabelZone_def split: if_splits)
    show ?thesis
    proof (intro conjI allI impI)
      show "iv t k = Some x" if "iv s k = Some x \<and> claimedBy x \<noteq> None" for k x using seeded(1) that seed(1) by simp
      fix z assume "res = Inr z"
      then have "e = None" using seed(7) by blast
      from seeded(2) [OF this] show "\<exists>k y. iv t k = Some y \<and> claimedBy y = None \<and>
        (\<forall>(l, v)\<in>set (ls_MatchLabels (ips_Selector (pool_Spec (builtPool opts)))). om_Labels (inst_meta y) l = Some v)"
        using sel by (metis annotateHostname_simps(2) builtInstance_simps(3))
    qed
qed

text \<open>
  Adding a zone again fails once it works.  When the address is an IP address and the
  Instance of that address is claimed, which is what the pool of the zone does with its seed,
  adding the zone returns an error although every object of it exists.
\<close>

theorem zone_add_rerun_fails:
  assumes st: "seed_store hub opts iv" and run: "run_state (AddZone al hub opts) s = (res, t)"
    and ip: "zal_parsesAsIP al (za_TalosAddress opts)" and new: "za_ExistingInstanceName opts = ''''"
    and claimed: "iv s (KontinuumSystemNamespace, zal_nameOf al (za_TalosAddress opts)) = Some x" "claimedBy x \<noteq> None"
  shows "\<exists>err. res = Inl err"
proof (cases rule: AddZone_cases [where iv = iv, OF seed_storeD(3) [OF st] run, case_names early seed])
    case early
    then show ?thesis by auto
  next
    case (seed u e opts1 hostname)
    have "e \<noteq> None" using ensureSeedInstance_run(3) [OF seed_storeD(1,2) [OF st] seed(6) builtInstance_simps(1,2)] claimed seed ip new
      by (simp add: seedKey_def)
    then show ?thesis using seed(7) by (cases res) auto
qed

text \<open>A hub on which the zone exists; the address is a literal and names its Instance.\<close>

definition hub_addlib :: zoneaddlib where
  "hub_addlib = \<lparr>zal_am = std_apimachinery (\<lambda>_. Inr (\<lambda>_. True)), zal_IsDNS1123Label = (\<lambda>_. []), zal_parsesAsIP = (\<lambda>_. True),
     zal_nameOf = (\<lambda>a. ''instance-'' @ a), zal_order = (\<lambda>xs. xs)\<rparr>"

definition hub_options :: "'s ZoneAddOptions" where
  "hub_options = \<lparr>za_Region = ''eu'', za_Zone = ''a'', za_Domain = ''example.com'', za_TalosAddress = ''10.0.0.1'', za_Resolver = (\<lambda>_. return (Inr [])),
     za_TalosVersion = '''', za_KubernetesVersion = '''', za_UnregisterInstancesOnDelete = False, za_ExistingInstanceName = ''''\<rparr>"

definition instances_client :: "(Instance memstore, Instance) kclient" where
  "instances_client = mem_client (\<lambda>m x. x\<lparr>inst_meta := m\<rparr>) inst_meta"

definition hub_client :: "Instance memstore client" where
  "hub_client = down_client\<lparr>cl_Namespace := down_kclient\<lparr>kcreate := (\<lambda>_. return (Inl (ApiError AlreadyExists)))\<rparr>,
     cl_Zone := down_kclient\<lparr>kcreate := (\<lambda>_. return (Inl (ApiError AlreadyExists))), kget := (\<lambda>_. return (Inr (builtZone (hub_options :: nat ZoneAddOptions))))\<rparr>,
     cl_TalosCluster := down_kclient\<lparr>kcreate := (\<lambda>_. return (Inl (ApiError AlreadyExists))), kget := (\<lambda>_. return (Inr (builtCluster (hub_options :: nat ZoneAddOptions))))\<rparr>,
     cl_InstancePool := down_kclient\<lparr>kcreate := (\<lambda>_. return (Inl (ApiError AlreadyExists))), kget := (\<lambda>_. return (Inr (builtPool (hub_options :: nat ZoneAddOptions))))\<rparr>,
     cl_Instance := instances_client\<rparr>"

lemma hub_seed_store: "seed_store hub_client hub_options (mem_view inst_meta)"
proof -
  have "cas_store instances_client inst_meta instanceBody (mem_view inst_meta)"
    unfolding instances_client_def by (rule mem_client_cas_store) (simp_all add: instanceBody_def stamp_def)
  moreover have "keeps_identity instances_client inst_meta"
    by (auto simp: keeps_identity_def instances_client_def mem_client_def mem_view_def mem_write_def Let_def split: option.splits if_splits)
  ultimately show ?thesis
    by (auto simp: seed_store_def hub_client_def zoneadd_calls_leave_def down_client_def down_kclient_def hub_options_def intro: leaves_return)
qed

definition seed_world :: "bool \<Rightarrow> Instance memstore" where
  "seed_world claimed = snd (mem_write (\<lambda>m x. x\<lparr>inst_meta := m\<rparr>) inst_meta
     (let x = builtInstance hub_addlib (hub_options :: nat ZoneAddOptions) in if claimed then setLabel x (Some ''eu-a'') else x) empty_store)"

lemma seed_world_view: "mem_view inst_meta (seed_world b) (''kontinuum-system'', ''instance-10.0.0.1'') =
  Some (let x = builtInstance hub_addlib (hub_options :: nat ZoneAddOptions); y = (if b then setLabel x (Some ''eu-a'') else x) in y\<lparr>inst_meta := stamp 1 (inst_meta y)\<rparr>)"
  by (simp add: seed_world_def Let_def mem_write_view)
    (simp add: empty_store_def builtInstance_def hub_addlib_def hub_options_def objectMeta_def keyOf_def KontinuumSystemNamespace_def setLabel_def)

lemma hub_options_simps [simp]:
  "zal_parsesAsIP hub_addlib a" "za_TalosAddress hub_options = ''10.0.0.1''" "za_ExistingInstanceName hub_options = ''''"
  "zal_nameOf hub_addlib a = ''instance-'' @ a" "za_Region hub_options = ''eu''" "za_Zone hub_options = ''a''" "za_Domain hub_options = ''example.com''"
  by (simp_all add: hub_addlib_def hub_options_def)

theorem zone_add_rerun_fails_witness:
  "\<exists>err. result_of (AddZone hub_addlib hub_client hub_options) (seed_world True) = Inl err"
proof -
  obtain res t where run: "run_state (AddZone hub_addlib hub_client hub_options) (seed_world True) = (res, t)" by fastforce
  have "mem_view inst_meta (seed_world True) (KontinuumSystemNamespace, zal_nameOf hub_addlib (za_TalosAddress hub_options)) =
      Some (let y = setLabel (builtInstance hub_addlib (hub_options :: nat ZoneAddOptions)) (Some ''eu-a'') in y\<lparr>inst_meta := stamp 1 (inst_meta y)\<rparr>)"
    using seed_world_view [of True] by (simp add: KontinuumSystemNamespace_def Let_def)
  from zone_add_rerun_fails [OF hub_seed_store run _ _ this] show ?thesis
    using run by (auto simp: Let_def claimedBy_def setLabel_def stamp_def)
qed

lemma hub_validates: "validateAddOptions hub_addlib (hub_options :: 's ZoneAddOptions) = None"
  by (simp add: validateAddOptions_def hub_addlib_def hub_options_def)

lemma hub_options_upd [simp]: "hub_options\<lparr>za_Domain := ''example.com'', za_TalosAddress := ''10.0.0.1''\<rparr> = hub_options"
  by (simp add: hub_options_def)

lemma hub_calls [simp]:
  "run_state (kcreate (cl_Namespace hub_client) n) s = (Inl (ApiError AlreadyExists), s)"
  "run_state (kcreate (cl_Zone hub_client) z) s = (Inl (ApiError AlreadyExists), s)"
  "run_state (kcreate (cl_TalosCluster hub_client) c) s = (Inl (ApiError AlreadyExists), s)"
  "run_state (kcreate (cl_InstancePool hub_client) p) s = (Inl (ApiError AlreadyExists), s)"
  "run_state (kget (cl_Zone hub_client) k) s = (Inr (builtZone (hub_options :: nat ZoneAddOptions)), s)"
  "run_state (kget (cl_TalosCluster hub_client) k) s = (Inr (builtCluster (hub_options :: nat ZoneAddOptions)), s)"
  "run_state (kget (cl_InstancePool hub_client) k) s = (Inr (builtPool (hub_options :: nat ZoneAddOptions)), s)"
  by (simp_all add: hub_client_def)

lemma hub_owner [simp]: "\<exists>m'. am_setControllerReference (zal_am hub_addlib) own m = Inr m'"
  by (simp add: hub_addlib_def std_apimachinery_def)

theorem zone_add_seed_witness:
  "\<exists>k y. mem_view inst_meta (state_after (AddZone hub_addlib hub_client hub_options) (seed_world False)) k = Some y \<and> claimedBy y = None \<and>
     om_Labels (inst_meta y) LabelRegion = Some ''eu''"
proof -
  let ?o = "hub_options :: Instance memstore ZoneAddOptions"
  obtain res t where run: "run_state (AddZone hub_addlib hub_client ?o) (seed_world False) = (res, t)" by fastforce
  have ad: "result_of (adoptInstance hub_client ''instance-10.0.0.1'' ls) (seed_world False) = None" for ls
    using seed_world_view [of False]
    by (simp add: adoptInstance_def hub_client_def instances_client_def mem_client_def KontinuumSystemNamespace_def Let_def claimedBy_def stamp_def
        builtInstance_def zoneLabelPairs_def LabelRegion_def LabelZone_def LabelClaimedBy_def withLabels_def keyOf_def objectMeta_def mem_write_def)
  have k: "run_state (kcreate (cl_Instance hub_client) (builtInstance hub_addlib ?o)) (seed_world False) = (Inl (ApiError AlreadyExists), seed_world False)"
    using seed_world_view [of False]
    by (simp add: hub_client_def instances_client_def mem_client_def Let_def keyOf_def builtInstance_def objectMeta_def KontinuumSystemNamespace_def)
  have "result_of (ensureSeedInstance hub_client ?o (builtInstance hub_addlib ?o)) (seed_world False) = None"
    using ad by (simp add: ensureSeedInstance_def k)
  then obtain u where seed: "run_state (ensureSeedInstance hub_client ?o (builtInstance hub_addlib ?o)) (seed_world False) = (None, u)"
    by (metis prod.collapse)
  obtain m1 m2 where m: "am_setControllerReference (zal_am hub_addlib) (zone_meta (builtZone (hub_options :: nat ZoneAddOptions))) (tc_meta (builtCluster ?o)) = Inr m1"
    "am_setControllerReference (zal_am hub_addlib) (tc_meta (builtCluster (hub_options :: nat ZoneAddOptions))) (pool_meta (builtPool ?o)) = Inr m2"
    using hub_owner by blast
  have "\<exists>z. res = Inr z"
    using run hub_validates [where 's = "Instance memstore"] seed m
    by (auto simp: AddZone_def resolveTalosAddress_def ResolveAddress_def createZoneObjects_def BuildAddObjects_def zoneEnsureNamespace_def createOnce_def
        ensureObject_def createOwnedDependents_def annotateHostname_def)
  with zone_add_seed [OF hub_seed_store run] show ?thesis using run by (fastforce simp: builtPool_def zoneLabelPairs_def)
qed

section \<open>Waiting for a zone that is installed\<close>

lemma latestLoop_max:
  "latestLoop cs latest = Some l \<Longrightarrow> (\<forall>c\<in>set cs. snd c \<le> snd l) \<and> (\<forall>x. latest = Some x \<longrightarrow> snd x \<le> snd l) \<and> (l \<in> set cs \<or> latest = Some l)"
proof (induction cs arbitrary: latest)
  case (Cons c cs)
  from Cons.IH [of "case latest of None \<Rightarrow> Some c | Some l \<Rightarrow> if snd c > snd l then Some c else latest"] Cons.prems
  show ?case by (cases c; cases latest) (auto split: if_splits)
qed auto

lemma latestCondition_latest:
  assumes "latestCondition cs = Some c"
  shows "\<exists>t. (c, t) \<in> set cs \<and> (\<forall>x\<in>set cs. snd x \<le> t)"
  using assms latestLoop_max [of cs None] by (auto simp: latestCondition_def)

text \<open>
  Waiting can miss that the zone is installed.  When another condition of the Zone
  changed after Installed became true, as RegistryJoined and Ready do once the server of
  the zone has joined, no poll of \<open>zone add --wait\<close> reports success, however often it polls.
\<close>

theorem wait_misses_installed:
  assumes got: "\<And>u. result_of (kget (cl_Zone hub) (KontinuumSystemNamespace, name)) u = Inr z"
    and installed: "\<And>c t. (c, t) \<in> set (timed z) \<Longrightarrow> cond_Type c = InstalledConditionType \<Longrightarrow> t < t'"
    and other: "(c', t') \<in> set (timed z)"
  shows "result_of (waitForZone timed hub timedOut name line polls) s \<noteq> Some None"
proof -
  have "\<not> (cond_Type c = InstalledConditionType \<and> cond_Status c = ConditionTrue)" if "latestCondition (timed z) = Some c" for c
    using latestCondition_latest [OF that] installed other by fastforce
  then have p: "\<exists>line t. run_state (pollZoneOnce timed hub name) u = (Inr (False, line), t)" for u
    using got [of u] by (cases "run_state (kget (cl_Zone hub) (KontinuumSystemNamespace, name)) u")
      (auto simp: pollZoneOnce_def split: option.splits)
  show ?thesis
  proof (induction polls arbitrary: s line)
    case (Suc polls)
    obtain l t where "run_state (pollZoneOnce timed hub name) s = (Inr (False, l), t)" using p by blast
    then show ?case using Suc by (auto split: prod.splits)
  qed simp
qed

definition joined_zone :: Zone where
  "joined_zone = (builtZone (hub_options :: nat ZoneAddOptions))\<lparr>zone_Status := \<lparr>zst_Conditions =
     [cond InstalledConditionType ConditionTrue '''' '''', cond RegistryJoinedConditionType ConditionTrue '''' '''']\<rparr>\<rparr>"

theorem wait_misses_installed_witness:
  "result_of (waitForZone (\<lambda>z. zip (zst_Conditions (zone_Status z)) [100, 101]) (hub_client\<lparr>cl_Zone := down_kclient\<lparr>kget := (\<lambda>_. return (Inr joined_zone))\<rparr>\<rparr>)
     (return False) ''eu-a'' '''' 450) empty_store \<noteq> Some None"
proof -
  have "InstalledConditionType \<noteq> RegistryJoinedConditionType" by (simp add: InstalledConditionType_def RegistryJoinedConditionType_def)
  then show ?thesis
    by (intro wait_misses_installed [where z = joined_zone and t' = 101 and c' = "cond RegistryJoinedConditionType ConditionTrue '''' ''''"])
      (auto simp: joined_zone_def)
qed

end
