(* ===== verification/Addons.thy ===== *)
theory Addons
  imports AddonValues
begin

text \<open>
  The addon reconciler: \<open>controller.go\<close>, \<open>clusterinfo.go\<close> and \<open>secrets.go\<close> of
  \<open>pkg/domain/addon\<close>.  A pass takes the lease of the addon's cluster, waits for the addons
  of earlier waves, resolves the addon to an install request, copies its Secrets, installs
  it and gates the Ready condition on its resource definitions and its pods.  The installer,
  the two probes and the copying of Secrets are interfaces in the source and functions of
  the record here.
\<close>

section \<open>Cluster facts\<close>

text \<open>The kubeconfig of a cluster, read the same way as by the zone controller.\<close>

definition addonClusterKubeconfig :: "'s client \<Rightarrow> TalosCluster \<Rightarrow> ('s, goerr + string) state" where
  "addonClusterKubeconfig c cluster = loadClusterKubeconfig c cluster"

definition controlPlaneMemberCount :: "addonlib \<Rightarrow> 's client \<Rightarrow> TalosCluster \<Rightarrow> ('s, goerr + int) state" where
  "controlPlaneMemberCount al c cluster = do {
     l \<leftarrow> klist (cl_Instance c) (Some (clusterNamespace cluster))
            (matchingLabel LabelClaimedBy (ipr_Name (tcm_PoolRef (tcs_ControlPlane (tc_Spec cluster)))));
     (case l of
        Inl err \<Rightarrow> return (Inl (Errorf ''failed to list control-plane instances for %q: %w'' [clusterName cluster] [err]))
      | Inr items \<Rightarrow> return (Inr (int (length (filter
          (\<lambda>i. am_isStatusConditionTrue (al_am al) (ist_Conditions (inst_Status i)) DiscoveredConditionType) items)))))
   }"

section \<open>Secrets of an addon\<close>

definition errAddonSecretNotFound :: goerr where
  "errAddonSecretNotFound = Sentinel ''addon secret not found on the hub''"

definition copySecret :: "string \<Rightarrow> Secret \<Rightarrow> Secret" where
  "copySecret namespace source = (secretObj namespace (om_Name (sec_meta source)))
     \<lparr>sec_Type := sec_Type source, sec_Data := sec_Data source\<rparr>"

definition upsertSecret :: "'s client \<Rightarrow> string \<Rightarrow> Secret \<Rightarrow> ('s, goerr option) state" where
  "upsertSecret c namespace source =
     (let name = om_Name (sec_meta source) in do {
        g \<leftarrow> kget (cl_Secret c) (namespace, name);
        (case g of
           Inl err \<Rightarrow>
             if isNotFound err then do {
               k \<leftarrow> kcreate (cl_Secret c) (copySecret namespace source);
               (case k of Inl err \<Rightarrow> return (Some (Errorf ''failed to create secret %q: %w'' [name] [err])) | Inr _ \<Rightarrow> return None)
             }
             else return (Some (Errorf ''failed to get secret %q: %w'' [name] [err]))
         | Inr existing \<Rightarrow> do {
             u \<leftarrow> kupdate (cl_Secret c) (existing\<lparr>sec_Data := sec_Data source\<rparr>);
             (case u of Inl err \<Rightarrow> return (Some (Errorf ''failed to update secret %q: %w'' [name] [err])) | Inr _ \<Rightarrow> return None)
           })
      })"

fun upsertSecrets :: "'s client \<Rightarrow> string \<Rightarrow> Secret list \<Rightarrow> ('s, goerr option) state" where
  "upsertSecrets c namespace [] = return None"
| "upsertSecrets c namespace (secret # secrets) = andThen (upsertSecret c namespace secret) (upsertSecrets c namespace secrets)"

text \<open>The production syncer, over the parser of a kubeconfig and the constructor of a client.\<close>

definition SyncSecrets :: "(string \<Rightarrow> goerr + 'cfg) \<Rightarrow> ('cfg \<Rightarrow> goerr + 's client) \<Rightarrow> string \<Rightarrow> string \<Rightarrow> Secret list \<Rightarrow> ('s, goerr option) state" where
  "SyncSecrets restConfig newClient kubeconfig namespace secrets = (case restConfig kubeconfig of
       Inl err \<Rightarrow> return (Some (Errorf ''failed to parse cluster kubeconfig: %w'' [] [err]))
     | Inr cfg \<Rightarrow> (case newClient cfg of
         Inl err \<Rightarrow> return (Some (Errorf ''failed to build cluster client: %w'' [] [err]))
       | Inr c \<Rightarrow> do {
           n \<leftarrow> kcreate (cl_Namespace c) (namespaceObj namespace);
           (case n of
              Inl err \<Rightarrow> if \<not> isAlreadyExists err then return (Some (Errorf ''failed to create namespace %q: %w'' [namespace] [err]))
                 else upsertSecrets c namespace secrets
            | Inr _ \<Rightarrow> upsertSecrets c namespace secrets)
         }))"

fun fetchSecrets :: "'s client \<Rightarrow> string \<Rightarrow> AddonSecretReference list \<Rightarrow> ('s, goerr + Secret list) state" where
  "fetchSecrets c namespace [] = return (Inr [])"
| "fetchSecrets c namespace (ref # refs) = do {
     g \<leftarrow> kget (cl_Secret c) (namespace, asr_Name ref);
     (case g of
        Inl err \<Rightarrow>
          if isNotFound err then return (Inl (Errorf ''%w: %s/%s'' [namespace, asr_Name ref] [errAddonSecretNotFound]))
          else return (Inl (Errorf ''failed to get addon secret %q: %w'' [asr_Name ref] [err]))
      | Inr secret \<Rightarrow> do {
          rest \<leftarrow> fetchSecrets c namespace refs;
          (case rest of Inl err \<Rightarrow> return (Inl err) | Inr secrets \<Rightarrow> return (Inr (secret # secrets)))
        })
   }"

definition fetchAddonSecrets :: "'s client \<Rightarrow> Addon \<Rightarrow> ('s, goerr + Secret list) state" where
  "fetchAddonSecrets c addon = fetchSecrets c (om_Namespace (addon_meta addon)) (asp_Secrets (addon_Spec addon))"

section \<open>The reconciler\<close>

definition addonReadyConditionType :: string where "addonReadyConditionType = ''Ready''"

definition addonDefaultRetryInterval :: int where "addonDefaultRetryInterval = 15 * second"

definition defaultResyncInterval :: int where "defaultResyncInterval = 5 * minute"

type_synonym 's Installer = "string \<Rightarrow> InstallRequest \<Rightarrow> ('s, goerr option) state"
type_synonym 's PodProber = "string \<Rightarrow> string \<Rightarrow> string \<Rightarrow> string \<Rightarrow> ('s, goerr + bool \<times> string) state"
type_synonym 's CRDChecker = "string \<Rightarrow> InstallRequest \<Rightarrow> ('s, goerr + bool \<times> string) state"
type_synonym 's SecretSyncer = "string \<Rightarrow> string \<Rightarrow> Secret list \<Rightarrow> ('s, goerr option) state"

record 's AddonConfig =
  ac_Installer :: "'s Installer option"
  ac_PodProber :: "'s PodProber option"
  ac_CRDChecker :: "'s CRDChecker option"
  ac_SecretSyncer :: "'s SecretSyncer option"
  ac_RetryInterval :: int
  ac_ResyncInterval :: int
  ac_ZoneLease :: Identity

text \<open>The production implementations, which the constructor fills in, are arguments.\<close>

definition NewAddonController :: "'s Installer \<Rightarrow> 's PodProber \<Rightarrow> 's CRDChecker \<Rightarrow> 's SecretSyncer \<Rightarrow> 's AddonConfig \<Rightarrow> 's AddonConfig" where
  "NewAddonController helm pods crds syncer cfg = cfg
     \<lparr>ac_Installer := (case ac_Installer cfg of None \<Rightarrow> Some helm | x \<Rightarrow> x),
      ac_PodProber := (case ac_PodProber cfg of None \<Rightarrow> Some pods | x \<Rightarrow> x),
      ac_CRDChecker := (case ac_CRDChecker cfg of None \<Rightarrow> Some crds | x \<Rightarrow> x),
      ac_SecretSyncer := (case ac_SecretSyncer cfg of None \<Rightarrow> Some syncer | x \<Rightarrow> x),
      ac_RetryInterval := (if ac_RetryInterval cfg = 0 then addonDefaultRetryInterval else ac_RetryInterval cfg),
      ac_ResyncInterval := (if ac_ResyncInterval cfg = 0 then defaultResyncInterval else ac_ResyncInterval cfg)\<rparr>"

record 's AddonReconciler =
  ar_Client :: "'s client"
  ar_Installer :: "'s Installer"
  ar_PodProber :: "'s PodProber"
  ar_CRDChecker :: "'s CRDChecker"
  ar_SecretSyncer :: "'s SecretSyncer"
  ar_RetryInterval :: int
  ar_ResyncInterval :: int
  ar_Locker :: "'s Locker"

abbreviation addonCluster :: "Addon \<Rightarrow> string" where "addonCluster addon \<equiv> tcr_Name (asp_TalosClusterRef (addon_Spec addon))"

abbreviation addonNamespace :: "Addon \<Rightarrow> string" where "addonNamespace addon \<equiv> om_Namespace (addon_meta addon)"

abbreviation addonReady :: "addonlib \<Rightarrow> Addon \<Rightarrow> bool" where
  "addonReady al addon \<equiv> am_isStatusConditionTrue (al_am al) (ast_Conditions (addon_Status addon)) addonReadyConditionType"

text \<open>\<open>Inl\<close>: the outcome Reconcile returns at once.\<close>

definition addonAcquireZoneLease :: "'s world \<Rightarrow> 's AddonReconciler \<Rightarrow> Addon \<Rightarrow> ('s, outcome + unit) state" where
  "addonAcquireZoneLease w r addon = do {
     a \<leftarrow> TryAcquire w (ar_Locker r) (addonCluster addon);
     (case a of
        Inl err \<Rightarrow> return (Inl (noRequeue, Some (Errorf ''failed to acquire zone lease for addon %q: %w'' [addonName addon] [err])))
      | Inr acquired \<Rightarrow>
          if \<not> acquired then do { d \<leftarrow> Jitter w (ar_RetryInterval r); return (Inl (\<lparr>requeueAfter = d\<rparr>, None)) }
          else return (Inr ()))
   }"

text \<open>The loop over the siblings: \<open>Inr False\<close> means that one of an earlier wave is not ready.\<close>

fun waveLoop :: "addonlib \<Rightarrow> Addon \<Rightarrow> int32 \<Rightarrow> Addon list \<Rightarrow> goerr + bool" where
  "waveLoop al addon myPriority [] = Inr True"
| "waveLoop al addon myPriority (sibling # siblings) =
     (if addonName sibling = addonName addon \<or> \<not> Enabled (addon_Spec sibling) then waveLoop al addon myPriority siblings
      else (case EffectivePriority al sibling of
         Inl err \<Rightarrow> Inl err
       | Inr siblingPriority \<Rightarrow>
           if sint siblingPriority \<ge> sint myPriority then waveLoop al addon myPriority siblings
           else if \<not> addonReady al sibling then Inr False
           else waveLoop al addon myPriority siblings))"

definition waitForEarlierWaves :: "addonlib \<Rightarrow> 's AddonReconciler \<Rightarrow> Addon \<Rightarrow> ('s, outcome + unit) state" where
  "waitForEarlierWaves al r addon = (case EffectivePriority al addon of
       Inl err \<Rightarrow> return (Inl (noRequeue, Some err))
     | Inr myPriority \<Rightarrow> do {
         l \<leftarrow> ListForCluster (ar_Client r) (addonNamespace addon) (addonCluster addon);
         (case l of
            Inl err \<Rightarrow> return (Inl (noRequeue, Some err))
          | Inr siblings \<Rightarrow> (case waveLoop al addon myPriority siblings of
              Inl err \<Rightarrow> return (Inl (noRequeue, Some err))
            | Inr ready \<Rightarrow> if \<not> ready then return (Inl (\<lparr>requeueAfter = ar_RetryInterval r\<rparr>, None)) else return (Inr ())))
       })"

text \<open>\<open>Inr None\<close>: the cluster is gone; \<open>Inr (Some None)\<close>: no kubeconfig is stored yet.\<close>

definition clusterKubeconfig :: "'s AddonReconciler \<Rightarrow> string \<Rightarrow> string \<Rightarrow> ('s, goerr + string option option) state" where
  "clusterKubeconfig r namespace name = do {
     g \<leftarrow> kget (cl_TalosCluster (ar_Client r)) (namespace, name);
     (case g of
        Inl err \<Rightarrow> if isNotFound err then return (Inr None) else return (Inl (Errorf ''failed to get talos cluster %q: %w'' [name] [err]))
      | Inr cluster \<Rightarrow> do {
          k \<leftarrow> addonClusterKubeconfig (ar_Client r) cluster;
          (case k of Inl err \<Rightarrow> return (Inr (Some None)) | Inr kubeconfig \<Rightarrow> return (Inr (Some (Some kubeconfig))))
        })
   }"

definition readyKubeconfig :: "'s AddonReconciler \<Rightarrow> string \<Rightarrow> string \<Rightarrow> ('s, outcome + string) state" where
  "readyKubeconfig r namespace name = do {
     k \<leftarrow> clusterKubeconfig r namespace name;
     (case k of
        Inl err \<Rightarrow> return (Inl (noRequeue, Some err))
      | Inr None \<Rightarrow> return (Inl (noRequeue, None))
      | Inr (Some None) \<Rightarrow> return (Inl (\<lparr>requeueAfter = ar_RetryInterval r\<rparr>, None))
      | Inr (Some (Some kubeconfig)) \<Rightarrow> return (Inr kubeconfig))
   }"

definition resolveInstallRequest :: "addonlib \<Rightarrow> 's AddonReconciler \<Rightarrow> Addon \<Rightarrow> ('s, goerr + InstallRequest) state" where
  "resolveInstallRequest al r addon = do {
     g \<leftarrow> kget (cl_TalosCluster (ar_Client r)) (addonNamespace addon, addonCluster addon);
     (case g of
        Inl err \<Rightarrow> return (Inl (Errorf ''failed to get talos cluster %q: %w'' [addonCluster addon] [err]))
      | Inr cluster \<Rightarrow> do {
          n \<leftarrow> controlPlaneMemberCount al (ar_Client r) cluster;
          (case n of
             Inl err \<Rightarrow> return (Inl err)
           | Inr controlPlaneCount \<Rightarrow> (case CelContext al cluster controlPlaneCount of
               Inl err \<Rightarrow> return (Inl err)
             | Inr celCtx \<Rightarrow> return (resolveAddon al (addon_Spec addon) celCtx)))
        })
   }"

definition helmChartLabel :: "addonlib \<Rightarrow> string \<Rightarrow> string \<Rightarrow> string" where
  "helmChartLabel al chartName version =
     (let label = chartName @ ''-'' @ version in if length (al_IsValidLabelValue al label) > 0 then '''' else label)"

definition probeHealthy :: "addonlib \<Rightarrow> 's AddonReconciler \<Rightarrow> string \<Rightarrow> InstallRequest \<Rightarrow> ('s, goerr + bool \<times> string) state" where
  "probeHealthy al r kubeconfig req = do {
     h \<leftarrow> ar_PodProber r kubeconfig (ir_Namespace req) (ir_ReleaseName req) (helmChartLabel al (ir_ChartName req) (ir_Version req));
     (case h of
        Inl err \<Rightarrow> return (Inl (Errorf ''failed to probe pod health in %q: %w'' [ir_Namespace req] [err]))
      | Inr healthy \<Rightarrow> return (Inr healthy))
   }"

definition withReady :: "addonlib \<Rightarrow> ConditionStatus \<Rightarrow> string \<Rightarrow> string \<Rightarrow> Addon \<Rightarrow> bool \<times> Addon" where
  "withReady al status reason message addon =
     (case am_setStatusCondition (al_am al) (ast_Conditions (addon_Status addon)) (cond addonReadyConditionType status reason message) of
        (changed, cs) \<Rightarrow> (changed, addon\<lparr>addon_Status := (addon_Status addon)\<lparr>ast_Conditions := cs\<rparr>\<rparr>))"

definition setReady :: "addonlib \<Rightarrow> 's AddonReconciler \<Rightarrow> Addon \<Rightarrow> ConditionStatus \<Rightarrow> string \<Rightarrow> string \<Rightarrow> ('s, outcome) state" where
  "setReady al r addon status reason message =
     (let result = (if status = ConditionTrue then \<lparr>requeueAfter = ar_ResyncInterval r\<rparr> else \<lparr>requeueAfter = ar_RetryInterval r\<rparr>) in
      case withReady al status reason message addon of (changed, addon1) \<Rightarrow>
        if changed then do {
          u \<leftarrow> kupdateStatus (cl_Addon (ar_Client r)) addon1;
          (case u of
             Inl err \<Rightarrow> return (noRequeue, Some (Errorf ''failed to update addon %q status: %w'' [addonName addon] [err]))
           | Inr _ \<Rightarrow> return (result, None))
        }
        else return (result, None))"

definition syncSecrets :: "'s AddonReconciler \<Rightarrow> Addon \<Rightarrow> string \<Rightarrow> string \<Rightarrow> ('s, goerr option) state" where
  "syncSecrets r addon kubeconfig namespace =
     (if length (asp_Secrets (addon_Spec addon)) = 0 then return None
      else do {
        f \<leftarrow> fetchAddonSecrets (ar_Client r) addon;
        (case f of
           Inl err \<Rightarrow> return (Some err)
         | Inr secrets \<Rightarrow> do {
             e \<leftarrow> ar_SecretSyncer r kubeconfig namespace secrets;
             return (wrapErr ''failed to copy secrets to cluster: %w'' [] e)
           })
      })"

definition installAndVerify :: "addonlib \<Rightarrow> 's AddonReconciler \<Rightarrow> Addon \<Rightarrow> string \<Rightarrow> InstallRequest \<Rightarrow> ('s, outcome) state" where
  "installAndVerify al r addon kubeconfig req = do {
     e \<leftarrow> syncSecrets r addon kubeconfig (ir_Namespace req);
     (case e of
        Some err \<Rightarrow> setReady al r addon ConditionFalse ''SecretSyncFailed'' (am_errorText (al_am al) err)
      | None \<Rightarrow> do {
          i \<leftarrow> ar_Installer r kubeconfig req;
          (case i of
             Some err \<Rightarrow> setReady al r addon ConditionFalse ''InstallFailed'' (am_errorText (al_am al) err)
           | None \<Rightarrow> do {
               k \<leftarrow> ar_CRDChecker r kubeconfig req;
               (case k of
                  Inl err \<Rightarrow> return (noRequeue, Some (Errorf ''failed to check crd readiness for addon %q: %w'' [addonName addon] [err]))
                | Inr (crdsOK, crdReason) \<Rightarrow>
                    if \<not> crdsOK then setReady al r addon ConditionFalse ''CRDsNotReady'' crdReason
                    else do {
                      h \<leftarrow> probeHealthy al r kubeconfig req;
                      (case h of
                         Inl err \<Rightarrow> return (noRequeue, Some err)
                       | Inr (healthy, reason) \<Rightarrow>
                           if \<not> healthy then setReady al r addon ConditionFalse ''NotHealthy'' reason
                           else setReady al r addon ConditionTrue ''Healthy'' ''installed and healthy'')
                    })
             })
        })
   }"

text \<open>\<open>Reconcile\<close> from the lease on, and the whole of it.\<close>

definition addonPass :: "'s world \<Rightarrow> addonlib \<Rightarrow> 's AddonReconciler \<Rightarrow> Addon \<Rightarrow> ('s, outcome) state" where
  "addonPass w al r addon = do {
     a \<leftarrow> addonAcquireZoneLease w r addon;
     (case a of
        Inl out \<Rightarrow> return out
      | Inr _ \<Rightarrow> do {
          e \<leftarrow> waitForEarlierWaves al r addon;
          (case e of
             Inl out \<Rightarrow> return out
           | Inr _ \<Rightarrow> do {
               k \<leftarrow> readyKubeconfig r (addonNamespace addon) (addonCluster addon);
               (case k of
                  Inl out \<Rightarrow> return out
                | Inr kubeconfig \<Rightarrow> do {
                    q \<leftarrow> resolveInstallRequest al r addon;
                    (case q of
                       Inl err \<Rightarrow> setReady al r addon ConditionFalse ''InstallFailed'' (am_errorText (al_am al) err)
                     | Inr req \<Rightarrow> installAndVerify al r addon kubeconfig req)
                  })
             })
        })
   }"

definition withReleaseName :: "Addon \<Rightarrow> Addon" where
  "withReleaseName addon = addon\<lparr>addon_Spec := (addon_Spec addon)\<lparr>asp_ReleaseName := ReleaseName addon\<rparr>\<rparr>"

definition AddonReconcile :: "'s world \<Rightarrow> addonlib \<Rightarrow> 's AddonReconciler \<Rightarrow> ObjectKey \<Rightarrow> ('s, outcome) state" where
  "AddonReconcile w al r req = do {
     g \<leftarrow> kget (cl_Addon (ar_Client r)) req;
     (case g of
        Inl err \<Rightarrow>
          if isNotFound err then return (noRequeue, None)
          else return (noRequeue, Some (Errorf ''failed to get addon %q: %w'' [snd req] [err]))
      | Inr addon \<Rightarrow>
          if \<not> Enabled (addon_Spec (withReleaseName addon)) then return (noRequeue, None)
          else addonPass w al r (withReleaseName addon))
   }"

section \<open>Waves\<close>

text \<open>What the loop over the siblings decides.\<close>

lemma waveLoop_passed:
  "waveLoop al addon p siblings = Inr True \<Longrightarrow> x \<in> set siblings \<Longrightarrow> addonName x \<noteq> addonName addon \<Longrightarrow> Enabled (addon_Spec x) \<Longrightarrow>
   \<exists>q. EffectivePriority al x = Inr q \<and> (sint q < sint p \<longrightarrow> addonReady al x)"
  by (induction siblings) (auto split: sum.splits if_splits)

lemma waveLoop_passes:
  "(\<And>x. x \<in> set siblings \<Longrightarrow> Enabled (addon_Spec x) \<Longrightarrow> \<exists>q. EffectivePriority al x = Inr q \<and> (sint q < sint p \<longrightarrow> addonReady al x)) \<Longrightarrow>
   waveLoop al addon p siblings = Inr True"
  by (induction siblings) (fastforce split: sum.splits)+

text \<open>
  The calls of a pass other than the installer and the copying of Secrets, as a state
  predicate they keep.
\<close>

definition addon_calls_leave :: "('s \<Rightarrow> bool) \<Rightarrow> 's world \<Rightarrow> 's AddonReconciler \<Rightarrow> bool" where
  "addon_calls_leave I w r \<longleftrightarrow> locker_calls_leave I w (ar_Locker r) \<and>
     (\<forall>k. leaves I (kget (cl_Addon (ar_Client r)) k)) \<and> (\<forall>ns p. leaves I (klist (cl_Addon (ar_Client r)) ns p)) \<and>
     (\<forall>x. leaves I (kupdateStatus (cl_Addon (ar_Client r)) x)) \<and> (\<forall>k. leaves I (kget (cl_TalosCluster (ar_Client r)) k)) \<and>
     (\<forall>k. leaves I (kget (cl_Secret (ar_Client r)) k)) \<and> (\<forall>ns p. leaves I (klist (cl_Instance (ar_Client r)) ns p)) \<and>
     (\<forall>c n l x. leaves I (ar_PodProber r c n l x)) \<and> (\<forall>c q. leaves I (ar_CRDChecker r c q))"

lemma addon_get_leaves: "addon_calls_leave I w r \<Longrightarrow> leaves I (kget (cl_Addon (ar_Client r)) k)"
  unfolding addon_calls_leave_def by blast

lemma addon_steps_leave:
  assumes "addon_calls_leave I w r"
  shows "leaves I (addonAcquireZoneLease w r addon)" and "leaves I (waitForEarlierWaves al r addon)"
    and "leaves I (readyKubeconfig r ns n)" and "leaves I (resolveInstallRequest al r addon)" and "leaves I (setReady al r addon st re m)"
  using assms unfolding addon_calls_leave_def addonAcquireZoneLease_def waitForEarlierWaves_def ListForCluster_def readyKubeconfig_def
    clusterKubeconfig_def addonClusterKubeconfig_def loadClusterKubeconfig_def resolveInstallRequest_def controlPlaneMemberCount_def
    setReady_def Let_def
  by (auto intro!: leaves_rules intro: TryAcquire_leaves Jitter_leaves split: prod.splits sum.splits option.splits)

lemma waitForEarlierWaves_passed:
  assumes "run_state (waitForEarlierWaves al r addon) s = (Inr u, t)"
  shows "\<exists>p siblings. EffectivePriority al addon = Inr p \<and>
    result_of (ListForCluster (ar_Client r) (addonNamespace addon) (addonCluster addon)) s = Inr siblings \<and>
    waveLoop al addon p siblings = Inr True"
  using assms by (auto simp: waitForEarlierWaves_def split: sum.splits prod.splits if_splits)

lemma addonPass_waits:
  assumes I: "addon_calls_leave I w r" and "I s" and "\<not> I (state_after (addonPass w al r addon) s)"
  shows "\<exists>s1 p siblings. EffectivePriority al addon = Inr p \<and>
    result_of (ListForCluster (ar_Client r) (addonNamespace addon) (addonCluster addon)) s1 = Inr siblings \<and>
    waveLoop al addon p siblings = Inr True"
proof -
  obtain a s1 where a: "run_state (addonAcquireZoneLease w r addon) s = (a, s1)" by fastforce
  then have s1: "I s1" using addon_steps_leave(1) [OF I] assms(2) leaves_run by metis
  obtain e s2 where e: "run_state (waitForEarlierWaves al r addon) s1 = (e, s2)" by fastforce
  then have s2: "I s2" using addon_steps_leave(2) [OF I] s1 leaves_run by metis
  have "\<exists>u. e = Inr u"
  proof (rule ccontr)
    assume "\<not> ?thesis"
    then have "state_after (addonPass w al r addon) s \<in> {s1, s2}"
      using a e by (cases e; cases a) (auto simp: addonPass_def)
    with s1 s2 assms(3) show False by auto
  qed
  then obtain u where "run_state (waitForEarlierWaves al r addon) s1 = (Inr u, s2)" using e by auto
  from waitForEarlierWaves_passed [OF this] show ?thesis by blast
qed

text \<open>
  C11: An addon waits for the earlier waves.  Whatever view of the addon's cluster the hub's
  own calls and the two probes leave alone: if a pass changes it, by installing or by
  copying Secrets, then the addon is enabled and every other enabled addon of the cluster
  that was listed with a strictly smaller priority was ready.
\<close>

theorem addon_waits_for_waves:
  assumes "\<And>x. addon_calls_leave (\<lambda>s. view s = x) w r"
    and "run_state (AddonReconcile w al r req) s = (out, t)" and "view t \<noteq> view s"
  shows "\<exists>addon p s1 siblings. result_of (kget (cl_Addon (ar_Client r)) req) s = Inr addon \<and> Enabled (addon_Spec addon) \<and>
    EffectivePriority al (withReleaseName addon) = Inr p \<and>
    result_of (ListForCluster (ar_Client r) (addonNamespace addon) (addonCluster addon)) s1 = Inr siblings \<and>
    (\<forall>x\<in>set siblings. addonName x \<noteq> addonName addon \<and> Enabled (addon_Spec x) \<longrightarrow>
       (\<exists>q. EffectivePriority al x = Inr q \<and> (sint q < sint p \<longrightarrow> addonReady al x)))"
proof -
  let ?I = "\<lambda>x. view x = view s"
  obtain g s1 where g: "run_state (kget (cl_Addon (ar_Client r)) req) s = (g, s1)" by fastforce
  then have s1: "view s1 = view s" using leaves_run [OF addon_get_leaves [OF assms(1) [of "view s"]]] by blast
  then obtain addon where addon: "g = Inr addon" "Enabled (addon_Spec addon)" "t = state_after (addonPass w al r (withReleaseName addon)) s1"
    using assms(2,3) g by (auto simp: AddonReconcile_def withReleaseName_def Enabled_def split: sum.splits if_splits)
  have "\<exists>s2 p siblings. EffectivePriority al (withReleaseName addon) = Inr p \<and>
    result_of (ListForCluster (ar_Client r) (addonNamespace (withReleaseName addon)) (addonCluster (withReleaseName addon))) s2 = Inr siblings \<and>
    waveLoop al (withReleaseName addon) p siblings = Inr True"
    using addonPass_waits [OF assms(1) [of "view s"], of s1 al "withReleaseName addon"] s1 addon(3) assms(3) by simp
  moreover have "addonNamespace (withReleaseName addon) = addonNamespace addon" "addonName (withReleaseName addon) = addonName addon"
    "addonCluster (withReleaseName addon) = addonCluster addon" by (simp_all add: withReleaseName_def)
  ultimately show ?thesis using g addon waveLoop_passed by (metis fst_conv)
qed

text \<open>
  Waves never deadlock.  Among the addons of a cluster whose priorities can be
  determined, if an enabled one is not ready then one such addon is held back by nobody: it
  passes the check for earlier waves.
\<close>

theorem addon_waves_progress:
  assumes "\<And>x. x \<in> set addons \<Longrightarrow> \<exists>q. EffectivePriority al x = Inr q"
    and "x0 \<in> set addons" and "Enabled (addon_Spec x0)" and "\<not> addonReady al x0"
  shows "\<exists>addon p. addon \<in> set addons \<and> Enabled (addon_Spec addon) \<and> \<not> addonReady al addon \<and>
    EffectivePriority al addon = Inr p \<and> waveLoop al addon p addons = Inr True"
proof -
  let ?W = "{x \<in> set addons. Enabled (addon_Spec x) \<and> \<not> addonReady al x}"
  let ?p = "\<lambda>x. sint (projr (EffectivePriority al x))"
  have "finite ?W" "?W \<noteq> {}" using assms(2-4) by auto
  then obtain a where a: "is_arg_min ?p (\<lambda>x. x \<in> ?W) a" using ex_is_arg_min_if_finite [of ?W ?p] by auto
  then have aW: "a \<in> set addons" "Enabled (addon_Spec a)" "\<not> addonReady al a" by (auto simp: is_arg_min_def)
  then obtain p where p: "EffectivePriority al a = Inr p" using assms(1) by blast
  have "waveLoop al a p addons = Inr True"
  proof (rule waveLoop_passes)
    fix x assume x: "x \<in> set addons" "Enabled (addon_Spec x)"
    then obtain q where "EffectivePriority al x = Inr q" using assms(1) by blast
    moreover have "sint q < sint p \<Longrightarrow> addonReady al x"
      using a x p calculation by (auto simp: is_arg_min_def not_less)
    ultimately show "\<exists>q. EffectivePriority al x = Inr q \<and> (sint q < sint p \<longrightarrow> addonReady al x)" by blast
  qed
  with aW p show ?thesis by blast
qed

section \<open>A cluster with two waves\<close>

text \<open>
  The state is the number of installations.  Every read has a fixed answer: the addon
  \<open>cilium\<close>, and the ready addon of an earlier wave beside it.
\<close>

definition wave_first :: Addon where
  "wave_first = (emptyAddon ''kontinuum-system'' ''eu-a-gateway-api-crds'')
     \<lparr>addon_Spec := (addon_Spec demo_addon)\<lparr>asp_ReleaseName := gatewayAPICRDsAddonName,
        asp_Lifecycle := \<lparr>als_Provisioning = \<lparr>aps_Method = ''''\<rparr>, als_Priority = Some 50\<rparr>\<rparr>,
      addon_Status := \<lparr>ast_Conditions = [cond addonReadyConditionType ConditionTrue ''Healthy'' ''installed and healthy'']\<rparr>\<rparr>"

definition wave_cluster :: TalosCluster where
  "wave_cluster = \<lparr>tc_meta = objectMeta ''kontinuum-system'' ''eu-a'',
     tc_Spec = \<lparr>tcs_Talos = \<lparr>tsp_Version = ''''\<rparr>, tcs_Kubernetes = \<lparr>k8s_Version = ''''\<rparr>, tcs_ControlPlane = \<lparr>tcm_PoolRef = \<lparr>ipr_Name = ''eu-a''\<rparr>\<rparr>,
        tcs_Workers = [], tcs_Teardown = \<lparr>tds_UnregisterInstances = False\<rparr>\<rparr>,
     tc_Status = \<lparr>tcst_Conditions = [], tcst_SecretRef = secretRefFor ''eu-a''\<rparr>\<rparr>"

definition wave_client :: "nat client" where
  "wave_client = down_client
     \<lparr>cl_Namespace := down_kclient\<lparr>kcreate := (\<lambda>x. return (Inr x))\<rparr>,
      cl_Lease := down_kclient\<lparr>kget := (\<lambda>_. return (Inl (ApiError NotFound))), kcreate := (\<lambda>x. return (Inr x))\<rparr>,
      cl_Addon := down_kclient\<lparr>kget := (\<lambda>_. return (Inr demo_addon)), klist := (\<lambda>_ _. return (Inr [demo_addon, wave_first])),
        kupdateStatus := (\<lambda>x. return (Inr x))\<rparr>,
      cl_TalosCluster := down_kclient\<lparr>kget := (\<lambda>_. return (Inr wave_cluster))\<rparr>,
      cl_Secret := down_kclient\<lparr>kget := (\<lambda>_. return (Inr ((secretObj '''' '''')\<lparr>sec_Data := [kubeconfigSecretKey \<mapsto> ''cfg'']\<rparr>)))\<rparr>,
      cl_Instance := down_kclient\<lparr>klist := (\<lambda>_ _. return (Inr []))\<rparr>\<rparr>"

definition wave_reconciler :: "nat AddonReconciler" where
  "wave_reconciler = \<lparr>ar_Client = wave_client, ar_Installer = (\<lambda>_ _. State (\<lambda>n. (None, Suc n))),
     ar_PodProber = (\<lambda>_ _ _ _. return (Inr (True, ''''))), ar_CRDChecker = (\<lambda>_ _. return (Inr (True, ''''))),
     ar_SecretSyncer = (\<lambda>_ _ _. return None), ar_RetryInterval = 15, ar_ResyncInterval = 300,
     ar_Locker = \<lparr>lk_Client = wave_client, lk_Reader = wave_client, lk_HolderIdentity = ''hub'', lk_SelfZoneKey = '''', lk_LeaseDuration = 30\<rparr>\<rparr>"

lemmas wave_defs = wave_reconciler_def wave_client_def down_client_def down_kclient_def

lemma wave_quiet: "addon_calls_leave I (still_world 0) wave_reconciler"
  by (auto simp: addon_calls_leave_def locker_calls_leave_def wave_defs still_world_def leaves_return)

lemma wave_resolved:
  "ReleaseName demo_addon = ciliumAddonName" "withReleaseName demo_addon = demo_addon" "Enabled (addon_Spec demo_addon)"
  "EffectivePriority demo_addonlib demo_addon = Inr 100" "EffectivePriority demo_addonlib wave_first = Inr 50"
  "addonReady demo_addonlib wave_first" "Enabled (addon_Spec wave_first)" "addonName wave_first \<noteq> addonName demo_addon"
  by (simp_all add: ReleaseName_def withReleaseName_def demo_addon_def emptyAddon_def Enabled_def EffectivePriority_def loadAddonDefaults_def
      demo_addonlib_def demo_defaults_def zeroAddonDefaults_def ciliumAddonName_def wave_first_def addonReadyConditionType_def
      std_apimachinery_def addonNamesWithDefaults_def builtinAddonNames_def objectMeta_def)

lemma wave_lease: "run_state (addonAcquireZoneLease (still_world 0) wave_reconciler a) n = (Inr (), n)"
  by (simp add: addonAcquireZoneLease_def TryAcquire_def create_def ensureNamespace_def wave_defs still_world_def Let_def)

lemma wave_listed: "run_state (ListForCluster (ar_Client wave_reconciler) ns ''eu-a'') n = (Inr [demo_addon, wave_first], n)"
  by (simp add: ListForCluster_def wave_defs demo_addon_def wave_first_def emptyAddon_def)

lemma wave_demo_meta: "addonCluster demo_addon = ''eu-a''" "asp_Secrets (addon_Spec demo_addon) = []"
  by (simp_all add: demo_addon_def emptyAddon_def)

lemma wave_waited: "run_state (waitForEarlierWaves demo_addonlib wave_reconciler demo_addon) n = (Inr (), n)"
  by (simp add: waitForEarlierWaves_def wave_resolved wave_listed wave_demo_meta)

lemma wave_request:
  "run_state (resolveInstallRequest demo_addonlib wave_reconciler demo_addon) n = (Inr demo_request, n)"
proof -
  have "al_toUnstructured demo_addonlib c = Inr []" for c by (simp add: demo_addonlib_def)
  then show ?thesis by (simp add: resolveInstallRequest_def wave_defs controlPlaneMemberCount_def CelContext_def demo_resolved)
qed

lemma wave_setReady: "state_after (setReady demo_addonlib wave_reconciler a st re m) n = n"
  by (simp add: setReady_def Let_def wave_defs split: prod.splits)

lemma wave_installs: "state_after (AddonReconcile (still_world 0) demo_addonlib wave_reconciler (''kontinuum-system'', ''eu-a-cilium'')) 0 = 1"
proof -
  have "run_state (readyKubeconfig wave_reconciler ns c) n = (Inr ''cfg'', n)" for ns c n
    by (simp add: readyKubeconfig_def clusterKubeconfig_def addonClusterKubeconfig_def loadClusterKubeconfig_def wave_defs Let_def)
  moreover have "run_state (kget (cl_Addon (ar_Client wave_reconciler)) k) n = (Inr demo_addon, n)" for k n by (simp add: wave_defs)
  moreover have "run_state (ar_CRDChecker wave_reconciler k q) n = (Inr (True, x), n)"
    "run_state (ar_Installer wave_reconciler k q) n = (None, Suc n)" if "x = []" for k q n x using that by (simp_all add: wave_reconciler_def)
  moreover have "run_state (probeHealthy demo_addonlib wave_reconciler k q) n = (Inr (True, []), n)" for k q n
    by (simp add: probeHealthy_def wave_reconciler_def)
  ultimately show ?thesis
    by (simp add: AddonReconcile_def wave_resolved addonPass_def wave_lease wave_waited wave_request installAndVerify_def syncSecrets_def
        wave_demo_meta wave_setReady)
qed

theorem addon_waits_for_waves_witness:
  "\<exists>addon p s1 siblings. Enabled (addon_Spec addon) \<and> EffectivePriority demo_addonlib (withReleaseName addon) = Inr p \<and>
    result_of (ListForCluster (ar_Client wave_reconciler) (addonNamespace addon) (addonCluster addon)) s1 = Inr siblings"
proof -
  obtain out where "run_state (AddonReconcile (still_world 0) demo_addonlib wave_reconciler (''kontinuum-system'', ''eu-a-cilium'')) 0 = (out, 1)"
    using wave_installs by (metis prod.collapse)
  from addon_waits_for_waves [where view = "\<lambda>n. n", OF wave_quiet this] show ?thesis by auto
qed

theorem addon_waves_progress_witness:
  "\<exists>addon p. addon \<in> {demo_addon, wave_first} \<and> Enabled (addon_Spec addon) \<and> \<not> addonReady demo_addonlib addon \<and>
    EffectivePriority demo_addonlib addon = Inr p \<and> waveLoop demo_addonlib addon p [demo_addon, wave_first] = Inr True"
proof -
  have "\<not> addonReady demo_addonlib demo_addon" by (simp add: demo_addon_def emptyAddon_def demo_addonlib_def std_apimachinery_def)
  with addon_waves_progress [of "[demo_addon, wave_first]" demo_addonlib demo_addon] wave_resolved show ?thesis by auto
qed

end
