(* ===== verification/AdminRbac.thy ===== *)
theory AdminRbac
  imports ZoneAdd
begin

text \<open>
  The grants of the admin groups: \<open>controller.go\<close> of \<open>pkg/domain/adminrbac\<close>.  Every tick the
  holder of the global lease makes sure of one ClusterRole and keeps one ClusterRoleBinding
  per configured group.  The name of a binding is the start of the SHA-256 sum of the group,
  computed here.
\<close>

section \<open>SHA-256\<close>

text \<open>\<open>crypto/sha256\<close> on a string of bytes, and \<open>hex.EncodeToString\<close>.\<close>

unbundle bit_operations_syntax

text \<open>
  The constants are the first 32 bits of the fractional parts of the cube roots of the first
  64 primes and of the square roots of the first eight, computed bit by bit.
\<close>

definition sha_primes :: "nat list" where
  "sha_primes = filter (\<lambda>n. list_all (\<lambda>d. n mod d \<noteq> 0) [2..<n]) [2..<312]"

definition sha_root :: "nat \<Rightarrow> nat \<Rightarrow> 32 word" where
  "sha_root k p = word_of_nat (fold (\<lambda>b r. if (r + 2 ^ b) ^ k \<le> p * 2 ^ (32 * k) then r + 2 ^ b else r) (rev [0..<36]) 0)"

definition sha_K :: "32 word list" where "sha_K = map (sha_root 3) sha_primes"

definition sha_H0 :: "32 word list" where "sha_H0 = map (sha_root 2) (take 8 sha_primes)"

definition sha_pad :: "32 word list \<Rightarrow> 32 word list" where
  "sha_pad bs = (let bits = 8 * word_of_nat (length bs) :: 64 word in
     bs @ [128] @ replicate ((119 - length bs mod 64) mod 64) 0 @ map (\<lambda>i. ucast (drop_bit (8 * i) bits AND 255)) [7, 6, 5, 4, 3, 2, 1, 0])"

fun sha_words :: "32 word list \<Rightarrow> 32 word list" where
  "sha_words (a # b # c # d # bs) = (push_bit 24 a OR push_bit 16 b OR push_bit 8 c OR d) # sha_words bs"
| "sha_words _ = []"

definition sha_schedule :: "32 word list \<Rightarrow> 32 word list" where
  "sha_schedule ws = fold (\<lambda>t w.
     let x = w ! (t - 15); y = w ! (t - 2);
         s0 = word_rotr 7 x XOR word_rotr 18 x XOR drop_bit 3 x;
         s1 = word_rotr 17 y XOR word_rotr 19 y XOR drop_bit 10 y
     in w @ [w ! (t - 16) + s0 + w ! (t - 7) + s1]) [16..<64] ws"

definition sha_round :: "32 word \<times> 32 word \<Rightarrow> 32 word list \<Rightarrow> 32 word list" where
  "sha_round kw hs = (case hs of [a, b, c, d, e, f, g, h] \<Rightarrow>
     let s1 = word_rotr 6 e XOR word_rotr 11 e XOR word_rotr 25 e;
         ch = (e AND f) XOR (NOT e AND g);
         t1 = h + s1 + ch + fst kw + snd kw;
         s0 = word_rotr 2 a XOR word_rotr 13 a XOR word_rotr 22 a;
         maj = (a AND b) XOR (a AND c) XOR (b AND c)
     in [t1 + s0 + maj, a, b, c, d + t1, e, f, g] | _ \<Rightarrow> hs)"

fun sha_blocks :: "nat \<Rightarrow> 32 word list \<Rightarrow> 32 word list \<Rightarrow> 32 word list" where
  "sha_blocks 0 ws hs = hs"
| "sha_blocks (Suc n) ws hs = sha_blocks n (drop 16 ws)
     (map2 (+) hs (fold sha_round (zip sha_K (sha_schedule (take 16 ws))) hs))"

definition sha256 :: "string \<Rightarrow> 32 word list" where
  "sha256 s = (let ws = sha_words (sha_pad (map (\<lambda>c. word_of_nat (of_char c)) s)) in sha_blocks (length ws div 16) ws sha_H0)"

definition hexDigit :: "nat \<Rightarrow> char" where
  "hexDigit n = (if n < 10 then char_of (48 + n) else char_of (87 + n))"

definition hexWord :: "32 word \<Rightarrow> string" where
  "hexWord w = map (\<lambda>i. hexDigit (unat (drop_bit (4 * i) w AND 15))) (rev [0..<8])"

definition sha256hex :: "string \<Rightarrow> string" where "sha256hex s = concat (map hexWord (sha256 s))"

section \<open>Objects\<close>

record RbacRule =
  rule_APIGroups :: "string list"
  rule_Resources :: "string list"
  rule_NonResourceURLs :: "string list"
  rule_Verbs :: "string list"

record RbacSubject =
  sub_Kind :: string
  sub_APIGroup :: string
  sub_Name :: string
  sub_Namespace :: string

record ClusterRole =
  cr_meta :: ObjectMeta
  cr_Rules :: "RbacRule list"

record ClusterRoleBinding =
  crb_meta :: ObjectMeta
  crb_RoleRef :: RoleRef
  crb_Subjects :: "RbacSubject list"

definition rbacGroupName :: string where "rbacGroupName = ''rbac.authorization.k8s.io''"

definition ManagedByValue :: string where "ManagedByValue = ''admin-group-controller''"

definition AdminGroupAnnotation :: string where "AdminGroupAnnotation = ''kontinuum.sh/admin-group''"

definition RoleName :: string where "RoleName = ''kontinuum-admin''"

definition bindingNamePrefix :: string where "bindingNamePrefix = ''kontinuum-admin-''"

definition defaultAdminInterval :: int where "defaultAdminInterval = 30 * second"

record AdminConfig =
  adc_AdminGroups :: string
  adc_Interval :: int
  adc_ZoneLease :: Identity

definition NewAdminController :: "AdminConfig \<Rightarrow> AdminConfig" where
  "NewAdminController cfg = (if adc_Interval cfg = 0 then cfg\<lparr>adc_Interval := defaultAdminInterval\<rparr> else cfg)"

text \<open>The RBAC kinds are cluster scoped and not part of the client record of the other kinds.\<close>

record 's Runnable =
  rn_ClusterRole :: "('s, ClusterRole) kclient"
  rn_ClusterRoleBinding :: "('s, ClusterRoleBinding) kclient"
  rn_AdminGroups :: string
  rn_Locker :: "'s Locker"

definition adminClusterRole :: ClusterRole where
  "adminClusterRole = \<lparr>cr_meta = (objectMeta '''' RoleName)\<lparr>om_Labels := [LabelManagedBy \<mapsto> ManagedByValue]\<rparr>,
     cr_Rules = [\<lparr>rule_APIGroups = [''*''], rule_Resources = [''*''], rule_NonResourceURLs = [], rule_Verbs = [''*'']\<rparr>,
                 \<lparr>rule_APIGroups = [], rule_Resources = [], rule_NonResourceURLs = [''*''], rule_Verbs = [''*'']\<rparr>]\<rparr>"

definition ensureRole :: "'s Runnable \<Rightarrow> ('s, goerr option) state" where
  "ensureRole r = do {
     k \<leftarrow> kcreate (rn_ClusterRole r) adminClusterRole;
     (case k of
        Inl err \<Rightarrow> if \<not> isAlreadyExists err then return (Some (Errorf ''failed to create %q cluster role: %w'' [RoleName] [err])) else return None
      | Inr _ \<Rightarrow> return None)
   }"

definition bindingName :: "string \<Rightarrow> string" where
  "bindingName grp = bindingNamePrefix @ take 12 (sha256hex grp)"

definition adminBinding :: "string \<Rightarrow> ClusterRoleBinding" where
  "adminBinding grp = \<lparr>crb_meta = (objectMeta '''' (bindingName grp))
       \<lparr>om_Labels := [LabelManagedBy \<mapsto> ManagedByValue], om_Annotations := [AdminGroupAnnotation \<mapsto> grp]\<rparr>,
     crb_RoleRef = \<lparr>rref_APIGroup = rbacGroupName, rref_Kind = ''ClusterRole'', rref_Name = RoleName\<rparr>,
     crb_Subjects = [\<lparr>sub_Kind = ''Group'', sub_APIGroup = rbacGroupName, sub_Name = grp, sub_Namespace = ''''\<rparr>]\<rparr>"

definition createBinding :: "'s Runnable \<Rightarrow> string \<Rightarrow> ('s, goerr option) state" where
  "createBinding r grp = do {
     k \<leftarrow> kcreate (rn_ClusterRoleBinding r) (adminBinding grp);
     (case k of
        Inl err \<Rightarrow> if \<not> isAlreadyExists err
          then return (Some (Errorf ''failed to create %q cluster role binding: %w'' [bindingName grp] [err])) else return None
      | Inr _ \<Rightarrow> return None)
   }"

definition boundGroup :: "ClusterRoleBinding \<Rightarrow> string" where
  "boundGroup b = (case om_Annotations (crb_meta b) AdminGroupAnnotation of None \<Rightarrow> '''' | Some g \<Rightarrow> g)"

text \<open>
  \<open>reconcileBindings\<close>: errors of single calls are only logged.  \<open>existingByGroup\<close> is a Go map,
  in which the last item of a group wins; \<open>order\<close> is the order in which the range visits it.
\<close>

fun createMissing :: "'s Runnable \<Rightarrow> (string \<rightharpoonup> ClusterRoleBinding) \<Rightarrow> string list \<Rightarrow> ('s, unit) state" where
  "createMissing r existing [] = return ()"
| "createMissing r existing (grp # groups) = do {
     _ \<leftarrow> (if existing grp \<noteq> None then return None else createBinding r grp);
     createMissing r existing groups
   }"

fun deleteStaleBindings :: "'s Runnable \<Rightarrow> string set \<Rightarrow> (string \<times> ClusterRoleBinding) list \<Rightarrow> ('s, unit) state" where
  "deleteStaleBindings r desired [] = return ()"
| "deleteStaleBindings r desired ((grp, item) # rest) = do {
     _ \<leftarrow> (if grp \<in> desired then return None else kdelete (rn_ClusterRoleBinding r) item);
     deleteStaleBindings r desired rest
   }"

definition byGroup :: "ClusterRoleBinding list \<Rightarrow> string \<rightharpoonup> ClusterRoleBinding" where
  "byGroup items = map_of (rev (map (\<lambda>b. (boundGroup b, b)) items))"

definition groupEntries :: "ClusterRoleBinding list \<Rightarrow> (string \<times> ClusterRoleBinding) list" where
  "groupEntries items = map (\<lambda>g. (g, the (byGroup items g))) (remdups (map boundGroup items))"

type_synonym entryOrder = "(string \<times> ClusterRoleBinding) list \<Rightarrow> (string \<times> ClusterRoleBinding) list"

definition reconcileBindings :: "entryOrder \<Rightarrow> 's Runnable \<Rightarrow> ('s, goerr option) state" where
  "reconcileBindings order r = (let desired = ParseAdminGroups (rn_AdminGroups r) in do {
     l \<leftarrow> klist (rn_ClusterRoleBinding r) None (matchingLabel LabelManagedBy ManagedByValue);
     (case l of
        Inl err \<Rightarrow> return (Some (Errorf ''failed to list managed cluster role bindings: %w'' [] [err]))
      | Inr items \<Rightarrow> do {
          _ \<leftarrow> createMissing r (byGroup items) desired;
          _ \<leftarrow> deleteStaleBindings r (set desired) (order (groupEntries items));
          return None
        })
   })"

definition reconcileAdmin :: "'s world \<Rightarrow> entryOrder \<Rightarrow> 's Runnable \<Rightarrow> ('s, unit) state" where
  "reconcileAdmin w order r = do {
     a \<leftarrow> TryAcquire w (rn_Locker r) GlobalKey;
     (case a of
        Inl err \<Rightarrow> return ()
      | Inr acquired \<Rightarrow>
          if \<not> acquired then return ()
          else do {
            e \<leftarrow> ensureRole r;
            (case e of
               Some err \<Rightarrow> return ()
             | None \<Rightarrow> do { _ \<leftarrow> reconcileBindings order r; return () })
          })
   }"

text \<open>The runnable that \<open>SetupWithManager\<close> registers; it makes no call.\<close>

definition adminRunnable :: "('s, ClusterRole) kclient \<Rightarrow> ('s, ClusterRoleBinding) kclient \<Rightarrow> 's client \<Rightarrow> 's client \<Rightarrow> AdminConfig \<Rightarrow> 's Runnable" where
  "adminRunnable roles bindings apiClient apiReader cfg =
     \<lparr>rn_ClusterRole = roles, rn_ClusterRoleBinding = bindings, rn_AdminGroups = adc_AdminGroups cfg,
      rn_Locker = NewLocker apiClient apiReader (id_HolderIdentity (adc_ZoneLease cfg)) (id_SelfZoneKey (adc_ZoneLease cfg)) 0\<rparr>"

text \<open>\<open>Start\<close>: one pass, then one per tick until the context is done.\<close>

datatype tickEvent = Tick | Done

fun adminLoop :: "'s world \<Rightarrow> entryOrder \<Rightarrow> 's Runnable \<Rightarrow> tickEvent list \<Rightarrow> ('s, unit) state" where
  "adminLoop w order r [] = return ()"
| "adminLoop w order r (Done # _) = return ()"
| "adminLoop w order r (Tick # es) = do { _ \<leftarrow> reconcileAdmin w order r; adminLoop w order r es }"

definition StartAdmin :: "'s world \<Rightarrow> entryOrder \<Rightarrow> 's Runnable \<Rightarrow> tickEvent list \<Rightarrow> ('s, unit) state" where
  "StartAdmin w order r es = do { _ \<leftarrow> reconcileAdmin w order r; adminLoop w order r es }"

section \<open>Convergence\<close>

definition crbBody :: "ClusterRoleBinding \<Rightarrow> labels \<times> labels \<times> RoleRef \<times> RbacSubject list" where
  "crbBody b = (om_Labels (crb_meta b), om_Annotations (crb_meta b), crb_RoleRef b, crb_Subjects b)"

definition bindingKey :: "string \<Rightarrow> ObjectKey" where "bindingKey grp = ('''', bindingName grp)"

definition managed :: "ClusterRoleBinding \<Rightarrow> bool" where
  "managed b \<longleftrightarrow> matchingLabel LabelManagedBy ManagedByValue (om_Labels (crb_meta b))"

text \<open>
  A server that answers: a delete removes the object, and a list shows exactly the stored
  bindings that carry the label.
\<close>

definition binding_server :: "('s, ClusterRoleBinding) kclient \<Rightarrow> ('s \<Rightarrow> ObjectKey \<rightharpoonup> ClusterRoleBinding) \<Rightarrow> bool" where
  "binding_server c bv \<longleftrightarrow> cas_store c crb_meta crbBody bv \<and> server_up c crb_meta bv \<and>
     (\<forall>b s. bv (state_after (kdelete c b) s) = (bv s)(keyOf (crb_meta b) := None)) \<and>
     (\<forall>s k b. bv s k = Some b \<longrightarrow> keyOf (crb_meta b) = k)"

definition lists_managed :: "('s, ClusterRoleBinding) kclient \<Rightarrow> ('s \<Rightarrow> ObjectKey \<rightharpoonup> ClusterRoleBinding) \<Rightarrow> 's \<Rightarrow> bool" where
  "lists_managed c bv s \<longleftrightarrow> (\<exists>items t. run_state (klist c None (matchingLabel LabelManagedBy ManagedByValue)) s = (Inr items, t) \<and>
     bv t = bv s \<and> set items = {b. bv s (keyOf (crb_meta b)) = Some b \<and> managed b})"

lemma binding_serverD:
  assumes "binding_server c bv"
  shows "cas_store c crb_meta crbBody bv" and "server_up c crb_meta bv"
    and "bv (state_after (kdelete c b) s) = (bv s)(keyOf (crb_meta b) := None)"
    and "bv s k = Some b \<Longrightarrow> keyOf (crb_meta b) = k"
  using assms unfolding binding_server_def by blast+

lemma adminBinding_simps [simp]:
  "keyOf (crb_meta (adminBinding g)) = bindingKey g" "boundGroup (adminBinding g) = g" "managed (adminBinding g)"
  by (simp_all add: adminBinding_def bindingKey_def boundGroup_def managed_def matchingLabel_def keyOf_def objectMeta_def)

lemma crbBody_cong: "crbBody b = crbBody b' \<Longrightarrow> boundGroup b = boundGroup b' \<and> managed b = managed b'"
  by (simp add: crbBody_def boundGroup_def managed_def)

lemma createBinding_run:
  assumes sv: "binding_server (rn_ClusterRoleBinding r) bv" and run: "run_state (createBinding r g) s = (e, t)"
  shows "\<exists>y. crbBody y = crbBody (adminBinding g) \<and> bv t = (bv s)(bindingKey g \<mapsto> (case bv s (bindingKey g) of None \<Rightarrow> y | Some b \<Rightarrow> b))"
proof (cases "bv s (bindingKey g)")
  case None
  then show ?thesis using up_create_new [OF binding_serverD(1,2) [OF sv], of s "adminBinding g"] run
    by (auto simp: createBinding_def)
next
  case (Some b)
  then have "bv t = bv s" using up_create_old [OF binding_serverD(1,2) [OF sv], of s "adminBinding g" b] run
    by (auto simp: createBinding_def split: prod.splits)
  then show ?thesis using Some by (intro exI [of _ "adminBinding g"]) (simp add: fun_upd_idem)
qed

lemma createMissing_run:
  assumes sv: "binding_server (rn_ClusterRoleBinding r) bv" and run: "run_state (createMissing r ex gs) s = (e, t)"
  shows "(\<forall>k x. bv s k = Some x \<longrightarrow> bv t k = Some x) \<and> (\<forall>g\<in>set gs. ex g = None \<longrightarrow> bv t (bindingKey g) \<noteq> None) \<and>
    (\<forall>k y. bv s k = None \<and> bv t k = Some y \<longrightarrow> (\<exists>g\<in>set gs. k = bindingKey g \<and> crbBody y = crbBody (adminBinding g)))"
  using run
proof (induction gs arbitrary: s)
  case (Cons g gs)
  obtain e1 u where u: "run_state (if ex g \<noteq> None then return None else createBinding r g) s = (e1, u)" by fastforce
  then have rest: "run_state (createMissing r ex gs) u = (e, t)" using Cons.prems by simp
  note ih = Cons.IH [OF rest]
  show ?case
  proof (cases "ex g = None")
    case False
    then have "u = s" using u by simp
    then show ?thesis using ih False by auto
  next
    case True
    then have "run_state (createBinding r g) s = (e1, u)" using u by simp
    from createBinding_run [OF sv this] obtain y where y: "crbBody y = crbBody (adminBinding g)"
      "bv u = (bv s)(bindingKey g \<mapsto> (case bv s (bindingKey g) of None \<Rightarrow> y | Some b \<Rightarrow> b))" by blast
    have keep: "bv u k = Some x" if "bv s k = Some x" for k x using that y(2) by auto
    obtain z where "bv u (bindingKey g) = Some z" using y(2) by auto
    then have made: "bv t (bindingKey g) \<noteq> None" using ih by (metis option.discI)
    have new: "k = bindingKey g \<and> crbBody z = crbBody (adminBinding g)" if "bv s k = None" "bv u k = Some z" for k z
      using that y by (auto split: if_splits)
    show ?thesis
    proof (intro conjI allI impI ballI)
      show "bv t k = Some x" if "bv s k = Some x" for k x using ih keep [OF that] by blast
      show "bv t (bindingKey h) \<noteq> None" if "h \<in> set (g # gs)" "ex h = None" for h
        using ih made that by (cases "h = g") auto
      show "\<exists>h\<in>set (g # gs). k = bindingKey h \<and> crbBody z = crbBody (adminBinding h)" if a: "bv s k = None \<and> bv t k = Some z" for k z
      proof (cases "bv u k")
        case None
        then show ?thesis using ih a by (meson list.set_intros(2))
      next
        case (Some x)
        then have "x = z" using ih a by (metis option.inject)
        then show ?thesis using new [of k x] Some a by auto
      qed
    qed
  qed
qed auto

lemma deleteStale_run:
  assumes sv: "binding_server (rn_ClusterRoleBinding r) bv" and run: "run_state (deleteStaleBindings r desired es) s = (e, t)"
  shows "bv t k = (if \<exists>(g, b)\<in>set es. g \<notin> desired \<and> keyOf (crb_meta b) = k then None else bv s k)"
  using run
proof (induction es arbitrary: s)
  case (Cons x es)
  obtain g b where x: "x = (g, b)" by fastforce
  obtain e1 u where u: "run_state (if g \<in> desired then return None else kdelete (rn_ClusterRoleBinding r) b) s = (e1, u)" by fastforce
  then have rest: "run_state (deleteStaleBindings r desired es) u = (e, t)" using Cons.prems x by simp
  have "bv u = (if g \<in> desired then bv s else (bv s)(keyOf (crb_meta b) := None))"
    using u binding_serverD(3) [OF sv, of b s] by (auto split: if_splits)
  then show ?case using Cons.IH [OF rest] x by auto
qed auto

lemma byGroup_listed:
  assumes "byGroup items g = Some b"
  shows "b \<in> set items \<and> boundGroup b = g"
  using assms by (auto simp: byGroup_def dest: map_of_SomeD)

lemma byGroup_bound: "b \<in> set items \<Longrightarrow> byGroup items (boundGroup b) \<noteq> None"
  by (auto simp: byGroup_def map_of_eq_None_iff image_iff)

lemma groupEntries_iff: "(g, b) \<in> set (groupEntries items) \<longleftrightarrow> byGroup items g = Some b"
proof
  assume "(g, b) \<in> set (groupEntries items)"
  then show "byGroup items g = Some b" using byGroup_bound by (fastforce simp: groupEntries_def)
next
  assume a: "byGroup items g = Some b"
  then have "g \<in> boundGroup ` set items" using byGroup_listed by blast
  then show "(g, b) \<in> set (groupEntries items)" using a by (force simp: groupEntries_def)
qed

text \<open>
  What one pass leaves in the store, as a relation on maps: \<open>m\<close> is the store before the
  deletions, \<open>n\<close> the one after.
\<close>

definition diffed :: "string set \<Rightarrow> (ObjectKey \<rightharpoonup> ClusterRoleBinding) \<Rightarrow> (ObjectKey \<rightharpoonup> ClusterRoleBinding) \<Rightarrow> (ObjectKey \<rightharpoonup> ClusterRoleBinding) \<Rightarrow> bool" where
  "diffed D v m n \<longleftrightarrow> v \<subseteq>\<^sub>m m \<and>
     (\<forall>g\<in>D. (\<forall>k b. v k = Some b \<longrightarrow> managed b \<longrightarrow> boundGroup b \<noteq> g) \<longrightarrow> m (bindingKey g) \<noteq> None) \<and>
     (\<forall>k y. v k = None \<longrightarrow> m k = Some y \<longrightarrow> (\<exists>g\<in>D. k = bindingKey g \<and> crbBody y = crbBody (adminBinding g))) \<and>
     (\<forall>k. n k = (if \<exists>b. v k = Some b \<and> managed b \<and> boundGroup b \<notin> D then None else m k))"

lemma deleted_iff:
  assumes own: "\<And>k b. v k = Some b \<Longrightarrow> managed b \<Longrightarrow> k = bindingKey (boundGroup b)" and ord: "set es = set (groupEntries items)"
    and stored: "\<And>b. b \<in> set items \<longleftrightarrow> v (keyOf (crb_meta b)) = Some b \<and> managed b" and key: "\<And>k b. v k = Some b \<Longrightarrow> keyOf (crb_meta b) = k"
  shows "(\<exists>(g, b)\<in>set es. g \<notin> D \<and> keyOf (crb_meta b) = k) \<longleftrightarrow> (\<exists>b. v k = Some b \<and> managed b \<and> boundGroup b \<notin> D)"
proof
  assume "\<exists>(g, b)\<in>set es. g \<notin> D \<and> keyOf (crb_meta b) = k"
  then obtain g b where "byGroup items g = Some b" "g \<notin> D" "keyOf (crb_meta b) = k" using ord groupEntries_iff by auto
  then show "\<exists>b. v k = Some b \<and> managed b \<and> boundGroup b \<notin> D" using byGroup_listed stored by fastforce
next
  assume "\<exists>b. v k = Some b \<and> managed b \<and> boundGroup b \<notin> D"
  then obtain b where b: "v k = Some b" "managed b" "boundGroup b \<notin> D" by blast
  then obtain b' where b': "byGroup items (boundGroup b) = Some b'" using byGroup_bound stored key by blast
  then have l: "b' \<in> set items" "boundGroup b' = boundGroup b" using byGroup_listed by blast+
  then have k': "v (keyOf (crb_meta b')) = Some b'" "managed b'" using stored by blast+
  have "keyOf (crb_meta b') = k" using own [OF k'] own [OF b(1,2)] l(2) by simp
  then show "\<exists>(g, b)\<in>set es. g \<notin> D \<and> keyOf (crb_meta b) = k" using b' b(3) ord groupEntries_iff by fastforce
qed

lemma reconcileBindings_run:
  assumes sv: "binding_server (rn_ClusterRoleBinding r) bv" and li: "lists_managed (rn_ClusterRoleBinding r) bv s"
    and ord: "\<And>es. set (order es) = set es"
    and own: "\<And>k b. bv s k = Some b \<Longrightarrow> managed b \<Longrightarrow> k = bindingKey (boundGroup b)"
    and run: "run_state (reconcileBindings order r) s = (e, t)"
  shows "e = None \<and> (\<exists>m. diffed (set (ParseAdminGroups (rn_AdminGroups r))) (bv s) m (bv t))"
proof -
  let ?D = "set (ParseAdminGroups (rn_AdminGroups r))"
  obtain items s1 where l: "run_state (klist (rn_ClusterRoleBinding r) None (matchingLabel LabelManagedBy ManagedByValue)) s = (Inr items, s1)"
    "bv s1 = bv s" and st: "\<And>b. b \<in> set items \<longleftrightarrow> bv s (keyOf (crb_meta b)) = Some b \<and> managed b" using li unfolding lists_managed_def by blast
  obtain s2 where c: "run_state (createMissing r (byGroup items) (ParseAdminGroups (rn_AdminGroups r))) s1 = ((), s2)"
    by (metis old.unit.exhaust surj_pair)
  have d: "run_state (deleteStaleBindings r ?D (order (groupEntries items))) s2 = ((), t)" and e: "e = None"
    using run l(1) c by (auto simp: reconcileBindings_def Let_def split: prod.splits)
  note cr = createMissing_run [OF sv c, unfolded l(2)]
  have "diffed ?D (bv s) (bv s2) (bv t)" unfolding diffed_def
  proof (intro conjI ballI allI impI)
    show "bv s \<subseteq>\<^sub>m bv s2" using cr by (auto simp: map_le_def)
    show "bv s2 (bindingKey g) \<noteq> None" if g: "g \<in> ?D" and no: "\<forall>k b. bv s k = Some b \<longrightarrow> managed b \<longrightarrow> boundGroup b \<noteq> g" for g
    proof -
      have "byGroup items g = None" using byGroup_listed [of items g] st no by (metis option.exhaust)
      then show ?thesis using cr g by blast
    qed
    show "\<exists>g\<in>?D. k = bindingKey g \<and> crbBody y = crbBody (adminBinding g)" if "bv s k = None" "bv s2 k = Some y" for k y
      using cr that by blast
    show "bv t k = (if \<exists>b. bv s k = Some b \<and> managed b \<and> boundGroup b \<notin> ?D then None else bv s2 k)" for k
      by (subst deleted_iff [OF own ord st binding_serverD(4) [OF sv], symmetric]) (use deleteStale_run [OF sv d, of k] in blast)+
  qed
  with e show ?thesis by blast
qed

lemma diffed_keeps:
  assumes "diffed D v m n" and "v k = Some b" and "managed b \<Longrightarrow> boundGroup b \<in> D"
  shows "n k = Some b"
  using assms unfolding diffed_def map_le_def by (metis domI option.inject)

lemma diffed_origin:
  assumes "diffed D v m n" and "n k = Some b"
  shows "(v k = Some b \<and> (managed b \<longrightarrow> boundGroup b \<in> D)) \<or> (v k = None \<and> (\<exists>g\<in>D. k = bindingKey g \<and> crbBody b = crbBody (adminBinding g)))"
proof (cases "v k")
  case None
  then have "m k = Some b" using assms unfolding diffed_def by (metis option.discI)
  then show ?thesis using None assms(1) unfolding diffed_def by blast
next
  case (Some c)
  then have m: "m k = Some c" using assms(1) unfolding diffed_def map_le_def by (metis domI)
  then have "managed c \<longrightarrow> boundGroup c \<in> D" "c = b" using Some assms unfolding diffed_def by (metis option.distinct(1) option.inject)+
  then show ?thesis using Some by blast
qed

lemma crbBody_admin: "crbBody b = crbBody (adminBinding g) \<Longrightarrow> boundGroup b = g \<and> managed b"
  using crbBody_cong [of b "adminBinding g"] by simp

lemma diffed_made:
  assumes d: "diffed D v m n" and g: "g \<in> D"
    and own: "\<And>k b. v k = Some b \<Longrightarrow> managed b \<Longrightarrow> k = bindingKey (boundGroup b)"
    and free: "\<And>g b. g \<in> D \<Longrightarrow> v (bindingKey g) = Some b \<Longrightarrow> managed b"
    and names: "\<And>g h. bindingKey g = bindingKey h \<Longrightarrow> g \<in> D \<Longrightarrow> h \<in> D \<or> (\<exists>b k. v k = Some b \<and> managed b \<and> h = boundGroup b) \<Longrightarrow> g = h"
  shows "\<exists>b. n (bindingKey g) = Some b \<and> managed b \<and> boundGroup b = g"
proof (cases "v (bindingKey g)")
  case None
  have "m (bindingKey g) \<noteq> None" using d g own None unfolding diffed_def by (metis option.discI)
  then obtain b where b: "n (bindingKey g) = Some b" using d None unfolding diffed_def by (metis option.discI option.exhaust)
  obtain h where h: "h \<in> D" "bindingKey g = bindingKey h" "crbBody b = crbBody (adminBinding h)" using diffed_origin [OF d b] None by auto
  then show ?thesis using names [OF h(2) g] b crbBody_admin [OF h(3)] by blast
next
  case (Some b)
  have m: "managed b" using free [OF g Some] .
  have "g = boundGroup b" using names [OF own [OF Some m] g] Some m by blast
  then show ?thesis using diffed_keeps [OF d Some] m g by blast
qed

text \<open>
  C30: The admin grants converge.  When no two groups in play share the name of their binding
  and only managed bindings have such names, one pass over an answering server leaves
  exactly one managed binding per configured group, in the binding's own name, a new one
  granting exactly the admin role to exactly the group; the bindings of other groups are
  gone and every binding that is not managed is stored unchanged.
\<close>

theorem admin_bindings_converge:
  assumes sv: "binding_server (rn_ClusterRoleBinding r) bv" and li: "lists_managed (rn_ClusterRoleBinding r) bv s" and ord: "\<And>es. set (order es) = set es"
    and own: "\<And>k b. bv s k = Some b \<Longrightarrow> managed b \<Longrightarrow> k = bindingKey (boundGroup b)"
    and free: "\<And>g b. g \<in> set (ParseAdminGroups (rn_AdminGroups r)) \<Longrightarrow> bv s (bindingKey g) = Some b \<Longrightarrow> managed b"
    and inj: "inj_on bindingName (set (ParseAdminGroups (rn_AdminGroups r)) \<union> {boundGroup b |b k. bv s k = Some b \<and> managed b})"
    and run: "run_state (reconcileBindings order r) s = (e, t)"
  shows "e = None \<and>
    {(k, boundGroup b) |k b. bv t k = Some b \<and> managed b} = (\<lambda>g. (bindingKey g, g)) ` set (ParseAdminGroups (rn_AdminGroups r)) \<and>
    (\<forall>k b. \<not> managed b \<longrightarrow> (bv t k = Some b \<longleftrightarrow> bv s k = Some b)) \<and>
    (\<forall>k b. bv s k = None \<and> bv t k = Some b \<longrightarrow> (\<exists>g. k = bindingKey g \<and> crbBody b = crbBody (adminBinding g)))"
proof -
  let ?D = "set (ParseAdminGroups (rn_AdminGroups r))"
  obtain m where e: "e = None" and d: "diffed ?D (bv s) m (bv t)" using reconcileBindings_run [OF sv li ord own run] by blast
  have names: "g = h" if "bindingKey g = bindingKey h" "g \<in> ?D" "h \<in> ?D \<or> (\<exists>b k. bv s k = Some b \<and> managed b \<and> h = boundGroup b)" for g h
    by (rule inj_onD [OF inj]) (use that in \<open>auto simp: bindingKey_def\<close>)
  have bound: "k = bindingKey (boundGroup b) \<and> boundGroup b \<in> ?D" if a: "bv t k = Some b" and g: "managed b" for k b
    using diffed_origin [OF d a] own [of k b] g crbBody_admin by blast
  have made: "\<exists>b. bv t (bindingKey g) = Some b \<and> managed b \<and> boundGroup b = g" if "g \<in> ?D" for g
    by (rule diffed_made [OF d that own free names])
  have "{(k, boundGroup b) |k b. bv t k = Some b \<and> managed b} = (\<lambda>g. (bindingKey g, g)) ` ?D" (is "?L = ?R")
  proof
    show "?L \<subseteq> ?R" using bound by blast
    show "?R \<subseteq> ?L"
    proof
      fix x assume "x \<in> ?R"
      then obtain g where g: "g \<in> ?D" "x = (bindingKey g, g)" by blast
      then show "x \<in> ?L" using made [OF g(1)] by blast
    qed
  qed
  moreover have "bv t k = Some b \<longleftrightarrow> bv s k = Some b" if "\<not> managed b" for k b
    using diffed_keeps [OF d, of k b] diffed_origin [OF d, of k b] crbBody_admin that by blast
  moreover have "\<exists>g. k = bindingKey g \<and> crbBody b = crbBody (adminBinding g)" if "bv s k = None \<and> bv t k = Some b" for k b
    using diffed_origin [OF d, of k b] that by auto
  ultimately show ?thesis using e by blast
qed

text \<open>A store that holds one binding of somebody else's; the group \<open>ops\<close> is configured.\<close>

definition bindings_client :: "(ClusterRoleBinding memstore, ClusterRoleBinding) kclient" where
  "bindings_client = mem_client (\<lambda>m x. x\<lparr>crb_meta := m\<rparr>) crb_meta"

definition viewerBinding :: ClusterRoleBinding where
  "viewerBinding = (adminBinding ''guests'')\<lparr>crb_meta := objectMeta '''' ''viewer''\<rparr>"

definition viewer_store :: "ClusterRoleBinding memstore" where
  "viewer_store = snd (mem_write (\<lambda>m x. x\<lparr>crb_meta := m\<rparr>) crb_meta viewerBinding empty_store)"

definition ops_runnable :: "ClusterRoleBinding memstore Runnable" where
  "ops_runnable = \<lparr>rn_ClusterRole = down_kclient, rn_ClusterRoleBinding = bindings_client, rn_AdminGroups = ''ops'',
     rn_Locker = NewLocker down_client down_client ''h'' '''' 0\<rparr>"

lemma bindings_server: "binding_server bindings_client (mem_view crb_meta)"
proof -
  have "cas_store bindings_client crb_meta crbBody (mem_view crb_meta)"
    unfolding bindings_client_def by (rule mem_client_cas_store) (simp_all add: crbBody_def stamp_def)
  moreover have "server_up bindings_client crb_meta (mem_view crb_meta)"
    unfolding bindings_client_def by (rule mem_client_server_up)
  moreover have "mem_view crb_meta (state_after (kdelete bindings_client b) s) = (mem_view crb_meta s)(keyOf (crb_meta b) := None)" for b s
    by (auto simp: bindings_client_def mem_client_def fun_eq_iff mem_view_def split: option.splits)
  ultimately show ?thesis unfolding binding_server_def by (blast dest: mem_view_key)
qed

lemma viewer_view: "mem_view crb_meta viewer_store k =
  (if k = ('''', ''viewer'') then Some (viewerBinding\<lparr>crb_meta := stamp 1 (crb_meta viewerBinding)\<rparr>) else None)"
  by (simp add: viewer_store_def mem_write_view)
    (simp add: empty_store_def viewerBinding_def keyOf_def objectMeta_def)

lemma viewer_managed [simp]: "\<not> managed (viewerBinding\<lparr>crb_meta := stamp 1 (crb_meta viewerBinding)\<rparr>)"
  by (simp add: managed_def viewerBinding_def stamp_def objectMeta_def matchingLabel_def)

lemma viewer_lists: "lists_managed bindings_client (mem_view crb_meta) viewer_store"
proof -
  have none: "{b. mem_view crb_meta viewer_store (keyOf (crb_meta b)) = Some b \<and> managed b} = {}"
    using viewer_managed by (auto simp: viewer_view split: if_splits)
  have "ms_keys viewer_store = [('''', ''viewer'')]"
    by (simp add: viewer_store_def mem_write_def Let_def empty_store_def viewerBinding_def keyOf_def objectMeta_def)
  then show ?thesis unfolding lists_managed_def none using viewer_managed
    by (auto simp: bindings_client_def mem_client_def viewer_view List.map_filter_def managed_def)
qed

lemma binding_not_viewer [simp]: "bindingName g \<noteq> ''viewer''"
  by (simp add: bindingName_def bindingNamePrefix_def)

lemma ops_configured: "ParseAdminGroups ''ops'' = [''ops'']"
  by code_simp

theorem admin_bindings_converge_witness:
  "let t = state_after (reconcileBindings id ops_runnable) viewer_store in
     {(k, boundGroup b) |k b. mem_view crb_meta t k = Some b \<and> managed b} = {(bindingKey ''ops'', ''ops'')}"
proof -
  obtain e t where run: "run_state (reconcileBindings id ops_runnable) viewer_store = (e, t)" by fastforce
  have c: "rn_ClusterRoleBinding ops_runnable = bindings_client" "rn_AdminGroups ops_runnable = ''ops''" by (simp_all add: ops_runnable_def)
  have "{(k, boundGroup b) |k b. mem_view crb_meta t k = Some b \<and> managed b} = (\<lambda>g. (bindingKey g, g)) ` set (ParseAdminGroups (rn_AdminGroups ops_runnable))"
  proof (rule admin_bindings_converge [THEN conjunct2, THEN conjunct1, OF _ _ _ _ _ _ run])
    show "binding_server (rn_ClusterRoleBinding ops_runnable) (mem_view crb_meta)" by (simp add: c bindings_server)
    show "lists_managed (rn_ClusterRoleBinding ops_runnable) (mem_view crb_meta) viewer_store" by (simp add: c viewer_lists)
    show "k = bindingKey (boundGroup b)" if "mem_view crb_meta viewer_store k = Some b" "managed b" for k b
      using that viewer_managed by (auto simp: viewer_view split: if_splits)
    show "managed b" if "g \<in> set (ParseAdminGroups (rn_AdminGroups ops_runnable))" "mem_view crb_meta viewer_store (bindingKey g) = Some b" for g b
      using that by (simp add: viewer_view bindingKey_def)
    show "inj_on bindingName (set (ParseAdminGroups (rn_AdminGroups ops_runnable)) \<union>
        {boundGroup b |b k. mem_view crb_meta viewer_store k = Some b \<and> managed b})"
      using viewer_managed by (auto simp: viewer_view c ops_configured inj_on_def split: if_splits)
  qed simp
  then show ?thesis using run by (simp add: c ops_configured Let_def)
qed

end
