(* ===== verification/Auth.thy ===== *)
theory Auth
  imports Prelude
begin

text \<open>
  The browser login: \<open>cookie.go\<close>, \<open>oidc.go\<close>, \<open>errors.go\<close>, \<open>context.go\<close> and \<open>page.go\<close> of \<open>pkg/auth\<close>.
  What the code uses of \<open>encoding/base64\<close> and \<open>net/url\<close> is computed here on strings of bytes.
  The OIDC provider, the random source and the clock are the parameter \<open>oidclib\<close>.  A handler
  gives the list of what it does to the response, in order.
\<close>

section \<open>\<open>encoding/base64\<close>, raw URL alphabet\<close>

definition b64char :: "nat \<Rightarrow> char" where
  "b64char n = (if n < 26 then char_of (65 + n) else if n < 52 then char_of (71 + n) else if n < 62 then char_of (n - 4)
     else if n = 62 then CHR ''-'' else CHR ''_'')"

definition b64digit :: "char \<Rightarrow> nat option" where
  "b64digit c = (let n = of_char c :: nat in
     if 65 \<le> n \<and> n \<le> 90 then Some (n - 65) else if 97 \<le> n \<and> n \<le> 122 then Some (n - 71)
     else if 48 \<le> n \<and> n \<le> 57 then Some (n + 4) else if n = 45 then Some 62 else if n = 95 then Some 63 else None)"

definition quantum :: "nat \<Rightarrow> nat \<Rightarrow> nat \<Rightarrow> nat list" where
  "quantum a b c = (let v = a * 65536 + b * 256 + c in [v div 262144, v div 4096 mod 64, v div 64 mod 64, v mod 64])"

fun b64encode :: "string \<Rightarrow> string" where
  "b64encode [] = []"
| "b64encode [a] = map b64char (take 2 (quantum (of_char a) 0 0))"
| "b64encode [a, b] = map b64char (take 3 (quantum (of_char a) (of_char b) 0))"
| "b64encode (a # b # c # s) = map b64char (quantum (of_char a) (of_char b) (of_char c)) @ b64encode s"

definition unquantum :: "nat \<Rightarrow> nat \<Rightarrow> nat \<Rightarrow> nat \<Rightarrow> string" where
  "unquantum d e f g = (let v = d * 262144 + e * 4096 + f * 64 + g in
     [char_of (v div 65536), char_of (v div 256 mod 256), char_of (v mod 256)])"

text \<open>A single digit at the end is corrupt; the unused bits of the last one are ignored.\<close>

fun b64quanta :: "nat list \<Rightarrow> string option" where
  "b64quanta [] = Some []"
| "b64quanta [d] = None"
| "b64quanta [d, e] = Some (take 1 (unquantum d e 0 0))"
| "b64quanta [d, e, f] = Some (take 2 (unquantum d e f 0))"
| "b64quanta (d # e # f # g # ds) = map_option (\<lambda>s. unquantum d e f g @ s) (b64quanta ds)"

fun b64digits :: "string \<Rightarrow> nat list option" where
  "b64digits [] = Some []"
| "b64digits (c # s) = (if c = CHR 0x0A \<or> c = CHR 0x0D then b64digits s
     else (case b64digit c of None \<Rightarrow> None | Some d \<Rightarrow> map_option ((#) d) (b64digits s)))"

definition b64decode :: "string \<Rightarrow> string option" where
  "b64decode s = (case b64digits s of None \<Rightarrow> None | Some ds \<Rightarrow> b64quanta ds)"

section \<open>\<open>net/url\<close>, queries\<close>

definition upperHex :: "nat \<Rightarrow> char" where
  "upperHex n = (if n < 10 then char_of (48 + n) else char_of (55 + n))"

definition unreserved :: "char \<Rightarrow> bool" where
  "unreserved c \<longleftrightarrow> (let n = of_char c :: nat in 48 \<le> n \<and> n \<le> 57 \<or> 65 \<le> n \<and> n \<le> 90 \<or> 97 \<le> n \<and> n \<le> 122 \<or> n \<in> {45, 46, 95, 126})"

definition escapeChar :: "char \<Rightarrow> string" where
  "escapeChar c = (if unreserved c then [c] else if c = CHR '' '' then ''+''
     else [CHR ''%'', upperHex (of_char c div 16), upperHex (of_char c mod 16)])"

definition QueryEscape :: "string \<Rightarrow> string" where "QueryEscape s = concat (map escapeChar s)"

definition unhex :: "char \<Rightarrow> nat option" where
  "unhex c = (let n = of_char c :: nat in
     if 48 \<le> n \<and> n \<le> 57 then Some (n - 48) else if 97 \<le> n \<and> n \<le> 102 then Some (n - 87)
     else if 65 \<le> n \<and> n \<le> 70 then Some (n - 55) else None)"

fun QueryUnescape :: "string \<Rightarrow> string option" where
  "QueryUnescape [] = Some []"
| "QueryUnescape (c # s) =
     (if c = CHR ''%'' then
        (case s of
           h # l # rest \<Rightarrow>
             (case (unhex h, unhex l) of
                (Some a, Some b) \<Rightarrow> map_option ((#) (char_of (16 * a + b))) (QueryUnescape rest)
              | _ \<Rightarrow> None)
         | _ \<Rightarrow> None)
      else map_option ((#) (if c = CHR ''+'' then CHR '' '' else c)) (QueryUnescape s))"

text \<open>\<open>url.Values\<close>: keys with their values; \<open>Encode\<close> sorts by key, \<open>Get\<close> takes the first value.\<close>

type_synonym Values = "(string \<times> string) list"

definition EncodeValues :: "Values \<Rightarrow> string" where
  "EncodeValues vs = (case map (\<lambda>(k, v). QueryEscape k @ ''='' @ QueryEscape v) (sort_by fst vs) of
     [] \<Rightarrow> '''' | p # ps \<Rightarrow> p @ concat (map (\<lambda>q. ''&'' @ q) ps))"

definition GetValue :: "Values \<Rightarrow> string \<Rightarrow> string" where
  "GetValue vs k = (case map_of vs k of None \<Rightarrow> '''' | Some v \<Rightarrow> v)"

definition cut :: "char \<Rightarrow> string \<Rightarrow> string \<times> string" where
  "cut c s = (takeWhile (\<lambda>x. x \<noteq> c) s, drop 1 (dropWhile (\<lambda>x. x \<noteq> c) s))"

text \<open>The pairs of a query that parse, and whether all of them did.\<close>

definition parsePair :: "string \<Rightarrow> (string \<times> string) option" where
  "parsePair part = (case cut (CHR ''='') part of (k, v) \<Rightarrow>
     (case (QueryUnescape k, QueryUnescape v) of (Some k', Some v') \<Rightarrow> Some (k', v') | _ \<Rightarrow> None))"

function ParseQuery :: "string \<Rightarrow> Values \<times> bool" where
  "ParseQuery query =
     (if query = [] then ([], True)
      else case cut (CHR ''&'') query of (part, rest) \<Rightarrow>
        (case ParseQuery rest of (vs, ok) \<Rightarrow>
           if CHR '';'' \<in> set part then (vs, False)
           else if part = [] then (vs, ok)
           else (case parsePair part of Some kv \<Rightarrow> (kv # vs, ok) | None \<Rightarrow> (vs, False))))"
  by pat_completeness auto
termination
proof (relation "measure length")
  fix query part rest :: string
  assume q: "query \<noteq> []" "(part, rest) = cut (CHR ''&'') query"
  have "length (drop 1 (dropWhile (\<lambda>x. x \<noteq> CHR ''&'') query)) < length query"
    using q(1) length_dropWhile_le [of "\<lambda>x. x \<noteq> CHR ''&''" query] by (cases query) (auto simp: less_Suc_eq_le)
  then show "(rest, query) \<in> measure length" using q(2) by (simp add: cut_def)
qed simp

declare ParseQuery.simps [simp del]

section \<open>Errors\<close>

definition ErrIssuerURLRequired :: goerr where "ErrIssuerURLRequired = Sentinel ''issuer url is required''"

definition ErrClientIDRequired :: goerr where "ErrClientIDRequired = Sentinel ''client id is required''"

definition ErrRedirectURLRequired :: goerr where "ErrRedirectURLRequired = Sentinel ''redirect url is required''"

definition ErrLoginExpired :: goerr where
  "ErrLoginExpired = Sentinel ''login attempt expired or is invalid, please try again''"

definition ErrStateMismatch :: goerr where "ErrStateMismatch = Sentinel ''state parameter does not match''"

definition ErrNonceMismatch :: goerr where "ErrNonceMismatch = Sentinel ''nonce claim does not match''"

definition ErrMissingIDToken :: goerr where
  "ErrMissingIDToken = Sentinel ''token response did not include an id_token''"

definition isErr :: "goerr \<Rightarrow> goerr \<Rightarrow> bool" where
  "isErr err target = (case target of Sentinel t \<Rightarrow> errorsIs err t | _ \<Rightarrow> False)"

definition mapSentinelError :: "goerr option \<Rightarrow> string" where
  "mapSentinelError e = (case e of None \<Rightarrow> '''' | Some err \<Rightarrow>
     if isErr err ErrIssuerURLRequired then ''The OIDC issuer URL is missing from the configuration.''
     else if isErr err ErrClientIDRequired then ''The OIDC Client ID is missing from the configuration.''
     else if isErr err ErrRedirectURLRequired then ''The OIDC Redirect URL is missing from the configuration.''
     else if isErr err ErrLoginExpired then ''Your login session has expired. Please try signing in again.''
     else if isErr err ErrStateMismatch then ''Security validation failed (state mismatch). Please try signing in again.''
     else if isErr err ErrNonceMismatch then ''Security validation failed (nonce mismatch). Please try signing in again.''
     else if isErr err ErrMissingIDToken then ''The server failed to receive a valid identity token. Please try signing in again.''
     else '''')"

text \<open>\<open>text\<close> is \<open>err.Error()\<close>.\<close>

definition isForbidden :: "goerr \<Rightarrow> bool" where "isForbidden = hasReason (OtherReason ''Forbidden'')"

definition MapError :: "(goerr \<Rightarrow> string) \<Rightarrow> goerr option \<Rightarrow> string" where
  "MapError errText e = (case e of None \<Rightarrow> '''' | Some err \<Rightarrow>
     if mapSentinelError e \<noteq> '''' then mapSentinelError e
     else if isForbidden err then ''You'' @ [CHR 0x27] @ ''re signed in, but your account isn'' @ [CHR 0x27] @ ''t authorized to access this. '' @
       ''Ask an administrator to grant you the necessary permissions.''
     else errText err)"

section \<open>Cookies\<close>

definition sessionCookieName :: string where "sessionCookieName = ''kontinuum_session''"

definition flowCookieName :: string where "flowCookieName = ''kontinuum_oidc_flow''"

definition flowCookieMaxAge :: int where "flowCookieMaxAge = 5 * minute"

definition cookiePath :: string where "cookiePath = ''/app''"

definition randomTokenBytes :: nat where "randomTokenBytes = 32"

definition encodeFlowCookie :: "string \<Rightarrow> string \<Rightarrow> string \<Rightarrow> string" where
  "encodeFlowCookie state nonce pkceVerifier =
     b64encode (EncodeValues [(''state'', state), (''nonce'', nonce), (''verifier'', pkceVerifier)])"

definition decodeFlowCookie :: "string \<Rightarrow> goerr + string \<times> string \<times> string" where
  "decodeFlowCookie raw = (case b64decode raw of
       None \<Rightarrow> Inl ErrLoginExpired
     | Some decoded \<Rightarrow> (case ParseQuery decoded of (values, ok) \<Rightarrow>
         if \<not> ok then Inl ErrLoginExpired
         else let state = GetValue values ''state''; nonce = GetValue values ''nonce''; pkceVerifier = GetValue values ''verifier'' in
           if state = '''' \<or> nonce = '''' \<or> pkceVerifier = '''' then Inl ErrLoginExpired
           else Inr (state, nonce, pkceVerifier)))"

text \<open>A cookie is set for \<open>cookiePath\<close>, \<open>HttpOnly\<close>, \<open>Secure\<close> and \<open>SameSite=Lax\<close>; a negative age deletes it.\<close>

record Cookie =
  ck_Name :: string
  ck_Value :: string
  ck_Path :: string
  ck_HttpOnly :: bool
  ck_Secure :: bool
  ck_SameSiteLax :: bool
  ck_Expires :: "int option"
  ck_MaxAge :: int

datatype action =
    SetCookie Cookie
  | Redirect string
  | HTTPError string nat
  | LoginPage string
  | Served string
  | SetHeader string string
  | WriteHeader nat
  | WriteBody string

definition setCookie :: "string \<Rightarrow> string \<Rightarrow> int \<Rightarrow> action" where
  "setCookie name val expires = SetCookie \<lparr>ck_Name = name, ck_Value = val, ck_Path = cookiePath, ck_HttpOnly = True,
     ck_Secure = True, ck_SameSiteLax = True, ck_Expires = Some expires, ck_MaxAge = 0\<rparr>"

definition clearCookie :: "string \<Rightarrow> action" where
  "clearCookie name = SetCookie \<lparr>ck_Name = name, ck_Value = '''', ck_Path = cookiePath, ck_HttpOnly = True,
     ck_Secure = True, ck_SameSiteLax = True, ck_Expires = None, ck_MaxAge = -1\<rparr>"

section \<open>Handlers\<close>

record AuthConfig =
  ac_IssuerURL :: string
  ac_ClientID :: string
  ac_RedirectURL :: string
  ac_Scopes :: "string list"

record IDToken =
  it_Nonce :: string
  it_Expiry :: int

text \<open>
  The provider found by discovery: the URL of its authorization endpoint for a client, a
  redirect, scopes, a state, a verifier and a nonce; the exchange of a code with a
  verifier, which gives the \<open>id_token\<close> of the response when it is a string; the verification
  of an ID token for the client.
\<close>

record 's Provider =
  pv_AuthCodeURL :: "AuthConfig \<Rightarrow> string \<Rightarrow> string \<Rightarrow> string \<Rightarrow> string"
  pv_Exchange :: "AuthConfig \<Rightarrow> string \<Rightarrow> string \<Rightarrow> ('s, goerr + string option) state"
  pv_Verify :: "string \<Rightarrow> string \<Rightarrow> ('s, goerr + IDToken) state"

record 's oidclib =
  ol_NewProvider :: "string \<Rightarrow> ('s, goerr + 's Provider) state"
  ol_Rand :: "nat \<Rightarrow> ('s, goerr + string) state"
  ol_GenerateVerifier :: "('s, string) state"
  ol_Now :: "('s, int) state"
  ol_Text :: "goerr \<Rightarrow> string"

record 's AuthHandler =
  ah_Config :: AuthConfig
  ah_Provider :: "'s Provider"

record Request =
  rq_Query :: string
  rq_Cookie :: "string \<rightharpoonup> string"

definition queryParam :: "'z Request_scheme \<Rightarrow> string \<Rightarrow> string" where
  "queryParam request k = GetValue (fst (ParseQuery (rq_Query request))) k"

definition NewAuthHandler :: "'s oidclib \<Rightarrow> AuthConfig \<Rightarrow> ('s, goerr + 's AuthHandler) state" where
  "NewAuthHandler lib cfg =
     (if ac_IssuerURL cfg = '''' then return (Inl ErrIssuerURLRequired)
      else if ac_ClientID cfg = '''' then return (Inl ErrClientIDRequired)
      else if ac_RedirectURL cfg = '''' then return (Inl ErrRedirectURLRequired)
      else do {
        p \<leftarrow> ol_NewProvider lib (ac_IssuerURL cfg);
        (case p of
           Inl err \<Rightarrow> return (Inl (Errorf ''failed to discover oidc issuer: %w'' [] [err]))
         | Inr provider \<Rightarrow> return (Inr \<lparr>ah_Config = (if length (ac_Scopes cfg) = 0
              then cfg\<lparr>ac_Scopes := [''openid'', ''profile'', ''email'', ''groups'']\<rparr> else cfg), ah_Provider = provider\<rparr>))
      })"

definition randomToken :: "'s oidclib \<Rightarrow> ('s, goerr + string) state" where
  "randomToken lib = do {
     r \<leftarrow> ol_Rand lib randomTokenBytes;
     (case r of
        Inl err \<Rightarrow> return (Inl (Errorf ''failed to generate random token: %w'' [] [err]))
      | Inr buf \<Rightarrow> return (Inr (b64encode buf)))
   }"

definition validSessionToken :: "'s AuthHandler \<Rightarrow> 'z Request_scheme \<Rightarrow> ('s, string option) state" where
  "validSessionToken h request = (case rq_Cookie request sessionCookieName of
       None \<Rightarrow> return None
     | Some val \<Rightarrow>
         if val = '''' then return None
         else do {
           v \<leftarrow> pv_Verify (ah_Provider h) (ac_ClientID (ah_Config h)) val;
           (case v of Inl err \<Rightarrow> return None | Inr _ \<Rightarrow> return (Some val))
         })"

definition redirectLoginError :: "string \<Rightarrow> action list" where
  "redirectLoginError message = [clearCookie sessionCookieName, Redirect (''/app?'' @ EncodeValues [(''error'', message)])]"

definition beginLogin :: "'s oidclib \<Rightarrow> 's AuthHandler \<Rightarrow> Request \<Rightarrow> ('s, action list) state" where
  "beginLogin lib h request = do {
     pkceVerifier \<leftarrow> ol_GenerateVerifier lib;
     st \<leftarrow> randomToken lib;
     (case st of
        Inl err \<Rightarrow> return [HTTPError (''failed to start login: '' @ ol_Text lib err) 500]
      | Inr state \<Rightarrow> do {
          n \<leftarrow> randomToken lib;
          (case n of
             Inl err \<Rightarrow> return [HTTPError (''failed to start login: '' @ ol_Text lib err) 500]
           | Inr nonce \<Rightarrow> do {
               now \<leftarrow> ol_Now lib;
               return [setCookie flowCookieName (encodeFlowCookie state nonce pkceVerifier) (now + flowCookieMaxAge),
                       Redirect (pv_AuthCodeURL (ah_Provider h) (ah_Config h) state pkceVerifier nonce)]
             })
        })
   }"

definition finishLogin :: "'s oidclib \<Rightarrow> 's AuthHandler \<Rightarrow> string \<Rightarrow> string \<Rightarrow> string \<Rightarrow> ('s, action list) state" where
  "finishLogin lib h code wantNonce pkceVerifier = do {
     x \<leftarrow> pv_Exchange (ah_Provider h) (ah_Config h) code pkceVerifier;
     (case x of
        Inl err \<Rightarrow> return (redirectLoginError (MapError (ol_Text lib) (Some err)))
      | Inr None \<Rightarrow> return (redirectLoginError (MapError (ol_Text lib) (Some ErrMissingIDToken)))
      | Inr (Some rawIDToken) \<Rightarrow> do {
          v \<leftarrow> pv_Verify (ah_Provider h) (ac_ClientID (ah_Config h)) rawIDToken;
          (case v of
             Inl err \<Rightarrow> return (redirectLoginError (MapError (ol_Text lib) (Some err)))
           | Inr idToken \<Rightarrow>
               if it_Nonce idToken \<noteq> wantNonce then return (redirectLoginError (MapError (ol_Text lib) (Some ErrNonceMismatch)))
               else return [setCookie sessionCookieName rawIDToken (it_Expiry idToken), Redirect ''/app/home''])
        })
   }"

definition handleCallback :: "'s oidclib \<Rightarrow> 's AuthHandler \<Rightarrow> Request \<Rightarrow> ('s, action list) state" where
  "handleCallback lib h request = (case rq_Cookie request flowCookieName of
       None \<Rightarrow> return (redirectLoginError (MapError (ol_Text lib) (Some ErrLoginExpired)))
     | Some flow \<Rightarrow> do {
         acts \<leftarrow> (case decodeFlowCookie flow of
             Inl err \<Rightarrow> return (redirectLoginError (MapError (ol_Text lib) (Some err)))
           | Inr (wantState, wantNonce, pkceVerifier) \<Rightarrow>
               if queryParam request ''state'' \<noteq> wantState then return (redirectLoginError (MapError (ol_Text lib) (Some ErrStateMismatch)))
               else finishLogin lib h (queryParam request ''code'') wantNonce pkceVerifier);
         return (clearCookie flowCookieName # acts)
       })"

definition HandleApp :: "'s oidclib \<Rightarrow> 's AuthHandler \<Rightarrow> Request \<Rightarrow> ('s, action list) state" where
  "HandleApp lib h request =
     (if queryParam request ''code'' \<noteq> '''' then handleCallback lib h request
      else do {
        v \<leftarrow> validSessionToken h request;
        (case v of
           Some _ \<Rightarrow> return [Redirect ''/app/home'']
         | None \<Rightarrow> return [LoginPage (queryParam request ''error'')])
      })"

definition HandleLogin :: "'s oidclib \<Rightarrow> 's AuthHandler \<Rightarrow> Request \<Rightarrow> ('s, action list) state" where
  "HandleLogin lib h request = beginLogin lib h request"

text \<open>\<open>Protect\<close>: the wrapped handler gets the token that \<open>TokenFromContext\<close> reads.\<close>

definition Protect :: "'s AuthHandler \<Rightarrow> (string \<Rightarrow> 'z Request_scheme \<Rightarrow> ('s, action list) state) \<Rightarrow> 'z Request_scheme \<Rightarrow>
    ('s, action list) state" where
  "Protect h next request = do {
     v \<leftarrow> validSessionToken h request;
     (case v of
        None \<Rightarrow> return [Redirect ''/app'']
      | Some rawIDToken \<Rightarrow> next rawIDToken request)
   }"

definition HandleLogout :: "action list" where
  "HandleLogout = [clearCookie sessionCookieName, Redirect ''/app'']"

definition InvalidateSession :: "string \<Rightarrow> action list" where
  "InvalidateSession reason = redirectLoginError reason"

section \<open>Decoding undoes encoding\<close>

lemma char_less: "(of_char c :: nat) < 256"
  by (metis mod_less_divisor of_char_mod_256 zero_less_numeral)

lemma b64char_code:
  assumes "n < 64"
  shows "(of_char (b64char n) :: nat) = (if n < 26 then 65 + n else if n < 52 then 71 + n else if n < 62 then n - 4 else if n = 62 then 45 else 95)"
  using assms by (auto simp: b64char_def of_char_of)

lemma b64char_ok:
  assumes "n < 64"
  shows "b64digit (b64char n) = Some n \<and> b64char n \<noteq> CHR 0x0A \<and> b64char n \<noteq> CHR 0x0D"
proof (intro conjI)
  show "b64digit (b64char n) = Some n" unfolding b64digit_def b64char_code [OF assms] Let_def using assms by auto
  have "(of_char (b64char n) :: nat) \<noteq> 10 \<and> (of_char (b64char n) :: nat) \<noteq> 13" unfolding b64char_code [OF assms] by auto
  then show "b64char n \<noteq> CHR 0x0A" "b64char n \<noteq> CHR 0x0D" by auto
qed

lemma b64digits_map: "\<forall>d\<in>set ds. d < 64 \<Longrightarrow> b64digits (map b64char ds @ s) = map_option ((@) ds) (b64digits s)"
  by (induction ds; cases "b64digits s") (auto simp: b64char_ok)

lemma quantum_digits:
  assumes "a < 256" "b < 256" "c < 256"
  shows "\<forall>d\<in>set (quantum a b c). d < 64"
proof -
  have "a * 65536 + b * 256 + c < 16777216" using assms by linarith
  then show ?thesis by (simp add: quantum_def Let_def less_mult_imp_div_less)
qed

lemma quantum_value:
  assumes "(v :: nat) = a * 65536 + b * 256 + c"
  shows "v div 262144 * 262144 + v div 4096 mod 64 * 4096 + v div 64 mod 64 * 64 + v mod 64 = v"
proof -
  have "v div 64 = v div 4096 * 64 + v div 64 mod 64" using div_mult_mod_eq [of "v div 64" 64] by (simp add: div_mult2_eq [symmetric])
  moreover have "v div 4096 = v div 262144 * 64 + v div 4096 mod 64" using div_mult_mod_eq [of "v div 4096" 64] by (simp add: div_mult2_eq [symmetric])
  moreover have "v = v div 64 * 64 + v mod 64" by simp
  ultimately show ?thesis by linarith
qed

lemma quantum_bytes:
  assumes "b < 256" "c < 256"
  shows "(a * 65536 + b * 256 + c) div 65536 = (a :: nat)" "(a * 65536 + b * 256 + c) div 256 mod 256 = b" "(a * 65536 + b * 256 + c) mod 256 = c"
proof -
  have v: "a * 65536 + b * 256 + c = (a * 256 + b) * 256 + c" by simp
  have d: "((a * 256 + b) * 256 + c) div 256 = a * 256 + b" using assms by simp
  show "(a * 65536 + b * 256 + c) div 256 mod 256 = b" unfolding v d using assms by simp
  show "(a * 65536 + b * 256 + c) mod 256 = c" unfolding v mod_mult_self3 using assms(2) by (rule mod_less)
  have "(a * 65536 + b * 256 + c) div 65536 = (a * 65536 + b * 256 + c) div 256 div 256" by (simp add: div_mult2_eq [symmetric])
  then show "(a * 65536 + b * 256 + c) div 65536 = a" unfolding v d using assms by simp
qed

lemma unquantum_quantum:
  obtains d e f g where "quantum (of_char a) (of_char b) (of_char c) = [d, e, f, g]" "unquantum d e f g = [a, b, c]"
proof -
  let ?v = "of_char a * 65536 + of_char b * 256 + of_char c :: nat"
  have "unquantum (?v div 262144) (?v div 4096 mod 64) (?v div 64 mod 64) (?v mod 64) = [a, b, c]"
    unfolding unquantum_def quantum_value [OF refl] Let_def quantum_bytes [OF char_less char_less, of "of_char a" b c] char_of_char ..
  then show ?thesis using that by (simp add: quantum_def Let_def)
qed

lemma quantum_zero:
  "quantum a b 0 = [d, e, f, g] \<Longrightarrow> g = 0" "quantum a 0 0 = [d, e, f, g] \<Longrightarrow> f = 0 \<and> g = 0"
proof -
  have "a * 65536 + b * 256 = 64 * (a * 1024 + b * 4)" by simp
  then have "(a * 65536 + b * 256) mod 64 = 0" by (metis mod_mult_self1_is_0)
  then show "quantum a b 0 = [d, e, f, g] \<Longrightarrow> g = 0" by (auto simp: quantum_def Let_def)
  have v: "a * 65536 = 64 * (64 * (a * 16))" by simp
  have "a * 65536 div 64 mod 64 = 0" "a * 65536 mod 64 = 0" unfolding v by simp_all
  then show "quantum a 0 0 = [d, e, f, g] \<Longrightarrow> f = 0 \<and> g = 0" by (auto simp: quantum_def Let_def)
qed

lemma b64_roundtrip: "b64decode (b64encode s) = Some s"
proof -
  have q: "\<forall>d\<in>set (quantum (of_char a) (of_char b) (of_char c)). d < 64" for a b c by (rule quantum_digits) (rule char_less)+
  have zero: "(of_char (CHR 0x00) :: nat) = 0" by simp
  have "\<exists>ds. b64digits (b64encode s) = Some ds \<and> b64quanta ds = Some s"
  proof (induction s rule: b64encode.induct)
    case (2 a)
    obtain d e f g where k: "quantum (of_char a) (of_char (CHR 0x00)) (of_char (CHR 0x00)) = [d, e, f, g]" "unquantum d e f g = [a, CHR 0x00, CHR 0x00]"
      by (rule unquantum_quantum)
    then show ?case using q [of a "CHR 0x00" "CHR 0x00"] quantum_zero(2) [of "of_char a" d e f g] b64digits_map [of "[d, e]" "[]"] unfolding zero by simp
  next
    case (3 a b)
    obtain d e f g where k: "quantum (of_char a) (of_char b) (of_char (CHR 0x00)) = [d, e, f, g]" "unquantum d e f g = [a, b, CHR 0x00]"
      by (rule unquantum_quantum)
    then show ?case using q [of a b "CHR 0x00"] quantum_zero(1) [of "of_char a" "of_char b" d e f g] b64digits_map [of "[d, e, f]" "[]"] unfolding zero
      by (simp add: numeral_3_eq_3)
  next
    case (4 a b c s)
    then obtain ds where ds: "b64digits (b64encode s) = Some ds" "b64quanta ds = Some s" by blast
    obtain d e f g where k: "quantum (of_char a) (of_char b) (of_char c) = [d, e, f, g]" "unquantum d e f g = [a, b, c]"
      by (rule unquantum_quantum)
    then show ?case using q [of a b c] b64digits_map [of "[d, e, f, g]" "b64encode s"] ds by simp
  qed simp
  then show ?thesis by (auto simp: b64decode_def)
qed

lemma upperHex_code: "n < 16 \<Longrightarrow> (of_char (upperHex n) :: nat) = (if n < 10 then 48 + n else 55 + n)"
  by (auto simp: upperHex_def of_char_of)

lemma unhex_upperHex: "n < 16 \<Longrightarrow> unhex (upperHex n) = Some n"
  by (auto simp: unhex_def upperHex_code Let_def)

lemma unreserved_plain: "unreserved c \<Longrightarrow> c \<noteq> CHR ''%'' \<and> c \<noteq> CHR ''+''"
  by (auto simp: unreserved_def Let_def)

lemma QueryUnescape_char: "QueryUnescape (escapeChar c @ s) = map_option ((#) c) (QueryUnescape s)"
proof -
  have h: "(of_char c :: nat) div 16 < 16" using char_less [of c] by (intro less_mult_imp_div_less) simp
  have c: "char_of (16 * (of_char c div 16) + of_char c mod 16 :: nat) = c" by simp
  show ?thesis using unreserved_plain [of c] unhex_upperHex [OF h] unhex_upperHex [of "of_char c mod 16"] c
    by (auto simp: escapeChar_def)
qed

lemma QueryUnescape_QueryEscape: "QueryUnescape (QueryEscape s) = Some s"
  by (induction s) (auto simp: QueryEscape_def QueryUnescape_char)

text \<open>What an escaped string is made of.\<close>

definition escaped :: "char \<Rightarrow> bool" where
  "escaped c \<longleftrightarrow> c \<noteq> CHR ''&'' \<and> c \<noteq> CHR ''='' \<and> c \<noteq> CHR '';''"

lemma upperHex_escaped: "n < 16 \<Longrightarrow> escaped (upperHex n)"
proof -
  assume n: "n < 16"
  have "(of_char (upperHex n) :: nat) \<notin> {38, 61, 59}" using n by (auto simp: upperHex_code)
  then show ?thesis by (auto simp: escaped_def)
qed

lemma escapeChar_escaped: "\<forall>x\<in>set (escapeChar c). escaped x"
proof (cases "unreserved c")
  case True
  then have "escaped c" by (auto simp: unreserved_def escaped_def Let_def)
  then show ?thesis using True by (simp add: escapeChar_def)
next
  case False
  have "(of_char c :: nat) div 16 < 16" using char_less [of c] by (intro less_mult_imp_div_less) simp
  then show ?thesis using False upperHex_escaped [of "of_char c div 16"] upperHex_escaped [of "of_char c mod 16"]
    by (auto simp: escapeChar_def escaped_def)
qed

lemma QueryEscape_escaped: "\<forall>x\<in>set (QueryEscape s). escaped x"
  using escapeChar_escaped by (auto simp: QueryEscape_def)

lemma cut_app: "\<forall>x\<in>set p. x \<noteq> c \<Longrightarrow> cut c (p @ c # s) = (p, s)" "\<forall>x\<in>set p. x \<noteq> c \<Longrightarrow> cut c p = (p, [])"
  by (induction p) (auto simp: cut_def)

definition pairText :: "string \<times> string \<Rightarrow> string" where
  "pairText kv = QueryEscape (fst kv) @ ''='' @ QueryEscape (snd kv)"

lemma parsePair_pairText: "parsePair (pairText kv) = Some kv"
proof -
  have "cut (CHR ''='') (QueryEscape (fst kv) @ CHR ''='' # QueryEscape (snd kv)) = (QueryEscape (fst kv), QueryEscape (snd kv))"
    using QueryEscape_escaped [of "fst kv"] by (intro cut_app(1)) (auto simp: escaped_def)
  then show ?thesis by (simp add: parsePair_def pairText_def QueryUnescape_QueryEscape)
qed

lemma pairText_chars: "CHR ''&'' \<notin> set (pairText kv)" "CHR '';'' \<notin> set (pairText kv)" "pairText kv \<noteq> []"
  using QueryEscape_escaped [of "fst kv"] QueryEscape_escaped [of "snd kv"] by (auto simp: pairText_def escaped_def)

lemma ParseQuery_pairs: "ParseQuery (pairText kv @ concat (map (\<lambda>kv. CHR ''&'' # pairText kv) kvs)) = (kv # kvs, True)"
proof (induction kvs arbitrary: kv)
  case Nil
  have "cut (CHR ''&'') (pairText kv) = (pairText kv, [])" using pairText_chars(1) [of kv] by (intro cut_app(2)) auto
  then show ?case using pairText_chars [of kv] by (simp add: ParseQuery.simps parsePair_pairText)
next
  case (Cons kv' kvs)
  let ?rest = "pairText kv' @ concat (map (\<lambda>kv. CHR ''&'' # pairText kv) kvs)"
  have c: "cut (CHR ''&'') (pairText kv @ CHR ''&'' # ?rest) = (pairText kv, ?rest)" using pairText_chars(1) [of kv] by (intro cut_app(1)) auto
  show ?case using pairText_chars [of kv] c Cons.IH [of kv'] by (subst ParseQuery.simps) (simp add: parsePair_pairText)
qed

lemma ParseQuery_EncodeValues: "ParseQuery (EncodeValues vs) = (sort_by fst vs, True)"
proof -
  have e: "(\<lambda>(k, v). QueryEscape k @ ''='' @ QueryEscape v) = pairText" by (auto simp: pairText_def)
  show ?thesis
  proof (cases "sort_by fst vs")
    case Nil
    then show ?thesis by (simp add: EncodeValues_def ParseQuery.simps)
  next
    case (Cons kv kvs)
    then show ?thesis unfolding EncodeValues_def e using ParseQuery_pairs [of kv kvs] by (simp add: comp_def)
  qed
qed

lemma flow_cookie_roundtrip':
  assumes "state \<noteq> ''''" "nonce \<noteq> ''''" "verifier \<noteq> ''''"
  shows "decodeFlowCookie (encodeFlowCookie state nonce verifier) = Inr (state, nonce, verifier)"
proof -
  have "sort_by fst [(''state'', state), (''nonce'', nonce), (''verifier'', verifier)] = [(''nonce'', nonce), (''state'', state), (''verifier'', verifier)]"
    by (simp add: sort_by_def)
  then show ?thesis using assms
    by (simp add: decodeFlowCookie_def encodeFlowCookie_def b64_roundtrip ParseQuery_EncodeValues GetValue_def)
qed

text \<open>
  C18: The flow cookie survives the browser.  Whatever bytes the state, the nonce and the
  verifier consist of, as long as none is empty, decoding the cookie that a login set gives
  back exactly these three.
\<close>

theorem flow_cookie_roundtrip:
  assumes "state \<noteq> ''''" "nonce \<noteq> ''''" "verifier \<noteq> ''''"
  shows "decodeFlowCookie (encodeFlowCookie state nonce verifier) = Inr (state, nonce, verifier)"
  by (rule flow_cookie_roundtrip' [OF assms])

text \<open>Why an empty part is refused: it would be read back as a missing one.\<close>

theorem flow_cookie_roundtrip_witness:
  "decodeFlowCookie (encodeFlowCookie ''a&b;c'' ''n=1 %'' ''v+w'') = Inr (''a&b;c'', ''n=1 %'', ''v+w'')"
  by (rule flow_cookie_roundtrip) simp_all

section \<open>Who gets a session\<close>

text \<open>The cookies that start a session: those with the session's name and a value that is not cleared.\<close>

definition grantsSession :: "action \<Rightarrow> string option" where
  "grantsSession a = (case a of
       SetCookie c \<Rightarrow> if ck_Name c = sessionCookieName \<and> \<not> ck_MaxAge c < 0 then Some (ck_Value c) else None
     | _ \<Rightarrow> None)"

lemma grantsSession_simps [simp]:
  "grantsSession (clearCookie n) = None" "grantsSession (Redirect u) = None" "grantsSession (HTTPError m k) = None" "grantsSession (LoginPage e) = None"
  "grantsSession (setCookie n v t) = (if n = sessionCookieName then Some v else None)"
  by (simp_all add: grantsSession_def clearCookie_def setCookie_def)

lemma redirectLoginError_grants [simp]: "a \<in> set (redirectLoginError m) \<Longrightarrow> grantsSession a = None"
  by (auto simp: redirectLoginError_def)

lemma flow_not_session [simp]: "flowCookieName \<noteq> sessionCookieName"
  by (simp add: flowCookieName_def sessionCookieName_def)

lemma beginLogin_grants:
  assumes "run_state (beginLogin lib h request) s = (acts, t)" and "a \<in> set acts"
  shows "grantsSession a = None"
  using assms by (auto simp: beginLogin_def split: prod.splits sum.splits)

lemma finishLogin_grants:
  assumes run: "run_state (finishLogin lib h code wantNonce verifier) s = (acts, t)" and a: "a \<in> set acts" "grantsSession a = Some tok"
  shows "\<exists>u idToken. run_state (pv_Exchange (ah_Provider h) (ah_Config h) code verifier) s = (Inr (Some tok), u) \<and>
    result_of (pv_Verify (ah_Provider h) (ac_ClientID (ah_Config h)) tok) u = Inr idToken \<and> it_Nonce idToken = wantNonce"
proof -
  obtain x u where x: "run_state (pv_Exchange (ah_Provider h) (ah_Config h) code verifier) s = (x, u)" by fastforce
  obtain raw where raw: "x = Inr (Some raw)"
    using run a x by (cases x; cases "projr x") (auto simp: finishLogin_def)
  obtain v w where v: "run_state (pv_Verify (ah_Provider h) (ac_ClientID (ah_Config h)) raw) u = (v, w)" by fastforce
  have "tok = raw \<and> (\<exists>i. v = Inr i \<and> it_Nonce i = wantNonce)"
    using run a x v raw by (auto simp: finishLogin_def split: sum.splits if_splits)
  then show ?thesis using x v raw by auto
qed

text \<open>
  C17: Nobody is signed in without having completed their own login.  If the answer to a
  request for \<open>/app\<close> sets a session cookie, then the request carried a code and a flow cookie
  whose state equals the one in the query; the code was exchanged with the verifier of that
  same flow cookie; the session's token is the ID token that the exchange gave, was verified
  for this client and carries the nonce of the flow cookie; and the answer deletes the flow
  cookie before it sets the session.
\<close>

theorem session_needs_own_login:
  assumes run: "run_state (HandleApp lib h request) s = (acts, t)" and a: "a \<in> set acts" "grantsSession a = Some tok"
  shows "\<exists>flow nonce verifier u idToken.
    queryParam request ''code'' \<noteq> '''' \<and> rq_Cookie request flowCookieName = Some flow \<and>
    decodeFlowCookie flow = Inr (queryParam request ''state'', nonce, verifier) \<and>
    run_state (pv_Exchange (ah_Provider h) (ah_Config h) (queryParam request ''code'') verifier) s = (Inr (Some tok), u) \<and>
    result_of (pv_Verify (ah_Provider h) (ac_ClientID (ah_Config h)) tok) u = Inr idToken \<and> it_Nonce idToken = nonce \<and>
    hd acts = clearCookie flowCookieName"
proof -
  have code: "queryParam request ''code'' \<noteq> ''''" and cb: "run_state (handleCallback lib h request) s = (acts, t)"
    using run a by (auto simp: HandleApp_def split: if_splits prod.splits option.splits)
  obtain flow where flow: "rq_Cookie request flowCookieName = Some flow"
    using cb a by (auto simp: handleCallback_def split: option.splits)
  obtain st nonce verifier where d: "decodeFlowCookie flow = Inr (st, nonce, verifier)"
    using cb a flow by (cases "decodeFlowCookie flow") (auto simp: handleCallback_def)
  have st: "queryParam request ''state'' = st" using cb a flow d by (auto simp: handleCallback_def split: if_splits)
  obtain acts' where f: "run_state (finishLogin lib h (queryParam request ''code'') nonce verifier) s = (acts', t)" and e: "acts = clearCookie flowCookieName # acts'"
    using cb flow d st by (auto simp: handleCallback_def split: prod.splits)
  then have "a \<in> set acts'" using a by auto
  from finishLogin_grants [OF f this a(2)] show ?thesis using code flow d st e by auto
qed

text \<open>
  A protected page is shown only to a signed-in browser.  The wrapped handler runs only
  after the session cookie's token has just been verified for this client, and it gets
  exactly that token; in every other case the answer is the redirect to \<open>/app\<close> alone.
\<close>

theorem Protect_sound:
  assumes run: "run_state (Protect h next request) s = (acts, t)"
  shows "acts = [Redirect ''/app''] \<or>
    (\<exists>tok u idToken. rq_Cookie request sessionCookieName = Some tok \<and> tok \<noteq> '''' \<and>
       run_state (pv_Verify (ah_Provider h) (ac_ClientID (ah_Config h)) tok) s = (Inr idToken, u) \<and>
       run_state (next tok request) u = (acts, t))"
proof (cases "rq_Cookie request sessionCookieName")
  case (Some tok)
  obtain v u where "run_state (pv_Verify (ah_Provider h) (ac_ClientID (ah_Config h)) tok) s = (v, u)" by fastforce
  then show ?thesis using run Some by (auto simp: Protect_def validSessionToken_def split: if_splits sum.splits)
qed (use run in \<open>simp add: Protect_def validSessionToken_def\<close>)

lemma b64encode_nonempty: "s \<noteq> [] \<Longrightarrow> b64encode s \<noteq> []"
  by (cases s rule: b64encode.cases) (auto simp: quantum_def Let_def)

lemma randomToken_nonempty:
  assumes "\<And>n s buf. result_of (ol_Rand lib n) s = Inr buf \<Longrightarrow> length buf = n" and "run_state (randomToken lib) s = (Inr tok, t)"
  shows "tok \<noteq> ''''"
proof -
  obtain r u where r: "run_state (ol_Rand lib randomTokenBytes) s = (r, u)" by fastforce
  then obtain buf where buf: "r = Inr buf" "tok = b64encode buf" using assms(2) by (cases r) (auto simp: randomToken_def)
  have "length buf = randomTokenBytes" by (rule assms(1) [of randomTokenBytes s]) (simp add: r buf)
  then have "buf \<noteq> []" by (auto simp: randomTokenBytes_def)
  then show ?thesis unfolding buf(2) by (rule b64encode_nonempty)
qed

lemma beginLogin_run:
  assumes rand: "\<And>n s buf. result_of (ol_Rand lib n) s = Inr buf \<Longrightarrow> length buf = n" and ver: "\<And>s. result_of (ol_GenerateVerifier lib) s \<noteq> ''''"
    and start: "run_state (beginLogin lib h request0) s0 = ([SetCookie ck, Redirect url], s1)"
  shows "\<exists>state nonce verifier. state \<noteq> '''' \<and> nonce \<noteq> '''' \<and> verifier \<noteq> '''' \<and> ck_Value ck = encodeFlowCookie state nonce verifier \<and>
    url = pv_AuthCodeURL (ah_Provider h) (ah_Config h) state verifier nonce"
proof -
  obtain verifier u1 where v: "run_state (ol_GenerateVerifier lib) s0 = (verifier, u1)" by fastforce
  obtain st u2 where st: "run_state (randomToken lib) u1 = (st, u2)" by fastforce
  obtain state where state: "st = Inr state" using start v st by (cases st) (auto simp: beginLogin_def)
  obtain n u3 where n: "run_state (randomToken lib) u2 = (n, u3)" by fastforce
  obtain nonce where nonce: "n = Inr nonce" using start v st state n by (cases n) (auto simp: beginLogin_def)
  have "ck_Value ck = encodeFlowCookie state nonce verifier \<and> url = pv_AuthCodeURL (ah_Provider h) (ah_Config h) state verifier nonce"
    using start v st state n nonce by (auto simp: beginLogin_def setCookie_def split: prod.splits)
  moreover have "state \<noteq> ''''" by (rule randomToken_nonempty [OF _ st [unfolded state]]) (rule rand)
  moreover have "nonce \<noteq> ''''" by (rule randomToken_nonempty [OF _ n [unfolded nonce]]) (rule rand)
  moreover have "verifier \<noteq> ''''" using ver [of s0] v by simp
  ultimately show ?thesis by blast
qed

text \<open>
  C19: A login that the provider answers succeeds.  What \<open>/app/login\<close> puts into its redirect,
  a state and a nonce, is all a browser needs: when it comes back with the cookie it was
  given, with that state and with a code for which the provider gives an ID token that
  verifies and carries that nonce, it is signed in with that token.
\<close>

theorem login_completes:
  assumes rand: "\<And>n s buf. result_of (ol_Rand lib n) s = Inr buf \<Longrightarrow> length buf = n" and ver: "\<And>s. result_of (ol_GenerateVerifier lib) s \<noteq> ''''"
    and start: "run_state (beginLogin lib h request0) s0 = ([SetCookie ck, Redirect url], s1)"
  shows "\<exists>state nonce verifier. url = pv_AuthCodeURL (ah_Provider h) (ah_Config h) state verifier nonce \<and>
    (\<forall>request s tok idToken u t. rq_Cookie request flowCookieName = Some (ck_Value ck) \<and> queryParam request ''state'' = state \<and>
       queryParam request ''code'' \<noteq> '''' \<and>
       run_state (pv_Exchange (ah_Provider h) (ah_Config h) (queryParam request ''code'') verifier) s = (Inr (Some tok), u) \<and>
       run_state (pv_Verify (ah_Provider h) (ac_ClientID (ah_Config h)) tok) u = (Inr idToken, t) \<and> it_Nonce idToken = nonce \<longrightarrow>
       run_state (HandleApp lib h request) s =
         ([clearCookie flowCookieName, setCookie sessionCookieName tok (it_Expiry idToken), Redirect ''/app/home''], t))"
proof -
  have "\<exists>state nonce verifier. state \<noteq> '''' \<and> nonce \<noteq> '''' \<and> verifier \<noteq> '''' \<and> ck_Value ck = encodeFlowCookie state nonce verifier \<and>
      url = pv_AuthCodeURL (ah_Provider h) (ah_Config h) state verifier nonce"
    by (rule beginLogin_run [OF _ ver start]) (rule rand)
  then obtain state nonce verifier where l: "state \<noteq> ''''" "nonce \<noteq> ''''" "verifier \<noteq> ''''" "ck_Value ck = encodeFlowCookie state nonce verifier"
    "url = pv_AuthCodeURL (ah_Provider h) (ah_Config h) state verifier nonce" by (elim exE conjE)
  then have "decodeFlowCookie (ck_Value ck) = Inr (state, nonce, verifier)" using flow_cookie_roundtrip' by simp
  then show ?thesis
    by (intro exI [of _ state] exI [of _ nonce] exI [of _ verifier]) (auto simp: l(5) HandleApp_def handleCallback_def finishLogin_def)
qed

section \<open>A concrete provider\<close>

text \<open>It issues for the code \<open>c\<close> the token \<open>t\<close> with the nonce of the login, and knows no other token.\<close>

definition demo_provider :: "string \<Rightarrow> unit Provider" where
  "demo_provider nonce = \<lparr>pv_AuthCodeURL = (\<lambda>_ st v n. st @ ''/'' @ n), pv_Exchange = (\<lambda>_ code _. return (if code = ''c'' then Inr (Some ''t'') else Inl (Sentinel ''code''))),
     pv_Verify = (\<lambda>_ tok. return (if tok = ''t'' then Inr \<lparr>it_Nonce = nonce, it_Expiry = 9\<rparr> else Inl (Sentinel ''token'')))\<rparr>"

definition demo_oidc :: "unit oidclib" where
  "demo_oidc = \<lparr>ol_NewProvider = (\<lambda>_. return (Inr (demo_provider ''''))), ol_Rand = (\<lambda>n. return (Inr (replicate n (CHR ''r'')))),
     ol_GenerateVerifier = return ''ver'', ol_Now = return 1, ol_Text = (\<lambda>_. ''error'')\<rparr>"

definition demo_handler :: "string \<Rightarrow> unit AuthHandler" where
  "demo_handler nonce = \<lparr>ah_Config = \<lparr>ac_IssuerURL = ''i'', ac_ClientID = ''kontinuum'', ac_RedirectURL = ''r'', ac_Scopes = [''openid'']\<rparr>,
     ah_Provider = demo_provider nonce\<rparr>"

text \<open>A browser that comes back with its flow cookie, and one with a session.\<close>

definition demo_return :: Request where
  "demo_return = \<lparr>rq_Query = ''code=c&state=s'', rq_Cookie = [flowCookieName \<mapsto> encodeFlowCookie ''s'' ''n'' ''v'']\<rparr>"

definition demo_session :: Request where
  "demo_session = \<lparr>rq_Query = '''', rq_Cookie = [sessionCookieName \<mapsto> ''t'']\<rparr>"

lemma demo_params [simp]: "queryParam demo_return ''code'' = ''c''" "queryParam demo_return ''state'' = ''s''"
proof -
  have "ParseQuery ''code=c&state=s'' = ([(''code'', ''c''), (''state'', ''s'')], True)"
    using ParseQuery_pairs [of "(''code'', ''c'')" "[(''state'', ''s'')]"]
    by (simp add: pairText_def QueryEscape_def escapeChar_def unreserved_def Let_def)
  then show "queryParam demo_return ''code'' = ''c''" "queryParam demo_return ''state'' = ''s''"
    by (simp_all add: queryParam_def demo_return_def GetValue_def)
qed

lemma demo_login: "run_state (HandleApp demo_oidc (demo_handler ''n'') demo_return) () =
  ([clearCookie flowCookieName, setCookie sessionCookieName ''t'' 9, Redirect ''/app/home''], ())"
proof -
  have "rq_Cookie demo_return flowCookieName = Some (encodeFlowCookie ''s'' ''n'' ''v'')" by (simp add: demo_return_def)
  then show ?thesis
    by (simp add: HandleApp_def handleCallback_def flow_cookie_roundtrip' finishLogin_def demo_handler_def demo_provider_def)
qed

theorem session_needs_own_login_witness:
  "\<exists>flow nonce verifier. rq_Cookie demo_return flowCookieName = Some flow \<and> decodeFlowCookie flow = Inr (queryParam demo_return ''state'', nonce, verifier)"
proof -
  have "setCookie sessionCookieName ''t'' 9 \<in> set [clearCookie flowCookieName, setCookie sessionCookieName ''t'' 9, Redirect ''/app/home'']" by simp
  from session_needs_own_login [OF demo_login this, of "''t''"] show ?thesis by auto
qed

theorem Protect_sound_witness:
  "run_state (Protect (demo_handler ''n'') (\<lambda>tok _. return [Served tok]) demo_session) () = ([Served ''t''], ()) \<and>
   (\<exists>idToken. result_of (pv_Verify (demo_provider ''n'') ''kontinuum'' ''t'') () = Inr idToken)"
proof -
  have run: "run_state (Protect (demo_handler ''n'') (\<lambda>tok _. return [Served tok]) demo_session) () = ([Served ''t''], ())"
    by (simp add: Protect_def validSessionToken_def demo_session_def demo_handler_def demo_provider_def)
  from Protect_sound [OF run] obtain tok idToken where "rq_Cookie demo_session sessionCookieName = Some tok"
    "result_of (pv_Verify (ah_Provider (demo_handler ''n'')) (ac_ClientID (ah_Config (demo_handler ''n''))) tok) () = Inr idToken" by auto
  then show ?thesis using run by (auto simp: demo_session_def demo_handler_def)
qed

theorem login_completes_witness:
  "\<exists>state nonce verifier. b64encode (replicate 32 (CHR ''r'')) @ ''/'' @ b64encode (replicate 32 (CHR ''r'')) =
     pv_AuthCodeURL (demo_provider ''n'') (ah_Config (demo_handler ''n'')) state verifier nonce"
proof -
  let ?tok = "b64encode (replicate randomTokenBytes (CHR ''r''))"
  have r: "run_state (randomToken demo_oidc) () = (Inr ?tok, ())" by (simp add: randomToken_def demo_oidc_def)
  have p: "ah_Provider (demo_handler ''n'') = demo_provider ''n''" by (simp add: demo_handler_def)
  have start: "run_state (beginLogin demo_oidc (demo_handler ''n'') demo_session) () =
     ([SetCookie \<lparr>ck_Name = flowCookieName, ck_Value = encodeFlowCookie ?tok ?tok ''ver'',
        ck_Path = cookiePath, ck_HttpOnly = True, ck_Secure = True, ck_SameSiteLax = True, ck_Expires = Some (1 + flowCookieMaxAge), ck_MaxAge = 0\<rparr>,
       Redirect (?tok @ ''/'' @ ?tok)], ())"
    using r by (simp add: beginLogin_def setCookie_def p) (simp add: demo_oidc_def demo_provider_def)
  have "\<exists>state nonce verifier. ?tok @ ''/'' @ ?tok = pv_AuthCodeURL (ah_Provider (demo_handler ''n'')) (ah_Config (demo_handler ''n'')) state verifier nonce"
    using login_completes [OF _ _ start] unfolding demo_oidc_def by fastforce
  then show ?thesis unfolding p randomTokenBytes_def .
qed

end
