(* ===== verification/UiBase.thy ===== *)
theory UiBase
  imports ZoneAdd Addons AdminRbac Auth "HOL-Library.Product_Lexorder"
begin

text \<open>
  What every page of the web interface shares: \<open>helpers.go\<close>, \<open>kubeconfig.go\<close> and the first part
  of \<open>router.go\<close> of \<open>pkg/ui\<close>.  A handler gives the list of what it does to the response, as in
  \<open>Auth\<close>.  The templates are files outside the model: \<open>ui_execute\<close> executes one of a page's
  template trees on the data of the page, a map from keys to values.
\<close>

section \<open>Helpers\<close>

definition hoursPerDay :: int where "hoursPerDay = 24"

text \<open>The scheme that \<open>url.Parse\<close> finds is a parameter.\<close>

definition storageBackendName :: "(string \<Rightarrow> goerr + string) \<Rightarrow> string \<Rightarrow> string" where
  "storageBackendName parseScheme target = (case parseScheme target of
       Inl err \<Rightarrow> target
     | Inr scheme \<Rightarrow>
         if scheme = ''sqlite'' then ''SQLite''
         else if scheme = ''postgres'' \<or> scheme = ''postgresql'' then ''PostgreSQL''
         else if scheme = ''mysql'' then ''MySQL''
         else if scheme = ''etcd'' then ''etcd''
         else if scheme = ''unix'' then ''Kine (Unix socket)''
         else if scheme = ''nats'' then ''NATS''
         else scheme)"

definition ageText :: "int \<Rightarrow> string" where
  "ageText elapsed =
     (if elapsed < minute then itoa (quot elapsed second) @ ''s''
      else if elapsed < hour then itoa (quot elapsed minute) @ ''m''
      else if elapsed < hoursPerDay * hour then itoa (quot elapsed hour) @ ''h''
      else itoa (quot elapsed (hoursPerDay * hour)) @ ''d'')"

text \<open>\<open>time.Since\<close> reads the clock once per call.\<close>

definition formatAge :: "'s world \<Rightarrow> int \<Rightarrow> ('s, string) state" where
  "formatAge w t =
     (if t = 0 then return ''-''
      else do { now \<leftarrow> w_now w; return (ageText (now - t)) })"

record labelChip =
  lc_Key :: string
  lc_Value :: string

text \<open>\<open>order\<close> gives the entries of a map in the order in which a range visits them.\<close>

definition sortedLabels :: "(labels \<Rightarrow> (string \<times> string) list) \<Rightarrow> labels \<Rightarrow> labelChip list" where
  "sortedLabels order ls = sort_by lc_Key (map (\<lambda>(k, v). \<lparr>lc_Key = k, lc_Value = v\<rparr>) (order ls))"

text \<open>Messages are ASCII text: a rune is a character.\<close>

definition upperRune :: "char \<Rightarrow> char" where
  "upperRune c = (let n = of_char c :: nat in if 97 \<le> n \<and> n \<le> 122 then char_of (n - 32) else c)"

fun capitalizeFirst :: "string \<Rightarrow> string" where
  "capitalizeFirst [] = []"
| "capitalizeFirst (c # s) = upperRune c # s"

section \<open>The kubeconfig for the command line\<close>

text \<open>\<open>net.SplitHostPort\<close>: the host, or \<open>None\<close> for its error.\<close>

definition splitHostPort :: "string \<Rightarrow> string option" where
  "splitHostPort s = (case s of
       [] \<Rightarrow> None
     | c # r \<Rightarrow>
         if c = CHR ''['' then
           (if CHR '']'' \<notin> set r then None
            else let host = takeWhile (\<lambda>x. x \<noteq> CHR '']'') r; after = drop (Suc (length host)) r in
              (case after of
                 [] \<Rightarrow> None
               | d # port \<Rightarrow>
                   if d = CHR '':'' \<and> CHR '':'' \<notin> set port \<and> CHR ''['' \<notin> set r \<and> CHR '']'' \<notin> set after then Some host else None))
         else if CHR '':'' \<notin> set s \<or> CHR ''['' \<in> set s \<or> CHR '']'' \<in> set s then None
         else let host = rev (drop 1 (dropWhile (\<lambda>x. x \<noteq> CHR '':'') (rev s))) in
           if CHR '':'' \<in> set host then None else Some host)"

definition stripPort :: "string \<Rightarrow> string" where
  "stripPort host = (case splitHostPort host of None \<Rightarrow> host | Some hostOnly \<Rightarrow> hostOnly)"

text \<open>\<open>loopback\<close>: the text parses as an IP address (\<open>net.ParseIP\<close>) and is a loopback address.\<close>

definition probablySelfSigned :: "(string \<Rightarrow> bool) \<Rightarrow> string \<Rightarrow> bool" where
  "probablySelfSigned loopback host \<longleftrightarrow> stripPort host = ''localhost'' \<or> loopback (stripPort host)"

abbreviation textLine :: "string \<Rightarrow> string" where "textLine s \<equiv> s @ [CHR 0x0A]"

type_synonym yamlField = string

definition kubeconfigTemplate :: "yamlField \<Rightarrow> yamlField \<Rightarrow> yamlField \<Rightarrow> yamlField \<Rightarrow> yamlField \<Rightarrow> yamlField \<Rightarrow> yamlField \<Rightarrow> yamlField \<Rightarrow> yamlField \<Rightarrow> yamlField \<Rightarrow> yamlField" where
  "kubeconfigTemplate cluster server insecure ctx ctxCluster ctxUser current user issuer clientID =
     textLine ''apiVersion: v1'' @ textLine ''kind: Config'' @ textLine ''clusters:'' @
     textLine (''  - name: '' @ cluster) @ textLine ''    cluster:'' @ textLine (''      server: '' @ server) @
     insecure @ textLine ''contexts:'' @ textLine (''  - name: '' @ ctx) @ textLine ''    context:'' @
     textLine (''      cluster: '' @ ctxCluster) @ textLine (''      user: '' @ ctxUser) @
     textLine (''current-context: '' @ current) @ textLine ''users:'' @ textLine (''  - name: '' @ user) @
     textLine ''    user:'' @ textLine ''      exec:'' @
     textLine ''        apiVersion: client.authentication.k8s.io/v1beta1'' @ textLine ''        command: kubectl'' @
     textLine ''        args:'' @ textLine ''          - oidc-login'' @ textLine ''          - get-token'' @
     textLine (''          - --oidc-issuer-url='' @ issuer) @ textLine (''          - --oidc-client-id='' @ clientID) @
     textLine ''          - --oidc-extra-scope=email'' @ textLine ''          - --oidc-extra-scope=groups'' @
     textLine ''        interactiveMode: Never''"

definition kubeconfigTemplateNoAuth :: "yamlField \<Rightarrow> yamlField \<Rightarrow> yamlField \<Rightarrow> yamlField \<Rightarrow> yamlField \<Rightarrow> yamlField \<Rightarrow> yamlField" where
  "kubeconfigTemplateNoAuth cluster server insecure ctx ctxCluster current =
     textLine ''apiVersion: v1'' @ textLine ''kind: Config'' @ textLine ''clusters:'' @
     textLine (''  - name: '' @ cluster) @ textLine ''    cluster:'' @ textLine (''      server: '' @ server) @
     insecure @ textLine ''contexts:'' @ textLine (''  - name: '' @ ctx) @ textLine ''    context:'' @
     textLine (''      cluster: '' @ ctxCluster) @ textLine (''current-context: '' @ current)"

definition kubeconfigText :: "(string \<Rightarrow> bool) \<Rightarrow> string \<Rightarrow> string \<Rightarrow> string \<Rightarrow> string \<Rightarrow> string" where
  "kubeconfigText loopback origin host issuerURL clientID =
     (let clusterName = ''kontinuum-'' @ stripPort host;
          insecureLine = (if hasPrefix origin ''https://'' \<and> probablySelfSigned loopback host
             then textLine ''      insecure-skip-tls-verify: true'' else '''')
      in if issuerURL = '''' then
           (let contextName = clusterName in kubeconfigTemplateNoAuth clusterName origin insecureLine contextName clusterName contextName)
         else
           (let userName = clusterName; contextName = ''oidc@'' @ clusterName
            in kubeconfigTemplate clusterName origin insecureLine contextName clusterName userName contextName userName issuerURL clientID))"

section \<open>Requests\<close>

text \<open>
  A request, with the query and the cookies \<open>Auth\<close> reads.  \<open>ur_Path\<close> is \<open>URL.Path\<close>, \<open>ur_PathValue\<close>
  the wildcards the router matched, \<open>ur_IsForm\<close> whether the content type is that of a submitted
  form, \<open>ur_TLS\<close> whether the connection itself is encrypted.
\<close>

record UiRequest = Request +
  ur_Method :: string
  ur_Path :: string
  ur_PathValue :: "string \<Rightarrow> string"
  ur_Body :: string
  ur_IsForm :: bool
  ur_HxRequest :: string
  ur_Accept :: string
  ur_Host :: string
  ur_ForwardedProto :: string
  ur_TLS :: bool

definition requestOrigin :: "UiRequest \<Rightarrow> string" where
  "requestOrigin request =
     (let scheme = (if ur_ForwardedProto request = '''' then (if ur_TLS request then ''https'' else ''http'') else ur_ForwardedProto request)
      in scheme @ ''://'' @ ur_Host request)"

text \<open>
  \<open>url.Values\<close> as a map from keys to the list of values, keys in the order of their first
  occurrence; \<open>http.MaxBytesReader\<close> and \<open>Request.ParseForm\<close> (a malformed query fails it as well).
\<close>

type_synonym Form = "(string \<times> string list) list"

fun addValue :: "string \<Rightarrow> string \<Rightarrow> Form \<Rightarrow> Form" where
  "addValue k v [] = [(k, [v])]"
| "addValue k v ((k', vs) # form) = (if k = k' then (k', vs @ [v]) # form else (k', vs) # addValue k v form)"

definition groupValues :: "Values \<Rightarrow> Form" where
  "groupValues vs = fold (\<lambda>(k, v). addValue k v) vs []"

definition errRequestTooLarge :: goerr where "errRequestTooLarge = Sentinel ''http: request body too large''"

definition errMalformedForm :: goerr where "errMalformedForm = Sentinel ''malformed form''"

definition ParseForm :: "nat \<Rightarrow> UiRequest \<Rightarrow> goerr + Form" where
  "ParseForm limit request =
     (let (body, bodyOk) = ParseQuery (ur_Body request); (_, queryOk) = ParseQuery (rq_Query request)
      in if ur_IsForm request \<and> limit < length (ur_Body request) then Inl errRequestTooLarge
         else if ur_IsForm request \<and> \<not> bodyOk \<or> \<not> queryOk then Inl errMalformedForm
         else Inr (if ur_IsForm request then groupValues body else []))"

definition PostFormValue :: "Form \<Rightarrow> string \<Rightarrow> string" where
  "PostFormValue form k = (case map_of form k of Some (v # _) \<Rightarrow> v | _ \<Rightarrow> '''')"

type_synonym 's uihandler = "string \<Rightarrow> UiRequest \<Rightarrow> ('s, action list) state"

section \<open>Walking up from what is gone\<close>

text \<open>\<open>path.Clean\<close> and \<open>path.Dir\<close>: \<open>cleanSegs\<close> holds the segments seen so far, the last one first.\<close>

fun cleanSegs :: "bool \<Rightarrow> string list \<Rightarrow> string list \<Rightarrow> string list" where
  "cleanSegs rooted acc [] = rev acc"
| "cleanSegs rooted acc (seg # segs) =
     (if seg = '''' \<or> seg = ''.'' then cleanSegs rooted acc segs
      else if seg = ''..'' then
        (case acc of
           [] \<Rightarrow> cleanSegs rooted (if rooted then [] else [''..'']) segs
         | a # acc' \<Rightarrow> if a = ''..'' then cleanSegs rooted (''..'' # acc) segs else cleanSegs rooted acc' segs)
      else cleanSegs rooted (seg # acc) segs)"

definition pathClean :: "string \<Rightarrow> string" where
  "pathClean p =
     (let rooted = (p \<noteq> [] \<and> hd p = CHR ''/''); segs = cleanSegs rooted [] (splitOn (CHR ''/'') p)
      in if rooted then ''/'' @ joinWith ''/'' segs else if segs = [] then ''.'' else joinWith ''/'' segs)"

definition pathDir :: "string \<Rightarrow> string" where
  "pathDir p = pathClean (rev (dropWhile (\<lambda>c. c \<noteq> CHR ''/'') (rev p)))"

text \<open>\<open>URL.String\<close> of a URL that is only a rooted path.\<close>

definition escapePathChar :: "char \<Rightarrow> string" where
  "escapePathChar c = (if unreserved c \<or> c \<in> set ''$&+,/:;=@'' then [c]
     else [CHR ''%'', upperHex (of_char c div 16), upperHex (of_char c mod 16)])"

definition escapePath :: "string \<Rightarrow> string" where "escapePath p = concat (map escapePathChar p)"

definition isWithinApp :: "string \<Rightarrow> bool" where
  "isWithinApp target \<longleftrightarrow> hasPrefix target ''/app'' \<and> \<not> hasPrefix target ''//''"

definition notFound :: "action list" where "notFound = [HTTPError ''404 page not found'' 404]"

text \<open>
  \<open>notFoundInterceptor\<close>: what reaches the client of the actions of the wrapped handler, and
  whether a 404 was withheld.  \<open>http.Error\<close> and \<open>http.Redirect\<close> are a status and a body.
\<close>

fun intercept :: "bool \<Rightarrow> action list \<Rightarrow> action list \<times> bool" where
  "intercept nf [] = ([], nf)"
| "intercept nf (a # acts) =
     (case a of
        WriteHeader code \<Rightarrow> if code = 404 then intercept True acts else (case intercept nf acts of (out, r) \<Rightarrow> (a # out, r))
      | HTTPError msg code \<Rightarrow>
          if code = 404 then intercept True acts
          else (case intercept nf acts of (out, r) \<Rightarrow> ((if nf then WriteHeader code else a) # out, r))
      | WriteBody body \<Rightarrow> if nf then intercept nf acts else (case intercept nf acts of (out, r) \<Rightarrow> (a # out, r))
      | _ \<Rightarrow> (case intercept nf acts of (out, r) \<Rightarrow> (a # out, r)))"

definition parentPath :: "string \<Rightarrow> string option" where
  "parentPath p = (let parent = pathDir p in if \<not> isWithinApp parent \<or> parent = p then None else Some parent)"

definition parentAnswer :: "UiRequest \<Rightarrow> action list" where
  "parentAnswer request = (case parentPath (ur_Path request) of
       None \<Rightarrow> notFound
     | Some parent \<Rightarrow>
         if ur_HxRequest request = ''true'' then [SetHeader ''Hx-Redirect'' (escapePath parent), WriteHeader 200]
         else [Redirect (escapePath parent)])"

definition notFoundFallback :: "'s uihandler \<Rightarrow> 's uihandler" where
  "notFoundFallback next tok request = do {
     acts \<leftarrow> next tok request;
     (case intercept False acts of (out, missing) \<Rightarrow>
        if \<not> missing then return out else return (out @ parentAnswer request))
   }"

section \<open>Rows\<close>

record registryInstance =
  ri_Name :: string
  ri_Namespace :: string
  ri_Role :: string
  ri_Region :: string
  ri_Zone :: string
  ri_LastHeartbeat :: string
  ri_Age :: string
  ri_APIVersion :: string
  ri_Version :: string

record zoneRow =
  zw_Name :: string
  zw_Region :: string
  zw_Age :: string
  zw_Condition :: string
  zw_ConditionOK :: bool
  zw_Message :: string
  zw_Deleting :: bool

record instanceSuggestion =
  is_Name :: string
  is_Address :: string

record instanceRow =
  ir_Name :: string
  ir_Namespace :: string
  ir_TalosVersion :: string
  ir_Condition :: string
  ir_ConditionOK :: bool
  ir_ClaimedBy :: string
  ir_Age :: string
  ir_Deleting :: bool

text \<open>\<open>conditionRow\<close> and \<open>instanceConditionRow\<close> have the same fields.\<close>

record conditionRow =
  cw_Type :: string
  cw_Status :: string
  cw_OK :: bool
  cw_Reason :: string
  cw_Message :: string
  cw_Age :: string

record instanceInterfaceRow =
  iw_Name :: string
  iw_MACAddress :: string
  iw_Addresses :: string

record instanceDiskRow =
  dw_DevPath :: string
  dw_PrettySize :: string
  dw_Model :: string
  dw_Serial :: string
  dw_Transport :: string
  dw_Rotational :: bool

record instanceCPURow =
  pw_Manufacturer :: string
  pw_ProductName :: string
  pw_Architecture :: string
  pw_CoreCount :: "32 word"
  pw_ThreadCount :: "32 word"
  pw_MaxSpeedMHz :: "32 word"

record instanceMemoryRow =
  mw_SizeMiB :: "32 word"
  mw_Manufacturer :: string
  mw_Speed :: "32 word"
  mw_Serial :: string

record talosClusterRow =
  tw_Name :: string
  tw_Namespace :: string
  tw_ControlPlanePool :: string
  tw_TalosVersion :: string
  tw_KubernetesVersion :: string
  tw_Condition :: string
  tw_ConditionOK :: bool
  tw_Age :: string
  tw_Deleting :: bool

record poolSelectorRow =
  ps_Key :: string
  ps_Operator :: string
  ps_Value :: string

record poolMemberCondition =
  pc_Type :: string
  pc_OK :: bool

record poolMemberRow =
  pm_Name :: string
  pm_Deleting :: bool
  pm_Conditions :: "poolMemberCondition list"

record poolRow =
  pl_Name :: string
  pl_PoolRef :: string
  pl_ReadyReplicas :: int32
  pl_Replicas :: int32
  pl_Found :: bool
  pl_Selector :: "poolSelectorRow list"
  pl_Members :: "poolMemberRow list"

record addonRow =
  aw_Name :: string
  aw_ReleaseName :: string
  aw_TargetNamespace :: string
  aw_Chart :: string
  aw_Priority :: int32
  aw_PriorityKnown :: bool
  aw_Enabled :: bool
  aw_Condition :: string
  aw_ConditionOK :: bool
  aw_Reason :: string
  aw_Deleting :: bool

record roleRuleRow =
  rr_APIGroups :: "string list"
  rr_Resources :: "string list"
  rr_Verbs :: "string list"

record roleRow =
  rw_Name :: string
  rw_Namespace :: string
  rw_Rules :: "roleRuleRow list"
  rw_Age :: string
  rw_Managed :: bool

record roleBindingRow =
  bw_Name :: string
  bw_Namespace :: string
  bw_Subjects :: "string list"
  bw_RoleRefKind :: string
  bw_RoleRefName :: string
  bw_Age :: string
  bw_Managed :: bool

record roleRuleFields =
  rfl_APIGroups :: string
  rfl_Resources :: string
  rfl_Verbs :: "string list"

text \<open>The values of a page's data.\<close>

datatype tval =
    TStr string
  | TBool bool
  | TStrs "string list"
  | TRegistry "registryInstance list"
  | TZones "zoneRow list"
  | TSuggestions "instanceSuggestion list"
  | TInstances "instanceRow list"
  | TConditions "conditionRow list"
  | TLabels "labelChip list"
  | TInterfaces "instanceInterfaceRow list"
  | TDisks "instanceDiskRow list"
  | TCPUs "instanceCPURow list"
  | TMemory "instanceMemoryRow list"
  | TClusters "talosClusterRow list"
  | TPools "poolRow list"
  | TAddons "addonRow list"
  | TRoles "roleRow list"
  | TBindings "roleBindingRow list"
  | TRules "roleRuleFields list"

type_synonym tdata = "string \<rightharpoonup> tval"

text \<open>The template function \<open>dict\<close>: its arguments are keys and values in turn.\<close>

definition errDictOddArgs :: goerr where "errDictOddArgs = Sentinel ''dict requires an even number of arguments''"

definition errDictKeyType :: goerr where "errDictKeyType = Sentinel ''dict key must be a string''"

fun dictPairs :: "nat \<Rightarrow> tdata \<Rightarrow> tval list \<Rightarrow> goerr + tdata" where
  "dictPairs n dict (k # v # pairs) = (case k of
       TStr key \<Rightarrow> dictPairs (Suc n) (dict(key \<mapsto> v)) pairs
     | _ \<Rightarrow> Inl (Errorf ''%w: pair %d, got %T'' [natstr n] [errDictKeyType]))"
| "dictPairs n dict _ = Inr dict"

definition templateDict :: "tval list \<Rightarrow> goerr + tdata" where
  "templateDict pairs = (if length pairs mod 2 \<noteq> 0 then Inl errDictOddArgs else dictPairs 0 Map.empty pairs)"


section \<open>The router\<close>

text \<open>
  What the pages use beyond the Kubernetes API: the clock, the X.509 library, the libraries of
  addons and of zone registration, the resolver, the text of an error, the templates, the
  order in which a range visits a map or a form, the conditions with the times of their last
  transition, the YAML encoder, and the pause after a deletion.
\<close>

record 's uilib =
  ui_world :: "'s world"
  ui_crypto :: "'s crypto"
  ui_addonlib :: addonlib
  ui_zoneaddlib :: zoneaddlib
  ui_resolver :: "'s Resolver"
  ui_errText :: "goerr \<Rightarrow> string"
  ui_execute :: "string list \<Rightarrow> string \<Rightarrow> tdata \<Rightarrow> goerr + string"
  ui_parseScheme :: "string \<Rightarrow> goerr + string"
  ui_loopback :: "string \<Rightarrow> bool"
  ui_order :: "labels \<Rightarrow> (string \<times> string) list"
  ui_formOrder :: "Form \<Rightarrow> Form"
  ui_zoneTimes :: "Zone \<Rightarrow> (Condition \<times> int) list"
  ui_instanceTimes :: "Instance \<Rightarrow> (Condition \<times> int) list"
  ui_clusterTimes :: "TalosCluster \<Rightarrow> (Condition \<times> int) list"
  ui_yaml :: "labels \<Rightarrow> goerr + string"
  ui_debounce :: "('s, unit) state"

text \<open>Roles and their bindings; the other kinds are in the client record.\<close>

record NamespacedRole =
  role_meta :: ObjectMeta
  role_Rules :: "RbacRule list"

record RoleBinding =
  rb_meta :: ObjectMeta
  rb_RoleRef :: RoleRef
  rb_Subjects :: "RbacSubject list"

record 's KontinuumClient =
  kc_client :: "'s client"
  kc_Role :: "('s, NamespacedRole) kclient"
  kc_RoleBinding :: "('s, RoleBinding) kclient"
  kc_ClusterRole :: "('s, ClusterRole) kclient"
  kc_ClusterRoleBinding :: "('s, ClusterRoleBinding) kclient"

text \<open>The factories build a client for the token that the context of a request carries.\<close>

record 's Router =
  ro_namespacesFor :: "string \<Rightarrow> ('s, goerr + ('s, goerr + Namespace list option) state) state"
  ro_kontinuumsFor :: "string \<Rightarrow> ('s, goerr + 's KontinuumClient) state"
  ro_zonesFor :: "string \<Rightarrow> ('s, goerr + 's client) state"
  ro_pages :: "string \<rightharpoonup> string list"
  ro_version :: string
  ro_cfg :: KontinuumConfigStatus
  ro_authEnabled :: bool
  ro_invalidateSession :: "(string \<Rightarrow> action list) option"

definition pageRegistry :: string where "pageRegistry = ''registry''"

definition pageKontinuum :: string where "pageKontinuum = ''kontinuum''"

definition pageInstances :: string where "pageInstances = ''instances''"

definition pageInstanceDetail :: string where "pageInstanceDetail = ''instance-detail''"

definition pageTalosClusters :: string where "pageTalosClusters = ''talosclusters''"

definition pageTalosCluster :: string where "pageTalosCluster = ''taloscluster''"

definition pageZoneDetail :: string where "pageZoneDetail = ''zone-detail''"

definition pageIAMNamespace :: string where "pageIAMNamespace = ''iam-namespace''"

definition pageIAMCluster :: string where "pageIAMCluster = ''iam-cluster''"

definition pageConnect :: string where "pageConnect = ''connect''"

definition defaultTenantNamespace :: string where "defaultTenantNamespace = KontinuumSystemNamespace"

definition defaultInstancesPath :: string where
  "defaultInstancesPath = ''/app/kontinuum.sh/v1alpha2/namespaces/'' @ defaultTenantNamespace @ ''/instances''"

text \<open>The template files of a page: those every page shares, then its own.\<close>

abbreviation component :: "string \<Rightarrow> string" where "component n \<equiv> ''templates/components/'' @ n @ ''.html''"

definition mustParsePage :: "string list \<Rightarrow> string list" where
  "mustParsePage content =
     [''templates/layout.html''] @
     map component [''nav'', ''tenant_switcher'', ''icon_tenants'', ''icon_chevrons_updown'', ''icon_registry'',
       ''icon_server'', ''icon_kubernetes'', ''icon_shield'', ''icon_unplug'', ''icon_key'', ''icon_globe_lock'',
       ''icon_door_closed_lock'', ''icon_logout'', ''icon_book_open_text'', ''icon_external_link'', ''icon_check'',
       ''copy_chip'', ''icon_loader_circle'', ''icon_menu'', ''icon_x'', ''modal_close_button''] @ content"

definition talosClusterPage :: "string list" where
  "talosClusterPage = mustParsePage (''templates/taloscluster_content.html'' #
     map component [''icon_chevron_left'', ''icon_info'', ''icon_chevron_right'', ''icon_package'', ''icon_list_checks'',
       ''icon_key'', ''icon_download'', ''icon_eye'', ''icon_eye_off'', ''icon_copy'', ''icon_trash'',
       ''reveal_panel'', ''reveal_panel_script'', ''copy_snippet'', ''conditions_table''])"

definition iamPage :: "string \<Rightarrow> string list" where
  "iamPage content = mustParsePage (content #
     map component [''icon_info'', ''icon_shield_user'', ''icon_user_shield'', ''icon_trash'', ''role_rows'',
       ''iam_delete_modal'', ''role_add_modal'', ''rolebinding_add_modal''])"

definition buildPages :: "string \<rightharpoonup> string list" where
  "buildPages = [
     pageRegistry \<mapsto> mustParsePage (''templates/registry_content.html'' #
       map component [''icon_trash'', ''icon_globe'', ''zone_add_modal'', ''zone_leave_modal'']),
     pageKontinuum \<mapsto> mustParsePage (''templates/kontinuum_content.html'' #
       map component [''icon_chevron_left'', ''icon_eye'', ''icon_eye_off'', ''icon_copy'', ''icon_key'', ''icon_globe'',
         ''icon_info'', ''icon_download'', ''reveal_panel'', ''reveal_panel_script'']),
     pageInstances \<mapsto> mustParsePage (''templates/instances_content.html'' #
       map component [''icon_server_plus'', ''instance_add_modal'', ''icon_trash'']),
     pageInstanceDetail \<mapsto> mustParsePage (''templates/instance_detail_content.html'' #
       map component [''icon_chevron_left'', ''icon_info'', ''icon_ethernet_port'', ''icon_list_checks'', ''icon_trash'',
         ''icon_cpu'', ''icon_memory_stick'', ''icon_hard_drive'', ''conditions_table'']),
     pageTalosClusters \<mapsto> mustParsePage (''templates/talosclusters_content.html'' # map component [''icon_trash'']),
     pageTalosCluster \<mapsto> talosClusterPage,
     pageZoneDetail \<mapsto> mustParsePage (''templates/zone_detail_content.html'' #
       map component [''icon_chevron_left'', ''icon_info'', ''icon_kubernetes'', ''icon_server'', ''icon_list_checks'',
         ''icon_trash'', ''icon_key'', ''conditions_table'']),
     pageIAMNamespace \<mapsto> iamPage ''templates/iam_namespace_content.html'',
     pageIAMCluster \<mapsto> iamPage ''templates/iam_cluster_content.html'',
     pageConnect \<mapsto> mustParsePage (''templates/connect_content.html'' #
       map component [''icon_terminal'', ''copy_snippet'', ''icon_copy'', ''icon_download'', ''icon_eye'', ''icon_eye_off'',
         ''reveal_panel'', ''reveal_panel_script''])]"

definition NewRouter :: "(string \<Rightarrow> ('s, goerr + ('s, goerr + Namespace list option) state) state) \<Rightarrow>
    (string \<Rightarrow> ('s, goerr + 's KontinuumClient) state) \<Rightarrow> (string \<Rightarrow> ('s, goerr + 's client) state) \<Rightarrow> string \<Rightarrow>
    KontinuumConfigStatus \<Rightarrow> bool \<Rightarrow> (string \<Rightarrow> action list) option \<Rightarrow> 's Router" where
  "NewRouter namespacesFor kontinuumsFor zonesFor version cfg authEnabled invalidateSession =
     \<lparr>ro_namespacesFor = namespacesFor, ro_kontinuumsFor = kontinuumsFor, ro_zonesFor = zonesFor, ro_pages = buildPages,
      ro_version = version, ro_cfg = cfg, ro_authEnabled = authEnabled, ro_invalidateSession = invalidateSession\<rparr>"

section \<open>Answers\<close>

text \<open>
  The two answers to an error of the API: the session ends when the answer is Forbidden and
  an invalidator is set, otherwise the page is a bad gateway.
\<close>

definition apiFailure :: "'s uilib \<Rightarrow> 's Router \<Rightarrow> string \<Rightarrow> goerr \<Rightarrow> action list" where
  "apiFailure lib r what err = (case ro_invalidateSession r of
       Some invalidate \<Rightarrow>
         if isForbidden err then invalidate (MapError (ui_errText lib) (Some err))
         else [HTTPError (what @ '': '' @ ui_errText lib err) 502]
     | None \<Rightarrow> [HTTPError (what @ '': '' @ ui_errText lib err) 502])"

definition clientFailure :: "'s uilib \<Rightarrow> goerr \<Rightarrow> action list" where
  "clientFailure lib err = [HTTPError (''failed to build kubernetes client: '' @ ui_errText lib err) 500]"

definition addTenantSwitcherData :: "'s Router \<Rightarrow> string \<Rightarrow> UiRequest \<Rightarrow> tdata \<Rightarrow> ('s, tdata) state" where
  "addTenantSwitcherData r tok request data = do {
     let currentTenant = (if ur_PathValue request ''ns'' = '''' then defaultTenantNamespace else ur_PathValue request ''ns'');
     let data = data(''CurrentTenant'' \<mapsto> TStr currentTenant);
     n \<leftarrow> ro_namespacesFor r tok;
     (case n of
        Inl err \<Rightarrow> return data
      | Inr lister \<Rightarrow> do {
          l \<leftarrow> lister;
          (case l of
             Inr (Some items) \<Rightarrow> return (data(''Tenants'' \<mapsto> TStrs (sort (map (\<lambda>ns. om_Name (ns_meta ns)) items))))
           | _ \<Rightarrow> return data)
        })
   }"

definition executeTemplate :: "'s uilib \<Rightarrow> 's Router \<Rightarrow> string \<Rightarrow> string \<Rightarrow> tdata \<Rightarrow> action list" where
  "executeTemplate lib r page template data =
     (case ui_execute lib (case ro_pages r page of None \<Rightarrow> [] | Some files \<Rightarrow> files) template data of
        Inl err \<Rightarrow> [HTTPError (ui_errText lib err) 500]
      | Inr html \<Rightarrow> [SetHeader ''Content-Type'' ''text/html; charset=utf-8'', WriteBody html])"

definition renderPage :: "'s uilib \<Rightarrow> 's Router \<Rightarrow> string \<Rightarrow> UiRequest \<Rightarrow> string \<Rightarrow> tdata \<Rightarrow> ('s, action list) state" where
  "renderPage lib r tok request page data = do {
     data \<leftarrow> addTenantSwitcherData r tok request data;
     return (executeTemplate lib r page ''layout.html'' data)
   }"

text \<open>\<open>deleteAndRedirect\<close>: \<open>kind\<close> names the object in the error, \<open>delete\<close> is the call.\<close>

definition deleteAndRedirect :: "'s uilib \<Rightarrow> 's Router \<Rightarrow> ('s, goerr option) state \<Rightarrow> string \<Rightarrow> string \<Rightarrow> ('s, action list) state" where
  "deleteAndRedirect lib r delete kind redirectPath = do {
     d \<leftarrow> delete;
     (case d of
        Some err \<Rightarrow>
          if \<not> isNotFound err then return (apiFailure lib r (''failed to delete '' @ kind) err)
          else return [SetHeader ''Hx-Redirect'' redirectPath, WriteHeader 200]
      | None \<Rightarrow> return [SetHeader ''Hx-Redirect'' redirectPath, WriteHeader 200])
   }"

text \<open>A handler that first needs a client for the caller.\<close>

definition withKontinuums :: "'s uilib \<Rightarrow> 's Router \<Rightarrow> string \<Rightarrow> ('s KontinuumClient \<Rightarrow> ('s, action list) state) \<Rightarrow> ('s, action list) state" where
  "withKontinuums lib r tok body = do {
     k \<leftarrow> ro_kontinuumsFor r tok;
     (case k of Inl err \<Rightarrow> return (clientFailure lib err) | Inr kontinuums \<Rightarrow> body kontinuums)
   }"

definition withZones :: "'s uilib \<Rightarrow> 's Router \<Rightarrow> string \<Rightarrow> ('s client \<Rightarrow> ('s, action list) state) \<Rightarrow> ('s, action list) state" where
  "withZones lib r tok body = do {
     k \<leftarrow> ro_zonesFor r tok;
     (case k of Inl err \<Rightarrow> return (clientFailure lib err) | Inr zones \<Rightarrow> body zones)
   }"

end
