(* ===== verification/UiPages.thy ===== *)
theory UiPages
  imports UiBase
begin

text \<open>
  The pages of registered servers, zones and instances of \<open>pkg/ui/router.go\<close>: the registry page
  with its two forms of deletion and the form that adds a zone, the detail pages of a Zone, a
  Kontinuum and an Instance, the list of Instances with the form that adds one.  A fetch that
  may answer the request itself gives the answer on the left.
\<close>

section \<open>Rows of conditions\<close>

text \<open>Newest first; conditions of the same time keep their order.\<close>

definition sortConditionsNewestFirst :: "(Condition \<times> int) list \<Rightarrow> (Condition \<times> int) list" where
  "sortConditionsNewestFirst conditions = sort_key (\<lambda>(c, t). - t) conditions"

fun conditionRows :: "'s world \<Rightarrow> (Condition \<times> int) list \<Rightarrow> ('s, conditionRow list) state" where
  "conditionRows w [] = return []"
| "conditionRows w ((c, t) # cs) = do {
     age \<leftarrow> formatAge w t;
     rows \<leftarrow> conditionRows w cs;
     return (\<lparr>cw_Type = cond_Type c, cw_Status = statusText (cond_Status c), cw_OK = (cond_Status c = ConditionTrue),
       cw_Reason = cond_Reason c, cw_Message = capitalizeFirst (cond_Message c), cw_Age = age\<rparr> # rows)
   }"

definition readyCondition :: "Condition list \<Rightarrow> Condition option" where
  "readyCondition conditions = find (\<lambda>c. cond_Type c = ''Ready'') conditions"

section \<open>The registry page\<close>

definition groupVersion :: string where "groupVersion = ''kontinuum.sh/v1alpha2''"

fun registryRows :: "'s world \<Rightarrow> Kontinuum list \<Rightarrow> ('s, registryInstance list) state" where
  "registryRows w [] = return []"
| "registryRows w (item # items) = do {
     beat \<leftarrow> formatAge w (kst_LastHeartbeatTime (kon_Status item));
     age \<leftarrow> formatAge w (om_CreationTimestamp (kon_meta item));
     rows \<leftarrow> registryRows w items;
     return (\<lparr>ri_Name = om_Name (kon_meta item), ri_Namespace = om_Namespace (kon_meta item),
       ri_Role = kst_Role (kon_Status item), ri_Region = ksp_Region (kon_Spec item), ri_Zone = ksp_Zone (kon_Spec item),
       ri_LastHeartbeat = beat, ri_Age = age, ri_APIVersion = groupVersion, ri_Version = kst_Version (kon_Status item)\<rparr> # rows)
   }"

definition suggestionRows :: "Instance list \<Rightarrow> instanceSuggestion list" where
  "suggestionRows items = sort_by is_Name
     (concat (map (\<lambda>item. if om_Labels (inst_meta item) LabelClaimedBy \<noteq> None then []
        else (case isp_Interfaces (inst_Spec item) of [] \<Rightarrow> []
          | i # _ \<Rightarrow> [\<lparr>is_Name = om_Name (inst_meta item), is_Address = i\<rparr>])) items))"

definition listInstanceSuggestions :: "'s Router \<Rightarrow> string \<Rightarrow> ('s, instanceSuggestion list) state" where
  "listInstanceSuggestions r tok = do {
     k \<leftarrow> ro_zonesFor r tok;
     (case k of
        Inl err \<Rightarrow> return []
      | Inr zones \<Rightarrow> do {
          l \<leftarrow> klist (cl_Instance zones) (Some KontinuumSystemNamespace) (\<lambda>_. True);
          (case l of Inl err \<Rightarrow> return [] | Inr items \<Rightarrow> return (suggestionRows items))
        })
   }"

fun zoneRows :: "'s uilib \<Rightarrow> Zone list \<Rightarrow> ('s, zoneRow list) state" where
  "zoneRows lib [] = return []"
| "zoneRows lib (item # items) = do {
     age \<leftarrow> formatAge (ui_world lib) (om_CreationTimestamp (zone_meta item));
     rows \<leftarrow> zoneRows lib items;
     return ((let row = \<lparr>zw_Name = om_Name (zone_meta item), zw_Region = zsp_Region (zone_Spec item), zw_Age = age,
          zw_Condition = '''', zw_ConditionOK = False, zw_Message = '''', zw_Deleting = \<not> deletionIsZero (zone_meta item)\<rparr>
        in case latestCondition (ui_zoneTimes lib item) of
             None \<Rightarrow> row
           | Some c \<Rightarrow> row\<lparr>zw_Condition := cond_Type c, zw_ConditionOK := (cond_Status c = ConditionTrue),
               zw_Message := capitalizeFirst (cond_Message c)\<rparr>) # rows)
   }"

definition listZoneRows :: "'s uilib \<Rightarrow> 's Router \<Rightarrow> string \<Rightarrow> UiRequest \<Rightarrow> ('s, action list + zoneRow list) state" where
  "listZoneRows lib r tok request = do {
     k \<leftarrow> ro_zonesFor r tok;
     (case k of
        Inl err \<Rightarrow> return (Inl (clientFailure lib err))
      | Inr zones \<Rightarrow> do {
          l \<leftarrow> klist (cl_Zone zones) (Some (ur_PathValue request ''ns'')) (\<lambda>_. True);
          (case l of
             Inl err \<Rightarrow> return (Inl (apiFailure lib r ''failed to list zones'' err))
           | Inr items \<Rightarrow> do {
               rows \<leftarrow> zoneRows lib items;
               return (Inr (sort_by zw_Name rows))
             })
        })
   }"

record zoneAddFields =
  zf_region :: string
  zf_zone :: string
  zf_talosAddress :: string
  zf_talosVersion :: string
  zf_kubernetesVersion :: string
  zf_unregisterInstances :: bool
  zf_existingInstance :: string

definition noZoneFields :: zoneAddFields where
  "noZoneFields = \<lparr>zf_region = '''', zf_zone = '''', zf_talosAddress = '''', zf_talosVersion = '''',
     zf_kubernetesVersion = '''', zf_unregisterInstances = False, zf_existingInstance = ''''\<rparr>"

definition zoneAddFormData :: "zoneAddFields \<Rightarrow> string \<Rightarrow> string \<Rightarrow> instanceSuggestion list \<Rightarrow> tdata" where
  "zoneAddFormData form createdZone formErr suggestions = [
     ''Region'' \<mapsto> TStr (zf_region form), ''Zone'' \<mapsto> TStr (zf_zone form), ''TalosAddress'' \<mapsto> TStr (zf_talosAddress form),
     ''TalosVersion'' \<mapsto> TStr (zf_talosVersion form), ''KubernetesVersion'' \<mapsto> TStr (zf_kubernetesVersion form),
     ''UnregisterInstances'' \<mapsto> TBool (zf_unregisterInstances form), ''ExistingInstance'' \<mapsto> TStr (zf_existingInstance form),
     ''InstanceSuggestions'' \<mapsto> TSuggestions suggestions, ''CreatedZone'' \<mapsto> TStr createdZone, ''Error'' \<mapsto> TStr formErr]"

definition registryData :: "'s Router \<Rightarrow> string \<Rightarrow> registryInstance list \<Rightarrow> zoneRow list \<Rightarrow> tdata" where
  "registryData r namespace instances zones = [
     ''Title'' \<mapsto> TStr ''Registry'', ''ActiveMenu'' \<mapsto> TStr pageRegistry, ''Version'' \<mapsto> TStr (ro_version r),
     ''Namespace'' \<mapsto> TStr namespace, ''Instances'' \<mapsto> TRegistry instances, ''Zones'' \<mapsto> TZones zones,
     ''AuthEnabled'' \<mapsto> TBool (ro_authEnabled r)]"

definition renderRegistry :: "'s uilib \<Rightarrow> 's Router \<Rightarrow> 's uihandler" where
  "renderRegistry lib r tok request = withKontinuums lib r tok (\<lambda>kontinuums. do {
     let namespace = ur_PathValue request ''ns'';
     l \<leftarrow> klist (cl_Kontinuum (kc_client kontinuums)) (Some namespace) (\<lambda>_. True);
     (case l of
        Inl err \<Rightarrow> return (apiFailure lib r ''failed to list kontinuum instances'' err)
      | Inr items \<Rightarrow> do {
          rows \<leftarrow> registryRows (ui_world lib) items;
          z \<leftarrow> listZoneRows lib r tok request;
          (case z of
             Inl answered \<Rightarrow> return answered
           | Inr zones \<Rightarrow> do {
               suggestions \<leftarrow> listInstanceSuggestions r tok;
               renderPage lib r tok request pageRegistry
                 (registryData r namespace (sort_by ri_Name rows) zones ++ zoneAddFormData noZoneFields '''' '''' suggestions)
             })
        })
   })"

definition handleDeleteInstance :: "'s uilib \<Rightarrow> 's Router \<Rightarrow> 's uihandler" where
  "handleDeleteInstance lib r tok request = withKontinuums lib r tok (\<lambda>kontinuums. do {
     d \<leftarrow> kdelete (cl_Kontinuum (kc_client kontinuums))
       \<lparr>kon_meta = objectMeta (ur_PathValue request ''ns'') (ur_PathValue request ''name''),
        kon_Spec = \<lparr>ksp_Region = '''', ksp_Zone = ''''\<rparr>, kon_Status = zeroKontinuumStatus\<rparr>;
     (case d of
        Some err \<Rightarrow>
          if \<not> isNotFound err then return (apiFailure lib r ''failed to delete kontinuum instance'' err)
          else do { _ \<leftarrow> ui_debounce lib; renderRegistry lib r tok request }
      | None \<Rightarrow> do { _ \<leftarrow> ui_debounce lib; renderRegistry lib r tok request })
   })"

definition handleDeleteZone :: "'s uilib \<Rightarrow> 's Router \<Rightarrow> 's uihandler" where
  "handleDeleteZone lib r tok request = withZones lib r tok (\<lambda>zones. do {
     d \<leftarrow> kdelete (cl_Zone zones)
       \<lparr>zone_meta = objectMeta KontinuumSystemNamespace (ur_PathValue request ''name''),
        zone_Spec = \<lparr>zsp_Region = '''', zsp_Zone = '''', zsp_Domain = ''''\<rparr>, zone_Status = \<lparr>zst_Conditions = []\<rparr>\<rparr>;
     (case d of
        Some err \<Rightarrow>
          if \<not> isNotFound err then return (apiFailure lib r ''failed to delete zone'' err)
          else renderRegistry lib r tok request
      | None \<Rightarrow> renderRegistry lib r tok request)
   })"

section \<open>Adding a zone\<close>

definition maxZoneAddFormBytes :: nat where "maxZoneAddFormBytes = 65536"

definition zoneFields :: "Form \<Rightarrow> zoneAddFields" where
  "zoneFields form = \<lparr>zf_region = PostFormValue form ''region'', zf_zone = PostFormValue form ''zone'',
     zf_talosAddress = PostFormValue form ''talos-address'', zf_talosVersion = PostFormValue form ''talos-version'',
     zf_kubernetesVersion = PostFormValue form ''kubernetes-version'',
     zf_unregisterInstances = (PostFormValue form ''unregister-instances'' = ''on''),
     zf_existingInstance = PostFormValue form ''existing-instance''\<rparr>"

definition zoneOptions :: "'s uilib \<Rightarrow> zoneAddFields \<Rightarrow> 's ZoneAddOptions" where
  "zoneOptions lib form = \<lparr>za_Region = zf_region form, za_Zone = zf_zone form, za_Domain = '''',
     za_TalosAddress = zf_talosAddress form, za_Resolver = ui_resolver lib, za_TalosVersion = zf_talosVersion form,
     za_KubernetesVersion = zf_kubernetesVersion form, za_UnregisterInstancesOnDelete = zf_unregisterInstances form,
     za_ExistingInstanceName = zf_existingInstance form\<rparr>"

definition renderZoneAddModalBody :: "'s uilib \<Rightarrow> 's Router \<Rightarrow> tdata \<Rightarrow> action list" where
  "renderZoneAddModalBody lib r data = executeTemplate lib r pageRegistry ''zone-add-modal-body'' data"

text \<open>
  The two forms that create objects through a shared domain function end the session on a
  Forbidden answer; every other error is shown in the form.
\<close>

definition endsSession :: "'s Router \<Rightarrow> goerr \<Rightarrow> (string \<Rightarrow> action list) option" where
  "endsSession r err = (if isForbidden err then ro_invalidateSession r else None)"

definition badForm :: "'s uilib \<Rightarrow> goerr \<Rightarrow> action list" where
  "badForm lib err = [HTTPError (''failed to parse form: '' @ ui_errText lib err) 400]"

definition handleZoneAdd :: "'s uilib \<Rightarrow> 's Router \<Rightarrow> 's uihandler" where
  "handleZoneAdd lib r tok request = (case ParseForm maxZoneAddFormBytes request of
       Inl err \<Rightarrow> return (badForm lib err)
     | Inr form \<Rightarrow> withZones lib r tok (\<lambda>zones. do {
         a \<leftarrow> AddZone (ui_zoneaddlib lib) zones (zoneOptions lib (zoneFields form));
         (case a of
            Inl err \<Rightarrow> (case endsSession r err of
                Some invalidate \<Rightarrow> return (invalidate (MapError (ui_errText lib) (Some err)))
              | None \<Rightarrow> do {
                  suggestions \<leftarrow> listInstanceSuggestions r tok;
                  return (renderZoneAddModalBody lib r (zoneAddFormData (zoneFields form) '''' (ui_errText lib err) suggestions))
                })
          | Inr createdZone \<Rightarrow> return (renderZoneAddModalBody lib r
              (zoneAddFormData noZoneFields (om_Name (zone_meta createdZone)) '''' [])))
       }))"

section \<open>A zone\<close>

definition fetchZone :: "'s uilib \<Rightarrow> 's Router \<Rightarrow> 's client \<Rightarrow> string \<Rightarrow> ('s, action list + Zone) state" where
  "fetchZone lib r zones name = do {
     g \<leftarrow> kget (cl_Zone zones) (KontinuumSystemNamespace, name);
     (case g of
        Inl err \<Rightarrow>
          if isNotFound err then return (Inl notFound)
          else return (Inl (apiFailure lib r ''failed to get zone'' err))
      | Inr zoneObj \<Rightarrow> return (Inr zoneObj))
   }"

definition fetchZoneCluster :: "'s uilib \<Rightarrow> 's Router \<Rightarrow> 's client \<Rightarrow> Zone \<Rightarrow> ('s, action list + TalosCluster option) state" where
  "fetchZoneCluster lib r zones zoneObj = do {
     g \<leftarrow> kget (cl_TalosCluster zones) (om_Namespace (zone_meta zoneObj), om_Name (zone_meta zoneObj));
     (case g of
        Inl err \<Rightarrow>
          if isNotFound err then return (Inr None)
          else return (Inl (apiFailure lib r ''failed to get taloscluster'' err))
      | Inr cluster \<Rightarrow> return (Inr (Some cluster)))
   }"

definition fetchZoneIdentity :: "'s uilib \<Rightarrow> 's client \<Rightarrow> string \<Rightarrow> ('s, (string \<times> int) option) state" where
  "fetchZoneIdentity lib c zname = do {
     g \<leftarrow> kget (cl_Secret c) (KontinuumSystemNamespace, AuthSecretName zname);
     (case g of
        Inl err \<Rightarrow> return None
      | Inr secret \<Rightarrow> (case ParsePublicSecret (ui_crypto lib) secret of
          None \<Rightarrow> return None
        | Some pair \<Rightarrow> (case Thumbprint (ui_crypto lib) (ei_CertPEM (ip_Current pair)) of
            Inl err \<Rightarrow> return None
          | Inr thumbprint \<Rightarrow> return (Some (thumbprint, ei_IssuedAt (ip_Current pair))))))
   }"

definition zoneBaseData :: "'s Router \<Rightarrow> string \<Rightarrow> Zone \<Rightarrow> TalosCluster option \<Rightarrow> bool \<Rightarrow> string \<Rightarrow> conditionRow list \<Rightarrow> tdata" where
  "zoneBaseData r namespace zoneObj cluster joined age rows = [
     ''Title'' \<mapsto> TStr (om_Name (zone_meta zoneObj)), ''ActiveMenu'' \<mapsto> TStr pageRegistry, ''Version'' \<mapsto> TStr (ro_version r),
     ''AuthEnabled'' \<mapsto> TBool (ro_authEnabled r), ''Name'' \<mapsto> TStr (om_Name (zone_meta zoneObj)), ''Namespace'' \<mapsto> TStr namespace,
     ''Region'' \<mapsto> TStr (zsp_Region (zone_Spec zoneObj)), ''ZoneName'' \<mapsto> TStr (zsp_Zone (zone_Spec zoneObj)),
     ''Domain'' \<mapsto> TStr (zsp_Domain (zone_Spec zoneObj)), ''Age'' \<mapsto> TStr age,
     ''Deleting'' \<mapsto> TBool (\<not> deletionIsZero (zone_meta zoneObj)), ''Conditions'' \<mapsto> TConditions rows,
     ''HasCluster'' \<mapsto> TBool (cluster \<noteq> None),
     ''ClusterName'' \<mapsto> TStr (case cluster of None \<Rightarrow> '''' | Some c \<Rightarrow> om_Name (tc_meta c)),
     ''ClusterNamespace'' \<mapsto> TStr (case cluster of None \<Rightarrow> '''' | Some c \<Rightarrow> om_Namespace (tc_meta c)),
     ''RegistryJoined'' \<mapsto> TBool joined]"

definition readyData :: "string \<Rightarrow> string \<Rightarrow> Condition list \<Rightarrow> tdata" where
  "readyData key keyOK conditions = (case readyCondition conditions of
       None \<Rightarrow> Map.empty
     | Some c \<Rightarrow> [key \<mapsto> TStr (statusText (cond_Status c)), keyOK \<mapsto> TBool (cond_Status c = ConditionTrue)])"

text \<open>The thumbprint and the age of an identity, under the two keys a page uses for them.\<close>

definition identityData :: "'s world \<Rightarrow> string \<Rightarrow> string \<Rightarrow> (string \<times> int) option \<Rightarrow> ('s, tdata) state" where
  "identityData w thumbKey ageKey identity = (case identity of
       None \<Rightarrow> return [''HasIdentity'' \<mapsto> TBool False]
     | Some (thumbprint, issuedAt) \<Rightarrow> do {
         age \<leftarrow> formatAge w issuedAt;
         return [''HasIdentity'' \<mapsto> TBool True, thumbKey \<mapsto> TStr thumbprint, ageKey \<mapsto> TStr age]
       })"

definition joinedData :: "'s world \<Rightarrow> Kontinuum option \<Rightarrow> ('s, tdata) state" where
  "joinedData w kontinuum = (case kontinuum of
       None \<Rightarrow> return Map.empty
     | Some k \<Rightarrow> do {
         beat \<leftarrow> formatAge w (kst_LastHeartbeatTime (kon_Status k));
         return [''KontinuumName'' \<mapsto> TStr (om_Name (kon_meta k)), ''KontinuumNamespace'' \<mapsto> TStr (om_Namespace (kon_meta k)),
           ''KontinuumRole'' \<mapsto> TStr (kst_Role (kon_Status k)), ''KontinuumLastHeartbeat'' \<mapsto> TStr beat]
       })"

definition zoneDetailData :: "'s uilib \<Rightarrow> 's Router \<Rightarrow> string \<Rightarrow> Zone \<Rightarrow> TalosCluster option \<Rightarrow> Kontinuum option \<Rightarrow>
    (string \<times> int) option \<Rightarrow> ('s, tdata) state" where
  "zoneDetailData lib r namespace zoneObj cluster kontinuum identity = do {
     rows \<leftarrow> conditionRows (ui_world lib) (sortConditionsNewestFirst (ui_zoneTimes lib zoneObj));
     age \<leftarrow> formatAge (ui_world lib) (om_CreationTimestamp (zone_meta zoneObj));
     idd \<leftarrow> identityData (ui_world lib) ''IdentityThumbprint'' ''IdentityIssuedAge'' identity;
     jd \<leftarrow> joinedData (ui_world lib) kontinuum;
     return (zoneBaseData r namespace zoneObj cluster (kontinuum \<noteq> None) age rows ++
       readyData ''Ready'' ''ReadyOK'' (zst_Conditions (zone_Status zoneObj)) ++
       (case cluster of None \<Rightarrow> Map.empty | Some c \<Rightarrow> readyData ''ClusterReady'' ''ClusterReadyOK'' (tcst_Conditions (tc_Status c))) ++ idd ++ jd)
   }"

definition handleZoneDetail :: "'s uilib \<Rightarrow> 's Router \<Rightarrow> 's uihandler" where
  "handleZoneDetail lib r tok request = withZones lib r tok (\<lambda>zones. do {
     z \<leftarrow> fetchZone lib r zones (ur_PathValue request ''name'');
     (case z of
        Inl answered \<Rightarrow> return answered
      | Inr zoneObj \<Rightarrow> do {
          cl \<leftarrow> fetchZoneCluster lib r zones zoneObj;
          (case cl of
             Inl answered \<Rightarrow> return answered
           | Inr cluster \<Rightarrow> do {
               k \<leftarrow> FindJoinedKontinuum zones (zsp_Region (zone_Spec zoneObj)) (zsp_Zone (zone_Spec zoneObj));
               (case k of
                  Inl err \<Rightarrow> return (apiFailure lib r ''failed to check zone registry membership'' err)
                | Inr kontinuum \<Rightarrow> do {
                    identity \<leftarrow> fetchZoneIdentity lib zones (om_Name (zone_meta zoneObj));
                    data \<leftarrow> zoneDetailData lib r (ur_PathValue request ''ns'') zoneObj cluster kontinuum identity;
                    renderPage lib r tok request pageZoneDetail data
                  })
             })
        })
   })"

section \<open>A registered server\<close>

definition fetchKontinuum :: "'s uilib \<Rightarrow> 's Router \<Rightarrow> 's client \<Rightarrow> UiRequest \<Rightarrow> ('s, action list + Kontinuum) state" where
  "fetchKontinuum lib r c request = do {
     g \<leftarrow> kget (cl_Kontinuum c) (ur_PathValue request ''ns'', ur_PathValue request ''name'');
     (case g of
        Inl err \<Rightarrow>
          if isNotFound err then return (Inl notFound)
          else return (Inl (apiFailure lib r ''failed to get kontinuum instance'' err))
      | Inr item \<Rightarrow> return (Inr item))
   }"

definition secretDataToYAML :: "'s uilib \<Rightarrow> labels \<Rightarrow> goerr + string" where
  "secretDataToYAML lib data =
     (if length (ui_order lib data) = 0 then Inr ''''
      else (case ui_yaml lib data of
         Inl err \<Rightarrow> Inl (Errorf ''failed to marshal secret data as yaml: %w'' [] [err])
       | Inr out \<Rightarrow> Inr out))"

definition fetchSecretDataYAML :: "'s uilib \<Rightarrow> 's Router \<Rightarrow> 's client \<Rightarrow> KontinuumSecretReference \<Rightarrow> ('s, action list + string) state" where
  "fetchSecretDataYAML lib r c ref =
     (if ksr_Name ref = '''' then return (Inr '''')
      else do {
        g \<leftarrow> kget (cl_Secret c) (ksr_Namespace ref, ksr_Name ref);
        (case g of
           Inl err \<Rightarrow>
             if isNotFound err then return (Inr '''')
             else return (Inl (apiFailure lib r ''failed to get kontinuum config secret'' err))
         | Inr secret \<Rightarrow> (case secretDataToYAML lib (sec_Data secret) of
             Inl err \<Rightarrow> return (Inl [HTTPError (''failed to render kontinuum config secret: '' @ ui_errText lib err) 500])
           | Inr secretDataYAML \<Rightarrow> return (Inr secretDataYAML)))
      })"

definition zoneNameForKontinuum :: "Kontinuum \<Rightarrow> string option" where
  "zoneNameForKontinuum item =
     (if ksp_Region (kon_Spec item) = '''' \<or> ksp_Zone (kon_Spec item) = '''' then None
      else Some (ksp_Region (kon_Spec item) @ ''-'' @ ksp_Zone (kon_Spec item)))"

definition kontinuumConfigData :: "'s uilib \<Rightarrow> KontinuumConfigStatus \<Rightarrow> tdata" where
  "kontinuumConfigData lib cfg = [
     ''Addr'' \<mapsto> TStr (ksrv_Addr (kcfg_Server cfg)),
     ''StorageBackend'' \<mapsto> TStr (storageBackendName (ui_parseScheme lib) (ksrv_Storage (kcfg_Server cfg))),
     ''StorageTarget'' \<mapsto> TStr (ksrv_Storage (kcfg_Server cfg)),
     ''LogLevel'' \<mapsto> TStr (klog_Level (kcfg_Log cfg)), ''LogFormat'' \<mapsto> TStr (klog_Format (kcfg_Log cfg)),
     ''DNSDomain'' \<mapsto> TStr (kdns_Domain (ksrv_DNS (kcfg_Server cfg))),
     ''GRPCEndpoint'' \<mapsto> TStr (kgrpc_Endpoint (ksrv_GRPC (kcfg_Server cfg))),
     ''GRPCInsecureTLSSkipVerify'' \<mapsto> TStr (kgrpc_InsecureTLSSkipVerify (ksrv_GRPC (kcfg_Server cfg))),
     ''OIDCEnabled'' \<mapsto> TBool (koidc_Enabled (kcfg_OIDC cfg)), ''OIDCIssuerURL'' \<mapsto> TStr (koidc_IssuerURL (kcfg_OIDC cfg)),
     ''OIDCClientID'' \<mapsto> TStr (koidc_ClientID (kcfg_OIDC cfg)), ''OIDCRedirectURL'' \<mapsto> TStr (koidc_RedirectURL (kcfg_OIDC cfg)),
     ''OIDCAdminGroups'' \<mapsto> TStr (koidc_AdminGroups (kcfg_OIDC cfg))]"

definition kontinuumDetailData :: "'s uilib \<Rightarrow> 's Router \<Rightarrow> Kontinuum \<Rightarrow> bool \<Rightarrow> (string \<times> int) option \<Rightarrow> ('s, tdata) state" where
  "kontinuumDetailData lib r item secretDataReady identity = do {
     beat \<leftarrow> formatAge (ui_world lib) (kst_LastHeartbeatTime (kon_Status item));
     age \<leftarrow> formatAge (ui_world lib) (om_CreationTimestamp (kon_meta item));
     idd \<leftarrow> identityData (ui_world lib) ''GRPCThumbprint'' ''GRPCIdentityIssuedAge'' identity;
     return ([''Title'' \<mapsto> TStr (om_Name (kon_meta item)), ''ActiveMenu'' \<mapsto> TStr pageRegistry, ''Version'' \<mapsto> TStr (ro_version r),
       ''AuthEnabled'' \<mapsto> TBool (ro_authEnabled r), ''Name'' \<mapsto> TStr (om_Name (kon_meta item)),
       ''Namespace'' \<mapsto> TStr (om_Namespace (kon_meta item)), ''Role'' \<mapsto> TStr (kst_Role (kon_Status item)),
       ''Region'' \<mapsto> TStr (ksp_Region (kon_Spec item)), ''Zone'' \<mapsto> TStr (ksp_Zone (kon_Spec item)),
       ''LastHeartbeat'' \<mapsto> TStr beat, ''Age'' \<mapsto> TStr age, ''APIVersion'' \<mapsto> TStr groupVersion,
       ''InstanceVersion'' \<mapsto> TStr (kst_Version (kon_Status item)),
       ''SecretName'' \<mapsto> TStr (ksr_Name (kst_SecretRef (kon_Status item))),
       ''SecretNamespace'' \<mapsto> TStr (ksr_Namespace (kst_SecretRef (kon_Status item))),
       ''SecretDataReady'' \<mapsto> TBool secretDataReady] ++ kontinuumConfigData lib (kst_Config (kon_Status item)) ++ idd)
   }"

definition handleKontinuumDetail :: "'s uilib \<Rightarrow> 's Router \<Rightarrow> 's uihandler" where
  "handleKontinuumDetail lib r tok request = withKontinuums lib r tok (\<lambda>kontinuums. do {
     k \<leftarrow> fetchKontinuum lib r (kc_client kontinuums) request;
     (case k of
        Inl answered \<Rightarrow> return answered
      | Inr item \<Rightarrow> do {
          y \<leftarrow> fetchSecretDataYAML lib r (kc_client kontinuums) (kst_SecretRef (kon_Status item));
          (case y of
             Inl answered \<Rightarrow> return answered
           | Inr secretDataYAML \<Rightarrow> do {
               identity \<leftarrow> (case zoneNameForKontinuum item of
                   None \<Rightarrow> return None
                 | Some zname \<Rightarrow> fetchZoneIdentity lib (kc_client kontinuums) zname);
               data \<leftarrow> kontinuumDetailData lib r item (secretDataYAML \<noteq> '''') identity;
               renderPage lib r tok request pageKontinuum data
             })
        })
   })"

definition handleKontinuumSecretDownload :: "'s uilib \<Rightarrow> 's Router \<Rightarrow> 's uihandler" where
  "handleKontinuumSecretDownload lib r tok request = withKontinuums lib r tok (\<lambda>kontinuums. do {
     k \<leftarrow> fetchKontinuum lib r (kc_client kontinuums) request;
     (case k of
        Inl answered \<Rightarrow> return answered
      | Inr item \<Rightarrow> do {
          y \<leftarrow> fetchSecretDataYAML lib r (kc_client kontinuums) (kst_SecretRef (kon_Status item));
          (case y of
             Inl answered \<Rightarrow> return answered
           | Inr secretDataYAML \<Rightarrow>
               if secretDataYAML = '''' then return notFound
               else return [SetHeader ''Content-Type'' ''application/yaml'', WriteHeader 200, WriteBody secretDataYAML])
        })
   })"

end
