(* ===== verification/UiClusters.thy ===== *)
theory UiClusters
  imports UiPages
begin

text \<open>
  The pages of instances and clusters of \<open>pkg/ui/router.go\<close>: the list of Instances with the form
  that adds one, the detail page of an Instance, the list of TalosClusters, the detail page of a
  TalosCluster with its pools and addons, the download of its kubeconfig.
\<close>

section \<open>Instances\<close>

definition labelOrEmpty :: "labels \<Rightarrow> string \<Rightarrow> string" where
  "labelOrEmpty ls k = (case ls k of None \<Rightarrow> '''' | Some v \<Rightarrow> v)"

definition instanceRowFrom :: "'s uilib \<Rightarrow> Instance \<Rightarrow> ('s, instanceRow) state" where
  "instanceRowFrom lib item = do {
     age \<leftarrow> formatAge (ui_world lib) (om_CreationTimestamp (inst_meta item));
     return (let row = \<lparr>ir_Name = om_Name (inst_meta item), ir_Namespace = om_Namespace (inst_meta item),
          ir_TalosVersion = its_Version (ist_Talos (inst_Status item)), ir_Condition = '''', ir_ConditionOK = False,
          ir_ClaimedBy = labelOrEmpty (om_Labels (inst_meta item)) LabelClaimedBy, ir_Age = age,
          ir_Deleting = \<not> deletionIsZero (inst_meta item)\<rparr>
        in case latestCondition (ui_instanceTimes lib item) of
             None \<Rightarrow> row
           | Some c \<Rightarrow> row\<lparr>ir_Condition := cond_Type c, ir_ConditionOK := (cond_Status c = ConditionTrue)\<rparr>)
   }"

fun instanceRows :: "'s uilib \<Rightarrow> Instance list \<Rightarrow> ('s, instanceRow list) state" where
  "instanceRows lib [] = return []"
| "instanceRows lib (item # items) = do {
     row \<leftarrow> instanceRowFrom lib item;
     rows \<leftarrow> instanceRows lib items;
     return (row # rows)
   }"

definition instanceAddFormData :: "string \<Rightarrow> string \<Rightarrow> string \<Rightarrow> string \<Rightarrow> tdata" where
  "instanceAddFormData namespace address createdInstance formErr = [
     ''Namespace'' \<mapsto> TStr namespace, ''Address'' \<mapsto> TStr address, ''CreatedInstance'' \<mapsto> TStr createdInstance,
     ''Error'' \<mapsto> TStr formErr]"

definition handleInstances :: "'s uilib \<Rightarrow> 's Router \<Rightarrow> 's uihandler" where
  "handleInstances lib r tok request = withKontinuums lib r tok (\<lambda>kontinuums. do {
     let namespace = ur_PathValue request ''ns'';
     l \<leftarrow> klist (cl_Instance (kc_client kontinuums)) (Some namespace) (\<lambda>_. True);
     (case l of
        Inl err \<Rightarrow> return (apiFailure lib r ''failed to list instances'' err)
      | Inr items \<Rightarrow> do {
          rows \<leftarrow> instanceRows lib items;
          renderPage lib r tok request pageInstances
            ([''Title'' \<mapsto> TStr ''Instances'', ''ActiveMenu'' \<mapsto> TStr ''instances'', ''Version'' \<mapsto> TStr (ro_version r),
              ''AuthEnabled'' \<mapsto> TBool (ro_authEnabled r), ''Namespace'' \<mapsto> TStr namespace,
              ''Instances'' \<mapsto> TInstances (sort_by ir_Name rows)] ++ instanceAddFormData namespace '''' '''' '''')
        })
   })"

definition maxInstanceAddFormBytes :: nat where "maxInstanceAddFormBytes = 65536"

definition renderInstanceAddModalBody :: "'s uilib \<Rightarrow> 's Router \<Rightarrow> tdata \<Rightarrow> action list" where
  "renderInstanceAddModalBody lib r data = executeTemplate lib r pageInstances ''instance-add-modal-body'' data"

definition handleInstanceAdd :: "'s uilib \<Rightarrow> 's Router \<Rightarrow> 's uihandler" where
  "handleInstanceAdd lib r tok request = (case ParseForm maxInstanceAddFormBytes request of
       Inl err \<Rightarrow> return (badForm lib err)
     | Inr form \<Rightarrow> withZones lib r tok (\<lambda>zones. do {
         let namespace = ur_PathValue request ''ns'';
         let address = PostFormValue form ''address'';
         a \<leftarrow> Instance.Add (zal_parsesAsIP (ui_zoneaddlib lib)) (zal_nameOf (ui_zoneaddlib lib)) zones
           \<lparr>ao_Namespace = namespace, ao_Address = address, ao_Resolver = ui_resolver lib\<rparr>;
         (case a of
            Inl err \<Rightarrow> (case endsSession r err of
                Some invalidate \<Rightarrow> return (invalidate (MapError (ui_errText lib) (Some err)))
              | None \<Rightarrow> return (renderInstanceAddModalBody lib r (instanceAddFormData namespace address '''' (ui_errText lib err))))
          | Inr created \<Rightarrow> return (renderInstanceAddModalBody lib r
              (instanceAddFormData namespace '''' (om_Name (inst_meta created)) '''')))
       }))"

definition instanceInterfaceRowsFrom :: "InstanceInterfaceStatus list \<Rightarrow> instanceInterfaceRow list" where
  "instanceInterfaceRowsFrom ifs = map (\<lambda>i. \<lparr>iw_Name = iif_Name i, iw_MACAddress = iif_MACAddress i,
     iw_Addresses = joinWith '', '' (iif_Addresses i)\<rparr>) ifs"

definition instanceDiskRowsFrom :: "InstanceDiskStatus list \<Rightarrow> instanceDiskRow list" where
  "instanceDiskRowsFrom disks = map (\<lambda>d. \<lparr>dw_DevPath = idk_DevPath d, dw_PrettySize = idk_PrettySize d, dw_Model = idk_Model d,
     dw_Serial = idk_Serial d, dw_Transport = idk_Transport d, dw_Rotational = idk_Rotational d\<rparr>) disks"

definition instanceCPURowsFrom :: "InstanceCPUStatus list \<Rightarrow> instanceCPURow list" where
  "instanceCPURowsFrom cpus = map (\<lambda>c. \<lparr>pw_Manufacturer = icp_Manufacturer c, pw_ProductName = icp_ProductName c,
     pw_Architecture = icp_Architecture c, pw_CoreCount = icp_CoreCount c, pw_ThreadCount = icp_ThreadCount c,
     pw_MaxSpeedMHz = icp_MaxSpeedMHz c\<rparr>) cpus"

definition instanceMemoryRowsFrom :: "InstanceMemoryStatus list \<Rightarrow> instanceMemoryRow list" where
  "instanceMemoryRowsFrom modules = map (\<lambda>m. \<lparr>mw_SizeMiB = imm_SizeMiB m, mw_Manufacturer = imm_Manufacturer m,
     mw_Speed = imm_Speed m, mw_Serial = imm_Serial m\<rparr>) modules"

definition instanceDetailData :: "'s uilib \<Rightarrow> 's Router \<Rightarrow> Instance \<Rightarrow> ('s, tdata) state" where
  "instanceDetailData lib r item = do {
     rows \<leftarrow> conditionRows (ui_world lib) (sortConditionsNewestFirst (ui_instanceTimes lib item));
     age \<leftarrow> formatAge (ui_world lib) (om_CreationTimestamp (inst_meta item));
     let st = inst_Status item;
     let discoverySource = (case isp_ProviderRef (inst_Spec item) of
         None \<Rightarrow> ''Bare metal (spec.interfaces)'' | Some p \<Rightarrow> ref_Kind p @ ''/'' @ ref_Name p);
     return ([''Title'' \<mapsto> TStr (om_Name (inst_meta item)), ''ActiveMenu'' \<mapsto> TStr ''instances'', ''Version'' \<mapsto> TStr (ro_version r),
         ''AuthEnabled'' \<mapsto> TBool (ro_authEnabled r), ''Name'' \<mapsto> TStr (om_Name (inst_meta item)),
         ''Namespace'' \<mapsto> TStr (om_Namespace (inst_meta item)), ''Age'' \<mapsto> TStr age,
         ''TalosVersion'' \<mapsto> TStr (its_Version (ist_Talos st)), ''DiscoverySource'' \<mapsto> TStr discoverySource,
         ''Hostname'' \<mapsto> TStr (labelOrEmpty (om_Annotations (inst_meta item)) AnnotationHostname),
         ''SerialNumber'' \<mapsto> TStr (ist_SerialNumber st),
         ''ClaimedBy'' \<mapsto> TStr (labelOrEmpty (om_Labels (inst_meta item)) LabelClaimedBy),
         ''Labels'' \<mapsto> TLabels (sortedLabels (ui_order lib) (om_Labels (inst_meta item))),
         ''Interfaces'' \<mapsto> TInterfaces (instanceInterfaceRowsFrom (ist_Interfaces st)),
         ''Disks'' \<mapsto> TDisks (instanceDiskRowsFrom (ist_Disks st)), ''CPUs'' \<mapsto> TCPUs (instanceCPURowsFrom (ist_CPUs st)),
         ''Memory'' \<mapsto> TMemory (instanceMemoryRowsFrom (ist_Memory st)), ''Conditions'' \<mapsto> TConditions rows,
         ''Deleting'' \<mapsto> TBool (\<not> deletionIsZero (inst_meta item))] ++
       (case latestCondition (ui_instanceTimes lib item) of
          None \<Rightarrow> Map.empty
        | Some c \<Rightarrow> [''Condition'' \<mapsto> TStr (cond_Type c), ''ConditionOK'' \<mapsto> TBool (cond_Status c = ConditionTrue)]))
   }"

definition handleInstanceDetail :: "'s uilib \<Rightarrow> 's Router \<Rightarrow> 's uihandler" where
  "handleInstanceDetail lib r tok request = withKontinuums lib r tok (\<lambda>kontinuums. do {
     g \<leftarrow> kget (cl_Instance (kc_client kontinuums)) (ur_PathValue request ''ns'', ur_PathValue request ''name'');
     (case g of
        Inl err \<Rightarrow>
          if isNotFound err then return notFound
          else return (apiFailure lib r ''failed to get instance'' err)
      | Inr item \<Rightarrow> do {
          data \<leftarrow> instanceDetailData lib r item;
          renderPage lib r tok request pageInstanceDetail data
        })
   })"

definition bareInstance :: "string \<Rightarrow> string \<Rightarrow> Instance" where
  "bareInstance ns n = \<lparr>inst_meta = objectMeta ns n, inst_Spec = \<lparr>isp_Interfaces = [], isp_ProviderRef = None\<rparr>,
     inst_Status = zeroInstanceStatus\<rparr>"

definition handleDeleteInstanceObject :: "'s uilib \<Rightarrow> 's Router \<Rightarrow> 's uihandler" where
  "handleDeleteInstanceObject lib r tok request = withKontinuums lib r tok (\<lambda>kontinuums.
     let namespace = ur_PathValue request ''ns''
     in deleteAndRedirect lib r
          (kdelete (cl_Instance (kc_client kontinuums)) (bareInstance namespace (ur_PathValue request ''name'')))
          ''instance'' (''/app/kontinuum.sh/v1alpha2/namespaces/'' @ namespace @ ''/instances''))"

section \<open>Clusters\<close>

definition talosKubeconfigSecretKey :: string where "talosKubeconfigSecretKey = ''kubeconfig''"

fun talosClusterRows :: "'s uilib \<Rightarrow> TalosCluster list \<Rightarrow> ('s, talosClusterRow list) state" where
  "talosClusterRows lib [] = return []"
| "talosClusterRows lib (item # items) = do {
     age \<leftarrow> formatAge (ui_world lib) (om_CreationTimestamp (tc_meta item));
     rows \<leftarrow> talosClusterRows lib items;
     return ((let row = \<lparr>tw_Name = om_Name (tc_meta item), tw_Namespace = om_Namespace (tc_meta item),
          tw_ControlPlanePool = ipr_Name (tcm_PoolRef (tcs_ControlPlane (tc_Spec item))),
          tw_TalosVersion = tsp_Version (tcs_Talos (tc_Spec item)),
          tw_KubernetesVersion = k8s_Version (tcs_Kubernetes (tc_Spec item)), tw_Condition = '''', tw_ConditionOK = False,
          tw_Age = age, tw_Deleting = \<not> deletionIsZero (tc_meta item)\<rparr>
        in case latestCondition (ui_clusterTimes lib item) of
             None \<Rightarrow> row
           | Some c \<Rightarrow> row\<lparr>tw_Condition := cond_Type c, tw_ConditionOK := (cond_Status c = ConditionTrue)\<rparr>) # rows)
   }"

definition handleTalosClusters :: "'s uilib \<Rightarrow> 's Router \<Rightarrow> 's uihandler" where
  "handleTalosClusters lib r tok request = withKontinuums lib r tok (\<lambda>kontinuums. do {
     let namespace = ur_PathValue request ''ns'';
     l \<leftarrow> klist (cl_TalosCluster (kc_client kontinuums)) (Some namespace) (\<lambda>_. True);
     (case l of
        Inl err \<Rightarrow> return (apiFailure lib r ''failed to list taloscluster instances'' err)
      | Inr items \<Rightarrow> do {
          rows \<leftarrow> talosClusterRows lib items;
          renderPage lib r tok request pageTalosClusters
            [''Title'' \<mapsto> TStr ''Clusters'', ''ActiveMenu'' \<mapsto> TStr ''talosclusters'', ''Version'' \<mapsto> TStr (ro_version r),
             ''AuthEnabled'' \<mapsto> TBool (ro_authEnabled r), ''Namespace'' \<mapsto> TStr namespace,
             ''TalosClusters'' \<mapsto> TClusters (sort_by tw_Name rows)]
        })
   })"

definition selectorOperatorText :: "string \<Rightarrow> string" where
  "selectorOperatorText operator =
     (if operator = ''In'' then ''in'' else if operator = ''NotIn'' then ''notin''
      else if operator = ''Exists'' then ''exists'' else if operator = ''DoesNotExist'' then ''does not exist''
      else operator)"

text \<open>The chips are sorted by all their fields, so equal ones cannot be told apart.\<close>

definition poolSelectorRows :: "LabelSelector \<Rightarrow> poolSelectorRow list" where
  "poolSelectorRows selector = sort_key (\<lambda>row. (ps_Key row, ps_Operator row, ps_Value row))
     (map (\<lambda>(k, v). \<lparr>ps_Key = k, ps_Operator = ''='', ps_Value = v\<rparr>) (ls_MatchLabels selector) @
      map (\<lambda>(k, op, vs). \<lparr>ps_Key = k, ps_Operator = selectorOperatorText op, ps_Value = joinWith '', '' vs\<rparr>)
        (ls_MatchExpressions selector))"

fun indexOf :: "string list \<Rightarrow> string \<Rightarrow> nat" where
  "indexOf [] s = 0"
| "indexOf (x # xs) s = (if x = s then 0 else Suc (indexOf xs s))"

definition memberStages :: "string list" where
  "memberStages = [DiscoveredConditionType, MemberConfiguredConditionType, MemberJoinedConditionType,
     MemberReadyConditionType, LiveConditionType]"

definition poolMemberConditions :: "Condition list \<Rightarrow> poolMemberCondition list" where
  "poolMemberConditions conditions = sort_key (\<lambda>p. (indexOf memberStages (pc_Type p), pc_Type p))
     (map (\<lambda>c. \<lparr>pc_Type = cond_Type c, pc_OK = (cond_Status c = ConditionTrue)\<rparr>) conditions)"

definition listPoolMembers :: "'s client \<Rightarrow> string \<Rightarrow> string \<Rightarrow> ('s, poolMemberRow list) state" where
  "listPoolMembers c namespace pool = do {
     l \<leftarrow> klist (cl_Instance c) (Some namespace) (matchingLabel LabelClaimedBy pool);
     (case l of
        Inl err \<Rightarrow> return []
      | Inr items \<Rightarrow> return (sort_by pm_Name (map (\<lambda>item. \<lparr>pm_Name = om_Name (inst_meta item),
          pm_Deleting = \<not> deletionIsZero (inst_meta item),
          pm_Conditions = poolMemberConditions (ist_Conditions (inst_Status item))\<rparr>) items)))
   }"

definition fetchPoolRow :: "'s client \<Rightarrow> string \<Rightarrow> string \<Rightarrow> string \<Rightarrow> ('s, poolRow) state" where
  "fetchPoolRow c namespace rowName pool = do {
     members \<leftarrow> listPoolMembers c namespace pool;
     let row = \<lparr>pl_Name = rowName, pl_PoolRef = pool, pl_ReadyReplicas = 0, pl_Replicas = 0, pl_Found = False,
       pl_Selector = [], pl_Members = members\<rparr>;
     g \<leftarrow> kget (cl_InstancePool c) (namespace, pool);
     (case g of
        Inl err \<Rightarrow> return row
      | Inr p \<Rightarrow> return (row\<lparr>pl_Found := True, pl_ReadyReplicas := ipst_ReadyReplicas (pool_Status p),
          pl_Replicas := ips_Replicas (pool_Spec p), pl_Selector := poolSelectorRows (ips_Selector (pool_Spec p))\<rparr>))
   }"

fun workerPoolRows :: "'s client \<Rightarrow> string \<Rightarrow> TalosClusterWorkerSpec list \<Rightarrow> ('s, poolRow list) state" where
  "workerPoolRows c namespace [] = return []"
| "workerPoolRows c namespace (worker # workers) = do {
     row \<leftarrow> fetchPoolRow c namespace (tcw_Name worker) (ipr_Name (tcw_PoolRef worker));
     rows \<leftarrow> workerPoolRows c namespace workers;
     return (row # rows)
   }"

definition addonChartText :: "AddonChartSpec option \<Rightarrow> string" where
  "addonChartText chart = (case chart of None \<Rightarrow> '''' | Some c \<Rightarrow>
     (let txt = (if acs_Repo c \<noteq> '''' \<and> acs_Name c \<noteq> '''' then acs_Repo c @ ''/'' @ acs_Name c
            else if acs_Name c \<noteq> '''' then acs_Name c else acs_Repo c)
      in if acs_Version c = '''' then txt else if txt = '''' then acs_Version c else txt @ '':'' @ acs_Version c))"

definition addonRowFrom :: "'s uilib \<Rightarrow> Addon \<Rightarrow> addonRow" where
  "addonRowFrom lib item =
     (let row = \<lparr>aw_Name = om_Name (addon_meta item), aw_ReleaseName = ReleaseName item,
          aw_TargetNamespace = ans_Name (asp_Namespace (addon_Spec item)), aw_Chart = addonChartText (asp_Chart (addon_Spec item)),
          aw_Priority = 0, aw_PriorityKnown = False, aw_Enabled = Enabled (addon_Spec item),
          aw_Condition = '''', aw_ConditionOK = False, aw_Reason = '''', aw_Deleting = \<not> deletionIsZero (addon_meta item)\<rparr>;
        row = (case EffectivePriority (ui_addonlib lib) item of
            Inl err \<Rightarrow> row
          | Inr priority \<Rightarrow> row\<lparr>aw_Priority := priority, aw_PriorityKnown := True\<rparr>)
      in case readyCondition (ast_Conditions (addon_Status item)) of
           None \<Rightarrow> row
         | Some c \<Rightarrow> row\<lparr>aw_Condition := cond_Type c, aw_ConditionOK := (cond_Status c = ConditionTrue), aw_Reason := cond_Reason c\<rparr>)"

definition addonPrioritySortKey :: "addonRow \<Rightarrow> int" where
  "addonPrioritySortKey row = (if \<not> aw_PriorityKnown row then 9223372036854775807 else sint (aw_Priority row))"

definition addonRows :: "'s uilib \<Rightarrow> string \<Rightarrow> Addon list \<Rightarrow> addonRow list" where
  "addonRows lib ofCluster items = sort_key (\<lambda>row. (addonPrioritySortKey row, aw_ReleaseName row))
     (map (addonRowFrom lib) (filter (\<lambda>item. tcr_Name (asp_TalosClusterRef (addon_Spec item)) = ofCluster) items))"

definition fetchAddonRows :: "'s uilib \<Rightarrow> 's client \<Rightarrow> string \<Rightarrow> string \<Rightarrow> ('s, addonRow list) state" where
  "fetchAddonRows lib c namespace ofCluster = do {
     l \<leftarrow> klist (cl_Addon c) (Some namespace) (\<lambda>_. True);
     (case l of Inl err \<Rightarrow> return [] | Inr items \<Rightarrow> return (addonRows lib ofCluster items))
   }"

definition fetchOwningZone :: "'s uilib \<Rightarrow> 's Router \<Rightarrow> 's client \<Rightarrow> string \<Rightarrow> string \<Rightarrow> ('s, action list + Zone option) state" where
  "fetchOwningZone lib r c namespace ofCluster = do {
     g \<leftarrow> kget (cl_Zone c) (namespace, ofCluster);
     (case g of
        Inl err \<Rightarrow>
          if isNotFound err then return (Inr None)
          else return (Inl (apiFailure lib r ''failed to get owning zone'' err))
      | Inr zone \<Rightarrow> return (Inr (Some zone)))
   }"

definition fetchTalosClusterKubeconfig :: "'s uilib \<Rightarrow> 's Router \<Rightarrow> 's client \<Rightarrow> SecretReference \<Rightarrow> ('s, action list + string) state" where
  "fetchTalosClusterKubeconfig lib r c ref =
     (if sr_Name ref = '''' then return (Inr '''')
      else do {
        g \<leftarrow> kget (cl_Secret c) (sr_Namespace ref, sr_Name ref);
        (case g of
           Inl err \<Rightarrow>
             if isNotFound err then return (Inr '''')
             else return (Inl (apiFailure lib r ''failed to get taloscluster kubeconfig secret'' err))
         | Inr secret \<Rightarrow> return (Inr (labelOrEmpty (sec_Data secret) talosKubeconfigSecretKey)))
      })"

definition fetchTalosCluster :: "'s uilib \<Rightarrow> 's Router \<Rightarrow> 's client \<Rightarrow> string \<Rightarrow> string \<Rightarrow> ('s, action list + TalosCluster) state" where
  "fetchTalosCluster lib r c namespace name = do {
     g \<leftarrow> kget (cl_TalosCluster c) (namespace, name);
     (case g of
        Inl err \<Rightarrow>
          if isNotFound err then return (Inl notFound)
          else return (Inl (apiFailure lib r ''failed to get taloscluster'' err))
      | Inr cluster \<Rightarrow> return (Inr cluster))
   }"

definition clusterZoneData :: "Zone option \<Rightarrow> tdata" where
  "clusterZoneData zone = [
     ''HasZone'' \<mapsto> TBool (case zone of None \<Rightarrow> False | Some z \<Rightarrow> om_Name (zone_meta z) \<noteq> ''''),
     ''ZoneObjectName'' \<mapsto> TStr (case zone of None \<Rightarrow> '''' | Some z \<Rightarrow> om_Name (zone_meta z)),
     ''ZoneRegion'' \<mapsto> TStr (case zone of None \<Rightarrow> '''' | Some z \<Rightarrow> zsp_Region (zone_Spec z)),
     ''ZoneName'' \<mapsto> TStr (case zone of None \<Rightarrow> '''' | Some z \<Rightarrow> zsp_Zone (zone_Spec z))]"

definition talosClusterDetailData :: "'s uilib \<Rightarrow> 's Router \<Rightarrow> 's client \<Rightarrow> TalosCluster \<Rightarrow> Zone option \<Rightarrow> string \<Rightarrow> bool \<Rightarrow>
    ('s, tdata) state" where
  "talosClusterDetailData lib r c cluster zone kubeconfig revealed = do {
     let namespace = om_Namespace (tc_meta cluster);
     controlPlane \<leftarrow> fetchPoolRow c namespace ''Control plane'' (ipr_Name (tcm_PoolRef (tcs_ControlPlane (tc_Spec cluster))));
     workers \<leftarrow> workerPoolRows c namespace (tcs_Workers (tc_Spec cluster));
     rows \<leftarrow> conditionRows (ui_world lib) (sortConditionsNewestFirst (ui_clusterTimes lib cluster));
     age \<leftarrow> formatAge (ui_world lib) (om_CreationTimestamp (tc_meta cluster));
     addons \<leftarrow> fetchAddonRows lib c namespace (om_Name (tc_meta cluster));
     return ([''Title'' \<mapsto> TStr (om_Name (tc_meta cluster)), ''ActiveMenu'' \<mapsto> TStr ''talosclusters'',
         ''Version'' \<mapsto> TStr (ro_version r), ''AuthEnabled'' \<mapsto> TBool (ro_authEnabled r),
         ''Name'' \<mapsto> TStr (om_Name (tc_meta cluster)), ''Namespace'' \<mapsto> TStr namespace,
         ''TalosVersion'' \<mapsto> TStr (tsp_Version (tcs_Talos (tc_Spec cluster))),
         ''KubernetesVersion'' \<mapsto> TStr (k8s_Version (tcs_Kubernetes (tc_Spec cluster))), ''Age'' \<mapsto> TStr age,
         ''Pools'' \<mapsto> TPools (controlPlane # workers), ''Addons'' \<mapsto> TAddons addons, ''Conditions'' \<mapsto> TConditions rows,
         ''Deleting'' \<mapsto> TBool (\<not> deletionIsZero (tc_meta cluster)), ''KubeconfigReady'' \<mapsto> TBool (0 < length kubeconfig),
         ''KubeconfigRevealed'' \<mapsto> TBool revealed,
         ''Labels'' \<mapsto> TLabels (sortedLabels (ui_order lib) (om_Labels (tc_meta cluster)))] ++
       clusterZoneData zone ++ readyData ''Ready'' ''ReadyOK'' (tcst_Conditions (tc_Status cluster)))
   }"

definition handleTalosClusterDetail :: "'s uilib \<Rightarrow> 's Router \<Rightarrow> 's uihandler" where
  "handleTalosClusterDetail lib r tok request = withKontinuums lib r tok (\<lambda>kontinuums. do {
     let c = kc_client kontinuums;
     t \<leftarrow> fetchTalosCluster lib r c (ur_PathValue request ''ns'') (ur_PathValue request ''name'');
     (case t of
        Inl answered \<Rightarrow> return answered
      | Inr cluster \<Rightarrow> do {
          z \<leftarrow> fetchOwningZone lib r c (om_Namespace (tc_meta cluster)) (om_Name (tc_meta cluster));
          (case z of
             Inl answered \<Rightarrow> return answered
           | Inr zone \<Rightarrow> do {
               k \<leftarrow> fetchTalosClusterKubeconfig lib r c (tcst_SecretRef (tc_Status cluster));
               (case k of
                  Inl answered \<Rightarrow> return answered
                | Inr kubeconfig \<Rightarrow> do {
                    data \<leftarrow> talosClusterDetailData lib r c cluster zone kubeconfig (queryParam request ''reveal'' = ''true'');
                    renderPage lib r tok request pageTalosCluster data
                  })
             })
        })
   })"

definition handleTalosClusterKubeconfigDownload :: "'s uilib \<Rightarrow> 's Router \<Rightarrow> 's uihandler" where
  "handleTalosClusterKubeconfigDownload lib r tok request = withKontinuums lib r tok (\<lambda>kontinuums. do {
     let c = kc_client kontinuums;
     t \<leftarrow> fetchTalosCluster lib r c (ur_PathValue request ''ns'') (ur_PathValue request ''name'');
     (case t of
        Inl answered \<Rightarrow> return answered
      | Inr cluster \<Rightarrow> do {
          k \<leftarrow> fetchTalosClusterKubeconfig lib r c (tcst_SecretRef (tc_Status cluster));
          (case k of
             Inl answered \<Rightarrow> return answered
           | Inr kubeconfig \<Rightarrow>
               if length kubeconfig = 0 then return notFound
               else return [SetHeader ''Content-Type'' ''application/yaml'',
                 SetHeader ''Content-Disposition'' (''attachment; filename=\"'' @ om_Name (tc_meta cluster) @ ''-kubeconfig.yaml\"''),
                 WriteHeader 200, WriteBody kubeconfig])
        })
   })"

definition bareCluster :: "string \<Rightarrow> string \<Rightarrow> TalosCluster" where
  "bareCluster ns n = \<lparr>tc_meta = objectMeta ns n,
     tc_Spec = \<lparr>tcs_Talos = \<lparr>tsp_Version = ''''\<rparr>, tcs_Kubernetes = \<lparr>k8s_Version = ''''\<rparr>,
       tcs_ControlPlane = \<lparr>tcm_PoolRef = \<lparr>ipr_Name = ''''\<rparr>\<rparr>, tcs_Workers = [], tcs_Teardown = \<lparr>tds_UnregisterInstances = False\<rparr>\<rparr>,
     tc_Status = \<lparr>tcst_Conditions = [], tcst_SecretRef = \<lparr>sr_Name = '''', sr_Namespace = ''''\<rparr>\<rparr>\<rparr>"

definition handleDeleteTalosCluster :: "'s uilib \<Rightarrow> 's Router \<Rightarrow> 's uihandler" where
  "handleDeleteTalosCluster lib r tok request = withKontinuums lib r tok (\<lambda>kontinuums.
     let namespace = ur_PathValue request ''ns''
     in deleteAndRedirect lib r
          (kdelete (cl_TalosCluster (kc_client kontinuums)) (bareCluster namespace (ur_PathValue request ''name'')))
          ''taloscluster'' (''/app/kontinuum.sh/v1alpha2/namespaces/'' @ namespace @ ''/talosclusters''))"

end
