(* ===== verification/UiIam.thy ===== *)
theory UiIam
  imports UiClusters "HOL-Library.AList"
begin

text \<open>
  Access control in the web interface (\<open>pkg/ui/router.go\<close>): the lists of Roles, ClusterRoles and
  their bindings, the forms that add them, their deletion.
\<close>

section \<open>Rows\<close>

definition roleRuleRowsFrom :: "RbacRule list \<Rightarrow> roleRuleRow list" where
  "roleRuleRowsFrom rules = map (\<lambda>rule. \<lparr>rr_APIGroups = rule_APIGroups rule, rr_Resources = rule_Resources rule,
     rr_Verbs = rule_Verbs rule\<rparr>) rules"

definition roleNames :: "roleRow list \<Rightarrow> string list" where "roleNames roles = map rw_Name roles"

definition subjectStrings :: "RbacSubject list \<Rightarrow> string list" where
  "subjectStrings subjects = map (\<lambda>subject. sub_Kind subject @ '': '' @ sub_Name subject) subjects"

definition managedLabels :: "labels \<Rightarrow> bool" where
  "managedLabels ls \<longleftrightarrow> labelOrEmpty ls LabelManagedBy = ManagedByValue"

fun roleRows :: "'s world \<Rightarrow> NamespacedRole list \<Rightarrow> ('s, roleRow list) state" where
  "roleRows w [] = return []"
| "roleRows w (item # items) = do {
     age \<leftarrow> formatAge w (om_CreationTimestamp (role_meta item));
     rows \<leftarrow> roleRows w items;
     return (\<lparr>rw_Name = om_Name (role_meta item), rw_Namespace = om_Namespace (role_meta item),
       rw_Rules = roleRuleRowsFrom (role_Rules item), rw_Age = age, rw_Managed = False\<rparr> # rows)
   }"

fun roleBindingRows :: "'s world \<Rightarrow> RoleBinding list \<Rightarrow> ('s, roleBindingRow list) state" where
  "roleBindingRows w [] = return []"
| "roleBindingRows w (item # items) = do {
     age \<leftarrow> formatAge w (om_CreationTimestamp (rb_meta item));
     rows \<leftarrow> roleBindingRows w items;
     return (\<lparr>bw_Name = om_Name (rb_meta item), bw_Namespace = om_Namespace (rb_meta item),
       bw_Subjects = subjectStrings (rb_Subjects item), bw_RoleRefKind = rref_Kind (rb_RoleRef item),
       bw_RoleRefName = rref_Name (rb_RoleRef item), bw_Age = age, bw_Managed = False\<rparr> # rows)
   }"

fun clusterRoleRows :: "'s world \<Rightarrow> ClusterRole list \<Rightarrow> ('s, roleRow list) state" where
  "clusterRoleRows w [] = return []"
| "clusterRoleRows w (item # items) = do {
     age \<leftarrow> formatAge w (om_CreationTimestamp (cr_meta item));
     rows \<leftarrow> clusterRoleRows w items;
     return (\<lparr>rw_Name = om_Name (cr_meta item), rw_Namespace = '''', rw_Rules = roleRuleRowsFrom (cr_Rules item),
       rw_Age = age, rw_Managed = managedLabels (om_Labels (cr_meta item))\<rparr> # rows)
   }"

fun clusterRoleBindingRows :: "'s world \<Rightarrow> ClusterRoleBinding list \<Rightarrow> ('s, roleBindingRow list) state" where
  "clusterRoleBindingRows w [] = return []"
| "clusterRoleBindingRows w (item # items) = do {
     age \<leftarrow> formatAge w (om_CreationTimestamp (crb_meta item));
     rows \<leftarrow> clusterRoleBindingRows w items;
     return (\<lparr>bw_Name = om_Name (crb_meta item), bw_Namespace = '''', bw_Subjects = subjectStrings (crb_Subjects item),
       bw_RoleRefKind = rref_Kind (crb_RoleRef item), bw_RoleRefName = rref_Name (crb_RoleRef item), bw_Age = age,
       bw_Managed = managedLabels (om_Labels (crb_meta item))\<rparr> # rows)
   }"

text \<open>The four lists, or the answer when the list fails.\<close>

definition listNamespaceRoles :: "'s uilib \<Rightarrow> 's Router \<Rightarrow> 's KontinuumClient \<Rightarrow> string \<Rightarrow> ('s, action list + roleRow list) state" where
  "listNamespaceRoles lib r kontinuums namespace = do {
     l \<leftarrow> klist (kc_Role kontinuums) (Some namespace) (\<lambda>_. True);
     (case l of
        Inl err \<Rightarrow> return (Inl (apiFailure lib r ''failed to list roles'' err))
      | Inr items \<Rightarrow> do { rows \<leftarrow> roleRows (ui_world lib) items; return (Inr (sort_by rw_Name rows)) })
   }"

definition listNamespaceRoleBindings :: "'s uilib \<Rightarrow> 's Router \<Rightarrow> 's KontinuumClient \<Rightarrow> string \<Rightarrow>
    ('s, action list + roleBindingRow list) state" where
  "listNamespaceRoleBindings lib r kontinuums namespace = do {
     l \<leftarrow> klist (kc_RoleBinding kontinuums) (Some namespace) (\<lambda>_. True);
     (case l of
        Inl err \<Rightarrow> return (Inl (apiFailure lib r ''failed to list role bindings'' err))
      | Inr items \<Rightarrow> do { rows \<leftarrow> roleBindingRows (ui_world lib) items; return (Inr (sort_by bw_Name rows)) })
   }"

definition listClusterRoles :: "'s uilib \<Rightarrow> 's Router \<Rightarrow> 's KontinuumClient \<Rightarrow> ('s, action list + roleRow list) state" where
  "listClusterRoles lib r kontinuums = do {
     l \<leftarrow> klist (kc_ClusterRole kontinuums) None (\<lambda>_. True);
     (case l of
        Inl err \<Rightarrow> return (Inl (apiFailure lib r ''failed to list cluster roles'' err))
      | Inr items \<Rightarrow> do { rows \<leftarrow> clusterRoleRows (ui_world lib) items; return (Inr (sort_by rw_Name rows)) })
   }"

definition listClusterRoleBindings :: "'s uilib \<Rightarrow> 's Router \<Rightarrow> 's KontinuumClient \<Rightarrow> ('s, action list + roleBindingRow list) state" where
  "listClusterRoleBindings lib r kontinuums = do {
     l \<leftarrow> klist (kc_ClusterRoleBinding kontinuums) None (\<lambda>_. True);
     (case l of
        Inl err \<Rightarrow> return (Inl (apiFailure lib r ''failed to list cluster role bindings'' err))
      | Inr items \<Rightarrow> do { rows \<leftarrow> clusterRoleBindingRows (ui_world lib) items; return (Inr (sort_by bw_Name rows)) })
   }"

section \<open>Forms\<close>

definition maxRoleAddFormBytes :: nat where "maxRoleAddFormBytes = 65536"

text \<open>
  A key of the rule builder: \<open>rules[N][field]\<close>, matched as a whole by \<open>ruleFieldPattern\<close>.  An
  index that \<open>strconv.Atoi\<close> cannot hold in 64 bits is skipped.
\<close>

definition isDigit :: "char \<Rightarrow> bool" where "isDigit c \<longleftrightarrow> (let n = of_char c :: nat in 48 \<le> n \<and> n \<le> 57)"

definition decimal :: "string \<Rightarrow> nat" where "decimal ds = fold (\<lambda>c n. 10 * n + (of_char c - 48)) ds 0"

definition ruleField :: "string \<Rightarrow> (nat \<times> string) option" where
  "ruleField key =
     (if \<not> hasPrefix key ''rules['' then None
      else let digits = takeWhile isDigit (drop 6 key); rest = drop (6 + length digits) key
        in if digits = '''' \<or> rest \<notin> (\<lambda>f. ''][''  @ f @ '']'') ` {''apiGroups'', ''resources'', ''verbs''} then None
           else if 9223372036854775807 < decimal digits then None
           else Some (decimal digits, take (length rest - 3) (drop 2 rest)))"

definition noRuleFields :: roleRuleFields where
  "noRuleFields = \<lparr>rfl_APIGroups = '''', rfl_Resources = '''', rfl_Verbs = []\<rparr>"

definition applyRuleField :: "roleRuleFields \<Rightarrow> string \<Rightarrow> string list \<Rightarrow> roleRuleFields" where
  "applyRuleField row field values =
     (if field = ''apiGroups'' then (case values of [] \<Rightarrow> row | v # _ \<Rightarrow> row\<lparr>rfl_APIGroups := v\<rparr>)
      else if field = ''resources'' then (case values of [] \<Rightarrow> row | v # _ \<Rightarrow> row\<lparr>rfl_Resources := v\<rparr>)
      else if field = ''verbs'' then row\<lparr>rfl_Verbs := values\<rparr>
      else row)"

text \<open>The rows found so far, by index; the range over the form visits its keys in any order.\<close>

fun ruleRows :: "Form \<Rightarrow> (nat \<times> roleRuleFields) list \<Rightarrow> (nat \<times> roleRuleFields) list" where
  "ruleRows [] rows = rows"
| "ruleRows ((key, values) # form) rows = (case ruleField key of
       None \<Rightarrow> ruleRows form rows
     | Some (index, field) \<Rightarrow>
         ruleRows form (AList.update index
           (applyRuleField (case map_of rows index of None \<Rightarrow> noRuleFields | Some row \<Rightarrow> row) field values) rows))"

definition parseRuleFields :: "Form \<Rightarrow> roleRuleFields list" where
  "parseRuleFields form = map snd (sort_key fst (ruleRows form []))"

definition splitCommaList :: "string \<Rightarrow> string list" where
  "splitCommaList s = filter (\<lambda>p. p \<noteq> '''') (map trimSpace (splitOn (CHR '','') s))"

definition splitAPIGroups :: "string \<Rightarrow> string list" where
  "splitAPIGroups s = (if trimSpace s = '''' then [''''] else splitCommaList s)"

definition buildPolicyRules :: "roleRuleFields list \<Rightarrow> RbacRule list" where
  "buildPolicyRules rules = map (\<lambda>rule. \<lparr>rule_APIGroups = splitAPIGroups (rfl_APIGroups rule),
     rule_Resources = splitCommaList (rfl_Resources rule), rule_NonResourceURLs = [], rule_Verbs = rfl_Verbs rule\<rparr>) rules"

definition hasVerb :: "string list \<Rightarrow> string \<Rightarrow> bool" where "hasVerb verbs verb \<longleftrightarrow> verb \<in> set verbs"

record roleAddFields =
  ra_name :: string
  ra_rules :: "roleRuleFields list"

definition noRole :: roleAddFields where "noRole = \<lparr>ra_name = '''', ra_rules = []\<rparr>"

definition roleFields :: "'s uilib \<Rightarrow> Form \<Rightarrow> roleAddFields" where
  "roleFields lib form = \<lparr>ra_name = trimSpace (PostFormValue form ''name''), ra_rules = parseRuleFields (ui_formOrder lib form)\<rparr>"

definition iamPrefix :: string where "iamPrefix = ''/app/rbac.authorization.k8s.io/v1/''"

definition roleAddFormData :: "string \<Rightarrow> roleAddFields \<Rightarrow> string \<Rightarrow> string \<Rightarrow> tdata" where
  "roleAddFormData namespace form createdRole formErr = [
     ''RoleAddURL'' \<mapsto> TStr (iamPrefix @ ''namespaces/'' @ namespace @ ''/roles''), ''RoleKind'' \<mapsto> TStr ''role'',
     ''RoleName'' \<mapsto> TStr (ra_name form), ''Rules'' \<mapsto> TRules (ra_rules form), ''CreatedRole'' \<mapsto> TStr createdRole,
     ''RoleError'' \<mapsto> TStr formErr]"

definition clusterRoleAddFormData :: "roleAddFields \<Rightarrow> string \<Rightarrow> string \<Rightarrow> tdata" where
  "clusterRoleAddFormData form createdRole formErr = [
     ''RoleAddURL'' \<mapsto> TStr (iamPrefix @ ''clusterroles''), ''RoleKind'' \<mapsto> TStr ''cluster role'',
     ''RoleName'' \<mapsto> TStr (ra_name form), ''Rules'' \<mapsto> TRules (ra_rules form), ''CreatedRole'' \<mapsto> TStr createdRole,
     ''RoleError'' \<mapsto> TStr formErr]"

definition renderRoleAddModalBody :: "'s uilib \<Rightarrow> 's Router \<Rightarrow> string \<Rightarrow> tdata \<Rightarrow> action list" where
  "renderRoleAddModalBody lib r page data = executeTemplate lib r page ''role-add-modal-body'' data"

definition handleRoleAdd :: "'s uilib \<Rightarrow> 's Router \<Rightarrow> 's uihandler" where
  "handleRoleAdd lib r tok request = (case ParseForm maxRoleAddFormBytes request of
       Inl err \<Rightarrow> return (badForm lib err)
     | Inr form \<Rightarrow>
         let namespace = ur_PathValue request ''ns''; new = roleFields lib form in
         if ra_name new = '''' then
           return (renderRoleAddModalBody lib r pageIAMNamespace (roleAddFormData namespace new '''' ''Name is required.''))
         else withKontinuums lib r tok (\<lambda>kontinuums. do {
           c \<leftarrow> kcreate (kc_Role kontinuums) \<lparr>role_meta = objectMeta namespace (ra_name new), role_Rules = buildPolicyRules (ra_rules new)\<rparr>;
           (case c of
              Inl err \<Rightarrow> return (renderRoleAddModalBody lib r pageIAMNamespace (roleAddFormData namespace new '''' (ui_errText lib err)))
            | Inr role \<Rightarrow> return (renderRoleAddModalBody lib r pageIAMNamespace
                (roleAddFormData namespace noRole (om_Name (role_meta role)) '''')))
         }))"

definition handleClusterRoleAdd :: "'s uilib \<Rightarrow> 's Router \<Rightarrow> 's uihandler" where
  "handleClusterRoleAdd lib r tok request = (case ParseForm maxRoleAddFormBytes request of
       Inl err \<Rightarrow> return (badForm lib err)
     | Inr form \<Rightarrow>
         let new = roleFields lib form in
         if ra_name new = '''' then
           return (renderRoleAddModalBody lib r pageIAMCluster (clusterRoleAddFormData new '''' ''Name is required.''))
         else withKontinuums lib r tok (\<lambda>kontinuums. do {
           c \<leftarrow> kcreate (kc_ClusterRole kontinuums) \<lparr>cr_meta = objectMeta '''' (ra_name new), cr_Rules = buildPolicyRules (ra_rules new)\<rparr>;
           (case c of
              Inl err \<Rightarrow> return (renderRoleAddModalBody lib r pageIAMCluster (clusterRoleAddFormData new '''' (ui_errText lib err)))
            | Inr role \<Rightarrow> return (renderRoleAddModalBody lib r pageIAMCluster
                (clusterRoleAddFormData noRole (om_Name (cr_meta role)) '''')))
         }))"

record roleBindingAddFields =
  ba_name :: string
  ba_subjectKind :: string
  ba_subjectName :: string
  ba_subjectNamespace :: string
  ba_roleRefName :: string

definition noBinding :: roleBindingAddFields where
  "noBinding = \<lparr>ba_name = '''', ba_subjectKind = '''', ba_subjectName = '''', ba_subjectNamespace = '''', ba_roleRefName = ''''\<rparr>"

definition bindingFields :: "Form \<Rightarrow> roleBindingAddFields" where
  "bindingFields form = \<lparr>ba_name = trimSpace (PostFormValue form ''name''), ba_subjectKind = PostFormValue form ''subject-kind'',
     ba_subjectName = trimSpace (PostFormValue form ''subject-name''),
     ba_subjectNamespace = trimSpace (PostFormValue form ''subject-namespace''), ba_roleRefName = PostFormValue form ''role-ref''\<rparr>"

definition validateRoleBindingFields :: "roleBindingAddFields \<Rightarrow> string" where
  "validateRoleBindingFields form =
     (let validKind = (ba_subjectKind form = ''User'' \<or> ba_subjectKind form = ''Group'' \<or> ba_subjectKind form = ''ServiceAccount'')
      in if ba_name form = '''' then ''Name is required.''
         else if ba_subjectName form = '''' then ''Subject name is required.''
         else if ba_roleRefName form = '''' then ''A role is required.''
         else if \<not> validKind then ''Subject kind must be User, Group, or ServiceAccount.''
         else if ba_subjectKind form = ''ServiceAccount'' \<and> ba_subjectNamespace form = ''''
           then ''Subject namespace is required for ServiceAccount subjects.''
         else '''')"

definition buildSubject :: "roleBindingAddFields \<Rightarrow> RbacSubject" where
  "buildSubject form =
     (let subject = \<lparr>sub_Kind = ba_subjectKind form, sub_APIGroup = '''', sub_Name = ba_subjectName form, sub_Namespace = ''''\<rparr>
      in if ba_subjectKind form = ''ServiceAccount'' then subject\<lparr>sub_Namespace := ba_subjectNamespace form\<rparr>
         else subject\<lparr>sub_APIGroup := rbacGroupName\<rparr>)"

definition bindingFormData :: "string list \<Rightarrow> roleBindingAddFields \<Rightarrow> string \<Rightarrow> string \<Rightarrow> tdata" where
  "bindingFormData roleOptions form createdBinding formErr = [
     ''RoleOptions'' \<mapsto> TStrs roleOptions, ''BindingName'' \<mapsto> TStr (ba_name form), ''SubjectKind'' \<mapsto> TStr (ba_subjectKind form),
     ''SubjectName'' \<mapsto> TStr (ba_subjectName form), ''SubjectNamespace'' \<mapsto> TStr (ba_subjectNamespace form),
     ''RoleRefName'' \<mapsto> TStr (ba_roleRefName form), ''CreatedBinding'' \<mapsto> TStr createdBinding, ''BindingError'' \<mapsto> TStr formErr]"

definition roleBindingAddFormData :: "string \<Rightarrow> string list \<Rightarrow> roleBindingAddFields \<Rightarrow> string \<Rightarrow> string \<Rightarrow> tdata" where
  "roleBindingAddFormData namespace roleOptions form createdBinding formErr =
     bindingFormData roleOptions form createdBinding formErr ++
     [''RoleBindingAddURL'' \<mapsto> TStr (iamPrefix @ ''namespaces/'' @ namespace @ ''/rolebindings''),
      ''RoleBindingKind'' \<mapsto> TStr ''role binding'', ''Namespace'' \<mapsto> TStr namespace]"

definition clusterRoleBindingAddFormData :: "string list \<Rightarrow> roleBindingAddFields \<Rightarrow> string \<Rightarrow> string \<Rightarrow> tdata" where
  "clusterRoleBindingAddFormData roleOptions form createdBinding formErr =
     bindingFormData roleOptions form createdBinding formErr ++
     [''RoleBindingAddURL'' \<mapsto> TStr (iamPrefix @ ''clusterrolebindings''), ''RoleBindingKind'' \<mapsto> TStr ''cluster role binding'']"

definition renderRoleBindingAddModalBody :: "'s uilib \<Rightarrow> 's Router \<Rightarrow> string \<Rightarrow> tdata \<Rightarrow> action list" where
  "renderRoleBindingAddModalBody lib r page data = executeTemplate lib r page ''rolebinding-add-modal-body'' data"

definition submittedBinding :: "string \<Rightarrow> roleBindingAddFields \<Rightarrow> RoleBinding" where
  "submittedBinding namespace form = \<lparr>rb_meta = objectMeta namespace (ba_name form),
     rb_RoleRef = \<lparr>rref_APIGroup = rbacGroupName, rref_Kind = ''Role'', rref_Name = ba_roleRefName form\<rparr>,
     rb_Subjects = [buildSubject form]\<rparr>"

definition submittedClusterBinding :: "roleBindingAddFields \<Rightarrow> ClusterRoleBinding" where
  "submittedClusterBinding form = \<lparr>crb_meta = objectMeta '''' (ba_name form),
     crb_RoleRef = \<lparr>rref_APIGroup = rbacGroupName, rref_Kind = ''ClusterRole'', rref_Name = ba_roleRefName form\<rparr>,
     crb_Subjects = [buildSubject form]\<rparr>"

definition handleRoleBindingAdd :: "'s uilib \<Rightarrow> 's Router \<Rightarrow> 's uihandler" where
  "handleRoleBindingAdd lib r tok request = (case ParseForm maxRoleAddFormBytes request of
       Inl err \<Rightarrow> return (badForm lib err)
     | Inr form \<Rightarrow> withKontinuums lib r tok (\<lambda>kontinuums. do {
         let namespace = ur_PathValue request ''ns'';
         let new = bindingFields form;
         l \<leftarrow> listNamespaceRoles lib r kontinuums namespace;
         (case l of
            Inl answered \<Rightarrow> return answered
          | Inr roles \<Rightarrow>
              (let show = (\<lambda>shown created err. renderRoleBindingAddModalBody lib r pageIAMNamespace
                   (roleBindingAddFormData namespace (roleNames roles) shown created err))
               in if validateRoleBindingFields new \<noteq> '''' then return (show new '''' (validateRoleBindingFields new))
                  else do {
                    c \<leftarrow> kcreate (kc_RoleBinding kontinuums) (submittedBinding namespace new);
                    (case c of
                       Inl err \<Rightarrow> return (show new '''' (ui_errText lib err))
                     | Inr b \<Rightarrow> return (show noBinding (om_Name (rb_meta b)) ''''))
                  }))
       }))"

definition handleClusterRoleBindingAdd :: "'s uilib \<Rightarrow> 's Router \<Rightarrow> 's uihandler" where
  "handleClusterRoleBindingAdd lib r tok request = (case ParseForm maxRoleAddFormBytes request of
       Inl err \<Rightarrow> return (badForm lib err)
     | Inr form \<Rightarrow> withKontinuums lib r tok (\<lambda>kontinuums. do {
         let new = bindingFields form;
         l \<leftarrow> listClusterRoles lib r kontinuums;
         (case l of
            Inl answered \<Rightarrow> return answered
          | Inr roles \<Rightarrow>
              (let show = (\<lambda>shown created err. renderRoleBindingAddModalBody lib r pageIAMCluster
                   (clusterRoleBindingAddFormData (roleNames roles) shown created err))
               in if validateRoleBindingFields new \<noteq> '''' then return (show new '''' (validateRoleBindingFields new))
                  else do {
                    c \<leftarrow> kcreate (kc_ClusterRoleBinding kontinuums) (submittedClusterBinding new);
                    (case c of
                       Inl err \<Rightarrow> return (show new '''' (ui_errText lib err))
                     | Inr b \<Rightarrow> return (show noBinding (om_Name (crb_meta b)) ''''))
                  }))
       }))"

section \<open>Pages\<close>

text \<open>\<open>loadIAMNamespace\<close> gives the roles and adds to the data; without authentication it makes no call.\<close>

definition loadIAMNamespace :: "'s uilib \<Rightarrow> 's Router \<Rightarrow> string \<Rightarrow> string \<Rightarrow> string \<Rightarrow> tdata \<Rightarrow>
    ('s, action list + roleRow list \<times> tdata) state" where
  "loadIAMNamespace lib r tok namespace view data =
     (if \<not> ro_authEnabled r then return (Inr ([], data))
      else do {
        k \<leftarrow> ro_kontinuumsFor r tok;
        (case k of
           Inl err \<Rightarrow> return (Inl (clientFailure lib err))
         | Inr kontinuums \<Rightarrow> do {
             l \<leftarrow> listNamespaceRoles lib r kontinuums namespace;
             (case l of
                Inl answered \<Rightarrow> return (Inl answered)
              | Inr roles \<Rightarrow>
                  (let data = data(''Roles'' \<mapsto> TRoles roles) in
                   if view \<noteq> ''bindings'' then return (Inr (roles, data))
                   else do {
                     b \<leftarrow> listNamespaceRoleBindings lib r kontinuums namespace;
                     (case b of
                        Inl answered \<Rightarrow> return (Inl answered)
                      | Inr bindings \<Rightarrow> return (Inr (roles, data(''RoleBindings'' \<mapsto> TBindings bindings))))
                   }))
           })
      })"

definition renderIAMNamespace :: "'s uilib \<Rightarrow> 's Router \<Rightarrow> string \<Rightarrow> 's uihandler" where
  "renderIAMNamespace lib r view tok request = do {
     let namespace = ur_PathValue request ''ns'';
     l \<leftarrow> loadIAMNamespace lib r tok namespace view
       [''Title'' \<mapsto> TStr ''Tenant'', ''ActiveMenu'' \<mapsto> TStr ''iam-namespace'', ''Version'' \<mapsto> TStr (ro_version r),
        ''AuthEnabled'' \<mapsto> TBool (ro_authEnabled r), ''Namespace'' \<mapsto> TStr namespace, ''View'' \<mapsto> TStr view];
     (case l of
        Inl answered \<Rightarrow> return answered
      | Inr (roles, data) \<Rightarrow> renderPage lib r tok request pageIAMNamespace
          (data ++ roleAddFormData namespace noRole '''' '''' ++ roleBindingAddFormData namespace (roleNames roles) noBinding '''' ''''))
   }"

definition loadIAMCluster :: "'s uilib \<Rightarrow> 's Router \<Rightarrow> string \<Rightarrow> string \<Rightarrow> tdata \<Rightarrow>
    ('s, action list + roleRow list \<times> tdata) state" where
  "loadIAMCluster lib r tok view data =
     (if \<not> ro_authEnabled r then return (Inr ([], data))
      else do {
        k \<leftarrow> ro_kontinuumsFor r tok;
        (case k of
           Inl err \<Rightarrow> return (Inl (clientFailure lib err))
         | Inr kontinuums \<Rightarrow> do {
             l \<leftarrow> listClusterRoles lib r kontinuums;
             (case l of
                Inl answered \<Rightarrow> return (Inl answered)
              | Inr roles \<Rightarrow>
                  (let data = data(''Roles'' \<mapsto> TRoles roles) in
                   if view \<noteq> ''bindings'' then return (Inr (roles, data))
                   else do {
                     b \<leftarrow> listClusterRoleBindings lib r kontinuums;
                     (case b of
                        Inl answered \<Rightarrow> return (Inl answered)
                      | Inr bindings \<Rightarrow> return (Inr (roles, data(''RoleBindings'' \<mapsto> TBindings bindings))))
                   }))
           })
      })"

definition renderIAMCluster :: "'s uilib \<Rightarrow> 's Router \<Rightarrow> string \<Rightarrow> 's uihandler" where
  "renderIAMCluster lib r view tok request = do {
     l \<leftarrow> loadIAMCluster lib r tok view
       [''Title'' \<mapsto> TStr ''Global'', ''ActiveMenu'' \<mapsto> TStr ''iam-cluster'', ''Version'' \<mapsto> TStr (ro_version r),
        ''AuthEnabled'' \<mapsto> TBool (ro_authEnabled r), ''View'' \<mapsto> TStr view];
     (case l of
        Inl answered \<Rightarrow> return answered
      | Inr (roles, data) \<Rightarrow> renderPage lib r tok request pageIAMCluster
          (data ++ clusterRoleAddFormData noRole '''' '''' ++ clusterRoleBindingAddFormData (roleNames roles) noBinding '''' ''''))
   }"

definition handleIAMNamespaceRoles :: "'s uilib \<Rightarrow> 's Router \<Rightarrow> 's uihandler" where
  "handleIAMNamespaceRoles lib r = renderIAMNamespace lib r ''roles''"

definition handleIAMNamespaceRoleBindings :: "'s uilib \<Rightarrow> 's Router \<Rightarrow> 's uihandler" where
  "handleIAMNamespaceRoleBindings lib r = renderIAMNamespace lib r ''bindings''"

definition handleIAMClusterRoles :: "'s uilib \<Rightarrow> 's Router \<Rightarrow> 's uihandler" where
  "handleIAMClusterRoles lib r = renderIAMCluster lib r ''roles''"

definition handleIAMClusterRoleBindings :: "'s uilib \<Rightarrow> 's Router \<Rightarrow> 's uihandler" where
  "handleIAMClusterRoleBindings lib r = renderIAMCluster lib r ''bindings''"

section \<open>Deletion\<close>

definition noRoleRef :: RoleRef where "noRoleRef = \<lparr>rref_APIGroup = '''', rref_Kind = '''', rref_Name = ''''\<rparr>"

definition handleDeleteRole :: "'s uilib \<Rightarrow> 's Router \<Rightarrow> 's uihandler" where
  "handleDeleteRole lib r tok request = withKontinuums lib r tok (\<lambda>kontinuums.
     let namespace = ur_PathValue request ''ns''
     in deleteAndRedirect lib r
          (kdelete (kc_Role kontinuums) \<lparr>role_meta = objectMeta namespace (ur_PathValue request ''name''), role_Rules = []\<rparr>)
          ''role'' (iamPrefix @ ''namespaces/'' @ namespace @ ''/roles''))"

definition handleDeleteRoleBinding :: "'s uilib \<Rightarrow> 's Router \<Rightarrow> 's uihandler" where
  "handleDeleteRoleBinding lib r tok request = withKontinuums lib r tok (\<lambda>kontinuums.
     let namespace = ur_PathValue request ''ns''
     in deleteAndRedirect lib r
          (kdelete (kc_RoleBinding kontinuums)
            \<lparr>rb_meta = objectMeta namespace (ur_PathValue request ''name''), rb_RoleRef = noRoleRef, rb_Subjects = []\<rparr>)
          ''role binding'' (iamPrefix @ ''namespaces/'' @ namespace @ ''/rolebindings''))"

definition handleDeleteClusterRole :: "'s uilib \<Rightarrow> 's Router \<Rightarrow> 's uihandler" where
  "handleDeleteClusterRole lib r tok request = withKontinuums lib r tok (\<lambda>kontinuums.
     deleteAndRedirect lib r
       (kdelete (kc_ClusterRole kontinuums) \<lparr>cr_meta = objectMeta '''' (ur_PathValue request ''name''), cr_Rules = []\<rparr>)
       ''cluster role'' (iamPrefix @ ''clusterroles''))"

definition handleDeleteClusterRoleBinding :: "'s uilib \<Rightarrow> 's Router \<Rightarrow> 's uihandler" where
  "handleDeleteClusterRoleBinding lib r tok request = withKontinuums lib r tok (\<lambda>kontinuums.
     deleteAndRedirect lib r
       (kdelete (kc_ClusterRoleBinding kontinuums)
         \<lparr>crb_meta = objectMeta '''' (ur_PathValue request ''name''), crb_RoleRef = noRoleRef, crb_Subjects = []\<rparr>)
       ''cluster role binding'' (iamPrefix @ ''clusterrolebindings''))"

end
