(* ===== verification/UiRoutes.thy ===== *)
theory UiRoutes
  imports UiIam
begin

text \<open>
  The remaining handlers of \<open>pkg/ui/router.go\<close> and the table of its routes.  \<open>http.ServeMux\<close>
  takes the most specific pattern that matches.  Two patterns of the table match the same
  request only when one of them is the subtree \<open>/app/\<close>, so that one is asked last.  Its redirects
  to a cleaned path or to one with a trailing slash are not modelled.
\<close>

section \<open>Plain pages\<close>

definition handleConnect :: "'s uilib \<Rightarrow> 's Router \<Rightarrow> 's uihandler" where
  "handleConnect lib r tok request = renderPage lib r tok request pageConnect
     [''Title'' \<mapsto> TStr ''Connect'', ''ActiveMenu'' \<mapsto> TStr ''connect'', ''Version'' \<mapsto> TStr (ro_version r),
      ''AuthEnabled'' \<mapsto> TBool (ro_authEnabled r)]"

definition handleRegistryKubeconfigDownload :: "'s uilib \<Rightarrow> 's Router \<Rightarrow> 's uihandler" where
  "handleRegistryKubeconfigDownload lib r tok request = return
     [SetHeader ''Content-Type'' ''application/yaml'',
      SetHeader ''Content-Disposition'' ''attachment; filename=\"kontinuum-kubeconfig.yaml\"'',
      WriteHeader 200,
      WriteBody (kubeconfigText (ui_loopback lib) (requestOrigin request) (ur_Host request)
        (koidc_IssuerURL (kcfg_OIDC (ro_cfg r))) (koidc_ClientID (kcfg_OIDC (ro_cfg r))))]"

fun containsText :: "string \<Rightarrow> string \<Rightarrow> bool" where
  "containsText [] t = (t = [])"
| "containsText (c # s) t = (hasPrefix (c # s) t \<or> containsText s t)"

definition acceptsHTML :: "UiRequest \<Rightarrow> bool" where
  "acceptsHTML request \<longleftrightarrow> containsText (ur_Accept request) ''text/html''"

definition handleRoot :: "'s uihandler" where
  "handleRoot tok request = return (if \<not> acceptsHTML request then notFound else [Redirect ''/app''])"

definition handleAppRoot :: "'s uihandler" where
  "handleAppRoot tok request = return [Redirect defaultInstancesPath]"

definition handleAppHome :: "'s uihandler" where
  "handleAppHome tok request = return [Redirect defaultInstancesPath]"

section \<open>Routes\<close>

text \<open>
  A pattern is a method and the segments of a path, a wildcard matches one segment that is not
  empty.  \<open>vendor\<close> serves the embedded assets and \<open>ur_Path\<close> is split at its slashes; a GET
  pattern serves HEAD as well.
\<close>

datatype pseg = Lit string | Var string

fun matchSegs :: "pseg list \<Rightarrow> string list \<Rightarrow> (string \<times> string) list option" where
  "matchSegs [] [] = Some []"
| "matchSegs (Lit l # ps) (s # ss) = (if l = s then matchSegs ps ss else None)"
| "matchSegs (Var v # ps) (s # ss) = (if s = '''' then None else map_option ((#) (v, s)) (matchSegs ps ss))"
| "matchSegs _ _ = None"

definition methodMatches :: "string \<Rightarrow> string \<Rightarrow> bool" where
  "methodMatches pattern method \<longleftrightarrow> pattern = method \<or> pattern = ''GET'' \<and> method = ''HEAD''"

type_synonym 's route = "string \<times> pseg list \<times> 's uihandler"

abbreviation tenantPath :: "string list \<Rightarrow> pseg list" where
  "tenantPath ls \<equiv> [Lit ''app'', Lit ''kontinuum.sh'', Lit ''v1alpha2'', Lit ''namespaces'', Var ''ns''] @ map Lit ls"

abbreviation iamTenantPath :: "string list \<Rightarrow> pseg list" where
  "iamTenantPath ls \<equiv> [Lit ''app'', Lit ''rbac.authorization.k8s.io'', Lit ''v1'', Lit ''namespaces'', Var ''ns''] @ map Lit ls"

abbreviation iamClusterPath :: "string list \<Rightarrow> pseg list" where
  "iamClusterPath ls \<equiv> [Lit ''app'', Lit ''rbac.authorization.k8s.io'', Lit ''v1''] @ map Lit ls"

abbreviation named :: "pseg list \<Rightarrow> pseg list" where "named ps \<equiv> ps @ [Var ''name'']"

definition iamRoutes :: "'s uilib \<Rightarrow> 's Router \<Rightarrow> 's route list" where
  "iamRoutes lib r = [
     (''GET'', iamTenantPath [''roles''], handleIAMNamespaceRoles lib r),
     (''GET'', iamTenantPath [''rolebindings''], handleIAMNamespaceRoleBindings lib r),
     (''POST'', iamTenantPath [''roles''], handleRoleAdd lib r),
     (''POST'', iamTenantPath [''rolebindings''], handleRoleBindingAdd lib r),
     (''DELETE'', named (iamTenantPath [''roles'']), handleDeleteRole lib r),
     (''DELETE'', named (iamTenantPath [''rolebindings'']), handleDeleteRoleBinding lib r),
     (''GET'', iamClusterPath [''clusterroles''], handleIAMClusterRoles lib r),
     (''GET'', iamClusterPath [''clusterrolebindings''], handleIAMClusterRoleBindings lib r),
     (''POST'', iamClusterPath [''clusterroles''], handleClusterRoleAdd lib r),
     (''POST'', iamClusterPath [''clusterrolebindings''], handleClusterRoleBindingAdd lib r),
     (''DELETE'', named (iamClusterPath [''clusterroles'']), handleDeleteClusterRole lib r),
     (''DELETE'', named (iamClusterPath [''clusterrolebindings'']), handleDeleteClusterRoleBinding lib r)]"

definition appRoutes :: "'s uilib \<Rightarrow> 's Router \<Rightarrow> 's route list" where
  "appRoutes lib r = [
     (''GET'', [Lit ''app'', Lit ''home''], handleAppHome),
     (''GET'', tenantPath [''kontinuums''], renderRegistry lib r),
     (''GET'', named (tenantPath [''kontinuums'']), handleKontinuumDetail lib r),
     (''GET'', named (tenantPath [''kontinuums'']) @ [Lit ''secret''], handleKontinuumSecretDownload lib r),
     (''DELETE'', named (tenantPath [''kontinuums'']), handleDeleteInstance lib r),
     (''POST'', [Lit ''app'', Lit ''zones'', Lit ''add''], handleZoneAdd lib r),
     (''GET'', named (tenantPath [''zones'']), handleZoneDetail lib r),
     (''DELETE'', named (tenantPath [''zones'']), handleDeleteZone lib r),
     (''GET'', tenantPath [''instances''], handleInstances lib r),
     (''POST'', tenantPath [''instances'', ''add''], handleInstanceAdd lib r),
     (''GET'', named (tenantPath [''instances'']), handleInstanceDetail lib r),
     (''DELETE'', named (tenantPath [''instances'']), handleDeleteInstanceObject lib r),
     (''GET'', tenantPath [''talosclusters''], handleTalosClusters lib r),
     (''GET'', named (tenantPath [''talosclusters'']), handleTalosClusterDetail lib r),
     (''DELETE'', named (tenantPath [''talosclusters'']), handleDeleteTalosCluster lib r),
     (''GET'', named (tenantPath [''talosclusters'']) @ [Lit ''kubeconfig''], handleTalosClusterKubeconfigDownload lib r)] @
     iamRoutes lib r @
     [(''GET'', [Lit ''app'', Lit ''connect''], handleConnect lib r),
      (''GET'', [Lit ''app'', Lit ''registry'', Lit ''kubeconfig''], handleRegistryKubeconfigDownload lib r)]"

definition urlSegments :: "string \<Rightarrow> string list" where "urlSegments p = splitOn (CHR ''/'') (drop 1 p)"

fun findRoute :: "'s route list \<Rightarrow> string \<Rightarrow> string list \<Rightarrow> ('s uihandler \<times> (string \<times> string) list) option" where
  "findRoute [] method segs = None"
| "findRoute ((m, pattern, h) # routes) method segs =
     (case (if methodMatches m method then matchSegs pattern segs else None) of
        Some vs \<Rightarrow> Some (h, vs)
      | None \<Rightarrow> findRoute routes method segs)"

definition withPathValues :: "(string \<times> string) list \<Rightarrow> UiRequest \<Rightarrow> UiRequest" where
  "withPathValues vs request =
     request\<lparr>ur_PathValue := (\<lambda>k. case map_of vs k of None \<Rightarrow> '''' | Some v \<Rightarrow> v)\<rparr>"

text \<open>
  \<open>RegisterRoutes\<close>: \<open>protect\<close> wraps a handler, which gets the token that the context of the
  request carries afterwards.  \<open>None\<close> leaves the request to the handler of the API server.
\<close>

type_synonym 's middleware = "'s uihandler \<Rightarrow> UiRequest \<Rightarrow> ('s, action list) state"

definition noProtection :: "'s middleware" where "noProtection next request = next '''' request"

definition wrapHandler :: "'s middleware \<Rightarrow> 's uihandler \<Rightarrow> UiRequest \<Rightarrow> ('s, action list) state" where
  "wrapHandler protect next = protect (notFoundFallback next)"

definition missingPage :: "'s uihandler" where "missingPage tok request = return notFound"

definition vendorURLPrefix :: "string list" where "vendorURLPrefix = [''static'', ''vendor'']"

definition RegisterRoutes :: "'s uilib \<Rightarrow> 's Router \<Rightarrow> (UiRequest \<Rightarrow> ('s, action list) state) option \<Rightarrow> 's middleware option \<Rightarrow>
    (UiRequest \<Rightarrow> ('s, action list) state) \<Rightarrow> UiRequest \<Rightarrow> ('s, action list) state option" where
  "RegisterRoutes lib r appRoot protect vendor request =
     (let root = (case appRoot of None \<Rightarrow> handleAppRoot '''' | Some h \<Rightarrow> h);
          guard = (case protect of None \<Rightarrow> noProtection | Some p \<Rightarrow> p);
          segs = urlSegments (ur_Path request); method = ur_Method request
      in if methodMatches ''GET'' method \<and> take 2 segs = vendorURLPrefix \<and> 2 < length segs then Some (vendor request)
         else if methodMatches ''GET'' method \<and> segs = [''''] then Some (handleRoot '''' request)
         else if methodMatches ''GET'' method \<and> segs = [''app''] then Some (root request)
         else (case findRoute (appRoutes lib r) method segs of
             Some (h, vs) \<Rightarrow> Some (wrapHandler guard h (withPathValues vs request))
           | None \<Rightarrow> if take 1 segs = [''app''] \<and> 1 < length segs then Some (wrapHandler guard missingPage request) else None))"

end
