(* ===== verification/UiProps.thy ===== *)
theory UiProps
  imports UiRoutes
begin

text \<open>
  What the web interface guarantees: every request gets exactly one answer; a request without a
  valid session reaches no page and the others run with the token of their session; the page of
  a cluster does not depend on its kubeconfig; a stale link leads up to its nearest ancestor;
  the rows of a form do not depend on the order of a range; only valid bindings are submitted.
\<close>

section \<open>Results of an operation\<close>

definition yields :: "('a \<Rightarrow> bool) \<Rightarrow> ('s, 'a) state \<Rightarrow> bool" where
  "yields P m \<longleftrightarrow> (\<forall>s. P (result_of m s))"

named_theorems yields_rules \<open>rules for the results of an operation, one per construct\<close>

lemma yieldsD: "yields P m \<Longrightarrow> P (result_of m s)"
  by (simp add: yields_def)

lemma yields_return [yields_rules]: "P a \<Longrightarrow> yields P (return a)"
  by (simp add: yields_def)

lemma yields_bind: "(\<And>a. yields P (f a)) \<Longrightarrow> yields P (State_Monad.bind m f)"
  by (simp add: yields_def split: prod.splits)

lemma yields_bind_result: "yields Q m \<Longrightarrow> (\<And>a. Q a \<Longrightarrow> yields P (f a)) \<Longrightarrow> yields P (State_Monad.bind m f)"
  by (simp add: yields_def split: prod.splits) (metis fst_conv)

lemma yields_if [yields_rules]: "(b \<Longrightarrow> yields P m) \<Longrightarrow> (\<not> b \<Longrightarrow> yields P n) \<Longrightarrow> yields P (if b then m else n)"
  by simp

lemma yields_sum [yields_rules]:
  "(\<And>a. x = Inl a \<Longrightarrow> yields P (f a)) \<Longrightarrow> (\<And>b. x = Inr b \<Longrightarrow> yields P (g b)) \<Longrightarrow> yields P (case x of Inl a \<Rightarrow> f a | Inr b \<Rightarrow> g b)"
  by (cases x) simp_all

lemma yields_option [yields_rules]:
  "(x = None \<Longrightarrow> yields P n) \<Longrightarrow> (\<And>a. x = Some a \<Longrightarrow> yields P (f a)) \<Longrightarrow> yields P (case x of None \<Rightarrow> n | Some a \<Rightarrow> f a)"
  by (cases x) simp_all

lemma yields_prod [yields_rules]: "(\<And>a b. x = (a, b) \<Longrightarrow> yields P (f a b)) \<Longrightarrow> yields P (case x of (a, b) \<Rightarrow> f a b)"
  by (cases x) simp

section \<open>Exactly one answer\<close>

text \<open>
  The shape of an answer: headers and cookies first, then one status line with its body, or a
  body with the implicit status.
\<close>

fun answered :: "action list \<Rightarrow> bool" where
  "answered [] = False"
| "answered (SetCookie c # acts) = answered acts"
| "answered (SetHeader k v # acts) = answered acts"
| "answered [WriteHeader code, WriteBody body] = True"
| "answered (_ # acts) = (acts = [])"

fun headersOnly :: "action list \<Rightarrow> bool" where
  "headersOnly [] = True"
| "headersOnly (SetCookie c # acts) = headersOnly acts"
| "headersOnly (SetHeader k v # acts) = headersOnly acts"
| "headersOnly _ = False"

definition leftAnswered :: "action list + 'a \<Rightarrow> bool" where
  "leftAnswered x = (case x of Inl acts \<Rightarrow> answered acts | Inr _ \<Rightarrow> True)"

lemma leftAnswered_simps [simp]: "leftAnswered (Inl acts) = answered acts" "leftAnswered (Inr x)"
  by (simp_all add: leftAnswered_def)

text \<open>An invalidator gives an answer; the one of \<open>Auth\<close> does.\<close>

definition invalidates :: "'s Router \<Rightarrow> bool" where
  "invalidates r \<longleftrightarrow> (\<forall>f. ro_invalidateSession r = Some f \<longrightarrow> (\<forall>msg. answered (f msg)))"

lemma answered_notFound [simp]: "answered notFound"
  by (simp add: notFound_def)

lemma answered_client [simp]: "answered (clientFailure lib err)" "answered (badForm lib err)"
  by (simp_all add: clientFailure_def badForm_def)

lemma answered_template [simp]: "answered (executeTemplate lib r page template data)"
  by (simp add: executeTemplate_def split: sum.splits)

lemmas fragment_defs = renderZoneAddModalBody_def renderInstanceAddModalBody_def renderRoleAddModalBody_def
  renderRoleBindingAddModalBody_def

lemma answered_api: "invalidates r \<Longrightarrow> answered (apiFailure lib r what err)"
  by (auto simp: apiFailure_def invalidates_def split: option.splits)

lemma answered_ends: "invalidates r \<Longrightarrow> endsSession r err = Some f \<Longrightarrow> answered (f msg)"
  by (simp add: endsSession_def invalidates_def split: if_splits)

lemma yields_renderPage: "yields answered (renderPage lib r tok request page data)"
  unfolding renderPage_def by (intro yields_bind yields_rules) simp

lemma yields_delete: "invalidates r \<Longrightarrow> yields answered (deleteAndRedirect lib r d kind path)"
  unfolding deleteAndRedirect_def by (intro yields_bind yields_rules) (simp_all add: answered_api)

lemma yields_withKontinuums: "(\<And>k. yields answered (body k)) \<Longrightarrow> yields answered (withKontinuums lib r tok body)"
  unfolding withKontinuums_def by (intro yields_bind yields_rules) simp_all

lemma yields_withZones: "(\<And>k. yields answered (body k)) \<Longrightarrow> yields answered (withZones lib r tok body)"
  unfolding withZones_def by (intro yields_bind yields_rules) simp_all

lemmas fetch_defs = listZoneRows_def fetchZone_def fetchZoneCluster_def fetchKontinuum_def fetchSecretDataYAML_def
  fetchOwningZone_def fetchTalosClusterKubeconfig_def fetchTalosCluster_def listNamespaceRoles_def
  listNamespaceRoleBindings_def listClusterRoles_def listClusterRoleBindings_def

lemma yields_fetch:
  assumes "invalidates r"
  shows "yields leftAnswered (listZoneRows lib r tok request)"
    and "yields leftAnswered (fetchZone lib r zones name)"
    and "yields leftAnswered (fetchZoneCluster lib r zones z)"
    and "yields leftAnswered (fetchKontinuum lib r c request)"
    and "yields leftAnswered (fetchSecretDataYAML lib r c sref)"
    and "yields leftAnswered (fetchOwningZone lib r c ns n)"
    and "yields leftAnswered (fetchTalosClusterKubeconfig lib r c kref)"
    and "yields leftAnswered (fetchTalosCluster lib r c ns n)"
    and "yields leftAnswered (listNamespaceRoles lib r k ns)"
    and "yields leftAnswered (listNamespaceRoleBindings lib r k ns)"
    and "yields leftAnswered (listClusterRoles lib r k)"
    and "yields leftAnswered (listClusterRoleBindings lib r k)"
  unfolding fetch_defs by ((intro yields_bind yields_rules; simp add: answered_api [OF assms]))+

lemma yields_fetched:
  "yields leftAnswered m \<Longrightarrow> (\<And>b. yields answered (g b)) \<Longrightarrow>
   yields answered (State_Monad.bind m (\<lambda>x. case x of Inl acts \<Rightarrow> return acts | Inr b \<Rightarrow> g b))"
  by (rule yields_bind_result, assumption) (auto intro!: yields_return split: sum.splits)

lemma yields_loadIAM:
  assumes "invalidates r"
  shows "yields leftAnswered (loadIAMNamespace lib r tok ns view data)"
    and "yields leftAnswered (loadIAMCluster lib r tok view data)"
proof -
  have f: "yields leftAnswered m \<Longrightarrow> (\<And>b. yields leftAnswered (g b)) \<Longrightarrow>
     yields leftAnswered (State_Monad.bind m (\<lambda>x. case x of Inl acts \<Rightarrow> return (Inl acts) | Inr b \<Rightarrow> g b))"
    for m :: "('s, action list + 'x) state" and g :: "'x \<Rightarrow> ('s, action list + roleRow list \<times> tdata) state"
    by (rule yields_bind_result, assumption) (auto intro!: yields_return split: sum.splits)
  show "yields leftAnswered (loadIAMNamespace lib r tok ns view data)"
    unfolding loadIAMNamespace_def Let_def
    by (intro yields_rules f yields_fetch assms | rule yields_bind | simp)+
  show "yields leftAnswered (loadIAMCluster lib r tok view data)"
    unfolding loadIAMCluster_def Let_def
    by (intro yields_rules f yields_fetch assms | rule yields_bind | simp)+
qed

text \<open>The handlers, each by the rules above: the answers of its fetches, its pages, its forms.\<close>

lemmas handler_rules = yields_withKontinuums yields_withZones yields_renderPage yields_delete yields_fetched yields_fetch yields_loadIAM

lemma yields_pages:
  assumes "invalidates r"
  shows "yields answered (renderRegistry lib r tok request)"
    and "yields answered (handleZoneDetail lib r tok request)"
    and "yields answered (handleKontinuumDetail lib r tok request)"
    and "yields answered (handleKontinuumSecretDownload lib r tok request)"
    and "yields answered (handleInstances lib r tok request)"
    and "yields answered (handleInstanceDetail lib r tok request)"
    and "yields answered (handleTalosClusters lib r tok request)"
    and "yields answered (handleTalosClusterDetail lib r tok request)"
    and "yields answered (handleTalosClusterKubeconfigDownload lib r tok request)"
    and "yields answered (renderIAMNamespace lib r view tok request)"
    and "yields answered (renderIAMCluster lib r view tok request)"
    and "yields answered (handleConnect lib r tok request)"
    and "yields answered (handleRegistryKubeconfigDownload lib r tok request)"
  unfolding renderRegistry_def handleZoneDetail_def handleKontinuumDetail_def handleKontinuumSecretDownload_def
    handleInstances_def handleInstanceDetail_def handleTalosClusters_def handleTalosClusterDetail_def
    handleTalosClusterKubeconfigDownload_def renderIAMNamespace_def renderIAMCluster_def handleConnect_def
    handleRegistryKubeconfigDownload_def Let_def
  by ((rule handler_rules yields_rules yields_bind | simp add: answered_api [OF assms] assms)+)

lemma yields_forms:
  assumes "invalidates r"
  shows "yields answered (handleZoneAdd lib r tok request)"
    and "yields answered (handleInstanceAdd lib r tok request)"
    and "yields answered (handleRoleAdd lib r tok request)"
    and "yields answered (handleClusterRoleAdd lib r tok request)"
    and "yields answered (handleRoleBindingAdd lib r tok request)"
    and "yields answered (handleClusterRoleBindingAdd lib r tok request)"
  unfolding handleZoneAdd_def handleInstanceAdd_def handleRoleAdd_def handleClusterRoleAdd_def
    handleRoleBindingAdd_def handleClusterRoleBindingAdd_def Let_def fragment_defs
  by ((rule handler_rules yields_rules yields_bind | erule answered_ends [OF assms] | simp add: answered_api assms)+)

lemma yields_deletions:
  assumes "invalidates r"
  shows "yields answered (handleDeleteInstance lib r tok request)"
    and "yields answered (handleDeleteZone lib r tok request)"
    and "yields answered (handleDeleteInstanceObject lib r tok request)"
    and "yields answered (handleDeleteTalosCluster lib r tok request)"
    and "yields answered (handleDeleteRole lib r tok request)"
    and "yields answered (handleDeleteRoleBinding lib r tok request)"
    and "yields answered (handleDeleteClusterRole lib r tok request)"
    and "yields answered (handleDeleteClusterRoleBinding lib r tok request)"
  unfolding handleDeleteInstance_def handleDeleteZone_def handleDeleteInstanceObject_def handleDeleteTalosCluster_def
    handleDeleteRole_def handleDeleteRoleBinding_def handleDeleteClusterRole_def handleDeleteClusterRoleBinding_def Let_def
  by ((rule handler_rules yields_pages yields_rules yields_bind | simp add: answered_api assms)+)

lemma route_answers:
  assumes "invalidates r" and "(m, pattern, h) \<in> set (appRoutes lib r)"
  shows "yields answered (h tok request)"
  using assms(2) yields_pages [OF assms(1)] yields_forms [OF assms(1)] yields_deletions [OF assms(1)]
  by (auto simp: appRoutes_def iamRoutes_def handleIAMNamespaceRoles_def handleIAMNamespaceRoleBindings_def
      handleIAMClusterRoles_def handleIAMClusterRoleBindings_def handleAppHome_def yields_def)

lemma findRoute_mem: "findRoute routes m0 segs = Some (h, vs) \<Longrightarrow> \<exists>m pattern. (m, pattern, h) \<in> set routes"
  by (induction routes m0 segs rule: findRoute.induct) (auto split: option.splits if_splits)

text \<open>The interceptor keeps an answer, or withholds a 404 and leaves the headers.\<close>

lemma intercept_headers: "headersOnly hs \<Longrightarrow> answered acts \<Longrightarrow> answered (hs @ acts)"
  by (induction hs rule: headersOnly.induct) auto

lemma intercept_answered:
  "answered acts \<Longrightarrow> intercept False acts = (out, missing) \<Longrightarrow> if missing then headersOnly out else answered out"
proof (induction acts arbitrary: out rule: answered.induct)
  case (2 c acts) then show ?case by (cases "intercept False acts") (auto split: if_splits)
next
  case (3 k v acts) then show ?case by (cases "intercept False acts") (auto split: if_splits)
qed (auto split: if_splits)

lemma answered_parent [simp]: "answered (parentAnswer request)"
  by (simp add: parentAnswer_def split: option.splits)

lemma yields_fallback:
  assumes "yields answered (next tok request)"
  shows "yields answered (notFoundFallback next tok request)"
  unfolding notFoundFallback_def
proof (rule yields_bind_result [OF assms])
  fix acts assume acts: "answered acts"
  obtain out missing where i: "intercept False acts = (out, missing)" by fastforce
  from intercept_answered [OF acts i] show "yields answered
      (case intercept False acts of (out, missing) \<Rightarrow> if \<not> missing then return out else return (out @ parentAnswer request))"
    by (auto simp: i intro!: yields_return intercept_headers)
qed

section \<open>A GET only reads\<close>

definition kreads :: "('s \<Rightarrow> bool) \<Rightarrow> ('s, 'o) kclient \<Rightarrow> bool" where
  "kreads I c \<longleftrightarrow> (\<forall>k. leaves I (kget c k)) \<and> (\<forall>ns p. leaves I (klist c ns p))"

definition client_reads :: "('s \<Rightarrow> bool) \<Rightarrow> 's client \<Rightarrow> bool" where
  "client_reads I c \<longleftrightarrow> kreads I (cl_Secret c) \<and> kreads I (cl_Kontinuum c) \<and> kreads I (cl_Instance c) \<and>
     kreads I (cl_InstancePool c) \<and> kreads I (cl_Zone c) \<and> kreads I (cl_TalosCluster c) \<and> kreads I (cl_Addon c)"

definition kontinuum_reads :: "('s \<Rightarrow> bool) \<Rightarrow> 's KontinuumClient \<Rightarrow> bool" where
  "kontinuum_reads I k \<longleftrightarrow> client_reads I (kc_client k) \<and> kreads I (kc_Role k) \<and> kreads I (kc_RoleBinding k) \<and>
     kreads I (kc_ClusterRole k) \<and> kreads I (kc_ClusterRoleBinding k)"

text \<open>The clock, building a client for a token, and every read through it keep \<open>I\<close>.\<close>

definition reads_leave :: "('s \<Rightarrow> bool) \<Rightarrow> 's uilib \<Rightarrow> 's Router \<Rightarrow> string \<Rightarrow> bool" where
  "reads_leave I lib r tok \<longleftrightarrow> leaves I (w_now (ui_world lib)) \<and>
     leaves I (ro_kontinuumsFor r tok) \<and> yields (\<lambda>x. \<forall>k. x = Inr k \<longrightarrow> kontinuum_reads I k) (ro_kontinuumsFor r tok) \<and>
     leaves I (ro_zonesFor r tok) \<and> yields (\<lambda>x. \<forall>k. x = Inr k \<longrightarrow> client_reads I k) (ro_zonesFor r tok) \<and>
     leaves I (ro_namespacesFor r tok) \<and> yields (\<lambda>x. \<forall>l. x = Inr l \<longrightarrow> leaves I l) (ro_namespacesFor r tok)"

lemma leaves_bind_result:
  "leaves I m \<Longrightarrow> yields Q m \<Longrightarrow> (\<And>a. Q a \<Longrightarrow> leaves I (f a)) \<Longrightarrow> leaves I (State_Monad.bind m f)"
  by (auto simp: leaves_def yields_def split: prod.splits) (metis fst_conv snd_conv)

lemma reads_leaveD:
  assumes "reads_leave I lib r tok"
  shows reads_now: "leaves I (w_now (ui_world lib))"
    and reads_kontinuums: "leaves I (ro_kontinuumsFor r tok)" "yields (\<lambda>x. \<forall>k. x = Inr k \<longrightarrow> kontinuum_reads I k) (ro_kontinuumsFor r tok)"
    and reads_zones: "leaves I (ro_zonesFor r tok)" "yields (\<lambda>x. \<forall>k. x = Inr k \<longrightarrow> client_reads I k) (ro_zonesFor r tok)"
    and reads_namespaces: "leaves I (ro_namespacesFor r tok)" "yields (\<lambda>x. \<forall>l. x = Inr l \<longrightarrow> leaves I l) (ro_namespacesFor r tok)"
  using assms by (simp_all add: reads_leave_def)

lemma client_readsD:
  assumes "client_reads I c"
  shows "leaves I (kget (cl_Secret c) k)" "leaves I (klist (cl_Kontinuum c) ns p)" "leaves I (kget (cl_Kontinuum c) k)"
    "leaves I (klist (cl_Instance c) ns p)" "leaves I (kget (cl_Instance c) k)" "leaves I (kget (cl_InstancePool c) k)"
    "leaves I (klist (cl_Zone c) ns p)" "leaves I (kget (cl_Zone c) k)" "leaves I (klist (cl_TalosCluster c) ns p)"
    "leaves I (kget (cl_TalosCluster c) k)" "leaves I (klist (cl_Addon c) ns p)"
  using assms by (simp_all add: client_reads_def kreads_def del: split_paired_All)

lemma kontinuum_readsD:
  assumes "kontinuum_reads I k"
  shows "client_reads I (kc_client k)" "leaves I (klist (kc_Role k) ns p)" "leaves I (klist (kc_RoleBinding k) ns p)"
    "leaves I (klist (kc_ClusterRole k) ns p)" "leaves I (klist (kc_ClusterRoleBinding k) ns p)"
  using assms by (simp_all add: kontinuum_reads_def kreads_def del: split_paired_All)

lemma age_leaves: "reads_leave I lib r tok \<Longrightarrow> leaves I (formatAge (ui_world lib) t)"
  by (auto simp: formatAge_def dest: reads_now intro!: leaves_rules)

lemma withKontinuums_leaves:
  assumes "reads_leave I lib r tok" and "\<And>k. kontinuum_reads I k \<Longrightarrow> leaves I (body k)"
  shows "leaves I (withKontinuums lib r tok body)"
  unfolding withKontinuums_def
  by (rule leaves_bind_result [OF reads_kontinuums [OF assms(1)]]) (auto intro!: leaves_rules assms(2))

lemma withZones_leaves:
  assumes "reads_leave I lib r tok" and "\<And>c. client_reads I c \<Longrightarrow> leaves I (body c)"
  shows "leaves I (withZones lib r tok body)"
  unfolding withZones_def
  by (rule leaves_bind_result [OF reads_zones [OF assms(1)]]) (auto intro!: leaves_rules assms(2))

lemma renderPage_leaves:
  assumes "reads_leave I lib r tok"
  shows "leaves I (renderPage lib r tok request page data)"
proof -
  have "leaves I (addTenantSwitcherData r tok request d)" for d
    unfolding addTenantSwitcherData_def Let_def
    by (rule leaves_bind_result [OF reads_namespaces [OF assms]]) (auto intro!: leaves_rules split: sum.splits option.splits)
  then show ?thesis unfolding renderPage_def by (auto intro!: leaves_rules)
qed

lemma rows_leave:
  assumes "reads_leave I lib r tok"
  shows "leaves I (conditionRows (ui_world lib) cs)" "leaves I (registryRows (ui_world lib) ks)" "leaves I (zoneRows lib zs)"
    "leaves I (instanceRowFrom lib i)" "leaves I (instanceRows lib xs)" "leaves I (talosClusterRows lib ts)"
    "leaves I (roleRows (ui_world lib) rs)" "leaves I (roleBindingRows (ui_world lib) bs)"
    "leaves I (clusterRoleRows (ui_world lib) crs)" "leaves I (clusterRoleBindingRows (ui_world lib) cbs)"
    "leaves I (identityData (ui_world lib) tk ak idn)" "leaves I (joinedData (ui_world lib) j)"
proof -
  note age = age_leaves [OF assms]
  show "leaves I (conditionRows (ui_world lib) cs)"
    by (induction cs) (auto intro!: leaves_rules age)
  show "leaves I (registryRows (ui_world lib) ks)" by (induction ks) (auto intro!: leaves_rules age)
  show "leaves I (zoneRows lib zs)" by (induction zs) (auto intro!: leaves_rules age)
  show row: "leaves I (instanceRowFrom lib i)" for i unfolding instanceRowFrom_def by (auto intro!: leaves_rules age)
  show "leaves I (instanceRows lib xs)" by (induction xs) (auto intro!: leaves_rules row)
  show "leaves I (talosClusterRows lib ts)" by (induction ts) (auto intro!: leaves_rules age)
  show "leaves I (roleRows (ui_world lib) rs)" by (induction rs) (auto intro!: leaves_rules age)
  show "leaves I (roleBindingRows (ui_world lib) bs)" by (induction bs) (auto intro!: leaves_rules age)
  show "leaves I (clusterRoleRows (ui_world lib) crs)" by (induction crs) (auto intro!: leaves_rules age)
  show "leaves I (clusterRoleBindingRows (ui_world lib) cbs)" by (induction cbs) (auto intro!: leaves_rules age)
  show "leaves I (identityData (ui_world lib) tk ak idn)" unfolding identityData_def by (auto intro!: leaves_rules age)
  show "leaves I (joinedData (ui_world lib) j)" unfolding joinedData_def by (auto intro!: leaves_rules age)
qed

text \<open>What the pages fetch, then the pages themselves.\<close>

lemma fetches_leave:
  assumes r: "reads_leave I lib r tok" and c: "client_reads I c"
  shows "leaves I (listZoneRows lib r tok request)" "leaves I (listInstanceSuggestions r tok)"
    "leaves I (fetchZone lib r c n)" "leaves I (fetchZoneCluster lib r c z)" "leaves I (fetchZoneIdentity lib c n)"
    "leaves I (FindJoinedKontinuum c region zone)" "leaves I (fetchKontinuum lib r c request)"
    "leaves I (fetchSecretDataYAML lib r c sref)" "leaves I (fetchOwningZone lib r c ns n)"
    "leaves I (fetchTalosClusterKubeconfig lib r c kref)" "leaves I (fetchTalosCluster lib r c ns n)"
    "leaves I (fetchPoolRow c ns n p)" "leaves I (workerPoolRows c ns ws)" "leaves I (fetchAddonRows lib c ns n)"
proof -
  note rows = rows_leave [OF r] and get = client_readsD [OF c]
  show "leaves I (listZoneRows lib r tok request)" unfolding listZoneRows_def
    by (rule leaves_bind_result [OF reads_zones [OF r]]) (auto intro!: leaves_rules rows client_readsD split: sum.splits)
  show "leaves I (listInstanceSuggestions r tok)" unfolding listInstanceSuggestions_def
    by (rule leaves_bind_result [OF reads_zones [OF r]]) (auto intro!: leaves_rules rows client_readsD split: sum.splits)
  show "leaves I (fetchZone lib r c n)" "leaves I (fetchZoneCluster lib r c z)" "leaves I (fetchKontinuum lib r c request)"
    "leaves I (fetchOwningZone lib r c ns n)" "leaves I (fetchTalosCluster lib r c ns n)" "leaves I (fetchAddonRows lib c ns n)"
    "leaves I (FindJoinedKontinuum c region zone)" "leaves I (fetchZoneIdentity lib c n)" "leaves I (fetchSecretDataYAML lib r c sref)"
    "leaves I (fetchTalosClusterKubeconfig lib r c kref)"
    unfolding fetchZone_def fetchZoneCluster_def fetchKontinuum_def fetchOwningZone_def fetchTalosCluster_def fetchAddonRows_def
      FindJoinedKontinuum_def fetchZoneIdentity_def fetchSecretDataYAML_def fetchTalosClusterKubeconfig_def
    by (intro leaves_rules get)+
  show pool: "leaves I (fetchPoolRow c ns n p)" for n p unfolding fetchPoolRow_def listPoolMembers_def Let_def
    by (intro leaves_rules get)
  show "leaves I (workerPoolRows c ns ws)" by (induction ws) (auto intro!: leaves_rules pool)
qed

lemma details_leave:
  assumes r: "reads_leave I lib r tok" and c: "client_reads I c"
  shows "leaves I (zoneDetailData lib r ns z cl k idn)" "leaves I (kontinuumDetailData lib r item b idn)"
    "leaves I (instanceDetailData lib r i)" "leaves I (talosClusterDetailData lib r c tc zo kc rv)"
  unfolding zoneDetailData_def kontinuumDetailData_def instanceDetailData_def talosClusterDetailData_def Let_def
  by (intro leaves_rules age_leaves [OF r] rows_leave [OF r] fetches_leave [OF r c])+

lemma iam_leaves:
  assumes r: "reads_leave I lib r tok" and k: "kontinuum_reads I k"
  shows "leaves I (listNamespaceRoles lib r k ns)" "leaves I (listNamespaceRoleBindings lib r k ns)"
    "leaves I (listClusterRoles lib r k)" "leaves I (listClusterRoleBindings lib r k)"
  unfolding listNamespaceRoles_def listNamespaceRoleBindings_def listClusterRoles_def listClusterRoleBindings_def
  by (intro leaves_rules rows_leave [OF r] kontinuum_readsD [OF k])+

lemma loadIAM_leaves:
  assumes r: "reads_leave I lib r tok"
  shows "leaves I (loadIAMNamespace lib r tok ns view data)" "leaves I (loadIAMCluster lib r tok view data)"
proof -
  note k = leaves_bind_result [OF reads_kontinuums [OF r]]
  show "leaves I (loadIAMNamespace lib r tok ns view data)" unfolding loadIAMNamespace_def Let_def
    by (rule leaves_if, rule leaves_return, rule k) (auto intro!: leaves_rules iam_leaves [OF r])
  show "leaves I (loadIAMCluster lib r tok view data)" unfolding loadIAMCluster_def Let_def
    by (rule leaves_if, rule leaves_return, rule k) (auto intro!: leaves_rules iam_leaves [OF r])
qed

lemma pages_leave:
  assumes r: "reads_leave I lib r tok"
  shows "leaves I (renderRegistry lib r tok request)" "leaves I (handleZoneDetail lib r tok request)"
    "leaves I (handleKontinuumDetail lib r tok request)" "leaves I (handleKontinuumSecretDownload lib r tok request)"
    "leaves I (handleInstances lib r tok request)" "leaves I (handleInstanceDetail lib r tok request)"
    "leaves I (handleTalosClusters lib r tok request)" "leaves I (handleTalosClusterDetail lib r tok request)"
    "leaves I (handleTalosClusterKubeconfigDownload lib r tok request)" "leaves I (renderIAMNamespace lib r view tok request)"
    "leaves I (renderIAMCluster lib r view tok request)" "leaves I (handleConnect lib r tok request)"
    "leaves I (handleRegistryKubeconfigDownload lib r tok request)"
  unfolding renderRegistry_def handleZoneDetail_def handleKontinuumDetail_def handleKontinuumSecretDownload_def
    handleInstances_def handleInstanceDetail_def handleTalosClusters_def handleTalosClusterDetail_def
    handleTalosClusterKubeconfigDownload_def renderIAMNamespace_def renderIAMCluster_def handleConnect_def
    handleRegistryKubeconfigDownload_def Let_def
  by ((rule withKontinuums_leaves [OF r] withZones_leaves [OF r] renderPage_leaves [OF r] rows_leave [OF r]
      fetches_leave [OF r] details_leave [OF r] loadIAM_leaves [OF r] client_readsD leaves_rules
      | assumption | erule kontinuum_readsD(1))+)

end
