(* ===== verification/UiSecrets.thy ===== *)
theory UiSecrets
  imports UiProps
begin

text \<open>The page of a cluster under a change of what the Secrets hold.\<close>

section \<open>Other contents of the Secrets\<close>

text \<open>The same clients, except that every Secret they read comes back changed by \<open>f\<close>.\<close>

definition otherSecrets :: "(Secret \<Rightarrow> Secret) \<Rightarrow> 's client \<Rightarrow> 's client" where
  "otherSecrets f c = c\<lparr>cl_Secret := (cl_Secret c)\<lparr>kget := (\<lambda>k. do { x \<leftarrow> kget (cl_Secret c) k; return (map_sum id f x) })\<rparr>\<rparr>"

definition otherSecretsFor :: "(Secret \<Rightarrow> Secret) \<Rightarrow> 's Router \<Rightarrow> 's Router" where
  "otherSecretsFor f r = r\<lparr>ro_kontinuumsFor := (\<lambda>tok. do {
     k \<leftarrow> ro_kontinuumsFor r tok;
     return (map_sum id (\<lambda>k. k\<lparr>kc_client := otherSecrets f (kc_client k)\<rparr>) k)
   })\<rparr>"

definition keepsPresence :: "(Secret \<Rightarrow> Secret) \<Rightarrow> bool" where
  "keepsPresence f \<longleftrightarrow> (\<forall>s. labelOrEmpty (sec_Data (f s)) talosKubeconfigSecretKey = '''' \<longleftrightarrow>
     labelOrEmpty (sec_Data s) talosKubeconfigSecretKey = '''')"

lemma otherSecrets_kinds [simp]:
  "cl_Kontinuum (otherSecrets f c) = cl_Kontinuum c" "cl_Instance (otherSecrets f c) = cl_Instance c"
  "cl_InstancePool (otherSecrets f c) = cl_InstancePool c" "cl_Zone (otherSecrets f c) = cl_Zone c"
  "cl_TalosCluster (otherSecrets f c) = cl_TalosCluster c" "cl_Addon (otherSecrets f c) = cl_Addon c"
  "kget (cl_Secret (otherSecrets f c)) = (\<lambda>k. do { x \<leftarrow> kget (cl_Secret c) k; return (map_sum id f x) })"
  by (simp_all add: otherSecrets_def)

lemma otherSecretsFor_fields [simp]:
  "ro_pages (otherSecretsFor f r) = ro_pages r" "ro_version (otherSecretsFor f r) = ro_version r"
  "ro_authEnabled (otherSecretsFor f r) = ro_authEnabled r" "ro_namespacesFor (otherSecretsFor f r) = ro_namespacesFor r"
  "ro_invalidateSession (otherSecretsFor f r) = ro_invalidateSession r"
  by (simp_all add: otherSecretsFor_def)

lemma otherSecretsFor_answers [simp]:
  "apiFailure lib (otherSecretsFor f r) = apiFailure lib r"
  "executeTemplate lib (otherSecretsFor f r) = executeTemplate lib r"
  "addTenantSwitcherData (otherSecretsFor f r) = addTenantSwitcherData r"
  "renderPage lib (otherSecretsFor f r) = renderPage lib r"
  by (simp_all add: apiFailure_def executeTemplate_def addTenantSwitcherData_def renderPage_def fun_eq_iff)

lemma otherSecrets_fetches [simp]:
  "fetchTalosCluster lib (otherSecretsFor f r) (otherSecrets f c) = fetchTalosCluster lib r c"
  "fetchOwningZone lib (otherSecretsFor f r) (otherSecrets f c) = fetchOwningZone lib r c"
  "fetchPoolRow (otherSecrets f c) = fetchPoolRow c" "fetchAddonRows lib (otherSecrets f c) = fetchAddonRows lib c"
  by (simp_all add: fetchTalosCluster_def fetchOwningZone_def fetchPoolRow_def listPoolMembers_def fetchAddonRows_def fun_eq_iff cong: sum.case_cong if_cong)

lemma otherSecrets_workers [simp]: "workerPoolRows (otherSecrets f c) ns ws = workerPoolRows c ns ws"
  by (induction ws) simp_all

lemma detail_presence:
  assumes "k = '''' \<longleftrightarrow> k' = ''''"
  shows "talosClusterDetailData lib (otherSecretsFor f r) (otherSecrets f c) cluster zone k rv =
     talosClusterDetailData lib r c cluster zone k' rv"
  using assms by (simp add: talosClusterDetailData_def)

lemma kubeconfig_presence:
  assumes "keepsPresence f" and "\<And>k k'. (k = '''' \<longleftrightarrow> k' = '''') \<Longrightarrow> g k = h k'"
  shows "State_Monad.bind (fetchTalosClusterKubeconfig lib (otherSecretsFor f r) (otherSecrets f c) ref)
       (\<lambda>x. case x of Inl acts \<Rightarrow> return acts | Inr k \<Rightarrow> g k) =
     State_Monad.bind (fetchTalosClusterKubeconfig lib r c ref) (\<lambda>x. case x of Inl acts \<Rightarrow> return acts | Inr k \<Rightarrow> h k)"
proof -
  have empty: "g '''' = h ''''" by (rule assms(2)) simp
  have stored: "g (labelOrEmpty (sec_Data (f x)) talosKubeconfigSecretKey) = h (labelOrEmpty (sec_Data x) talosKubeconfigSecretKey)" for x
    by (rule assms(2)) (use assms(1) in \<open>simp add: keepsPresence_def\<close>)
  show ?thesis
    by (rule state.expand) (auto simp: fetchTalosClusterKubeconfig_def empty stored fun_eq_iff split: prod.splits sum.splits)
qed

lemma withKontinuums_other:
  assumes "\<And>k. body' (k\<lparr>kc_client := otherSecrets f (kc_client k)\<rparr>) = body k"
  shows "withKontinuums lib (otherSecretsFor f r) tok body' = withKontinuums lib r tok body"
  by (rule state.expand) (auto simp: withKontinuums_def otherSecretsFor_def assms fun_eq_iff split: prod.splits sum.splits)

text \<open>
  C26: The page of a cluster reveals nothing of a stored Secret but whether it holds a
  kubeconfig: when the contents of the Secrets are replaced by others and the kubeconfig key
  stays present, or absent, the page answers the same and makes the same calls, for every
  request, also one that asks for the revealed page.
\<close>

theorem cluster_page_hides_kubeconfig:
  fixes r :: "'s Router" and lib :: "'s uilib"
  assumes "keepsPresence f"
  shows "handleTalosClusterDetail lib (otherSecretsFor f r) tok request = handleTalosClusterDetail lib r tok request"
proof -
  let ?page = "\<lambda>r c cluster zone kubeconfig. do {
     data \<leftarrow> talosClusterDetailData lib r c cluster zone kubeconfig (queryParam request ''reveal'' = ''true'');
     renderPage lib r tok request pageTalosCluster data }"
  let ?body = "\<lambda>r k. do {
     t \<leftarrow> fetchTalosCluster lib r (kc_client k) (ur_PathValue request ''ns'') (ur_PathValue request ''name'');
     (case t of Inl acts \<Rightarrow> return acts | Inr cluster \<Rightarrow> do {
        z \<leftarrow> fetchOwningZone lib r (kc_client k) (om_Namespace (tc_meta cluster)) (om_Name (tc_meta cluster));
        (case z of Inl acts \<Rightarrow> return acts | Inr zone \<Rightarrow> do {
           x \<leftarrow> fetchTalosClusterKubeconfig lib r (kc_client k) (tcst_SecretRef (tc_Status cluster));
           (case x of Inl acts \<Rightarrow> return acts | Inr kubeconfig \<Rightarrow> ?page r (kc_client k) cluster zone kubeconfig)
        }) }) }"
  have page: "State_Monad.bind (fetchTalosClusterKubeconfig lib (otherSecretsFor f r) (otherSecrets f c) ref)
       (\<lambda>x. case x of Inl acts \<Rightarrow> return acts | Inr k \<Rightarrow> ?page (otherSecretsFor f r) (otherSecrets f c) cluster zone k) =
     State_Monad.bind (fetchTalosClusterKubeconfig lib r c ref)
       (\<lambda>x. case x of Inl acts \<Rightarrow> return acts | Inr k \<Rightarrow> ?page r c cluster zone k)" for c ref cluster zone
    by (rule kubeconfig_presence [OF assms]) (simp add: detail_presence)
  have kc: "kc_client (k\<lparr>kc_client := c\<rparr>) = c" for k :: "('s, 'z) KontinuumClient_scheme" and c by simp
  have body: "?body (otherSecretsFor f r) (k\<lparr>kc_client := otherSecrets f (kc_client k)\<rparr>) = ?body r k" for k :: "('s, 'z) KontinuumClient_scheme"
    by (simp only: kc otherSecrets_fetches page)
  have detail: "handleTalosClusterDetail lib q tok request = withKontinuums lib q tok (?body q)" for q :: "'s Router"
    by (simp only: handleTalosClusterDetail_def Let_def)
  show ?thesis unfolding detail by (rule withKontinuums_other) (rule body)
qed

definition blanked :: "Secret \<Rightarrow> Secret" where
  "blanked s = s\<lparr>sec_Data := (\<lambda>k. map_option (\<lambda>v. if v = '''' then '''' else ''*'') (sec_Data s k)), sec_StringData := Map.empty\<rparr>"

theorem cluster_page_hides_kubeconfig_witness:
  "sec_Data (blanked ((secretObj ''ns'' ''c'')\<lparr>sec_Data := [talosKubeconfigSecretKey \<mapsto> ''users: [admin]'']\<rparr>)) talosKubeconfigSecretKey = Some ''*'' \<and>
   (\<forall>(lib :: unit uilib) r tok request.
      handleTalosClusterDetail lib (otherSecretsFor blanked r) tok request = handleTalosClusterDetail lib r tok request)"
proof (intro conjI allI)
  have "keepsPresence blanked"
    by (auto simp: keepsPresence_def blanked_def labelOrEmpty_def split: option.splits)
  then show "handleTalosClusterDetail lib (otherSecretsFor blanked r) tok request = handleTalosClusterDetail lib r tok request"
    for lib :: "unit uilib" and r tok request by (rule cluster_page_hides_kubeconfig)
qed (simp add: blanked_def secretObj_def)

end
