(* ===== verification/UiWalk.thy ===== *)
theory UiWalk
  imports UiBase
begin

text \<open>
  Where a stale link leads: the paths a browser visits when every page on the way up is gone.
\<close>

section \<open>Splitting and cleaning\<close>

definition weight :: "string list \<Rightarrow> nat" where "weight segs = sum_list (map (\<lambda>s. Suc (length s)) segs)"

lemma weight_simps [simp]:
  "weight [] = 0" "weight (s # segs) = Suc (length s) + weight segs" "weight (xs @ ys) = weight xs + weight ys" "weight (rev xs) = weight xs"
  by (simp_all add: weight_def flip: rev_map)

lemma splitOn_ne [simp]: "splitOn c s \<noteq> []"
  by (induction s) (auto split: list.splits)

lemma weight_split: "weight (splitOn c s) = Suc (length s)"
  by (induction s) (auto split: list.splits)

lemma splitOn_end: "splitOn c (s @ [c]) = splitOn c s @ ['''']"
  by (induction s) (auto split: list.splits)

lemma splitOn_plain: "c \<notin> set s \<Longrightarrow> splitOn c s = [s]"
  by (induction s) auto

lemma splitOn_seg: "c \<notin> set s \<Longrightarrow> splitOn c (s @ c # t) = s # splitOn c t"
  by (induction s) auto

lemma filtered: "weight (filter P segs) \<le> weight segs"
  by (induction segs) auto

lemma weight_clean: "weight (cleanSegs True acc segs) \<le> weight acc + weight (filter (\<lambda>s. s \<noteq> '''') segs)"
proof (induction segs arbitrary: acc)
  case (Cons seg segs)
  have drop: "weight (cleanSegs True acc' segs) \<le> weight acc + weight (filter (\<lambda>s. s \<noteq> '''') (seg # segs))"
    if "weight acc' \<le> weight acc + (if seg = '''' then 0 else Suc (length seg))" for acc'
    using Cons.IH [of acc'] that by (cases "seg = ''''") simp_all
  show ?case
  proof (cases "seg = ''..''")
    case True
    show ?thesis
    proof (cases acc)
      case Nil
      then show ?thesis using True drop [of "[]"] by simp
    next
      case (Cons a acc')
      then show ?thesis using True drop [of acc'] drop [of "''..'' # acc"] by (cases "a = ''..''") (simp_all del: weight_simps(4))
    qed
  next
    case False
    then show ?thesis using drop [of acc] drop [of "seg # acc"] by (cases "seg = ''''"; cases "seg = ''.''") simp_all
  qed
qed simp

lemma join_length: "segs \<noteq> [] \<Longrightarrow> Suc (length (joinWith ''/'' segs)) = weight segs"
proof (induction segs)
  case (Cons s segs) then show ?case by (cases segs) auto
qed simp

lemma splitOn_free: "x \<in> set (splitOn c s) \<Longrightarrow> c \<notin> set x"
  by (induction s arbitrary: x) (auto split: if_splits list.splits)

lemma cleanSegs_mem:
  "x \<in> set (cleanSegs rooted acc segs) \<Longrightarrow> '''' \<notin> set acc \<Longrightarrow> x \<noteq> '''' \<and> x \<in> set acc \<union> set segs \<union> {''..''}"
proof (induction rooted acc segs rule: cleanSegs.induct)
  case (2 rooted acc seg segs)
  then show ?case by (auto split: if_splits list.splits)
qed auto

text \<open>The parent of a path is shorter whenever the walk goes there.\<close>

lemma dirPart_end: "rev (dropWhile (\<lambda>c. c \<noteq> x) (rev p)) = [] \<or> (\<exists>d. rev (dropWhile (\<lambda>c. c \<noteq> x) (rev p)) = d @ [x])"
proof (cases "dropWhile (\<lambda>c. c \<noteq> x) (rev p)")
  case (Cons a r) then show ?thesis by (metis (full_types) dropWhile_eq_Cons_conv rev.simps(2))
qed simp

lemma clean_rooted: "pathClean d = CHR ''/'' # r \<Longrightarrow> d \<noteq> [] \<and> hd d = CHR ''/''"
proof (rule ccontr)
  assume c: "pathClean d = CHR ''/'' # r" and n: "\<not> (d \<noteq> [] \<and> hd d = CHR ''/'')"
  let ?segs = "cleanSegs False [] (splitOn (CHR ''/'') d)"
  have join: "?segs \<noteq> [] \<and> joinWith ''/'' ?segs = CHR ''/'' # r" using c n by (auto simp: pathClean_def Let_def split: if_splits)
  then obtain s segs where s: "?segs = s # segs" by (cases ?segs) auto
  then have "s \<noteq> '''' \<and> s \<in> set (splitOn (CHR ''/'') d) \<union> {''..''}" using cleanSegs_mem [of s False "[]" "splitOn (CHR ''/'') d"] by auto
  then have "s \<noteq> '''' \<and> CHR ''/'' \<notin> set s" using splitOn_free [of s "CHR ''/''" d] by auto
  then show False using join s by (cases segs; cases s) auto
qed

lemma within_rooted: "isWithinApp q \<Longrightarrow> \<exists>r. q = CHR ''/'' # r \<and> r \<noteq> []"
  by (cases q) (auto simp: isWithinApp_def hasPrefix_def)

lemma parent_shorter:
  assumes "isWithinApp (pathDir p)"
  shows "length (pathDir p) < length p"
proof -
  define d where "d = rev (dropWhile (\<lambda>c. c \<noteq> CHR ''/'') (rev p))"
  have dir: "pathDir p = pathClean d" by (simp add: pathDir_def d_def)
  have le: "length d \<le> length p" unfolding d_def by (metis length_dropWhile_le length_rev)
  obtain r where r: "pathClean d = CHR ''/'' # r" "r \<noteq> []" using within_rooted [OF assms] dir by auto
  then have d: "d \<noteq> []" "hd d = CHR ''/''" using clean_rooted by blast+
  then obtain e where e: "d = e @ ''/''" using dirPart_end [of "CHR ''/''" p] d_def by auto
  let ?segs = "cleanSegs True [] (splitOn (CHR ''/'') d)"
  have clean: "pathClean d = CHR ''/'' # joinWith ''/'' ?segs" using d by (simp add: pathClean_def)
  with r have segs: "?segs \<noteq> []" by auto
  have "e \<noteq> []" using r clean e by auto
  then obtain e' where e': "e = CHR ''/'' # e'" using d(2) e by (cases e) auto
  have "splitOn (CHR ''/'') d = '''' # splitOn (CHR ''/'') e' @ ['''']" by (simp add: e e' splitOn_end)
  then have "weight ?segs \<le> weight (splitOn (CHR ''/'') e')"
    using weight_clean [of "[]" "splitOn (CHR ''/'') d"] filtered [of "\<lambda>s. s \<noteq> ''''" "splitOn (CHR ''/'') e'"] by simp
  then have "weight ?segs \<le> length e" by (simp add: weight_split e')
  then show ?thesis using join_length [OF segs] le clean dir by (simp add: e)
qed

section \<open>The ancestors of a page\<close>

definition plainSeg :: "string \<Rightarrow> bool" where
  "plainSeg s \<longleftrightarrow> s \<noteq> '''' \<and> s \<noteq> ''.'' \<and> s \<noteq> ''..'' \<and> CHR ''/'' \<notin> set s"

definition pathOf :: "string list \<Rightarrow> string" where "pathOf segs = concat (map (\<lambda>s. CHR ''/'' # s) segs)"

lemma pathOf_simps [simp]:
  "pathOf [] = ''''" "pathOf (s # segs) = CHR ''/'' # s @ pathOf segs" "pathOf (xs @ ys) = pathOf xs @ pathOf ys"
  by (simp_all add: pathOf_def)

lemma splitOn_tail: "CHR ''/'' \<notin> set s \<Longrightarrow> splitOn (CHR ''/'') (s @ pathOf segs) = s # tl (splitOn (CHR ''/'') (pathOf segs))"
  by (cases segs) (simp_all add: splitOn_plain splitOn_seg)

lemma splitOn_pathOf: "\<forall>s\<in>set segs. plainSeg s \<Longrightarrow> splitOn (CHR ''/'') (pathOf segs) = '''' # segs"
  by (induction segs) (auto simp: splitOn_tail plainSeg_def)

lemma cleanSegs_plain: "\<forall>s\<in>set segs. plainSeg s \<Longrightarrow> cleanSegs r acc (segs @ ['''']) = rev acc @ segs"
  by (induction segs arbitrary: acc) (auto simp: plainSeg_def)

lemma join_pathOf: "segs \<noteq> [] \<Longrightarrow> CHR ''/'' # joinWith ''/'' segs = pathOf segs"
proof (induction segs)
  case (Cons s segs) then show ?case by (cases segs) auto
qed simp

lemma pathDir_pathOf:
  assumes "\<forall>s\<in>set (segs @ [x]). plainSeg s"
  shows "pathDir (pathOf (segs @ [x])) = (if segs = [] then ''/'' else pathOf segs)"
proof -
  have free: "\<forall>c\<in>set (rev x). c \<noteq> CHR ''/''" using assms by (auto simp: plainSeg_def)
  have "dropWhile (\<lambda>c. c \<noteq> CHR ''/'') (rev (pathOf (segs @ [x]))) = CHR ''/'' # rev (pathOf segs)"
    using free by (simp add: dropWhile_append3 dropWhile_append1 dropWhile_append2)
  then have "pathDir (pathOf (segs @ [x])) = pathClean (pathOf segs @ ''/'')" by (simp add: pathDir_def)
  moreover have "splitOn (CHR ''/'') (pathOf segs @ ''/'') = '''' # segs @ ['''']"
    using splitOn_pathOf [of segs] assms by (simp add: splitOn_end)
  moreover have "hd (pathOf segs @ ''/'') = CHR ''/''" by (cases segs) simp_all
  ultimately show ?thesis using cleanSegs_plain [of segs True "[]"] assms join_pathOf [of segs]
    by (auto simp: pathClean_def)
qed

text \<open>The pages a browser visits that follows the redirects while every page is missing.\<close>

function climb :: "string \<Rightarrow> string list" where
  "climb p = p # (case parentPath p of None \<Rightarrow> [] | Some q \<Rightarrow> climb q)"
  by pat_completeness auto
termination
  by (relation "measure length") (auto simp: parentPath_def Let_def parent_shorter split: if_splits)

declare climb.simps [simp del]

lemma parentPath_app:
  assumes "\<forall>s\<in>set (''app'' # segs). plainSeg s"
  shows "parentPath (pathOf (''app'' # segs)) = (if segs = [] then None else Some (pathOf (''app'' # butlast segs)))"
proof (cases segs rule: rev_cases)
  case Nil
  then show ?thesis using pathDir_pathOf [of "[]" "''app''"] assms by (simp add: parentPath_def isWithinApp_def hasPrefix_def)
next
  case (snoc xs x)
  have "pathDir (pathOf (''app'' # segs)) = pathOf (''app'' # xs)"
    using pathDir_pathOf [of "''app'' # xs" x] assms snoc by simp
  then show ?thesis using snoc by (simp add: parentPath_def isWithinApp_def hasPrefix_def)
qed

lemma climb_app:
  "\<forall>s\<in>set (''app'' # segs). plainSeg s \<Longrightarrow>
   climb (pathOf (''app'' # segs)) = map (\<lambda>n. pathOf (''app'' # take n segs)) (rev [0..<Suc (length segs)])"
proof (induction segs rule: rev_induct)
  case Nil
  then show ?case using parentPath_app [of "[]"] by (subst climb.simps) simp
next
  case (snoc x xs)
  have "climb (pathOf (''app'' # xs @ [x])) = pathOf (''app'' # xs @ [x]) # climb (pathOf (''app'' # xs))"
    using parentPath_app [of "xs @ [x]"] snoc.prems by (subst climb.simps) simp
  then show ?case using snoc by simp
qed



end
