(* ===== verification/UiForms.thy ===== *)
theory UiForms
  imports UiProps
begin

text \<open>The forms that grant access: the rows of the rule builder and what is submitted.\<close>

section \<open>The rows of the rule builder\<close>

text \<open>The entries of a form that belong to a rule, and the row of an index as they describe it.\<close>

definition ruleEntries :: "Form \<Rightarrow> ((nat \<times> string) \<times> string list) list" where
  "ruleEntries form = concat (map (\<lambda>(k, vs). case ruleField k of None \<Rightarrow> [] | Some e \<Rightarrow> [(e, vs)]) form)"

definition firstOf :: "string list option \<Rightarrow> string" where
  "firstOf v = (case v of Some (x # _) \<Rightarrow> x | _ \<Rightarrow> '''')"

definition rowAt :: "Form \<Rightarrow> nat \<Rightarrow> roleRuleFields" where
  "rowAt form i = \<lparr>rfl_APIGroups = firstOf (map_of (ruleEntries form) (i, ''apiGroups'')),
     rfl_Resources = firstOf (map_of (ruleEntries form) (i, ''resources'')),
     rfl_Verbs = (case map_of (ruleEntries form) (i, ''verbs'') of None \<Rightarrow> [] | Some vs \<Rightarrow> vs)\<rparr>"

definition ruleIndices :: "Form \<Rightarrow> nat set" where "ruleIndices form = fst ` fst ` set (ruleEntries form)"

definition ruleStep :: "string \<times> string list \<Rightarrow> (nat \<rightharpoonup> roleRuleFields) \<Rightarrow> (nat \<rightharpoonup> roleRuleFields)" where
  "ruleStep e m = (case ruleField (fst e) of None \<Rightarrow> m
     | Some (i, f) \<Rightarrow> m(i \<mapsto> applyRuleField (case m i of None \<Rightarrow> noRuleFields | Some row \<Rightarrow> row) f (snd e)))"

lemma ruleField_name: "ruleField k = Some (i, f) \<Longrightarrow> f \<in> {''apiGroups'', ''resources'', ''verbs''}"
proof -
  assume k: "ruleField k = Some (i, f)"
  define rest where "rest = drop (6 + length (takeWhile isDigit (drop 6 k))) k"
  let ?names = "{''apiGroups'', ''resources'', ''verbs''}"
  have mem: "rest \<in> (\<lambda>f. ''][''  @ f @ '']'') ` ?names"
    using k unfolding ruleField_def Let_def rest_def [symmetric] by (simp del: image_insert split: if_splits)
  have f: "f = take (length rest - 3) (drop 2 rest)"
    using k mem by (simp add: ruleField_def Let_def rest_def [symmetric] del: image_insert split: if_splits)
  from mem obtain g where g: "g \<in> ?names" and rest: "rest = ''][''  @ g @ '']''" by blast
  have "f = g" by (simp add: f rest)
  then show ?thesis using g by simp
qed

lemma ruleEntries_simps [simp]:
  "ruleEntries [] = []"
  "ruleEntries (xs @ ys) = ruleEntries xs @ ruleEntries ys"
  "ruleEntries [(k, vs)] = (case ruleField k of None \<Rightarrow> [] | Some e \<Rightarrow> [(e, vs)])"
  by (simp_all add: ruleEntries_def)

lemma ruleStep_simps [simp]:
  "ruleField k = None \<Longrightarrow> ruleStep (k, vs) m = m"
  "ruleField k = Some (i, f) \<Longrightarrow> ruleStep (k, vs) m =
     m(i \<mapsto> applyRuleField (case m i of None \<Rightarrow> noRuleFields | Some row \<Rightarrow> row) f vs)"
  by (simp_all add: ruleStep_def)

lemma ruleRows_map: "map_of (ruleRows form rows) = fold ruleStep form (map_of rows)"
proof (induction form rows rule: ruleRows.induct)
  case (2 key val form rows)
  then show ?case
  proof (cases "ruleField key")
    case None
    then show ?thesis using 2 by simp
  next
    case (Some e)
    obtain i f where "e = (i, f)" by (cases e)
    then show ?thesis using 2 Some by (simp add: update_conv' del: fun_upd_apply)
  qed
qed simp

lemma ruleRows_distinct: "distinct (map fst rows) \<Longrightarrow> distinct (map fst (ruleRows form rows))"
  by (induction form rows rule: ruleRows.induct) (auto simp: distinct_update split: option.splits prod.splits)

lemma map_of_fresh: "e \<notin> fst ` set xs \<Longrightarrow> map_of (xs @ [(e, vs)]) = (map_of xs)(e \<mapsto> vs)"
proof -
  assume e: "e \<notin> fst ` set xs"
  then have "map_of xs e = None" by (simp add: map_of_eq_None_iff)
  then show ?thesis by (auto simp: fun_eq_iff map_add_def split: option.splits)
qed

lemma rowAt_empty: "i \<notin> ruleIndices form \<Longrightarrow> rowAt form i = noRuleFields"
proof -
  assume "i \<notin> ruleIndices form"
  then have "map_of (ruleEntries form) (i, f) = None" for f by (force simp: ruleIndices_def map_of_eq_None_iff)
  then show ?thesis by (simp add: rowAt_def noRuleFields_def firstOf_def)
qed

lemma rowAt_extended:
  assumes f: "f \<in> {''apiGroups'', ''resources'', ''verbs''}" and none: "map_of (ruleEntries form) (i, f) = None"
    and m: "\<And>g. map_of (ruleEntries form') (i, g) = (if g = f then Some vs else map_of (ruleEntries form) (i, g))"
  shows "rowAt form' i = applyRuleField (rowAt form i) f vs"
proof -
  from f consider "f = ''apiGroups''" | "f = ''resources''" | "f = ''verbs''" by blast
  then show ?thesis
    by cases (use none in \<open>cases vs; simp add: rowAt_def m applyRuleField_def firstOf_def\<close>)+
qed

lemma fold_ruleStep:
  "distinct (map fst (ruleEntries form)) \<Longrightarrow>
   fold ruleStep form Map.empty = (\<lambda>i. if i \<in> ruleIndices form then Some (rowAt form i) else None)"
proof (induction form rule: rev_induct)
  case Nil
  then show ?case by (simp add: ruleIndices_def)
next
  case (snoc x form)
  obtain k vs where x: "x = (k, vs)" by (cases x)
  have IH: "fold ruleStep form Map.empty = (\<lambda>i. if i \<in> ruleIndices form then Some (rowAt form i) else None)"
    using snoc by simp
  show ?case
  proof (cases "ruleField k")
    case None
    then have e: "ruleEntries (form @ [x]) = ruleEntries form" by (simp add: x)
    then have "rowAt (form @ [x]) = rowAt form" "ruleIndices (form @ [x]) = ruleIndices form"
      by (simp_all add: fun_eq_iff rowAt_def ruleIndices_def)
    moreover have "ruleStep x m = m" for m using None by (simp add: x)
    ultimately show ?thesis using IH by (simp cong: if_cong)
  next
    case (Some e)
    obtain i f where e: "e = (i, f)" by (cases e)
    have fresh: "(i, f) \<notin> fst ` set (ruleEntries form)" using snoc.prems Some x e by auto
    have f: "f \<in> {''apiGroups'', ''resources'', ''verbs''}" using ruleField_name Some e by simp
    have idx: "ruleIndices (form @ [x]) = insert i (ruleIndices form)" using Some x e by (simp add: ruleIndices_def)
    have m: "map_of (ruleEntries (form @ [x])) = (map_of (ruleEntries form))((i, f) \<mapsto> vs)"
      using map_of_fresh [OF fresh] Some x e by simp
    have none: "map_of (ruleEntries form) (i, f) = None" using fresh by (simp add: map_of_eq_None_iff)
    have row: "rowAt (form @ [x]) i = applyRuleField (rowAt form i) f vs"
      by (rule rowAt_extended [OF f none]) (simp only: m fun_upd_apply prod.inject simp_thms)
    have others: "rowAt (form @ [x]) j = rowAt form j" if "j \<noteq> i" for j using that by (simp only: rowAt_def m fun_upd_apply prod.inject simp_thms if_False)
    have step: "ruleStep x m = m(i \<mapsto> applyRuleField (case m i of None \<Rightarrow> noRuleFields | Some row \<Rightarrow> row) f vs)" for m
      using Some e x by simp
    have old: "(case if i \<in> ruleIndices form then Some (rowAt form i) else None of None \<Rightarrow> noRuleFields | Some row \<Rightarrow> row) = rowAt form i"
      using rowAt_empty [of i form] by simp
    show ?thesis unfolding fold_append comp_def fold_simps IH step old idx
      by (rule ext) (auto simp: row others)
  qed
qed

lemma sorted_rows:
  assumes "distinct (map fst xs)"
  shows "map snd (sort_key fst xs) = map (\<lambda>i. the (map_of xs i)) (sorted_list_of_set (dom (map_of xs)))"
proof -
  let ?ys = "sort_key fst xs"
  have d: "distinct (map fst ?ys)" using assms by (metis distinct_map distinct_sort inj_on_def set_sort)
  have "map fst ?ys = sorted_list_of_set (set (map fst ?ys))"
    using d by (metis sorted_list_of_set.idem_if_sorted_distinct sorted_sort_key)
  then have keys: "map fst ?ys = sorted_list_of_set (dom (map_of xs))" by (simp add: dom_map_of_conv_image_fst)
  have "map snd ?ys = map (\<lambda>i. the (map_of xs i)) (map fst ?ys)"
    using assms by (auto simp: map_of_is_SomeI)
  then show ?thesis by (simp add: keys)
qed

lemma spellings:
  "ruleField ''rules[1][verbs]'' = Some (1, ''verbs'')" "ruleField ''rules[01][verbs]'' = Some (1, ''verbs'')"
  "ruleField ''rules[2][verbs]'' = Some (2, ''verbs'')" "ruleField ''rules[0][resources]'' = Some (0, ''resources'')"
  "ruleField ''name'' = None"
  by (simp_all add: ruleField_def Let_def isDigit_def decimal_def hasPrefix_def)

text \<open>
  C28: The rule builder's rows come out by ascending index whatever order the form is visited in:
  when no two keys name the same field of the same index, the parsed rows are, for the indices
  that occur in ascending order, the row that the fields of that index describe.  Two spellings
  of one index break this: which of the two wins depends on the order of the range.
\<close>

theorem parseRuleFields_by_index:
  assumes "distinct (map fst (ruleEntries form))"
  shows "parseRuleFields form = map (rowAt form) (sorted_list_of_set (ruleIndices form)) \<and>
    parseRuleFields [(''rules[1][verbs]'', [''get'']), (''rules[01][verbs]'', [''*''])] \<noteq>
      parseRuleFields [(''rules[01][verbs]'', [''*'']), (''rules[1][verbs]'', [''get''])]"
proof
  have m: "map_of (ruleRows form []) = (\<lambda>i. if i \<in> ruleIndices form then Some (rowAt form i) else None)"
    using fold_ruleStep [OF assms] by (simp add: ruleRows_map)
  then have dom: "dom (map_of (ruleRows form [])) = ruleIndices form" by (auto split: if_splits)
  have fin: "finite (ruleIndices form)" by (simp add: ruleIndices_def)
  show "parseRuleFields form = map (rowAt form) (sorted_list_of_set (ruleIndices form))"
    unfolding parseRuleFields_def sorted_rows [OF ruleRows_distinct [of "[]" form, simplified]] dom
    using fin by (simp add: m)
qed (simp add: parseRuleFields_def spellings applyRuleField_def noRuleFields_def)

theorem parseRuleFields_by_index_witness:
  "parseRuleFields [(''rules[2][verbs]'', [''get'', ''list'']), (''name'', [''n'']), (''rules[0][resources]'', [''pods''])] =
     [\<lparr>rfl_APIGroups = '''', rfl_Resources = ''pods'', rfl_Verbs = []\<rparr>,
      \<lparr>rfl_APIGroups = '''', rfl_Resources = '''', rfl_Verbs = [''get'', ''list'']\<rparr>]"
proof -
  let ?form = "[(''rules[2][verbs]'', [''get'', ''list'']), (''name'', [''n'']), (''rules[0][resources]'', [''pods''])]"
  have e: "ruleEntries ?form = [((2, ''verbs''), [''get'', ''list'']), ((0, ''resources''), [''pods''])]"
    by (simp add: ruleEntries_def spellings)
  have "distinct (map fst (ruleEntries ?form))" by (simp add: e)
  from parseRuleFields_by_index [OF this] show ?thesis by (simp add: e ruleIndices_def rowAt_def firstOf_def)
qed

end
