(* ===== verification/Logging.thy ===== *)
theory Logging
  imports Registry EtcdProxy
begin

text \<open>
  \<open>pkg/logging\<close>: the level and the format of the log, and the bridge from the logger of the
  gRPC library.  A bridge method gives the line it logs and whether it ends the process;
  formatting the arguments (\<open>fmt.Sprint\<close> and the like) is done by the caller, the text is the
  argument.
\<close>

section \<open>Level and format\<close>

datatype slogLevel = LevelDebug | LevelInfo | LevelWarn | LevelError

datatype Format = FormatConsole | FormatText | FormatJSON

definition ErrUnknownLogLevel :: goerr where
  "ErrUnknownLogLevel = Sentinel ''unknown log level (valid: debug, info, warn, error)''"

definition ErrUnknownLogFormat :: goerr where
  "ErrUnknownLogFormat = Sentinel ''unknown log format (valid: console, text, json)''"

text \<open>
  \<open>strings.ToLower\<close> as far as a comparison with ASCII words can see it: besides the ASCII letters
  the two bytes of U+0130 become an \<open>i\<close> and the three of U+212A a \<open>k\<close>; no other letter becomes
  an ASCII one.
\<close>

fun lowerWord :: "string \<Rightarrow> string" where
  "lowerWord [] = []"
| "lowerWord (c # s) =
     (if c = CHR 0xC4 \<and> take 1 s = [CHR 0xB0] then CHR ''i'' # lowerWord (drop 1 s)
      else if c = CHR 0xE2 \<and> take 2 s = [CHR 0x84, CHR 0xAA] then CHR ''k'' # lowerWord (drop 2 s)
      else toLowerChar c # lowerWord s)"

definition ParseLevel :: "string \<Rightarrow> goerr + slogLevel" where
  "ParseLevel levelStr =
     (if lowerWord levelStr = ''debug'' then Inr LevelDebug
      else if lowerWord levelStr = ''info'' then Inr LevelInfo
      else if lowerWord levelStr = ''warn'' then Inr LevelWarn
      else if lowerWord levelStr = ''error'' then Inr LevelError
      else Inl (Errorf ''%w: %s'' [levelStr] [ErrUnknownLogLevel]))"

definition ParseFormat :: "string \<Rightarrow> goerr + Format" where
  "ParseFormat formatStr =
     (if lowerWord formatStr = ''console'' then Inr FormatConsole
      else if lowerWord formatStr = ''text'' then Inr FormatText
      else if lowerWord formatStr = ''json'' then Inr FormatJSON
      else Inl (Errorf ''%w: %s'' [formatStr] [ErrUnknownLogFormat]))"

datatype slogHandler = JSONHandler slogLevel | TextHandler slogLevel

definition NewLogger :: "slogLevel \<Rightarrow> Format \<Rightarrow> slogHandler" where
  "NewLogger level format = (case format of
       FormatJSON \<Rightarrow> JSONHandler level
     | FormatConsole \<Rightarrow> TextHandler level
     | FormatText \<Rightarrow> TextHandler level)"

section \<open>The bridge of the gRPC library\<close>

datatype grpcMethod = MInfo | MInfoln | MInfof | MWarning | MWarningln | MWarningf | MError | MErrorln | MErrorf
  | MFatal | MFatalln | MFatalf | MInfoDepth | MWarningDepth | MErrorDepth | MFatalDepth

definition grpcTooManyPingsSubstr :: string where "grpcTooManyPingsSubstr = ''too_many_pings''"

fun containsWord :: "string \<Rightarrow> string \<Rightarrow> bool" where
  "containsWord [] t = (t = [])"
| "containsWord (c # s) t = (hasPrefix (c # s) t \<or> containsWord s t)"

text \<open>\<open>strings.TrimRight\<close> of newlines.\<close>

definition trimmed :: "string \<Rightarrow> string" where
  "trimmed msg = rev (dropWhile (\<lambda>c. c = CHR 0x0A) (rev msg))"

definition logError :: "string \<Rightarrow> slogLevel \<times> string" where
  "logError msg = (if containsWord msg grpcTooManyPingsSubstr then (LevelWarn, msg) else (LevelError, msg))"

definition grpcLog :: "grpcMethod \<Rightarrow> string \<Rightarrow> (slogLevel \<times> string) \<times> bool" where
  "grpcLog m text = (case m of
       MInfo \<Rightarrow> ((LevelInfo, trimmed text), False)
     | MInfoln \<Rightarrow> ((LevelInfo, trimmed text), False)
     | MInfof \<Rightarrow> ((LevelInfo, text), False)
     | MWarning \<Rightarrow> ((LevelWarn, trimmed text), False)
     | MWarningln \<Rightarrow> ((LevelWarn, trimmed text), False)
     | MWarningf \<Rightarrow> ((LevelWarn, text), False)
     | MError \<Rightarrow> (logError (trimmed text), False)
     | MErrorln \<Rightarrow> (logError (trimmed text), False)
     | MErrorf \<Rightarrow> (logError text, False)
     | MFatal \<Rightarrow> ((LevelError, trimmed text), True)
     | MFatalln \<Rightarrow> ((LevelError, trimmed text), True)
     | MFatalf \<Rightarrow> ((LevelError, text), True)
     | MInfoDepth \<Rightarrow> ((LevelInfo, trimmed text), False)
     | MWarningDepth \<Rightarrow> ((LevelWarn, trimmed text), False)
     | MErrorDepth \<Rightarrow> (logError (trimmed text), False)
     | MFatalDepth \<Rightarrow> ((LevelError, trimmed text), True))"

text \<open>\<open>V\<close>: the verbose tracing of the library is off at every level.\<close>

definition grpcV :: "int \<Rightarrow> bool" where "grpcV level = False"

lemma containsWord_infix: "containsWord s t \<longleftrightarrow> (\<exists>u v. s = u @ t @ v)"
proof (induction s)
  case (Cons c s)
  have start: "hasPrefix (c # s) t \<longleftrightarrow> (\<exists>v. c # s = [] @ t @ v)"
    unfolding hasPrefix_def by (metis append_Nil append_eq_conv_conj append_take_drop_id)
  have later: "(\<exists>u v. s = u @ t @ v) \<longleftrightarrow> (\<exists>u v. c # s = (c # u) @ t @ v)" by simp
  show ?case unfolding containsWord.simps Cons.IH start later
    by (metis append_Cons list.inject neq_Nil_conv self_append_conv2)
qed simp

text \<open>
  Only a message that names the ping strike is downgraded, by every method that logs an error
  without ending the process; the methods that end it log at error level.
\<close>

theorem grpc_downgrade:
  "fst (fst (grpcLog m text)) = LevelError \<longleftrightarrow>
     snd (grpcLog m text) \<or>
     m \<in> {MError, MErrorln, MErrorf, MErrorDepth} \<and>
       \<not> (\<exists>u v. snd (fst (grpcLog m text)) = u @ grpcTooManyPingsSubstr @ v)"
  unfolding containsWord_infix [symmetric] by (cases m) (simp_all add: grpcLog_def logError_def)

end
