(* ===== verification/IdentityWatch.thy ===== *)
theory IdentityWatch
  imports EtcdProxy
begin

text \<open>
  The rest of \<open>pkg/domain/etcdproxy/identitywatch.go\<close>: the client against the own cluster and the
  goroutine that follows the identity Secret.  Its reconnect loop has no bound; it recurses
  over what its two \<open>select\<close> statements receive, so the theorem holds for runs of every length.
\<close>

section \<open>The client and its watches\<close>

text \<open>\<open>watch.Interface\<close> by its \<open>Stop\<close>, and \<open>client.WithWatch\<close>.\<close>

record 's watcher = wt_Stop :: "('s, unit) state"

record 's watchClient =
  wc_reader :: "'s client"
  wc_Watch :: "string \<Rightarrow> ('s, goerr + 's watcher) state"

text \<open>
  \<open>NewInClusterIdentityWatcher\<close>: \<open>config\<close> is \<open>rest.InClusterConfig\<close>, \<open>add\<close> is \<open>corev1.AddToScheme\<close>
  and \<open>newWithWatch\<close> the constructor of controller-runtime.
\<close>

definition NewInClusterIdentityWatcher :: "('s, goerr + 'c) state \<Rightarrow> ('x \<Rightarrow> goerr + 'x) \<Rightarrow> 'x \<Rightarrow>
    ('c \<Rightarrow> 'x \<Rightarrow> ('s, goerr + 's watchClient) state) \<Rightarrow> ('s, goerr + 's watchClient) state" where
  "NewInClusterIdentityWatcher config add newScheme newWithWatch = do {
     c \<leftarrow> config;
     (case c of
        Inl err \<Rightarrow> return (Inl (Errorf ''failed to build in-cluster config: %w'' [] [err]))
      | Inr restCfg \<Rightarrow> (case add newScheme of
          Inl err \<Rightarrow> return (Inl (Errorf ''failed to register core/v1 scheme: %w'' [] [err]))
        | Inr scheme \<Rightarrow> do {
            w \<leftarrow> newWithWatch restCfg scheme;
            (case w of
               Inl err \<Rightarrow> return (Inl (Errorf ''failed to build in-cluster client: %w'' [] [err]))
             | Inr watchClient \<Rightarrow> return (Inr watchClient))
          }))
   }"

definition startIdentityWatch :: "'s watchClient \<Rightarrow> string \<Rightarrow> ('s, goerr + 's watcher) state" where
  "startIdentityWatch wc namespace = do {
     w \<leftarrow> wc_Watch wc namespace;
     (case w of
        Inl err \<Rightarrow> return (Inl (Errorf ''failed to watch %q secret: %w'' [IdentitySecretName] [err]))
      | Inr watcher \<Rightarrow> return (Inr watcher))
   }"

text \<open>\<open>watch.NewEmptyWatch\<close>: its channel is closed, stopping it does nothing.\<close>

definition emptyWatch :: "'s watcher" where "emptyWatch = \<lparr>wt_Stop = return ()\<rparr>"

definition identityWatchRetryInterval :: int where "identityWatchRetryInterval = 5 * second"

section \<open>The reconnect loop\<close>

text \<open>
  What the loop receives: an event of the watch, the end of its channel, the end of the
  context, the retry timer.  \<open>Consuming\<close> is \<open>consume\<close> on a watcher; \<open>Waiting\<close> is between a
  stopped watcher and the next one.  The result is the key of the source and whether the loop
  has returned.
\<close>

datatype watchObs = Received watchEvent | ChanClosed | ContextDone | TimerFired

datatype 's watchPhase = Consuming "'s watcher" | Waiting

fun identityRun :: "'s crypto \<Rightarrow> 's watchClient \<Rightarrow> string \<Rightarrow> 's watchPhase \<Rightarrow> string \<Rightarrow> watchObs list \<Rightarrow>
    ('s, string \<times> bool) state" where
  "identityRun cx wc ns phase key [] = return (key, False)"
| "identityRun cx wc ns (Consuming w) key (Received ev # obs) = identityRun cx wc ns (Consuming w) (handleEvent cx ev key) obs"
| "identityRun cx wc ns (Consuming w) key (ChanClosed # obs) = do { _ \<leftarrow> wt_Stop w; identityRun cx wc ns Waiting key obs }"
| "identityRun cx wc ns (Consuming w) key (ContextDone # obs) = do { _ \<leftarrow> wt_Stop w; return (key, True) }"
| "identityRun cx wc ns (Consuming w) key (TimerFired # obs) = identityRun cx wc ns (Consuming w) key obs"
| "identityRun cx wc ns Waiting key (ContextDone # obs) = return (key, True)"
| "identityRun cx wc ns Waiting key (TimerFired # obs) = do {
     x \<leftarrow> startIdentityWatch wc ns;
     identityRun cx wc ns (Consuming (case x of Inl err \<Rightarrow> emptyWatch | Inr w \<Rightarrow> w)) key obs
   }"
| "identityRun cx wc ns Waiting key (Received ev # obs) = identityRun cx wc ns Waiting key obs"
| "identityRun cx wc ns Waiting key (ChanClosed # obs) = identityRun cx wc ns Waiting key obs"

definition startWatchFor :: "'s watchClient \<Rightarrow> string \<Rightarrow> ('s, goerr + ('s, unit) state) state" where
  "startWatchFor wc ns = do {
     x \<leftarrow> wc_Watch wc ns;
     return (case x of Inl err \<Rightarrow> Inl err | Inr w \<Rightarrow> Inr (wt_Stop w))
   }"

section \<open>Watches are closed\<close>

text \<open>\<open>watching\<close> counts the open watches: one more after a successful start, one less after a stop.\<close>

definition watch_world :: "'s watchClient \<Rightarrow> ('s \<Rightarrow> int) \<Rightarrow> bool" where
  "watch_world wc watching \<longleftrightarrow>
     (\<forall>ns s err t. run_state (wc_Watch wc ns) s = (Inl err, t) \<longrightarrow> watching t = watching s) \<and>
     (\<forall>ns s w t. run_state (wc_Watch wc ns) s = (Inr w, t) \<longrightarrow> watching t = watching s + 1 \<and>
        (\<forall>u. watching (state_after (wt_Stop w) u) = watching u - 1))"

definition closesWatch :: "('s \<Rightarrow> int) \<Rightarrow> 's watcher \<Rightarrow> int \<Rightarrow> bool" where
  "closesWatch watching w n \<longleftrightarrow> (\<forall>u. watching (state_after (wt_Stop w) u) = watching u - n)"

fun openIn :: "'s watchPhase \<Rightarrow> int \<Rightarrow> ('s \<Rightarrow> int) \<Rightarrow> bool" where
  "openIn (Consuming w) n watching = closesWatch watching w n"
| "openIn Waiting n watching = (n = 0)"

lemma start_counts:
  assumes "watch_world wc watching" and "run_state (startIdentityWatch wc ns) s = (x, t)"
  shows "\<exists>n. watching t = watching s + n \<and> closesWatch watching (case x of Inl err \<Rightarrow> emptyWatch | Inr w \<Rightarrow> w) n"
proof -
  obtain y t' where y: "run_state (wc_Watch wc ns) s = (y, t')" by fastforce
  show ?thesis
  proof (cases y)
    case (Inl err)
    with assms y show ?thesis
      by (auto simp: startIdentityWatch_def watch_world_def closesWatch_def emptyWatch_def intro!: exI [of _ 0])
  next
    case (Inr w)
    with assms y show ?thesis
      by (auto simp: startIdentityWatch_def watch_world_def closesWatch_def intro!: exI [of _ 1])
  qed
qed

text \<open>
  The loop keeps no watch open when it ends: however the watch fails, closes and is opened
  again, after the context is done exactly the watch it started with has been closed.
\<close>

theorem identityRun_closes:
  assumes "watch_world wc watching" and "openIn phase n watching"
    and "run_state (identityRun cx wc ns phase key obs) s = ((key', True), t)"
  shows "watching t = watching s - n"
  using assms
proof (induction cx wc ns phase key obs arbitrary: n s rule: identityRun.induct)
  case (3 cx wc ns w key obs)
  obtain s1 where s1: "run_state (wt_Stop w) s = ((), s1)" by (rule exE [OF run_unit])
  then have "watching s1 = watching s - n" using "3.prems"(2) by (metis closesWatch_def openIn.simps(1) snd_conv)
  moreover have "watching t = watching s1 - 0" by (rule "3.IH") (use "3.prems" s1 in simp_all)
  ultimately show ?case by simp
next
  case (4 cx wc ns w key obs)
  obtain s1 where s1: "run_state (wt_Stop w) s = ((), s1)" by (rule exE [OF run_unit])
  then have "watching s1 = watching s - n" using "4.prems"(2) by (metis closesWatch_def openIn.simps(1) snd_conv)
  then show ?case using "4.prems" s1 by simp
next
  case (7 cx wc ns key obs)
  obtain x s1 where s1: "run_state (startIdentityWatch wc ns) s = (x, s1)" by fastforce
  obtain m where m: "watching s1 = watching s + m" "closesWatch watching (case x of Inl err \<Rightarrow> emptyWatch | Inr w \<Rightarrow> w) m"
    using start_counts [OF "7.prems"(1) s1] by blast
  have "watching t = watching s1 - m" by (rule "7.IH" [OF "7.prems"(1)]) (use "7.prems" s1 m in simp_all)
  then show ?case using "7.prems"(2) m by simp
qed auto

end
