(* ===== verification/AddonProbe.thy ===== *)
theory AddonProbe
  imports Addons
begin

text \<open>
  How an addon is installed and probed: \<open>podhealth.go\<close>, \<open>crdgate.go\<close>, \<open>installer.go\<close> and
  \<open>kubectlapply.go\<close> of \<open>pkg/domain/addon\<close>.  The clients built from a kubeconfig, Helm, the
  file system and the YAML decoder are parameters.
\<close>

section \<open>Health of pods\<close>

record ContainerWaiting = cwt_Reason :: string  cwt_Message :: string
record ContainerRunning = crn_StartedAt :: string
record ContainerTerminated = ctm_ExitCode :: int32  ctm_Reason :: string  ctm_Message :: string

record ContainerState =
  cst_Waiting :: "ContainerWaiting option"
  cst_Running :: "ContainerRunning option"
  cst_Terminated :: "ContainerTerminated option"

record ContainerStatus =
  ctr_Name :: string
  ctr_State :: ContainerState
  ctr_LastTerminationState :: ContainerState
  ctr_RestartCount :: int32

record PodCondition =
  pc_Type :: string
  pc_Status :: string
  pc_Message :: string

record Pod =
  pod_meta :: ObjectMeta
  pod_Phase :: string
  pod_Conditions :: "PodCondition list"
  pod_InitContainerStatuses :: "ContainerStatus list"

text \<open>A client of a cluster: pods by selector (\<open>None\<close>: all), and how many objects of a kind match, at most one.\<close>

record 's clientset =
  cs_Pods :: "string \<Rightarrow> string option \<Rightarrow> ('s, goerr + Pod list) state"
  cs_Count :: "string \<Rightarrow> string \<Rightarrow> string \<Rightarrow> ('s, goerr + nat) state"

definition releaseSelectors :: "string \<Rightarrow> string \<Rightarrow> string list" where
  "releaseSelectors releaseName chartLabel = (''app.kubernetes.io/instance='' @ releaseName) #
     (if chartLabel \<noteq> '''' then [''helm.sh/chart='' @ chartLabel] else [])"

definition podText :: "Pod \<Rightarrow> string \<Rightarrow> string" where
  "podText pod what = om_Namespace (pod_meta pod) @ ''/'' @ om_Name (pod_meta pod) @ '' is '' @ what"

fun podCondition :: "Pod \<Rightarrow> PodCondition list \<Rightarrow> string \<Rightarrow> string \<Rightarrow> string \<Rightarrow> bool \<times> string" where
  "podCondition pod [] condType notTrueMsg missingMsg = (False, podText pod missingMsg)"
| "podCondition pod (c # cs) condType notTrueMsg missingMsg =
     (if pc_Type c \<noteq> condType then podCondition pod cs condType notTrueMsg missingMsg
      else if pc_Status c = ''True'' then (True, '''') else (False, podText pod notTrueMsg))"

fun podConditionDetail :: "PodCondition list \<Rightarrow> string" where
  "podConditionDetail [] = ''''"
| "podConditionDetail (c # cs) = (if pc_Status c \<noteq> ''True'' \<and> pc_Message c \<noteq> ''''
     then pc_Type c @ ''='' @ pc_Status c @ '': '' @ pc_Message c else podConditionDetail cs)"

definition withMessage :: "string \<Rightarrow> string \<Rightarrow> string" where
  "withMessage detail message = (if message \<noteq> '''' then detail @ '': '' @ message else detail)"

definition waitingContainerDetail :: "ContainerStatus \<Rightarrow> ContainerWaiting \<Rightarrow> string" where
  "waitingContainerDetail status waiting =
     (let detail = withMessage (ctr_Name status @ '' is waiting: '' @ cwt_Reason waiting) (cwt_Message waiting);
          detail = (if sint (ctr_RestartCount status) > 0 then detail @ '' (restarted '' @ itoa (sint (ctr_RestartCount status)) @ '' times)'' else detail)
      in case cst_Terminated (ctr_LastTerminationState status) of
           None \<Rightarrow> detail
         | Some lst \<Rightarrow> withMessage (detail @ ''; last exit '' @ itoa (sint (ctm_ExitCode lst)) @ '': '' @ ctm_Reason lst) (ctm_Message lst))"

definition terminatedContainerDetail :: "ContainerStatus \<Rightarrow> ContainerTerminated \<Rightarrow> string" where
  "terminatedContainerDetail status t =
     withMessage (ctr_Name status @ '' exited '' @ itoa (sint (ctm_ExitCode t)) @ '': '' @ ctm_Reason t) (ctm_Message t)"

fun initContainerDetail :: "ContainerStatus list \<Rightarrow> string" where
  "initContainerDetail [] = ''''"
| "initContainerDetail (status # rest) =
     (if (case cst_Terminated (ctr_State status) of Some t \<Rightarrow> ctm_ExitCode t = 0 | None \<Rightarrow> False) then initContainerDetail rest
      else (case cst_Waiting (ctr_State status) of
         Some waiting \<Rightarrow> waitingContainerDetail status waiting
       | None \<Rightarrow> (case cst_Running (ctr_State status) of
           Some running \<Rightarrow> ctr_Name status @ '' is running (started at '' @ crn_StartedAt running @ '')''
         | None \<Rightarrow> (case cst_Terminated (ctr_State status) of
             Some t \<Rightarrow> terminatedContainerDetail status t
           | None \<Rightarrow> initContainerDetail rest))))"

definition podHealthy :: "Pod \<Rightarrow> bool \<times> string" where
  "podHealthy pod =
     (if pod_Phase pod = ''Succeeded'' then (True, '''')
      else if pod_Phase pod = ''Running'' then
        podCondition pod (pod_Conditions pod) ''Ready'' ''Running but not Ready'' ''Running with no PodReady condition yet''
      else (let reason = podText pod (pod_Phase pod);
                detail = podConditionDetail (pod_Conditions pod);
                reason = (if detail \<noteq> '''' then reason @ '': '' @ detail else reason);
                detail = initContainerDetail (pod_InitContainerStatuses pod);
                reason = (if detail \<noteq> '''' then reason @ ''; '' @ detail else reason)
            in (False, reason)))"

fun allPodsHealthy :: "Pod list \<Rightarrow> bool \<times> string" where
  "allPodsHealthy [] = (True, '''')"
| "allPodsHealthy (pod # pods) = (case podHealthy pod of (ok, reason) \<Rightarrow> if \<not> ok then (False, reason) else allPodsHealthy pods)"

type_synonym 's podlib = "string \<Rightarrow> goerr + 's clientset"

text \<open>The two constructors a client is built with: the rest config of a kubeconfig, and the client of a rest config.\<close>

definition buildClientset :: "(string \<Rightarrow> goerr + 'cfg) \<Rightarrow> ('cfg \<Rightarrow> goerr + 's clientset) \<Rightarrow> 's podlib" where
  "buildClientset restConfig newForConfig kubeconfig = (case restConfig kubeconfig of
       Inl err \<Rightarrow> Inl (Errorf ''failed to build rest config from kubeconfig: %w'' [] [err])
     | Inr cfg \<Rightarrow> (case newForConfig cfg of
         Inl err \<Rightarrow> Inl (Errorf ''failed to build kubernetes clientset: %w'' [] [err])
       | Inr cs \<Rightarrow> Inr cs))"

definition AllPodsHealthy :: "'s podlib \<Rightarrow> string \<Rightarrow> string \<Rightarrow> ('s, goerr + bool \<times> string) state" where
  "AllPodsHealthy build kubeconfig namespace = (case build kubeconfig of
       Inl err \<Rightarrow> return (Inl err)
     | Inr cs \<Rightarrow> do {
         l \<leftarrow> cs_Pods cs namespace None;
         (case l of
            Inl err \<Rightarrow> return (Inl (Errorf ''failed to list pods in %q: %w'' [namespace] [err]))
          | Inr pods \<Rightarrow> return (Inr (allPodsHealthy pods)))
       })"

text \<open>The pods seen so far, by UID: a later answer replaces an earlier one.\<close>

fun listPodsLoop :: "'s clientset \<Rightarrow> string \<Rightarrow> string list \<Rightarrow> (string \<times> Pod) list \<Rightarrow> ('s, goerr + (string \<times> Pod) list) state" where
  "listPodsLoop cs namespace [] seen = return (Inr seen)"
| "listPodsLoop cs namespace (selector # selectors) seen = do {
     l \<leftarrow> cs_Pods cs namespace (Some selector);
     (case l of
        Inl err \<Rightarrow> return (Inl (Errorf ''failed to list pods in %q matching %q: %w'' [namespace, selector] [err]))
      | Inr pods \<Rightarrow> listPodsLoop cs namespace selectors (fold (\<lambda>pod. AList.update (om_UID (pod_meta pod)) pod) pods seen))
   }"

definition listPodsUnion :: "'s clientset \<Rightarrow> string \<Rightarrow> string list \<Rightarrow> ('s, goerr + Pod list) state" where
  "listPodsUnion cs namespace selectors = do {
     l \<leftarrow> listPodsLoop cs namespace selectors [];
     (case l of Inl err \<Rightarrow> return (Inl err) | Inr seen \<Rightarrow> return (Inr (map snd seen)))
   }"

definition workloadControllerKinds :: "string list" where
  "workloadControllerKinds = [''Job'', ''CronJob'', ''Deployment'', ''DaemonSet'', ''StatefulSet'']"

fun listAcrossSelectors :: "(string \<Rightarrow> ('s, goerr + nat) state) \<Rightarrow> string list \<Rightarrow> ('s, goerr + nat) state" where
  "listAcrossSelectors list [] = return (Inr 0)"
| "listAcrossSelectors list (selector # selectors) = do {
     n \<leftarrow> list selector;
     (case n of
        Inl err \<Rightarrow> return (Inl err)
      | Inr count \<Rightarrow> if count > 0 then return (Inr count) else listAcrossSelectors list selectors)
   }"

fun controllerKindsLoop :: "'s clientset \<Rightarrow> string \<Rightarrow> string list \<Rightarrow> string list \<Rightarrow> ('s, goerr + bool) state" where
  "controllerKindsLoop cs namespace selectors [] = return (Inr False)"
| "controllerKindsLoop cs namespace selectors (kind # kinds) = do {
     n \<leftarrow> listAcrossSelectors (cs_Count cs kind namespace) selectors;
     (case n of
        Inl err \<Rightarrow> return (Inl (Errorf ''failed to list %s in %q: %w'' [kind, namespace] [err]))
      | Inr count \<Rightarrow> if count > 0 then return (Inr True) else controllerKindsLoop cs namespace selectors kinds)
   }"

definition HasWorkloadControllers :: "'s clientset \<Rightarrow> string \<Rightarrow> string list \<Rightarrow> ('s, goerr + bool) state" where
  "HasWorkloadControllers cs namespace selectors = controllerKindsLoop cs namespace selectors workloadControllerKinds"

definition noPodsHealthy :: "'s clientset \<Rightarrow> string \<Rightarrow> string list \<Rightarrow> ('s, goerr + bool \<times> string) state" where
  "noPodsHealthy cs namespace selectors = do {
     h \<leftarrow> HasWorkloadControllers cs namespace selectors;
     (case h of
        Inl err \<Rightarrow> return (Inl err)
      | Inr hasControllers \<Rightarrow> if hasControllers then return (Inr (False, ''no pods found yet'')) else return (Inr (True, '''')))
   }"

definition NamespaceHealthy :: "'s podlib \<Rightarrow> 's PodProber" where
  "NamespaceHealthy build kubeconfig namespace releaseName chartLabel = (case build kubeconfig of
       Inl err \<Rightarrow> return (Inl err)
     | Inr cs \<Rightarrow> (let selectors = releaseSelectors releaseName chartLabel in do {
         l \<leftarrow> listPodsUnion cs namespace selectors;
         (case l of
            Inl err \<Rightarrow> return (Inl err)
          | Inr pods \<Rightarrow> if length pods = 0 then noPodsHealthy cs namespace selectors else return (Inr (allPodsHealthy pods)))
       }))"

text \<open>The loops on a cluster that stands still while it is probed.\<close>

lemma allPodsHealthy_iff: "fst (allPodsHealthy pods) \<longleftrightarrow> (\<forall>pod\<in>set pods. fst (podHealthy pod))"
  by (induction pods) (auto split: prod.splits)

text \<open>The pods seen so far, each under its UID, all of them pods of the cluster.\<close>

definition seen_ok :: "Pod set \<Rightarrow> (string \<times> Pod) list \<Rightarrow> bool" where
  "seen_ok U seen \<longleftrightarrow> distinct (map fst seen) \<and> (\<forall>u p. (u, p) \<in> set seen \<longrightarrow> u = om_UID (pod_meta p) \<and> p \<in> U)"

abbreviation see :: "Pod \<Rightarrow> (string \<times> Pod) list \<Rightarrow> (string \<times> Pod) list" where
  "see pod seen \<equiv> AList.update (om_UID (pod_meta pod)) pod seen"

definition by_uid :: "Pod set \<Rightarrow> bool" where
  "by_uid U \<longleftrightarrow> (\<forall>p\<in>U. \<forall>q\<in>U. om_UID (pod_meta p) = om_UID (pod_meta q) \<longrightarrow> p = q)"

lemma see_ok:
  assumes "by_uid U" and "seen_ok U seen" and "pod \<in> U"
  shows "seen_ok U (see pod seen)" and "snd ` set (see pod seen) = insert pod (snd ` set seen)"
proof -
  have d: "distinct (map fst (see pod seen))" "distinct (map fst seen)" using assms(2) distinct_update by (auto simp: seen_ok_def)
  have m: "(u, p) \<in> set (see pod seen) \<longleftrightarrow> p = pod \<and> u = om_UID (pod_meta pod) \<or> u \<noteq> om_UID (pod_meta pod) \<and> (u, p) \<in> set seen" for u p
    using map_of_eq_Some_iff [OF d(1), of u p] map_of_eq_Some_iff [OF d(2), of u p] by (auto simp: update_conv' split: if_splits)
  then show "seen_ok U (see pod seen)" using assms(2,3) d(1) by (auto simp: seen_ok_def)
  have "p \<in> snd ` set (see pod seen)" if "(u, p) \<in> set seen" for u p
  proof (cases "u = om_UID (pod_meta pod)")
    case True
    then have "p = pod" using that assms by (auto simp: seen_ok_def by_uid_def)
    with m [of u p] True show ?thesis by force
  qed (use m [of u p] that in force)
  moreover have "pod \<in> snd ` set (see pod seen)" using m [of "om_UID (pod_meta pod)" pod] by force
  ultimately show "snd ` set (see pod seen) = insert pod (snd ` set seen)" using m by force
qed

lemma see_all_ok:
  assumes "by_uid U" and "seen_ok U seen" and "set pods \<subseteq> U"
  shows "seen_ok U (fold see pods seen) \<and> snd ` set (fold see pods seen) = snd ` set seen \<union> set pods"
  using assms(2,3) see_ok [OF assms(1)] by (induction pods arbitrary: seen) auto

lemma listPodsLoop_still:
  assumes "\<And>sel. cs_Pods cs ns (Some sel) = return (Inr (P sel))" and "by_uid U" and "seen_ok U seen"
    and "\<And>sel. sel \<in> set sels \<Longrightarrow> set (P sel) \<subseteq> U"
  shows "\<exists>seen'. listPodsLoop cs ns sels seen = return (Inr seen') \<and> snd ` set seen' = snd ` set seen \<union> (\<Union>sel\<in>set sels. set (P sel))"
  using assms(3,4)
proof (induction sels arbitrary: seen)
  case (Cons sel sels)
  then have "seen_ok U (fold see (P sel) seen)" "snd ` set (fold see (P sel) seen) = snd ` set seen \<union> set (P sel)"
    using see_all_ok [OF assms(2) Cons(2), of "P sel"] by auto
  moreover obtain seen' where "listPodsLoop cs ns sels (fold see (P sel) seen) = return (Inr seen')"
    "snd ` set seen' = snd ` set (fold see (P sel) seen) \<union> (\<Union>sel\<in>set sels. set (P sel))"
    using Cons(1) [of "fold see (P sel) seen"] Cons(3) calculation(1) by auto
  ultimately show ?case by (intro exI [of _ seen']) (simp add: assms(1) Un_assoc)
qed auto

lemma listAcrossSelectors_still:
  assumes "\<And>sel. list sel = return (Inr (C sel))"
  shows "\<exists>n. listAcrossSelectors list sels = return (Inr n) \<and> (n > 0 \<longleftrightarrow> (\<exists>sel\<in>set sels. C sel > 0))"
  by (induction sels) (use assms in auto)

lemma controllerKindsLoop_still:
  assumes "\<And>kind sel. cs_Count cs kind ns sel = return (Inr (C kind sel))"
  shows "controllerKindsLoop cs ns sels kinds = return (Inr (\<exists>kind\<in>set kinds. \<exists>sel\<in>set sels. C kind sel > 0))"
proof (induction kinds)
  case (Cons kind kinds)
  obtain n where "listAcrossSelectors (cs_Count cs kind ns) sels = return (Inr n)" "n > 0 \<longleftrightarrow> (\<exists>sel\<in>set sels. C kind sel > 0)"
    using listAcrossSelectors_still [of "cs_Count cs kind ns" "C kind" sels] assms by blast
  with Cons show ?case by auto
qed simp

text \<open>
  What a healthy release is.  On a cluster that stands still during the probe,
  \<open>NamespaceHealthy\<close> answers healthy exactly when every pod that carries one of the
  release's labels is healthy (succeeded, or running with a true Ready condition) and, if
  there is no such pod, no workload controller carries one of them either; it changes
  nothing.
\<close>

theorem NamespaceHealthy_exact:
  assumes "build kubeconfig = Inr cs" and "\<And>sel. cs_Pods cs ns (Some sel) = return (Inr (P sel))"
    and "\<And>kind sel. cs_Count cs kind ns sel = return (Inr (C kind sel))"
    and "by_uid (\<Union>sel\<in>set (releaseSelectors rel lbl). set (P sel))"
  shows "\<exists>ok reason. run_state (NamespaceHealthy build kubeconfig ns rel lbl) s = (Inr (ok, reason), s) \<and>
    (ok \<longleftrightarrow> (let sels = set (releaseSelectors rel lbl) in (\<forall>sel\<in>sels. \<forall>pod\<in>set (P sel). fst (podHealthy pod)) \<and>
       ((\<forall>sel\<in>sels. P sel = []) \<longrightarrow> (\<forall>kind\<in>set workloadControllerKinds. \<forall>sel\<in>sels. C kind sel = 0))))"
proof -
  let ?sels = "releaseSelectors rel lbl"
  obtain seen where seen: "listPodsLoop cs ns ?sels [] = return (Inr seen)" "snd ` set seen = (\<Union>sel\<in>set ?sels. set (P sel))"
    using listPodsLoop_still [OF assms(2,4), of "[]" ?sels] by (auto simp: seen_ok_def)
  have pods: "listPodsUnion cs ns ?sels = return (Inr (map snd seen))" using seen(1) by (simp add: listPodsUnion_def)
  show ?thesis
  proof (cases "seen = []")
    case True
    then have "\<forall>sel\<in>set ?sels. P sel = []" using seen(2) by auto
    with True pods assms(1) controllerKindsLoop_still [OF assms(3), of ?sels workloadControllerKinds]
    show ?thesis by (auto simp: NamespaceHealthy_def noPodsHealthy_def HasWorkloadControllers_def Let_def)
  next
    case False
    then have "(\<Union>sel\<in>set ?sels. set (P sel)) \<noteq> {}" using seen(2) by (metis image_is_empty set_empty)
    then have "\<not> (\<forall>sel\<in>set ?sels. P sel = [])" by auto
    moreover have "fst (allPodsHealthy (map snd seen)) \<longleftrightarrow> (\<forall>sel\<in>set ?sels. \<forall>pod\<in>set (P sel). fst (podHealthy pod))"
      using seen(2) by (simp add: allPodsHealthy_iff)
    ultimately show ?thesis using False pods assms(1)
      by (cases "allPodsHealthy (map snd seen)") (auto simp: NamespaceHealthy_def Let_def)
  qed
qed

text \<open>A release with one running pod, found under both of its labels, and one of an unfinished job.\<close>

definition demo_pod :: "string \<Rightarrow> string \<Rightarrow> Pod" where
  "demo_pod uid phase = \<lparr>pod_meta = (objectMeta ''kube-system'' uid)\<lparr>om_UID := uid\<rparr>, pod_Phase = phase,
     pod_Conditions = [\<lparr>pc_Type = ''Ready'', pc_Status = ''True'', pc_Message = []\<rparr>], pod_InitContainerStatuses = []\<rparr>"

definition demo_pods :: "string \<Rightarrow> Pod list" where
  "demo_pods sel = (if sel = ''app.kubernetes.io/instance=cilium'' then [demo_pod ''a'' ''Running'']
     else [demo_pod ''a'' ''Running'', demo_pod ''b'' ''Pending''])"

definition demo_clientset :: "nat clientset" where
  "demo_clientset = \<lparr>cs_Pods = (\<lambda>_ sel. return (Inr (case sel of None \<Rightarrow> [] | Some x \<Rightarrow> demo_pods x))), cs_Count = (\<lambda>_ _ _. return (Inr 1))\<rparr>"

theorem NamespaceHealthy_exact_witness:
  "\<exists>reason. run_state (NamespaceHealthy (\<lambda>_. Inr demo_clientset) ''cfg'' ''kube-system'' ''cilium'' ''cilium-1.20.2'') 0 = (Inr (False, reason), 0) \<and>
   (\<exists>reason. run_state (NamespaceHealthy (\<lambda>_. Inr demo_clientset) ''cfg'' ''kube-system'' ''cilium'' []) 0 = (Inr (True, reason), 0))"
proof -
  have u: "by_uid (\<Union>sel\<in>set (releaseSelectors ''cilium'' lbl). set (demo_pods sel))" for lbl
    by (auto simp: by_uid_def demo_pods_def demo_pod_def)
  have cs: "cs_Pods demo_clientset ns (Some sel) = return (Inr (demo_pods sel))" "cs_Count demo_clientset kind ns sel = return (Inr 1)" for ns sel kind
    by (simp_all add: demo_clientset_def)
  note r = NamespaceHealthy_exact [where build = "\<lambda>_. Inr demo_clientset", OF refl cs u, of "''cfg''" "''kube-system''" _ 0]
  have "\<not> (\<forall>sel\<in>set (releaseSelectors ''cilium'' ''cilium-1.20.2''). \<forall>pod\<in>set (demo_pods sel). fst (podHealthy pod))"
    "\<forall>sel\<in>set (releaseSelectors ''cilium'' []). (\<forall>pod\<in>set (demo_pods sel). fst (podHealthy pod)) \<and> demo_pods sel \<noteq> []"
    by (simp_all add: releaseSelectors_def demo_pods_def demo_pod_def podHealthy_def Let_def)
  with r [of "''cilium-1.20.2''"] r [of "[]"] show ?thesis by (auto simp: Let_def)
qed

section \<open>Documents of a manifest\<close>

record GroupVersionKind =
  gvk_Group :: string
  gvk_Version :: string
  gvk_Kind :: string

text \<open>
  A decoded document: whether it is empty, its kind and name, the namespace it names, its
  JSON, and what converting it to a resource definition gives (name, group, kind and the
  versions with their \<open>served\<close> flag).  Decoding a manifest gives its documents and how the
  stream ends (\<open>None\<close>: end of file).
\<close>

record Unstructured =
  un_Empty :: bool
  un_GVK :: GroupVersionKind
  un_Name :: string
  un_Namespace :: string
  un_JSON :: "goerr + string"
  un_CRD :: "goerr + string \<times> string \<times> string \<times> (string \<times> bool) list"

type_synonym decoder = "string \<Rightarrow> Unstructured list \<times> goerr option"

record crdRef =
  cr_name :: string
  cr_gvks :: "GroupVersionKind list"

definition crdRefFromUnstructured :: "Unstructured \<Rightarrow> goerr + crdRef" where
  "crdRefFromUnstructured obj = (case un_CRD obj of
       Inl err \<Rightarrow> Inl (Errorf ''failed to decode crd %q: %w'' [un_Name obj] [err])
     | Inr (name, grp, kind, versions) \<Rightarrow> Inr \<lparr>cr_name = name,
         cr_gvks = map (\<lambda>(version, _). \<lparr>gvk_Group = grp, gvk_Version = version, gvk_Kind = kind\<rparr>) (filter snd versions)\<rparr>)"

fun crdRefsLoop :: "Unstructured list \<Rightarrow> goerr option \<Rightarrow> crdRef list \<Rightarrow> goerr + crdRef list" where
  "crdRefsLoop [] None refs = Inr refs"
| "crdRefsLoop [] (Some err) refs = Inl (Errorf ''failed to decode manifest document: %w'' [] [err])"
| "crdRefsLoop (obj # objs) final refs =
     (if un_Empty obj \<or> gvk_Kind (un_GVK obj) \<noteq> ''CustomResourceDefinition'' then crdRefsLoop objs final refs
      else (case crdRefFromUnstructured obj of
         Inl err \<Rightarrow> Inl err
       | Inr ref \<Rightarrow> crdRefsLoop objs final (refs @ [ref])))"

definition parseCRDRefs :: "decoder \<Rightarrow> string \<Rightarrow> goerr + crdRef list" where
  "parseCRDRefs decode manifest = (case decode manifest of (objs, final) \<Rightarrow> crdRefsLoop objs final [])"

section \<open>Resource definitions that are served\<close>

text \<open>
  The clients \<open>crdsReady\<close> builds: the definition's status conditions by name, and the mapping
  of a kind to a resource (its scope when it is known).
\<close>

record 's crdclients =
  cc_Get :: "string \<Rightarrow> ('s, goerr + (string \<times> string) list) state"
  cc_RESTMapping :: "GroupVersionKind \<Rightarrow> ('s, goerr + string) state"

definition crdEstablished :: "(string \<times> string) list \<Rightarrow> bool" where
  "crdEstablished conditions \<longleftrightarrow> (\<exists>c\<in>set conditions. c = (''Established'', ''True''))"

definition gvkText :: "GroupVersionKind \<Rightarrow> string" where
  "gvkText gvk = gvk_Group gvk @ ''/'' @ gvk_Version gvk @ '', Kind='' @ gvk_Kind gvk"

fun mappedLoop :: "'s crdclients \<Rightarrow> string \<Rightarrow> GroupVersionKind list \<Rightarrow> ('s, bool \<times> string) state" where
  "mappedLoop cc name [] = return (True, '''')"
| "mappedLoop cc name (gvk # gvks) = do {
     m \<leftarrow> cc_RESTMapping cc gvk;
     (case m of
        Inl err \<Rightarrow> return (False, name @ '': '' @ gvkText gvk @ '' not discoverable yet'')
      | Inr _ \<Rightarrow> mappedLoop cc name gvks)
   }"

definition crdRefReady :: "'s crdclients \<Rightarrow> crdRef \<Rightarrow> ('s, bool \<times> string) state" where
  "crdRefReady cc ref = do {
     g \<leftarrow> cc_Get cc (cr_name ref);
     (case g of
        Inl err \<Rightarrow> return (False, cr_name ref @ '': crd not found yet'')
      | Inr conditions \<Rightarrow>
          if \<not> crdEstablished conditions then return (False, cr_name ref @ '': crd not Established yet'')
          else mappedLoop cc (cr_name ref) (cr_gvks ref))
   }"

fun crdRefsReady :: "'s crdclients \<Rightarrow> crdRef list \<Rightarrow> ('s, goerr + bool \<times> string) state" where
  "crdRefsReady cc [] = return (Inr (True, ''''))"
| "crdRefsReady cc (ref # refs) = do {
     r \<leftarrow> crdRefReady cc ref;
     (case r of (ready, reason) \<Rightarrow> if \<not> ready then return (Inr (False, reason)) else crdRefsReady cc refs)
   }"

text \<open>The four constructors the clients are built with, each with its own error.\<close>

record 's crdlib =
  kl_RESTConfig :: "string \<Rightarrow> goerr + string"
  kl_Apiextensions :: "string \<Rightarrow> goerr option"
  kl_HTTPClient :: "string \<Rightarrow> goerr option"
  kl_RESTMapper :: "string \<Rightarrow> goerr option"
  kl_Clients :: "string \<Rightarrow> 's crdclients"

definition crdsReady :: "'s crdlib \<Rightarrow> string \<Rightarrow> crdRef list \<Rightarrow> ('s, goerr + bool \<times> string) state" where
  "crdsReady kl kubeconfig refs =
     (if length refs = 0 then return (Inr (True, ''''))
      else (case kl_RESTConfig kl kubeconfig of
         Inl err \<Rightarrow> return (Inl (Errorf ''failed to build rest config from kubeconfig: %w'' [] [err]))
       | Inr restConfig \<Rightarrow>
           (case wrapErr ''failed to build apiextensions client: %w'' [] (kl_Apiextensions kl restConfig) of
              Some err \<Rightarrow> return (Inl err)
            | None \<Rightarrow> (case wrapErr ''failed to build discovery http client: %w'' [] (kl_HTTPClient kl restConfig) of
                Some err \<Rightarrow> return (Inl err)
              | None \<Rightarrow> (case wrapErr ''failed to build rest mapper: %w'' [] (kl_RESTMapper kl restConfig) of
                  Some err \<Rightarrow> return (Inl err)
                | None \<Rightarrow> crdRefsReady (kl_Clients kl restConfig) refs)))))"

section \<open>Helm\<close>

text \<open>
  Helm and the temporary file of a kubeconfig.  \<open>hm_Run\<close> renders an installation without a
  cluster; \<open>hm_History\<close> answers \<open>None\<close> when the release exists.
\<close>

record 's helmlib =
  hm_CreateTemp :: "('s, goerr + string) state"
  hm_Write :: "string \<Rightarrow> string \<Rightarrow> ('s, goerr option) state"
  hm_Close :: "string \<Rightarrow> ('s, goerr option) state"
  hm_Remove :: "string \<Rightarrow> ('s, unit) state"
  hm_Init :: "string option \<Rightarrow> string \<Rightarrow> string \<Rightarrow> ('s, goerr option) state"
  hm_Registry :: "('s, goerr option) state"
  hm_Locate :: "string \<Rightarrow> string \<Rightarrow> string \<Rightarrow> ('s, goerr + string) state"
  hm_Load :: "string \<Rightarrow> ('s, goerr + string) state"
  hm_History :: "string \<Rightarrow> ('s, goerr option) state"
  hm_Install :: "string \<Rightarrow> string \<Rightarrow> string \<Rightarrow> jmap \<Rightarrow> ('s, goerr option) state"
  hm_Upgrade :: "string \<Rightarrow> string \<Rightarrow> int \<Rightarrow> string \<Rightarrow> jmap \<Rightarrow> ('s, goerr option) state"
  hm_Run :: "string \<Rightarrow> string \<Rightarrow> string \<Rightarrow> string \<Rightarrow> jmap \<Rightarrow> ('s, goerr + string) state"
  hm_ServerVersion :: "string \<Rightarrow> ('s, goerr + string) state"

definition errReleaseNotFound :: string where "errReleaseNotFound = ''release: not found''"

definition releaseMaxHistory :: int where "releaseMaxHistory = 5"

definition writeTempKubeconfig :: "'s helmlib \<Rightarrow> string \<Rightarrow> ('s, goerr + string) state" where
  "writeTempKubeconfig hm kubeconfig = do {
     f \<leftarrow> hm_CreateTemp hm;
     (case f of
        Inl err \<Rightarrow> return (Inl (Errorf ''failed to create temp kubeconfig file: %w'' [] [err]))
      | Inr file \<Rightarrow> do {
          w \<leftarrow> hm_Write hm file kubeconfig;
          (case w of
             Some err \<Rightarrow> do {
               _ \<leftarrow> hm_Close hm file;
               _ \<leftarrow> hm_Remove hm file;
               return (Inl (Errorf ''failed to write temp kubeconfig file: %w'' [] [err]))
             }
           | None \<Rightarrow> do {
               c \<leftarrow> hm_Close hm file;
               (case c of
                  Some err \<Rightarrow> do { _ \<leftarrow> hm_Remove hm file; return (Inl (Errorf ''failed to close temp kubeconfig file: %w'' [] [err])) }
                | None \<Rightarrow> return (Inr file))
             })
        })
   }"

definition loadChart :: "'s helmlib \<Rightarrow> string \<Rightarrow> string \<Rightarrow> string \<Rightarrow> ('s, goerr + string) state" where
  "loadChart hm chartName repoURL version = do {
     p \<leftarrow> hm_Locate hm chartName repoURL version;
     (case p of
        Inl err \<Rightarrow> return (Inl (Errorf ''failed to locate chart %q version %q from %q: %w'' [chartName, version, repoURL] [err]))
      | Inr chartPath \<Rightarrow> do {
          l \<leftarrow> hm_Load hm chartPath;
          (case l of
             Inl err \<Rightarrow> return (Inl (Errorf ''failed to load chart %q: %w'' [chartName] [err]))
           | Inr chart \<Rightarrow> return (Inr chart))
        })
   }"

definition installRelease :: "'s helmlib \<Rightarrow> string \<Rightarrow> string \<Rightarrow> string \<Rightarrow> jmap \<Rightarrow> ('s, goerr option) state" where
  "installRelease hm releaseName namespace chart values = do {
     e \<leftarrow> hm_Install hm releaseName namespace chart values;
     return (wrapErr ''failed to install release %q: %w'' [releaseName] e)
   }"

definition upgradeRelease :: "'s helmlib \<Rightarrow> string \<Rightarrow> string \<Rightarrow> string \<Rightarrow> jmap \<Rightarrow> ('s, goerr option) state" where
  "upgradeRelease hm releaseName namespace chart values = do {
     e \<leftarrow> hm_Upgrade hm releaseName namespace releaseMaxHistory chart values;
     return (wrapErr ''failed to upgrade release %q: %w'' [releaseName] e)
   }"

text \<open>\<open>installViaHelm\<close> after the kubeconfig file is written.\<close>

definition helmUpgradeInstall :: "'s helmlib \<Rightarrow> string \<Rightarrow> InstallRequest \<Rightarrow> ('s, goerr option) state" where
  "helmUpgradeInstall hm kubeconfigPath req = do {
     i \<leftarrow> hm_Init hm (Some kubeconfigPath) (ir_Namespace req) ''secret'';
     (case i of
        Some err \<Rightarrow> return (Some (Errorf ''failed to init helm action configuration for %q: %w'' [ir_ReleaseName req] [err]))
      | None \<Rightarrow> do {
          g \<leftarrow> hm_Registry hm;
          (case g of
             Some err \<Rightarrow> return (Some (Errorf ''failed to create helm registry client: %w'' [] [err]))
           | None \<Rightarrow> do {
               l \<leftarrow> loadChart hm (ir_ChartName req) (ir_RepoURL req) (ir_Version req);
               (case l of
                  Inl err \<Rightarrow> return (Some err)
                | Inr chart \<Rightarrow> do {
                    h \<leftarrow> hm_History hm (ir_ReleaseName req);
                    (case h of
                       None \<Rightarrow> upgradeRelease hm (ir_ReleaseName req) (ir_Namespace req) chart (ir_Values req)
                     | Some err \<Rightarrow>
                         if errorsIs err errReleaseNotFound then installRelease hm (ir_ReleaseName req) (ir_Namespace req) chart (ir_Values req)
                         else return (Some (Errorf ''failed to check existing release %q: %w'' [ir_ReleaseName req] [err])))
                  })
             })
        })
   }"

definition installViaHelm :: "'s helmlib \<Rightarrow> 's Installer" where
  "installViaHelm hm kubeconfig req = do {
     f \<leftarrow> writeTempKubeconfig hm kubeconfig;
     (case f of
        Inl err \<Rightarrow> return (Some err)
      | Inr path \<Rightarrow> do {
          e \<leftarrow> helmUpgradeInstall hm path req;
          _ \<leftarrow> hm_Remove hm path;
          return e
        })
   }"

section \<open>Rendering and applying\<close>

definition targetKubeVersion :: "'s helmlib \<Rightarrow> 's crdlib \<Rightarrow> (string \<Rightarrow> goerr option) \<Rightarrow> string \<Rightarrow> ('s, goerr + string) state" where
  "targetKubeVersion hm kl discovery kubeconfig = (case kl_RESTConfig kl kubeconfig of
       Inl err \<Rightarrow> return (Inl (Errorf ''failed to build rest config from kubeconfig: %w'' [] [err]))
     | Inr restConfig \<Rightarrow> (case discovery restConfig of
         Some err \<Rightarrow> return (Inl (Errorf ''failed to build discovery client: %w'' [] [err]))
       | None \<Rightarrow> do {
           v \<leftarrow> hm_ServerVersion hm restConfig;
           (case v of
              Inl err \<Rightarrow> return (Inl (Errorf ''failed to query cluster kubernetes version: %w'' [] [err]))
            | Inr version \<Rightarrow> return (Inr version))
         }))"

definition renderChart :: "'s helmlib \<Rightarrow> 's crdlib \<Rightarrow> (string \<Rightarrow> goerr option) \<Rightarrow> string \<Rightarrow> InstallRequest \<Rightarrow> ('s, goerr + string) state" where
  "renderChart hm kl discovery kubeconfig req = do {
     v \<leftarrow> targetKubeVersion hm kl discovery kubeconfig;
     (case v of
        Inl err \<Rightarrow> return (Inl err)
      | Inr kubeVersion \<Rightarrow> do {
          i \<leftarrow> hm_Init hm None (ir_Namespace req) ''memory'';
          (case i of
             Some err \<Rightarrow> return (Inl (Errorf ''failed to init helm action configuration for %q: %w'' [ir_ReleaseName req] [err]))
           | None \<Rightarrow> do {
               g \<leftarrow> hm_Registry hm;
               (case g of
                  Some err \<Rightarrow> return (Inl (Errorf ''failed to create helm registry client: %w'' [] [err]))
                | None \<Rightarrow> do {
                    l \<leftarrow> loadChart hm (ir_ChartName req) (ir_RepoURL req) (ir_Version req);
                    (case l of
                       Inl err \<Rightarrow> return (Inl err)
                     | Inr chart \<Rightarrow> do {
                         m \<leftarrow> hm_Run hm kubeVersion (ir_ReleaseName req) (ir_Namespace req) chart (ir_Values req);
                         (case m of
                            Inl err \<Rightarrow> return (Inl (Errorf ''failed to render %q: %w'' [ir_ReleaseName req] [err]))
                          | Inr manifest \<Rightarrow> return (Inr manifest))
                       })
                  })
             })
        })
   }"

definition chartCRDs :: "'s helmlib \<Rightarrow> 's crdlib \<Rightarrow> (string \<Rightarrow> goerr option) \<Rightarrow> decoder \<Rightarrow> string \<Rightarrow> InstallRequest \<Rightarrow> ('s, goerr + crdRef list) state" where
  "chartCRDs hm kl discovery decode kubeconfig req = do {
     m \<leftarrow> renderChart hm kl discovery kubeconfig req;
     (case m of Inl err \<Rightarrow> return (Inl err) | Inr manifest \<Rightarrow> return (parseCRDRefs decode manifest))
   }"

definition ChartCRDsReady :: "'s helmlib \<Rightarrow> 's crdlib \<Rightarrow> (string \<Rightarrow> goerr option) \<Rightarrow> decoder \<Rightarrow> 's CRDChecker" where
  "ChartCRDsReady hm kl discovery decode kubeconfig req = do {
     c \<leftarrow> chartCRDs hm kl discovery decode kubeconfig req;
     (case c of Inl err \<Rightarrow> return (Inl err) | Inr refs \<Rightarrow> crdsReady kl kubeconfig refs)
   }"

text \<open>
  Server-side apply: a patch of a resource, in a namespace (\<open>None\<close>: cluster scoped), by name,
  with the field manager and the force flag.
\<close>

definition kubectlApplyFieldManager :: string where "kubectlApplyFieldManager = ''kontinuum''"

type_synonym 's patcher = "string \<Rightarrow> string option \<Rightarrow> string \<Rightarrow> string \<Rightarrow> string \<Rightarrow> bool \<Rightarrow> ('s, goerr option) state"

definition applyObject :: "'s crdclients \<Rightarrow> 's patcher \<Rightarrow> string \<Rightarrow> Unstructured \<Rightarrow> ('s, goerr option) state" where
  "applyObject cc patch defaultNamespace obj = (let gvk = un_GVK obj in do {
     m \<leftarrow> cc_RESTMapping cc gvk;
     (case m of
        Inl err \<Rightarrow> return (Some (Errorf ''failed to resolve rest mapping for %s: %w'' [gvkText gvk] [err]))
      | Inr scope \<Rightarrow>
          (let namespace = (if scope = ''namespace''
                 then Some (if un_Namespace obj = '''' then defaultNamespace else un_Namespace obj) else None) in
           case un_JSON obj of
             Inl err \<Rightarrow> return (Some (Errorf ''failed to marshal %s %q: %w'' [gvkText gvk, un_Name obj] [err]))
           | Inr data \<Rightarrow> do {
               e \<leftarrow> patch (gvkText gvk) namespace (un_Name obj) data kubectlApplyFieldManager True;
               return (wrapErr ''failed to apply %s %q: %w'' [gvkText gvk, un_Name obj] e)
             }))
   })"

fun applyDocuments :: "'s crdclients \<Rightarrow> 's patcher \<Rightarrow> string \<Rightarrow> Unstructured list \<Rightarrow> goerr option \<Rightarrow> ('s, goerr option) state" where
  "applyDocuments cc patch ns [] None = return None"
| "applyDocuments cc patch ns [] (Some err) = return (Some (Errorf ''failed to decode manifest document: %w'' [] [err]))"
| "applyDocuments cc patch ns (obj # objs) final =
     (if un_Empty obj then applyDocuments cc patch ns objs final
      else andThen (applyObject cc patch ns obj) (applyDocuments cc patch ns objs final))"

definition buildApplyClients :: "'s crdlib \<Rightarrow> (string \<Rightarrow> goerr option) \<Rightarrow> string \<Rightarrow> goerr + 's crdclients" where
  "buildApplyClients kl dynamic restConfig =
     (case wrapErr ''failed to build discovery http client: %w'' [] (kl_HTTPClient kl restConfig) of
        Some err \<Rightarrow> Inl err
      | None \<Rightarrow> (case wrapErr ''failed to build rest mapper: %w'' [] (kl_RESTMapper kl restConfig) of
          Some err \<Rightarrow> Inl err
        | None \<Rightarrow> (case wrapErr ''failed to build dynamic client: %w'' [] (dynamic restConfig) of
            Some err \<Rightarrow> Inl err
          | None \<Rightarrow> Inr (kl_Clients kl restConfig))))"

definition applyManifest :: "'s crdlib \<Rightarrow> (string \<Rightarrow> goerr option) \<Rightarrow> 's patcher \<Rightarrow> decoder \<Rightarrow> string \<Rightarrow> string \<Rightarrow> string \<Rightarrow> ('s, goerr option) state" where
  "applyManifest kl dynamic patch decode kubeconfig defaultNamespace manifest = (case kl_RESTConfig kl kubeconfig of
       Inl err \<Rightarrow> return (Some (Errorf ''failed to build rest config from kubeconfig: %w'' [] [err]))
     | Inr restConfig \<Rightarrow> (case buildApplyClients kl dynamic restConfig of
         Inl err \<Rightarrow> return (Some err)
       | Inr cc \<Rightarrow> (case decode manifest of (objs, final) \<Rightarrow> applyDocuments cc patch defaultNamespace objs final)))"

definition installViaKubectlApply :: "'s helmlib \<Rightarrow> 's crdlib \<Rightarrow> (string \<Rightarrow> goerr option) \<Rightarrow> (string \<Rightarrow> goerr option) \<Rightarrow> 's patcher \<Rightarrow> decoder \<Rightarrow> 's Installer" where
  "installViaKubectlApply hm kl discovery dynamic patch decode kubeconfig req = do {
     m \<leftarrow> renderChart hm kl discovery kubeconfig req;
     (case m of
        Inl err \<Rightarrow> return (Some err)
      | Inr manifest \<Rightarrow> do {
          e \<leftarrow> applyManifest kl dynamic patch decode kubeconfig (ir_Namespace req) manifest;
          return (wrapErr ''failed to apply rendered %q manifests: %w'' [ir_ReleaseName req] e)
        })
   }"

definition helmInstall :: "'s helmlib \<Rightarrow> 's crdlib \<Rightarrow> (string \<Rightarrow> goerr option) \<Rightarrow> (string \<Rightarrow> goerr option) \<Rightarrow> 's patcher \<Rightarrow> decoder \<Rightarrow> 's Installer" where
  "helmInstall hm kl discovery dynamic patch decode kubeconfig req =
     (if ir_Method req = AddonProvisioningMethodKubectlApply then installViaKubectlApply hm kl discovery dynamic patch decode kubeconfig req
      else installViaHelm hm kubeconfig req)"

text \<open>
  The temporary file: creating it adds a new file, removing it takes it away, and no other
  call of Helm touches the temporary files.
\<close>

definition temp_files_ok :: "'s helmlib \<Rightarrow> ('s \<Rightarrow> string set) \<Rightarrow> bool" where
  "temp_files_ok hm files \<longleftrightarrow>
     (\<forall>s. case run_state (hm_CreateTemp hm) s of
        (Inl _, t) \<Rightarrow> files t = files s | (Inr f, t) \<Rightarrow> f \<notin> files s \<and> files t = insert f (files s)) \<and>
     (\<forall>f s. files (state_after (hm_Remove hm f) s) = files s - {f}) \<and>
     (\<forall>f x. quiet files (hm_Write hm f x)) \<and> (\<forall>f. quiet files (hm_Close hm f)) \<and>
     (\<forall>p n d. quiet files (hm_Init hm p n d)) \<and> quiet files (hm_Registry hm) \<and> (\<forall>c r v. quiet files (hm_Locate hm c r v)) \<and>
     (\<forall>p. quiet files (hm_Load hm p)) \<and> (\<forall>r. quiet files (hm_History hm r)) \<and>
     (\<forall>r n c v. quiet files (hm_Install hm r n c v)) \<and> (\<forall>r n m c v. quiet files (hm_Upgrade hm r n m c v))"

lemma helmUpgradeInstall_quiet:
  assumes "temp_files_ok hm files"
  shows "quiet files (helmUpgradeInstall hm path req)"
  using assms unfolding quiet_iff helmUpgradeInstall_def loadChart_def installRelease_def upgradeRelease_def temp_files_ok_def
  by (auto intro!: leaves_rules)

text \<open>However an installation ends, no temporary kubeconfig is left behind.\<close>

lemma installViaHelm_no_leak:
  assumes "temp_files_ok hm files"
  shows "files (state_after (installViaHelm hm kubeconfig req) s) = files s"
proof -
  obtain f t where f: "run_state (writeTempKubeconfig hm kubeconfig) s = (f, t)" by fastforce
  have q: "quiet files (hm_Write hm g x)" "quiet files (hm_Close hm g)" for g x using assms by (simp_all add: temp_files_ok_def)
  have r: "files (state_after (hm_Remove hm g) u) = files u - {g}" for g u using assms by (simp add: temp_files_ok_def)
  have n: "case run_state (hm_CreateTemp hm) s of (Inl _, t) \<Rightarrow> files t = files s | (Inr f, t) \<Rightarrow> f \<notin> files s \<and> files t = insert f (files s)"
    using assms by (simp add: temp_files_ok_def)
  have w: "(case f of Inl _ \<Rightarrow> files t = files s | Inr g \<Rightarrow> g \<notin> files s \<and> files t = insert g (files s))"
  proof (cases "result_of (hm_CreateTemp hm) s")
    case (Inl err)
    then show ?thesis using f n by (auto simp: writeTempKubeconfig_def split: prod.splits)
  next
    case (Inr g)
    obtain s1 e s2 c s3 where runs: "run_state (hm_CreateTemp hm) s = (Inr g, s1)" "run_state (hm_Write hm g kubeconfig) s1 = (e, s2)"
      "run_state (hm_Close hm g) s2 = (c, s3)" using Inr by (metis prod.collapse)
    have fs: "g \<notin> files s" "files s1 = insert g (files s)" "files s2 = files s1" "files s3 = files s2"
      using n runs quiet_run [OF q(1) runs(2)] quiet_run [OF q(2) runs(3)] by simp_all
    have "files (state_after (hm_Remove hm g) s3) = files s" using r [of g s3] fs by simp
    then show ?thesis using f runs fs by (cases e; cases c) (auto simp: writeTempKubeconfig_def split: prod.splits)
  qed
  show ?thesis
  proof (cases f)
    case (Inl err)
    then show ?thesis using f w by (simp add: installViaHelm_def)
  next
    case (Inr g)
    obtain e u v where runs: "run_state (helmUpgradeInstall hm g req) t = (e, u)" "run_state (hm_Remove hm g) u = ((), v)" by (metis old.prod.exhaust old.unit.exhaust)
    have "files u = files t" by (rule quiet_run [OF helmUpgradeInstall_quiet [OF assms] runs(1)])
    moreover have "files v = files u - {g}" using r [of g u] runs(2) by simp
    ultimately show ?thesis using Inr f w runs by (simp add: installViaHelm_def)
  qed
qed

end
