(* ===== verification/Crd.thy ===== *)
theory Crd
  imports AddonProbe
begin

text \<open>
  Resource definitions: \<open>crd.go\<close> and \<open>migrate.go\<close> of \<open>pkg/crd\<close> with the two callers
  \<open>pkg/domain/registry/crd.go\<close> and \<open>pkg/domain/instance/crd.go\<close>.  A definition is applied,
  waited for, and, when its scope changed, its objects are drained and recreated.  The
  manifests are generated files; they, the YAML decoder, the clients and the retry helper of
  apimachinery are the parameter \<open>crdenv\<close>.  A computation that may panic has an optional
  result, \<open>None\<close> being the panic.
\<close>

section \<open>Definitions\<close>

record ConversionWebhook =
  cw_Path :: string
  cw_DNSName :: string
  cw_Port :: int
  cw_CABundle :: string

record Definition =
  df_Name :: string
  df_ManifestFile :: string
  df_GVKs :: "GroupVersionKind list"
  df_Conversion :: "ConversionWebhook option"

record CustomResourceConversion =
  cv_Strategy :: string
  cv_URL :: string
  cv_CABundle :: string
  cv_ReviewVersions :: "string list"

text \<open>The fields of a spec the code does not look at are \<open>sp_More\<close>.\<close>

record 'x CustomResourceDefinitionSpec =
  sp_Scope :: string
  sp_Conversion :: "CustomResourceConversion option"
  sp_More :: 'x

record 'x CustomResourceDefinition =
  crd_meta :: ObjectMeta
  crd_Spec :: "'x CustomResourceDefinitionSpec"
  crd_Conditions :: "(string \<times> string) list"

definition ClusterScoped :: string where "ClusterScoped = ''Cluster''"

definition NamespaceScoped :: string where "NamespaceScoped = ''Namespaced''"

text \<open>\<open>wait.Backoff\<close> without jitter.\<close>

record Backoff =
  bo_Duration :: int
  bo_Factor :: int
  bo_Cap :: int
  bo_Steps :: int

definition establishTimeout :: int where "establishTimeout = 10 * second"

definition crdPollInterval :: int where "crdPollInterval = 100 * (second div 1000)"

definition maxPollInterval :: int where "maxPollInterval = 2 * second"

definition backoffFactor :: int where "backoffFactor = 2"

definition migrateDeleteTimeout :: int where "migrateDeleteTimeout = 30 * second"

definition crdBackoff :: Backoff where
  "crdBackoff = \<lparr>bo_Duration = crdPollInterval, bo_Factor = backoffFactor, bo_Cap = maxPollInterval, bo_Steps = 2147483647\<rparr>"

section \<open>What is outside\<close>

record ('s, 'x) crdapi =
  ca_Get :: "string \<Rightarrow> ('s, goerr + 'x CustomResourceDefinition) state"
  ca_Create :: "'x CustomResourceDefinition \<Rightarrow> ('s, goerr + 'x CustomResourceDefinition) state"
  ca_Update :: "'x CustomResourceDefinition \<Rightarrow> ('s, goerr + 'x CustomResourceDefinition) state"
  ca_Delete :: "string \<Rightarrow> ('s, goerr option) state"

text \<open>An object read without its Go type: \<open>mo_More\<close> holds its fields other than the metadata and the status.\<close>

record MigratedObject =
  mo_GVK :: GroupVersionKind
  mo_meta :: ObjectMeta
  mo_Generation :: int
  mo_ManagedFields :: "string list"
  mo_Status :: "jval option"
  mo_More :: jmap

record 's objclient =
  oc_List :: "GroupVersionKind \<Rightarrow> ('s, goerr + MigratedObject list) state"
  oc_Create :: "MigratedObject \<Rightarrow> ('s, goerr + MigratedObject) state"
  oc_UpdateStatus :: "MigratedObject \<Rightarrow> ('s, goerr + MigratedObject) state"

record ('s, 'x) crdenv =
  ce_ReadFile :: "string \<Rightarrow> goerr + string"
  ce_Unmarshal :: "string \<Rightarrow> goerr + 'x CustomResourceDefinition"
  ce_Apiextensions :: "goerr + ('s, 'x) crdapi"
  ce_HTTPClient :: "goerr option"
  ce_RESTMapper :: "goerr + (GroupVersionKind \<Rightarrow> ('s, goerr option) state)"
  ce_IsNoMatch :: "goerr \<Rightarrow> bool"
  ce_NewClient :: "goerr + 's objclient"
  ce_Retry :: "int \<Rightarrow> Backoff \<Rightarrow> ('s, (goerr + bool) option) state \<Rightarrow> ('s, goerr option option) state"

text \<open>The next step, unless there was a panic or an error.\<close>

definition unlessFailed :: "('s, goerr option option) state \<Rightarrow> (goerr \<Rightarrow> goerr) \<Rightarrow> ('s, goerr option option) state \<Rightarrow> ('s, goerr option option) state" where
  "unlessFailed m wrapped k = do {
     r \<leftarrow> m;
     (case r of None \<Rightarrow> return None | Some (Some err) \<Rightarrow> return (Some (Some (wrapped err))) | Some None \<Rightarrow> k)
   }"

section \<open>Building and applying\<close>

definition conversionFor :: "ConversionWebhook \<Rightarrow> CustomResourceConversion" where
  "conversionFor cw = \<lparr>cv_Strategy = ''Webhook'',
     cv_URL = ''https://'' @ joinHostPort (cw_DNSName cw) (itoa (cw_Port cw)) @ cw_Path cw,
     cv_CABundle = cw_CABundle cw, cv_ReviewVersions = [''v1'']\<rparr>"

definition BuildCRD :: "('s, 'x) crdenv \<Rightarrow> Definition \<Rightarrow> 'x CustomResourceDefinition option" where
  "BuildCRD env def = (case ce_ReadFile env (df_ManifestFile def) of
       Inl err \<Rightarrow> None
     | Inr manifest \<Rightarrow> (case ce_Unmarshal env manifest of
         Inl err \<Rightarrow> None
       | Inr crdObj \<Rightarrow> Some (case df_Conversion def of
           None \<Rightarrow> crdObj
         | Some cw \<Rightarrow> crdObj\<lparr>crd_Spec := (crd_Spec crdObj)\<lparr>sp_Conversion := Some (conversionFor cw)\<rparr>\<rparr>)))"

definition Apply :: "('s, 'x) crdenv \<Rightarrow> ('s, 'x) crdapi \<Rightarrow> Definition \<Rightarrow> ('s, goerr option option) state" where
  "Apply env crds def = (case BuildCRD env def of
       None \<Rightarrow> return None
     | Some desired \<Rightarrow> do {
         c \<leftarrow> ca_Create crds desired;
         (case c of
            Inr _ \<Rightarrow> return (Some None)
          | Inl err \<Rightarrow>
              if \<not> isAlreadyExists err then return (Some (Some (Errorf ''failed to create %s crd: %w'' [df_Name def] [err])))
              else do {
                g \<leftarrow> ca_Get crds (df_Name def);
                (case g of
                   Inl err \<Rightarrow> return (Some (Some (Errorf ''failed to fetch existing %s crd: %w'' [df_Name def] [err])))
                 | Inr existing \<Rightarrow>
                     if crd_Spec existing = crd_Spec desired then return (Some None)
                     else do {
                       u \<leftarrow> ca_Update crds (existing\<lparr>crd_Spec := crd_Spec desired\<rparr>);
                       (case u of
                          Inl err \<Rightarrow> return (Some (Some (Errorf ''failed to update existing %s crd: %w'' [df_Name def] [err])))
                        | Inr _ \<Rightarrow> return (Some None))
                     })
              })
       })"

definition established :: "'x CustomResourceDefinition \<Rightarrow> bool" where
  "established crdObj \<longleftrightarrow> (\<exists>c\<in>set (crd_Conditions crdObj). c = (''Established'', ''True''))"

text \<open>One attempt: a failed apply or fetch only means that it is tried again.\<close>

definition establishAttempt :: "('s, 'x) crdenv \<Rightarrow> ('s, 'x) crdapi \<Rightarrow> Definition \<Rightarrow> ('s, (goerr + bool) option) state" where
  "establishAttempt env crds def = do {
     a \<leftarrow> Apply env crds def;
     (case a of
        None \<Rightarrow> return None
      | Some (Some err) \<Rightarrow> return (Some (Inr False))
      | Some None \<Rightarrow> do {
          g \<leftarrow> ca_Get crds (df_Name def);
          (case g of
             Inl err \<Rightarrow> return (Some (Inr False))
           | Inr crdObj \<Rightarrow> return (Some (Inr (established crdObj))))
        })
   }"

definition ensureEstablished :: "('s, 'x) crdenv \<Rightarrow> ('s, 'x) crdapi \<Rightarrow> Definition \<Rightarrow> ('s, goerr option option) state" where
  "ensureEstablished env crds def =
     unlessFailed (ce_Retry env establishTimeout crdBackoff (establishAttempt env crds def))
       (\<lambda>err. Errorf ''%s crd was never created and established: %w'' [df_Name def] [err])
       (return (Some None))"

section \<open>Waiting for discovery\<close>

definition discoverAttempt :: "('s, 'x) crdenv \<Rightarrow> (GroupVersionKind \<Rightarrow> ('s, goerr option) state) \<Rightarrow> Definition \<Rightarrow> GroupVersionKind \<Rightarrow>
    ('s, (goerr + bool) option) state" where
  "discoverAttempt env mapper def gvk = do {
     e \<leftarrow> mapper gvk;
     (case e of
        None \<Rightarrow> return (Some (Inr True))
      | Some err \<Rightarrow>
          if ce_IsNoMatch env err then return (Some (Inr False))
          else return (Some (Inl (Errorf ''failed to resolve %s rest mapping for %s: %w'' [df_Name def, gvk_Version gvk] [err]))))
   }"

definition waitForGVKDiscoverable :: "('s, 'x) crdenv \<Rightarrow> (GroupVersionKind \<Rightarrow> ('s, goerr option) state) \<Rightarrow> Definition \<Rightarrow> GroupVersionKind \<Rightarrow>
    ('s, goerr option option) state" where
  "waitForGVKDiscoverable env mapper def gvk =
     unlessFailed (ce_Retry env establishTimeout crdBackoff (discoverAttempt env mapper def gvk))
       (\<lambda>err. Errorf ''%s was never resolvable via the rest mapper for %s: %w'' [df_Name def, gvk_Version gvk] [err])
       (return (Some None))"

fun discoverAll :: "('s, 'x) crdenv \<Rightarrow> (GroupVersionKind \<Rightarrow> ('s, goerr option) state) \<Rightarrow> Definition \<Rightarrow> GroupVersionKind list \<Rightarrow>
    ('s, goerr option option) state" where
  "discoverAll env mapper def [] = return (Some None)"
| "discoverAll env mapper def (gvk # gvks) =
     unlessFailed (waitForGVKDiscoverable env mapper def gvk) id (discoverAll env mapper def gvks)"

definition waitForDiscoverable :: "('s, 'x) crdenv \<Rightarrow> Definition \<Rightarrow> ('s, goerr option option) state" where
  "waitForDiscoverable env def = (case ce_HTTPClient env of
       Some err \<Rightarrow> return (Some (Some (Errorf ''failed to build discovery http client: %w'' [] [err])))
     | None \<Rightarrow> (case ce_RESTMapper env of
         Inl err \<Rightarrow> return (Some (Some (Errorf ''failed to build rest mapper: %w'' [] [err])))
       | Inr mapper \<Rightarrow> discoverAll env mapper def (df_GVKs def)))"

text \<open>\<open>Ensure\<close>: the definition exists, is established, and its kinds resolve.\<close>

definition EnsureDefinition :: "('s, 'x) crdenv \<Rightarrow> Definition \<Rightarrow> ('s, goerr option option) state" where
  "EnsureDefinition env def = (case ce_Apiextensions env of
       Inl err \<Rightarrow> return (Some (Some (Errorf ''failed to build apiextensions client: %w'' [] [err])))
     | Inr crds \<Rightarrow> unlessFailed (ensureEstablished env crds def) id (waitForDiscoverable env def))"

section \<open>Changing the scope\<close>

definition newUnstructuredClient :: "('s, 'x) crdenv \<Rightarrow> goerr + 's objclient" where
  "newUnstructuredClient env = (case ce_HTTPClient env of
       Some err \<Rightarrow> Inl (Errorf ''failed to build http client: %w'' [] [err])
     | None \<Rightarrow> (case ce_RESTMapper env of
         Inl err \<Rightarrow> Inl (Errorf ''failed to build rest mapper: %w'' [] [err])
       | Inr _ \<Rightarrow> (case ce_NewClient env of
           Inl err \<Rightarrow> Inl (Errorf ''failed to build client: %w'' [] [err])
         | Inr kubeClient \<Rightarrow> Inr kubeClient)))"

definition listExisting :: "('s, 'x) crdenv \<Rightarrow> GroupVersionKind \<Rightarrow> ('s, goerr + MigratedObject list) state" where
  "listExisting env listKind = (case newUnstructuredClient env of
       Inl err \<Rightarrow> return (Inl err)
     | Inr kubeClient \<Rightarrow> do {
         l \<leftarrow> oc_List kubeClient listKind;
         (case l of
            Inl err \<Rightarrow> return (Inl (Errorf ''failed to list %s: %w'' [gvk_Kind listKind] [err]))
          | Inr items \<Rightarrow> return (Inr items))
       })"

text \<open>\<open>def.GVKs[0]\<close> panics when there is none.\<close>

definition drainExisting :: "('s, 'x) crdenv \<Rightarrow> Definition \<Rightarrow> ('s, (goerr + MigratedObject list) option) state" where
  "drainExisting env def = do {
     w \<leftarrow> waitForDiscoverable env def;
     (case w of
        None \<Rightarrow> return None
      | Some (Some err) \<Rightarrow> return (Some (Inl (Errorf ''failed waiting for existing %s to become discoverable before migrating: %w'' [df_Name def] [err])))
      | Some None \<Rightarrow> (case df_GVKs def of
          [] \<Rightarrow> return None
        | kind # _ \<Rightarrow> do {
            l \<leftarrow> listExisting env (kind\<lparr>gvk_Kind := gvk_Kind kind @ ''List''\<rparr>);
            (case l of
               Inl err \<Rightarrow> return (Some (Inl (Errorf ''failed to list existing %s objects before migrating: %w'' [df_Name def] [err])))
             | Inr items \<Rightarrow> return (Some (Inr items)))
          }))
   }"

definition deletedAttempt :: "('s, 'x) crdapi \<Rightarrow> string \<Rightarrow> ('s, (goerr + bool) option) state" where
  "deletedAttempt crds name = do {
     g \<leftarrow> ca_Get crds name;
     (case g of
        Inl err \<Rightarrow> if isNotFound err then return (Some (Inr True))
          else return (Some (Inl (Errorf ''failed to check %s crd deletion: %w'' [name] [err])))
      | Inr _ \<Rightarrow> return (Some (Inr False)))
   }"

definition waitForDeleted :: "('s, 'x) crdenv \<Rightarrow> ('s, 'x) crdapi \<Rightarrow> string \<Rightarrow> ('s, goerr option option) state" where
  "waitForDeleted env crds name =
     unlessFailed (ce_Retry env migrateDeleteTimeout crdBackoff (deletedAttempt crds name))
       (\<lambda>err. Errorf ''%s crd was never fully deleted while migrating its scope: %w'' [name] [err])
       (return (Some None))"

definition deleteForMigration :: "('s, 'x) crdenv \<Rightarrow> ('s, 'x) crdapi \<Rightarrow> Definition \<Rightarrow> MigratedObject list \<Rightarrow>
    ('s, (goerr + MigratedObject list) option) state" where
  "deleteForMigration env crds def items = do {
     d \<leftarrow> ca_Delete crds (df_Name def);
     (case d of
        Some err \<Rightarrow> if \<not> isNotFound err then return (Some (Inl (Errorf ''failed to delete %s crd to migrate its scope: %w'' [df_Name def] [err])))
          else do { w \<leftarrow> waitForDeleted env crds (df_Name def);
                    return (case w of None \<Rightarrow> None | Some (Some err) \<Rightarrow> Some (Inl err) | Some None \<Rightarrow> Some (Inr items)) }
      | None \<Rightarrow> do { w \<leftarrow> waitForDeleted env crds (df_Name def);
                    return (case w of None \<Rightarrow> None | Some (Some err) \<Rightarrow> Some (Inl err) | Some None \<Rightarrow> Some (Inr items)) })
   }"

definition MigrateScope :: "('s, 'x) crdenv \<Rightarrow> Definition \<Rightarrow> ('s, (goerr + MigratedObject list) option) state" where
  "MigrateScope env def = (case ce_Apiextensions env of
       Inl err \<Rightarrow> return (Some (Inl (Errorf ''failed to build apiextensions client: %w'' [] [err])))
     | Inr crds \<Rightarrow> do {
         g \<leftarrow> ca_Get crds (df_Name def);
         (case g of
            Inl err \<Rightarrow> if isNotFound err then return (Some (Inr []))
              else return (Some (Inl (Errorf ''failed to fetch existing %s crd: %w'' [df_Name def] [err])))
          | Inr existing \<Rightarrow> (case BuildCRD env def of
              None \<Rightarrow> return None
            | Some desired \<Rightarrow>
                if sp_Scope (crd_Spec existing) \<noteq> ClusterScoped \<or> sp_Scope (crd_Spec desired) \<noteq> NamespaceScoped
                then return (Some (Inr []))
                else do {
                  l \<leftarrow> drainExisting env def;
                  (case l of
                     None \<Rightarrow> return None
                   | Some (Inl err) \<Rightarrow> return (Some (Inl err))
                   | Some (Inr items) \<Rightarrow> deleteForMigration env crds def items)
                }))
       })"

text \<open>
  \<open>restoreOne\<close> and \<open>RestoreMigrated\<close>.  A \<open>Create\<close> that succeeds writes the stored object back
  into its argument; the status is put into that object for the second call.
\<close>

definition accessorError :: goerr where
  "accessorError = Sentinel ''.status accessor error: not of the type map[string]interface{}''"

definition stripped :: "string \<Rightarrow> MigratedObject \<Rightarrow> MigratedObject" where
  "stripped namespace item = item\<lparr>mo_meta := (mo_meta item)\<lparr>om_Namespace := namespace, om_ResourceVersion := '''', om_UID := ''''\<rparr>,
     mo_Generation := 0, mo_ManagedFields := [], mo_Status := None\<rparr>"

definition restoreOne :: "'s objclient \<Rightarrow> string \<Rightarrow> MigratedObject \<Rightarrow> ('s, goerr option) state" where
  "restoreOne kubeClient namespace item =
     (let kind = gvk_Kind (mo_GVK item); name = om_Name (mo_meta item) in
      case mo_Status item of
        Some v \<Rightarrow> (case v of
            JMap status \<Rightarrow> do {
              k \<leftarrow> oc_Create kubeClient (stripped namespace item);
              (case k of
                 Inl err \<Rightarrow> if isAlreadyExists err then return None
                   else return (Some (Errorf ''failed to recreate migrated %s %q in %q: %w'' [kind, name, namespace] [err]))
               | Inr obj \<Rightarrow> do {
                   u \<leftarrow> oc_UpdateStatus kubeClient (obj\<lparr>mo_Status := Some (JMap status)\<rparr>);
                   (case u of
                      Inl err \<Rightarrow> return (Some (Errorf ''failed to restore status for %s %q: %w'' [kind, name] [err]))
                    | Inr _ \<Rightarrow> return None)
                 })
            }
          | _ \<Rightarrow> return (Some (Errorf ''failed to read status off migrated %s %q: %w'' [kind, name] [accessorError])))
      | None \<Rightarrow> do {
          k \<leftarrow> oc_Create kubeClient (stripped namespace item);
          (case k of
             Inl err \<Rightarrow> if isAlreadyExists err then return None
               else return (Some (Errorf ''failed to recreate migrated %s %q in %q: %w'' [kind, name, namespace] [err]))
           | Inr obj \<Rightarrow> return None)
        })"

fun restoreLoop :: "'s objclient \<Rightarrow> string \<Rightarrow> MigratedObject list \<Rightarrow> ('s, goerr option) state" where
  "restoreLoop kubeClient namespace [] = return None"
| "restoreLoop kubeClient namespace (item # items) = do {
     e \<leftarrow> restoreOne kubeClient namespace item;
     (case e of Some err \<Rightarrow> return (Some err) | None \<Rightarrow> restoreLoop kubeClient namespace items)
   }"

definition RestoreMigrated :: "('s, 'x) crdenv \<Rightarrow> MigratedObject list \<Rightarrow> string \<Rightarrow> ('s, goerr option) state" where
  "RestoreMigrated env items namespace =
     (if length items = 0 then return None
      else (case newUnstructuredClient env of
          Inl err \<Rightarrow> return (Some err)
        | Inr kubeClient \<Rightarrow> restoreLoop kubeClient namespace items))"

section \<open>The callers\<close>

text \<open>The body both callers share: migrate, ensure, restore.\<close>

definition ensureCRD :: "('s, 'x) crdenv \<Rightarrow> Definition \<Rightarrow> ('s, goerr option option) state" where
  "ensureCRD env def = do {
     m \<leftarrow> MigrateScope env def;
     (case m of
        None \<Rightarrow> return None
      | Some (Inl err) \<Rightarrow> return (Some (Some (Errorf ''failed to migrate %s crd scope: %w'' [df_Name def] [err])))
      | Some (Inr migrated) \<Rightarrow>
          unlessFailed (EnsureDefinition env def) (\<lambda>err. Errorf ''failed to ensure %s crd: %w'' [df_Name def] [err])
            (do {
              e \<leftarrow> RestoreMigrated env migrated KontinuumSystemNamespace;
              (case e of
                 Some err \<Rightarrow> return (Some (Some (Errorf ''failed to restore migrated %s objects: %w'' [df_Name def] [err])))
               | None \<Rightarrow> return (Some None))
            }))
   }"

text \<open>\<open>pkg/domain/registry/crd.go\<close>\<close>

definition apiGroupName :: string where "apiGroupName = ''kontinuum.sh''"

definition gvkOf :: "string \<Rightarrow> string \<Rightarrow> GroupVersionKind" where
  "gvkOf version kind = \<lparr>gvk_Group = apiGroupName, gvk_Version = version, gvk_Kind = kind\<rparr>"

definition ConversionWebhookPort :: int where "ConversionWebhookPort = 9443"

definition conversionWebhookDNSName :: string where "conversionWebhookDNSName = ''localhost''"

definition conversionWebhookPath :: string where "conversionWebhookPath = ''/convert''"

definition crdName :: string where "crdName = ''kontinuums'' @ ''.'' @ apiGroupName"

definition kontinuumDefinition :: "string \<Rightarrow> Definition" where
  "kontinuumDefinition caBundle = \<lparr>df_Name = crdName, df_ManifestFile = ''kontinuum.sh_kontinuums.yaml'',
     df_GVKs = [gvkOf ''v1alpha2'' ''Kontinuum'', gvkOf ''v1alpha1'' ''Kontinuum''],
     df_Conversion = Some \<lparr>cw_Path = conversionWebhookPath, cw_DNSName = conversionWebhookDNSName,
       cw_Port = ConversionWebhookPort, cw_CABundle = caBundle\<rparr>\<rparr>"

definition kontinuumCRD :: "('s, 'x) crdenv \<Rightarrow> string \<Rightarrow> 'x CustomResourceDefinition option" where
  "kontinuumCRD env caBundle = BuildCRD env (kontinuumDefinition caBundle)"

definition EnsureCRD :: "('s, 'x) crdenv \<Rightarrow> string \<Rightarrow> ('s, goerr option option) state" where
  "EnsureCRD env caBundle = ensureCRD env (kontinuumDefinition caBundle)"

definition ApplyCRD :: "('s, 'x) crdenv \<Rightarrow> ('s, 'x) crdapi \<Rightarrow> string \<Rightarrow> ('s, goerr option option) state" where
  "ApplyCRD env crds caBundle =
     unlessFailed (Apply env crds (kontinuumDefinition caBundle)) (\<lambda>err. Errorf ''failed to apply %s crd: %w'' [crdName] [err]) (return (Some None))"

text \<open>\<open>pkg/domain/instance/crd.go\<close>\<close>

definition instanceDefinitions :: "Definition list" where
  "instanceDefinitions = map (\<lambda>(plural, kind). \<lparr>df_Name = plural @ ''.kontinuum.sh'', df_ManifestFile = ''kontinuum.sh_'' @ plural @ ''.yaml'',
       df_GVKs = [gvkOf ''v1alpha2'' kind], df_Conversion = None\<rparr>)
     [(''zones'', ''Zone''), (''instances'', ''Instance''), (''instancepools'', ''InstancePool''),
      (''talosclusters'', ''TalosCluster''), (''addons'', ''Addon'')]"

fun ensureCRDLoop :: "('s, 'x) crdenv \<Rightarrow> Definition list \<Rightarrow> ('s, goerr option option) state" where
  "ensureCRDLoop env [] = return (Some None)"
| "ensureCRDLoop env (def # defs) = unlessFailed (ensureCRD env def) id (ensureCRDLoop env defs)"

definition EnsureCRDs :: "('s, 'x) crdenv \<Rightarrow> ('s, goerr option option) state" where
  "EnsureCRDs env = ensureCRDLoop env instanceDefinitions"

section \<open>The retry helper\<close>

text \<open>
  What \<open>wait.Backoff\<close> documents: every attempt but the last is followed by a wait, the wait
  grows by the factor, and when the next one would exceed the cap the steps are set to zero,
  so the attempt before that was the last.  \<open>ExponentialBackoffWithContext\<close> ends with the
  first attempt that answers true or fails, and otherwise with an error, earlier when the
  deadline passes.
\<close>

function waitsFrom :: "int \<Rightarrow> int \<Rightarrow> int \<Rightarrow> int \<Rightarrow> int list" where
  "waitsFrom steps duration factor cap =
     (if steps \<le> 0 then []
      else if steps = 1 then [0]
      else if 0 < cap \<and> cap < duration * factor then [duration]
      else duration # waitsFrom (steps - 1) (duration * factor) factor cap)"
  by pat_completeness auto
termination by (relation "measure (\<lambda>(steps, _). nat steps)") auto

declare waitsFrom.simps [simp del]

fun tryWaits :: "goerr \<Rightarrow> (int \<Rightarrow> ('s, unit) state) \<Rightarrow> int list \<Rightarrow> ('s, (goerr + bool) option) state \<Rightarrow> ('s, goerr option option) state" where
  "tryWaits err sleep [] act = return (Some (Some err))"
| "tryWaits err sleep (d # ds) act = do {
     r \<leftarrow> act;
     (case r of
        None \<Rightarrow> return None
      | Some (Inl failure) \<Rightarrow> return (Some (Some failure))
      | Some (Inr ok) \<Rightarrow> if ok then return (Some None) else do { _ \<leftarrow> sleep d; tryWaits err sleep ds act })
   }"

definition retry_documented :: "(int \<Rightarrow> Backoff \<Rightarrow> ('s, (goerr + bool) option) state \<Rightarrow> ('s, goerr option option) state) \<Rightarrow>
    (int \<Rightarrow> ('s, unit) state) \<Rightarrow> bool" where
  "retry_documented retry sleep \<longleftrightarrow> (\<forall>timeout b act s. 0 \<le> bo_Duration b \<longrightarrow> 0 \<le> bo_Factor b \<longrightarrow> (\<exists>ws err.
     (let ds = waitsFrom (bo_Steps b) (bo_Duration b) (bo_Factor b) (bo_Cap b) in
        length ws \<le> length ds \<and> list_all2 (\<lambda>w d. 0 \<le> w \<and> w \<le> d) ws (take (length ws) ds)) \<and>
     run_state (retry timeout b act) s = run_state (tryWaits err sleep ws act) s))"

lemma crdBackoff_waits:
  "waitsFrom (bo_Steps crdBackoff) (bo_Duration crdBackoff) (bo_Factor crdBackoff) (bo_Cap crdBackoff) =
   [100000000, 200000000, 400000000, 800000000, 1600000000]"
  by (simp add: crdBackoff_def crdPollInterval_def backoffFactor_def maxPollInterval_def second_def waitsFrom.simps)

lemma retry_run:
  assumes "retry_documented retry sleep"
  obtains ws err where "length ws \<le> length [100000000, 200000000, 400000000, 800000000, 1600000000 :: int]"
    "list_all2 (\<lambda>w d. 0 \<le> w \<and> w \<le> d) ws (take (length ws) [100000000, 200000000, 400000000, 800000000, 1600000000])"
    "run_state (retry timeout crdBackoff act) s = run_state (tryWaits err sleep ws act) s"
proof -
  have "0 \<le> bo_Duration crdBackoff" "0 \<le> bo_Factor crdBackoff"
    by (simp_all add: crdBackoff_def crdPollInterval_def backoffFactor_def second_def)
  with assms have "\<exists>ws err. (let ds = waitsFrom (bo_Steps crdBackoff) (bo_Duration crdBackoff) (bo_Factor crdBackoff) (bo_Cap crdBackoff) in
        length ws \<le> length ds \<and> list_all2 (\<lambda>w d. 0 \<le> w \<and> w \<le> d) ws (take (length ws) ds)) \<and>
     run_state (retry timeout crdBackoff act) s = run_state (tryWaits err sleep ws act) s"
    unfolding retry_documented_def by blast
  then show ?thesis using that unfolding crdBackoff_waits Let_def by blast
qed

lemma tryWaits_leaves:
  assumes "leaves P act" and "\<And>d. leaves P (sleep d)"
  shows "leaves P (tryWaits err sleep ws act)"
  by (induction ws) (auto intro!: leaves_rules assms split: option.split sum.split)

lemma retry_leaves:
  assumes "retry_documented retry sleep" and "leaves P act" and "\<And>d. leaves P (sleep d)"
  shows "leaves P (retry timeout crdBackoff act)"
proof (rule leavesI)
  fix s assume p: "P s"
  obtain ws err where "run_state (retry timeout crdBackoff act) s = run_state (tryWaits err sleep ws act) s"
    using retry_run [OF assms(1)] by metis
  then show "P (state_after (retry timeout crdBackoff act) s)" using leavesD [OF tryWaits_leaves [OF assms(2,3)] p] by simp
qed

lemma tryWaits_done:
  assumes "run_state (tryWaits err sleep ws act) s = (Some None, t)"
  shows "\<exists>u. run_state act u = (Some (Inr True), t)"
  using assms
proof (induction ws arbitrary: s)
  case (Cons d ds)
  obtain r u where u: "run_state act s = (r, u)" by fastforce
  show ?case
  proof (cases "r = Some (Inr False)")
    case True
    then have "run_state (tryWaits err sleep ds act) (state_after (sleep d) u) = (Some None, t)"
      using Cons.prems u by (simp add: split_def)
    then show ?thesis by (rule Cons.IH)
  next
    case False
    then show ?thesis using Cons.prems u by (auto split: option.splits sum.splits if_splits)
  qed
qed simp

lemma retry_done:
  assumes "retry_documented retry sleep" and "run_state (retry timeout crdBackoff act) s = (Some None, t)"
  shows "\<exists>u. run_state act u = (Some (Inr True), t)"
  using retry_run [OF assms(1), of timeout act s] assms(2) tryWaits_done by metis

lemma unlessFailed_leaves [leaves_rules]: "leaves P m \<Longrightarrow> leaves P k \<Longrightarrow> leaves P (unlessFailed m wrapped k)"
  unfolding unlessFailed_def by (auto intro!: leaves_rules split: option.split)

lemma unlessFailed_done:
  assumes "run_state (unlessFailed m wrapped k) s = (Some None, t)"
  obtains u where "run_state m s = (Some None, u)" "run_state k u = (Some None, t)"
  using assms by (cases "run_state m s") (auto simp: unlessFailed_def split: option.splits)

section \<open>Waiting gives up early\<close>

lemma waits_sum:
  "list_all2 (\<lambda>w d. 0 \<le> w \<and> w \<le> (d :: int)) ws (take (length ws) ds) \<Longrightarrow> length ws \<le> length ds \<Longrightarrow> \<forall>d\<in>set ds. 0 \<le> d \<Longrightarrow>
   sum_list (butlast ws) \<le> sum_list (butlast ds) \<and> (\<forall>w\<in>set ws. 0 \<le> w)"
proof (induction ws arbitrary: ds)
  case Nil
  then show ?case by (auto intro: sum_list_nonneg dest: in_set_butlastD)
next
  case (Cons w ws)
  obtain d ds' where ds: "ds = d # ds'" using Cons.prems by (cases ds) auto
  have ih: "sum_list (butlast ws) \<le> sum_list (butlast ds') \<and> (\<forall>w\<in>set ws. 0 \<le> w)"
    by (rule Cons.IH) (use Cons.prems ds in auto)
  have "0 \<le> sum_list (butlast ds')" using Cons.prems(3) ds by (auto intro!: sum_list_nonneg dest: in_set_butlastD)
  then show ?case using Cons.prems ds ih by (cases "ws = []"; cases "ds' = []") auto
qed

lemma tryWaits_late:
  assumes late: "\<And>s. slept s \<le> B \<Longrightarrow> result_of act s \<noteq> None \<and> result_of act s \<noteq> Some (Inr True)"
    and quiet: "\<And>s. slept (state_after act s) = slept s" and sl: "\<And>d s. slept (state_after (sleep d) s) = slept s + d"
  shows "slept s + sum_list (butlast ws) \<le> B \<Longrightarrow> \<forall>w\<in>set ws. 0 \<le> w \<Longrightarrow> \<exists>e. result_of (tryWaits err sleep ws act) s = Some (Some e)"
proof (induction ws arbitrary: s)
  case (Cons d ds)
  obtain r u where u: "run_state act s = (r, u)" by fastforce
  have n: "0 \<le> sum_list (butlast (d # ds))"
    by (rule sum_list_nonneg) (use Cons.prems(2) in \<open>auto dest: in_set_butlastD split: if_splits\<close>)
  then have "slept s \<le> B" using Cons.prems(1) by linarith
  then have r: "r \<noteq> None" "r \<noteq> Some (Inr True)" using late [of s] u by simp_all
  have "\<exists>e. result_of (tryWaits err sleep ds act) (state_after (sleep d) u) = Some (Some e)"
  proof (cases "ds = []")
    case False
    then have "slept (state_after (sleep d) u) + sum_list (butlast ds) \<le> B"
      using Cons.prems(1) sl [of d u] quiet [of s] u by simp
    then show ?thesis using Cons.IH Cons.prems(2) by simp
  qed simp
  then show ?case using r u by (auto simp: split_def split: option.splits sum.splits)
qed simp

text \<open>
  C29: Start-up gives up on a resource definition after five attempts.  The waits between
  attempts are at most 0.1, 0.2, 0.4 and 0.8 seconds: a definition that is not yet
  established after 1.5 seconds of waiting makes \<open>Ensure\<close> fail, although the code and its
  comments allow \<open>establishTimeout\<close>, ten seconds.
\<close>

theorem crd_wait_gives_up:
  assumes rd: "retry_documented (ce_Retry env) sleep" and api: "ce_Apiextensions env = Inr crds" and built: "BuildCRD env def = Some desired"
    and sl: "\<And>d s. slept (state_after (sleep d) s) = slept s + d"
    and quiet: "\<And>n s. slept (state_after (ca_Get crds n) s) = slept s" "\<And>c s. slept (state_after (ca_Create crds c) s) = slept s"
      "\<And>c s. slept (state_after (ca_Update crds c) s) = slept s"
    and late: "\<And>s c. slept s \<le> 1500 * (second div 1000) \<Longrightarrow> result_of (ca_Get crds (df_Name def)) s = Inr c \<Longrightarrow> \<not> established c"
    and start: "slept s = 0"
  shows "\<exists>err. result_of (EnsureDefinition env def) s = Some (Some err) \<and> 1500 * (second div 1000) < establishTimeout"
proof -
  have q1: "slept (state_after (Apply env crds def) u) = slept u" "result_of (Apply env crds def) u \<noteq> None" for u
    by (auto simp: Apply_def built quiet split_def split: sum.splits)
  have a: "slept (state_after (establishAttempt env crds def) u) = slept u" for u
    by (auto simp: establishAttempt_def q1 quiet split_def split: option.split sum.split)
  have "result_of (establishAttempt env crds def) u \<noteq> None \<and> result_of (establishAttempt env crds def) u \<noteq> Some (Inr True)"
    if "slept u \<le> 1500 * (second div 1000)" for u
    using q1(2) [of u] late [of "state_after (Apply env crds def) u"] that q1(1) [of u]
    by (auto simp: establishAttempt_def split_def split: option.splits sum.splits)
  note late' = tryWaits_late [where slept = slept and sleep = sleep and act = "establishAttempt env crds def", OF this a sl]
  obtain ws err where w: "length ws \<le> length [100000000, 200000000, 400000000, 800000000, 1600000000 :: int]" "list_all2 (\<lambda>w d. 0 \<le> w \<and> w \<le> d) ws (take (length ws) [100000000, 200000000, 400000000, 800000000, 1600000000])"
    "run_state (ce_Retry env establishTimeout crdBackoff (establishAttempt env crds def)) s = run_state (tryWaits err sleep ws (establishAttempt env crds def)) s"
    by (rule retry_run [OF rd, of establishTimeout "establishAttempt env crds def" s])
  have "slept s + sum_list (butlast ws) \<le> 1500 * (second div 1000)" "\<forall>x\<in>set ws. 0 \<le> x"
    using waits_sum [OF w(2)] w(1) start by (simp_all add: second_def)
  then obtain e where "result_of (tryWaits err sleep ws (establishAttempt env crds def)) s = Some (Some e)" using late' by blast
  then show ?thesis using w(3) by (auto simp: EnsureDefinition_def api ensureEstablished_def unlessFailed_def split_def establishTimeout_def second_def)
qed

section \<open>A migration keeps every object\<close>

definition sameObject :: "MigratedObject \<Rightarrow> MigratedObject \<Rightarrow> bool" where
  "sameObject x y \<longleftrightarrow> mo_GVK x = mo_GVK y \<and> om_Name (mo_meta x) = om_Name (mo_meta y) \<and> om_Labels (mo_meta x) = om_Labels (mo_meta y) \<and>
     om_Annotations (mo_meta x) = om_Annotations (mo_meta y) \<and> om_Finalizers (mo_meta x) = om_Finalizers (mo_meta y) \<and>
     om_OwnerReferences (mo_meta x) = om_OwnerReferences (mo_meta y) \<and> mo_More x = mo_More y"

text \<open>
  A server's view of the objects of one kind: a list shows all of them, a create needs a free
  name and stores the object without its status, a status update stores the status.
\<close>

definition object_server :: "'s objclient \<Rightarrow> ('s \<Rightarrow> ObjectKey \<rightharpoonup> MigratedObject) \<Rightarrow> GroupVersionKind \<Rightarrow> bool" where
  "object_server oc ov listKind \<longleftrightarrow>
     (\<forall>s. ov (state_after (oc_List oc listKind) s) = ov s \<and>
        (\<forall>items. result_of (oc_List oc listKind) s = Inr items \<longrightarrow> set items = {x. ov s (keyOf (mo_meta x)) = Some x})) \<and>
     (\<forall>x s. case result_of (oc_Create oc x) s of
          Inr y \<Rightarrow> ov s (keyOf (mo_meta x)) = None \<and> keyOf (mo_meta y) = keyOf (mo_meta x) \<and> sameObject y x \<and> mo_Status y = None \<and>
            ov (state_after (oc_Create oc x) s) = (ov s)(keyOf (mo_meta x) \<mapsto> y)
        | Inl e \<Rightarrow> isAlreadyExists e \<longrightarrow> ov s (keyOf (mo_meta x)) \<noteq> None \<and> ov (state_after (oc_Create oc x) s) = ov s) \<and>
     (\<forall>x s y. result_of (oc_UpdateStatus oc x) s = Inr y \<longrightarrow> (\<exists>z. ov s (keyOf (mo_meta x)) = Some z \<and> sameObject y z \<and>
            keyOf (mo_meta y) = keyOf (mo_meta z) \<and> mo_Status y = mo_Status x \<and>
            ov (state_after (oc_UpdateStatus oc x) s) = (ov s)(keyOf (mo_meta x) \<mapsto> y))) \<and>
     (\<forall>s k x. ov s k = Some x \<longrightarrow> keyOf (mo_meta x) = k)"

lemma object_serverD:
  assumes "object_server oc ov listKind"
  shows "ov (state_after (oc_List oc listKind) s) = ov s"
    and "result_of (oc_List oc listKind) s = Inr items \<Longrightarrow> set items = {x. ov s (keyOf (mo_meta x)) = Some x}"
    and "result_of (oc_Create oc x) s = Inr y \<Longrightarrow> keyOf (mo_meta y) = keyOf (mo_meta x) \<and> sameObject y x \<and> mo_Status y = None \<and>
            ov (state_after (oc_Create oc x) s) = (ov s)(keyOf (mo_meta x) \<mapsto> y)"
    and "result_of (oc_Create oc x) s = Inl e \<Longrightarrow> isAlreadyExists e \<Longrightarrow> ov s (keyOf (mo_meta x)) \<noteq> None \<and> ov (state_after (oc_Create oc x) s) = ov s"
    and "result_of (oc_UpdateStatus oc x) s = Inr y \<Longrightarrow> \<exists>z. ov s (keyOf (mo_meta x)) = Some z \<and> sameObject y z \<and>
            keyOf (mo_meta y) = keyOf (mo_meta z) \<and> mo_Status y = mo_Status x \<and> ov (state_after (oc_UpdateStatus oc x) s) = (ov s)(keyOf (mo_meta x) \<mapsto> y)"
    and "ov s k = Some x \<Longrightarrow> keyOf (mo_meta x) = k"
proof -
  have c: "case result_of (oc_Create oc x) s of
          Inr y \<Rightarrow> ov s (keyOf (mo_meta x)) = None \<and> keyOf (mo_meta y) = keyOf (mo_meta x) \<and> sameObject y x \<and> mo_Status y = None \<and>
            ov (state_after (oc_Create oc x) s) = (ov s)(keyOf (mo_meta x) \<mapsto> y)
        | Inl e \<Rightarrow> isAlreadyExists e \<longrightarrow> ov s (keyOf (mo_meta x)) \<noteq> None \<and> ov (state_after (oc_Create oc x) s) = ov s"
    using assms unfolding object_server_def by blast
  show "result_of (oc_Create oc x) s = Inr y \<Longrightarrow> keyOf (mo_meta y) = keyOf (mo_meta x) \<and> sameObject y x \<and> mo_Status y = None \<and>
            ov (state_after (oc_Create oc x) s) = (ov s)(keyOf (mo_meta x) \<mapsto> y)" using c by simp
  show "result_of (oc_Create oc x) s = Inl e \<Longrightarrow> isAlreadyExists e \<Longrightarrow> ov s (keyOf (mo_meta x)) \<noteq> None \<and> ov (state_after (oc_Create oc x) s) = ov s"
    using c by simp
qed (use assms in \<open>unfold object_server_def, blast+\<close>)

text \<open>The objects of \<open>S\<close>, and no others, are stored in the namespace with their status.\<close>

definition restored :: "string \<Rightarrow> MigratedObject set \<Rightarrow> (ObjectKey \<rightharpoonup> MigratedObject) \<Rightarrow> bool" where
  "restored ns S v \<longleftrightarrow> dom v = (\<lambda>x. (ns, om_Name (mo_meta x))) ` S \<and>
     (\<forall>x\<in>S. \<exists>y. v (ns, om_Name (mo_meta x)) = Some y \<and> sameObject y x \<and> mo_Status y = mo_Status x)"

lemma stripped_simps [simp]:
  "keyOf (mo_meta (stripped ns x)) = (ns, om_Name (mo_meta x))" "sameObject y (stripped ns x) = sameObject y x"
  by (simp_all add: stripped_def keyOf_def sameObject_def)

lemma sameObject_trans: "sameObject x y \<Longrightarrow> sameObject y z \<Longrightarrow> sameObject x z"
  by (simp add: sameObject_def)

lemma sameObject_status [simp]: "sameObject x (y\<lparr>mo_Status := v\<rparr>) = sameObject x y"
  by (simp add: sameObject_def)

lemma restored_insert:
  assumes "restored ns S v" and "sameObject y x" and "mo_Status y = mo_Status x" and "inj_on (\<lambda>x. om_Name (mo_meta x)) (insert x S)"
  shows "restored ns (insert x S) (v((ns, om_Name (mo_meta x)) \<mapsto> y))"
  using assms unfolding restored_def by (auto simp: inj_on_def)

lemma restored_member:
  assumes "restored ns S v" and "v (ns, om_Name (mo_meta x)) \<noteq> None" and "inj_on (\<lambda>x. om_Name (mo_meta x)) (insert x S)"
  shows "insert x S = S"
proof -
  have "(ns, om_Name (mo_meta x)) \<in> (\<lambda>x. (ns, om_Name (mo_meta x))) ` S" using assms(1,2) unfolding restored_def by blast
  then obtain z where "z \<in> S" "om_Name (mo_meta z) = om_Name (mo_meta x)" by auto
  then have "z = x" by (intro inj_onD [OF assms(3)]) auto
  then show ?thesis using \<open>z \<in> S\<close> by auto
qed

lemma createStripped:
  assumes sv: "object_server oc ov k" and r: "restored ns S (ov s)" and inj: "inj_on (\<lambda>x. om_Name (mo_meta x)) (insert x S)"
    and run: "run_state (oc_Create oc (stripped ns x)) s = (res, u)"
  shows "\<And>e. res = Inl e \<Longrightarrow> isAlreadyExists e \<Longrightarrow> restored ns (insert x S) (ov u)"
    and "\<And>y. res = Inr y \<Longrightarrow> keyOf (mo_meta y) = (ns, om_Name (mo_meta x)) \<and> sameObject y x \<and> mo_Status y = None \<and>
      ov u = (ov s)((ns, om_Name (mo_meta x)) \<mapsto> y)"
proof -
  show "restored ns (insert x S) (ov u)" if "res = Inl e" "isAlreadyExists e" for e
  proof -
    have "ov s (ns, om_Name (mo_meta x)) \<noteq> None" "ov u = ov s" using object_serverD(4) [OF sv, of "stripped ns x" s e] run that by simp_all
    then show ?thesis using restored_member [OF r _ inj] r by simp
  qed
  show "keyOf (mo_meta y) = (ns, om_Name (mo_meta x)) \<and> sameObject y x \<and> mo_Status y = None \<and>
      ov u = (ov s)((ns, om_Name (mo_meta x)) \<mapsto> y)" if "res = Inr y" for y
    using object_serverD(3) [OF sv, of "stripped ns x" s y] run that by simp
qed

lemma restoreOne_run:
  assumes sv: "object_server oc ov k" and r: "restored ns S (ov s)" and inj: "inj_on (\<lambda>x. om_Name (mo_meta x)) (insert x S)"
    and run: "run_state (restoreOne oc ns x) s = (None, t)"
  shows "restored ns (insert x S) (ov t)"
proof -
  obtain res u where u: "run_state (oc_Create oc (stripped ns x)) s = (res, u)" by fastforce
  note c = createStripped [OF sv r inj u]
  show ?thesis
  proof (cases "mo_Status x")
    case None
    then have "(\<exists>e. res = Inl e \<and> isAlreadyExists e) \<and> t = u \<or> (\<exists>y. res = Inr y) \<and> t = u"
      using run u by (auto simp: restoreOne_def Let_def split: sum.splits if_splits)
    then show ?thesis using c restored_insert [OF r _ _ inj] None by auto
  next
    case (Some v)
    then obtain st where st: "v = JMap st" using run by (cases v) (auto simp: restoreOne_def)
    show ?thesis
    proof (cases res)
      case (Inl e)
      then have "isAlreadyExists e" "t = u" using run u Some st by (auto simp: restoreOne_def Let_def split: if_splits)
      then show ?thesis using c(1) [OF Inl] by simp
    next
      case (Inr y)
      note y = c(2) [OF Inr]
      obtain y' where run': "run_state (oc_UpdateStatus oc (y\<lparr>mo_Status := Some v\<rparr>)) u = (Inr y', t)"
        using run u Inr Some st by (auto simp: restoreOne_def Let_def split: sum.splits prod.splits)
      have key: "keyOf (mo_meta (y\<lparr>mo_Status := Some v\<rparr>)) = (ns, om_Name (mo_meta x))" using y by simp
      obtain z where "ov u (ns, om_Name (mo_meta x)) = Some z" "sameObject y' z" "mo_Status y' = Some v"
        "ov t = (ov u)((ns, om_Name (mo_meta x)) \<mapsto> y')"
        using object_serverD(5) [OF sv, of "y\<lparr>mo_Status := Some v\<rparr>" u y'] run' unfolding key by auto
      then have "sameObject y' x" "ov t = (ov s)((ns, om_Name (mo_meta x)) \<mapsto> y')" "mo_Status y' = mo_Status x"
        using y Some sameObject_trans [of y' y x] by auto
      then show ?thesis using restored_insert [OF r _ _ inj] by simp
    qed
  qed
qed

lemma restoreLoop_run:
  assumes sv: "object_server oc ov k"
  shows "restored ns S (ov s) \<Longrightarrow> inj_on (\<lambda>x. om_Name (mo_meta x)) (set items \<union> S) \<Longrightarrow>
    run_state (restoreLoop oc ns items) s = (None, t) \<Longrightarrow> restored ns (set items \<union> S) (ov t)"
proof (induction items arbitrary: s S)
  case (Cons x items)
  obtain e u where u: "run_state (restoreOne oc ns x) s = (e, u)" by fastforce
  then have e: "e = None" and rest: "run_state (restoreLoop oc ns items) u = (None, t)" using Cons.prems(3) by (auto split: option.splits)
  have "inj_on (\<lambda>x. om_Name (mo_meta x)) (insert x S)" by (rule inj_on_subset [OF Cons.prems(2)]) auto
  from restoreOne_run [OF sv Cons.prems(1) this u [unfolded e]] have "restored ns (insert x S) (ov u)" .
  from Cons.IH [OF this _ rest] Cons.prems(2) show ?case by simp
qed simp

text \<open>
  The whole server: the calls on definitions, the mapper and the waits leave the objects
  alone, and once a definition is gone so are its objects.
\<close>

definition migration_world :: "('s, 'x) crdenv \<Rightarrow> ('s, 'x) crdapi \<Rightarrow> 's objclient \<Rightarrow> (int \<Rightarrow> ('s, unit) state) \<Rightarrow> ('s \<Rightarrow> ObjectKey \<rightharpoonup> MigratedObject) \<Rightarrow>
    Definition \<Rightarrow> bool" where
  "migration_world env crds oc sleep ov def \<longleftrightarrow> ce_Apiextensions env = Inr crds \<and> newUnstructuredClient env = Inr oc \<and>
     retry_documented (ce_Retry env) sleep \<and>
     (\<forall>P. (\<forall>n. leaves (\<lambda>s. P (ov s)) (ca_Get crds n)) \<and> (\<forall>c. leaves (\<lambda>s. P (ov s)) (ca_Create crds c)) \<and>
        (\<forall>c. leaves (\<lambda>s. P (ov s)) (ca_Update crds c)) \<and> (\<forall>d. leaves (\<lambda>s. P (ov s)) (sleep d)) \<and>
        (\<forall>m g. ce_RESTMapper env = Inr m \<longrightarrow> leaves (\<lambda>s. P (ov s)) (m g))) \<and>
     (\<forall>s e. result_of (ca_Get crds (df_Name def)) s = Inl e \<longrightarrow> isNotFound e \<longrightarrow> ov s = Map.empty)"

lemma migration_worldD:
  assumes "migration_world env crds oc sleep ov def"
  shows "ce_Apiextensions env = Inr crds" "newUnstructuredClient env = Inr oc" "retry_documented (ce_Retry env) sleep"
    and "leaves (\<lambda>s. P (ov s)) (ca_Get crds n)" "leaves (\<lambda>s. P (ov s)) (ca_Create crds c)" "leaves (\<lambda>s. P (ov s)) (ca_Update crds c)"
      "leaves (\<lambda>s. P (ov s)) (sleep d)" "ce_RESTMapper env = Inr m \<Longrightarrow> leaves (\<lambda>s. P (ov s)) (m g)"
    and "result_of (ca_Get crds (df_Name def)) s = Inl e \<Longrightarrow> isNotFound e \<Longrightarrow> ov s = Map.empty"
  using assms unfolding migration_world_def by blast+

lemma Apply_leaves:
  assumes "\<And>c d. BuildCRD env def = Some d \<Longrightarrow> crd_Spec c = crd_Spec d \<Longrightarrow> leaves P (ca_Create crds c) \<and> leaves P (ca_Update crds c)"
    and "\<And>n. leaves P (ca_Get crds n)"
  shows "leaves P (Apply env crds def)"
proof (cases "BuildCRD env def")
  case (Some d)
  have "leaves P (ca_Create crds d)" "leaves P (ca_Update crds (x\<lparr>crd_Spec := crd_Spec d\<rparr>))" for x using assms(1) [OF Some] by simp_all
  then show ?thesis unfolding Apply_def Some by (simp, intro leaves_rules assms(2))
qed (simp add: Apply_def leaves_return)

lemma waitForDiscoverable_leaves:
  assumes w: "retry_documented (ce_Retry env) sleep" "\<And>d. leaves P (sleep d)" "\<And>m g. ce_RESTMapper env = Inr m \<Longrightarrow> leaves P (m g)"
  shows "leaves P (waitForDiscoverable env def)"
proof -
  have "leaves P (discoverAll env m def gs)" if m: "ce_RESTMapper env = Inr m" for m gs
  proof (induction gs)
    case (Cons g gs)
    have "leaves P (discoverAttempt env m def g)" unfolding discoverAttempt_def by (intro leaves_rules w(3) [OF m])
    from retry_leaves [OF w(1) this w(2)] Cons show ?case by (simp add: waitForGVKDiscoverable_def unlessFailed_leaves leaves_return)
  qed (simp add: leaves_return)
  then show ?thesis unfolding waitForDiscoverable_def by (auto intro: leaves_return split: option.split sum.split)
qed

lemma EnsureDefinition_leaves:
  assumes w: "retry_documented (ce_Retry env) sleep" "\<And>d. leaves P (sleep d)" "\<And>m g. ce_RESTMapper env = Inr m \<Longrightarrow> leaves P (m g)"
    and api: "ce_Apiextensions env = Inr crds" and get: "\<And>n. leaves P (ca_Get crds n)"
    and put: "\<And>c d. BuildCRD env def = Some d \<Longrightarrow> crd_Spec c = crd_Spec d \<Longrightarrow> leaves P (ca_Create crds c) \<and> leaves P (ca_Update crds c)"
  shows "leaves P (EnsureDefinition env def)"
proof -
  have "leaves P (establishAttempt env crds def)" unfolding establishAttempt_def by (intro leaves_rules get Apply_leaves put)
  moreover have "leaves P (waitForDiscoverable env def)" by (rule waitForDiscoverable_leaves [OF w(1)]) (rule w(2), rule w(3))
  ultimately show ?thesis using retry_leaves [OF w(1) _ w(2)]
    by (simp add: EnsureDefinition_def api ensureEstablished_def unlessFailed_leaves leaves_return)
qed

lemma waitForDeleted_empty:
  assumes w: "migration_world env crds oc sleep ov def" and run: "run_state (waitForDeleted env crds (df_Name def)) s = (Some None, t)"
  shows "ov t = Map.empty"
proof -
  obtain u where "run_state (ce_Retry env migrateDeleteTimeout crdBackoff (deletedAttempt crds (df_Name def))) s = (Some None, u)" "u = t"
    using run unfolding waitForDeleted_def by (auto elim: unlessFailed_done)
  then obtain v where v: "run_state (deletedAttempt crds (df_Name def)) v = (Some (Inr True), t)" using retry_done [OF migration_worldD(3) [OF w]] by blast
  then obtain e where "result_of (ca_Get crds (df_Name def)) v = Inl e" "isNotFound e" and t: "t = state_after (ca_Get crds (df_Name def)) v"
    by (auto simp: deletedAttempt_def split_def split: sum.splits if_splits)
  then have "ov v = Map.empty" using migration_worldD(9) [OF w] by blast
  then show ?thesis using leavesD [OF migration_worldD(4) [OF w, where P = "\<lambda>m. m = Map.empty"]] t by simp
qed

text \<open>The kind under which the objects of a definition are listed.\<close>

definition listKindOf :: "Definition \<Rightarrow> GroupVersionKind" where
  "listKindOf def = (let kind = hd (df_GVKs def) in kind\<lparr>gvk_Kind := gvk_Kind kind @ ''List''\<rparr>)"

lemma drainExisting_run:
  assumes w: "migration_world env crds oc sleep ov def" and sv: "object_server oc ov (listKindOf def)"
    and run: "run_state (drainExisting env def) s = (Some (Inr items), t)"
  shows "set items = {x. ov s (keyOf (mo_meta x)) = Some x}"
proof -
  obtain r u where u: "run_state (waitForDiscoverable env def) s = (r, u)" by fastforce
  then have r: "r = Some None" using run by (auto simp: drainExisting_def split: option.splits)
  then obtain k ks where k: "df_GVKs def = k # ks" using run u by (auto simp: drainExisting_def split: list.splits)
  have "ov u = ov s"
    using leaves_run [OF waitForDiscoverable_leaves [OF migration_worldD(3) [OF w], where P = "\<lambda>s'. ov s' = ov s"]] u
      migration_worldD(7,8) [OF w, where P = "\<lambda>m. m = ov s"] by blast
  moreover have "result_of (oc_List oc (listKindOf def)) u = Inr items"
    using run u r k by (auto simp: drainExisting_def listExisting_def migration_worldD(2) [OF w] listKindOf_def split: sum.splits prod.splits)
  ultimately show ?thesis using object_serverD(2) [OF sv, of u items] by simp
qed

lemma MigrateScope_run:
  assumes w: "migration_world env crds oc sleep ov def" and sv: "object_server oc ov (listKindOf def)"
    and old: "result_of (ca_Get crds (df_Name def)) s = Inr existing" "sp_Scope (crd_Spec existing) = ClusterScoped"
    and new: "BuildCRD env def = Some desired" "sp_Scope (crd_Spec desired) = NamespaceScoped"
    and run: "run_state (MigrateScope env def) s = (Some (Inr items), t)"
  shows "set items = {x. ov s (keyOf (mo_meta x)) = Some x} \<and> ov t = Map.empty"
proof -
  obtain s1 where g: "run_state (ca_Get crds (df_Name def)) s = (Inr existing, s1)" using old(1) by (metis prod.collapse)
  have s1: "ov s1 = ov s" using leaves_run [OF migration_worldD(4) [OF w, where P = "\<lambda>m. m = ov s"] _ g] by simp
  obtain r u where u: "run_state (drainExisting env def) s1 = (r, u)" by fastforce
  then obtain its where r: "r = Some (Inr its)" and del: "run_state (deleteForMigration env crds def its) u = (Some (Inr items), t)"
    using run g old new by (auto simp: MigrateScope_def migration_worldD(1) [OF w] split: option.splits sum.splits)
  then have "its = items" and "\<exists>v. run_state (waitForDeleted env crds (df_Name def)) v = (Some None, t)"
    by (auto simp: deleteForMigration_def split: prod.splits option.splits if_splits)
  then show ?thesis using drainExisting_run [OF w sv u [unfolded r]] waitForDeleted_empty [OF w] s1 by auto
qed


section \<open>An interrupted migration is not resumed\<close>

text \<open>The scope under which the definition is stored, as its \<open>Get\<close> shows it.\<close>

definition scope_store :: "('s, 'x) crdenv \<Rightarrow> ('s, 'x) crdapi \<Rightarrow> (int \<Rightarrow> ('s, unit) state) \<Rightarrow> ('s \<Rightarrow> string option) \<Rightarrow> Definition \<Rightarrow> bool" where
  "scope_store env crds sleep dv def \<longleftrightarrow>
     (\<forall>n s. dv (state_after (ca_Get crds n) s) = dv s) \<and>
     (\<forall>s c. result_of (ca_Get crds (df_Name def)) s = Inr c \<longrightarrow> dv s = Some (sp_Scope (crd_Spec c))) \<and>
     (\<forall>c s. dv (state_after (ca_Create crds c) s) \<in> {dv s, Some (sp_Scope (crd_Spec c))}) \<and>
     (\<forall>c s. dv (state_after (ca_Update crds c) s) \<in> {dv s, Some (sp_Scope (crd_Spec c))}) \<and>
     (\<forall>d s. dv (state_after (sleep d) s) = dv s) \<and>
     (\<forall>m g s. ce_RESTMapper env = Inr m \<longrightarrow> dv (state_after (m g) s) = dv s)"

fun startups :: "('s, 'x) crdenv \<Rightarrow> Definition \<Rightarrow> nat \<Rightarrow> ('s, unit) state" where
  "startups env def 0 = return ()"
| "startups env def (Suc n) = do { _ \<leftarrow> ensureCRD env def; startups env def n }"

definition idle_inv :: "('s \<Rightarrow> ObjectKey \<rightharpoonup> MigratedObject) \<Rightarrow> ('s \<Rightarrow> string option) \<Rightarrow> (ObjectKey \<rightharpoonup> MigratedObject) \<Rightarrow> 's \<Rightarrow> bool" where
  "idle_inv ov dv m s \<longleftrightarrow> ov s = m \<and> dv s \<noteq> Some ClusterScoped"

lemma idle_both:
  assumes "leaves (\<lambda>s. ov s = m) act" and "\<And>s. dv s \<noteq> Some ClusterScoped \<Longrightarrow> dv (state_after act s) \<noteq> Some ClusterScoped"
  shows "leaves (idle_inv ov dv m) act"
  using assms unfolding idle_inv_def leaves_def by blast

lemma ensureCRD_idle:
  assumes w: "migration_world env crds oc sleep ov def" and sc: "scope_store env crds sleep dv def"
    and new: "BuildCRD env def = Some desired" "sp_Scope (crd_Spec desired) = NamespaceScoped"
  shows "leaves (idle_inv ov dv m) (ensureCRD env def)"
proof (rule leavesI)
  fix s assume i: "idle_inv ov dv m s"
  note ovD = migration_worldD(4-8) [OF w, where P = "\<lambda>x. x = m"]
  have get: "leaves (idle_inv ov dv m) (ca_Get crds n)" for n
    by (rule idle_both [OF ovD(1)]) (use sc in \<open>simp add: scope_store_def\<close>)
  have put: "leaves (idle_inv ov dv m) (ca_Create crds c) \<and> leaves (idle_inv ov dv m) (ca_Update crds c)" if "crd_Spec c = crd_Spec desired" for c
  proof -
    have "sp_Scope (crd_Spec c) \<noteq> ClusterScoped" using that new by (simp add: ClusterScoped_def NamespaceScoped_def)
    moreover have "dv (state_after (ca_Create crds c) s) \<in> {dv s, Some (sp_Scope (crd_Spec c))}"
      "dv (state_after (ca_Update crds c) s) \<in> {dv s, Some (sp_Scope (crd_Spec c))}" for s using sc unfolding scope_store_def by blast+
    ultimately have "dv s \<noteq> Some ClusterScoped \<Longrightarrow> dv (state_after (ca_Create crds c) s) \<noteq> Some ClusterScoped"
      "dv s \<noteq> Some ClusterScoped \<Longrightarrow> dv (state_after (ca_Update crds c) s) \<noteq> Some ClusterScoped" for s
      by (metis insertE option.inject singletonD)+
    then show ?thesis using idle_both [OF ovD(2)] idle_both [OF ovD(3)] by blast
  qed
  have other: "leaves (idle_inv ov dv m) (sleep d)" "\<And>mp g. ce_RESTMapper env = Inr mp \<Longrightarrow> leaves (idle_inv ov dv m) (mp g)" for d
    by (rule idle_both [OF ovD(4)], use sc in \<open>simp add: scope_store_def\<close>)
      (rule idle_both [OF ovD(5)], use sc in \<open>simp_all add: scope_store_def\<close>)
  have ens: "leaves (idle_inv ov dv m) (EnsureDefinition env def)"
    by (rule EnsureDefinition_leaves [OF migration_worldD(3) [OF w] _ _ migration_worldD(1) [OF w] get])
      (use put new(1) other in auto)
  obtain g s1 where g: "run_state (ca_Get crds (df_Name def)) s = (g, s1)" by fastforce
  have s1: "idle_inv ov dv m s1" using leaves_run [OF get i g] .
  have "sp_Scope (crd_Spec c) \<noteq> ClusterScoped" if "g = Inr c" for c
    using that g i sc by (auto simp: idle_inv_def scope_store_def)
  then have "(\<exists>e. run_state (MigrateScope env def) s = (Some (Inl e), s1)) \<or> run_state (MigrateScope env def) s = (Some (Inr []), s1)"
    using g new(1) by (auto simp: MigrateScope_def migration_worldD(1) [OF w] split: sum.splits)
  moreover have "idle_inv ov dv m (state_after (unlessFailed (EnsureDefinition env def) wrapped (return (Some None))) s1)" for wrapped
    by (rule leavesD [where I = "idle_inv ov dv m"]) (intro leaves_rules ens s1)+
  ultimately show "idle_inv ov dv m (state_after (ensureCRD env def) s)"
    using s1 by (auto simp: ensureCRD_def RestoreMigrated_def)
qed

text \<open>
  An interrupted migration is not resumed.  Once the cluster scoped definition is gone,
  no number of further start-ups stores any object, whatever was drained and not yet
  recreated: the drained objects exist only in the memory of the process that failed.
\<close>

theorem migration_not_resumed:
  assumes w: "migration_world env crds oc sleep ov def" and sc: "scope_store env crds sleep dv def"
    and new: "BuildCRD env def = Some desired" "sp_Scope (crd_Spec desired) = NamespaceScoped"
    and gone: "dv s \<noteq> Some ClusterScoped"
  shows "ov (state_after (startups env def n) s) = ov s"
proof -
  have "leaves (idle_inv ov dv (ov s)) (startups env def n)"
    by (induction n) (auto intro!: leaves_rules ensureCRD_idle [OF w sc new])
  then show ?thesis using gone by (auto simp: idle_inv_def dest: leavesD [of _ _ s])
qed

section \<open>A concrete server\<close>

text \<open>
  The stored scope of one definition and its objects; it is established once it is stored.  A
  create of an object named \<open>bad\<close> is rejected.
\<close>

type_synonym mworld = "string option \<times> MigratedObject list"

definition mview :: "mworld \<Rightarrow> ObjectKey \<rightharpoonup> MigratedObject" where
  "mview s = (if fst s = None then Map.empty else map_of (map (\<lambda>x. (keyOf (mo_meta x), x)) (snd s)))"

definition mdef :: Definition where
  "mdef = \<lparr>df_Name = ''zones.kontinuum.sh'', df_ManifestFile = ''m'', df_GVKs = [gvkOf ''v1alpha2'' ''Zone''], df_Conversion = None\<rparr>"

definition mcrd :: "string \<Rightarrow> unit CustomResourceDefinition" where
  "mcrd sc = \<lparr>crd_meta = objectMeta '''' ''zones.kontinuum.sh'', crd_Spec = \<lparr>sp_Scope = sc, sp_Conversion = None, sp_More = ()\<rparr>,
     crd_Conditions = [(''Established'', ''True'')]\<rparr>"

definition mcrds :: "(mworld, unit) crdapi" where
  "mcrds = \<lparr>ca_Get = (\<lambda>_. State (\<lambda>s. (case fst s of None \<Rightarrow> Inl (ApiError NotFound) | Some sc \<Rightarrow> Inr (mcrd sc), s))),
     ca_Create = (\<lambda>c. State (\<lambda>s. if fst s = None then (Inr c, (Some (sp_Scope (crd_Spec c)), [])) else (Inl (ApiError AlreadyExists), s))),
     ca_Update = (\<lambda>c. return (Inl unavailable)),
     ca_Delete = (\<lambda>_. State (\<lambda>s. (None, (None, []))))\<rparr>"

definition mobjects :: "mworld objclient" where
  "mobjects = \<lparr>oc_List = (\<lambda>_. State (\<lambda>s. (if fst s = None then Inl (ApiError NotFound) else Inr (filter (\<lambda>x. mview s (keyOf (mo_meta x)) = Some x) (snd s)), s))),
     oc_Create = (\<lambda>x. State (\<lambda>s. if fst s = None \<or> om_Name (mo_meta x) = ''bad'' then (Inl unavailable, s)
        else if mview s (keyOf (mo_meta x)) \<noteq> None then (Inl (ApiError AlreadyExists), s)
        else (Inr (x\<lparr>mo_Status := None\<rparr>), (fst s, (x\<lparr>mo_Status := None\<rparr>) # snd s)))),
     oc_UpdateStatus = (\<lambda>x. State (\<lambda>s. case mview s (keyOf (mo_meta x)) of None \<Rightarrow> (Inl (ApiError NotFound), s)
        | Some z \<Rightarrow> (Inr (z\<lparr>mo_Status := mo_Status x\<rparr>), (fst s, (z\<lparr>mo_Status := mo_Status x\<rparr>) # snd s))))\<rparr>"

definition nosleep :: "int \<Rightarrow> (mworld, unit) state" where "nosleep d = return ()"

definition menv :: "(mworld, unit) crdenv" where
  "menv = \<lparr>ce_ReadFile = (\<lambda>_. Inr ''''), ce_Unmarshal = (\<lambda>_. Inr (mcrd NamespaceScoped)), ce_Apiextensions = Inr mcrds, ce_HTTPClient = None,
     ce_RESTMapper = Inr (\<lambda>_. return None), ce_IsNoMatch = (\<lambda>_. True), ce_NewClient = Inr mobjects,
     ce_Retry = (\<lambda>_ b. tryWaits (Sentinel ''timed out waiting for the condition'') nosleep (waitsFrom (bo_Steps b) (bo_Duration b) (bo_Factor b) (bo_Cap b)))\<rparr>"

definition mzone :: "string \<Rightarrow> MigratedObject" where
  "mzone name = \<lparr>mo_GVK = gvkOf ''v1alpha2'' ''Zone'', mo_meta = objectMeta '''' name, mo_Generation = 3, mo_ManagedFields = [''kubectl''],
     mo_Status = Some (JMap [(''phase'', JStr ''Ready'')]), mo_More = [(''spec'', JMap [(''region'', JStr ''eu'')])]\<rparr>"

lemma waits_nonneg: "0 \<le> d \<Longrightarrow> 0 \<le> f \<Longrightarrow> \<forall>w\<in>set (waitsFrom n d f c). 0 \<le> w"
proof (induction n d f c rule: waitsFrom.induct)
  case (1 steps duration factor cap)
  then show ?case by (subst waitsFrom.simps) auto
qed

lemma mview_key: "mview s k = Some x \<Longrightarrow> keyOf (mo_meta x) = k"
  by (auto simp: mview_def dest!: map_of_SomeD split: if_splits)

lemma mview_mem: "mview s k = Some x \<Longrightarrow> x \<in> set (snd s)"
  by (auto simp: mview_def dest!: map_of_SomeD split: if_splits)

lemma mview_cons [simp]: "fst s \<noteq> None \<Longrightarrow> mview (fst s, x # snd s) = (mview s)(keyOf (mo_meta x) \<mapsto> x)"
  by (auto simp: mview_def)

lemma keyOf_status [simp]: "mo_meta (x\<lparr>mo_Status := v\<rparr>) = mo_meta x"
  by simp

lemma mobjects_server: "object_server mobjects mview k"
  unfolding object_server_def
proof (intro conjI allI)
  show "mview (state_after (oc_List mobjects k) s) = mview s" for s by (simp add: mobjects_def)
  show "result_of (oc_List mobjects k) s = Inr items \<longrightarrow> set items = {x. mview s (keyOf (mo_meta x)) = Some x}" for s items
    by (auto simp: mobjects_def split: if_splits dest: mview_mem)
  show "case result_of (oc_Create mobjects x) s of
          Inr y \<Rightarrow> mview s (keyOf (mo_meta x)) = None \<and> keyOf (mo_meta y) = keyOf (mo_meta x) \<and> sameObject y x \<and> mo_Status y = None \<and>
            mview (state_after (oc_Create mobjects x) s) = (mview s)(keyOf (mo_meta x) \<mapsto> y)
        | Inl e \<Rightarrow> isAlreadyExists e \<longrightarrow> mview s (keyOf (mo_meta x)) \<noteq> None \<and> mview (state_after (oc_Create mobjects x) s) = mview s" for x s
    by (auto simp: mobjects_def unavailable_def sameObject_def)
  show "result_of (oc_UpdateStatus mobjects x) s = Inr y \<longrightarrow> (\<exists>z. mview s (keyOf (mo_meta x)) = Some z \<and> sameObject y z \<and>
            keyOf (mo_meta y) = keyOf (mo_meta z) \<and> mo_Status y = mo_Status x \<and>
            mview (state_after (oc_UpdateStatus mobjects x) s) = (mview s)(keyOf (mo_meta x) \<mapsto> y))" for x s y
  proof (cases "mview s (keyOf (mo_meta x))")
    case (Some z)
    then have "fst s \<noteq> None" "keyOf (mo_meta z) = keyOf (mo_meta x)" using mview_key [OF Some] by (auto simp: mview_def split: if_splits)
    then show ?thesis using Some by (auto simp: mobjects_def sameObject_def)
  qed (simp add: mobjects_def)
  show "mview s k = Some x \<longrightarrow> keyOf (mo_meta x) = k" for s k x using mview_key by blast
qed

lemma documented_retry:
  assumes "\<And>t b act. 0 \<le> bo_Duration b \<Longrightarrow> retry t b act = tryWaits err sleep (waitsFrom (bo_Steps b) (bo_Duration b) (bo_Factor b) (bo_Cap b)) act"
  shows "retry_documented retry sleep"
proof -
  have same: "list_all2 (\<lambda>w d. 0 \<le> w \<and> w \<le> d) ws (take (length ws) ws)" if "\<forall>w\<in>set ws. 0 \<le> w" for ws :: "int list"
    using that by (auto simp: list_all2_same)
  show ?thesis unfolding retry_documented_def Let_def
  proof (intro allI impI)
    fix t and b :: Backoff and act s assume b: "0 \<le> bo_Duration b" "0 \<le> bo_Factor b"
    let ?ds = "waitsFrom (bo_Steps b) (bo_Duration b) (bo_Factor b) (bo_Cap b)"
    show "\<exists>ws err. (length ws \<le> length ?ds \<and> list_all2 (\<lambda>w d. 0 \<le> w \<and> w \<le> d) ws (take (length ws) ?ds)) \<and>
        run_state (retry t b act) s = run_state (tryWaits err sleep ws act) s"
      using same [OF waits_nonneg [OF b]] assms [OF b(1)] by (intro exI [of _ ?ds]) auto
  qed
qed

lemma menv_retry: "retry_documented (ce_Retry menv) nosleep"
  by (rule documented_retry) (simp add: menv_def)

lemma menv_simps [simp]:
  "ce_Apiextensions menv = Inr mcrds" "ce_HTTPClient menv = None" "ce_RESTMapper menv = Inr (\<lambda>_. return None)" "ce_NewClient menv = Inr mobjects"
  "newUnstructuredClient menv = Inr mobjects" "BuildCRD menv mdef = Some (mcrd NamespaceScoped)" "sp_Scope (crd_Spec (mcrd sc)) = sc" "established (mcrd sc)"
  "df_Name mdef = ''zones.kontinuum.sh''" "df_GVKs mdef = [gvkOf ''v1alpha2'' ''Zone'']"
  by (simp_all add: menv_def newUnstructuredClient_def BuildCRD_def mdef_def mcrd_def established_def)

lemma mcrds_leaves:
  "leaves (\<lambda>s. P (mview s)) (ca_Get mcrds n)" "leaves (\<lambda>s. P (mview s)) (ca_Create mcrds c)" "leaves (\<lambda>s. P (mview s)) (ca_Update mcrds c)"
  by (auto simp: mcrds_def leaves_def mview_def)

lemma mworld_world: "migration_world menv mcrds mobjects nosleep mview mdef"
  unfolding migration_world_def
proof (intro conjI allI impI)
  show "leaves (\<lambda>s. P (mview s)) (nosleep d)" for P d by (simp add: nosleep_def leaves_return)
  show "leaves (\<lambda>s. P (mview s)) (m g)" if "ce_RESTMapper menv = Inr m" for P m g
  proof -
    have "m g = return None" using that by auto
    then show ?thesis by (simp add: leaves_return)
  qed
  show "mview s = Map.empty" if "result_of (ca_Get mcrds (df_Name mdef)) s = Inl e" for s e
    using that by (simp add: mcrds_def mview_def split: option.splits)
qed (rule menv_retry mcrds_leaves menv_simps)+

lemma mworld_scopes: "scope_store menv mcrds nosleep fst mdef"
  unfolding scope_store_def by (auto simp: mcrds_def nosleep_def split: option.splits)

lemma menv_Retry_run: "ce_Retry menv t crdBackoff act = tryWaits (Sentinel ''timed out waiting for the condition'') nosleep
    [100000000, 200000000, 400000000, 800000000, 1600000000] act"
  by (simp add: menv_def crdBackoff_waits)

definition mstart :: mworld where "mstart = (Some ClusterScoped, [mzone ''eu-a'', mzone ''eu-b''])"

lemma mzone_simps [simp]:
  "keyOf (mo_meta (mzone n)) = ('''', n)" "om_Name (mo_meta (mzone n)) = n" "om_Name (mo_meta (stripped ns (mzone n))) = n"
  "mo_Status (mzone n) = Some (JMap [(''phase'', JStr ''Ready'')])"
  by (simp_all add: mzone_def keyOf_def objectMeta_def stripped_def)

lemma mstart_view: "mview mstart k = (if k = ('''', ''eu-a'') then Some (mzone ''eu-a'') else if k = ('''', ''eu-b'') then Some (mzone ''eu-b'') else None)"
  by (simp add: mview_def mstart_def)

lemma mcrds_run [simp]:
  "run_state (ca_Get mcrds n) s = (case fst s of None \<Rightarrow> Inl (ApiError NotFound) | Some sc \<Rightarrow> Inr (mcrd sc), s)"
  "run_state (ca_Create mcrds c) s = (if fst s = None then (Inr c, (Some (sp_Scope (crd_Spec c)), [])) else (Inl (ApiError AlreadyExists), s))"
  "run_state (ca_Delete mcrds n) s = (None, (None, []))"
  by (simp_all add: mcrds_def)

lemma mensure: "run_state (EnsureDefinition menv mdef) (None, []) = (Some None, (Some NamespaceScoped, []))"
  by (simp add: EnsureDefinition_def ensureEstablished_def establishAttempt_def Apply_def
      waitForDiscoverable_def waitForGVKDiscoverable_def unlessFailed_def menv_Retry_run discoverAttempt_def)

lemma mstart_runs: "\<exists>t. run_state (ensureCRD menv mdef) mstart = (Some None, t)"
proof -
  have d: "run_state (drainExisting menv mdef) mstart = (Some (Inr [mzone ''eu-a'', mzone ''eu-b'']), mstart)"
    by (simp add: drainExisting_def waitForDiscoverable_def waitForGVKDiscoverable_def unlessFailed_def menv_Retry_run discoverAttempt_def
        listExisting_def mobjects_def mstart_view) (simp add: mstart_def)
  have g: "fst mstart = Some ClusterScoped" by (simp add: mstart_def)
  have m: "run_state (MigrateScope menv mdef) mstart = (Some (Inr [mzone ''eu-a'', mzone ''eu-b'']), (None, []))"
    using d by (simp add: MigrateScope_def g deleteForMigration_def waitForDeleted_def deletedAttempt_def unlessFailed_def menv_Retry_run)
  show ?thesis
    by (simp add: ensureCRD_def m unlessFailed_def mensure RestoreMigrated_def restoreOne_def Let_def mobjects_def mview_def)
qed


text \<open>The first of the two objects is rejected: start-up fails, and the second is never stored again.\<close>

definition mbad :: mworld where "mbad = (Some ClusterScoped, [mzone ''bad'', mzone ''eu-a''])"

lemma mbad_fails: "\<exists>e. run_state (ensureCRD menv mdef) mbad = (Some (Some e), (Some NamespaceScoped, []))"
proof -
  have v: "mview mbad k = (if k = ('''', ''bad'') then Some (mzone ''bad'') else if k = ('''', ''eu-a'') then Some (mzone ''eu-a'') else None)" for k
    by (simp add: mview_def mbad_def)
  have d: "run_state (drainExisting menv mdef) mbad = (Some (Inr [mzone ''bad'', mzone ''eu-a'']), mbad)"
    by (simp add: drainExisting_def waitForDiscoverable_def waitForGVKDiscoverable_def unlessFailed_def menv_Retry_run discoverAttempt_def
        listExisting_def mobjects_def v) (simp add: mbad_def)
  have g: "fst mbad = Some ClusterScoped" by (simp add: mbad_def)
  have m: "run_state (MigrateScope menv mdef) mbad = (Some (Inr [mzone ''bad'', mzone ''eu-a'']), (None, []))"
    using d by (simp add: MigrateScope_def g deleteForMigration_def waitForDeleted_def deletedAttempt_def unlessFailed_def menv_Retry_run)
  show ?thesis
    by (simp add: ensureCRD_def m unlessFailed_def mensure RestoreMigrated_def restoreOne_def Let_def mobjects_def unavailable_def)
qed

theorem migration_not_resumed_witness:
  "\<exists>e t. run_state (ensureCRD menv mdef) mbad = (Some (Some e), t) \<and>
     mview (state_after (startups menv mdef 7) t) (KontinuumSystemNamespace, ''eu-a'') = None"
proof -
  obtain e where e: "run_state (ensureCRD menv mdef) mbad = (Some (Some e), (Some NamespaceScoped, []))" using mbad_fails by blast
  have "mview (state_after (startups menv mdef 7) (Some NamespaceScoped, [])) = mview (Some NamespaceScoped, [])"
    by (rule migration_not_resumed [OF mworld_world mworld_scopes, of "mcrd NamespaceScoped"]) (simp_all add: ClusterScoped_def NamespaceScoped_def)
  then show ?thesis using e by (auto simp: mview_def)
qed

text \<open>A definition that is established after two seconds of waiting.\<close>

definition slow_sleep :: "int \<Rightarrow> (int, unit) state" where "slow_sleep d = State (\<lambda>s. ((), s + d))"

definition slow_crds :: "(int, unit) crdapi" where
  "slow_crds = \<lparr>ca_Get = (\<lambda>_. State (\<lambda>s. (Inr (if s < 2 * second then (mcrd NamespaceScoped)\<lparr>crd_Conditions := []\<rparr> else mcrd NamespaceScoped), s))),
     ca_Create = (\<lambda>_. return (Inl (ApiError AlreadyExists))), ca_Update = (\<lambda>c. return (Inr c)), ca_Delete = (\<lambda>_. return None)\<rparr>"

definition slow_env :: "(int, unit) crdenv" where
  "slow_env = \<lparr>ce_ReadFile = (\<lambda>_. Inr ''''), ce_Unmarshal = (\<lambda>_. Inr (mcrd NamespaceScoped)), ce_Apiextensions = Inr slow_crds,
     ce_HTTPClient = None, ce_RESTMapper = Inr (\<lambda>_. return None), ce_IsNoMatch = (\<lambda>_. True), ce_NewClient = Inl unavailable,
     ce_Retry = (\<lambda>_ b. tryWaits (Sentinel ''timed out waiting for the condition'') slow_sleep (waitsFrom (bo_Steps b) (bo_Duration b) (bo_Factor b) (bo_Cap b)))\<rparr>"

theorem crd_wait_gives_up_witness: "\<exists>err. result_of (EnsureDefinition slow_env mdef) 0 = Some (Some err)"
proof -
  have "\<exists>err. result_of (EnsureDefinition slow_env mdef) 0 = Some (Some err) \<and> 1500 * (second div 1000) < establishTimeout"
  proof (rule crd_wait_gives_up [where slept = id and sleep = slow_sleep and crds = slow_crds and desired = "mcrd NamespaceScoped"])
    show "retry_documented (ce_Retry slow_env) slow_sleep" by (rule documented_retry) (simp add: slow_env_def)
    show "BuildCRD slow_env mdef = Some (mcrd NamespaceScoped)" by (simp add: slow_env_def BuildCRD_def mdef_def)
    show "\<not> established c" if "id s \<le> 1500 * (second div 1000)" "result_of (ca_Get slow_crds (df_Name mdef)) s = Inr c" for s c
      using that by (auto simp: slow_crds_def established_def second_def)
  qed (simp_all add: slow_env_def slow_crds_def slow_sleep_def)
  then show ?thesis by blast
qed

end
