(* ===== verification/Serve.thy ===== *)
theory Serve
  imports Logging IdentityWatch Config Crd Zone Cluster TalosReset Addons AdminRbac UiRoutes
begin

text \<open>
  \<open>pkg/cli/serve.go\<close>: how a server process is put together and stopped.  The state is that of
  \<open>Registry\<close>, the world with the shutting-down flag.  \<open>libkapi\<close> is a parameter: building a server
  from its options, what the process waits for, shutting it down.  A handler of the mux is a
  function from a request to its answer.
\<close>

section \<open>Preparing the process\<close>

definition shutdownTimeout :: int where "shutdownTimeout = 10 * second"

definition errNoStorageEndpoints :: goerr where
  "errNoStorageEndpoints = Sentinel ''no storage endpoints available to build the etcd gRPC proxy from''"

text \<open>\<open>filepath.Join\<close>.\<close>

definition filepathJoin :: "string list \<Rightarrow> string" where
  "filepathJoin parts = (let ps = filter (\<lambda>p. p \<noteq> '''') parts in if ps = [] then '''' else pathClean (joinWith ''/'' ps))"

record 's hostos =
  os_TempDir :: string
  os_MkdirAll :: "string \<Rightarrow> nat \<Rightarrow> ('s, goerr option) state"
  os_Setenv :: "string \<Rightarrow> string \<Rightarrow> ('s, goerr option) state"
  os_Hostname :: "('s, goerr + string) state"
  os_uuidV7 :: "('s, goerr + string) state"
  os_uuidV4 :: "('s, string) state"

definition helmHomeDirPerm :: nat where "helmHomeDirPerm = 448"

definition helmEnvVars :: "string \<Rightarrow> (string \<times> string) list" where
  "helmEnvVars tempDir = (let base = filepathJoin [tempDir, ''kontinuum-helm''] in
     [(''HELM_CACHE_HOME'', filepathJoin [base, ''cache'']), (''HELM_CONFIG_HOME'', filepathJoin [base, ''config'']),
      (''HELM_DATA_HOME'', filepathJoin [base, ''data''])])"

fun setHelmDirs :: "'s hostos \<Rightarrow> (string \<times> string) list \<Rightarrow> ('s, goerr option) state" where
  "setHelmDirs os [] = return None"
| "setHelmDirs os ((envVar, dir) # rest) = do {
     m \<leftarrow> os_MkdirAll os dir helmHomeDirPerm;
     (case m of
        Some err \<Rightarrow> return (Some (Errorf ''failed to create %s dir %q: %w'' [envVar, dir] [err]))
      | None \<Rightarrow> do {
          e \<leftarrow> os_Setenv os envVar dir;
          (case e of
             Some err \<Rightarrow> return (Some (Errorf ''failed to set %s: %w'' [envVar] [err]))
           | None \<Rightarrow> setHelmDirs os rest)
        })
   }"

text \<open>\<open>order\<close>: the order in which the range visits the map.\<close>

definition configureHelmHome :: "((string \<times> string) list \<Rightarrow> (string \<times> string) list) \<Rightarrow> 's hostos \<Rightarrow> ('s, goerr option) state" where
  "configureHelmHome order os = setHelmDirs os (order (helmEnvVars (os_TempDir os)))"

text \<open>The flags are \<open>Some\<close> when they were set on the command line.\<close>

definition applyFlags :: "string option \<Rightarrow> string option \<Rightarrow> KConfig \<Rightarrow> KConfig" where
  "applyFlags addr storage cfg =
     (let cfg = (case addr of None \<Rightarrow> cfg | Some a \<Rightarrow> cfg\<lparr>kcfg_Server := (kcfg_Server cfg)\<lparr>ksrv_Addr := a\<rparr>\<rparr>)
      in case storage of None \<Rightarrow> cfg | Some s \<Rightarrow> cfg\<lparr>kcfg_Server := (kcfg_Server cfg)\<lparr>ksrv_Storage := s\<rparr>\<rparr>)"

text \<open>The configuration, the handler of the log, and whether anonymous access is allowed.\<close>

definition loadServeConfig :: "(string \<Rightarrow> string) \<Rightarrow> string option \<Rightarrow> string option \<Rightarrow> goerr + KConfig \<times> slogHandler \<times> bool" where
  "loadServeConfig getenv addr storage =
     (let cfg = applyFlags addr storage (Load getenv) in
      case ParseLevel (klog_Level (kcfg_Log cfg)) of
        Inl err \<Rightarrow> Inl (Errorf ''failed to parse log level: %w'' [] [err])
      | Inr level \<Rightarrow> (case ParseFormat (klog_Format (kcfg_Log cfg)) of
          Inl err \<Rightarrow> Inl (Errorf ''failed to parse log format: %w'' [] [err])
        | Inr format \<Rightarrow> (case ValidateAuthentication cfg of
            Inl err \<Rightarrow> Inl (Errorf ''failed to validate authentication config: %w'' [] [err])
          | Inr anonymous \<Rightarrow> Inr (cfg, NewLogger level format, anonymous))))"

fun registerAll :: "(string \<Rightarrow> 'x \<Rightarrow> goerr + 'x) \<Rightarrow> string list \<Rightarrow> 'x \<Rightarrow> goerr + 'x" where
  "registerAll add [] scheme = Inr scheme"
| "registerAll add (gv # gvs) scheme = (case add gv scheme of
       Inl err \<Rightarrow> Inl (Errorf (''failed to register '' @ gv @ '' scheme: %w'') [] [err])
     | Inr scheme1 \<Rightarrow> registerAll add gvs scheme1)"

definition buildScheme :: "(string \<Rightarrow> 'x \<Rightarrow> goerr + 'x) \<Rightarrow> 'x \<Rightarrow> goerr + 'x" where
  "buildScheme add newScheme = registerAll add [''kontinuum.sh/v1alpha2'', ''kontinuum.sh/v1alpha1'', ''core/v1'',
     ''rbac.authorization.k8s.io/v1'', ''coordination.k8s.io/v1''] newScheme"

section \<open>Clients for the web interface\<close>

text \<open>The port \<open>net.SplitHostPort\<close> returns beside the host, and \<open>net.JoinHostPort\<close>.\<close>

definition portOf :: "string \<Rightarrow> string" where "portOf s = rev (takeWhile (\<lambda>c. c \<noteq> CHR '':'') (rev s))"

definition joinHostPort :: "string \<Rightarrow> string \<Rightarrow> string" where
  "joinHostPort host port = (if CHR '':'' \<in> set host then ''['' @ host @ '']:'' @ port else host @ '':'' @ port)"

definition localBaseURL :: "string \<Rightarrow> string" where
  "localBaseURL addr =
     (let (host, port) = (case splitHostPort addr of None \<Rightarrow> ('''', '''') | Some h \<Rightarrow> (h, portOf addr));
          host = (if host = '''' \<or> host = ''0.0.0.0'' \<or> host = ''::'' then ''127.0.0.1'' else host)
      in ''http://'' @ joinHostPort host port)"

record restConfig =
  rest_Host :: string
  rest_BearerToken :: string

definition callerConfig :: "string \<Rightarrow> string \<Rightarrow> restConfig" where
  "callerConfig addr token =
     (let restCfg = \<lparr>rest_Host = localBaseURL addr, rest_BearerToken = ''''\<rparr>
      in if token \<noteq> '''' then restCfg\<lparr>rest_BearerToken := token\<rparr> else restCfg)"

record ('s, 'x) clientlib =
  cb_Namespaces :: "restConfig \<Rightarrow> ('s, goerr + ('s, goerr + Namespace list option) state) state"
  cb_Kontinuums :: "restConfig \<Rightarrow> 'x \<Rightarrow> ('s, goerr + 's KontinuumClient) state"
  cb_New :: "restConfig \<Rightarrow> 'x \<Rightarrow> ('s, goerr + 's client) state"

definition wrapClient :: "string \<Rightarrow> ('s, goerr + 'c) state \<Rightarrow> ('s, goerr + 'c) state" where
  "wrapClient what build = do {
     c \<leftarrow> build;
     (case c of Inl err \<Rightarrow> return (Inl (Errorf (''failed to build in-process '' @ what @ '' client: %w'') [] [err])) | Inr x \<Rightarrow> return (Inr x))
   }"

definition namespaceListerFactory :: "('s, 'x) clientlib \<Rightarrow> string \<Rightarrow> string \<Rightarrow> ('s, goerr + ('s, goerr + Namespace list option) state) state" where
  "namespaceListerFactory cb addr token = wrapClient ''kubernetes'' (cb_Namespaces cb (callerConfig addr token))"

definition kontinuumListerFactory :: "('s, 'x) clientlib \<Rightarrow> string \<Rightarrow> 'x \<Rightarrow> string \<Rightarrow> ('s, goerr + 's KontinuumClient) state" where
  "kontinuumListerFactory cb addr scheme token = wrapClient ''kontinuum'' (cb_Kontinuums cb (callerConfig addr token) scheme)"

definition zoneClientFactory :: "('s, 'x) clientlib \<Rightarrow> string \<Rightarrow> 'x \<Rightarrow> string \<Rightarrow> ('s, goerr + 's client) state" where
  "zoneClientFactory cb addr scheme token = wrapClient ''zone'' (cb_New cb (callerConfig addr token) scheme)"

section \<open>The handlers of the process\<close>

text \<open>
  \<open>customHandlers\<close>: sign-in and sign-out come before the interface when OIDC is configured; what
  no pattern matches goes to \<open>api\<close>, the handler of the API server.
\<close>

definition authRoute :: "'s oidclib \<Rightarrow> 's AuthHandler \<Rightarrow> UiRequest \<Rightarrow> ('s, action list) state option" where
  "authRoute ol h request =
     (let segs = urlSegments (ur_Path request) in
      if \<not> methodMatches ''GET'' (ur_Method request) then None
      else if segs = [''app'', ''login''] then Some (HandleLogin ol h (Request.truncate request))
      else if segs = [''app'', ''logout''] then Some (return HandleLogout)
      else None)"

definition appHandler :: "'s uilib \<Rightarrow> 's oidclib \<Rightarrow> 's Router \<Rightarrow> 's AuthHandler option \<Rightarrow> (UiRequest \<Rightarrow> ('s, action list) state) \<Rightarrow>
    UiRequest \<Rightarrow> ('s, action list) state option" where
  "appHandler lib ol uiRouter oidcHandler vendor request = (case oidcHandler of
       None \<Rightarrow> RegisterRoutes lib uiRouter None None vendor request
     | Some h \<Rightarrow> (case authRoute ol h request of
         Some m \<Rightarrow> Some m
       | None \<Rightarrow> RegisterRoutes lib uiRouter (Some (\<lambda>request. HandleApp ol h (Request.truncate request)))
           (Some (Protect h)) vendor request))"

definition customHandlers :: "'s uilib \<Rightarrow> 's oidclib \<Rightarrow> 's Router \<Rightarrow> 's AuthHandler option \<Rightarrow> (UiRequest \<Rightarrow> ('s, action list) state) \<Rightarrow>
    (UiRequest \<Rightarrow> ('s, action list) state) \<Rightarrow> UiRequest \<Rightarrow> ('s, action list) state" where
  "customHandlers lib ol uiRouter oidcHandler vendor apiServer request =
     (case appHandler lib ol uiRouter oidcHandler vendor request of None \<Rightarrow> apiServer request | Some m \<Rightarrow> m)"

text \<open>\<open>registerEtcdProxy\<close>: \<open>newHubClient\<close> builds a client from the loopback configuration.\<close>

definition registerEtcdProxy :: "'s world \<Rightarrow> 's crypto \<Rightarrow> jwtlib \<Rightarrow> (nat \<Rightarrow> goerr + 's lru) \<Rightarrow> 's newClient \<Rightarrow>
    ('s, goerr + 's client) state \<Rightarrow> string list \<Rightarrow> ('s, goerr option) state" where
  "registerEtcdProxy w cx jl lruNew nc newHubClient endpoints = (case endpoints of
       [] \<Rightarrow> return (Some errNoStorageEndpoints)
     | endpoint # _ \<Rightarrow> do {
         c \<leftarrow> newHubClient;
         (case c of
            Inl err \<Rightarrow> return (Some (Errorf ''failed to build etcd proxy's own hub client: %w'' [] [err]))
          | Inr hubClient \<Rightarrow> do {
              r \<leftarrow> RegisterHub w cx jl lruNew nc endpoint hubClient KontinuumSystemNamespace;
              (case r of
                 Inl err \<Rightarrow> return (Some (Errorf ''failed to register etcd gRPC proxy: %w'' [] [err]))
               | Inr _ \<Rightarrow> return None)
            })
       })"

section \<open>The storage of the process\<close>

definition storageRelaySocketPath :: string where "storageRelaySocketPath = ''/tmp/kontinuum-storage-relay.sock''"

definition storageLocalPoolSocketPath :: string where "storageLocalPoolSocketPath = ''/tmp/kontinuum-storage-pool.sock''"

text \<open>
  What the storage needs of the host: sockets and backends, the parser and the schemes of
  connection strings, the client for the own cluster, a context with its cancellation.
\<close>

record 's storageenv =
  se_host :: "'s hostenv"
  se_crypto :: "'s crypto"
  se_urlParse :: "string \<Rightarrow> goerr + URL"
  se_urlScheme :: "string \<Rightarrow> goerr + string"
  se_isKine :: "string \<Rightarrow> bool"
  se_newWatcher :: "('s, goerr + 's watchClient) state"
  se_withCancel :: "('s, ('s, unit) state) state"

type_synonym 's resolved = "goerr + string \<times> ('s, unit) state"

definition resolveRelayDSN :: "'s storageenv \<Rightarrow> string \<Rightarrow> string \<Rightarrow> string \<Rightarrow> ('s, 's resolved) state" where
  "resolveRelayDSN se zone hubEndpoint insecureSkipVerify = (case parseBool insecureSkipVerify of
       Inl err \<Rightarrow> return (Inl (Errorf ''failed to parse KONTINUUM_SERVER_GRPC_INSECURE_TLS_SKIP_VERIFY: %w'' [] [err]))
     | Inr skipVerify \<Rightarrow> do {
         w \<leftarrow> se_newWatcher se;
         (case w of
            Inl err \<Rightarrow> return (Inl (Errorf ''failed to build etcd proxy identity watcher: %w'' [] [err]))
          | Inr watchClient \<Rightarrow> do {
              cancelWatch \<leftarrow> se_withCancel se;
              k \<leftarrow> WatchIdentity (se_crypto se) (startWatchFor watchClient) (wc_reader watchClient) KontinuumSystemNamespace;
              (case k of
                 Inl err \<Rightarrow> do { _ \<leftarrow> cancelWatch; return (Inl (Errorf ''failed to load etcd proxy identity: %w'' [] [err])) }
               | Inr keys \<Rightarrow> do {
                   r \<leftarrow> StartRelay (se_host se) \<lparr>rl_SocketPath = storageRelaySocketPath, rl_HubEndpoint = hubEndpoint, rl_Zone = zone,
                          rl_Insecure = False, rl_InsecureSkipVerify = skipVerify\<rparr>;
                   (case r of
                      Inl err \<Rightarrow> do { _ \<leftarrow> cancelWatch; return (Inl (Errorf ''failed to start storage relay: %w'' [] [err])) }
                    | Inr relay \<Rightarrow> return (Inr (''unix://'' @ storageRelaySocketPath, do { _ \<leftarrow> cancelWatch; RelayClose relay })))
                 })
            })
       })"

definition resolveStorageDSN :: "'s storageenv \<Rightarrow> string \<Rightarrow> string \<Rightarrow> ('s, 's resolved) state" where
  "resolveStorageDSN se configured insecureSkipVerify = (case ParseRelayDSN (se_urlParse se) configured of
       Some (zone, hubEndpoint) \<Rightarrow> resolveRelayDSN se zone hubEndpoint insecureSkipVerify
     | None \<Rightarrow>
         if \<not> IsPoolableBackend (se_urlScheme se) (se_isKine se) configured then return (Inr (configured, return ()))
         else do {
           p \<leftarrow> StartLocalPool (se_host se) storageLocalPoolSocketPath configured;
           (case p of
              Inl err \<Rightarrow> return (Inl (Errorf ''failed to start local storage pool: %w'' [] [err]))
            | Inr pool \<Rightarrow> return (Inr (''unix://'' @ storageLocalPoolSocketPath, LocalPoolClose pool)))
         })"

definition resolveZoneStorage :: "'s storageenv \<Rightarrow> KConfig \<Rightarrow> ('s, 's resolved) state" where
  "resolveZoneStorage se cfg = resolveStorageDSN se (ksrv_Storage (kcfg_Server cfg))
     (kgrpc_InsecureTLSSkipVerify (ksrv_GRPC (kcfg_Server cfg)))"

section \<open>The options of the server\<close>

text \<open>The implementations that the constructors of the controllers fill in.\<close>

record 's production =
  pd_Discoverer :: "'s Discoverer"
  pd_Bootstrapper :: "'s ClusterBootstrapper"
  pd_Installer :: "'s Installer"
  pd_PodProber :: "'s PodProber"
  pd_CRDChecker :: "'s CRDChecker"
  pd_SecretSyncer :: "'s SecretSyncer"
  pd_ClientBuilder :: "'s DownstreamClientBuilder"
  pd_Digests :: "'s DigestResolver"

datatype 's controller = RegistryController RegistryConfig | InstanceController "'s Config" | InstancePoolController PoolConfig
  | TalosClusterController "'s ClusterConfig" | InstanceResetController "'s InstanceResetConfig" | AddonController "'s AddonConfig"
  | ZoneController "'s ZoneControllerConfig" | AdminRBACController AdminConfig

text \<open>The hooks that run before the controllers start; \<open>caBundle\<close> is that of the webhook server.\<close>

datatype crdHook = EnsureRegistryCRD | EnsureInstanceCRDs

definition runHook :: "('s, 'y) crdenv \<Rightarrow> string \<Rightarrow> crdHook \<Rightarrow> ('s, goerr option option) state" where
  "runHook env caBundle hook = (case hook of EnsureRegistryCRD \<Rightarrow> EnsureCRD env caBundle | EnsureInstanceCRDs \<Rightarrow> EnsureCRDs env)"

type_synonym 's handler = "UiRequest \<Rightarrow> ('s, action list) state"

datatype ('s, 'x) kapiOption = WithAddr string | WithStorage string | WithLogger | WithServerFactory "'s handler \<Rightarrow> 's handler"
  | WithGarbageCollector | WithSystemNamespace string | WithPostStartHook crdHook | WithScheme 'x | WithController "'s controller"
  | WithWebhookServer int | WithOIDC string string | WithRBACAuthorizer string

definition displayConfig :: "'u urllib \<Rightarrow> KConfig \<Rightarrow> KontinuumConfigStatus" where
  "displayConfig ul cfg =
     (let redacted = Redact ul cfg
      in redacted\<lparr>kcfg_OIDC := (kcfg_OIDC redacted)\<lparr>koidc_Enabled := (koidc_IssuerURL (kcfg_OIDC redacted) \<noteq> '''')\<rparr>\<rparr>)"

definition registryOptions :: "'u urllib \<Rightarrow> string \<Rightarrow> KConfig \<Rightarrow> 'x \<Rightarrow> Identity \<Rightarrow> goerr + ('s, 'x) kapiOption list \<times> RegistryConfig" where
  "registryOptions ul version cfg scheme zoneLease =
     (case Role (ksrv_Region (kcfg_Server cfg)) (ksrv_Zone (kcfg_Server cfg)) of
        Inl err \<Rightarrow> Inl (Errorf ''failed to determine server registry role: %w'' [] [err])
      | Inr role \<Rightarrow>
          let controller = NewRegistryController \<lparr>rc_Role = role, rc_Region = ksrv_Region (kcfg_Server cfg), rc_Zone = ksrv_Zone (kcfg_Server cfg),
                rc_HeartbeatInterval = 0, rc_StaleThreshold = 0, rc_Version = version, rc_Storage = ksrv_Storage (kcfg_Server cfg),
                rc_DisplayConfig = displayConfig ul cfg, rc_ZoneLease = zoneLease\<rparr>
          in Inr ([WithScheme scheme, WithController (RegistryController controller), WithWebhookServer ConversionWebhookPort], controller))"

definition instanceOptions :: "'s production \<Rightarrow> Identity \<Rightarrow> ('s, 'x) kapiOption list" where
  "instanceOptions pd zoneLease = [WithPostStartHook EnsureInstanceCRDs,
     WithController (InstanceController (NewController (pd_Discoverer pd) \<lparr>icf_Discoverer = None, icf_DialTimeout = 0,
       icf_RetryInterval = 0, icf_RecheckInterval = 0, icf_ZoneLease = zoneLease\<rparr>))]"

definition instancePoolOptions :: "Identity \<Rightarrow> ('s, 'x) kapiOption list" where
  "instancePoolOptions zoneLease =
     [WithController (InstancePoolController (NewPoolController \<lparr>pcf_RetryInterval = 0, pcf_ZoneLease = zoneLease\<rparr>))]"

definition talosClusterOptions :: "'s production \<Rightarrow> KConfig \<Rightarrow> Identity \<Rightarrow> ('s, 'x) kapiOption list" where
  "talosClusterOptions pd cfg zoneLease =
     [WithController (TalosClusterController (NewClusterController (pd_Bootstrapper pd) \<lparr>kc_Bootstrapper = None, kc_HealthCheckTimeout = 0,
        kc_RetryInterval = 0, kc_HealthCheckInterval = 0, kc_TeardownTimeout = 0, kc_ZoneLease = zoneLease, kc_DNS = ksrv_DNS (kcfg_Server cfg)\<rparr>)),
      WithController (InstanceResetController (NewInstanceResetController (pd_Bootstrapper pd)
        \<lparr>irc_Bootstrapper = None, irc_RetryInterval = 0, irc_ResetTimeout = 0\<rparr>))]"

definition addonOptions :: "'s production \<Rightarrow> Identity \<Rightarrow> ('s, 'x) kapiOption list" where
  "addonOptions pd zoneLease = [WithController (AddonController (NewAddonController (pd_Installer pd) (pd_PodProber pd) (pd_CRDChecker pd)
     (pd_SecretSyncer pd) \<lparr>ac_Installer = None, ac_PodProber = None, ac_CRDChecker = None, ac_SecretSyncer = None, ac_RetryInterval = 0,
       ac_ResyncInterval = 0, ac_ZoneLease = zoneLease\<rparr>))]"

definition zoneImageRepo :: string where "zoneImageRepo = ''ghcr.io/nicklasfrahm-dev/kontinuum''"

definition zoneControllerOptions :: "'s production \<Rightarrow> KConfig \<Rightarrow> Identity \<Rightarrow> ('s, 'x) kapiOption list" where
  "zoneControllerOptions pd cfg zoneLease = [WithController (ZoneController (NewZoneController (pd_ClientBuilder pd) (pd_Digests pd)
     \<lparr>zc_DownstreamClientBuilder = None, zc_Digests = None, zc_HubConfig = cfg, zc_ImageRepo = zoneImageRepo, zc_RetryInterval = 0,
      zc_TeardownTimeout = 0, zc_ZoneLease = zoneLease\<rparr>))]"

definition adminRBACOptions :: "KConfig \<Rightarrow> Identity \<Rightarrow> ('s, 'x) kapiOption list" where
  "adminRBACOptions cfg zoneLease =
     (if koidc_IssuerURL (kcfg_OIDC cfg) = '''' then []
      else [WithController (AdminRBACController (NewAdminController
        \<lparr>adc_AdminGroups = koidc_AdminGroups (kcfg_OIDC cfg), adc_Interval = 0, adc_ZoneLease = zoneLease\<rparr>))])"

definition configureOIDC :: "'s oidclib \<Rightarrow> KConfig \<Rightarrow> ('s, goerr + ('s, 'x) kapiOption list \<times> 's AuthHandler option) state" where
  "configureOIDC ol cfg =
     (if koidc_IssuerURL (kcfg_OIDC cfg) = '''' then return (Inr ([], None))
      else do {
        h \<leftarrow> NewAuthHandler ol \<lparr>ac_IssuerURL = koidc_IssuerURL (kcfg_OIDC cfg), ac_ClientID = koidc_ClientID (kcfg_OIDC cfg),
               ac_RedirectURL = koidc_RedirectURL (kcfg_OIDC cfg), ac_Scopes = []\<rparr>;
        (case h of
           Inl err \<Rightarrow> return (Inl (Errorf ''failed to configure oidc login flow: %w'' [] [err]))
         | Inr oidcHandler \<Rightarrow> return (Inr ([WithOIDC (koidc_IssuerURL (kcfg_OIDC cfg)) (koidc_ClientID (kcfg_OIDC cfg)),
             WithRBACAuthorizer (koidc_AdminGroups (kcfg_OIDC cfg))], Some oidcHandler)))
      })"

section \<open>Building and running the server\<close>

text \<open>
  A built server: what the process waits for first, the error that \<open>ListenAndServe\<close> returns
  later, \<open>Shutdown\<close> with its timeout, and the heartbeat that the registry controller holds
  once its manager has set it up.
\<close>

datatype wake = ServeErr "goerr option" | Signaled string

record 's kapiServer =
  ks_await :: "('s hbstate, wake) state"
  ks_serveErr :: "('s hbstate, goerr option) state"
  ks_Shutdown :: "int \<Rightarrow> ('s hbstate, goerr option) state"
  ks_heartbeat :: "('s hbstate, 's Heartbeat option) state"

record ('s, 'x, 'u) serveenv =
  sv_os :: "'s hbstate hostos"
  sv_order :: "(string \<times> string) list \<Rightarrow> (string \<times> string) list"
  sv_getenv :: "string \<Rightarrow> string"
  sv_storage :: "'s hbstate storageenv"
  sv_prod :: "'s production"
  sv_clients :: "('s, 'x) clientlib"
  sv_addScheme :: "string \<Rightarrow> 'x \<Rightarrow> goerr + 'x"
  sv_newScheme :: 'x
  sv_ui :: "'s uilib"
  sv_oidc :: "'s oidclib"
  sv_vendor :: "'s handler"
  sv_url :: "'u urllib"
  sv_version :: string
  sv_New :: "('s, 'x) kapiOption list \<Rightarrow> ('s hbstate, goerr + 's kapiServer) state"
  sv_notStarted :: "goerr \<Rightarrow> bool"
  sv_log :: "slogLevel \<Rightarrow> string \<Rightarrow> (string \<times> string) list \<Rightarrow> ('s hbstate, unit) state"

definition uiRouterFor :: "('s, 'x, 'u) serveenv \<Rightarrow> KConfig \<Rightarrow> 'x \<Rightarrow> 's AuthHandler option \<Rightarrow> 's Router" where
  "uiRouterFor sv cfg scheme oidcHandler =
     (let addr = ksrv_Addr (kcfg_Server cfg) in
      NewRouter (namespaceListerFactory (sv_clients sv) addr) (kontinuumListerFactory (sv_clients sv) addr scheme)
        (zoneClientFactory (sv_clients sv) addr scheme) (sv_version sv) (Redact (sv_url sv) cfg) (oidcHandler \<noteq> None)
        (map_option (\<lambda>_. InvalidateSession) oidcHandler))"

definition serverOptions :: "('s, 'x, 'u) serveenv \<Rightarrow> KConfig \<Rightarrow> string \<Rightarrow> 's Router \<Rightarrow> 's AuthHandler option \<Rightarrow>
    ('s, 'x) kapiOption list \<Rightarrow> ('s, 'x) kapiOption list \<Rightarrow> Identity \<Rightarrow> ('s, 'x) kapiOption list" where
  "serverOptions sv cfg storage uiRouter oidcHandler authOpts registryOpts zoneLease =
     [WithAddr (ksrv_Addr (kcfg_Server cfg)), WithStorage storage, WithLogger,
      WithServerFactory (customHandlers (sv_ui sv) (sv_oidc sv) uiRouter oidcHandler (sv_vendor sv)), WithGarbageCollector,
      WithSystemNamespace KontinuumSystemNamespace, WithPostStartHook EnsureRegistryCRD] @
     authOpts @ registryOpts @ instanceOptions (sv_prod sv) zoneLease @ instancePoolOptions zoneLease @
     talosClusterOptions (sv_prod sv) cfg zoneLease @ addonOptions (sv_prod sv) zoneLease @ zoneControllerOptions (sv_prod sv) cfg zoneLease @
     adminRBACOptions cfg zoneLease"

definition buildServer :: "('s, 'x, 'u) serveenv \<Rightarrow> KConfig \<Rightarrow> ('s, 'x) kapiOption list \<Rightarrow> 's AuthHandler option \<Rightarrow>
    ('s hbstate, goerr + 's kapiServer \<times> RegistryConfig \<times> ('s hbstate, unit) state) state" where
  "buildServer sv cfg authOpts oidcHandler = (case buildScheme (sv_addScheme sv) (sv_newScheme sv) of
       Inl err \<Rightarrow> return (Inl err)
     | Inr scheme \<Rightarrow> do {
         let uiRouter = uiRouterFor sv cfg scheme oidcHandler;
         hostname \<leftarrow> os_Hostname (sv_os sv);
         holder \<leftarrow> InstanceName (os_uuidV7 (sv_os sv)) (os_uuidV4 (sv_os sv)) hostname;
         let zoneLease = \<lparr>id_HolderIdentity = holder,
               id_SelfZoneKey = Key (ksrv_Region (kcfg_Server cfg)) (ksrv_Zone (kcfg_Server cfg))\<rparr>;
         (case registryOptions (sv_url sv) (sv_version sv) cfg scheme zoneLease of
            Inl err \<Rightarrow> return (Inl err)
          | Inr (registryOpts, registryController) \<Rightarrow> do {
              st \<leftarrow> resolveZoneStorage (sv_storage sv) cfg;
              (case st of
                 Inl err \<Rightarrow> return (Inl err)
               | Inr (storage, relayCleanup) \<Rightarrow> do {
                   n \<leftarrow> sv_New sv (serverOptions sv cfg storage uiRouter oidcHandler authOpts registryOpts zoneLease);
                   (case n of
                      Inl err \<Rightarrow> do { _ \<leftarrow> relayCleanup; return (Inl (Errorf ''failed to build server: %w'' [] [err])) }
                    | Inr server \<Rightarrow> return (Inr (server, registryController, relayCleanup)))
                 })
            })
       })"

definition shutdownServer :: "('s, 'x, 'u) serveenv \<Rightarrow> 's kapiServer \<Rightarrow> ('s hbstate, goerr option) state" where
  "shutdownServer sv server = do {
     e \<leftarrow> ks_Shutdown server shutdownTimeout;
     (case e of
        None \<Rightarrow> return None
      | Some err \<Rightarrow>
          if sv_notStarted sv err then return None
          else do {
            _ \<leftarrow> sv_log sv LevelError ''Graceful shutdown failed'' [];
            return (Some (Errorf ''failed to shutdown server: %w'' [] [err]))
          })
   }"

definition serverExit :: "goerr option \<Rightarrow> goerr option" where
  "serverExit e = map_option (\<lambda>err. Errorf ''server exited with error: %w'' [] [err]) e"

definition serveUntilShutdown :: "('s, 'x, 'u) serveenv \<Rightarrow> 's kapiServer \<Rightarrow> ('s hbstate, goerr option) state" where
  "serveUntilShutdown sv server = do {
     w \<leftarrow> ks_await server;
     (case w of
        ServeErr e \<Rightarrow> return (serverExit e)
      | Signaled sig \<Rightarrow> do {
          _ \<leftarrow> sv_log sv LevelInfo ''Received signal, shutting down'' [(''signal'', sig)];
          hb \<leftarrow> ks_heartbeat server;
          d \<leftarrow> ControllerDeregister hb;
          _ \<leftarrow> (case d of None \<Rightarrow> return () | Some err \<Rightarrow> sv_log sv LevelError ''Failed to deregister server before shutdown'' []);
          e \<leftarrow> shutdownServer sv server;
          x \<leftarrow> ks_serveErr server;
          return (case e of Some err \<Rightarrow> Some err | None \<Rightarrow> serverExit x)
        })
   }"

definition startupFields :: "KConfig \<Rightarrow> (string \<times> string) list" where
  "startupFields cfg = [(''addr'', ksrv_Addr (kcfg_Server cfg)), (''storage'', ksrv_Storage (kcfg_Server cfg))]"

definition runServe :: "('s, 'x, 'u) serveenv \<Rightarrow> string option \<Rightarrow> string option \<Rightarrow> ('s hbstate, goerr option) state" where
  "runServe sv addr storage = do {
     h \<leftarrow> configureHelmHome (sv_order sv) (sv_os sv);
     (case h of
        Some err \<Rightarrow> return (Some err)
      | None \<Rightarrow> (case loadServeConfig (sv_getenv sv) addr storage of
          Inl err \<Rightarrow> return (Some err)
        | Inr (cfg, logger, anonymous) \<Rightarrow> do {
            _ \<leftarrow> (if anonymous then sv_log sv LevelWarn ''Starting with anonymous access allowed''
                  [(''reason'', ''KONTINUUM_INSECURE_ALLOW_ANONYMOUS=true and no OIDC issuer configured'')] else return ());
            oi \<leftarrow> api (configureOIDC (sv_oidc sv) cfg);
            (case oi of
               Inl err \<Rightarrow> return (Some err)
             | Inr (authOpts, oidcHandler) \<Rightarrow> do {
                 b \<leftarrow> buildServer sv cfg authOpts oidcHandler;
                 (case b of
                    Inl err \<Rightarrow> return (Some err)
                  | Inr (server, registryController, relayCleanup) \<Rightarrow> do {
                      _ \<leftarrow> sv_log sv LevelInfo ''Kontinuum starting'' (startupFields cfg);
                      e \<leftarrow> serveUntilShutdown sv server;
                      _ \<leftarrow> relayCleanup;
                      return e
                    })
               })
          }))
   }"

end
