(* ===== verification/ServeProps.thy ===== *)
theory ServeProps
  imports Serve UiProps
begin

text \<open>
  What holds of the handlers of a process taken together, and of its start and stop.
\<close>

section \<open>One token only\<close>

text \<open>The router whose factories build clients for one token and refuse any other.\<close>

definition onlyToken :: "string \<Rightarrow> 's Router \<Rightarrow> 's Router" where
  "onlyToken tok r = r
     \<lparr>ro_namespacesFor := (\<lambda>t. if t = tok then ro_namespacesFor r t else return (Inl (Sentinel ''other token''))),
      ro_kontinuumsFor := (\<lambda>t. if t = tok then ro_kontinuumsFor r t else return (Inl (Sentinel ''other token''))),
      ro_zonesFor := (\<lambda>t. if t = tok then ro_zonesFor r t else return (Inl (Sentinel ''other token'')))\<rparr>"

lemma onlyToken_fields [simp]:
  "ro_pages (onlyToken tok r) = ro_pages r" "ro_version (onlyToken tok r) = ro_version r" "ro_cfg (onlyToken tok r) = ro_cfg r"
  "ro_authEnabled (onlyToken tok r) = ro_authEnabled r" "ro_invalidateSession (onlyToken tok r) = ro_invalidateSession r"
  "ro_namespacesFor (onlyToken tok r) tok = ro_namespacesFor r tok" "ro_kontinuumsFor (onlyToken tok r) tok = ro_kontinuumsFor r tok"
  "ro_zonesFor (onlyToken tok r) tok = ro_zonesFor r tok"
  by (simp_all add: onlyToken_def)

lemma onlyToken_answers [simp]:
  "apiFailure lib (onlyToken tok r) = apiFailure lib r"
  "executeTemplate lib (onlyToken tok r) = executeTemplate lib r"
  "endsSession (onlyToken tok r) = endsSession r"
  by (simp_all add: apiFailure_def executeTemplate_def endsSession_def fun_eq_iff)

lemma onlyToken_clients [simp]:
  "withKontinuums lib (onlyToken tok r) tok body = withKontinuums lib r tok body"
  "withZones lib (onlyToken tok r) tok zbody = withZones lib r tok zbody"
  "addTenantSwitcherData (onlyToken tok r) tok request data = addTenantSwitcherData r tok request data"
  "renderPage lib (onlyToken tok r) tok request page data = renderPage lib r tok request page data"
  "deleteAndRedirect lib (onlyToken tok r) d kind path = deleteAndRedirect lib r d kind path"
  by (simp_all add: withKontinuums_def withZones_def addTenantSwitcherData_def renderPage_def deleteAndRedirect_def cong: sum.case_cong option.case_cong if_cong)

lemma onlyToken_fetches [simp]:
  "listZoneRows lib (onlyToken tok r) tok request = listZoneRows lib r tok request"
  "listInstanceSuggestions (onlyToken tok r) tok = listInstanceSuggestions r tok"
  "fetchZone lib (onlyToken tok r) = fetchZone lib r" "fetchZoneCluster lib (onlyToken tok r) = fetchZoneCluster lib r"
  "fetchKontinuum lib (onlyToken tok r) = fetchKontinuum lib r" "fetchSecretDataYAML lib (onlyToken tok r) = fetchSecretDataYAML lib r"
  "fetchOwningZone lib (onlyToken tok r) = fetchOwningZone lib r"
  "fetchTalosClusterKubeconfig lib (onlyToken tok r) = fetchTalosClusterKubeconfig lib r"
  "fetchTalosCluster lib (onlyToken tok r) = fetchTalosCluster lib r"
  "listNamespaceRoles lib (onlyToken tok r) = listNamespaceRoles lib r"
  "listNamespaceRoleBindings lib (onlyToken tok r) = listNamespaceRoleBindings lib r"
  "listClusterRoles lib (onlyToken tok r) = listClusterRoles lib r"
  "listClusterRoleBindings lib (onlyToken tok r) = listClusterRoleBindings lib r"
  by (simp_all add: fetch_defs listInstanceSuggestions_def fun_eq_iff cong: sum.case_cong option.case_cong if_cong)

lemma onlyToken_data [simp]:
  "zoneDetailData lib (onlyToken tok r) = zoneDetailData lib r" "kontinuumDetailData lib (onlyToken tok r) = kontinuumDetailData lib r"
  "instanceDetailData lib (onlyToken tok r) = instanceDetailData lib r"
  "talosClusterDetailData lib (onlyToken tok r) = talosClusterDetailData lib r"
  "loadIAMNamespace lib (onlyToken tok r) tok = loadIAMNamespace lib r tok" "loadIAMCluster lib (onlyToken tok r) tok = loadIAMCluster lib r tok"
  by (simp_all add: zoneDetailData_def zoneBaseData_def kontinuumDetailData_def instanceDetailData_def talosClusterDetailData_def
      loadIAMNamespace_def loadIAMCluster_def fun_eq_iff cong: sum.case_cong option.case_cong if_cong)

lemma onlyToken_pages [simp]:
  "renderRegistry lib (onlyToken tok r) tok request = renderRegistry lib r tok request"
  "handleZoneDetail lib (onlyToken tok r) tok request = handleZoneDetail lib r tok request"
  "handleKontinuumDetail lib (onlyToken tok r) tok request = handleKontinuumDetail lib r tok request"
  "handleKontinuumSecretDownload lib (onlyToken tok r) tok request = handleKontinuumSecretDownload lib r tok request"
  "handleInstances lib (onlyToken tok r) tok request = handleInstances lib r tok request"
  "handleInstanceDetail lib (onlyToken tok r) tok request = handleInstanceDetail lib r tok request"
  "handleTalosClusters lib (onlyToken tok r) tok request = handleTalosClusters lib r tok request"
  "handleTalosClusterDetail lib (onlyToken tok r) tok request = handleTalosClusterDetail lib r tok request"
  "handleTalosClusterKubeconfigDownload lib (onlyToken tok r) tok request = handleTalosClusterKubeconfigDownload lib r tok request"
  "renderIAMNamespace lib (onlyToken tok r) view tok request = renderIAMNamespace lib r view tok request"
  "renderIAMCluster lib (onlyToken tok r) view tok request = renderIAMCluster lib r view tok request"
  "handleConnect lib (onlyToken tok r) tok request = handleConnect lib r tok request"
  "handleRegistryKubeconfigDownload lib (onlyToken tok r) tok request = handleRegistryKubeconfigDownload lib r tok request"
  by (simp_all add: renderRegistry_def handleZoneDetail_def handleKontinuumDetail_def handleKontinuumSecretDownload_def
    handleInstances_def handleInstanceDetail_def handleTalosClusters_def handleTalosClusterDetail_def
    handleTalosClusterKubeconfigDownload_def renderIAMNamespace_def renderIAMCluster_def handleConnect_def
    handleRegistryKubeconfigDownload_def registryData_def Let_def cong: sum.case_cong option.case_cong if_cong)

lemma onlyToken_forms [simp]:
  "handleZoneAdd lib (onlyToken tok r) tok request = handleZoneAdd lib r tok request"
  "handleInstanceAdd lib (onlyToken tok r) tok request = handleInstanceAdd lib r tok request"
  "handleRoleAdd lib (onlyToken tok r) tok request = handleRoleAdd lib r tok request"
  "handleClusterRoleAdd lib (onlyToken tok r) tok request = handleClusterRoleAdd lib r tok request"
  "handleRoleBindingAdd lib (onlyToken tok r) tok request = handleRoleBindingAdd lib r tok request"
  "handleClusterRoleBindingAdd lib (onlyToken tok r) tok request = handleClusterRoleBindingAdd lib r tok request"
  by (simp_all add: handleZoneAdd_def handleInstanceAdd_def handleRoleAdd_def handleClusterRoleAdd_def
    handleRoleBindingAdd_def handleClusterRoleBindingAdd_def Let_def fragment_defs cong: sum.case_cong option.case_cong if_cong)

lemma onlyToken_deletions [simp]:
  "handleDeleteInstance lib (onlyToken tok r) tok request = handleDeleteInstance lib r tok request"
  "handleDeleteZone lib (onlyToken tok r) tok request = handleDeleteZone lib r tok request"
  "handleDeleteInstanceObject lib (onlyToken tok r) tok request = handleDeleteInstanceObject lib r tok request"
  "handleDeleteTalosCluster lib (onlyToken tok r) tok request = handleDeleteTalosCluster lib r tok request"
  "handleDeleteRole lib (onlyToken tok r) tok request = handleDeleteRole lib r tok request"
  "handleDeleteRoleBinding lib (onlyToken tok r) tok request = handleDeleteRoleBinding lib r tok request"
  "handleDeleteClusterRole lib (onlyToken tok r) tok request = handleDeleteClusterRole lib r tok request"
  "handleDeleteClusterRoleBinding lib (onlyToken tok r) tok request = handleDeleteClusterRoleBinding lib r tok request"
  by (simp_all add: handleDeleteInstance_def handleDeleteZone_def handleDeleteInstanceObject_def handleDeleteTalosCluster_def
    handleDeleteRole_def handleDeleteRoleBinding_def handleDeleteClusterRole_def handleDeleteClusterRoleBinding_def cong: sum.case_cong option.case_cong if_cong)

section \<open>The page of a request\<close>

text \<open>What a handler does with the token of its request, behind the fallback for missing pages.\<close>

definition pageFor :: "'s uilib \<Rightarrow> 's Router \<Rightarrow> 's uihandler" where
  "pageFor lib r tok request = (case findRoute (appRoutes lib r) (ur_Method request) (urlSegments (ur_Path request)) of
       Some (hdl, vs) \<Rightarrow> notFoundFallback hdl tok (withPathValues vs request)
     | None \<Rightarrow> notFoundFallback missingPage tok request)"

definition underApp :: "UiRequest \<Rightarrow> bool" where
  "underApp request \<longleftrightarrow> take 1 (urlSegments (ur_Path request)) = [''app''] \<and> 1 < length (urlSegments (ur_Path request))"

definition signPath :: "UiRequest \<Rightarrow> bool" where
  "signPath request \<longleftrightarrow> methodMatches ''GET'' (ur_Method request) \<and>
     urlSegments (ur_Path request) \<in> {[''app'', ''login''], [''app'', ''logout'']}"

definition ownPath :: "UiRequest \<Rightarrow> bool" where
  "ownPath request \<longleftrightarrow> underApp request \<or> methodMatches ''GET'' (ur_Method request) \<and>
     (urlSegments (ur_Path request) \<in> {[''''], [''app'']} \<or>
      take 2 (urlSegments (ur_Path request)) = vendorURLPrefix \<and> 2 < length (urlSegments (ur_Path request)))"

lemma fallback_token: "h tok = h' tok \<Longrightarrow> notFoundFallback h tok request = notFoundFallback h' tok request"
  by (simp add: notFoundFallback_def)

lemma findRoute_pointwise:
  assumes "list_all2 (\<lambda>(m, p, h) (m', p', h'). m = m' \<and> p = p' \<and> h tok = h' tok) rs rs'"
  shows "rel_option (\<lambda>(h, vs) (h', vs'). vs = vs' \<and> h tok = h' tok) (findRoute rs m0 segs) (findRoute rs' m0 segs)"
  using assms by induction (auto split: option.splits)

lemma routes_onlyToken:
  "list_all2 (\<lambda>(m, p, h) (m', p', h'). m = m' \<and> p = p' \<and> h tok = h' tok) (appRoutes lib (onlyToken tok r)) (appRoutes lib r)"
  by (simp add: appRoutes_def iamRoutes_def handleIAMNamespaceRoles_def handleIAMNamespaceRoleBindings_def
      handleIAMClusterRoles_def handleIAMClusterRoleBindings_def fun_eq_iff)

lemma pageFor_onlyToken: "pageFor lib (onlyToken tok r) tok request = pageFor lib r tok request"
  using findRoute_pointwise [OF routes_onlyToken, of tok lib r "ur_Method request" "urlSegments (ur_Path request)"]
  by (auto simp: pageFor_def rel_option_iff split: option.splits intro: fallback_token)

lemma validSession_Some:
  assumes "run_state (validSessionToken h request) s = (Some tok, t)"
  shows "rq_Cookie request sessionCookieName = Some tok \<and> tok \<noteq> '''' \<and>
    (\<exists>idToken. run_state (pv_Verify (ah_Provider h) (ac_ClientID (ah_Config h)) tok) s = (Inr idToken, t))"
  using assms by (auto simp: validSessionToken_def split: option.splits if_splits sum.splits prod.splits)

lemma validSession_path [simp]: "validSessionToken h (withPathValues vs request) = validSessionToken h request"
  by (simp add: validSessionToken_def withPathValues_def)

lemma take_app: "take (Suc 0) segs = [''app''] \<Longrightarrow> take 2 segs \<noteq> vendorURLPrefix"
  by (cases segs) (auto simp: vendorURLPrefix_def numeral_2_eq_2)

lemma protected_handler:
  assumes "underApp request" "\<not> signPath request"
  shows "appHandler lib ol r (Some h) vendor request = Some (do {
       v \<leftarrow> validSessionToken h request;
       (case v of None \<Rightarrow> return [Redirect ''/app''] | Some tok \<Rightarrow> pageFor lib r tok request)
     })"
proof -
  have no: "authRoute ol h request = None" using assms(2) by (auto simp: authRoute_def signPath_def Let_def)
  have segs: "take (Suc 0) (urlSegments (ur_Path request)) = [''app'']" "Suc 0 < length (urlSegments (ur_Path request))"
    using assms(1) by (simp_all add: underApp_def)
  then have other: "urlSegments (ur_Path request) \<noteq> ['''']" "urlSegments (ur_Path request) \<noteq> [''app'']" by auto
  show ?thesis
  proof (cases "findRoute (appRoutes lib r) (ur_Method request) (urlSegments (ur_Path request))")
    case None
    then show ?thesis using segs other take_app [OF segs(1)]
      by (simp add: appHandler_def no RegisterRoutes_def Let_def wrapHandler_def Protect_def pageFor_def cong: option.case_cong)
  next
    case (Some x)
    then show ?thesis using segs other take_app [OF segs(1)]
      by (cases x) (simp add: appHandler_def no RegisterRoutes_def Let_def wrapHandler_def Protect_def pageFor_def cong: option.case_cong)
  qed
qed

text \<open>
  C21: A request to a page is answered for its own session only.  Without a valid session it is
  redirected to the login page and nothing else happens; with one, the token is the value of
  the session cookie, verified by the provider for this request, and the page does exactly
  what it would do if no client for any other token could be built.
\<close>

theorem session_isolated:
  assumes "underApp request" "\<not> signPath request"
  shows "run_state (customHandlers lib ol r (Some h) vendor apiServer request) s =
      (case run_state (validSessionToken h request) s of
         (None, t) \<Rightarrow> ([Redirect ''/app''], t)
       | (Some tok, t) \<Rightarrow> run_state (pageFor lib (onlyToken tok r) tok request) t) \<and>
    (\<forall>tok t. run_state (validSessionToken h request) s = (Some tok, t) \<longrightarrow>
       rq_Cookie request sessionCookieName = Some tok \<and> tok \<noteq> '''' \<and>
       (\<exists>idToken. run_state (pv_Verify (ah_Provider h) (ac_ClientID (ah_Config h)) tok) s = (Inr idToken, t)))"
  by (auto simp: customHandlers_def protected_handler [OF assms] pageFor_onlyToken split: prod.splits option.splits dest: validSession_Some)

section \<open>Every request is answered once\<close>

lemma yields_finishLogin: "yields answered (finishLogin ol h code wantNonce pkceVerifier)"
  unfolding finishLogin_def by ((rule yields_rules yields_bind | simp add: redirectLoginError_def clearCookie_def setCookie_def)+)

lemma yields_handleCallback: "yields answered (handleCallback ol h request)"
proof -
  have inner: "yields answered (case decodeFlowCookie flow of Inl err \<Rightarrow> return (redirectLoginError (MapError (ol_Text ol) (Some err)))
      | Inr (wantState, wantNonce, pkceVerifier) \<Rightarrow>
          if queryParam request ''state'' \<noteq> wantState then return (redirectLoginError (MapError (ol_Text ol) (Some ErrStateMismatch)))
          else finishLogin ol h (queryParam request ''code'') wantNonce pkceVerifier)" for flow
    by ((rule yields_rules yields_finishLogin | simp add: redirectLoginError_def clearCookie_def)+)
  show ?thesis unfolding handleCallback_def
    by (rule yields_option, simp add: yields_return redirectLoginError_def clearCookie_def, rule yields_bind_result [OF inner],
        rule yields_return, simp add: clearCookie_def)
qed

lemma yields_HandleApp: "yields answered (HandleApp ol h request)"
  unfolding HandleApp_def by ((rule yields_rules yields_bind yields_handleCallback | simp)+)

lemma yields_HandleLogin: "yields answered (HandleLogin ol h request)"
  unfolding HandleLogin_def beginLogin_def by ((rule yields_rules yields_bind | simp add: setCookie_def)+)

lemma answered_logout: "answered HandleLogout" "answered (InvalidateSession msg)"
  by (simp_all add: HandleLogout_def InvalidateSession_def redirectLoginError_def clearCookie_def)

lemma yields_Protect: "(\<And>tok. yields answered (hdl tok request)) \<Longrightarrow> yields answered (Protect h hdl request)"
  unfolding Protect_def by ((rule yields_rules yields_bind | simp)+)

lemma yields_pageFor:
  assumes "invalidates r"
  shows "yields answered (pageFor lib r tok request)"
proof -
  have "yields answered (hdl tok request)" if "findRoute (appRoutes lib r) m segs = Some (hdl, vs)" for hdl m segs vs request
    using findRoute_mem [OF that] route_answers [OF assms] by blast
  then show ?thesis
    by (auto simp: pageFor_def missingPage_def split: option.splits intro!: yields_fallback yields_return)
qed

lemma RegisterRoutes_page:
  "RegisterRoutes lib r appRoot prot vendor request =
     (let segs = urlSegments (ur_Path request); get = methodMatches ''GET'' (ur_Method request);
          root = (case appRoot of None \<Rightarrow> handleAppRoot '''' | Some h \<Rightarrow> h) in
      if get \<and> take 2 segs = vendorURLPrefix \<and> 2 < length segs then Some (vendor request)
      else if get \<and> segs = [''''] then Some (handleRoot '''' request)
      else if get \<and> segs = [''app''] then Some (root request)
      else case findRoute (appRoutes lib r) (ur_Method request) segs of
          Some (h, vs) \<Rightarrow> Some (wrapHandler (case prot of None \<Rightarrow> noProtection | Some p \<Rightarrow> p) h (withPathValues vs request))
        | None \<Rightarrow> if underApp request then Some (wrapHandler (case prot of None \<Rightarrow> noProtection | Some p \<Rightarrow> p) missingPage request) else None)"
  by (simp add: RegisterRoutes_def Let_def underApp_def cong: if_cong option.case_cong)

lemma route_underApp: "findRoute (appRoutes lib r) m segs = Some x \<Longrightarrow> take 1 segs = [''app''] \<and> 1 < length segs"
proof -
  have all: "list_all (\<lambda>(m, p, h). \<exists>q p'. p = Lit ''app'' # q # p') (appRoutes lib r)"
    by (simp add: appRoutes_def iamRoutes_def)
  have step: "list_all (\<lambda>(m, p, h). \<exists>q p'. p = Lit ''app'' # q # p') routes \<Longrightarrow>
      findRoute routes m segs = Some x \<Longrightarrow> take 1 segs = [''app''] \<and> 1 < length segs" for routes
  proof (induction routes m segs rule: findRoute.induct)
    case (2 m pattern h routes mth segs)
    then show ?case
      by (cases segs; cases "tl segs") (auto split: if_splits option.splits)
  qed simp
  assume "findRoute (appRoutes lib r) m segs = Some x"
  with all show ?thesis by (rule step)
qed

lemma uiRouter_invalidates: "invalidates (uiRouterFor sv cfg scheme oidc)"
  by (auto simp: invalidates_def uiRouterFor_def NewRouter_def Let_def answered_logout)

lemma handleRoot_answers: "yields answered (handleRoot tok request)"
  by (simp add: handleRoot_def yields_def)

lemma handleAppRoot_answers: "yields answered (handleAppRoot tok request)"
  by (simp add: handleAppRoot_def yields_def)

lemma wrapped_answers:
  assumes "invalidates r" and "findRoute (appRoutes lib r) m segs = Some (hdl, vs)"
  shows "yields answered (notFoundFallback hdl tok request)"
  using findRoute_mem [OF assms(2)] route_answers [OF assms(1)] yields_fallback by blast

lemma missing_answers: "yields answered (notFoundFallback missingPage tok request)"
  by (rule yields_fallback) (simp add: missingPage_def yields_def)

lemma routes_answer:
  assumes "invalidates r" and "RegisterRoutes lib r root prot vendor request = Some m"
    and "\<And>request. yields answered (vendor request)" and "\<And>h. root = Some h \<Longrightarrow> yields answered (h request)"
    and "\<And>p hdl request. prot = Some p \<Longrightarrow> (\<And>tok. yields answered (hdl tok request)) \<Longrightarrow> yields answered (p hdl request)"
  shows "yields answered m"
proof -
  let ?guard = "case prot of None \<Rightarrow> noProtection | Some p \<Rightarrow> p"
  have guard: "yields answered (?guard hdl request)" if "\<And>tok. yields answered (hdl tok request)" for hdl request
    using that assms(5) by (cases prot) (simp_all add: noProtection_def)
  have "yields answered (wrapHandler ?guard hdl (withPathValues vs request))"
    if "findRoute (appRoutes lib r) (ur_Method request) (urlSegments (ur_Path request)) = Some (hdl, vs)" for hdl vs
    unfolding wrapHandler_def by (rule guard) (rule wrapped_answers [OF assms(1) that])
  moreover have "yields answered (wrapHandler ?guard missingPage request)"
    unfolding wrapHandler_def by (rule guard) (rule missing_answers)
  moreover have "yields answered (case root of None \<Rightarrow> handleAppRoot '''' request | Some h \<Rightarrow> h request)"
    using assms(4) handleAppRoot_answers by (cases root) simp_all
  ultimately show ?thesis using assms(2,3) handleRoot_answers
    by (auto simp: RegisterRoutes_page Let_def split: if_splits option.splits)
qed


section \<open>Reading changes nothing\<close>

lemma findRoute_method:
  "findRoute routes m0 segs = Some (h, vs) \<Longrightarrow> \<exists>m pattern. (m, pattern, h) \<in> set routes \<and> methodMatches m m0"
  by (induction routes m0 segs rule: findRoute.induct) (auto split: option.splits if_splits)

lemma get_routes_leave:
  assumes "reads_leave I lib r tok" and "(''GET'', pattern, h) \<in> set (appRoutes lib r)"
  shows "leaves I (h tok request)"
  using assms(2) pages_leave [OF assms(1)]
  by (auto simp: appRoutes_def iamRoutes_def handleIAMNamespaceRoles_def handleIAMNamespaceRoleBindings_def
      handleIAMClusterRoles_def handleIAMClusterRoleBindings_def handleAppHome_def intro: leaves_return)

lemma only_get_reads: "(m, pattern, h) \<in> set (appRoutes lib r) \<Longrightarrow> methodMatches m m0 \<Longrightarrow> m0 \<in> {''GET'', ''HEAD''} \<Longrightarrow> m = ''GET''"
  by (auto simp: appRoutes_def iamRoutes_def methodMatches_def)

lemma fallback_leaves: "leaves I (h tok request) \<Longrightarrow> leaves I (notFoundFallback h tok request)"
  unfolding notFoundFallback_def by (auto intro!: leaves_rules)

lemma pageFor_leaves:
  assumes "reads_leave I lib r tok" and "ur_Method request \<in> {''GET'', ''HEAD''}"
  shows "leaves I (pageFor lib r tok request)"
proof (cases "findRoute (appRoutes lib r) (ur_Method request) (urlSegments (ur_Path request))")
  case None
  then show ?thesis by (auto simp: pageFor_def missingPage_def intro!: fallback_leaves leaves_return)
next
  case (Some x)
  obtain h vs where x: "x = (h, vs)" by (cases x)
  obtain m pattern where mem: "(m, pattern, h) \<in> set (appRoutes lib r)" and m: "methodMatches m (ur_Method request)"
    using findRoute_method Some x by blast
  have "m = ''GET''" by (rule only_get_reads [OF mem m assms(2)])
  then have "leaves I (h tok request')" for request' using get_routes_leave [OF assms(1)] mem by blast
  then show ?thesis using Some x by (simp add: pageFor_def fallback_leaves)
qed

text \<open>
  C24: Looking at pages changes nothing: a GET or HEAD under \<open>/app/\<close>, whether its path names a
  page or nothing, keeps every property of the world that reads of the Kubernetes API, the
  clock and the verification of a token keep: no create, update, patch or delete call is
  made, with any session.
\<close>

theorem pages_only_read:
  assumes "underApp request" "\<not> signPath request" and "ur_Method request \<in> {''GET'', ''HEAD''}"
    and "\<And>tok. reads_leave I lib r tok" and "\<And>clientID tok. leaves I (pv_Verify (ah_Provider h) clientID tok)"
  shows "leaves I (customHandlers lib ol r (Some h) vendor apiServer request)"
proof -
  have "leaves I (validSessionToken h request)"
    unfolding validSessionToken_def by (auto intro!: leaves_rules assms(5))
  then show ?thesis
    by (auto simp: customHandlers_def protected_handler [OF assms(1,2)] intro!: leaves_rules pageFor_leaves [OF assms(4,3)])
qed

section \<open>What is published of the configuration\<close>

definition withStorage :: "KConfig \<Rightarrow> string \<Rightarrow> string \<Rightarrow> KConfig" where
  "withStorage cfg storage credential = cfg\<lparr>kcfg_Server := (kcfg_Server cfg)\<lparr>ksrv_Storage := storage,
     ksrv_DNS := (ksrv_DNS (kcfg_Server cfg))\<lparr>kdns_Credential := credential\<rparr>\<rparr>\<rparr>"

text \<open>
  C25: What a process publishes of its configuration (the snapshot in its status, everything
  the web interface can show) is the same for any user information in the storage connection
  string and for any DNS credential, provided that the string parses as a URL.  A string
  that does not parse is published as it is, password included; and the line that is logged
  at start-up always tells apart two connection strings.
\<close>

theorem published_config_redacted:
  assumes "ul_parse (sv_url sv) storage = Inr u" "ul_parse (sv_url sv) storage' = Inr u'"
    and "ul_dropUser (sv_url sv) u = ul_dropUser (sv_url sv) u'"
  shows "displayConfig (sv_url sv) (withStorage cfg storage credential) = displayConfig (sv_url sv) (withStorage cfg storage' credential') \<and>
    uiRouterFor sv (withStorage cfg storage credential) scheme oidc = uiRouterFor sv (withStorage cfg storage' credential') scheme oidc \<and>
    (\<forall>raw err. ul_parse (sv_url sv) raw = Inl err \<longrightarrow>
      ksrv_Storage (kcfg_Server (displayConfig (sv_url sv) (withStorage cfg raw credential))) = raw) \<and>
    (startupFields (withStorage cfg storage credential) = startupFields (withStorage cfg storage' credential) \<longleftrightarrow> storage = storage')"
  using assms by (simp add: displayConfig_def withStorage_def Redact_def RedactStorage_def uiRouterFor_def startupFields_def Let_def)

section \<open>Concrete requests\<close>

definition ui_get :: "string \<Rightarrow> (string \<rightharpoonup> string) \<Rightarrow> UiRequest" where
  "ui_get p cookies = \<lparr>rq_Query = '''', rq_Cookie = cookies, ur_Method = ''GET'', ur_Path = p, ur_PathValue = (\<lambda>_. ''''), ur_Body = '''',
     ur_IsForm = False, ur_HxRequest = '''', ur_Accept = '''', ur_Host = '''', ur_ForwardedProto = '''', ur_TLS = False\<rparr>"

lemma ui_get_fields [simp]: "ur_Path (ui_get p c) = p" "ur_Method (ui_get p c) = ''GET''" "rq_Cookie (ui_get p c) = c"
  by (simp_all add: ui_get_def)

lemma ui_get_connect: "underApp (ui_get ''/app/connect'' c)" "\<not> signPath (ui_get ''/app/connect'' c)" "ownPath (ui_get ''/app/connect'' c)"
  by (simp_all add: underApp_def signPath_def ownPath_def urlSegments_def)

theorem session_isolated_witness:
  "\<forall>(lib :: unit uilib) r vendor apiServer.
     run_state (customHandlers lib demo_oidc r (Some (demo_handler ''n'')) vendor apiServer (ui_get ''/app/connect'' Map.empty)) () =
       ([Redirect ''/app''], ()) \<and>
     run_state (customHandlers lib demo_oidc r (Some (demo_handler ''n'')) vendor apiServer (ui_get ''/app/connect'' [sessionCookieName \<mapsto> ''t''])) () =
       run_state (pageFor lib (onlyToken ''t'' r) ''t'' (ui_get ''/app/connect'' [sessionCookieName \<mapsto> ''t''])) ()"
proof (intro allI)
  fix lib :: "unit uilib" and r vendor apiServer
  have "run_state (validSessionToken (demo_handler ''n'') (ui_get ''/app/connect'' Map.empty)) () = (None, ())"
    "run_state (validSessionToken (demo_handler ''n'') (ui_get ''/app/connect'' [sessionCookieName \<mapsto> ''t''])) () = (Some ''t'', ())"
    by (simp_all add: validSessionToken_def demo_handler_def demo_provider_def)
  then show "run_state (customHandlers lib demo_oidc r (Some (demo_handler ''n'')) vendor apiServer (ui_get ''/app/connect'' Map.empty)) () =
       ([Redirect ''/app''], ()) \<and>
     run_state (customHandlers lib demo_oidc r (Some (demo_handler ''n'')) vendor apiServer (ui_get ''/app/connect'' [sessionCookieName \<mapsto> ''t''])) () =
       run_state (pageFor lib (onlyToken ''t'' r) ''t'' (ui_get ''/app/connect'' [sessionCookieName \<mapsto> ''t''])) ()"
    by (simp add: session_isolated [OF ui_get_connect(1,2)])
qed


text \<open>A world that counts deletions, with one deletable cluster and nothing to read.\<close>

definition count_client :: "nat client" where
  "count_client = down_client\<lparr>cl_TalosCluster := down_kclient\<lparr>kdelete := (\<lambda>_. State (\<lambda>n. (None, Suc n)))\<rparr>\<rparr>"

definition count_router :: "nat Router" where
  "count_router = NewRouter (\<lambda>_. return (Inl unavailable))
     (\<lambda>_. return (Inr \<lparr>kc_client = count_client, kc_Role = down_kclient, kc_RoleBinding = down_kclient, kc_ClusterRole = down_kclient,
        kc_ClusterRoleBinding = down_kclient\<rparr>)) (\<lambda>_. return (Inr count_client)) ''dev'' zeroConfigStatus True None"

definition count_handler :: "nat AuthHandler" where
  "count_handler = \<lparr>ah_Config = \<lparr>ac_IssuerURL = ''i'', ac_ClientID = ''k'', ac_RedirectURL = ''r'', ac_Scopes = []\<rparr>,
     ah_Provider = \<lparr>pv_AuthCodeURL = (\<lambda>_ _ _ _. ''''), pv_Exchange = (\<lambda>_ _ _. return (Inl unavailable)),
       pv_Verify = (\<lambda>_ _. return (Inr \<lparr>it_Nonce = '''', it_Expiry = 9\<rparr>))\<rparr>\<rparr>"

theorem pages_only_read_witness:
  "\<forall>lib ol vendor apiServer cookies. leaves (\<lambda>n :: nat. n = 0)
     (customHandlers (lib\<lparr>ui_world := still_world 0\<rparr>) ol count_router (Some count_handler) vendor apiServer (ui_get ''/app/connect'' cookies))"
proof (intro allI)
  fix lib :: "nat uilib" and ol vendor apiServer cookies
  have reads: "reads_leave (\<lambda>n. n = 0) (lib\<lparr>ui_world := still_world 0\<rparr>) count_router tok" for tok
    by (simp add: reads_leave_def count_router_def NewRouter_def still_world_def yields_def kontinuum_reads_def client_reads_def kreads_def
        count_client_def down_client_def down_kclient_def leaves_return)
  have ver: "leaves (\<lambda>n. n = 0) (pv_Verify (ah_Provider count_handler) clientID tok)" for clientID tok
    by (simp add: count_handler_def leaves_return)
  show "leaves (\<lambda>n. n = 0) (customHandlers (lib\<lparr>ui_world := still_world 0\<rparr>) ol count_router (Some count_handler) vendor apiServer
      (ui_get ''/app/connect'' cookies))"
    by (rule pages_only_read [OF ui_get_connect(1,2) _ reads ver]) simp
qed

theorem published_config_redacted_witness:
  "\<forall>(sv :: (unit, unit, string \<times> string) serveenv) cfg oidc.
     let sv = sv\<lparr>sv_url := \<lparr>ul_parse = (\<lambda>s. if s = ''%'' then Inl unavailable else Inr (takeWhile (\<lambda>c. c \<noteq> CHR ''@'') s, dropWhile (\<lambda>c. c \<noteq> CHR ''@'') s)),
       ul_dropUser = (\<lambda>(u, r). ('''', r)), ul_string = (\<lambda>(u, r). u @ r)\<rparr>\<rparr>
     in uiRouterFor sv (withStorage cfg ''u:secret@db'' ''key'') () oidc = uiRouterFor sv (withStorage cfg ''v:other@db'' '''') () oidc"
proof (intro allI)
  fix sv :: "(unit, unit, string \<times> string) serveenv" and cfg oidc
  let ?sv = "sv\<lparr>sv_url := \<lparr>ul_parse = (\<lambda>s. if s = ''%'' then Inl unavailable else Inr (takeWhile (\<lambda>c. c \<noteq> CHR ''@'') s, dropWhile (\<lambda>c. c \<noteq> CHR ''@'') s)),
       ul_dropUser = (\<lambda>(u, r). ('''', r)), ul_string = (\<lambda>(u, r). u @ r)\<rparr>\<rparr>"
  have "ul_parse (sv_url ?sv) ''u:secret@db'' = Inr (''u:secret'', ''@db'')" "ul_parse (sv_url ?sv) ''v:other@db'' = Inr (''v:other'', ''@db'')"
    "ul_dropUser (sv_url ?sv) (''u:secret'', ''@db'') = ul_dropUser (sv_url ?sv) (''v:other'', ''@db'')" by simp_all
  from published_config_redacted [OF this, of cfg "''key''" "''''" "()" oidc] show "let sv = ?sv in
     uiRouterFor sv (withStorage cfg ''u:secret@db'' ''key'') () oidc = uiRouterFor sv (withStorage cfg ''v:other@db'' '''') () oidc" by simp
qed

end
