(* ===== verification/ServeStorage.thy ===== *)
theory ServeStorage
  imports Serve UiProps ZoneIdentity
begin

text \<open>
  The storage of a process over its whole life: whatever the start opened (a listener, a
  backend, connections) is closed when \<open>runServe\<close> returns, on every path.
\<close>

section \<open>Calls that open nothing\<close>

definition opensNone :: "('s \<Rightarrow> resource set) \<Rightarrow> ('s, 'a) state \<Rightarrow> bool" where
  "opensNone opened m \<longleftrightarrow> (\<forall>X. leaves (\<lambda>s. opened s = X) m)"

lemma opensNoneI: "(\<And>X. leaves (\<lambda>s. opened s = X) m) \<Longrightarrow> opensNone opened m"
  by (simp add: opensNone_def)

lemma opensNone_leaves: "opensNone opened m \<Longrightarrow> leaves (\<lambda>s. opened s = X) m"
  by (simp add: opensNone_def)

lemma opensNone_run: "opensNone opened m \<Longrightarrow> run_state m s = (a, t) \<Longrightarrow> opened t = opened s"
  by (auto simp: opensNone_def dest: leaves_run [where I = "\<lambda>x. opened x = opened s"])

lemma opensNone_bind_result:
  "opensNone opened m \<Longrightarrow> yields Q m \<Longrightarrow> (\<And>a. Q a \<Longrightarrow> opensNone opened (f a)) \<Longrightarrow> opensNone opened (State_Monad.bind m f)"
  unfolding opensNone_def by (metis leaves_bind_result)

lemma opensNone_bind: "opensNone opened m \<Longrightarrow> (\<And>a. opensNone opened (f a)) \<Longrightarrow> opensNone opened (State_Monad.bind m f)"
  by (auto simp: opensNone_def intro: leaves_bind)

lemma opensNone_return [simp]: "opensNone opened (return a)"
  by (simp add: opensNone_def leaves_return)

section \<open>Resolving the storage\<close>

text \<open>\<open>owns\<close>: what was opened between two states, none of it open before, is what the cleanup closes.\<close>

definition owns :: "('s \<Rightarrow> resource set) \<Rightarrow> 's \<Rightarrow> 's \<Rightarrow> ('s, unit) state \<Rightarrow> bool" where
  "owns opened s t cleanup \<longleftrightarrow> (\<exists>R. R \<inter> opened s = {} \<and> opened t = opened s \<union> R \<and>
     (\<forall>u. opened (state_after cleanup u) = opened u - R))"

lemma owns_nothing [simp]: "owns opened s s (return ())"
  by (auto simp: owns_def intro!: exI [of _ "{}"])

definition fresh_storage :: "('s \<Rightarrow> resource set) \<Rightarrow> 's \<Rightarrow> bool" where
  "fresh_storage opened s \<longleftrightarrow> ResListener \<notin> opened s \<and> ResBackend \<notin> opened s"

text \<open>The host of \<open>EtcdProxy\<close>; reading and watching the identity and the context open no storage.\<close>

definition watchesOnly :: "('s \<Rightarrow> resource set) \<Rightarrow> 's watchClient \<Rightarrow> bool" where
  "watchesOnly opened wc \<longleftrightarrow> (\<forall>k. opensNone opened (kget (cl_Secret (wc_reader wc)) k)) \<and>
     (\<forall>ns. opensNone opened (wc_Watch wc ns)) \<and>
     (\<forall>ns. yields (\<lambda>y. \<forall>w. y = Inr w \<longrightarrow> opensNone opened (wt_Stop w)) (wc_Watch wc ns))"

definition storage_world :: "'s storageenv \<Rightarrow> ('s \<Rightarrow> resource set) \<Rightarrow> bool" where
  "storage_world se opened \<longleftrightarrow> host_world (se_host se) opened \<and>
     opensNone opened (se_withCancel se) \<and> yields (opensNone opened) (se_withCancel se) \<and>
     opensNone opened (se_newWatcher se) \<and>
     yields (\<lambda>x. \<forall>wc. x = Inr wc \<longrightarrow> watchesOnly opened wc) (se_newWatcher se)"

lemma closed_twice:
  assumes "\<And>u. opened (state_after m u) = opened u - A" and "\<And>u. opened (state_after n u) = opened u - B"
  shows "opened (state_after (do { _ \<leftarrow> m; n }) u) = opened u - (A \<union> B)"
  using assms(1) [of u] assms(2) [of "state_after m u"] by (auto split: prod.splits)

lemma StartRelay_opened:
  assumes w: "host_world he opened" and fresh: "ResListener \<notin> opened s"
    and r: "run_state (StartRelay he cfg) s = (r, t)"
  shows "(\<forall>err. r = Inl err \<longrightarrow> opened t = opened s) \<and> (\<forall>relay. r = Inr relay \<longrightarrow> owns opened s t (RelayClose relay))"
proof -
  obtain s1 where rm: "run_state (he_remove he (rl_SocketPath cfg)) s = ((), s1)" by (rule exE [OF run_unit])
  have o1: "opened s1 = opened s" using host_worldD(6) [OF w rm] .
  obtain l s2 where l: "run_state (he_listen he (rl_SocketPath cfg)) s1 = (l, s2)" by fastforce
  show ?thesis
  proof (cases l)
    case (Inl err)
    with r rm l host_worldD(7) [OF w l [unfolded Inl]] o1 show ?thesis by (auto simp: StartRelay_def)
  next
    case (Inr lc)
    note l' = l [unfolded Inr]
    have o2: "opened s2 = insert ResListener (opened s)" using host_worldD(8) [OF w l'] o1 by simp
    let ?opts = "[WithTransportCredentials (if rl_Insecure cfg then ''insecure''
                       else if rl_InsecureSkipVerify cfg then ''tls-skip-verify'' else ''tls''), WithPerRPCCredentials,
                 WithInitialWindowSize poolStreamWindowSize, WithInitialConnWindowSize poolConnWindowSize,
                 WithChainUnaryInterceptor, WithChainStreamInterceptor]"
    obtain c s3 where c: "run_state (he_newClient he (rl_HubEndpoint cfg) ?opts) s2 = (c, s3)" by fastforce
    note dial = dial_worldD [OF host_worldD(1) [OF w]]
    show ?thesis
    proof (cases c)
      case (Inl err)
      obtain s4 where cl: "run_state lc s3 = ((), s4)" by (rule exE [OF run_unit])
      have "opened s4 = opened s" using host_worldD(9) [OF w l' cl] dial(1) [OF c [unfolded Inl]] o2 fresh by auto
      with r rm l' c Inl cl show ?thesis by (auto simp: StartRelay_def Let_def)
    next
      case (Inr conn)
      note c' = c [unfolded Inr]
      have r': "r = Inr \<lparr>ry_proxy = NewProxy conn None, ry_upstream = conn, ry_listenerClose = lc\<rparr>" "t = s3"
        using r rm l' c' by (auto simp: StartRelay_def Let_def)
      have close: "opened (state_after (cc_Close conn) u) = opened u - {ResConn (cc_id conn)}" for u
        using dial(4) [OF c'] by (simp add: closes_def)
      have lclose: "opened (state_after lc u) = opened u - {ResListener}" for u
        using host_worldD(9) [OF w l', of u "()" "state_after lc u"] by (simp add: prod_eq_iff)
      have "opened (state_after (RelayClose \<lparr>ry_proxy = NewProxy conn None, ry_upstream = conn, ry_listenerClose = lc\<rparr>) u) =
          opened u - ({ResListener} \<union> {ResConn (cc_id conn)})" for u
        unfolding RelayClose_def using closed_twice [of opened lc "{ResListener}", OF lclose close] by simp
      then have "owns opened s t (RelayClose \<lparr>ry_proxy = NewProxy conn None, ry_upstream = conn, ry_listenerClose = lc\<rparr>)"
        using dial(2,3) [OF c'] o2 fresh r'(2) by (auto simp: owns_def intro!: exI [of _ "{ResListener} \<union> {ResConn (cc_id conn)}"])
      with r' show ?thesis by simp
    qed
  qed
qed

lemma StartLocalPool_opened:
  assumes w: "host_world he opened" and fresh: "fresh_storage opened s"
    and r: "run_state (StartLocalPool he sock backend) s = (Inr l, t)"
  shows "owns opened s t (LocalPoolClose l)"
proof -
  obtain h s1 where h: "run_state (he_resolve he backend) s = (Inr h, s1)"
    using r by (auto simp: StartLocalPool_def split: sum.splits prod.splits)
  obtain s2 where rm: "run_state (he_remove he sock) s1 = ((), s2)" by (rule exE [OF run_unit])
  obtain lc s3 where lc: "run_state (he_listen he sock) s2 = (Inr lc, s3)"
    using r h rm by (auto simp: StartLocalPool_def split: sum.splits prod.splits)
  obtain ep eps where ep: "hd_Endpoints h = ep # eps" using host_worldD(4) [OF w h] by (cases "hd_Endpoints h") auto
  obtain pool cl s4 where d: "run_state (DialPool (he_newClient he) ep localPoolSize None [WithTransportCredentials ''insecure'']) s3 = (Inr (pool, cl), s4)"
    using r h rm lc ep by (auto simp: StartLocalPool_def split: sum.splits prod.splits)
  have l: "l = \<lparr>lp_pool = pool, lp_listenerClose = lc, lp_closePool = cl, lp_handleClose = hd_Close h\<rparr>" "t = s4"
    using r h rm lc ep d by (auto simp: StartLocalPool_def)
  obtain cs where cs: "opened s4 = opened s3 \<union> cs" "opened s3 \<inter> cs = {}" "\<And>u. opened (state_after cl u) = opened u - cs"
    using DialPool_opened(2) [OF host_worldD(1) [OF w] d refl] by blast
  have o3: "opened s3 = insert ResListener (insert ResBackend (opened s))"
    using host_worldD(3) [OF w h] host_worldD(6) [OF w rm] host_worldD(8) [OF w lc] by simp
  have lclose: "opened (state_after lc u) = opened u - {ResListener}" for u
    using host_worldD(9) [OF w lc, of u "()" "state_after lc u"] by (simp add: prod_eq_iff)
  have hclose: "opened (state_after (hd_Close h) u) = opened u - {ResBackend}" for u
    using host_worldD(5) [OF w h, of u "()" "state_after (hd_Close h) u"] by (simp add: prod_eq_iff)
  have "opened (state_after (LocalPoolClose l) u) = opened u - ({ResListener} \<union> (cs \<union> {ResBackend}))" for u
    unfolding LocalPoolClose_def l LocalPool.simps by (rule closed_twice [OF lclose closed_twice [OF cs(3) hclose]])
  then show ?thesis using cs(1,2) o3 l(2) fresh
    by (auto simp: owns_def fresh_storage_def intro!: exI [of _ "{ResListener} \<union> (cs \<union> {ResBackend})"])
qed

lemma WatchIdentity_opens:
  assumes "watchesOnly opened wc"
  shows "opensNone opened (WatchIdentity cx (startWatchFor wc) (wc_reader wc) ns)"
proof -
  have key: "opensNone opened (getIdentityKey cx (wc_reader wc) ns)"
    unfolding getIdentityKey_def 
    by (rule opensNone_bind) (use assms in \<open>auto simp: watchesOnly_def split: sum.splits\<close>)
  have start: "opensNone opened (startWatchFor wc ns)" unfolding startWatchFor_def by (rule opensNone_bind) (use assms in \<open>simp_all add: watchesOnly_def\<close>)
  have stop: "yields (\<lambda>x. \<forall>stop. x = Inr stop \<longrightarrow> opensNone opened stop) (startWatchFor wc ns)"
    unfolding startWatchFor_def 
    by (rule yields_bind_result [of "\<lambda>y. \<forall>w. y = Inr w \<longrightarrow> opensNone opened (wt_Stop w)"])
      (use assms in \<open>auto simp: watchesOnly_def intro!: yields_return split: sum.splits\<close>)
  show ?thesis unfolding WatchIdentity_def
    by (rule opensNone_bind_result [OF start stop]) (auto intro!: opensNone_bind key split: sum.splits)
qed

lemma relay_opened:
  assumes w: "storage_world se opened" and fresh: "ResListener \<notin> opened s"
    and r: "run_state (resolveRelayDSN se zone hub insecure) s = (r, t)"
  shows "(\<forall>err. r = Inl err \<longrightarrow> opened t = opened s) \<and>
    (\<forall>dsn cleanup. r = Inr (dsn, cleanup) \<longrightarrow> owns opened s t cleanup)"
proof (cases "parseBool insecure")
  case (Inl err)
  with r show ?thesis by (auto simp: resolveRelayDSN_def)
next
  case (Inr skip)
  obtain x s1 where x: "run_state (se_newWatcher se) s = (x, s1)" by fastforce
  have o1: "opened s1 = opened s" using opensNone_run [OF _ x, of opened] w by (simp add: storage_world_def)
  show ?thesis
  proof (cases x)
    case (Inl err)
    with r x Inr o1 show ?thesis by (auto simp: resolveRelayDSN_def)
  next
    case x': (Inr wc)
    have wc: "watchesOnly opened wc" using w yieldsD [of _ "se_newWatcher se" s] x x' by (auto simp: storage_world_def)
    obtain cancel s2 where c: "run_state (se_withCancel se) s1 = (cancel, s2)" by fastforce
    have o2: "opened s2 = opened s" and cancel: "opensNone opened cancel"
      using opensNone_run [OF _ c, of opened] yieldsD [of "opensNone opened" "se_withCancel se" s1] w o1 c by (auto simp: storage_world_def)
    let ?watch = "WatchIdentity (se_crypto se) (startWatchFor wc) (wc_reader wc) KontinuumSystemNamespace"
    obtain k s3 where k: "run_state ?watch s2 = (k, s3)" by fastforce
    have "opensNone opened ?watch" by (rule WatchIdentity_opens [OF wc])
    then have o3: "opened s3 = opened s" using opensNone_run k o2 by metis
    show ?thesis
    proof (cases k)
      case (Inl err)
      obtain s4 where s4: "run_state cancel s3 = ((), s4)" by (rule exE [OF run_unit])
      have "opened s4 = opened s" using opensNone_run [OF cancel s4] o3 by simp
      with r x x' c k Inl s4 \<open>parseBool insecure = Inr skip\<close> show ?thesis by (auto simp: resolveRelayDSN_def)
    next
      case k': (Inr keys)
      let ?cfg = "\<lparr>rl_SocketPath = storageRelaySocketPath, rl_HubEndpoint = hub, rl_Zone = zone,
                          rl_Insecure = False, rl_InsecureSkipVerify = skip\<rparr>"
      obtain y s4 where y: "run_state (StartRelay (se_host se) ?cfg) s3 = (y, s4)" by fastforce
      have so: "(\<forall>err. y = Inl err \<longrightarrow> opened s4 = opened s3) \<and> (\<forall>relay. y = Inr relay \<longrightarrow> owns opened s3 s4 (RelayClose relay))"
        by (rule StartRelay_opened [OF _ _ y]) (use w fresh o3 in \<open>simp_all add: storage_world_def\<close>)
      obtain s5 where s5: "run_state cancel s4 = ((), s5)" by (rule exE [OF run_unit])
      have o5: "opened s5 = opened s4" using opensNone_run [OF cancel s5] .
      have both: "owns opened s s4 (do { _ \<leftarrow> cancel; m })" if "owns opened s3 s4 m" for m
      proof -
        have "opened (state_after cancel u) = opened u - {}" for u
          using opensNone_run [OF cancel, of u "()" "state_after cancel u"] by (simp add: prod_eq_iff)
        then show ?thesis using that o3 unfolding owns_def by (metis closed_twice sup_bot_left)
      qed
      show ?thesis using r x x' c k k' y s5 so o5 o3 both \<open>parseBool insecure = Inr skip\<close>
        by (cases y) (auto simp: resolveRelayDSN_def)
    qed
  qed
qed

lemma resolve_opened:
  assumes w: "storage_world se opened" and fresh: "fresh_storage opened s"
    and r: "run_state (resolveStorageDSN se configured insecure) s = (r, t)"
  shows "(\<forall>err. r = Inl err \<longrightarrow> opened t = opened s) \<and>
    (\<forall>dsn cleanup. r = Inr (dsn, cleanup) \<longrightarrow> owns opened s t cleanup)"
proof -
  have host: "host_world (se_host se) opened" using w by (simp add: storage_world_def)
  show ?thesis
  proof (cases "ParseRelayDSN (se_urlParse se) configured")
    case None
    obtain p t' where p: "run_state (StartLocalPool (se_host se) storageLocalPoolSocketPath configured) s = (p, t')" by fastforce
    have "opened t' = opened s" if "p = Inl err" for err
      using StartLocalPool_no_leak [OF host _ _ p] fresh that by (simp add: fresh_storage_def)
    moreover have "owns opened s t' (LocalPoolClose l)" if "p = Inr l" for l
      using StartLocalPool_opened [OF host fresh] p that by simp
    ultimately show ?thesis using r p None by (cases p) (auto simp: resolveStorageDSN_def split: if_splits)
  next
    case (Some x)
    obtain zone hub where x: "x = (zone, hub)" by (cases x)
    have r': "run_state (resolveRelayDSN se zone hub insecure) s = (r, t)" using r Some x by (simp add: resolveStorageDSN_def)
    show ?thesis by (rule relay_opened [OF w _ r']) (use fresh in \<open>simp add: fresh_storage_def\<close>)
  qed
qed

section \<open>The life of the process\<close>

text \<open>What the process calls besides its storage: none of it opens or closes storage resources.\<close>

definition serverCalm :: "('s hbstate \<Rightarrow> resource set) \<Rightarrow> 's kapiServer \<Rightarrow> bool" where
  "serverCalm opened server \<longleftrightarrow> opensNone opened (ks_await server) \<and> opensNone opened (ks_serveErr server) \<and>
     (\<forall>d. opensNone opened (ks_Shutdown server d)) \<and> opensNone opened (ks_heartbeat server) \<and>
     yields (\<lambda>hb. \<forall>h k. hb = Some h \<longrightarrow> opensNone opened (api (kdelete (cl_Kontinuum (hb_Client h)) k))) (ks_heartbeat server)"

definition serve_world :: "('s, 'x, 'u) serveenv \<Rightarrow> ('s hbstate \<Rightarrow> resource set) \<Rightarrow> bool" where
  "serve_world sv opened \<longleftrightarrow> storage_world (sv_storage sv) opened \<and>
     (\<forall>d p. opensNone opened (os_MkdirAll (sv_os sv) d p)) \<and> (\<forall>k v. opensNone opened (os_Setenv (sv_os sv) k v)) \<and>
     opensNone opened (os_Hostname (sv_os sv)) \<and> opensNone opened (os_uuidV7 (sv_os sv)) \<and> opensNone opened (os_uuidV4 (sv_os sv)) \<and>
     (\<forall>l m f. opensNone opened (sv_log sv l m f)) \<and> (\<forall>url. opensNone opened (api (ol_NewProvider (sv_oidc sv) url))) \<and>
     (\<forall>b. opensNone opened (storeShuttingDown b)) \<and> (\<forall>opts. opensNone opened (sv_New sv opts)) \<and>
     (\<forall>opts. yields (\<lambda>x. \<forall>server. x = Inr server \<longrightarrow> serverCalm opened server) (sv_New sv opts))"

lemma api_bind': "api (State_Monad.bind m f) = State_Monad.bind (api m) (\<lambda>a. api (f a))"
  by (rule state.expand) (auto simp: api_def fun_eq_iff split: prod.splits)

lemma api_return': "api (return x) = return x"
  by (rule state.expand) (simp add: api_def fun_eq_iff)

lemma opensNone_cases:
  "(\<And>a. x = Inl a \<Longrightarrow> opensNone opened (f a)) \<Longrightarrow> (\<And>b. x = Inr b \<Longrightarrow> opensNone opened (g b)) \<Longrightarrow>
     opensNone opened (case x of Inl a \<Rightarrow> f a | Inr b \<Rightarrow> g b)"
  "(y = None \<Longrightarrow> opensNone opened n) \<Longrightarrow> (\<And>a. y = Some a \<Longrightarrow> opensNone opened (h a)) \<Longrightarrow>
     opensNone opened (case y of None \<Rightarrow> n | Some a \<Rightarrow> h a)"
  by (cases x; simp) (cases y; simp)

lemma helm_opens: "serve_world sv opened \<Longrightarrow> opensNone opened (setHelmDirs (sv_os sv) dirs)"
  by (induction "sv_os sv" dirs rule: setHelmDirs.induct)
    (auto simp: serve_world_def intro!: opensNone_bind split: option.splits)

lemma oidc_opens: "serve_world sv opened \<Longrightarrow> opensNone opened (api (configureOIDC (sv_oidc sv) cfg))"
  by (auto simp: serve_world_def configureOIDC_def NewAuthHandler_def api_bind' api_return' intro!: opensNone_bind split: sum.splits)

lemma serving_opens:
  assumes "serve_world sv opened" and "serverCalm opened server"
  shows "opensNone opened (serveUntilShutdown sv server)"
proof -
  have log: "opensNone opened (sv_log sv l m f)" for l m f using assms(1) by (simp add: serve_world_def)
  have dereg: "opensNone opened (ControllerDeregister hb)"
    if "\<forall>h k. hb = Some h \<longrightarrow> opensNone opened (api (kdelete (cl_Kontinuum (hb_Client h)) k))" for hb
    using that assms(1) by (auto simp: ControllerDeregister_def Deregister_def serve_world_def intro!: opensNone_bind split: option.splits)
  have shut: "opensNone opened (shutdownServer sv server)" unfolding shutdownServer_def
    by (rule opensNone_bind) (use assms(2) in \<open>auto simp: serverCalm_def intro!: opensNone_bind log split: option.splits\<close>)
  have hb: "opensNone opened (ks_heartbeat server)"
    "yields (\<lambda>hb. \<forall>h k. hb = Some h \<longrightarrow> opensNone opened (api (kdelete (cl_Kontinuum (hb_Client h)) k))) (ks_heartbeat server)"
    "opensNone opened (ks_await server)" "opensNone opened (ks_serveErr server)"
    using assms(2) by (simp_all add: serverCalm_def)
  show ?thesis unfolding serveUntilShutdown_def
    by (auto intro!: opensNone_bind hb log dereg shut opensNone_bind_result [OF hb(1,2)] split: wake.splits option.splits)
qed

lemma instance_name_opens:
  assumes "serve_world sv opened"
  shows "opensNone opened (InstanceName (os_uuidV7 (sv_os sv)) (os_uuidV4 (sv_os sv)) hostname)"
  using assms by (auto simp: InstanceName_def serve_world_def intro!: opensNone_bind split: sum.splits)

lemma build_opened:
  assumes w: "serve_world sv opened" and fresh: "fresh_storage opened s"
    and r: "run_state (buildServer sv cfg authOpts oidcHandler) s = (r, t)"
  shows "case r of Inl err \<Rightarrow> opened t = opened s
    | Inr (server, ctl, cleanup) \<Rightarrow> owns opened s t cleanup \<and> serverCalm opened server"
proof (cases "buildScheme (sv_addScheme sv) (sv_newScheme sv)")
  case (Inl err)
  with r show ?thesis by (auto simp: buildServer_def)
next
  case scheme: (Inr scheme)
  obtain host s1 where host: "run_state (os_Hostname (sv_os sv)) s = (host, s1)" by fastforce
  obtain holder s2 where holder: "run_state (InstanceName (os_uuidV7 (sv_os sv)) (os_uuidV4 (sv_os sv)) host) s1 = (holder, s2)" by fastforce
  have o2: "opened s2 = opened s"
    using opensNone_run [OF instance_name_opens [OF w] holder] opensNone_run [OF _ host] w by (auto simp: serve_world_def)
  let ?lease = "\<lparr>id_HolderIdentity = holder, id_SelfZoneKey = Key (ksrv_Region (kcfg_Server cfg)) (ksrv_Zone (kcfg_Server cfg))\<rparr>"
  show ?thesis
  proof (cases "registryOptions (sv_url sv) (sv_version sv) cfg scheme ?lease :: goerr + ('a, 'b) kapiOption list \<times> RegistryConfig")
    case (Inl err)
    with r scheme host holder o2 show ?thesis by (auto simp: buildServer_def Let_def)
  next
    case opts: (Inr x)
    obtain ro ctl where x: "x = (ro, ctl)" by (cases x)
    obtain st s3 where st: "run_state (resolveZoneStorage (sv_storage sv) cfg) s2 = (st, s3)" by fastforce
    have so: "(\<forall>err. st = Inl err \<longrightarrow> opened s3 = opened s2) \<and> (\<forall>dsn cleanup. st = Inr (dsn, cleanup) \<longrightarrow> owns opened s2 s3 cleanup)"
      by (rule resolve_opened [OF _ _ st [unfolded resolveZoneStorage_def]])
        (use w fresh o2 in \<open>simp_all add: serve_world_def fresh_storage_def\<close>)
    show ?thesis
    proof (cases st)
      case (Inl err)
      with r scheme host holder o2 opts x st so show ?thesis by (auto simp: buildServer_def Let_def)
    next
      case st': (Inr y)
      obtain dsn cleanup where y: "y = (dsn, cleanup)" by (cases y)
      have own: "owns opened s2 s3 cleanup" using so st' y by simp
      let ?opts = "serverOptions sv cfg dsn (uiRouterFor sv cfg scheme oidcHandler) oidcHandler authOpts ro ?lease"
      obtain n s4 where n: "run_state (sv_New sv ?opts) s3 = (n, s4)" by fastforce
      have o4: "opened s4 = opened s3" using opensNone_run [OF _ n] w by (auto simp: serve_world_def)
      have "yields (\<lambda>x. \<forall>server. x = Inr server \<longrightarrow> serverCalm opened server) (sv_New sv ?opts)" using w by (simp add: serve_world_def)
      then have calm: "serverCalm opened server" if "n = Inr server" for server using n that by (auto dest: yieldsD [of _ _ s3])
      obtain s5 where s5: "run_state cleanup s4 = ((), s5)" by (rule exE [OF run_unit])
      have "opened s5 = opened s" using own s5 o4 o2 unfolding owns_def by (metis Un_Diff_cancel2 Diff_triv Int_commute Un_commute Diff_cancel sup_bot_left Un_Diff snd_conv)
      moreover have "owns opened s s4 cleanup" using own o2 o4 by (simp add: owns_def)
      ultimately show ?thesis using r scheme host holder o2 opts x st st' y n s5 calm
        by (cases n) (auto simp: buildServer_def Let_def)
    qed
  qed
qed

lemma run_built:
  assumes w: "serve_world sv opened" and fresh: "fresh_storage opened s"
  shows "opened (state_after (do {
     b \<leftarrow> buildServer sv cfg ao oh;
     (case b of
        Inl err \<Rightarrow> return (Some err)
      | Inr (server, registryController, relayCleanup) \<Rightarrow> do {
          _ \<leftarrow> sv_log sv LevelInfo ''Kontinuum starting'' (startupFields cfg);
          e \<leftarrow> serveUntilShutdown sv server;
          _ \<leftarrow> relayCleanup;
          return e
        })
   }) s) = opened s"
proof -
  have log: "opensNone opened (sv_log sv l m f)" for l m f using w by (simp add: serve_world_def)
  obtain b s4 where b: "run_state (buildServer sv cfg ao oh) s = (b, s4)" by fastforce
  note bo = build_opened [OF w fresh b]
  show ?thesis
  proof (cases b)
    case (Inl err)
    with b bo show ?thesis by simp
  next
    case b': (Inr y)
    obtain server ctl cleanup where y: "y = (server, ctl, cleanup)" by (cases y)
    have own: "owns opened s s4 cleanup" and calm: "serverCalm opened server" using bo b' y by auto
    obtain s5 where s5: "run_state (sv_log sv LevelInfo ''Kontinuum starting'' (startupFields cfg)) s4 = ((), s5)" by (rule exE [OF run_unit])
    obtain e s6 where s6: "run_state (serveUntilShutdown sv server) s5 = (e, s6)" by fastforce
    have "opened s6 = opened s4" using opensNone_run [OF log s5] opensNone_run [OF serving_opens [OF w calm] s6] by simp
    then have "opened (state_after cleanup s6) = opened s" using own by (auto simp: owns_def)
    moreover obtain s7 where "run_state cleanup s6 = ((), s7)" by (rule exE [OF run_unit])
    ultimately show ?thesis using b b' y s5 s6 by simp
  qed
qed


section \<open>A concrete process\<close>

text \<open>
  A process on a world that lists what is open, with the default storage: it serves until its
  listener reports, in the text of the error, whether the pool is open.
\<close>

definition serve_res :: "resource \<Rightarrow> (resource list hbstate, unit) state" where
  "serve_res x = State (\<lambda>h. ((), h\<lparr>hs_world := filter (\<lambda>y. y \<noteq> x) (hs_world h)\<rparr>))"

definition serve_open :: "resource list hbstate \<Rightarrow> resource set" where "serve_open h = set (hs_world h)"

definition serve_host :: "resource list hbstate hostenv" where
  "serve_host = \<lparr>he_resolve = (\<lambda>_. State (\<lambda>h. (Inr \<lparr>hd_Endpoints = [''unix:kine''], hd_Close = serve_res ResBackend\<rparr>,
       h\<lparr>hs_world := ResBackend # hs_world h\<rparr>))),
     he_remove = (\<lambda>_. return ()),
     he_listen = (\<lambda>_. State (\<lambda>h. (Inr (serve_res ResListener), h\<lparr>hs_world := ResListener # hs_world h\<rparr>))),
     he_newClient = (\<lambda>_ _. State (\<lambda>h. let i = Suc (sum_list (map residx (hs_world h))) in
        (Inr (echo_conn i (serve_res (ResConn i))), h\<lparr>hs_world := ResConn i # hs_world h\<rparr>)))\<rparr>"

definition serve_server :: "resource list kapiServer" where
  "serve_server = \<lparr>ks_await = State (\<lambda>h. (ServeErr (Some (Sentinel (if ResListener \<in> set (hs_world h) then ''pool open'' else ''pool closed''))), h)),
     ks_serveErr = return None, ks_Shutdown = (\<lambda>_. return None), ks_heartbeat = return None\<rparr>"

definition serve_env :: "resource list uilib \<Rightarrow> resource list production \<Rightarrow> resource list handler \<Rightarrow>
    (resource list, unit) clientlib \<Rightarrow> (resource list, unit, string) serveenv" where
  "serve_env ui pd vendor cb = \<lparr>sv_os = \<lparr>os_TempDir = ''/tmp'', os_MkdirAll = (\<lambda>_ _. return None), os_Setenv = (\<lambda>_ _. return None),
       os_Hostname = return (Inr ''host''), os_uuidV7 = return (Inr ''u''), os_uuidV4 = return ''u''\<rparr>,
     sv_order = id, sv_getenv = (\<lambda>n. if n = ''KONTINUUM_INSECURE_ALLOW_ANONYMOUS'' then ''true'' else ''''),
     sv_storage = \<lparr>se_host = serve_host, se_crypto = demo_zone_crypto, se_urlParse = (\<lambda>_. Inl unavailable),
       se_urlScheme = (\<lambda>_. Inr ''sqlite''), se_isKine = (\<lambda>_. True), se_newWatcher = return (Inl unavailable), se_withCancel = return (return ())\<rparr>,
     sv_prod = pd, sv_clients = cb, sv_addScheme = (\<lambda>_ x. Inr x), sv_newScheme = (), sv_ui = ui,
     sv_oidc = \<lparr>ol_NewProvider = (\<lambda>_. return (Inl unavailable)), ol_Rand = (\<lambda>_. return (Inl unavailable)),
       ol_GenerateVerifier = return '''', ol_Now = return 0, ol_Text = (\<lambda>_. '''')\<rparr>,
     sv_vendor = vendor, sv_url = \<lparr>ul_parse = Inr, ul_dropUser = id, ul_string = id\<rparr>, sv_version = ''dev'',
     sv_New = (\<lambda>_. return (Inr serve_server)), sv_notStarted = (\<lambda>_. False), sv_log = (\<lambda>_ _ _. return ())\<rparr>"

lemma serve_host_world: "host_world serve_host serve_open"
proof -
  have "ResConn (Suc (sum_list (map residx s))) \<notin> set s" for s using residx_le by fastforce
  then show ?thesis
    by (auto simp: host_world_def dial_world_def serve_host_def serve_open_def closes_def serve_res_def echo_conn_def Let_def)
qed

lemma serve_env_world: "serve_world (serve_env ui pd vendor cb) serve_open"
proof -
  have shut: "opensNone serve_open (storeShuttingDown b)" for b
    by (simp add: opensNone_def leaves_def storeShuttingDown_def serve_open_def)
  have await: "opensNone serve_open (ks_await serve_server)"
    by (simp add: opensNone_def leaves_def serve_server_def)
  have calm: "serverCalm serve_open serve_server"
    using await by (simp add: serverCalm_def serve_server_def yields_def)
  have storage: "storage_world (sv_storage (serve_env ui pd vendor cb)) serve_open"
    by (simp add: storage_world_def serve_env_def serve_host_world yields_def)
  show ?thesis using storage shut calm
    by (simp add: serve_world_def serve_env_def api_return' yields_def)
qed

lemma serve_helm: "setHelmDirs (sv_os (serve_env ui pd vendor cb)) dirs = return None"
  by (induction dirs) (auto simp: serve_env_def)

lemma serve_config:
  obtains c where "loadServeConfig (sv_getenv (serve_env ui pd vendor cb)) None None = Inr (c, JSONHandler LevelWarn, True)"
    "ksrv_Storage (kcfg_Server c) = ''sqlite://kontinuum.db''" "koidc_IssuerURL (kcfg_OIDC c) = ''''"
    "ksrv_Region (kcfg_Server c) = ''''" "ksrv_Zone (kcfg_Server c) = ''''"
proof
  let ?c = "Load (sv_getenv (serve_env ui pd vendor cb))"
  have c: "?c = unreflectConfig (loaded (sv_getenv (serve_env ui pd vendor cb)) [] (reflectConfig zeroConfigStatus))"
    by (simp add: Load_def loadStruct_def walk_loaded)
  note eval = serve_env_def reflectConfig_def reflectServer_def unreflectConfig_def unreflectServer_def fieldAt_def envName_simps
  show "ksrv_Storage (kcfg_Server ?c) = ''sqlite://kontinuum.db''" "koidc_IssuerURL (kcfg_OIDC ?c) = ''''"
    "ksrv_Region (kcfg_Server ?c) = ''''" "ksrv_Zone (kcfg_Server ?c) = ''''"
    unfolding c by (simp_all add: eval)
  have log: "klog_Level (kcfg_Log ?c) = ''warn''" "klog_Format (kcfg_Log ?c) = ''json''" "kcfg_InsecureAllowAnonymous ?c = ''true''"
    "koidc_IssuerURL (kcfg_OIDC ?c) = ''''" unfolding c by (simp_all add: eval)
  show "loadServeConfig (sv_getenv (serve_env ui pd vendor cb)) None None = Inr (?c, JSONHandler LevelWarn, True)"
    by (simp add: loadServeConfig_def applyFlags_def Let_def log ParseLevel_def ParseFormat_def toLowerChar_def NewLogger_def
        ValidateAuthentication_def parseBool_def)
qed

lemma serve_storage:
  assumes "ksrv_Storage (kcfg_Server c) = ''sqlite://kontinuum.db''"
  shows "\<exists>dsn cleanup t. run_state (resolveZoneStorage (sv_storage (serve_env ui pd vendor cb)) c) \<lparr>hs_shuttingDown = False, hs_world = []\<rparr> =
    (Inr (dsn, cleanup), t) \<and> ResListener \<in> set (hs_world t)"
  using assms by (simp add: resolveZoneStorage_def resolveStorageDSN_def ParseRelayDSN_def IsPoolableBackend_def serve_env_def
      StartLocalPool_def serve_host_def DialPool_def localPoolSize_def eval_nat_numeral Let_def)

lemma serve_built:
  assumes "ksrv_Storage (kcfg_Server c) = ''sqlite://kontinuum.db''" "ksrv_Region (kcfg_Server c) = ''''" "ksrv_Zone (kcfg_Server c) = ''''"
  shows "\<exists>ctl cleanup t. run_state (buildServer (serve_env ui pd vendor cb) c ao oh) \<lparr>hs_shuttingDown = False, hs_world = []\<rparr> =
    (Inr (serve_server, ctl, cleanup), t) \<and> ResListener \<in> set (hs_world t)"
proof -
  obtain dsn cleanup t where st: "run_state (resolveZoneStorage (sv_storage (serve_env ui pd vendor cb)) c) \<lparr>hs_shuttingDown = False, hs_world = []\<rparr> =
    (Inr (dsn, cleanup), t)" "ResListener \<in> set (hs_world t)" using serve_storage [OF assms(1)] by blast
  show ?thesis using st
    by (auto simp: buildServer_def buildScheme_def serve_env_def InstanceName_def toLower_def toLowerChar_def Let_def registryOptions_def Role_def assms(2,3))
qed


end
