(* ===== verification/VendorAssets.thy ===== *)
theory VendorAssets
  imports Serve UiWalk UiProps
begin

text \<open>
  \<open>cmd/vendor-web-assets\<close>: the tool that downloads the pinned browser assets.  Files, the
  network and standard output are parameters; SHA-256 is computed.
\<close>

section \<open>What is vendored\<close>

record asset =
  as_url :: string
  as_dest :: string
  as_checksum :: string

definition vendoredAssets :: "asset list" where
  "vendoredAssets = [
     \<lparr>as_url = ''https://cdn.tailwindcss.com/3.4.17'',
      as_dest = ''tailwindcss.js'',
      as_checksum = ''176e894661aa9cdc9a5cba6c720044cbbf7b8bd80d1c9a142a7c24b1b6c50d15''\<rparr>,
     \<lparr>as_url = ''https://unpkg.com/htmx.org@2.0.4/dist/htmx.min.js'',
      as_dest = ''htmx.min.js'',
      as_checksum = ''e209dda5c8235479f3166defc7750e1dbcd5a5c1808b7792fc2e6733768fb447''\<rparr>,
     \<lparr>as_url = ''https://cdnjs.cloudflare.com/ajax/libs/prism/1.29.0/components/prism-core.min.js'',
      as_dest = ''prism-core.min.js'',
      as_checksum = ''e2624d4f66cc5f171cd460896b106630f7666a1e638b42dd9ddefd0ca7758683''\<rparr>,
     \<lparr>as_url = ''https://cdnjs.cloudflare.com/ajax/libs/prism/1.29.0/components/prism-yaml.min.js'',
      as_dest = ''prism-yaml.min.js'',
      as_checksum = ''719c8e8b8c344dc9de510c729f65ba840b1502a0a8e7e25e2ad19ee715f65c02''\<rparr>,
     \<lparr>as_url = ''https://cdnjs.cloudflare.com/ajax/libs/prism/1.29.0/components/prism-bash.min.js'',
      as_dest = ''prism-bash.min.js'',
      as_checksum = ''6260814110e5182f2956e3bd257429548d9dbf2a9b66a63719b26cf9fac966a7''\<rparr>]"

definition fontWeights :: "nat list" where "fontWeights = [400, 500, 600, 700]"

record fontSubset =
  fs_name :: string
  fs_url :: string
  fs_checksum :: string
  fs_unicodeRange :: string

definition fontSubsets :: "fontSubset list" where
  "fontSubsets = [
     \<lparr>fs_name = ''cyrillic-ext'',
      fs_url = ''https://fonts.gstatic.com/s/jetbrainsmono/v24/tDbv2o-flEEny0FZhsfKu5WU4zr3E_BX0PnT8RD8yKwBNntkaToggR7BYRbKPx3cwhsk.woff2'',
      fs_checksum = ''62213be8a78b42f1e29d1452d91e2f8b3e745572a9dd98d3941e39fa00b37d76'',
      fs_unicodeRange = ''U+0460-052F, U+1C80-1C8A, U+20B4, U+2DE0-2DFF, U+A640-A69F, U+FE2E-FE2F''\<rparr>,
     \<lparr>fs_name = ''cyrillic'',
      fs_url = ''https://fonts.gstatic.com/s/jetbrainsmono/v24/tDbv2o-flEEny0FZhsfKu5WU4zr3E_BX0PnT8RD8yKwBNntkaToggR7BYRbKPxTcwhsk.woff2'',
      fs_checksum = ''e17cfd15fb96909d64095015f958207063a0c07191da3512df7d560a781aebdf'',
      fs_unicodeRange = ''U+0301, U+0400-045F, U+0490-0491, U+04B0-04B1, U+2116''\<rparr>,
     \<lparr>fs_name = ''greek'',
      fs_url = ''https://fonts.gstatic.com/s/jetbrainsmono/v24/tDbv2o-flEEny0FZhsfKu5WU4zr3E_BX0PnT8RD8yKwBNntkaToggR7BYRbKPxPcwhsk.woff2'',
      fs_checksum = ''0a557721b1f8b36d3f3f84442689a71ca4a744300abcb46a1953f51bfc663b66'',
      fs_unicodeRange = ''U+0370-0377, U+037A-037F, U+0384-038A, U+038C, U+038E-03A1, U+03A3-03FF''\<rparr>,
     \<lparr>fs_name = ''vietnamese'',
      fs_url = ''https://fonts.gstatic.com/s/jetbrainsmono/v24/tDbv2o-flEEny0FZhsfKu5WU4zr3E_BX0PnT8RD8yKwBNntkaToggR7BYRbKPx_cwhsk.woff2'',
      fs_checksum = ''c89b9cc0bc6262bd4f8d8494b6961601f3aefa829d08c2e3635f4d501d3a47c2'',
      fs_unicodeRange = ''U+0102-0103, U+0110-0111, U+0128-0129, U+0168-0169, U+01A0-01A1, U+01AF-01B0, U+0300-0301, U+0303-0304, U+0308-0309, U+0323, U+0329, U+1EA0-1EF9, U+20AB''\<rparr>,
     \<lparr>fs_name = ''latin-ext'',
      fs_url = ''https://fonts.gstatic.com/s/jetbrainsmono/v24/tDbv2o-flEEny0FZhsfKu5WU4zr3E_BX0PnT8RD8yKwBNntkaToggR7BYRbKPx7cwhsk.woff2'',
      fs_checksum = ''db5ff4db83e580426280e9337a58dc57d3a83784a1b03ad80914651594441d52'',
      fs_unicodeRange = ''U+0100-02BA, U+02BD-02C5, U+02C7-02CC, U+02CE-02D7, U+02DD-02FF, U+0304, U+0308, U+0329, U+1D00-1DBF, U+1E00-1E9F, U+1EF2-1EFF, U+2020, U+20A0-20AB, U+20AD-20C0, U+2113, U+2C60-2C7F, U+A720-A7FF''\<rparr>,
     \<lparr>fs_name = ''latin'',
      fs_url = ''https://fonts.gstatic.com/s/jetbrainsmono/v24/tDbv2o-flEEny0FZhsfKu5WU4zr3E_BX0PnT8RD8yKwBNntkaToggR7BYRbKPxDcwg.woff2'',
      fs_checksum = ''83c005d49d8a6a50474c73a5a36ac0468076e9c4a29da7bdb14995d80560a5be'',
      fs_unicodeRange = ''U+0000-00FF, U+0131, U+0152-0153, U+02BB-02BC, U+02C6, U+02DA, U+02DC, U+0304, U+0308, U+0329, U+2000-206F, U+20AC, U+2122, U+2191, U+2193, U+2212, U+2215, U+FEFF, U+FFFD''\<rparr>]"

definition fontFile :: "fontSubset \<Rightarrow> string" where
  "fontFile fsub = ''jetbrains-mono-'' @ fs_name fsub @ ''.woff2''"

record fontFace =
  ff_Subset :: string
  ff_Weight :: nat
  ff_File :: string
  ff_UnicodeRange :: string

definition fontFaces :: "fontFace list" where
  "fontFaces = concat (map (\<lambda>weight. map (\<lambda>fsub. \<lparr>ff_Subset = fs_name fsub, ff_Weight = weight, ff_File = fontFile fsub,
     ff_UnicodeRange = fs_unicodeRange fsub\<rparr>) fontSubsets) fontWeights)"

text \<open>One block of the template; a weight has three digits.\<close>

definition weightText :: "nat \<Rightarrow> string" where
  "weightText n = [char_of (48 + n div 100), char_of (48 + n div 10 mod 10), char_of (48 + n mod 10)]"

definition renderFace :: "fontFace \<Rightarrow> string" where
  "renderFace f = textLine (''/* '' @ ff_Subset f @ '' */'') @ textLine ''@font-face {'' @
     textLine ''  font-family: 'JetBrains Mono';'' @ textLine ''  font-style: normal;'' @
     textLine (''  font-weight: '' @ weightText (ff_Weight f) @ '';'') @ textLine ''  font-display: swap;'' @
     textLine (''  src: url('' @ ff_File f @ '') format('woff2');'') @
     textLine (''  unicode-range: '' @ ff_UnicodeRange f @ '';'') @ textLine ''}''"

definition fontCSS :: string where "fontCSS = concat (map renderFace fontFaces)"

section \<open>Fetching\<close>

definition errUnexpectedStatus :: goerr where "errUnexpectedStatus = Sentinel ''unexpected response status''"

definition errChecksumMismatch :: goerr where "errChecksumMismatch = Sentinel ''checksum mismatch''"

definition httpTimeout :: int where "httpTimeout = 30 * second"

definition dirPerm :: nat where "dirPerm = 488"

definition filePerm :: nat where "filePerm = 384"

record 's response =
  rs_StatusCode :: nat
  rs_Status :: string
  rs_ReadAll :: "('s, goerr + string) state"
  rs_Close :: "('s, unit) state"

text \<open>\<open>fe_Do\<close> is the client with its timeout; \<open>fe_Println\<close> writes a line to standard output.\<close>

record 's fetchenv =
  fe_MkdirAll :: "string \<Rightarrow> nat \<Rightarrow> ('s, goerr option) state"
  fe_ReadFile :: "string \<Rightarrow> ('s, goerr + string) state"
  fe_WriteFile :: "string \<Rightarrow> string \<Rightarrow> nat \<Rightarrow> ('s, goerr option) state"
  fe_NewRequest :: "string \<Rightarrow> goerr option"
  fe_Do :: "int \<Rightarrow> string \<Rightarrow> ('s, goerr + 's response) state"
  fe_Println :: "string \<Rightarrow> ('s, goerr option) state"

definition matchesChecksum :: "string \<Rightarrow> string \<Rightarrow> bool" where
  "matchesChecksum body want \<longleftrightarrow> sha256hex body = want"

definition storeBody :: "'s fetchenv \<Rightarrow> string \<Rightarrow> asset \<Rightarrow> string \<Rightarrow> ('s, goerr option) state" where
  "storeBody fe dest entry body =
     (if sha256hex body \<noteq> as_checksum entry
      then return (Some (Errorf ''%w for %s: got %s, want %s'' [as_url entry, sha256hex body, as_checksum entry] [errChecksumMismatch]))
      else do {
        w \<leftarrow> fe_WriteFile fe dest body filePerm;
        (case w of None \<Rightarrow> return None | Some err \<Rightarrow> return (Some (Errorf ''failed to write %s: %w'' [as_dest entry] [err])))
      })"

definition download :: "'s fetchenv \<Rightarrow> string \<Rightarrow> asset \<Rightarrow> ('s, goerr option) state" where
  "download fe dest entry = (case fe_NewRequest fe (as_url entry) of
       Some err \<Rightarrow> return (Some (Errorf ''failed to build request for %s: %w'' [as_url entry] [err]))
     | None \<Rightarrow> do {
         d \<leftarrow> fe_Do fe httpTimeout (as_url entry);
         (case d of
            Inl err \<Rightarrow> return (Some (Errorf ''failed to download %s: %w'' [as_url entry] [err]))
          | Inr resp \<Rightarrow> do {
              e \<leftarrow> (if rs_StatusCode resp \<noteq> 200
                   then return (Some (Errorf ''%w: got %s for %s'' [rs_Status resp, as_url entry] [errUnexpectedStatus]))
                   else do {
                     b \<leftarrow> rs_ReadAll resp;
                     (case b of
                        Inl err \<Rightarrow> return (Some (Errorf ''failed to read response body from %s: %w'' [as_url entry] [err]))
                      | Inr body \<Rightarrow> storeBody fe dest entry body)
                   });
              _ \<leftarrow> rs_Close resp;
              return e
            })
       })"

definition fetch :: "'s fetchenv \<Rightarrow> string \<Rightarrow> asset \<Rightarrow> ('s, goerr option) state" where
  "fetch fe out entry = do {
     let dest = filepathJoin [out, as_dest entry];
     cached \<leftarrow> fe_ReadFile fe dest;
     (case cached of
        Inr content \<Rightarrow> if matchesChecksum content (as_checksum entry) then return None else download fe dest entry
      | Inl err \<Rightarrow> download fe dest entry)
   }"

definition fetchAndLog :: "'s fetchenv \<Rightarrow> string \<Rightarrow> asset \<Rightarrow> ('s, goerr option) state" where
  "fetchAndLog fe out entry = do {
     e \<leftarrow> fetch fe out entry;
     (case e of
        Some err \<Rightarrow> return (Some (Errorf ''%s: %w'' [as_dest entry] [err]))
      | None \<Rightarrow> do {
          p \<leftarrow> fe_Println fe (''vendored '' @ as_dest entry);
          (case p of None \<Rightarrow> return None | Some err \<Rightarrow> return (Some (Errorf ''failed to write progress output: %w'' [] [err])))
        })
   }"

fun fetchLoop :: "'s fetchenv \<Rightarrow> string \<Rightarrow> asset list \<Rightarrow> ('s, goerr option) state" where
  "fetchLoop fe out [] = return None"
| "fetchLoop fe out (entry # entries) = do {
     e \<leftarrow> fetchAndLog fe out entry;
     (case e of Some err \<Rightarrow> return (Some err) | None \<Rightarrow> fetchLoop fe out entries)
   }"

definition fontAsset :: "fontSubset \<Rightarrow> asset" where
  "fontAsset fsub = \<lparr>as_url = fs_url fsub, as_dest = fontFile fsub, as_checksum = fs_checksum fsub\<rparr>"

definition fontCSSDest :: string where "fontCSSDest = ''jetbrains-mono.css''"

definition writeFontCSS :: "'s fetchenv \<Rightarrow> string \<Rightarrow> ('s, goerr option) state" where
  "writeFontCSS fe out = do {
     w \<leftarrow> fe_WriteFile fe (filepathJoin [out, fontCSSDest]) fontCSS filePerm;
     (case w of
        Some err \<Rightarrow> return (Some (Errorf ''failed to write %s: %w'' [fontCSSDest] [err]))
      | None \<Rightarrow> do {
          p \<leftarrow> fe_Println fe (''vendored '' @ fontCSSDest);
          (case p of None \<Rightarrow> return None | Some err \<Rightarrow> return (Some (Errorf ''failed to write progress output: %w'' [] [err])))
        })
   }"

definition vendorRun :: "'s fetchenv \<Rightarrow> string \<Rightarrow> ('s, goerr option) state" where
  "vendorRun fe out = do {
     m \<leftarrow> fe_MkdirAll fe out dirPerm;
     (case m of
        Some err \<Rightarrow> return (Some (Errorf ''failed to create output directory %q: %w'' [out] [err]))
      | None \<Rightarrow> do {
          e \<leftarrow> fetchLoop fe out vendoredAssets;
          (case e of
             Some err \<Rightarrow> return (Some err)
           | None \<Rightarrow> do {
               f \<leftarrow> fetchLoop fe out (map fontAsset fontSubsets);
               (case f of Some err \<Rightarrow> return (Some err) | None \<Rightarrow> writeFontCSS fe out)
             })
        })
   }"

section \<open>Where the files go\<close>

lemma splitOn_app: "splitOn c (s @ c # t) = splitOn c s @ splitOn c t"
  by (induction s) (auto split: list.splits)

lemma cleanSegs_last:
  "d \<notin> {'''', ''.'', ''..''} \<Longrightarrow> cleanSegs rooted acc (segs @ [d]) = cleanSegs rooted acc segs @ [d]"
  by (induction rooted acc segs rule: cleanSegs.induct) (auto split: list.splits)

lemma joinWith_last: "joinWith sep (xs @ [d]) = (if xs = [] then d else joinWith sep xs @ sep @ d)"
proof (induction xs)
  case (Cons x xs) then show ?case by (cases xs) auto
qed simp

text \<open>A plain file name is appended to the cleaned directory, so different names give different paths.\<close>

lemma dest_path: "\<exists>dir. \<forall>d. plainSeg d \<longrightarrow> filepathJoin [out, d] = dir @ d"
proof (cases "out = ''''")
  case True
  have "filepathJoin [out, d] = '''' @ d" if "plainSeg d" for d
  proof -
    have "CHR ''/'' \<notin> set d" "d \<noteq> ''''" "d \<noteq> ''.''" "d \<noteq> ''..''" using that by (auto simp: plainSeg_def)
    then show ?thesis using True by (cases d) (auto simp: filepathJoin_def pathClean_def splitOn_plain simp del: splitOn.simps)
  qed
  then show ?thesis by blast
next
  case False
  let ?rooted = "out \<noteq> [] \<and> hd out = CHR ''/''" and ?segs = "cleanSegs (out \<noteq> [] \<and> hd out = CHR ''/'') [] (splitOn (CHR ''/'') out)"
  have "filepathJoin [out, d] = ((if ?rooted then ''/'' else '''') @ (if ?segs = [] then '''' else joinWith ''/'' ?segs @ ''/'')) @ d" if "plainSeg d" for d
  proof -
    have d: "CHR ''/'' \<notin> set d" "d \<noteq> ''''" "d \<noteq> ''.''" "d \<noteq> ''..''" using that by (auto simp: plainSeg_def)
    have "filepathJoin [out, d] = pathClean (out @ CHR ''/'' # d)" using False d by (simp add: filepathJoin_def)
    moreover have "splitOn (CHR ''/'') (out @ CHR ''/'' # d) = splitOn (CHR ''/'') out @ [d]" by (simp add: splitOn_app splitOn_plain [OF d(1)] del: splitOn.simps)
    moreover have "hd (out @ CHR ''/'' # d) = hd out" using False by simp
    ultimately show ?thesis using False d by (simp add: pathClean_def Let_def cleanSegs_last joinWith_last)
  qed
  then show ?thesis by blast
qed

lemma dest_inj: "plainSeg d \<Longrightarrow> plainSeg d' \<Longrightarrow> filepathJoin [out, d] = filepathJoin [out, d'] \<Longrightarrow> d = d'"
  using dest_path [of out] by auto

abbreviation allAssets :: "asset list" where "allAssets \<equiv> vendoredAssets @ map fontAsset fontSubsets"

lemma dests:
  "distinct (map as_dest allAssets)" "list_all (\<lambda>a. plainSeg (as_dest a)) allAssets" "plainSeg fontCSSDest" "fontCSSDest \<notin> as_dest ` set allAssets"
  by (simp_all add: vendoredAssets_def fontSubsets_def fontAsset_def fontFile_def fontCSSDest_def plainSeg_def)

section \<open>Only pinned content\<close>

text \<open>The files of the world: reading shows them, writing sets one or fails, nothing else touches them.\<close>

definition keepsFiles :: "('s \<Rightarrow> string \<rightharpoonup> string) \<Rightarrow> ('s, 'a) state \<Rightarrow> bool" where
  "keepsFiles files m \<longleftrightarrow> (\<forall>s. files (state_after m s) = files s)"

definition file_world :: "'s fetchenv \<Rightarrow> ('s \<Rightarrow> string \<rightharpoonup> string) \<Rightarrow> bool" where
  "file_world fe files \<longleftrightarrow>
     (\<forall>p. keepsFiles files (fe_ReadFile fe p)) \<and> (\<forall>p s c. result_of (fe_ReadFile fe p) s = Inr c \<longleftrightarrow> files s p = Some c) \<and>
     (\<forall>p b m s q. q \<noteq> p \<longrightarrow> files (state_after (fe_WriteFile fe p b m) s) q = files s q) \<and>
     (\<forall>p b m s. result_of (fe_WriteFile fe p b m) s = None \<longrightarrow> files (state_after (fe_WriteFile fe p b m) s) p = Some b) \<and>
     (\<forall>d m. keepsFiles files (fe_MkdirAll fe d m)) \<and> (\<forall>l. keepsFiles files (fe_Println fe l)) \<and>
     (\<forall>t u. keepsFiles files (fe_Do fe t u)) \<and>
     (\<forall>t u. yields (\<lambda>x. \<forall>resp. x = Inr resp \<longrightarrow> keepsFiles files (rs_ReadAll resp) \<and> keepsFiles files (rs_Close resp)) (fe_Do fe t u))"

definition pinned :: "(string \<rightharpoonup> string) \<Rightarrow> string \<Rightarrow> asset \<Rightarrow> bool" where
  "pinned f out entry \<longleftrightarrow> (\<exists>c. f (filepathJoin [out, as_dest entry]) = Some c \<and> sha256hex c = as_checksum entry)"

text \<open>\<open>touches p Q m\<close>: \<open>m\<close> changes at most the file \<open>p\<close>, and \<open>Q\<close> holds of that file when it succeeds.\<close>

definition touches :: "('s \<Rightarrow> string \<rightharpoonup> string) \<Rightarrow> string \<Rightarrow> (string option \<Rightarrow> bool) \<Rightarrow> ('s, goerr option) state \<Rightarrow> bool" where
  "touches files p Q m \<longleftrightarrow> (\<forall>s. (\<forall>q. q \<noteq> p \<longrightarrow> files (state_after m s) q = files s q) \<and> (result_of m s = None \<longrightarrow> Q (files (state_after m s) p)))"

lemma touches_fail: "touches files p Q (return (Some err))"
  by (simp add: touches_def)

lemma touches_bind: "keepsFiles files m \<Longrightarrow> (\<And>a. touches files p Q (f a)) \<Longrightarrow> touches files p Q (State_Monad.bind m f)"
  by (auto simp: touches_def keepsFiles_def split: prod.splits) (metis fst_conv snd_conv)+

lemma touches_bind_result:
  "keepsFiles files m \<Longrightarrow> yields R m \<Longrightarrow> (\<And>a. R a \<Longrightarrow> touches files p Q (f a)) \<Longrightarrow> touches files p Q (State_Monad.bind m f)"
  by (auto simp: touches_def keepsFiles_def yields_def split: prod.splits) (metis fst_conv snd_conv)+

lemma touches_after: "touches files p Q m \<Longrightarrow> (\<And>a. keepsFiles files (f a)) \<Longrightarrow> (\<And>err s. result_of (f (Some err)) s \<noteq> None) \<Longrightarrow>
   touches files p Q (State_Monad.bind m f)"
  by (auto simp: touches_def keepsFiles_def split: prod.splits) (metis fst_conv snd_conv not_None_eq)+

lemma keepsFiles_return [simp]: "keepsFiles files (return a)"
  by (simp add: keepsFiles_def)

lemma keepsFiles_bind: "keepsFiles files m \<Longrightarrow> (\<And>a. keepsFiles files (f a)) \<Longrightarrow> keepsFiles files (State_Monad.bind m f)"
  by (auto simp: keepsFiles_def split: prod.splits) (metis snd_conv)

abbreviation hasSum :: "asset \<Rightarrow> string option \<Rightarrow> bool" where
  "hasSum entry content \<equiv> \<exists>b. content = Some b \<and> sha256hex b = as_checksum entry"

lemma write_touches:
  assumes "file_world fe files"
  shows "touches files p (\<lambda>c. c = Some b) (fe_WriteFile fe p b perm)"
  using assms by (simp add: file_world_def touches_def)

lemma touches_weaken: "touches files p Q m \<Longrightarrow> (\<And>c. Q c \<Longrightarrow> R c) \<Longrightarrow> touches files p R m"
  by (simp add: touches_def)

lemma storeBody_touches:
  assumes "file_world fe files"
  shows "touches files dest (hasSum entry) (storeBody fe dest entry body)"
proof (cases "sha256hex body = as_checksum entry")
  case True
  then have "touches files dest (hasSum entry) (fe_WriteFile fe dest body filePerm)"
    by (intro touches_weaken [OF write_touches [OF assms]]) simp
  then show ?thesis unfolding storeBody_def using True by (auto intro!: touches_after split: option.splits)
qed (simp add: storeBody_def touches_fail)

lemma download_touches:
  assumes w: "file_world fe files"
  shows "touches files dest (hasSum entry) (download fe dest entry)"
proof (cases "fe_NewRequest fe (as_url entry)")
  case None
  have do: "keepsFiles files (fe_Do fe httpTimeout (as_url entry))"
    "yields (\<lambda>x. \<forall>resp. x = Inr resp \<longrightarrow> keepsFiles files (rs_ReadAll resp) \<and> keepsFiles files (rs_Close resp)) (fe_Do fe httpTimeout (as_url entry))"
    using w by (simp_all add: file_world_def)
  have body: "touches files dest (hasSum entry) (if rs_StatusCode resp \<noteq> 200
       then return (Some (Errorf ''%w: got %s for %s'' [rs_Status resp, as_url entry] [errUnexpectedStatus]))
       else do {
         b \<leftarrow> rs_ReadAll resp;
         (case b of
            Inl err \<Rightarrow> return (Some (Errorf ''failed to read response body from %s: %w'' [as_url entry] [err]))
          | Inr body \<Rightarrow> storeBody fe dest entry body)
       })" if "keepsFiles files (rs_ReadAll resp)" for resp
    using that by (auto intro!: touches_bind touches_fail storeBody_touches [OF w] split: sum.splits)
  show ?thesis unfolding download_def None option.case
  proof (rule touches_bind_result [OF do], goal_cases)
    case (1 d)
    show ?case
    proof (cases d)
      case (Inr resp)
      then have r: "keepsFiles files (rs_ReadAll resp)" "keepsFiles files (rs_Close resp)" using 1 by simp_all
      show ?thesis unfolding Inr sum.case
        by (rule touches_after [OF body [OF r(1)]]) (auto intro: keepsFiles_bind [OF r(2)] split: prod.splits)
    qed (simp add: touches_fail)
  qed
qed (simp add: download_def touches_fail)

lemma fetch_touches:
  assumes w: "file_world fe files"
  shows "touches files (filepathJoin [out, as_dest entry]) (hasSum entry) (fetch fe out entry)"
proof -
  let ?dest = "filepathJoin [out, as_dest entry]"
  note down = download_touches [OF w, of ?dest entry]
  have read: "keepsFiles files (fe_ReadFile fe ?dest)" "\<And>s c. result_of (fe_ReadFile fe ?dest) s = Inr c \<longleftrightarrow> files s ?dest = Some c"
    using w by (simp_all add: file_world_def)
  show ?thesis unfolding touches_def
  proof (intro allI)
    fix s
    obtain x t where x: "run_state (fe_ReadFile fe ?dest) s = (x, t)" by fastforce
    have t: "files t = files s" using read(1) x by (metis keepsFiles_def snd_conv)
    show "(\<forall>q. q \<noteq> ?dest \<longrightarrow> files (state_after (fetch fe out entry) s) q = files s q) \<and>
        (result_of (fetch fe out entry) s = None \<longrightarrow> hasSum entry (files (state_after (fetch fe out entry) s) ?dest))"
      using down t read(2) [of s] x by (cases x) (auto simp: fetch_def Let_def touches_def matchesChecksum_def)
  qed
qed

lemma fetchAndLog_touches:
  assumes w: "file_world fe files"
  shows "touches files (filepathJoin [out, as_dest entry]) (hasSum entry) (fetchAndLog fe out entry)"
  unfolding fetchAndLog_def using w
  by (auto simp: file_world_def intro!: touches_after [OF fetch_touches [OF w]] keepsFiles_bind split: option.splits)

lemma fetchLoop_pins:
  assumes w: "file_world fe files" and "distinct (map as_dest entries)" and "list_all (\<lambda>a. plainSeg (as_dest a)) entries"
    and "run_state (fetchLoop fe out entries) s = (e, t)"
  shows "(\<forall>q. q \<notin> (\<lambda>a. filepathJoin [out, as_dest a]) ` set entries \<longrightarrow> files t q = files s q) \<and>
    (e = None \<longrightarrow> (\<forall>a \<in> set entries. hasSum a (files t (filepathJoin [out, as_dest a]))))"
  using assms(2-)
proof (induction entries arbitrary: s)
  case (Cons a entries)
  obtain x s1 where x: "run_state (fetchAndLog fe out a) s = (x, s1)" by fastforce
  have one: "\<forall>q. q \<noteq> filepathJoin [out, as_dest a] \<longrightarrow> files s1 q = files s q" "x = None \<Longrightarrow> hasSum a (files s1 (filepathJoin [out, as_dest a]))"
    using fetchAndLog_touches [OF w, of out a] x unfolding touches_def by (metis fst_conv snd_conv)+
  have other: "filepathJoin [out, as_dest a] \<notin> (\<lambda>a. filepathJoin [out, as_dest a]) ` set entries"
    using Cons.prems(1,2) dest_inj [of "as_dest a" _ out] by (auto simp: list_all_iff)
  show ?case
  proof (cases x)
    case None
    then have "run_state (fetchLoop fe out entries) s1 = (e, t)" using Cons.prems(3) x by simp
    from Cons.IH [OF _ _ this] Cons.prems(1,2) one None other show ?thesis by auto
  next
    case (Some err)
    with Cons.prems(3) x one show ?thesis by auto
  qed
qed simp

section \<open>A whole run\<close>

lemma writeFontCSS_touches:
  assumes w: "file_world fe files"
  shows "touches files (filepathJoin [out, fontCSSDest]) (\<lambda>c. c = Some fontCSS) (writeFontCSS fe out)"
  unfolding writeFontCSS_def using w
  by (auto simp: file_world_def intro!: touches_after [OF write_touches [OF w]] keepsFiles_bind split: option.splits)

lemma fetchLoop_app:
  "fetchLoop fe out (xs @ ys) = do {
     e \<leftarrow> fetchLoop fe out xs;
     (case e of Some err \<Rightarrow> return (Some err) | None \<Rightarrow> fetchLoop fe out ys)
   }"
proof (induction xs)
  case Nil show ?case by (rule state.expand) (simp add: fun_eq_iff)
next
  case (Cons x xs) then show ?case by (intro state.expand) (auto simp: fun_eq_iff split: prod.splits option.splits)
qed

lemma vendorRun_loop:
  "vendorRun fe out = do {
     m \<leftarrow> fe_MkdirAll fe out dirPerm;
     (case m of
        Some err \<Rightarrow> return (Some (Errorf ''failed to create output directory %q: %w'' [out] [err]))
      | None \<Rightarrow> do {
          e \<leftarrow> fetchLoop fe out allAssets;
          (case e of Some err \<Rightarrow> return (Some err) | None \<Rightarrow> writeFontCSS fe out)
        })
   }"
  by (rule state.expand) (auto simp: vendorRun_def fetchLoop_app fun_eq_iff split: prod.splits option.splits)

lemma css_not_asset: "a \<in> set allAssets \<Longrightarrow> as_dest a \<noteq> fontCSSDest"
  using dests(4) unfolding image_iff by metis

lemma fontFaces_vendored: "f \<in> set fontFaces \<Longrightarrow> \<exists>a \<in> set allAssets. as_dest a = ff_File f"
proof -
  assume "f \<in> set fontFaces"
  then obtain fsub where "fsub \<in> set fontSubsets" "ff_File f = fontFile fsub" by (auto simp: fontFaces_def)
  then have "fontAsset fsub \<in> set allAssets" "as_dest (fontAsset fsub) = ff_File f" by (simp_all add: fontAsset_def)
  then show ?thesis by blast
qed

lemma vendorRun_files:
  assumes w: "file_world fe files" and run: "run_state (vendorRun fe out) s = (e, t)"
  shows "(\<forall>q. q \<notin> (\<lambda>d. filepathJoin [out, d]) ` insert fontCSSDest (as_dest ` set allAssets) \<longrightarrow> files t q = files s q) \<and>
    (e = None \<longrightarrow> (\<forall>a \<in> set allAssets. hasSum a (files t (filepathJoin [out, as_dest a]))) \<and> files t (filepathJoin [out, fontCSSDest]) = Some fontCSS)"
proof -
  obtain m s1 where m: "run_state (fe_MkdirAll fe out dirPerm) s = (m, s1)" by fastforce
  have s1: "files s1 = files s" using w m unfolding file_world_def keepsFiles_def by (metis snd_conv)
  obtain x s2 where x: "run_state (fetchLoop fe out allAssets) s1 = (x, s2)" by fastforce
  note loop = fetchLoop_pins [OF w dests(1,2) x]
  obtain y s3 where y: "run_state (writeFontCSS fe out) s2 = (y, s3)" by fastforce
  have css: "\<forall>q. q \<noteq> filepathJoin [out, fontCSSDest] \<longrightarrow> files s3 q = files s2 q" "y = None \<Longrightarrow> files s3 (filepathJoin [out, fontCSSDest]) = Some fontCSS"
    using writeFontCSS_touches [OF w, of out] y unfolding touches_def by (metis fst_conv snd_conv)+
  have other: "filepathJoin [out, as_dest a] \<noteq> filepathJoin [out, fontCSSDest]" if "a \<in> set allAssets" for a
  proof -
    have "plainSeg (as_dest a)" using that dests(2) unfolding list_all_iff by blast
    then show ?thesis using dest_inj [OF _ dests(3)] css_not_asset [OF that] by metis
  qed
  consider "m \<noteq> None" | "m = None" "x \<noteq> None" | "m = None" "x = None" by blast
  then show ?thesis
  proof cases
    case 1 then show ?thesis using run m s1 by (auto simp: vendorRun_loop)
  next
    case 2
    then have "e = x" "t = s2" using run m x by (auto simp: vendorRun_loop)
    then show ?thesis using 2 loop s1 by (auto simp del: set_append)
  next
    case 3
    then have et: "e = y" "t = s3" using run m x y by (auto simp: vendorRun_loop)
    have "\<forall>q. q \<notin> (\<lambda>d. filepathJoin [out, d]) ` insert fontCSSDest (as_dest ` set allAssets) \<longrightarrow> files t q = files s q"
      using et(2) css(1) loop s1 by (simp add: image_image del: set_append)
    then show ?thesis using 3 et css loop other by simp
  qed
qed

section \<open>Without the network\<close>

abbreviation elsewhere :: "'s fetchenv \<Rightarrow> (string \<Rightarrow> goerr option) \<Rightarrow> (int \<Rightarrow> string \<Rightarrow> ('s, goerr + 's response) state) \<Rightarrow> 's fetchenv" where
  "elsewhere fe request client \<equiv> fe\<lparr>fe_NewRequest := request, fe_Do := client\<rparr>"

lemma fetchAndLog_cached:
  assumes w: "file_world fe files" and "hasSum a (files s (filepathJoin [out, as_dest a]))"
  shows "run_state (fetchAndLog (elsewhere fe request client) out a) s = run_state (fetchAndLog fe out a) s \<and>
    files (state_after (fetchAndLog fe out a) s) = files s"
proof -
  let ?dest = "filepathJoin [out, as_dest a]"
  obtain b where b: "files s ?dest = Some b" "sha256hex b = as_checksum a" using assms(2) by blast
  obtain s1 where s1: "run_state (fe_ReadFile fe ?dest) s = (Inr b, s1)" "files s1 = files s"
  proof -
    have "result_of (fe_ReadFile fe ?dest) s = Inr b" "files (state_after (fe_ReadFile fe ?dest) s) = files s"
      using w b(1) by (simp_all add: file_world_def keepsFiles_def)
    then show ?thesis using that by (metis prod.collapse)
  qed
  obtain p s2 where s2: "run_state (fe_Println fe (''vendored '' @ as_dest a)) s1 = (p, s2)" "files s2 = files s1"
  proof -
    have "files (state_after (fe_Println fe (''vendored '' @ as_dest a)) s1) = files s1" using w by (simp add: file_world_def keepsFiles_def)
    then show ?thesis using that by (metis prod.collapse)
  qed
  have fetched: "run_state (fetch fe out a) s = (None, s1)" "run_state (fetch (elsewhere fe request client) out a) s = (None, s1)"
    using b(2) s1 by (simp_all add: fetch_def Let_def matchesChecksum_def)
  show ?thesis using fetched s1(2) s2 by (cases p) (simp_all add: fetchAndLog_def)
qed

lemma fetchLoop_cached:
  assumes w: "file_world fe files" and "\<forall>a \<in> set entries. hasSum a (files s (filepathJoin [out, as_dest a]))"
  shows "run_state (fetchLoop (elsewhere fe request client) out entries) s = run_state (fetchLoop fe out entries) s"
  using assms(2)
proof (induction entries arbitrary: s)
  case (Cons a entries)
  obtain x s1 where x: "run_state (fetchAndLog fe out a) s = (x, s1)" by fastforce
  have "run_state (fetchAndLog (elsewhere fe request client) out a) s = (x, s1)" "files s1 = files s"
    using fetchAndLog_cached [OF w, where a = a and s = s and out = out and request = request and client = client] Cons.prems x by simp_all
  with Cons.IH [of s1] Cons.prems x show ?case by (auto split: option.splits)
qed simp

lemma vendorRun_cached:
  assumes w: "file_world fe files" and "\<forall>a \<in> set allAssets. hasSum a (files s (filepathJoin [out, as_dest a]))"
  shows "run_state (vendorRun (elsewhere fe request client) out) s = run_state (vendorRun fe out) s"
proof -
  obtain m s1 where m: "run_state (fe_MkdirAll fe out dirPerm) s = (m, s1)" by fastforce
  have "files s1 = files s" using w m unfolding file_world_def keepsFiles_def by (metis snd_conv)
  then have "run_state (fetchLoop (elsewhere fe request client) out allAssets) s1 = run_state (fetchLoop fe out allAssets) s1"
    using assms(2) by (intro fetchLoop_cached [OF w]) simp
  moreover have "writeFontCSS (elsewhere fe request client) out = writeFontCSS fe out" by (simp add: writeFontCSS_def cong: option.case_cong)
  ultimately show ?thesis using m by (auto simp: vendorRun_loop split: option.splits prod.splits)
qed


text \<open>A server that knows none of the assets, in a world that is its files.\<close>

definition goneServer :: "(string \<rightharpoonup> string) fetchenv" where
  "goneServer = \<lparr>fe_MkdirAll = (\<lambda>d m. return None),
     fe_ReadFile = (\<lambda>p. State (\<lambda>f. (case f p of None \<Rightarrow> Inl (Sentinel ''not found'') | Some c \<Rightarrow> Inr c, f))),
     fe_WriteFile = (\<lambda>p b m. State (\<lambda>f. (None, f(p \<mapsto> b)))), fe_NewRequest = (\<lambda>u. None),
     fe_Do = (\<lambda>t u. return (Inr \<lparr>rs_StatusCode = 404, rs_Status = ''404 Not Found'', rs_ReadAll = return (Inr ''''), rs_Close = return ()\<rparr>)),
     fe_Println = (\<lambda>l. return None)\<rparr>"

lemma goneServer_world: "file_world goneServer id"
  by (auto simp: file_world_def goneServer_def keepsFiles_def yields_def split: option.splits)


end
