(* ===== verification/ConfigImport.thy ===== *)
theory ConfigImport
  imports UiProps
begin

text \<open>
  \<open>pkg/cli/config\<close>: the \<open>config import\<close> command, which merges a kubeconfig into the
  existing one.  The format of kubeconfig files (\<open>clientcmd\<close>), the terminal forms (\<open>huh\<close>)
  and the file system are parameters; the questions asked, the comparison of entries and
  the merge are the code's.
\<close>

section \<open>Interfaces\<close>

text \<open>A kubeconfig.  A map that is only looked up and updated is a map; the maps that are ranged over are
  the lists of their entries in the order of the range, with distinct names.\<close>

record ('c, 'a, 'x, 'p, 'e) kubeconfig =
  kc_Preferences :: 'p
  kc_Extensions :: 'e
  kc_Clusters :: "string \<rightharpoonup> 'c"
  kc_AuthInfos :: "string \<rightharpoonup> 'a"
  kc_Contexts :: "string \<rightharpoonup> 'x"
  kc_CurrentContext :: string

record ('c, 'a, 'x) importConfig =
  im_Clusters :: "(string \<times> 'c) list"
  im_AuthInfos :: "(string \<times> 'a) list"
  im_Contexts :: "(string \<times> 'x) list"
  im_CurrentContext :: string

record 's Prompter =
  pr_Confirm :: "string \<Rightarrow> bool \<Rightarrow> ('s, goerr + bool) state"
  pr_Text :: "string \<Rightarrow> ('s, goerr + string) state"

text \<open>\<open>il_quote\<close> is the verb \<open>%q\<close>; the three \<open>json\<close> fields are \<open>json.Marshal\<close> on the entries.
  \<open>il_NewConfig\<close> is the empty configuration, \<open>il_DefaultFilename\<close> the file that
  the environment names.\<close>

record ('s, 'c, 'a, 'x, 'p, 'e) importlib =
  il_quote :: "string \<Rightarrow> string"
  il_jsonCluster :: "'c \<Rightarrow> goerr + string"
  il_jsonAuthInfo :: "'a \<Rightarrow> goerr + string"
  il_jsonContext :: "'x \<Rightarrow> goerr + string"
  il_NewConfig :: "('c, 'a, 'x, 'p, 'e) kubeconfig"
  il_ReadFile :: "string \<Rightarrow> ('s, goerr + string) state"
  il_Load :: "string \<Rightarrow> goerr + ('c, 'a, 'x) importConfig"
  il_DefaultFilename :: string
  il_Stat :: "string \<Rightarrow> ('s, goerr option) state"
  il_LoadFromFile :: "string \<Rightarrow> ('s, goerr + ('c, 'a, 'x, 'p, 'e) kubeconfig) state"
  il_WriteToFile :: "('c, 'a, 'x, 'p, 'e) kubeconfig \<Rightarrow> string \<Rightarrow> ('s, goerr option) state"
  il_Stdout :: "string \<Rightarrow> ('s, goerr option) state"
  il_Stderr :: "string \<Rightarrow> ('s, goerr option) state"

definition errEmptyKubeconfig :: goerr where "errEmptyKubeconfig = Sentinel ''no kubeconfig content provided''"

definition pasteInputLines :: nat where "pasteInputLines = 15"

definition pasteInputCharLimit :: nat where "pasteInputCharLimit = 2 ^ 20"

text \<open>The forms: what a confirmation (title, yes label, no label, preselection) and a text field (title,
  lines, limit) answer.\<close>

record 's forms =
  hu_Confirm :: "string \<Rightarrow> string \<Rightarrow> string \<Rightarrow> bool \<Rightarrow> ('s, goerr + bool) state"
  hu_Text :: "string \<Rightarrow> nat \<Rightarrow> nat \<Rightarrow> ('s, goerr + string) state"

definition huhConfirm :: "'s forms \<Rightarrow> string \<Rightarrow> bool \<Rightarrow> ('s, goerr + bool) state" where
  "huhConfirm hu title defaultValue = do {
     r \<leftarrow> hu_Confirm hu title ''Yes'' ''No'' defaultValue;
     (case r of
        Inl err \<Rightarrow> return (Inl (Errorf ''failed to read confirmation: %w'' [] [err]))
      | Inr value \<Rightarrow> return (Inr value))
   }"

definition huhText :: "'s forms \<Rightarrow> string \<Rightarrow> ('s, goerr + string) state" where
  "huhText hu title = do {
     r \<leftarrow> hu_Text hu title pasteInputLines pasteInputCharLimit;
     (case r of
        Inl err \<Rightarrow> return (Inl (Errorf ''failed to read input: %w'' [] [err]))
      | Inr value \<Rightarrow> return (Inr value))
   }"

definition HuhPrompter :: "'s forms \<Rightarrow> 's Prompter" where
  "HuhPrompter hu = \<lparr>pr_Confirm = huhConfirm hu, pr_Text = huhText hu\<rparr>"

section \<open>Merging\<close>

definition entriesEqual :: "('t \<Rightarrow> goerr + string) \<Rightarrow> 't \<Rightarrow> 't \<Rightarrow> bool" where
  "entriesEqual marshal existing imported = (case (marshal existing, marshal imported) of
     (Inr existingJSON, Inr importedJSON) \<Rightarrow> existingJSON = importedJSON
   | _ \<Rightarrow> False)"

definition clustersEqual :: "('s, 'c, 'a, 'x, 'p, 'e) importlib \<Rightarrow> 'c \<Rightarrow> 'c \<Rightarrow> bool" where
  "clustersEqual il existing imported = entriesEqual (il_jsonCluster il) existing imported"

definition authInfosEqual :: "('s, 'c, 'a, 'x, 'p, 'e) importlib \<Rightarrow> 'a \<Rightarrow> 'a \<Rightarrow> bool" where
  "authInfosEqual il existing imported = entriesEqual (il_jsonAuthInfo il) existing imported"

definition contextsEqual :: "('s, 'c, 'a, 'x, 'p, 'e) importlib \<Rightarrow> 'x \<Rightarrow> 'x \<Rightarrow> bool" where
  "contextsEqual il existing imported = entriesEqual (il_jsonContext il) existing imported"

definition overwriteTitle :: "(string \<Rightarrow> string) \<Rightarrow> string \<Rightarrow> string \<Rightarrow> string" where
  "overwriteTitle quote kind name = ''Overwrite existing '' @ kind @ '' '' @ quote name @ ''?''"

fun mergeLoop :: "(string \<Rightarrow> string) \<Rightarrow> string \<Rightarrow> ('t \<Rightarrow> 't \<Rightarrow> bool) \<Rightarrow> 's Prompter \<Rightarrow> (string \<times> 't) list \<Rightarrow> (string \<rightharpoonup> 't)
    \<Rightarrow> ('s, goerr + (string \<rightharpoonup> 't)) state" where
  "mergeLoop quote kind equal prompt [] merged = return (Inr merged)"
| "mergeLoop quote kind equal prompt ((name, value) # rest) merged =
     (let asks = (case merged name of Some current \<Rightarrow> \<not> equal current value | None \<Rightarrow> False)
      in if asks
         then do {
           r \<leftarrow> pr_Confirm prompt (overwriteTitle quote kind name) False;
           (case r of
              Inl err \<Rightarrow> return (Inl (Errorf ''failed to confirm %s overwrite: %w'' [kind] [err]))
            | Inr overwrite \<Rightarrow>
                if \<not> overwrite then mergeLoop quote kind equal prompt rest merged
                else mergeLoop quote kind equal prompt rest (merged(name \<mapsto> value)))
         }
         else mergeLoop quote kind equal prompt rest (merged(name \<mapsto> value)))"

definition mergeEntries :: "(string \<Rightarrow> string) \<Rightarrow> string \<Rightarrow> (string \<rightharpoonup> 't) \<Rightarrow> (string \<times> 't) list \<Rightarrow> ('t \<Rightarrow> 't \<Rightarrow> bool) \<Rightarrow> 's Prompter
    \<Rightarrow> ('s, goerr + (string \<rightharpoonup> 't)) state" where
  "mergeEntries quote kind existing imported equal prompt = mergeLoop quote kind equal prompt imported existing"

definition switchTitle :: "(string \<Rightarrow> string) \<Rightarrow> string \<Rightarrow> string" where
  "switchTitle quote imported = ''Set '' @ quote imported @ '' as the current context?''"

definition promptCurrentContext :: "(string \<Rightarrow> string) \<Rightarrow> string \<Rightarrow> string \<Rightarrow> 's Prompter \<Rightarrow> ('s, goerr + string) state" where
  "promptCurrentContext quote existing imported prompt =
     (if imported = '''' \<or> imported = existing then return (Inr existing)
      else if existing = '''' then return (Inr imported)
      else do {
        r \<leftarrow> pr_Confirm prompt (switchTitle quote imported) False;
        (case r of
           Inl err \<Rightarrow> return (Inl (Errorf ''failed to confirm current-context switch: %w'' [] [err]))
         | Inr switchContext \<Rightarrow> return (Inr (if \<not> switchContext then existing else imported)))
      })"

definition MergeKubeconfig :: "('s, 'c, 'a, 'x, 'p, 'e) importlib \<Rightarrow> ('c, 'a, 'x, 'p, 'e) kubeconfig \<Rightarrow> ('c, 'a, 'x) importConfig \<Rightarrow> 's Prompter
    \<Rightarrow> ('s, goerr + ('c, 'a, 'x, 'p, 'e) kubeconfig) state" where
  "MergeKubeconfig il existing imported prompt = do {
     c \<leftarrow> mergeEntries (il_quote il) ''cluster'' (kc_Clusters existing) (im_Clusters imported) (clustersEqual il) prompt;
     (case c of
        Inl err \<Rightarrow> return (Inl err)
      | Inr clusters \<Rightarrow> do {
          a \<leftarrow> mergeEntries (il_quote il) ''user'' (kc_AuthInfos existing) (im_AuthInfos imported) (authInfosEqual il) prompt;
          (case a of
             Inl err \<Rightarrow> return (Inl err)
           | Inr authInfos \<Rightarrow> do {
               x \<leftarrow> mergeEntries (il_quote il) ''context'' (kc_Contexts existing) (im_Contexts imported) (contextsEqual il) prompt;
               (case x of
                  Inl err \<Rightarrow> return (Inl err)
                | Inr contexts \<Rightarrow> do {
                    let merged = (il_NewConfig il)\<lparr>kc_Preferences := kc_Preferences existing, kc_Extensions := kc_Extensions existing,
                      kc_Clusters := clusters, kc_AuthInfos := authInfos, kc_Contexts := contexts,
                      kc_CurrentContext := kc_CurrentContext existing\<rparr>;
                    k \<leftarrow> promptCurrentContext (il_quote il) (kc_CurrentContext existing) (im_CurrentContext imported) prompt;
                    (case k of
                       Inl err \<Rightarrow> return (Inl err)
                     | Inr currentContext \<Rightarrow> return (Inr (merged\<lparr>kc_CurrentContext := currentContext\<rparr>)))
                  })
             })
        })
   }"

section \<open>The command\<close>

definition readKubeconfigInput :: "('s, 'c, 'a, 'x, 'p, 'e) importlib \<Rightarrow> string list \<Rightarrow> 's Prompter \<Rightarrow> ('s, goerr + string) state" where
  "readKubeconfigInput il args prompt = (case args of
     path # _ \<Rightarrow> do {
       r \<leftarrow> il_ReadFile il path;
       (case r of
          Inl err \<Rightarrow> return (Inl (Errorf ''failed to read kubeconfig file: %w'' [] [err]))
        | Inr content \<Rightarrow> return (Inr content))
     }
   | [] \<Rightarrow> do {
       r \<leftarrow> pr_Text prompt ''Paste kubeconfig content'';
       (case r of
          Inl err \<Rightarrow> return (Inl (Errorf ''failed to read pasted kubeconfig: %w'' [] [err]))
        | Inr pasted \<Rightarrow> if trimSpace pasted = '''' then return (Inl errEmptyKubeconfig) else return (Inr pasted))
     })"

text \<open>\<open>os.IsNotExist\<close> looks at the error itself, not at what it wraps.\<close>

abbreviation errNotExist :: goerr where "errNotExist \<equiv> Sentinel ''file does not exist''"

definition loadExistingKubeconfig :: "('s, 'c, 'a, 'x, 'p, 'e) importlib \<Rightarrow> string \<Rightarrow> ('s, goerr + ('c, 'a, 'x, 'p, 'e) kubeconfig) state" where
  "loadExistingKubeconfig il path = do {
     statErr \<leftarrow> il_Stat il path;
     if statErr = Some errNotExist then return (Inr (il_NewConfig il))
     else do {
       r \<leftarrow> il_LoadFromFile il path;
       (case r of
          Inl err \<Rightarrow> return (Inl (Errorf ''failed to load existing kubeconfig: %w'' [] [err]))
        | Inr existing \<Rightarrow> return (Inr existing))
     }
   }"

definition importedLine :: "string \<Rightarrow> string" where "importedLine targetPath = textLine (''Imported kubeconfig into '' @ targetPath)"

definition writeImported :: "('s, 'c, 'a, 'x, 'p, 'e) importlib \<Rightarrow> ('c, 'a, 'x, 'p, 'e) kubeconfig \<Rightarrow> string \<Rightarrow> ('s, goerr option) state" where
  "writeImported il merged targetPath = do {
     writeErr \<leftarrow> il_WriteToFile il merged targetPath;
     (case writeErr of
        Some err \<Rightarrow> return (Some (Errorf ''failed to write kubeconfig: %w'' [] [err]))
      | None \<Rightarrow> do {
          p \<leftarrow> il_Stdout il (importedLine targetPath);
          (case p of
             Some err \<Rightarrow> return (Some (Errorf ''failed to print import result: %w'' [] [err]))
           | None \<Rightarrow> return None)
        })
   }"

definition runConfigImport :: "('s, 'c, 'a, 'x, 'p, 'e) importlib \<Rightarrow> string list \<Rightarrow> 's Prompter \<Rightarrow> ('s, goerr option) state" where
  "runConfigImport il args prompt = do {
     input \<leftarrow> readKubeconfigInput il args prompt;
     (case input of
        Inl err \<Rightarrow> return (Some err)
      | Inr content \<Rightarrow> (case il_Load il content of
          Inl err \<Rightarrow> return (Some (Errorf ''failed to parse kubeconfig: %w'' [] [err]))
        | Inr imported \<Rightarrow> do {
            let targetPath = il_DefaultFilename il;
            x \<leftarrow> loadExistingKubeconfig il targetPath;
            (case x of
               Inl err \<Rightarrow> return (Some err)
             | Inr existing \<Rightarrow> do {
                 m \<leftarrow> MergeKubeconfig il existing imported prompt;
                 (case m of
                    Inl err \<Rightarrow> return (Some err)
                  | Inr merged \<Rightarrow> writeImported il merged targetPath)
               })
          }))
   }"

text \<open>The result is the error and whether the command's own report of it is silenced.\<close>

definition RunConfigImport :: "('s, 'c, 'a, 'x, 'p, 'e) importlib \<Rightarrow> string list \<Rightarrow> 's Prompter \<Rightarrow> ('s, goerr option \<times> bool) state" where
  "RunConfigImport il args prompt = do {
     e \<leftarrow> runConfigImport il args prompt;
     (case e of
        Some err \<Rightarrow> if errorsIs err ''user aborted'' then do {
            _ \<leftarrow> il_Stderr il (textLine ''Aborted.'');
            return (e, True)
          }
          else return (e, False)
      | None \<Rightarrow> return (e, False))
   }"

definition importRunE :: "'s forms \<Rightarrow> ('s, 'c, 'a, 'x, 'p, 'e) importlib \<Rightarrow> string list \<Rightarrow> ('s, goerr option \<times> bool) state" where
  "importRunE hu il args = RunConfigImport il args (HuhPrompter hu)"

section \<open>What an import does\<close>

text \<open>The reference: an entry of the imported file is taken unless another value of that name exists and
  the user says no; every other entry stays.\<close>

definition mergedEntry :: "(string \<Rightarrow> string) \<Rightarrow> (string \<Rightarrow> bool) \<Rightarrow> string \<Rightarrow> ('t \<Rightarrow> 't \<Rightarrow> bool) \<Rightarrow> (string \<rightharpoonup> 't) \<Rightarrow> (string \<rightharpoonup> 't) \<Rightarrow> string \<rightharpoonup> 't" where
  "mergedEntry quote yes kind equal existing imported name = (case imported name of
     None \<Rightarrow> existing name
   | Some v \<Rightarrow> (case existing name of
       None \<Rightarrow> Some v
     | Some u \<Rightarrow> if equal u v \<or> yes (overwriteTitle quote kind name) then Some v else Some u))"

definition mergedContext :: "(string \<Rightarrow> string) \<Rightarrow> (string \<Rightarrow> bool) \<Rightarrow> string \<Rightarrow> string \<Rightarrow> string" where
  "mergedContext quote yes existing imported =
     (if imported = '''' then existing else if existing = '''' then imported
      else if yes (switchTitle quote imported) then imported else existing)"

definition importMerged :: "('s, 'c, 'a, 'x, 'p, 'e) importlib \<Rightarrow> (string \<Rightarrow> bool) \<Rightarrow> ('c, 'a, 'x, 'p, 'e) kubeconfig \<Rightarrow> ('c, 'a, 'x) importConfig
    \<Rightarrow> ('c, 'a, 'x, 'p, 'e) kubeconfig" where
  "importMerged il yes existing imported = \<lparr>kc_Preferences = kc_Preferences existing, kc_Extensions = kc_Extensions existing,
     kc_Clusters = mergedEntry (il_quote il) yes ''cluster'' (clustersEqual il) (kc_Clusters existing) (map_of (im_Clusters imported)),
     kc_AuthInfos = mergedEntry (il_quote il) yes ''user'' (authInfosEqual il) (kc_AuthInfos existing) (map_of (im_AuthInfos imported)),
     kc_Contexts = mergedEntry (il_quote il) yes ''context'' (contextsEqual il) (kc_Contexts existing) (map_of (im_Contexts imported)),
     kc_CurrentContext = mergedContext (il_quote il) yes (kc_CurrentContext existing) (im_CurrentContext imported)\<rparr>"

text \<open>The answers, when they come, are those of \<open>yes\<close>.\<close>

definition answers :: "'s Prompter \<Rightarrow> (string \<Rightarrow> bool) \<Rightarrow> bool" where
  "answers prompt yes \<longleftrightarrow> (\<forall>title d. yields (\<lambda>r. \<forall>b. r = Inr b \<longrightarrow> b = yes title) (pr_Confirm prompt title d))"

lemma answersD: "answers prompt yes \<Longrightarrow> run_state (pr_Confirm prompt title d) s = (Inr b, t) \<Longrightarrow> b = yes title"
  unfolding answers_def yields_def by (metis fst_conv)

lemma mergedEntry_step:
  assumes "name \<notin> fst ` set rest"
  shows "mergedEntry quote yes kind equal (existing(name := mergedEntry quote yes kind equal existing [name \<mapsto> v] name)) (map_of rest) =
    mergedEntry quote yes kind equal existing (map_of ((name, v) # rest))"
proof -
  have "map_of rest name = None" using assms by (simp add: map_of_eq_None_iff)
  then show ?thesis by (auto simp: mergedEntry_def fun_eq_iff split: option.splits)
qed

lemma mergeLoop_merged:
  assumes "answers prompt yes" and "distinct (map fst imported)" and "run_state (mergeLoop quote kind equal prompt imported existing) s = (Inr m, t)"
  shows "m = mergedEntry quote yes kind equal existing (map_of imported)"
  using assms(2,3)
proof (induction imported arbitrary: existing s)
  case Nil then show ?case by (simp add: mergedEntry_def fun_eq_iff)
next
  case (Cons entry rest)
  obtain name v where entry: "entry = (name, v)" by fastforce
  let ?upd = "existing(name := mergedEntry quote yes kind equal existing [name \<mapsto> v] name)"
  have "\<exists>s1. run_state (mergeLoop quote kind equal prompt rest ?upd) s1 = (Inr m, t)"
  proof (cases "case existing name of Some current \<Rightarrow> \<not> equal current v | None \<Rightarrow> False")
    case True
    then obtain u where u: "existing name = Some u" "\<not> equal u v" by (cases "existing name") auto
    obtain r s1 where r: "run_state (pr_Confirm prompt (overwriteTitle quote kind name) False) s = (r, s1)" by fastforce
    show ?thesis
    proof (cases r)
      case (Inr b)
      then have "b = yes (overwriteTitle quote kind name)" using answersD [OF assms(1)] r by blast
      moreover have "existing(name \<mapsto> u) = existing" using u(1) by (simp add: fun_upd_idem)
      ultimately show ?thesis using Cons.prems(2) u r Inr entry by (auto simp: mergedEntry_def split: if_splits)
    qed (use Cons.prems(2) u r entry in simp)
  next
    case False
    then have "mergedEntry quote yes kind equal existing [name \<mapsto> v] name = Some v" by (auto simp: mergedEntry_def split: option.splits)
    then show ?thesis using Cons.prems(2) False entry by auto
  qed
  then obtain s1 where "run_state (mergeLoop quote kind equal prompt rest ?upd) s1 = (Inr m, t)" ..
  moreover have "distinct (map fst rest)" "name \<notin> fst ` set rest" using Cons.prems(1) entry by simp_all
  ultimately have "m = mergedEntry quote yes kind equal ?upd (map_of rest)" using Cons.IH by blast
  then show ?case unfolding entry mergedEntry_step [OF \<open>name \<notin> fst ` set rest\<close>] .
qed

lemma promptCurrentContext_merged:
  assumes "answers prompt yes" and "run_state (promptCurrentContext quote existing imported prompt) s = (Inr k, t)"
  shows "k = mergedContext quote yes existing imported"
proof (cases "imported = '''' \<or> imported = existing \<or> existing = ''''")
  case False
  obtain r s1 where r: "run_state (pr_Confirm prompt (switchTitle quote imported) False) s = (r, s1)" by fastforce
  then have "r = Inr b \<Longrightarrow> b = yes (switchTitle quote imported)" for b using answersD [OF assms(1)] by blast
  with assms(2) r False show ?thesis by (auto simp: promptCurrentContext_def mergedContext_def split: sum.splits)
qed (use assms(2) in \<open>auto simp: promptCurrentContext_def mergedContext_def\<close>)

definition distinctNames :: "('c, 'a, 'x) importConfig \<Rightarrow> bool" where
  "distinctNames im \<longleftrightarrow> distinct (map fst (im_Clusters im)) \<and> distinct (map fst (im_AuthInfos im)) \<and> distinct (map fst (im_Contexts im))"

lemma MergeKubeconfig_merged:
  assumes a: "answers prompt yes" and d: "distinctNames imported"
    and run: "run_state (MergeKubeconfig il existing imported prompt) s = (Inr m, t)"
  shows "m = importMerged il yes existing imported"
proof -
  note merged = mergeLoop_merged [OF a]
  note d = d [unfolded distinctNames_def]
  show ?thesis using run d
    by (auto simp: MergeKubeconfig_def mergeEntries_def Let_def importMerged_def split: prod.splits sum.splits
        dest!: merged promptCurrentContext_merged [OF a])
qed

text \<open>Importing the same file again with the same answers changes nothing.\<close>

lemma mergedEntry_again: "mergedEntry q yes kind equal (mergedEntry q yes kind equal ex im) im = mergedEntry q yes kind equal ex im"
  by (auto simp: mergedEntry_def fun_eq_iff split: option.splits)

lemma mergedContext_again: "mergedContext q yes (mergedContext q yes ex im) im = mergedContext q yes ex im"
  by (simp add: mergedContext_def)

lemma importMerged_again: "importMerged il yes (importMerged il yes existing imported) imported = importMerged il yes existing imported"
  by (simp add: importMerged_def mergedEntry_again mergedContext_again)

section \<open>A whole import\<close>

text \<open>\<open>files s p\<close> is the kubeconfig stored in file \<open>p\<close>.  Only writing changes it.\<close>

abbreviation keeps :: "('s \<Rightarrow> 'f) \<Rightarrow> ('s, 'b) state \<Rightarrow> bool" where
  "keeps files m \<equiv> \<forall>F. leaves (\<lambda>s. files s = F) m"

definition import_world :: "('s, 'c, 'a, 'x, 'p, 'e) importlib \<Rightarrow> 's Prompter \<Rightarrow> ('s \<Rightarrow> string \<rightharpoonup> ('c, 'a, 'x, 'p, 'e) kubeconfig) \<Rightarrow> bool" where
  "import_world il prompt files \<longleftrightarrow>
     (\<forall>p. keeps files (il_ReadFile il p)) \<and> (\<forall>p. keeps files (il_Stat il p)) \<and> (\<forall>p. keeps files (il_LoadFromFile il p)) \<and>
     (\<forall>l. keeps files (il_Stdout il l)) \<and> (\<forall>l. keeps files (il_Stderr il l)) \<and>
     (\<forall>q d. keeps files (pr_Confirm prompt q d)) \<and> (\<forall>q. keeps files (pr_Text prompt q)) \<and>
     (\<forall>p s. result_of (il_Stat il p) s = Some errNotExist \<longrightarrow> files s p = None) \<and>
     (\<forall>p s c. result_of (il_LoadFromFile il p) s = Inr c \<longrightarrow> files s p = Some c) \<and>
     (\<forall>c p s q. q \<noteq> p \<longrightarrow> files (state_after (il_WriteToFile il c p) s) q = files s q) \<and>
     (\<forall>c p s. result_of (il_WriteToFile il c p) s = None \<longrightarrow> files (state_after (il_WriteToFile il c p) s) p = Some c)"

lemma keeps_Stdout: "import_world il prompt files \<Longrightarrow> keeps files (il_Stdout il l)"
  by (simp add: import_world_def)

lemma keeps_Stderr: "import_world il prompt files \<Longrightarrow> keeps files (il_Stderr il l)"
  by (simp add: import_world_def)

lemma keeps_run: "keeps files m \<Longrightarrow> run_state m s = (a, t) \<Longrightarrow> files t = files s"
  by (rule leaves_run [where I = "\<lambda>u. files u = files s"]) simp_all

lemma keeps_mergeLoop:
  assumes "\<forall>q d. keeps files (pr_Confirm prompt q d)"
  shows "leaves (\<lambda>s. files s = F) (mergeLoop quote kind equal prompt imported existing)"
proof (induction imported arbitrary: existing)
  case (Cons entry rest)
  obtain name v where "entry = (name, v)" by (cases entry)
  have "leaves (\<lambda>s. files s = F) (pr_Confirm prompt q d)" for q d using assms by blast
  then show ?case unfolding \<open>entry = (name, v)\<close> mergeLoop.simps by (intro leaves_rules Cons.IH)
qed (simp add: leaves_return)

lemma keeps_reading:
  assumes w: "import_world il prompt files"
  shows "keeps files (readKubeconfigInput il args prompt)" and "keeps files (loadExistingKubeconfig il path)"
    and "keeps files (MergeKubeconfig il existing imported prompt)"
proof -
  have confirm: "\<forall>q d. keeps files (pr_Confirm prompt q d)" using w by (simp add: import_world_def)
  show "keeps files (readKubeconfigInput il args prompt)"
    using w unfolding readKubeconfigInput_def import_world_def by (cases args) (auto intro!: leaves_rules)
  show "keeps files (loadExistingKubeconfig il path)"
    using w unfolding loadExistingKubeconfig_def import_world_def by (auto intro!: leaves_rules)
  show "keeps files (MergeKubeconfig il existing imported prompt)"
    using confirm unfolding MergeKubeconfig_def mergeEntries_def promptCurrentContext_def
    by (auto simp: Let_def intro!: leaves_rules keeps_mergeLoop)
qed

abbreviation orNew :: "('s, 'c, 'a, 'x, 'p, 'e) importlib \<Rightarrow> ('c, 'a, 'x, 'p, 'e) kubeconfig option \<Rightarrow> ('c, 'a, 'x, 'p, 'e) kubeconfig" where
  "orNew il stored \<equiv> (case stored of None \<Rightarrow> il_NewConfig il | Some c \<Rightarrow> c)"

lemma loadExisting_stored:
  assumes w: "import_world il prompt files" and "run_state (loadExistingKubeconfig il path) s = (Inr existing, t)"
  shows "existing = orNew il (files s path)"
proof -
  obtain x s1 where x: "run_state (il_Stat il path) s = (x, s1)" by fastforce
  have "keeps files (il_Stat il path)" using w by (simp add: import_world_def)
  then have s1: "files s1 = files s" using keeps_run x by metis
  have "x = Some errNotExist \<Longrightarrow> files s path = None" using w x unfolding import_world_def by (metis fst_conv)
  moreover have "run_state (il_LoadFromFile il path) s1 = (Inr c, u) \<Longrightarrow> files s1 path = Some c" for c u
    using w unfolding import_world_def by (metis fst_conv)
  ultimately show ?thesis using assms(2) x s1 by (auto simp: loadExistingKubeconfig_def split: if_splits prod.splits sum.splits)
qed

lemma writeImported_stores:
  assumes w: "import_world il prompt files" and run: "run_state (writeImported il merged path) s = (e, t)"
  shows "(\<forall>q. q \<noteq> path \<longrightarrow> files t q = files s q) \<and>
    ((\<exists>err. e = Some (Errorf ''failed to write kubeconfig: %w'' [] [err])) \<or> files t path = Some merged)"
proof -
  obtain wr s1 where wr: "run_state (il_WriteToFile il merged path) s = (wr, s1)" by (rule that [OF surjective_pairing])
  have s1: "q \<noteq> path \<Longrightarrow> files s1 q = files s q" "wr = None \<Longrightarrow> files s1 path = Some merged" for q
    using w wr unfolding import_world_def by (metis fst_conv snd_conv)+
  show ?thesis
  proof (cases wr)
    case None
    obtain p s2 where p: "run_state (il_Stdout il (importedLine path)) s1 = (p, s2)" by (rule that [OF surjective_pairing])
    have "t = s2" using run wr p None by (cases p) (simp_all add: writeImported_def)
    then have "files t = files s1" using keeps_run [OF keeps_Stdout [OF w] p] by simp
    then show ?thesis using s1 None by simp
  next
    case (Some err)
    then have "e = Some (Errorf ''failed to write kubeconfig: %w'' [] [err])" "t = s1" using run wr by (simp_all add: writeImported_def)
    then show ?thesis using s1 by simp
  qed
qed

lemma runConfigImport_merges:
  assumes w: "import_world il prompt files" and a: "answers prompt yes"
    and d: "\<forall>content imported. il_Load il content = Inr imported \<longrightarrow> distinctNames imported"
    and run: "run_state (runConfigImport il args prompt) s = (e, t)"
  shows "(e \<noteq> None \<and> files t = files s) \<or>
    ((\<forall>q. q \<noteq> il_DefaultFilename il \<longrightarrow> files t q = files s q) \<and>
     ((\<exists>err. e = Some (Errorf ''failed to write kubeconfig: %w'' [] [err])) \<or>
      (\<exists>content imported. result_of (readKubeconfigInput il args prompt) s = Inr content \<and> il_Load il content = Inr imported \<and>
         files t (il_DefaultFilename il) = Some (importMerged il yes (orNew il (files s (il_DefaultFilename il))) imported))))"
proof -
  let ?target = "il_DefaultFilename il"
  obtain input s1 where input: "run_state (readKubeconfigInput il args prompt) s = (input, s1)" by fastforce
  have s1: "files s1 = files s" using keeps_run [OF keeps_reading(1) [OF w] input] .
  obtain x s2 where x: "run_state (loadExistingKubeconfig il ?target) s1 = (x, s2)" by fastforce
  have s2: "files s2 = files s" using keeps_run [OF keeps_reading(2) [OF w] x] s1 by simp
  consider err where "input = Inl err" | content err where "input = Inr content" "il_Load il content = Inl err"
    | content imported err where "input = Inr content" "il_Load il content = Inr imported" "x = Inl err"
    | content imported existing where "input = Inr content" "il_Load il content = Inr imported" "x = Inr existing"
    by (metis sum.exhaust)
  then show ?thesis
  proof cases
    case (4 content imported existing)
    obtain m s3 where m: "run_state (MergeKubeconfig il existing imported prompt) s2 = (m, s3)" by fastforce
    have s3: "files s3 = files s" using keeps_run [OF keeps_reading(3) [OF w] m] s2 by simp
    show ?thesis
    proof (cases m)
      case (Inl err)
      then show ?thesis using run input x m s3 4 by (auto simp: runConfigImport_def Let_def)
    next
      case (Inr merged)
      have merged: "merged = importMerged il yes (orNew il (files s ?target)) imported"
        using MergeKubeconfig_merged [OF a] d 4 m Inr loadExisting_stored [OF w] x s1 by metis
      have "run_state (writeImported il merged ?target) s3 = (e, t)" using run input x m 4 Inr by (simp add: runConfigImport_def Let_def)
      note written = writeImported_stores [OF w this]
      have "result_of (readKubeconfigInput il args prompt) s = Inr content" using input 4(1) by simp
      moreover have "\<forall>q. q \<noteq> ?target \<longrightarrow> files t q = files s q" using written s3 by simp
      ultimately show ?thesis using written merged 4(2) by blast
    qed
  qed (use run input x s1 s2 in \<open>auto simp: runConfigImport_def Let_def\<close>)
qed

text \<open> C38: A kubeconfig import touches no file but the kubeconfig of the environment.  Either it returns an
  error and changes nothing, or writing the file failed, or the file holds the merge: every entry
  of the imported file that is new, equal or whose replacement was confirmed, every other entry of the old
  one, with the old preferences, whatever the order in which the maps are visited.  The command's error
  report is silenced exactly for an aborted question.  Importing the same file again with the same answers
  gives the same configuration.\<close>

theorem import_merges:
  assumes "import_world il prompt files" and "answers prompt yes"
    and "\<forall>content imported. il_Load il content = Inr imported \<longrightarrow> distinctNames imported"
    and "run_state (RunConfigImport il args prompt) s = ((e, silenced), t)"
  shows "(silenced \<longleftrightarrow> (\<exists>err. e = Some err \<and> errorsIs err ''user aborted'')) \<and>
    ((e \<noteq> None \<and> files t = files s) \<or>
     ((\<forall>q. q \<noteq> il_DefaultFilename il \<longrightarrow> files t q = files s q) \<and>
      ((\<exists>err. e = Some (Errorf ''failed to write kubeconfig: %w'' [] [err])) \<or>
       (\<exists>content imported. result_of (readKubeconfigInput il args prompt) s = Inr content \<and> il_Load il content = Inr imported \<and>
          files t (il_DefaultFilename il) = Some (importMerged il yes (orNew il (files s (il_DefaultFilename il))) imported))))) \<and>
    (\<forall>existing imported. importMerged il yes (importMerged il yes existing imported) imported = importMerged il yes existing imported)"
proof -
  obtain e' u where run: "run_state (runConfigImport il args prompt) s = (e', u)" by fastforce
  obtain x v where err: "run_state (il_Stderr il (textLine ''Aborted.'')) u = (x, v)" by (rule that [OF surjective_pairing])
  have v: "files v = files u" by (rule keeps_run [OF keeps_Stderr [OF assms(1)] err])
  have "e' = e" "t = u \<or> t = v" "silenced \<longleftrightarrow> (\<exists>err. e = Some err \<and> errorsIs err ''user aborted'')"
    using assms(4) run err by (auto simp: RunConfigImport_def split: option.splits if_splits)
  moreover have "files t = files u" using calculation(2) v by blast
  ultimately show ?thesis using runConfigImport_merges [OF assms(1-3) run] by (simp add: importMerged_again)
qed

text \<open>A terminal where only the replacement of users is confirmed, and a file with one entry of each kind
  of collision.\<close>

definition careful :: "string \<Rightarrow> bool" where "careful q \<longleftrightarrow> take 23 q = ''Overwrite existing user''"

type_synonym sampleFiles = "string \<rightharpoonup> (string, string, string, unit, unit) kubeconfig"

definition carefulPrompter :: "sampleFiles Prompter" where
  "carefulPrompter = \<lparr>pr_Confirm = (\<lambda>q d. return (Inr (careful q))), pr_Text = (\<lambda>q. return (Inr ''pasted''))\<rparr>"

definition sampleLib :: "(sampleFiles, string, string, string, unit, unit) importlib" where
  "sampleLib = \<lparr>il_quote = (\<lambda>n. n), il_jsonCluster = Inr, il_jsonAuthInfo = Inr, il_jsonContext = Inr,
     il_NewConfig = \<lparr>kc_Preferences = (), kc_Extensions = (), kc_Clusters = Map.empty, kc_AuthInfos = Map.empty, kc_Contexts = Map.empty, kc_CurrentContext = ''''\<rparr>,
     il_ReadFile = (\<lambda>p. return (Inl (Sentinel ''not found''))),
     il_Load = (\<lambda>c. Inr \<lparr>im_Clusters = [(''b'', ''new''), (''a'', ''other'')], im_AuthInfos = [(''u'', ''other'')], im_Contexts = [], im_CurrentContext = ''b''\<rparr>),
     il_DefaultFilename = ''config'',
     il_Stat = (\<lambda>p. State (\<lambda>f. (case f p of None \<Rightarrow> Some errNotExist | Some c \<Rightarrow> None, f))),
     il_LoadFromFile = (\<lambda>p. State (\<lambda>f. (case f p of None \<Rightarrow> Inl errNotExist | Some c \<Rightarrow> Inr c, f))),
     il_WriteToFile = (\<lambda>c p. State (\<lambda>f. (None, f(p \<mapsto> c)))),
     il_Stdout = (\<lambda>l. return None), il_Stderr = (\<lambda>l. return None)\<rparr>"

lemma sample_world: "import_world sampleLib carefulPrompter id" "answers carefulPrompter careful"
  by (auto simp: import_world_def sampleLib_def carefulPrompter_def leaves_def answers_def yields_def split: option.splits)

definition sampleConfig :: "(string, string, string, unit, unit) kubeconfig" where
  "sampleConfig = \<lparr>kc_Preferences = (), kc_Extensions = (), kc_Clusters = [''a'' \<mapsto> ''old''], kc_AuthInfos = [''u'' \<mapsto> ''old''], kc_Contexts = Map.empty, kc_CurrentContext = ''a''\<rparr>"

theorem import_merges_witness:
  "(case run_state (RunConfigImport sampleLib [] carefulPrompter) [''config'' \<mapsto> sampleConfig] of ((e, silenced), t) \<Rightarrow>
     e = None \<and> \<not> silenced \<and> (case t ''config'' of
       None \<Rightarrow> False
     | Some c \<Rightarrow> kc_Clusters c ''a'' = Some ''old'' \<and> kc_Clusters c ''b'' = Some ''new'' \<and> kc_AuthInfos c ''u'' = Some ''other'' \<and> kc_CurrentContext c = ''a''))"
proof -
  let ?s = "[''config'' \<mapsto> sampleConfig]"
  obtain e silenced t where r: "run_state (RunConfigImport sampleLib [] carefulPrompter) ?s = ((e, silenced), t)" by (metis prod.collapse)
  have names: "\<forall>content imported. il_Load sampleLib content = Inr imported \<longrightarrow> distinctNames imported"
    by (simp add: sampleLib_def distinctNames_def)
  have "fst (fst (run_state (RunConfigImport sampleLib [] carefulPrompter) ?s)) = None" by code_simp
  then have e: "e = None" using r by simp
  have merged: "t ''config'' = Some (importMerged sampleLib careful sampleConfig
      \<lparr>im_Clusters = [(''b'', ''new''), (''a'', ''other'')], im_AuthInfos = [(''u'', ''other'')], im_Contexts = [], im_CurrentContext = ''b''\<rparr>)"
    "\<not> silenced"
    using import_merges [OF sample_world names r] e by (auto simp: sampleLib_def)
  then show ?thesis using r e
    by (simp add: importMerged_def mergedEntry_def mergedContext_def sampleConfig_def sampleLib_def careful_def clustersEqual_def authInfosEqual_def
        entriesEqual_def overwriteTitle_def switchTitle_def)
qed

end
