(* ===== verification/RelayRecovery.thy ===== *)
theory RelayRecovery
  imports IdentityWatch
begin

text \<open>
  The key sources of \<open>identitywatch.go\<close> and the interceptors of \<open>relay.go\<close>: every call of a
  relay to the hub is watched, and calls that the hub keeps rejecting make the relay read its
  identity again.  The state of a relay is the key its source holds and the count of
  rejections; the mutexes make each access one step.
\<close>

section \<open>Key sources\<close>

datatype 's KeySource = StaticKeySource string | IdentityKeySource "'s client" string

record 's relayst =
  rv_key :: string
  rv_failures :: nat
  rv_world :: 's

definition rcall :: "('s, 'a) state \<Rightarrow> ('s relayst, 'a) state" where
  "rcall m = State (\<lambda>r. case run_state m (rv_world r) of (a, w) \<Rightarrow> (a, r\<lparr>rv_world := w\<rparr>))"

definition StaticKey :: "string \<Rightarrow> 's KeySource" where "StaticKey key = StaticKeySource key"

definition heldKey :: "('s relayst, string) state" where "heldKey = State (\<lambda>r. (rv_key r, r))"

definition setKey :: "string \<Rightarrow> ('s relayst, unit) state" where "setKey key = State (\<lambda>r. ((), r\<lparr>rv_key := key\<rparr>))"

definition Current :: "'s KeySource \<Rightarrow> ('s relayst, string) state" where
  "Current ks = (case ks of StaticKeySource key \<Rightarrow> return key | IdentityKeySource reader namespace \<Rightarrow> heldKey)"

text \<open>The sources that implement \<open>Refresher\<close>, with their \<open>Refresh\<close>.\<close>

definition refresher :: "'s crypto \<Rightarrow> 's KeySource \<Rightarrow> ('s relayst, goerr option) state option" where
  "refresher cx ks = (case ks of
     StaticKeySource key \<Rightarrow> None
   | IdentityKeySource reader namespace \<Rightarrow> Some (do {
       key \<leftarrow> heldKey;
       x \<leftarrow> rcall (Refresh cx reader namespace key);
       _ \<leftarrow> setKey (fst x);
       return (snd x)
     }))"

section \<open>The interceptors\<close>

record 's authRecovery =
  ar_keys :: "'s KeySource"
  ar_conn :: "'s ClientConn"

definition recover :: "'s crypto \<Rightarrow> 's authRecovery \<Rightarrow> ('s relayst, unit) state" where
  "recover cx r = do {
     _ \<leftarrow> (case refresher cx (ar_keys r) of None \<Rightarrow> return None | Some m \<Rightarrow> m);
     rcall (cc_ResetConnectBackoff (ar_conn r))
   }"

definition countResult :: "goerr option \<Rightarrow> ('s relayst, bool) state" where
  "countResult err = State (\<lambda>r. case recordResult err (rv_failures r) of (f, trigger) \<Rightarrow> (trigger, r\<lparr>rv_failures := f\<rparr>))"

definition noteResult :: "'s crypto \<Rightarrow> 's authRecovery \<Rightarrow> goerr option \<Rightarrow> ('s relayst, unit) state" where
  "noteResult cx r err = do {
     trigger \<leftarrow> countResult err;
     if trigger then recover cx r else return ()
   }"

definition unaryInterceptor :: "'s crypto \<Rightarrow> 's authRecovery \<Rightarrow> ('s relayst, goerr option) state \<Rightarrow> ('s relayst, goerr option) state" where
  "unaryInterceptor cx r invoker = do {
     err \<leftarrow> invoker;
     _ \<leftarrow> noteResult cx r err;
     return err
   }"

definition RecvMsg :: "'s crypto \<Rightarrow> 's authRecovery \<Rightarrow> 's relayst clientStream \<Rightarrow> ('s relayst, goerr + payload) state" where
  "RecvMsg cx r stream = do {
     m \<leftarrow> cs_Recv stream;
     _ \<leftarrow> noteResult cx r (case m of Inl err \<Rightarrow> Some err | Inr x \<Rightarrow> None);
     return m
   }"

definition streamInterceptor :: "'s crypto \<Rightarrow> 's authRecovery \<Rightarrow> ('s relayst, goerr + 's relayst clientStream) state \<Rightarrow>
    ('s relayst, goerr + 's relayst clientStream) state" where
  "streamInterceptor cx r streamer = do {
     x \<leftarrow> streamer;
     (case x of
        Inl err \<Rightarrow> do { _ \<leftarrow> noteResult cx r (Some err); return (Inl err) }
      | Inr stream \<Rightarrow> return (Inr (stream\<lparr>cs_Recv := RecvMsg cx r stream\<rparr>)))
   }"

section \<open>Calls with credentials\<close>

record 's jwtCredentials =
  jc_zone :: string
  jc_keys :: "'s KeySource"
  jc_requireTransportSecurity :: bool

definition RequireTransportSecurity :: "'s jwtCredentials \<Rightarrow> bool" where
  "RequireTransportSecurity c = jc_requireTransportSecurity c"

text \<open>What gRPC does with per-call credentials: it asks for the metadata and sends the call with it.\<close>

definition withCredentials :: "'s world \<Rightarrow> jwtlib \<Rightarrow> 's jwtCredentials \<Rightarrow> (string \<times> string \<Rightarrow> ('s, goerr option) state) \<Rightarrow>
    ('s relayst, goerr option) state" where
  "withCredentials w jl c send = do {
     key \<leftarrow> Current (jc_keys c);
     md \<leftarrow> rcall (GetRequestMetadata w jl (jc_zone c) key);
     (case md of Inl err \<Rightarrow> return (Some err) | Inr header \<Rightarrow> rcall (send header))
   }"

section \<open>A rotated identity heals\<close>

lemma run_relay [simp]:
  "run_state (rcall m) r = (case run_state m (rv_world r) of (a, w) \<Rightarrow> (a, r\<lparr>rv_world := w\<rparr>))"
  "run_state heldKey r = (rv_key r, r)" "run_state (setKey k) r = ((), r\<lparr>rv_key := k\<rparr>)"
  "run_state (countResult err) r = (snd (recordResult err (rv_failures r)), r\<lparr>rv_failures := fst (recordResult err (rv_failures r))\<rparr>)"
  by (simp_all add: rcall_def heldKey_def setKey_def countResult_def split: prod.splits)

text \<open>The calls of a relay, one after the other.\<close>

fun calls :: "'s crypto \<Rightarrow> 's authRecovery \<Rightarrow> ('s relayst, goerr option) state list \<Rightarrow> ('s relayst, goerr option list) state" where
  "calls cx r [] = return []"
| "calls cx r (m # ms) = do {
     e \<leftarrow> unaryInterceptor cx r m;
     es \<leftarrow> calls cx r ms;
     return (e # es)
   }"

text \<open>The identity Secret holds \<open>key\<close> and every read of it answers; a call only changes the world.\<close>

definition identity_is :: "'s crypto \<Rightarrow> 's authRecovery \<Rightarrow> string \<Rightarrow> bool" where
  "identity_is cx r key \<longleftrightarrow> (\<exists>reader ns. ar_keys r = IdentityKeySource reader ns \<and> (\<forall>w. result_of (getIdentityKey cx reader ns) w = Inr key))"

definition plainCall :: "('s relayst, 'a) state \<Rightarrow> bool" where
  "plainCall m \<longleftrightarrow> (\<forall>r. rv_key (state_after m r) = rv_key r \<and> rv_failures (state_after m r) = rv_failures r)"

lemma recover_loads:
  assumes "identity_is cx r key"
  shows "rv_key (state_after (recover cx r) s) = key \<and> rv_failures (state_after (recover cx r) s) = rv_failures s"
proof -
  obtain reader ns where i: "ar_keys r = IdentityKeySource reader ns" "\<And>w. result_of (getIdentityKey cx reader ns) w = Inr key"
    using assms unfolding identity_is_def by blast
  obtain t where "run_state (getIdentityKey cx reader ns) (rv_world s) = (Inr key, t)" using i(2) by (metis prod.collapse)
  with i(1) show ?thesis by (simp add: recover_def refresher_def Refresh_def split: prod.splits)
qed

lemma unary_rejected:
  assumes "identity_is cx r key" and "plainCall m" and "rejected (result_of m s)" and "rv_failures s < 5"
  shows "if rv_failures s = 4 then rv_key (state_after (unaryInterceptor cx r m) s) = key \<and> rv_failures (state_after (unaryInterceptor cx r m) s) = 0
    else rv_key (state_after (unaryInterceptor cx r m) s) = rv_key s \<and> rv_failures (state_after (unaryInterceptor cx r m) s) = rv_failures s + 1"
proof -
  obtain e t where m: "run_state m s = (e, t)" by fastforce
  have t: "rv_key t = rv_key s" "rv_failures t = rv_failures s" using assms(2) m unfolding plainCall_def by (metis snd_conv)+
  have "rejected e" using assms(3) m by simp
  then show ?thesis using recover_loads [OF assms(1), of "t\<lparr>rv_failures := 0\<rparr>"] m t assms(4)
    by (auto simp: unaryInterceptor_def noteResult_def recordResult_cases split: prod.splits)
qed

lemma calls_heal:
  assumes "identity_is cx r key" and "\<forall>m \<in> set ms. plainCall m"
    and "\<forall>m \<in> set ms. \<forall>u. rv_key u \<noteq> key \<longrightarrow> rejected (result_of m u)"
    and "rv_failures s < 5" and "length ms = 5 - rv_failures s" and "rv_key s \<noteq> key"
  shows "rv_key (state_after (calls cx r ms) s) = key \<and> rv_failures (state_after (calls cx r ms) s) = 0 \<and>
    list_all rejected (result_of (calls cx r ms) s)"
  using assms(2-)
proof (induction ms arbitrary: s)
  case (Cons m ms)
  obtain e t where e: "run_state (unaryInterceptor cx r m) s = (e, t)" by fastforce
  have m: "rejected (result_of m s)" "plainCall m" using Cons.prems by simp_all
  note step = unary_rejected [OF assms(1) m(2,1) Cons.prems(3)]
  have rej: "rejected e" using e m(1) by (auto simp: unaryInterceptor_def split: prod.splits)
  show ?case
  proof (cases "rv_failures s = 4")
    case True
    then have "ms = []" using Cons.prems(4) by simp
    then show ?thesis using True step e rej by simp
  next
    case False
    then have t: "rv_failures t = rv_failures s + 1" "rv_key t = rv_key s" using step e by simp_all
    then have "rv_key (state_after (calls cx r ms) t) = key \<and> rv_failures (state_after (calls cx r ms) t) = 0 \<and>
      list_all rejected (result_of (calls cx r ms) t)"
      using Cons.prems False by (intro Cons.IH) auto
    then show ?thesis using e rej by (auto split: prod.splits)
  qed
qed simp

lemma withCredentials_plain: "plainCall (withCredentials w jl c send)"
  by (auto simp: plainCall_def withCredentials_def Current_def split: prod.splits sum.splits KeySource.splits)

text \<open> C40: A relay whose zone got a new identity repairs itself.  Let the identity Secret be readable
  and the hub reject every call that is not signed with the key now stored in it.  Whatever other key the
  relay holds, and whatever count below the threshold it has reached, exactly the calls that are missing to
  five rejections in a row fail; after them the source of the relay hands out the stored key and the count
  is zero, without a restart and without a watch event.\<close>

theorem rotated_identity_heals:
  assumes "identity_is cx r key" and "\<forall>m \<in> set ms. plainCall m \<and> (\<forall>u. rv_key u \<noteq> key \<longrightarrow> rejected (result_of m u))"
    and "rv_failures s < authFailureThreshold" and "length ms = authFailureThreshold - rv_failures s" and "rv_key s \<noteq> key"
  shows "case run_state (calls cx r ms) s of (es, t) \<Rightarrow> list_all rejected es \<and> result_of (Current (ar_keys r)) t = key \<and> rv_failures t = 0"
proof -
  have "result_of (Current (ar_keys r)) t = rv_key t" for t using assms(1) by (auto simp: identity_is_def Current_def)
  moreover have "rv_key (state_after (calls cx r ms) s) = key \<and> rv_failures (state_after (calls cx r ms) s) = 0 \<and>
    list_all rejected (result_of (calls cx r ms) s)"
    using assms by (intro calls_heal) (simp_all add: authFailureThreshold_def)
  ultimately show ?thesis by (auto split: prod.splits)
qed

text \<open>A relay that has counted three rejections of an old key; the Secret holds the new one.\<close>

definition rotatedSecret :: Secret where
  "rotatedSecret = \<lparr>sec_meta = objectMeta ''sys'' IdentitySecretName, sec_Type = '''', sec_Data = [TLSPrivateKeyKey \<mapsto> ''new''], sec_StringData = Map.empty\<rparr>"

definition rotatedRelay :: "(string \<rightharpoonup> cacheEntry) authRecovery" where
  "rotatedRelay = \<lparr>ar_keys = IdentityKeySource (down_client\<lparr>cl_Secret := down_kclient\<lparr>kget := (\<lambda>k. return (Inr rotatedSecret))\<rparr>\<rparr>) ''sys'',
     ar_conn = echo_conn 1 (return ())\<rparr>"

definition strictCall :: "((string \<rightharpoonup> cacheEntry) relayst, goerr option) state" where
  "strictCall = State (\<lambda>u. (if rv_key u = ''new'' then None else Some (statusError ''Unauthenticated'' ''invalid bearer token''), u))"

theorem rotated_identity_heals_witness:
  "case run_state (calls demo_crypto rotatedRelay [strictCall, strictCall]) \<lparr>rv_key = ''old'', rv_failures = 3, rv_world = Map.empty\<rparr> of
     (es, t) \<Rightarrow> list_all rejected es \<and> result_of (Current (ar_keys rotatedRelay)) t = ''new'' \<and> rv_failures t = 0"
proof (rule rotated_identity_heals)
  show "identity_is demo_crypto rotatedRelay ''new''"
    by (simp add: identity_is_def rotatedRelay_def getIdentityKey_def rotatedSecret_def LoadPrivateKey_def demo_crypto_def dataField_def)
  show "\<forall>m \<in> set [strictCall, strictCall]. plainCall m \<and> (\<forall>u. rv_key u \<noteq> ''new'' \<longrightarrow> rejected (result_of m u))"
    by (simp add: strictCall_def plainCall_def rejected_def statusError_def)
qed (simp_all add: authFailureThreshold_def)

end
