(* ===== verification/Spec2Isabelle.thy ===== *)
theory Spec2Isabelle
  imports Kms ZoneTeardown UiSecrets UiWalk UiForms ServeProps ServeStorage VendorAssets ConfigImport RelayRecovery
begin

text \<open>
  Kontinuum is a control plane that runs as a set of server processes (regions and zones
  around a hub) on top of Kubernetes style API servers.  A process registers itself, keeps
  its registration alive, discovers machines, groups them into pools, turns pools into
  clusters, installs a server on the cluster of every zone, and lets the servers of the
  zones store their objects through an authenticated etcd proxy of the hub.  This
  development models the controllers and services of the repository as HOL functions and
  proves what their correctness rests on.

  \<^bold>\<open>How Go becomes HOL.\<close>  A Go function that talks to the outside world is a value of the
  library type \<open>('s, 'a) state\<close> over an arbitrary type \<open>'s\<close> of world states; the Kubernetes
  client, the clock, the random source, the Talos machine API, DNS, X.509, JWT, gRPC
  connections, ciphers and the container registry are records of such functions that the
  model takes as arguments.  What a theorem needs of them (for example that a successful
  \<open>Get\<close> returns the stored object and changes nothing) is a named predicate in its
  hypotheses (\<open>cas_store\<close>, \<open>server_up\<close>, \<open>apimachinery_ok\<close> and the like), and the witness of the
  theorem instantiates the record by a concrete store.  Structs are records with one field
  per Go field (a prefix per record keeps the names apart), enums and tagged unions are
  datatypes, a pair of value and \<open>error\<close> is a sum whose left side is a \<open>goerr\<close> with its
  chain of wrapped errors, and \<open>int32\<close>, \<open>uint64\<close> values stay words where they can
  overflow.  Times and durations are integers of nanoseconds.

  \<^bold>\<open>The theories.\<close>
  \<^item> \<open>Prelude\<close>: errors, results, the state monad's running rules, strings, sorting, the named
    collections of simplification rules.
  \<^item> \<open>Kube\<close>: object metadata, core kinds, the record \<open>kclient\<close> of a client on one kind, its
    laws, the apimachinery helpers (conditions, finalizers, owner references).
  \<^item> \<open>Api\<close>: the structs of \<open>api/v1alpha2\<close> and \<open>api/v1alpha1\<close> and the conversion between them.
  \<^item> \<open>Zonelease\<close> (\<open>pkg/domain/zonelease/locker.go\<close>): \<open>Key\<close>, \<open>Jitter\<close>, \<open>TryAcquire\<close> with
    its create, renew and takeover branches.  The locale \<open>zone_gate\<close> is what a reconciler
    relies on when it asks for the lock; \<open>locker\<close> interprets it.  The inductive relation
    \<open>lock_step\<close> interleaves the reads, decisions and optimistic writes of any number of
    processes on one Lease; mutual exclusion is an invariant of \<open>lock_reach\<close>.
  \<^item> \<open>Instance\<close> (\<open>pkg/domain/instance\<close>): discovery of machines, the probe loop, \<open>Add\<close>.
  \<^item> \<open>InstancePool\<close> (\<open>pkg/domain/instancepool\<close>): claiming and releasing Instances, status,
    teardown.
  \<^item> \<open>Registry\<close> (\<open>pkg/domain/registry\<close>): registration, heartbeat, the sweep of stale
    registrations.  \<open>hb_step\<close> interleaves the heartbeat with shutdown.
  \<^item> \<open>ProxyIdentity\<close> and \<open>EtcdProxy\<close> (\<open>pkg/domain/etcdproxy\<close>): identities, tokens, the
    caching verifier, the proxy methods, the stream pumps (\<open>pump_step\<close>), the connection
    pool, the relay.  The locale \<open>authenticator\<close> is what the proxy needs of its verifier
    (interpretation \<open>verifier\<close>), \<open>round_robin\<close> what its methods need of the pool
    (interpretation \<open>pool\<close>).
  \<^item> \<open>Kms\<close> (\<open>pkg/domain/kms\<close>): sealing and unsealing disk passphrases; the locale \<open>key_store\<close>
    (interpretation \<open>kms\<close>) carries the round trip over \<open>kms_steps\<close>.
  \<^item> \<open>Config\<close> (\<open>pkg/config\<close>): loading a configuration from the environment, listing it,
    validating it.  The reflection walk is the list of fields it visits.
  \<^item> \<open>ZoneWorkload\<close>, \<open>ZoneNetwork\<close>, \<open>ZoneIdentity\<close>, \<open>ZoneInference\<close>, \<open>Zone\<close>
    (\<open>workload.go\<close>, \<open>network.go\<close>, \<open>auth.go\<close>, \<open>inference.go\<close> with \<open>imageresolve.go\<close> and
    \<open>downstreamclient.go\<close>, \<open>controller.go\<close> with \<open>teardown.go\<close>, all of \<open>pkg/domain/zone\<close>):
    the zone controller, from the objects it writes on a zone's cluster to the reconcile
    loop and the teardown.
  \<^item> \<open>ZoneTeardown\<close>: the theorems on teardown.  The locale \<open>ordered_steps\<close> is a sequence of
    deletions that stops at the first error; \<open>teardown\<close> interprets it on the ten deletions
    of a zone.

  \<^item> \<open>TalosMachine\<close>, \<open>TalosReset\<close>, \<open>TalosTeardown\<close>, \<open>Cluster\<close> (\<open>pkg/domain/taloscluster\<close>): the
    CPU list parser, machine configurations, members and conditions, the secrets bundle; the
    graceful and forced reset of a machine; the teardown of a cluster; the reconciler of a
    TalosCluster.  \<open>ClusterProps\<close> proves what a pass of it leaves alone.  Where the Go code
    panics, the result is \<open>None\<close>; the CPU loop, which may run forever on a 32 bit counter, is
    a \<open>partial_function\<close> of the option type.
  \<^item> \<open>AddonValues\<close>, \<open>Addons\<close>, \<open>AddonProbe\<close> (\<open>pkg/domain/addon\<close>): how the values of an addon
    are merged and resolved, the reconciler with its priority waves, installation through
    Helm or the manifests, and the health of what was installed.
  \<^item> \<open>ZoneAdd\<close> (\<open>pkg/domain/zone/add.go\<close>, \<open>pkg/cli/zone\<close>): the objects of a new zone, the
    adoption of an existing Instance, the wait of the command line.
  \<^item> \<open>AdminRbac\<close> (\<open>pkg/domain/adminrbac/controller.go\<close>): the bindings of the admin groups,
    their names by SHA-256.
  \<^item> \<open>Crd\<close> (\<open>pkg/crd\<close>, \<open>crd.go\<close> of \<open>registry\<close> and \<open>instance\<close>): building and installing the
    resource definitions, waiting until they are served, moving objects between scopes.
  \<^item> \<open>Auth\<close> (\<open>pkg/auth\<close>): sealed cookies, the authorization code flow, the middleware that
    protects the pages, the mapping of errors to messages.
  \<^item> \<open>UiBase\<close>, \<open>UiPages\<close>, \<open>UiClusters\<close>, \<open>UiIam\<close>, \<open>UiRoutes\<close> (\<open>pkg/ui\<close>): the requests, the rows
    and the router of the web interface with the fallback for missing pages; its pages on the
    registry and the zones; on Instances and clusters; on roles and bindings with their forms;
    the table of routes.  A template is a parameter that gets the data of its page.
  \<^item> \<open>UiProps\<close>, \<open>UiSecrets\<close>, \<open>UiWalk\<close>, \<open>UiForms\<close>: every handler answers once and a GET only
    reads; the page of a cluster hides the kubeconfig; where a stale link leads; the rows of
    the rule builder.
  \<^item> \<open>Logging\<close> (\<open>pkg/logging\<close>), \<open>IdentityWatch\<close> (the rest of \<open>identitywatch.go\<close>): levels, formats
    and the bridge of the gRPC library; the reconnect loop that follows a rotated identity.
    \<open>RelayRecovery\<close>: the key sources and the interceptors of \<open>relay.go\<close>; a relay that is rejected
    five times in a row reads its identity again.
  \<^item> \<open>Serve\<close> (\<open>pkg/cli/serve.go\<close>): the configuration of a process, its storage, the options
    of its server, its HTTP handlers and its shutdown.  \<open>ServeProps\<close>: what holds of all
    handlers together, with \<open>Auth\<close> and \<open>UiRoutes\<close> composed the way the process mounts them.
    \<open>ServeStorage\<close>: what a process opened for its storage is closed on every path.
  \<^item> \<open>ConfigImport\<close> (\<open>pkg/cli/config/config_import.go\<close>): the merge of a kubeconfig into the
    existing one, with the questions it asks; the merge is a closed form that does not depend on
    the order of the maps.
  \<^item> \<open>VendorAssets\<close> (\<open>cmd/vendor-web-assets/main.go\<close>): the tool that downloads the pinned
    browser assets; only content with the pinned checksum is stored.

  \<^bold>\<open>How the parts interact.\<close>  Every reconciler takes the lease of the zone (or the global
  one) before it writes, so the theorems on \<open>TryAcquire\<close> bound who writes.  \<open>EtcdProxy\<close>
  authenticates against the identities that \<open>ZoneIdentity\<close> publishes in the Secrets that
  \<open>ProxyIdentity\<close> builds and parses.  \<open>ZoneWorkload\<close> writes the environment that \<open>Config\<close>
  loads on the other side.  \<open>InstancePool\<close> claims what \<open>Instance\<close> discovers, by the label
  both read.  \<open>Serve\<close> puts the parts together: it hands every controller its configuration and
  lease identity, wraps the pages in the sessions of \<open>Auth\<close>, and gives them clients that carry
  the token of the caller.

  \<^bold>\<open>What the lemmas show.\<close>  Safety: mutual exclusion of the lease, pools never touch a
  foreign Instance, a token is accepted only with evidence, a deregistered process stays
  away, a zone's cluster is deleted only after its contents.  Invariants: the two copies of
  a zone's identity agree, statuses settle.  Round trips: configuration, tokens, Secrets,
  sealed data, API versions.  Liveness and termination: a free lease is granted, a beat
  registers, a teardown ends after its timeout.  Error behaviour: what a failing call leaves
  behind, leaks included.  The web interface: one answer per request, no page without a
  session, reads change nothing, secrets stay off the pages.

  \<^bold>\<open>Loops and bounds.\<close>  Loops over lists are structural recursion.  The endless loops (stream
  pumps, heartbeat, lease holders) are inductive step relations without a bound, and tickers
  and polls recurse over the list of their events, so the theorems hold for runs of every
  length.  No definition uses fuel; the one loop that may not end is a \<open>partial_function\<close>.

  \<^bold>\<open>Not modelled.\<close>  Registration of controllers on a manager, watches and caches
  (controller-runtime); serving and listening sockets; generated deep copies; the text of
  the web pages, whose templates are parameters that get the data of a page; the
  redirects of the HTTP multiplexer to cleaned paths; the definitions of commands and flags.
\<close>

end
